(* ===== verification/Prelude.thy ===== *)
theory Prelude
  imports Main
begin

text \<open>
  Vocabulary shared by every component theory: byte strings, instants, the sum
  used for fallible Go functions, tables as lists of rows in rowid order, and the
  generic notion of a machine with an invariant.
\<close>

section \<open>Names of types and constants\<close>

type_synonym bytes = string      \<comment> \<open>Go's \<open>[]byte\<close>, \<open>string\<close> and \<open>json.RawMessage\<close>\<close>
type_synonym instant = int       \<comment> \<open>Go's \<open>time.Time\<close> in UTC, in nanoseconds\<close>
type_synonym duration = int      \<comment> \<open>Go's \<open>time.Duration\<close>, in nanoseconds\<close>

abbreviation (input) millisecond :: duration where "millisecond \<equiv> 1000000"
abbreviation (input) second :: duration where "second \<equiv> 1000000000"
abbreviation (input) minute :: duration where "minute \<equiv> 60000000000"
abbreviation (input) hour :: duration where "hour \<equiv> 3600000000000"

named_theorems table_simps \<open>equations of the table operations\<close>
named_theorems go_simps \<open>equations of the modelled Go library functions\<close>

section \<open>Fallible functions\<close>

text \<open>\<open>Inl\<close> is the returned Go error, \<open>Inr\<close> the value.\<close>

fun bindE :: "'e + 'a \<Rightarrow> ('a \<Rightarrow> 'e + 'b) \<Rightarrow> 'e + 'b" where
  "bindE (Inl e) f = Inl e"
| "bindE (Inr x) f = f x"

lemma bindE_Inr_iff: "bindE m f = Inr y \<longleftrightarrow> (\<exists>x. m = Inr x \<and> f x = Inr y)"
  by (cases m) auto

lemma bindE_InrE:
  assumes "bindE m f = Inr y"
  obtains x where "m = Inr x" and "f x = Inr y"
  using assms by (auto simp: bindE_Inr_iff)

definition guardE :: "bool \<Rightarrow> 'e \<Rightarrow> 'e + unit" where
  "guardE b e = (if b then Inr () else Inl e)"

lemma guardE_Inr [simp]: "guardE b e = Inr u \<longleftrightarrow> b"
  by (simp add: guardE_def)

section \<open>Tables\<close>

text \<open>
  A SQL table is the list of its rows in rowid order.  \<open>UPDATE ... WHERE\<close> maps
  over it, \<open>DELETE ... WHERE\<close> filters it, \<open>INSERT\<close> appends, \<open>SELECT count(*)\<close>
  counts, and a query for one row by primary key finds it.
\<close>

definition upd_where :: "('r \<Rightarrow> bool) \<Rightarrow> ('r \<Rightarrow> 'r) \<Rightarrow> 'r list \<Rightarrow> 'r list" where
  "upd_where p f t = map (\<lambda>r. if p r then f r else r) t"

definition del_where :: "('r \<Rightarrow> bool) \<Rightarrow> 'r list \<Rightarrow> 'r list" where
  "del_where p t = filter (\<lambda>r. \<not> p r) t"

definition cnt_where :: "('r \<Rightarrow> bool) \<Rightarrow> 'r list \<Rightarrow> nat" where
  "cnt_where p t = length (filter p t)"

lemma set_upd_where: "set (upd_where p f t) = (\<lambda>r. if p r then f r else r) ` set t"
  by (simp add: upd_where_def)

lemma length_upd_where [table_simps]: "length (upd_where p f t) = length t"
  by (simp add: upd_where_def)

lemma upd_where_Nil [table_simps]: "upd_where p f [] = []"
  by (simp add: upd_where_def)

lemma upd_where_Cons [table_simps]:
  "upd_where p f (r # t) = (if p r then f r else r) # upd_where p f t"
  by (simp add: upd_where_def)

lemma upd_where_none: "(\<And>r. r \<in> set t \<Longrightarrow> \<not> p r) \<Longrightarrow> upd_where p f t = t"
  by (induction t) (auto simp: table_simps)

lemma map_upd_where_key:
  "(\<And>r. k (f r) = k r) \<Longrightarrow> map k (upd_where p f t) = map k t"
  by (induction t) (auto simp: table_simps)

lemma cnt_where_Nil [table_simps]: "cnt_where p [] = 0"
  by (simp add: cnt_where_def)

lemma cnt_where_Cons [table_simps]:
  "cnt_where p (r # t) = (if p r then Suc (cnt_where p t) else cnt_where p t)"
  by (simp add: cnt_where_def)

lemma cnt_where_append [table_simps]: "cnt_where p (t @ u) = cnt_where p t + cnt_where p u"
  by (simp add: cnt_where_def)

lemma cnt_where_0_iff: "cnt_where p t = 0 \<longleftrightarrow> (\<forall>r \<in> set t. \<not> p r)"
  by (simp add: cnt_where_def filter_empty_conv)

lemma cnt_upd_where_le:
  "(\<And>r. r \<in> set t \<Longrightarrow> p r \<Longrightarrow> q (f r) \<Longrightarrow> q r) \<Longrightarrow> cnt_where q (upd_where p f t) \<le> cnt_where q t"
proof (induction t)
  case (Cons a t)
  then have "cnt_where q (upd_where p f t) \<le> cnt_where q t" by simp
  moreover have "p a \<Longrightarrow> q (f a) \<Longrightarrow> q a" using Cons.prems by simp
  ultimately show ?case by (auto simp: table_simps)
qed (simp add: table_simps)

lemma cnt_del_where_le: "cnt_where q (del_where p t) \<le> cnt_where q t"
  by (induction t) (auto simp: del_where_def cnt_where_def)

lemma cnt_upd_where_unique:
  assumes "distinct (map k t)" and "\<And>r. r \<in> set t \<Longrightarrow> p r \<Longrightarrow> k r = i"
  shows "cnt_where q (upd_where p f t) \<le> Suc (cnt_where q t)"
  using assms
proof (induction t)
  case (Cons a t)
  show ?case
  proof (cases "p a")
    case True
    with Cons.prems(2) [of a] have ka: "k a = i" by simp
    have "\<not> p r" if r: "r \<in> set t" for r
    proof
      assume "p r"
      with Cons.prems(2) [of r] r have "k r = k a" by (simp add: ka)
      with r have "k a \<in> k ` set t" by (metis image_eqI)
      with Cons.prems(1) show False by simp
    qed
    then have "upd_where p f t = t" by (rule upd_where_none)
    then show ?thesis by (auto simp: table_simps)
  next
    case False
    have "cnt_where q (upd_where p f t) \<le> Suc (cnt_where q t)"
      using Cons.prems by (intro Cons.IH) auto
    with False show ?thesis by (auto simp: table_simps)
  qed
qed (simp add: table_simps)

lemma find_append: "find p (t @ u) = (case find p t of None \<Rightarrow> find p u | Some r \<Rightarrow> Some r)"
  by (induction t) auto

lemma find_SomeD: "find p t = Some r \<Longrightarrow> r \<in> set t \<and> p r"
  by (induction t) (auto split: if_splits)

lemma find_NoneD: "find p t = None \<Longrightarrow> r \<in> set t \<Longrightarrow> \<not> p r"
  by (induction t) (auto split: if_splits)

lemma find_unique:
  assumes "distinct (map k t)" and "r \<in> set t" and "p r" and "\<forall>x \<in> set t. p x \<longrightarrow> k x = k r"
  shows "find p t = Some r"
  using assms
proof (induction t)
  case (Cons a t)
  show ?case
  proof (cases "p a")
    case True
    with Cons.prems(4) have "k a = k r" by simp
    then have "r \<notin> set t" using Cons.prems(1) by (metis distinct.simps(2) image_eqI list.set_map list.simps(9))
    with Cons.prems(2) True show ?thesis by simp
  next
    case False
    with Cons.prems(2,3) have r: "r \<in> set t" by auto
    have "find p t = Some r"
      using Cons.prems by (intro Cons.IH r) simp_all
    with False show ?thesis by simp
  qed
qed simp

lemma find_upd_where:
  assumes "\<forall>r \<in> set t. q (f r) = q r"
  shows "find q (upd_where p f t) = map_option (\<lambda>r. if p r then f r else r) (find q t)"
  using assms by (induction t) (simp_all add: table_simps)

text \<open>
  \<open>ORDER BY k DESC, rowid DESC\<close> and \<open>LIMIT -1 OFFSET n\<close>: all rows but the first
  \<open>n\<close> in descending order of the key, later rows first among equal keys.
\<close>

definition descending :: "('r \<Rightarrow> 'k::linorder) \<Rightarrow> 'r list \<Rightarrow> 'r list" where
  "descending k t = rev (sort_key k t)"

definition beyond :: "nat \<Rightarrow> ('r \<Rightarrow> 'k::linorder) \<Rightarrow> 'r list \<Rightarrow> 'r list" where
  "beyond n k t = drop n (descending k t)"

lemma set_beyond_subset: "set (beyond n k t) \<subseteq> set t"
  using set_drop_subset [of n "rev (sort_key k t)"] by (simp add: beyond_def descending_def)

lemma cnt_where_mono: "(\<And>r. r \<in> set t \<Longrightarrow> q r \<Longrightarrow> q' r) \<Longrightarrow> cnt_where q t \<le> cnt_where q' t"
  by (induction t) (auto simp: table_simps le_SucI)

lemma set_del_where: "set (del_where p t) = {r \<in> set t. \<not> p r}"
  by (simp add: del_where_def)

lemma distinct_del_where: "distinct (map k t) \<Longrightarrow> distinct (map k (del_where p t))"
  by (simp add: del_where_def distinct_map_filter)

lemma cnt_upd_where_same:
  "(\<And>r. r \<in> set t \<Longrightarrow> p r \<Longrightarrow> q (f r) = q r) \<Longrightarrow> cnt_where q (upd_where p f t) = cnt_where q t"
  by (induction t) (auto simp: table_simps)

lemma in_upd_where: "x \<in> set t \<Longrightarrow> p x \<Longrightarrow> f x \<in> set (upd_where p f t)"
  by (induction t) (auto simp: table_simps)

lemma find_upd: "find p t = Some r \<Longrightarrow> (\<And>x. p (f x) = p x) \<Longrightarrow> find p (upd_where p f t) = Some (f r)"
  by (induction t) (auto simp: table_simps split: if_splits)

lemma filter_upd_other:
  "(\<And>r. r \<in> set t \<Longrightarrow> p r \<Longrightarrow> \<not> q r \<and> \<not> q (f r)) \<Longrightarrow> filter q (upd_where p f t) = filter q t"
  by (induction t) (auto simp: table_simps)

section \<open>Machines and invariants\<close>

text \<open>
  A machine is an initial predicate and a step relation; a state is reachable
  when a finite sequence of steps leads to it.
\<close>

inductive reach :: "('s \<Rightarrow> bool) \<Rightarrow> ('s \<Rightarrow> 's \<Rightarrow> bool) \<Rightarrow> 's \<Rightarrow> bool" for ini stp where
  reach_init: "ini s \<Longrightarrow> reach ini stp s"
| reach_step: "reach ini stp s \<Longrightarrow> stp s t \<Longrightarrow> reach ini stp t"

locale machine =
  fixes ini :: "'s \<Rightarrow> bool" and stp :: "'s \<Rightarrow> 's \<Rightarrow> bool" and inv :: "'s \<Rightarrow> bool"
  assumes init_inv: "ini s \<Longrightarrow> inv s"
    and step_inv: "inv s \<Longrightarrow> stp s t \<Longrightarrow> inv t"
begin

lemma reach_inv: "reach ini stp s \<Longrightarrow> inv s"
  by (induction rule: reach.induct) (auto intro: init_inv step_inv)

lemma steps_inv: "stp\<^sup>*\<^sup>* s t \<Longrightarrow> inv s \<Longrightarrow> inv t"
  by (induction rule: rtranclp_induct) (auto intro: step_inv)

end

end
