(* ===== verification/GoStrings.thy ===== *)
theory GoStrings
  imports Prelude
begin

text \<open>
  The functions of Go's \<open>strings\<close>, \<open>regexp\<close> and \<open>strconv\<close> packages that the
  sources call, on byte strings.  A regular expression that only lists character
  classes is the corresponding predicate.
\<close>

section \<open>Character classes\<close>

definition is_lower :: "char \<Rightarrow> bool" where
  "is_lower c \<longleftrightarrow> 97 \<le> (of_char c :: nat) \<and> (of_char c :: nat) \<le> 122"

definition is_upper :: "char \<Rightarrow> bool" where
  "is_upper c \<longleftrightarrow> 65 \<le> (of_char c :: nat) \<and> (of_char c :: nat) \<le> 90"

definition is_digit :: "char \<Rightarrow> bool" where
  "is_digit c \<longleftrightarrow> 48 \<le> (of_char c :: nat) \<and> (of_char c :: nat) \<le> 57"

definition is_alnum :: "char \<Rightarrow> bool" where
  "is_alnum c \<longleftrightarrow> is_lower c \<or> is_upper c \<or> is_digit c"

text \<open>
  \<open>unicode.IsSpace\<close> on UTF-8 text: the number of bytes of the space character the
  string starts with, 0 when it starts with none.  The multi-byte ones are U+0085,
  U+00A0, U+1680, U+2000 to U+200A, U+2028, U+2029, U+202F, U+205F and U+3000.
\<close>

definition is_space :: "char \<Rightarrow> bool" where
  "is_space c \<longleftrightarrow> (of_char c :: nat) \<in> {9, 10, 11, 12, 13, 32}"

definition space_len :: "string \<Rightarrow> nat" where
  "space_len s =
     (case s of
        [] \<Rightarrow> 0
      | c # cs \<Rightarrow>
         if is_space c then 1
         else (case cs of
            [] \<Rightarrow> 0
          | d # ds \<Rightarrow>
             if c = CHR 0xC2 \<and> (d = CHR 0x85 \<or> d = CHR 0xA0) then 2
             else (case ds of
                [] \<Rightarrow> 0
              | e # _ \<Rightarrow>
                 if (c = CHR 0xE1 \<and> d = CHR 0x9A \<and> e = CHR 0x80)
                  \<or> (c = CHR 0xE2 \<and> d = CHR 0x80 \<and> 128 \<le> (of_char e :: nat) \<and> (of_char e :: nat) \<le> 138)
                  \<or> (c = CHR 0xE2 \<and> d = CHR 0x80 \<and> e \<in> {CHR 0xA8, CHR 0xA9, CHR 0xAF})
                  \<or> (c = CHR 0xE2 \<and> d = CHR 0x81 \<and> e = CHR 0x9F)
                  \<or> (c = CHR 0xE3 \<and> d = CHR 0x80 \<and> e = CHR 0x80)
                 then 3 else 0)))"

lemma space_len_le: "space_len s \<le> length s"
  by (auto simp: space_len_def split: list.split)

text \<open>A printable ASCII character starts no space.\<close>

definition is_graph :: "char \<Rightarrow> bool" where
  "is_graph c \<longleftrightarrow> 33 \<le> (of_char c :: nat) \<and> (of_char c :: nat) \<le> 126"

lemma space_len_graph:
  assumes "is_graph c"
  shows "space_len (c # cs) = 0"
proof -
  have "\<not> is_graph (CHR 0xC2)" "\<not> is_graph (CHR 0xE1)" "\<not> is_graph (CHR 0xE2)" "\<not> is_graph (CHR 0xE3)"
    by code_simp+
  with assms have "c \<noteq> CHR 0xC2" "c \<noteq> CHR 0xE1" "c \<noteq> CHR 0xE2" "c \<noteq> CHR 0xE3" by metis+
  moreover have "\<not> is_space c" using assms by (auto simp: is_graph_def is_space_def)
  ultimately show ?thesis by (simp add: space_len_def split: list.split)
qed

lemma space_len_blank: "space_len (CHR '' '' # cs) = 1"
  by (simp add: space_len_def is_space_def)

text \<open>
  The regular expressions \<open>^[first][rest]{0,n}$\<close>: a first character of one class
  and at most \<open>n\<close> characters of another.
\<close>

definition class_pattern :: "(char \<Rightarrow> bool) \<Rightarrow> (char \<Rightarrow> bool) \<Rightarrow> nat \<Rightarrow> string \<Rightarrow> bool" where
  "class_pattern p q n s =
     (case s of [] \<Rightarrow> False | c # cs \<Rightarrow> p c \<and> list_all q cs \<and> length cs \<le> n)"

lemma class_pattern_nonempty: "class_pattern p q n s \<Longrightarrow> s \<noteq> []"
  by (auto simp: class_pattern_def)

lemma class_pattern_chars:
  "class_pattern p q n s \<Longrightarrow> c \<in> set s \<Longrightarrow> p c \<or> q c"
  by (auto simp: class_pattern_def list_all_iff split: list.splits)

lemma class_pattern_length: "class_pattern p q n s \<Longrightarrow> length s \<le> Suc n"
  by (auto simp: class_pattern_def split: list.splits)

section \<open>strings\<close>

fun has_prefix :: "string \<Rightarrow> string \<Rightarrow> bool" where
  "has_prefix s [] = True"
| "has_prefix [] (p # ps) = False"
| "has_prefix (c # cs) (p # ps) = (c = p \<and> has_prefix cs ps)"

definition has_suffix :: "string \<Rightarrow> string \<Rightarrow> bool" where
  "has_suffix s t = has_prefix (rev s) (rev t)"

fun contains :: "string \<Rightarrow> string \<Rightarrow> bool" where
  "contains [] t = (t = [])"
| "contains (c # cs) t = (has_prefix (c # cs) t \<or> contains cs t)"

definition trim_suffix :: "string \<Rightarrow> string \<Rightarrow> string" where
  "trim_suffix s t = (if has_suffix s t then take (length s - length t) s else s)"

text \<open>\<open>strings.Cut(s, sep)\<close> for a one-character separator.\<close>

fun cut :: "char \<Rightarrow> string \<Rightarrow> (string \<times> string) option" where
  "cut sep [] = None"
| "cut sep (c # cs) =
     (if c = sep then Some ([], cs) else map_option (\<lambda>(a, b). (c # a, b)) (cut sep cs))"

text \<open>\<open>strings.Fields\<close>: the maximal runs of non-space characters.\<close>

function go_fields_aux :: "string \<Rightarrow> string \<Rightarrow> string list" where
  "go_fields_aux acc [] = (if acc = [] then [] else [rev acc])"
| "go_fields_aux acc (c # cs) =
     (let n = space_len (c # cs)
      in if n = 0 then go_fields_aux (c # acc) cs
         else if acc = [] then go_fields_aux [] (drop n (c # cs))
         else rev acc # go_fields_aux [] (drop n (c # cs)))"
  by pat_completeness auto
termination by (relation "measure (\<lambda>(acc, s). length s)") auto

declare go_fields_aux.simps [simp del]

definition go_fields :: "string \<Rightarrow> string list" where
  "go_fields s = go_fields_aux [] s"

text \<open>Words joined by single blanks, the inverse of \<open>Fields\<close> on words.\<close>

fun unwords :: "string list \<Rightarrow> string" where
  "unwords [] = []"
| "unwords [w] = w"
| "unwords (w # ws) = w @ CHR '' '' # unwords ws"

text \<open>The verb \<open>%q\<close> of \<open>fmt\<close>, for strings without characters to escape.\<close>

definition quote :: "string \<Rightarrow> string" where
  "quote s = CHR 0x22 # s @ [CHR 0x22]"

lemma has_prefix_iff: "has_prefix s p \<longleftrightarrow> (\<exists>r. s = p @ r)"
  by (induction s p rule: has_prefix.induct) auto

lemma has_suffix_iff: "has_suffix s t \<longleftrightarrow> (\<exists>r. s = r @ t)"
proof -
  have "has_suffix s t \<longleftrightarrow> (\<exists>r. rev s = rev t @ r)"
    by (simp add: has_suffix_def has_prefix_iff)
  also have "\<dots> \<longleftrightarrow> (\<exists>r. s = r @ t)"
    by (metis rev_append rev_rev_ident)
  finally show ?thesis .
qed

lemma cut_SomeD: "cut sep s = Some (a, b) \<Longrightarrow> s = a @ sep # b \<and> sep \<notin> set a"
  by (induction s arbitrary: a b) (auto split: if_splits)

lemma cut_append: "sep \<notin> set a \<Longrightarrow> cut sep (a @ sep # b) = Some (a, b)"
  by (induction a) auto

lemma cut_None_iff: "cut sep s = None \<longleftrightarrow> sep \<notin> set s"
  by (induction s) auto

text \<open>No field is empty.\<close>

lemma fields_aux_nonempty: "f \<in> set (go_fields_aux acc s) \<Longrightarrow> f \<noteq> []"
  by (induction acc s rule: go_fields_aux.induct)
    (auto simp: go_fields_aux.simps Let_def split: if_splits)

lemma fields_nonempty: "f \<in> set (go_fields s) \<Longrightarrow> f \<noteq> []"
  unfolding go_fields_def by (rule fields_aux_nonempty)

text \<open>Words of printable characters separated by blanks are read back.\<close>

definition is_word :: "string \<Rightarrow> bool" where
  "is_word w \<longleftrightarrow> w \<noteq> [] \<and> list_all is_graph w"

lemma fields_aux_word: "list_all is_graph w \<Longrightarrow> go_fields_aux acc (w @ s) = go_fields_aux (rev w @ acc) s"
  by (induction w arbitrary: acc) (simp_all add: go_fields_aux.simps space_len_graph)

lemma fields_aux_blank:
  "acc \<noteq> [] \<Longrightarrow> go_fields_aux acc (CHR '' '' # s) = rev acc # go_fields_aux [] s"
  by (simp add: go_fields_aux.simps space_len_blank)

lemma fields_aux_unwords:
  "list_all is_word ws \<Longrightarrow> ws \<noteq> [] \<Longrightarrow> go_fields_aux [] (unwords ws) = ws"
proof (induction ws rule: unwords.induct)
  case (2 w)
  then have "list_all is_graph w" "w \<noteq> []" by (simp_all add: is_word_def)
  with fields_aux_word [of w "[]" "[]"] show ?case by (simp add: go_fields_aux.simps)
next
  case (3 w v ws)
  then have w: "list_all is_graph w" "w \<noteq> []" by (simp_all add: is_word_def)
  have "go_fields_aux [] (unwords (w # v # ws)) = go_fields_aux (rev w) (CHR '' '' # unwords (v # ws))"
    using fields_aux_word [OF w(1), of "[]"] by simp
  also have "\<dots> = w # go_fields_aux [] (unwords (v # ws))"
    using w(2) by (simp add: fields_aux_blank)
  finally show ?case using 3 by simp
qed simp

lemma fields_unwords: "list_all is_word ws \<Longrightarrow> ws \<noteq> [] \<Longrightarrow> go_fields (unwords ws) = ws"
  unfolding go_fields_def by (rule fields_aux_unwords)

lemma set_unwords: "set (unwords ws) \<subseteq> insert (CHR '' '') (\<Union>(set ` set ws))"
  by (induction ws rule: unwords.induct) auto

lemma unwords_nonempty: "list_all is_word ws \<Longrightarrow> ws \<noteq> [] \<Longrightarrow> unwords ws \<noteq> []"
  by (induction ws rule: unwords.induct) (auto simp: is_word_def)

lemma last_unwords: "list_all is_word ws \<Longrightarrow> ws \<noteq> [] \<Longrightarrow> last (unwords ws) = last (last ws)"
proof (induction ws rule: unwords.induct)
  case (3 w v ws)
  then have "unwords (v # ws) \<noteq> []" by (intro unwords_nonempty) simp_all
  with 3 show ?case by simp
qed (simp_all add: is_word_def)

section \<open>\<open>Split\<close> and \<open>TrimSpace\<close>\<close>

text \<open>\<open>strings.Split\<close> at a one-character separator.\<close>

fun split_on :: "char \<Rightarrow> string \<Rightarrow> string list" where
  "split_on sep [] = [[]]"
| "split_on sep (c # cs) =
     (if c = sep then [] # split_on sep cs
      else (case split_on sep cs of [] \<Rightarrow> [[c]] | f # fs \<Rightarrow> (c # f) # fs))"

lemma split_on_nonempty [simp]: "split_on sep s \<noteq> []"
  by (induction s) (auto split: list.split)

lemma split_on_none: "sep \<notin> set s \<Longrightarrow> split_on sep s = [s]"
  by (induction s) auto

lemma split_on_append: "sep \<notin> set a \<Longrightarrow> split_on sep (a @ sep # b) = a # split_on sep b"
  by (induction a) auto

text \<open>\<open>strings.TrimSpace\<close>: spaces, ASCII or encoded in UTF-8, are cut at both ends.\<close>

function trim_left :: "string \<Rightarrow> string" where
  "trim_left s = (if s = [] \<or> space_len s = 0 then s else trim_left (drop (space_len s) s))"
  by pat_completeness auto
termination by (relation "measure length") auto

definition tail_space :: "string \<Rightarrow> nat" where
  "tail_space s = (case find (\<lambda>n. n \<le> length s \<and> space_len (drop (length s - n) s) = n) [1, 2, 3] of
     None \<Rightarrow> 0 | Some n \<Rightarrow> n)"

function trim_right :: "string \<Rightarrow> string" where
  "trim_right s = (if s = [] \<or> tail_space s = 0 then s else trim_right (take (length s - tail_space s) s))"
  by pat_completeness auto
termination by (relation "measure length") auto

declare trim_left.simps [simp del] trim_right.simps [simp del]

definition trim_space :: "string \<Rightarrow> string" where
  "trim_space s = trim_right (trim_left s)"

section \<open>Paths\<close>

text \<open>
  \<open>filepath.Clean\<close> on Unix: empty and \<open>.\<close> elements vanish, \<open>..\<close> removes the
  element before it, at the root of an absolute path it vanishes, and at the start
  of a relative one it stays.
\<close>

fun clean_elems :: "bool \<Rightarrow> string list \<Rightarrow> string list \<Rightarrow> string list" where
  "clean_elems rooted out [] = rev out"
| "clean_elems rooted out (e # es) =
     (if e = [] \<or> e = ''.'' then clean_elems rooted out es
      else if e = ''..'' then
        (case out of
           [] \<Rightarrow> if rooted then clean_elems rooted [] es else clean_elems rooted [e] es
         | o1 # out' \<Rightarrow> if o1 = ''..'' then clean_elems rooted (e # out) es
                       else clean_elems rooted out' es)
      else clean_elems rooted (e # out) es)"

definition join_with :: "char \<Rightarrow> string list \<Rightarrow> string" where
  "join_with sep es = (case es of [] \<Rightarrow> [] | e # es' \<Rightarrow> e @ concat (map (\<lambda>x. sep # x) es'))"

definition is_abs :: "string \<Rightarrow> bool" where
  "is_abs p = has_prefix p ''/''"

definition path_clean :: "string \<Rightarrow> string" where
  "path_clean p =
     (let body = join_with (CHR ''/'') (clean_elems (is_abs p) [] (split_on (CHR ''/'') p))
      in if is_abs p then CHR ''/'' # body else if body = [] then ''.'' else body)"

text \<open>SQLite's \<open>LIKE 'prefix%'\<close> ignores the case of ASCII letters.\<close>

definition ascii_lower :: "char \<Rightarrow> char" where
  "ascii_lower c = (if is_upper c then char_of (of_char c + 32 :: nat) else c)"

definition like_prefix :: "string \<Rightarrow> string \<Rightarrow> bool" where
  "like_prefix s p = has_prefix (map ascii_lower s) (map ascii_lower p)"

section \<open>Integers as text\<close>

text \<open>\<open>strconv.Itoa\<close>.\<close>

fun nat_digits :: "nat \<Rightarrow> string" where
  "nat_digits n = (if n < 10 then [char_of (48 + n)] else nat_digits (n div 10) @ [char_of (48 + n mod 10)])"

declare nat_digits.simps [simp del]

definition itoa :: "int \<Rightarrow> string" where
  "itoa i = (if i < 0 then CHR ''-'' # nat_digits (nat (- i)) else nat_digits (nat i))"

text \<open>
  Numbers and runes of Go's library: \<open>strconv.ParseUint\<close>, \<open>strconv.Atoi\<close>,
  \<open>strings.LastIndex\<close> and the walk over UTF-8 text that \<open>strings.Map\<close> does.
\<close>

section \<open>Decimal numbers\<close>

definition digit_value :: "char \<Rightarrow> nat" where
  "digit_value c = of_char c - 48"

definition digits_value :: "string \<Rightarrow> nat" where
  "digits_value s = foldl (\<lambda>n c. 10 * n + digit_value c) 0 s"

text \<open>\<open>strconv.ParseUint(s, 10, w)\<close>, the value where it succeeds.\<close>

definition parse_uint :: "nat \<Rightarrow> string \<Rightarrow> nat option" where
  "parse_uint w s = (if s \<noteq> [] \<and> list_all is_digit s \<and> digits_value s < 2 ^ w then Some (digits_value s) else None)"

text \<open>
  \<open>strconv.Atoi\<close> on a 64-bit machine.  A syntax error returns 0, a range error the nearest
  integer: the value and whether there was no error.
\<close>

definition atoi :: "string \<Rightarrow> int \<times> bool" where
  "atoi s =
     (let neg = (s \<noteq> [] \<and> hd s = CHR ''-''); body = (if s \<noteq> [] \<and> hd s \<in> {CHR ''-'', CHR ''+''} then tl s else s)
      in if body = [] \<or> \<not> list_all is_digit body then (0, False)
         else let n = int (digits_value body); z = (if neg then - n else n)
              in if z \<ge> 2 ^ 63 then (2 ^ 63 - 1, False) else if z < - (2 ^ 63) then (- (2 ^ 63), False) else (z, True))"

lemma digits_value_append: "digits_value (a @ [c]) = 10 * digits_value a + digit_value c"
  by (simp add: digits_value_def)

lemma digit_char: "n < 10 \<Longrightarrow> is_digit (char_of (48 + n)) \<and> digit_value (char_of (48 + n :: nat)) = n"
  by (simp add: is_digit_def digit_value_def)

lemma nat_digits_ok: "nat_digits n \<noteq> [] \<and> list_all is_digit (nat_digits n) \<and> digits_value (nat_digits n) = n"
proof (induction n rule: nat_digits.induct)
  case (1 n)
  show ?case
  proof (cases "n < 10")
    case True
    then show ?thesis using digit_char [of n] by (simp add: nat_digits.simps digits_value_def)
  next
    case False
    with 1 digit_char [of "n mod 10"] show ?thesis
      by (subst (1 2 3) nat_digits.simps) (simp add: digits_value_append)
  qed
qed

lemma nat_digits_nonempty [simp]: "nat_digits n \<noteq> []"
  and nat_digits_digits: "list_all is_digit (nat_digits n)"
  and digits_value_nat_digits [simp]: "digits_value (nat_digits n) = n"
  using nat_digits_ok by auto

lemma parse_uint_nat_digits: "n < 2 ^ w \<Longrightarrow> parse_uint w (nat_digits n) = Some n"
  using nat_digits_ok by (simp add: parse_uint_def)

lemma atoi_nat_digits:
  assumes "n < 2 ^ 63"
  shows "atoi (nat_digits n) = (int n, True)"
proof -
  have "int n < 2 ^ 63" using assms by (metis of_nat_less_iff of_nat_numeral of_nat_power)
  moreover have "is_digit (hd (nat_digits n))"
    using nat_digits_ok [of n] by (cases "nat_digits n") auto
  then have "hd (nat_digits n) \<noteq> CHR ''-''" "hd (nat_digits n) \<noteq> CHR ''+''" by (auto simp: is_digit_def)
  ultimately show ?thesis using nat_digits_ok [of n] by (simp add: atoi_def Let_def)
qed

lemma is_digit_graph: "is_digit c \<Longrightarrow> is_graph c"
  by (simp add: is_digit_def is_graph_def)

lemma nat_digits_word: "is_word (nat_digits n)"
  using nat_digits_ok [of n] is_digit_graph by (auto simp: is_word_def list_all_iff)

section \<open>Searching\<close>

text \<open>What follows the last occurrence of \<open>t\<close>, if it occurs (\<open>strings.LastIndex\<close>).\<close>

fun after_last :: "string \<Rightarrow> string \<Rightarrow> string option" where
  "after_last t [] = (if t = [] then Some [] else None)"
| "after_last t (c # cs) =
     (case after_last t cs of
        Some r \<Rightarrow> Some r
      | None \<Rightarrow> if has_prefix (c # cs) t then Some (drop (length t) (c # cs)) else None)"

lemma after_last_append:
  assumes "after_last t s = Some r"
  shows "after_last t (p @ s) = Some r"
  using assms by (induction p) auto

section \<open>Runes\<close>

definition byte_in :: "nat \<Rightarrow> nat \<Rightarrow> char \<Rightarrow> bool" where
  "byte_in a b c \<longleftrightarrow> a \<le> (of_char c :: nat) \<and> (of_char c :: nat) \<le> b"

text \<open>
  The length of the UTF-8 sequence a string starts with, 0 where it starts with none: no
  overlong form, no surrogate, nothing above U+10FFFF.
\<close>

definition rune_len :: "string \<Rightarrow> nat" where
  "rune_len s = (case s of
      [] \<Rightarrow> 0
    | c # cs \<Rightarrow>
       if byte_in 0 127 c then 1
       else if byte_in 0xC2 0xDF c \<and> cs \<noteq> [] \<and> byte_in 0x80 0xBF (hd cs) then 2
       else if byte_in 0xE0 0xEF c \<and> 2 \<le> length cs \<and>
            byte_in (if c = CHR 0xE0 then 0xA0 else 0x80) (if c = CHR 0xED then 0x9F else 0xBF) (cs ! 0) \<and>
            byte_in 0x80 0xBF (cs ! 1) then 3
       else if byte_in 0xF0 0xF4 c \<and> 3 \<le> length cs \<and>
            byte_in (if c = CHR 0xF0 then 0x90 else 0x80) (if c = CHR 0xF4 then 0x8F else 0xBF) (cs ! 0) \<and>
            byte_in 0x80 0xBF (cs ! 1) \<and> byte_in 0x80 0xBF (cs ! 2) then 4
       else 0)"

lemma rune_len_le: "rune_len s \<le> length s"
proof (cases s)
  case (Cons c cs)
  have step: "(P \<Longrightarrow> a \<le> n) \<Longrightarrow> (\<not> P \<Longrightarrow> b \<le> n) \<Longrightarrow> (if P then a else b) \<le> n" for P and a b n :: nat
    by simp
  show ?thesis
    unfolding rune_len_def Cons list.case by (intro step) (auto simp: Suc_le_eq)
qed (simp add: rune_len_def)

text \<open>\<open>utf8.ValidString\<close>.\<close>

function valid_utf8 :: "string \<Rightarrow> bool" where
  "valid_utf8 s = (if s = [] then True else if rune_len s = 0 then False else valid_utf8 (drop (rune_len s) s))"
  by pat_completeness auto
termination by (relation "measure length") auto

text \<open>
  \<open>strings.Map\<close> with a function that drops some ASCII characters and keeps every other rune:
  a byte outside UTF-8 becomes the replacement character.
\<close>

function drop_runes :: "(char \<Rightarrow> bool) \<Rightarrow> string \<Rightarrow> string" where
  "drop_runes p s =
     (if s = [] then []
      else if rune_len s = 0 then [CHR 0xEF, CHR 0xBF, CHR 0xBD] @ drop_runes p (tl s)
      else if rune_len s = 1 \<and> p (hd s) then drop_runes p (tl s)
      else take (rune_len s) s @ drop_runes p (drop (rune_len s) s))"
  by pat_completeness auto
termination by (relation "measure (\<lambda>(p, s). length s)") (auto simp: neq_Nil_conv)

declare valid_utf8.simps [simp del] drop_runes.simps [simp del]

end
