(* ===== verification/ActionTypes.thy ===== *)
theory ActionTypes
  imports GoStrings "HOL-Library.List_Lexorder" "HOL-Library.Char_ord"
begin

text \<open>
  The data of \<open>internal/action/types.go\<close>: requests, invocations, results, audit
  steps and receipts of the privileged action engine, and the library functions
  the engine is parameterised with (SHA-256, HMAC and the reflection-generated
  JSON coders).
\<close>

section \<open>Action types and operations\<close>

text \<open>\<open>Type\<close> is a Go string; the registered ones are named.\<close>

type_synonym action_type = string

definition TypePackageSecurityUpgrade :: action_type where
  "TypePackageSecurityUpgrade = ''package_security_upgrade''"
definition TypeSSHPasswordHardening :: action_type where
  "TypeSSHPasswordHardening = ''ssh_password_hardening''"
definition TypeTemporaryIPBan :: action_type where
  "TypeTemporaryIPBan = ''temporary_ip_ban''"
definition TypeFilePermissionRepair :: action_type where
  "TypeFilePermissionRepair = ''file_permission_repair''"
definition TypeTemporaryProcessSuspend :: action_type where
  "TypeTemporaryProcessSuspend = ''temporary_process_suspend''"

lemmas action_type_defs = TypePackageSecurityUpgrade_def TypeSSHPasswordHardening_def
  TypeTemporaryIPBan_def TypeFilePermissionRepair_def TypeTemporaryProcessSuspend_def

definition ExecutionIndeterminateMessage :: string where
  "ExecutionIndeterminateMessage = ''privileged execution was interrupted after entering the helper; remote state is unknown and requires manual verification''"

definition ReceiptPersistenceFailureMessage :: string where
  "ReceiptPersistenceFailureMessage = ''action succeeded but durable receipt persistence failed''"

text \<open>An operation is a Go string too; \<open>OtherOp\<close> is any string but the seven constants.\<close>

datatype operation = Precheck | Preview | Apply | Verify | Rollback | Execute | Confirm
  | OtherOp string

section \<open>Requests and results\<close>

record request =
  rq_action_id :: string
  rq_actor :: string
  rq_type :: action_type
  rq_op :: operation
  rq_params :: bytes
  rq_state :: bytes

record invocation =
  inv_action_id :: string
  inv_actor :: string
  inv_params :: bytes
  inv_state :: bytes

text \<open>The values a \<open>Details\<close> map holds (Go's \<open>any\<close>, at the types the playbooks store).\<close>

datatype detail = DInt int | DStr string | DBool bool | DTime instant | DStrs "string list"

record act_result =
  res_summary :: string
  res_details :: "(string \<times> detail) list"

record apply_result =
  apr_result :: act_result
  apr_state :: bytes
  apr_confirm_by :: "instant option"

definition no_result :: act_result where
  "no_result = \<lparr>res_summary = [], res_details = []\<rparr>"

text \<open>\<open>ApplyResult{}\<close> and \<open>ApplyResult{State: state}\<close>.\<close>

definition no_apply :: apply_result where
  "no_apply = \<lparr>apr_result = no_result, apr_state = [], apr_confirm_by = None\<rparr>"

record audit_step =
  st_op :: operation
  st_started :: instant
  st_finished :: instant
  st_success :: bool
  st_result :: "act_result option"
  st_error :: string

record receipt =
  rc_id :: string
  rc_action_id :: string
  rc_actor :: string
  rc_type :: action_type
  rc_op :: operation
  rc_params_digest :: string
  rc_started :: instant
  rc_finished :: instant
  rc_success :: bool
  rc_indeterminate :: bool
  rc_steps :: "audit_step list"
  rc_state :: bytes
  rc_state_digest :: string
  rc_confirm_by :: "instant option"
  rc_error :: string
  rc_digest :: string

section \<open>Playbooks\<close>

text \<open>
  The Go interface \<open>Playbook\<close>, with \<open>Confirmer\<close> as the optional last field.  A
  phase acts on the host state \<open>'w\<close>.  The engine ignores the result of a phase
  that returns an error, so these are sums; \<open>Apply\<close> returns both its result and
  its error, because the state it returns with an error marks the mutation
  boundary.
\<close>

type_synonym 'w phase = "invocation \<Rightarrow> 'w \<Rightarrow> (string + act_result) \<times> 'w"

record 'w playbook =
  pb_type :: action_type
  pb_validate :: "bytes \<Rightarrow> 'w \<Rightarrow> string option"
  pb_precheck :: "'w phase"
  pb_preview :: "'w phase"
  pb_apply :: "invocation \<Rightarrow> 'w \<Rightarrow> apply_result \<times> string option \<times> 'w"
  pb_verify :: "'w phase"
  pb_rollback :: "'w phase"
  pb_confirm :: "'w phase option"

section \<open>Library functions the engine calls\<close>

record sealed_state =
  sl_version :: int
  sl_action_id :: string
  sl_type :: action_type
  sl_params_digest :: string
  sl_payload :: bytes
  sl_mac :: string

text \<open>
  \<open>json_ok\<close> is \<open>json.Valid\<close>; \<open>json_canonical\<close> decodes one JSON value with
  \<open>UseNumber\<close> and marshals it again (\<open>None\<close> where either fails); \<open>sha256\<close> and
  \<open>hmac_sha256\<close> return raw digests; the last three are the generated coders of
  \<open>sealedRollbackState\<close> (strict decoding) and \<open>Receipt\<close>.  Every theorem holds
  for all such functions unless it names a hypothesis about them.
\<close>

record lib =
  json_ok :: "bytes \<Rightarrow> bool"
  json_canonical :: "bytes \<Rightarrow> bytes option"
  sha256 :: "bytes \<Rightarrow> bytes"
  hmac_sha256 :: "bytes \<Rightarrow> bytes \<Rightarrow> bytes"
  enc_sealed :: "sealed_state \<Rightarrow> bytes"
  dec_sealed :: "bytes \<Rightarrow> sealed_state option"
  enc_receipt :: "receipt \<Rightarrow> bytes"

text \<open>\<open>encoding/hex\<close>: two lower-case hexadecimal digits per byte.\<close>

definition hex_digit :: "nat \<Rightarrow> char" where
  "hex_digit n = (if n < 10 then char_of (48 + n) else char_of (87 + n))"

definition hex_encode :: "bytes \<Rightarrow> string" where
  "hex_encode bs = concat (map (\<lambda>c. [hex_digit (of_char c div 16), hex_digit (of_char c mod 16)]) bs)"

definition digest_bytes :: "lib \<Rightarrow> bytes \<Rightarrow> string" where
  "digest_bytes L v = ''sha256:'' @ hex_encode (sha256 L v)"

definition digest_parameters :: "lib \<Rightarrow> bytes \<Rightarrow> string" where
  "digest_parameters L raw =
     (case json_canonical L raw of None \<Rightarrow> digest_bytes L raw | Some c \<Rightarrow> digest_bytes L c)"

text \<open>A state is usable when it is nonempty valid JSON other than \<open>null\<close>.\<close>

definition valid_state :: "lib \<Rightarrow> bytes \<Rightarrow> bool" where
  "valid_state L s \<longleftrightarrow> s \<noteq> [] \<and> json_ok L s \<and> s \<noteq> ''null''"

text \<open>\<open>actionIDPattern\<close>.\<close>

definition action_id_ok :: "string \<Rightarrow> bool" where
  "action_id_ok = class_pattern is_alnum
     (\<lambda>c. is_alnum c \<or> c \<in> {CHR ''.'', CHR ''_'', CHR '':'', CHR ''-''}) 127"

lemma digest_bytes_nonempty [simp]: "digest_bytes L v \<noteq> []"
  by (simp add: digest_bytes_def)

lemma valid_state_nonempty: "valid_state L s \<Longrightarrow> s \<noteq> []"
  by (simp add: valid_state_def)

lemma not_valid_state_Nil [simp]: "\<not> valid_state L []"
  by (simp add: valid_state_def)

end
