(* ===== verification/Engine.thy ===== *)
theory Engine
  imports ActionTypes
begin

text \<open>
  \<open>internal/action/engine.go\<close>: the registry of playbooks, the sealing of rollback
  state, and \<open>Run\<close>, the lifecycle every privileged request goes through.
\<close>

section \<open>The registry\<close>

record 'w engine =
  eng_books :: "(action_type \<times> 'w playbook) list"
  eng_key :: bytes

text \<open>The loop of \<open>NewEngineWithStateKey\<close> over the given playbooks (\<open>None\<close> is Go's nil).\<close>

fun register :: "(action_type \<times> 'w playbook) list \<Rightarrow> 'w playbook option list \<Rightarrow>
    string + (action_type \<times> 'w playbook) list" where
  "register m [] = Inr m"
| "register m (None # ps) = Inl ''nil or unnamed playbook''"
| "register m (Some p # ps) =
     (if pb_type p = [] then Inl ''nil or unnamed playbook''
      else if map_of m (pb_type p) \<noteq> None then Inl (''duplicate playbook '' @ quote (pb_type p))
      else register (m @ [(pb_type p, p)]) ps)"

definition new_engine :: "lib \<Rightarrow> bytes \<Rightarrow> 'w playbook option list \<Rightarrow> string + 'w engine" where
  "new_engine L key ps =
     (if length key < 32 then Inl ''rollback-state key must contain at least 256 bits''
      else case register [] ps of
          Inl e \<Rightarrow> Inl e
        | Inr m \<Rightarrow> Inr \<lparr>eng_books = m, eng_key = sha256 L key\<rparr>)"

definition engine_types :: "'w engine \<Rightarrow> action_type list" where
  "engine_types e = sort (map fst (eng_books e))"

section \<open>Sealed rollback state\<close>

definition mac_message :: "sealed_state \<Rightarrow> bytes" where
  "mac_message s = itoa (sl_version s) @ CHR 0x00 # sl_action_id s @ CHR 0x00 # sl_type s
     @ CHR 0x00 # sl_params_digest s @ CHR 0x00 # sl_payload s"

definition state_mac :: "lib \<Rightarrow> bytes \<Rightarrow> sealed_state \<Rightarrow> string" where
  "state_mac L key s = hex_encode (hmac_sha256 L key (mac_message s))"

definition sealed_for :: "lib \<Rightarrow> bytes \<Rightarrow> string \<Rightarrow> action_type \<Rightarrow> bytes \<Rightarrow> bytes \<Rightarrow> sealed_state" where
  "sealed_for L key aid ty params payload =
     (let s = \<lparr>sl_version = 1, sl_action_id = aid, sl_type = ty,
        sl_params_digest = digest_parameters L params, sl_payload = payload, sl_mac = []\<rparr>
      in s\<lparr>sl_mac := state_mac L key s\<rparr>)"

definition seal_state :: "lib \<Rightarrow> bytes \<Rightarrow> string \<Rightarrow> action_type \<Rightarrow> bytes \<Rightarrow> bytes \<Rightarrow> bytes" where
  "seal_state L key aid ty params payload = enc_sealed L (sealed_for L key aid ty params payload)"

abbreviation max_rollback_state_bytes :: nat where
  "max_rollback_state_bytes \<equiv> 524288"

definition open_state :: "lib \<Rightarrow> bytes \<Rightarrow> request \<Rightarrow> string + bytes" where
  "open_state L key rq =
     (if \<not> valid_state L (rq_state rq) then Inl ''rollback state is required''
      else case dec_sealed L (rq_state rq) of
          None \<Rightarrow> Inl ''rollback state is invalid or unsigned''
        | Some s \<Rightarrow>
            (if sl_version s \<noteq> 1 \<or> \<not> json_ok L (sl_payload s) \<or> length (sl_payload s) > max_rollback_state_bytes
             then Inl ''rollback state is invalid or unsigned''
             else if sl_action_id s \<noteq> rq_action_id rq \<or> sl_type s \<noteq> rq_type rq
                  \<or> sl_params_digest s \<noteq> digest_parameters L (rq_params rq)
             then Inl ''rollback state does not match the action request''
             else if state_mac L key s \<noteq> sl_mac s then Inl ''rollback state signature is invalid''
             else Inr (sl_payload s)))"

section \<open>One phase of a run\<close>

text \<open>
  What \<open>Run\<close>'s closures share: the receipt under construction, the invocation and
  the host.  \<open>clk k\<close> is the \<open>k\<close>-th reading of \<open>e.now\<close> in a run: reading 0 starts
  it, the step number \<open>n\<close> (from 0) reads \<open>2n+1\<close> and \<open>2n+2\<close>, and the deferred
  function reads the next one.
\<close>

record 'w frame =
  fr_rc :: receipt
  fr_inv :: invocation
  fr_world :: 'w

definition audit :: "(nat \<Rightarrow> instant) \<Rightarrow> operation \<Rightarrow> string + act_result \<Rightarrow> receipt \<Rightarrow> receipt" where
  "audit clk op out rc =
     (let n = length (rc_steps rc);
          step = \<lparr>st_op = op, st_started = clk (2 * n + 1), st_finished = clk (2 * n + 2),
            st_success = (case out of Inl _ \<Rightarrow> False | Inr _ \<Rightarrow> True),
            st_result = (case out of Inl _ \<Rightarrow> None | Inr r \<Rightarrow> Some r),
            st_error = (case out of Inl e \<Rightarrow> e | Inr _ \<Rightarrow> [])\<rparr>
      in rc\<lparr>rc_error := (case out of Inl e \<Rightarrow> e | Inr _ \<Rightarrow> rc_error rc),
            rc_steps := rc_steps rc @ [step]\<rparr>)"

definition run_result :: "(nat \<Rightarrow> instant) \<Rightarrow> operation \<Rightarrow> 'w phase \<Rightarrow> 'w frame \<Rightarrow> bool \<times> 'w frame" where
  "run_result clk op f fr =
     (let (out, w) = f (fr_inv fr) (fr_world fr)
      in (case out of Inl _ \<Rightarrow> False | Inr _ \<Rightarrow> True,
          fr\<lparr>fr_rc := audit clk op out (fr_rc fr), fr_world := w\<rparr>))"

text \<open>The error \<open>runApply\<close> settles on, and whether it marks the receipt indeterminate.\<close>

definition apply_error :: "bool \<Rightarrow> bytes \<Rightarrow> string option \<Rightarrow> string option \<times> bool" where
  "apply_error state_ok state err =
     (case err of
        None \<Rightarrow> if state_ok then (None, False)
                else (Some ''playbook returned invalid or oversized rollback state'', True)
      | Some e \<Rightarrow> if state \<noteq> [] \<and> \<not> state_ok
                then (Some (''apply may have changed the host but returned unusable rollback state: '' @ e), True)
                else (Some e, False))"

definition run_apply :: "lib \<Rightarrow> (nat \<Rightarrow> instant) \<Rightarrow> bytes \<Rightarrow> request \<Rightarrow> 'w playbook \<Rightarrow> 'w frame \<Rightarrow>
    bool \<times> 'w frame" where
  "run_apply L clk key rq pb fr =
     (let (res, err, w) = pb_apply pb (fr_inv fr) (fr_world fr);
          state_ok = valid_state L (apr_state res) \<and> length (apr_state res) \<le> max_rollback_state_bytes;
          (err', ind) = apply_error state_ok (apr_state res) err;
          out = (case err' of None \<Rightarrow> Inr (apr_result res) | Some e \<Rightarrow> Inl e);
          rc = audit clk Apply out ((fr_rc fr)\<lparr>rc_indeterminate := ind \<or> rc_indeterminate (fr_rc fr)\<rparr>);
          sealed = seal_state L key (rq_action_id rq) (rq_type rq) (rq_params rq) (apr_state res)
      in (err' = None,
          \<lparr>fr_rc = (if state_ok then rc\<lparr>rc_state := sealed, rc_state_digest := digest_bytes L sealed,
                                rc_confirm_by := apr_confirm_by res\<rparr> else rc),
           fr_inv = (if state_ok then (fr_inv fr)\<lparr>inv_state := apr_state res\<rparr> else fr_inv fr),
           fr_world = w\<rparr>))"

definition forget_state :: "receipt \<Rightarrow> receipt" where
  "forget_state rc = rc\<lparr>rc_state := [], rc_state_digest := [], rc_confirm_by := None\<rparr>"

text \<open>
  The automatic rollback after a failed phase, as \<open>recoverApplyFailure\<close> and the
  end of the \<open>execute\<close> branch do it; \<open>what\<close> is the phase's name in the message.
\<close>

definition roll_back_now :: "(nat \<Rightarrow> instant) \<Rightarrow> string \<Rightarrow> 'w playbook \<Rightarrow> 'w frame \<Rightarrow> 'w frame" where
  "roll_back_now clk what pb fr =
     (let cause = rc_error (fr_rc fr);
          (ok, fr') = run_result clk Rollback (pb_rollback pb) fr;
          rc = fr_rc fr'
      in if ok
         then fr'\<lparr>fr_rc := forget_state (rc\<lparr>rc_error := what @ '' failed and the change was rolled back: '' @ cause\<rparr>)\<rparr>
         else fr'\<lparr>fr_rc := rc\<lparr>rc_indeterminate := True,
                rc_error := what @ '' failed; automatic rollback also failed: '' @ cause @ ''; '' @ rc_error rc\<rparr>\<rparr>)"

definition recover_apply_failure :: "lib \<Rightarrow> (nat \<Rightarrow> instant) \<Rightarrow> 'w playbook \<Rightarrow> 'w frame \<Rightarrow> 'w frame" where
  "recover_apply_failure L clk pb fr =
     (if \<not> valid_state L (inv_state (fr_inv fr)) then fr else roll_back_now clk ''apply'' pb fr)"

section \<open>Run\<close>

definition set_success :: "bool \<times> 'w frame \<Rightarrow> 'w frame" where
  "set_success p = (snd p)\<lparr>fr_rc := (fr_rc (snd p))\<lparr>rc_success := fst p\<rparr>\<rparr>"

definition fail_with :: "string \<Rightarrow> 'w frame \<Rightarrow> 'w frame" where
  "fail_with e fr = fr\<lparr>fr_rc := (fr_rc fr)\<lparr>rc_error := e\<rparr>\<rparr>"

text \<open>A failed rollback or confirmation leaves the outcome unknown.\<close>

definition unknown_on_failure :: "bool \<times> 'w frame \<Rightarrow> 'w frame" where
  "unknown_on_failure p =
     (let fr = set_success p
      in if fst p then fr else fr\<lparr>fr_rc := (fr_rc fr)\<lparr>rc_indeterminate := True\<rparr>\<rparr>)"

definition execute :: "lib \<Rightarrow> (nat \<Rightarrow> instant) \<Rightarrow> bytes \<Rightarrow> request \<Rightarrow> 'w playbook \<Rightarrow> 'w frame \<Rightarrow> 'w frame" where
  "execute L clk key rq pb fr =
     (let (ok1, fr1) = run_result clk Precheck (pb_precheck pb) fr
      in if \<not> ok1 then fr1 else
     (let (ok2, fr2) = run_result clk Preview (pb_preview pb) fr1
      in if \<not> ok2 then fr2 else
     (let (ok3, fr3) = run_apply L clk key rq pb fr2
      in if \<not> ok3 then recover_apply_failure L clk pb fr3 else
     (let (ok4, fr4) = run_result clk Verify (pb_verify pb) fr3
      in if ok4 then set_success (True, fr4) else roll_back_now clk ''verification'' pb fr4))))"

definition dispatch :: "lib \<Rightarrow> (nat \<Rightarrow> instant) \<Rightarrow> bytes \<Rightarrow> request \<Rightarrow> 'w playbook \<Rightarrow> 'w frame \<Rightarrow> 'w frame" where
  "dispatch L clk key rq pb fr =
     (let has_state = valid_state L (inv_state (fr_inv fr));
          needs_state = fail_with ''rollback state is required'' fr
      in case rq_op rq of
        Precheck \<Rightarrow> set_success (run_result clk Precheck (pb_precheck pb) fr)
      | Preview \<Rightarrow> set_success (run_result clk Preview (pb_preview pb) fr)
      | Apply \<Rightarrow>
          (let (ok, fr') = run_apply L clk key rq pb fr; fr'' = set_success (ok, fr')
           in if ok then fr'' else recover_apply_failure L clk pb fr'')
      | Verify \<Rightarrow> if \<not> has_state then needs_state
                  else set_success (run_result clk Verify (pb_verify pb) fr)
      | Rollback \<Rightarrow> if \<not> has_state then needs_state
                  else unknown_on_failure (run_result clk Rollback (pb_rollback pb) fr)
      | Confirm \<Rightarrow> if \<not> has_state then needs_state
                  else (case pb_confirm pb of
                      None \<Rightarrow> fail_with ''unsupported action operation'' fr
                    | Some f \<Rightarrow> unknown_on_failure (run_result clk Confirm f fr))
      | Execute \<Rightarrow> execute L clk key rq pb fr
      | OtherOp _ \<Rightarrow> fail_with ''unsupported action operation'' fr)"

definition state_operation :: "operation \<Rightarrow> bool" where
  "state_operation op \<longleftrightarrow> op = Verify \<or> op = Rollback \<or> op = Confirm"

definition blank_receipt :: "lib \<Rightarrow> (nat \<Rightarrow> instant) \<Rightarrow> string \<Rightarrow> request \<Rightarrow> receipt" where
  "blank_receipt L clk rid rq =
     \<lparr>rc_id = rid, rc_action_id = rq_action_id rq, rc_actor = rq_actor rq, rc_type = rq_type rq,
      rc_op = rq_op rq, rc_params_digest = digest_parameters L (rq_params rq),
      rc_started = clk 0, rc_finished = 0, rc_success = False, rc_indeterminate = False,
      rc_steps = [], rc_state = [], rc_state_digest = [], rc_confirm_by = None,
      rc_error = [], rc_digest = []\<rparr>"

text \<open>The checks before any phase runs: the error they report, or the playbook and the opened state.\<close>

definition admit :: "lib \<Rightarrow> 'w engine \<Rightarrow> request \<Rightarrow> 'w \<Rightarrow> string + 'w playbook \<times> bytes" where
  "admit L e rq w =
     (if \<not> action_id_ok (rq_action_id rq) \<or> rq_actor rq = [] \<or> length (rq_actor rq) > 128
      then Inl ''invalid action request''
      else if rq_params rq = [] \<or> \<not> json_ok L (rq_params rq)
      then Inl ''invalid action request: parameters must be valid JSON''
      else case map_of (eng_books e) (rq_type rq) of
          None \<Rightarrow> Inl ''unsupported action type''
        | Some pb \<Rightarrow>
           (case pb_validate pb (rq_params rq) w of
              Some err \<Rightarrow> Inl (''invalid action request: '' @ err)
            | None \<Rightarrow>
               (if \<not> state_operation (rq_op rq) \<and> rq_state rq \<noteq> []
                then Inl ''invalid action request: rollback state is not accepted for this operation''
                else if state_operation (rq_op rq)
                then (case open_state L (eng_key e) rq of Inl err \<Rightarrow> Inl err | Inr p \<Rightarrow> Inr (pb, p))
                else Inr (pb, []))))"

definition receipt_digest :: "lib \<Rightarrow> receipt \<Rightarrow> string" where
  "receipt_digest L rc = digest_bytes L (enc_receipt L (rc\<lparr>rc_digest := []\<rparr>))"

text \<open>The deferred function of \<open>Run\<close>.\<close>

definition finish :: "lib \<Rightarrow> (nat \<Rightarrow> instant) \<Rightarrow> receipt \<Rightarrow> receipt" where
  "finish L clk rc =
     (let rc' = rc\<lparr>rc_finished := clk (2 * length (rc_steps rc) + 1)\<rparr>
      in rc'\<lparr>rc_digest := receipt_digest L rc'\<rparr>)"

definition run_body :: "lib \<Rightarrow> (nat \<Rightarrow> instant) \<Rightarrow> string \<Rightarrow> 'w engine \<Rightarrow> request \<Rightarrow> 'w \<Rightarrow> receipt \<times> 'w" where
  "run_body L clk rid e rq w =
     (let rc = blank_receipt L clk rid rq
      in case admit L e rq w of
          Inl err \<Rightarrow> (rc\<lparr>rc_error := err\<rparr>, w)
        | Inr (pb, payload) \<Rightarrow>
           (let inv = \<lparr>inv_action_id = rq_action_id rq, inv_actor = rq_actor rq,
                  inv_params = rq_params rq, inv_state = payload\<rparr>;
                fr = dispatch L clk (eng_key e) rq pb \<lparr>fr_rc = rc, fr_inv = inv, fr_world = w\<rparr>
            in (fr_rc fr, fr_world fr)))"

definition run :: "lib \<Rightarrow> (nat \<Rightarrow> instant) \<Rightarrow> string \<Rightarrow> 'w engine \<Rightarrow> request \<Rightarrow> 'w \<Rightarrow> receipt \<times> 'w" where
  "run L clk rid e rq w =
     (let (rc, w') = run_body L clk rid e rq w in (finish L clk rc, w'))"

text \<open>\<open>receiptError\<close>, and the convenience entry points of local mode.\<close>

definition receipt_error :: "receipt \<Rightarrow> string option" where
  "receipt_error rc = (if rc_success rc then None
     else if rc_error rc = [] then Some ''action failed'' else Some (rc_error rc))"

definition local_request :: "string \<Rightarrow> action_type \<Rightarrow> operation \<Rightarrow> bytes \<Rightarrow> bytes \<Rightarrow> request" where
  "local_request aid ty op params state = \<lparr>rq_action_id = aid, rq_actor = ''local-agent'',
     rq_type = ty, rq_op = op, rq_params = params, rq_state = state\<rparr>"

definition local_rollback_id :: "lib \<Rightarrow> string \<Rightarrow> bytes \<Rightarrow> string" where
  "local_rollback_id L fresh state =
     (case dec_sealed L state of
        Some s \<Rightarrow> if action_id_ok (sl_action_id s) then sl_action_id s else fresh
      | None \<Rightarrow> fresh)"

definition local_rollback :: "lib \<Rightarrow> (nat \<Rightarrow> instant) \<Rightarrow> string \<Rightarrow> string \<Rightarrow> 'w engine \<Rightarrow> action_type \<Rightarrow>
    bytes \<Rightarrow> bytes \<Rightarrow> 'w \<Rightarrow> (receipt \<times> 'w) \<times> string option" where
  "local_rollback L clk fresh rid e ty params state w =
     (let out = run L clk rid e
        (local_request (local_rollback_id L fresh state) ty Rollback params state) w
      in (out, receipt_error (fst out)))"

end
