(* ===== verification/EngineLaws.thy ===== *)
theory EngineLaws
  imports Engine
begin

text \<open>
  What \<open>Run\<close> guarantees: the shape of every receipt, the binding of sealed
  rollback state to its request, and, for a playbook that keeps the contract
  written in the comments of \<open>types.go\<close>, that a failure which is not reported as
  indeterminate leaves the host as it was.
\<close>

section \<open>The shape of a receipt\<close>

definition trace :: "receipt \<Rightarrow> (operation \<times> bool) list" where
  "trace rc = map (\<lambda>s. (st_op s, st_success s)) (rc_steps rc)"

definition fresh :: "'w frame \<Rightarrow> bool" where
  "fresh fr \<longleftrightarrow> rc_steps (fr_rc fr) = [] \<and> \<not> rc_success (fr_rc fr) \<and> \<not> rc_indeterminate (fr_rc fr) \<and>
     rc_state (fr_rc fr) = [] \<and> rc_state_digest (fr_rc fr) = [] \<and> rc_confirm_by (fr_rc fr) = None \<and>
     rc_error (fr_rc fr) = [] \<and> inv_state (fr_inv fr) = []"

text \<open>The eight ways an \<open>execute\<close> request ends.\<close>

inductive exec_outcome :: "lib \<Rightarrow> receipt \<Rightarrow> bool" for L where
  precheck_failed: "trace rc = [(Precheck, False)] \<Longrightarrow> \<not> rc_success rc \<Longrightarrow> \<not> rc_indeterminate rc \<Longrightarrow>
     rc_state rc = [] \<Longrightarrow> rc_state_digest rc = [] \<Longrightarrow> exec_outcome L rc"
| preview_failed: "trace rc = [(Precheck, True), (Preview, False)] \<Longrightarrow> \<not> rc_success rc \<Longrightarrow>
     \<not> rc_indeterminate rc \<Longrightarrow> rc_state rc = [] \<Longrightarrow> rc_state_digest rc = [] \<Longrightarrow> exec_outcome L rc"
| apply_failed: "trace rc = [(Precheck, True), (Preview, True), (Apply, False)] \<Longrightarrow> \<not> rc_success rc \<Longrightarrow>
     rc_state rc = [] \<Longrightarrow> rc_state_digest rc = [] \<Longrightarrow> exec_outcome L rc"
| apply_undone: "trace rc = [(Precheck, True), (Preview, True), (Apply, False), (Rollback, True)] \<Longrightarrow>
     \<not> rc_success rc \<Longrightarrow> \<not> rc_indeterminate rc \<Longrightarrow> rc_state rc = [] \<Longrightarrow> rc_state_digest rc = [] \<Longrightarrow>
     exec_outcome L rc"
| apply_stuck: "trace rc = [(Precheck, True), (Preview, True), (Apply, False), (Rollback, False)] \<Longrightarrow>
     \<not> rc_success rc \<Longrightarrow> rc_indeterminate rc \<Longrightarrow> rc_state_digest rc = digest_bytes L (rc_state rc) \<Longrightarrow>
     exec_outcome L rc"
| verified: "trace rc = [(Precheck, True), (Preview, True), (Apply, True), (Verify, True)] \<Longrightarrow>
     rc_success rc \<Longrightarrow> \<not> rc_indeterminate rc \<Longrightarrow> rc_error rc = [] \<Longrightarrow>
     rc_state_digest rc = digest_bytes L (rc_state rc) \<Longrightarrow> exec_outcome L rc"
| verify_undone: "trace rc = [(Precheck, True), (Preview, True), (Apply, True), (Verify, False), (Rollback, True)] \<Longrightarrow>
     \<not> rc_success rc \<Longrightarrow> \<not> rc_indeterminate rc \<Longrightarrow> rc_state rc = [] \<Longrightarrow> rc_state_digest rc = [] \<Longrightarrow>
     exec_outcome L rc"
| verify_stuck: "trace rc = [(Precheck, True), (Preview, True), (Apply, True), (Verify, False), (Rollback, False)] \<Longrightarrow>
     \<not> rc_success rc \<Longrightarrow> rc_indeterminate rc \<Longrightarrow> rc_state_digest rc = digest_bytes L (rc_state rc) \<Longrightarrow>
     exec_outcome L rc"

text \<open>Every step that succeeded carries its result.\<close>

definition results_kept :: "receipt \<Rightarrow> bool" where
  "results_kept rc \<longleftrightarrow> (\<forall>s \<in> set (rc_steps rc). st_success s \<longleftrightarrow> st_result s \<noteq> None)"

named_theorems engine_simps \<open>what each closure of \<open>Run\<close> does to the frame\<close>

lemma trace_audit [engine_simps]:
  "trace (audit clk op out rc) = trace rc @ [(op, case out of Inl _ \<Rightarrow> False | Inr _ \<Rightarrow> True)]"
  by (simp add: audit_def trace_def Let_def)

lemma audit_other [engine_simps]:
  "rc_success (audit clk op out rc) = rc_success rc"
  "rc_indeterminate (audit clk op out rc) = rc_indeterminate rc"
  "rc_state (audit clk op out rc) = rc_state rc"
  "rc_state_digest (audit clk op out rc) = rc_state_digest rc"
  "rc_error (audit clk op out rc) = (case out of Inl e \<Rightarrow> e | Inr _ \<Rightarrow> rc_error rc)"
  by (simp_all add: audit_def Let_def)

lemma results_kept_audit [engine_simps]:
  "results_kept (audit clk op out rc) = results_kept rc"
  by (auto simp: audit_def results_kept_def Let_def split: sum.splits)

lemma trace_update [engine_simps]:
  "trace (rc\<lparr>rc_success := b\<rparr>) = trace rc"
  "trace (rc\<lparr>rc_indeterminate := b\<rparr>) = trace rc"
  "trace (rc\<lparr>rc_error := e\<rparr>) = trace rc"
  "trace (rc\<lparr>rc_state := x\<rparr>) = trace rc"
  "trace (rc\<lparr>rc_state_digest := d\<rparr>) = trace rc"
  "trace (rc\<lparr>rc_confirm_by := t\<rparr>) = trace rc"
  "trace (rc\<lparr>rc_finished := i\<rparr>) = trace rc"
  "trace (rc\<lparr>rc_digest := d\<rparr>) = trace rc"
  by (simp_all add: trace_def)

lemma run_result_cases:
  assumes "run_result clk op f fr = (ok, fr')"
  obtains w e where "f (fr_inv fr) (fr_world fr) = (Inl e, w)" and "\<not> ok"
      and "fr' = fr\<lparr>fr_rc := audit clk op (Inl e) (fr_rc fr), fr_world := w\<rparr>"
  | w r where "f (fr_inv fr) (fr_world fr) = (Inr r, w)" and "ok"
      and "fr' = fr\<lparr>fr_rc := audit clk op (Inr r) (fr_rc fr), fr_world := w\<rparr>"
proof (cases "f (fr_inv fr) (fr_world fr)")
  case (Pair out w)
  with assms that show ?thesis
    by (cases out) (auto simp: run_result_def)
qed

text \<open>
  \<open>runApply\<close> ends in one of four ways: refused without state, refused with
  recoverable state, an unusable state, or success.
\<close>

lemma run_apply_cases:
  assumes "run_apply L clk key rq pb fr = (ok, fr')"
  obtains
    (clean) r e w where "pb_apply pb (fr_inv fr) (fr_world fr) = (r, Some e, w)" and "apr_state r = []"
      and "\<not> ok" and "fr' = fr\<lparr>fr_rc := audit clk Apply (Inl e) (fr_rc fr), fr_world := w\<rparr>"
  | (unusable) e w where "\<not> ok"
      and "fr' = fr\<lparr>fr_rc := audit clk Apply (Inl e) ((fr_rc fr)\<lparr>rc_indeterminate := True\<rparr>), fr_world := w\<rparr>"
  | (kept) r e w sealed where "pb_apply pb (fr_inv fr) (fr_world fr) = (r, Some e, w)"
      and "valid_state L (apr_state r)" and "\<not> ok"
      and "fr' = \<lparr>fr_rc = (audit clk Apply (Inl e) (fr_rc fr))\<lparr>rc_state := sealed,
             rc_state_digest := digest_bytes L sealed, rc_confirm_by := apr_confirm_by r\<rparr>,
           fr_inv = (fr_inv fr)\<lparr>inv_state := apr_state r\<rparr>, fr_world = w\<rparr>"
  | (applied) r w sealed where "pb_apply pb (fr_inv fr) (fr_world fr) = (r, None, w)"
      and "valid_state L (apr_state r)" and "ok"
      and "sealed = seal_state L key (rq_action_id rq) (rq_type rq) (rq_params rq) (apr_state r)"
      and "fr' = \<lparr>fr_rc = (audit clk Apply (Inr (apr_result r)) (fr_rc fr))\<lparr>rc_state := sealed,
             rc_state_digest := digest_bytes L sealed, rc_confirm_by := apr_confirm_by r\<rparr>,
           fr_inv = (fr_inv fr)\<lparr>inv_state := apr_state r\<rparr>, fr_world = w\<rparr>"
proof (cases "pb_apply pb (fr_inv fr) (fr_world fr)")
  case (fields r err w)
  define okst where "okst = (valid_state L (apr_state r) \<and> length (apr_state r) \<le> max_rollback_state_bytes)"
  note eq = assms [unfolded run_apply_def fields Let_def prod.case, folded okst_def]
  show ?thesis
  proof (cases okst)
    case True
    then have v: "valid_state L (apr_state r)" by (simp add: okst_def)
    show ?thesis
    proof (cases err)
      case None
      with eq True v fields show ?thesis
        by (intro applied [of r w]) (auto simp: apply_error_def)
    next
      case (Some e)
      with eq True v fields show ?thesis
        by (intro kept [of r e w]) (auto simp: apply_error_def)
    qed
  next
    case False
    show ?thesis
    proof (cases "err \<noteq> None \<and> apr_state r = []")
      case True
      with eq False fields show ?thesis
        by (intro clean [of r "the err" w]) (cases fr, auto simp: apply_error_def)+
    next
      case bad: False
      with eq False have ind: "snd (apply_error okst (apr_state r) err)" and "\<not> ok"
        and "fst (apply_error okst (apr_state r) err) \<noteq> None"
        by (auto simp: apply_error_def split: option.splits)
      with eq False show ?thesis
        by (intro unusable [where e = "the (fst (apply_error okst (apr_state r) err))" and w = w])
          (cases fr, auto simp: split_beta split: option.splits)+
    qed
  qed
qed

lemma roll_back_now_cases:
  obtains e w where "pb_rollback pb (fr_inv fr) (fr_world fr) = (Inl e, w)"
      and "fr_world (roll_back_now clk what pb fr) = w"
      and "rc_indeterminate (fr_rc (roll_back_now clk what pb fr))"
      and "trace (fr_rc (roll_back_now clk what pb fr)) = trace (fr_rc fr) @ [(Rollback, False)]"
      and "rc_state (fr_rc (roll_back_now clk what pb fr)) = rc_state (fr_rc fr)"
      and "rc_state_digest (fr_rc (roll_back_now clk what pb fr)) = rc_state_digest (fr_rc fr)"
      and "rc_success (fr_rc (roll_back_now clk what pb fr)) = rc_success (fr_rc fr)"
  | r w where "pb_rollback pb (fr_inv fr) (fr_world fr) = (Inr r, w)"
      and "fr_world (roll_back_now clk what pb fr) = w"
      and "rc_indeterminate (fr_rc (roll_back_now clk what pb fr)) = rc_indeterminate (fr_rc fr)"
      and "trace (fr_rc (roll_back_now clk what pb fr)) = trace (fr_rc fr) @ [(Rollback, True)]"
      and "rc_state (fr_rc (roll_back_now clk what pb fr)) = []"
      and "rc_state_digest (fr_rc (roll_back_now clk what pb fr)) = []"
      and "rc_success (fr_rc (roll_back_now clk what pb fr)) = rc_success (fr_rc fr)"
proof (cases "pb_rollback pb (fr_inv fr) (fr_world fr)")
  case (Pair out w)
  with that show ?thesis
    by (cases out) (auto simp: roll_back_now_def run_result_def forget_state_def Let_def engine_simps)
qed

theorem execute_outcome:
  assumes "fresh fr"
  shows "exec_outcome L (fr_rc (execute L clk key rq pb fr))"
proof -
  obtain ok1 fr1 where r1: "run_result clk Precheck (pb_precheck pb) fr = (ok1, fr1)" by fastforce
  obtain ok2 fr2 where r2: "run_result clk Preview (pb_preview pb) fr1 = (ok2, fr2)" by fastforce
  obtain ok3 fr3 where r3: "run_apply L clk key rq pb fr2 = (ok3, fr3)" by fastforce
  obtain ok4 fr4 where r4: "run_result clk Verify (pb_verify pb) fr3 = (ok4, fr4)" by fastforce
  note ex = execute_def r1 r2 r3 r4 prod.case Let_def
  have tr: "trace (fr_rc fr) = []" using assms by (simp add: fresh_def trace_def)
  show ?thesis
  proof (cases ok1)
    case False
    with r1 assms tr have "exec_outcome L (fr_rc fr1)"
      by (auto simp: fresh_def engine_simps elim!: run_result_cases intro: precheck_failed)
    with False show ?thesis by (simp add: ex)
  next
    case 1: True
    with r1 assms tr have f1: "trace (fr_rc fr1) = [(Precheck, True)]" "\<not> rc_success (fr_rc fr1)"
      "\<not> rc_indeterminate (fr_rc fr1)" "rc_state (fr_rc fr1) = []" "rc_state_digest (fr_rc fr1) = []"
      "rc_error (fr_rc fr1) = []" "inv_state (fr_inv fr1) = []"
      by (auto simp: fresh_def engine_simps elim!: run_result_cases)
    show ?thesis
    proof (cases ok2)
      case False
      with r2 f1 have "exec_outcome L (fr_rc fr2)"
        by (auto simp: engine_simps elim!: run_result_cases intro: preview_failed)
      with 1 False show ?thesis by (simp add: ex)
    next
      case 2: True
      with r2 f1 have f2: "trace (fr_rc fr2) = [(Precheck, True), (Preview, True)]" "\<not> rc_success (fr_rc fr2)"
        "\<not> rc_indeterminate (fr_rc fr2)" "rc_state (fr_rc fr2) = []" "rc_state_digest (fr_rc fr2) = []"
        "rc_error (fr_rc fr2) = []" "inv_state (fr_inv fr2) = []"
        by (auto simp: engine_simps elim!: run_result_cases)
      have dr: "execute L clk key rq pb fr =
          (if \<not> ok3 then recover_apply_failure L clk pb fr3
           else if ok4 then set_success (True, fr4) else roll_back_now clk ''verification'' pb fr4)"
        using 1 2 by (simp add: ex)
      from r3 show ?thesis
      proof (cases rule: run_apply_cases)
        case clean
        with f2 dr show ?thesis
          by (auto simp: recover_apply_failure_def engine_simps intro: apply_failed)
      next
        case unusable
        with f2 dr show ?thesis
          by (auto simp: recover_apply_failure_def engine_simps intro: apply_failed)
      next
        case (kept r e w sealed)
        with f2 dr have "execute L clk key rq pb fr = roll_back_now clk ''apply'' pb fr3"
          by (simp add: recover_apply_failure_def)
        with kept f2 show ?thesis
          by (cases rule: roll_back_now_cases [of pb fr3 clk "''apply''"])
            (auto simp: engine_simps intro: apply_stuck apply_undone)
      next
        case (applied r w sealed)
        show ?thesis
        proof (cases ok4)
          case True
          with applied f2 dr r4 show ?thesis
            by (auto simp: set_success_def engine_simps elim!: run_result_cases intro: verified)
        next
          case False
          with applied dr have ex4: "execute L clk key rq pb fr = roll_back_now clk ''verification'' pb fr4"
            by simp
          from False r4 applied f2 have f4:
            "trace (fr_rc fr4) = [(Precheck, True), (Preview, True), (Apply, True), (Verify, False)]"
            "\<not> rc_success (fr_rc fr4)" "\<not> rc_indeterminate (fr_rc fr4)"
            "rc_state_digest (fr_rc fr4) = digest_bytes L (rc_state (fr_rc fr4))"
            by (auto simp: engine_simps elim!: run_result_cases)
          then show ?thesis unfolding ex4
            by (cases rule: roll_back_now_cases [of pb fr4 clk "''verification''"])
              (auto intro: verify_stuck verify_undone)
        qed
      qed
    qed
  qed
qed

section \<open>The playbook contract\<close>

text \<open>
  What \<open>types.go\<close> asks of every playbook: the reading phases change nothing;
  before its first mutation \<open>Apply\<close> returns an empty state with its error; the
  state it returns otherwise lets \<open>Rollback\<close> undo the change.  \<open>obs\<close> is the part
  of the host the playbook answers for, and \<open>lib_ok\<close> the documented behaviour of
  the library functions it is parameterised with.
\<close>

locale playbook_contract =
  fixes pb :: "'w playbook" and obs :: "'w \<Rightarrow> 'o" and lib_ok :: bool
  assumes precheck_reads: "lib_ok \<Longrightarrow> obs (snd (pb_precheck pb i w)) = obs w"
    and preview_reads: "lib_ok \<Longrightarrow> obs (snd (pb_preview pb i w)) = obs w"
    and verify_reads: "lib_ok \<Longrightarrow> obs (snd (pb_verify pb i w)) = obs w"
    and apply_boundary: "lib_ok \<Longrightarrow> pb_apply pb i w = (r, Some e, w1) \<Longrightarrow> apr_state r = [] \<Longrightarrow> obs w1 = obs w"
    and rollback_undoes: "lib_ok \<Longrightarrow> pb_apply pb i w = (r, err, w1) \<Longrightarrow> apr_state r \<noteq> [] \<Longrightarrow> obs w2 = obs w1 \<Longrightarrow>
      pb_rollback pb (i\<lparr>inv_state := apr_state r\<rparr>) w2 = (Inr res, w3) \<Longrightarrow> obs w3 = obs w"
begin

lemma reads_frame:
  assumes "lib_ok" and "run_result clk op f fr = (ok, fr')"
    and "f \<in> {pb_precheck pb, pb_preview pb, pb_verify pb}"
  shows "obs (fr_world fr') = obs (fr_world fr) \<and> fr_inv fr' = fr_inv fr"
  using assms(2)
proof (cases rule: run_result_cases)
  case (1 w e)
  then have "w = snd (f (fr_inv fr) (fr_world fr))" by simp
  with 1 assms(1,3) show ?thesis by (auto simp: precheck_reads preview_reads verify_reads)
next
  case (2 w r)
  then have "w = snd (f (fr_inv fr) (fr_world fr))" by simp
  with 2 assms(1,3) show ?thesis by (auto simp: precheck_reads preview_reads verify_reads)
qed

text \<open>Undoing from the frame a run reaches after its apply step.\<close>

lemma rollback_restores:
  assumes "lib_ok" and "pb_apply pb i w = (r, err, w1)" and "apr_state r \<noteq> []"
    and "fr_inv fr = i\<lparr>inv_state := apr_state r\<rparr>" and "obs (fr_world fr) = obs w1"
    and "\<not> rc_indeterminate (fr_rc (roll_back_now clk what pb fr))"
  shows "obs (fr_world (roll_back_now clk what pb fr)) = obs w"
proof (cases rule: roll_back_now_cases [of pb fr clk what])
  case (1 e w')
  with assms(6) show ?thesis by simp
next
  case (2 res w')
  with assms(4) have "pb_rollback pb (i\<lparr>inv_state := apr_state r\<rparr>) (fr_world fr) = (Inr res, w')" by simp
  with assms(1,2,3,5) 2(2) show ?thesis by (metis rollback_undoes)
qed

theorem execute_failure_keeps_host:
  assumes "lib_ok" and "fresh fr"
    and "\<not> rc_success (fr_rc (execute L clk key rq pb fr))"
    and "\<not> rc_indeterminate (fr_rc (execute L clk key rq pb fr))"
  shows "obs (fr_world (execute L clk key rq pb fr)) = obs (fr_world fr)"
proof -
  obtain ok1 fr1 where r1: "run_result clk Precheck (pb_precheck pb) fr = (ok1, fr1)" by fastforce
  obtain ok2 fr2 where r2: "run_result clk Preview (pb_preview pb) fr1 = (ok2, fr2)" by fastforce
  obtain ok3 fr3 where r3: "run_apply L clk key rq pb fr2 = (ok3, fr3)" by fastforce
  obtain ok4 fr4 where r4: "run_result clk Verify (pb_verify pb) fr3 = (ok4, fr4)" by fastforce
  note ex = execute_def r1 r2 r3 r4 prod.case Let_def
  have o1: "obs (fr_world fr1) = obs (fr_world fr)" and i1: "fr_inv fr1 = fr_inv fr"
    using reads_frame [OF assms(1) r1] by auto
  have o2: "obs (fr_world fr2) = obs (fr_world fr)" and i2: "fr_inv fr2 = fr_inv fr"
    using reads_frame [OF assms(1) r2] o1 i1 by auto
  have st: "inv_state (fr_inv fr2) = []" using assms(2) i2 by (simp add: fresh_def)
  show ?thesis
  proof (cases "ok1 \<and> ok2")
    case False
    with o1 o2 show ?thesis by (auto simp: ex)
  next
    case True
    then have dr: "execute L clk key rq pb fr =
        (if \<not> ok3 then recover_apply_failure L clk pb fr3
         else if ok4 then set_success (True, fr4) else roll_back_now clk ''verification'' pb fr4)"
      by (simp add: ex)
    from r3 show ?thesis
    proof (cases rule: run_apply_cases)
      case (clean r e w)
      with apply_boundary [OF assms(1) clean(1,2)] st o2 dr show ?thesis
        by (simp add: recover_apply_failure_def)
    next
      case unusable
      with assms(4) dr st show ?thesis by (simp add: recover_apply_failure_def engine_simps)
    next
      case (kept r e w sealed)
      with dr have e3: "execute L clk key rq pb fr = roll_back_now clk ''apply'' pb fr3"
        by (simp add: recover_apply_failure_def)
      have "obs (fr_world (roll_back_now clk ''apply'' pb fr3)) = obs (fr_world fr2)"
        by (rule rollback_restores [OF assms(1) kept(1)])
          (use kept assms(4) e3 in \<open>auto simp: valid_state_nonempty\<close>)
      with e3 o2 show ?thesis by simp
    next
      case (applied r w sealed)
      show ?thesis
      proof (cases ok4)
        case True
        with applied dr assms(3) show ?thesis by (simp add: set_success_def)
      next
        case False
        with applied dr have e4: "execute L clk key rq pb fr = roll_back_now clk ''verification'' pb fr4"
          by simp
        have o4: "obs (fr_world fr4) = obs w" and i4: "fr_inv fr4 = (fr_inv fr2)\<lparr>inv_state := apr_state r\<rparr>"
          using reads_frame [OF assms(1) r4] applied by auto
        have "obs (fr_world (roll_back_now clk ''verification'' pb fr4)) = obs (fr_world fr2)"
          by (rule rollback_restores [OF assms(1) applied(1)])
            (use applied assms(4) e4 o4 i4 in \<open>auto simp: valid_state_nonempty\<close>)
        with e4 o2 show ?thesis by simp
      qed
    qed
  qed
qed

end

section \<open>Runs of the engine\<close>

definition start_frame :: "lib \<Rightarrow> (nat \<Rightarrow> instant) \<Rightarrow> string \<Rightarrow> request \<Rightarrow> bytes \<Rightarrow> 'w \<Rightarrow> 'w frame" where
  "start_frame L clk rid rq payload w =
     \<lparr>fr_rc = blank_receipt L clk rid rq,
      fr_inv = \<lparr>inv_action_id = rq_action_id rq, inv_actor = rq_actor rq,
                inv_params = rq_params rq, inv_state = payload\<rparr>,
      fr_world = w\<rparr>"

lemma run_cases:
  obtains (refused) err where "admit L e rq w = Inl err"
      and "run L clk rid e rq w = (finish L clk ((blank_receipt L clk rid rq)\<lparr>rc_error := err\<rparr>), w)"
  | (admitted) pb p where "admit L e rq w = Inr (pb, p)"
      and "run L clk rid e rq w =
        (finish L clk (fr_rc (dispatch L clk (eng_key e) rq pb (start_frame L clk rid rq p w))),
         fr_world (dispatch L clk (eng_key e) rq pb (start_frame L clk rid rq p w)))"
proof (cases "admit L e rq w")
  case (Inl err)
  with refused show ?thesis by (simp add: run_def run_body_def Let_def)
next
  case (Inr a)
  with admitted show ?thesis
    by (cases a) (simp add: run_def run_body_def Let_def start_frame_def)
qed

lemma finish_other [simp]:
  "trace (finish L clk rc) = trace rc" "rc_success (finish L clk rc) = rc_success rc"
  "rc_indeterminate (finish L clk rc) = rc_indeterminate rc" "rc_state (finish L clk rc) = rc_state rc"
  "rc_state_digest (finish L clk rc) = rc_state_digest rc" "rc_error (finish L clk rc) = rc_error rc"
  "rc_steps (finish L clk rc) = rc_steps rc" "rc_started (finish L clk rc) = rc_started rc"
  "rc_finished (finish L clk rc) = clk (2 * length (rc_steps rc) + 1)"
  by (simp_all add: finish_def Let_def trace_def)

lemma exec_outcome_finish [simp]: "exec_outcome L (finish L clk rc) = exec_outcome L rc"
  by (simp add: exec_outcome.simps)

lemma admit_Inr_D:
  assumes "admit L e rq w = Inr (pb, p)"
  shows "action_id_ok (rq_action_id rq) \<and> rq_actor rq \<noteq> [] \<and> length (rq_actor rq) \<le> 128 \<and>
     json_ok L (rq_params rq) \<and> map_of (eng_books e) (rq_type rq) = Some pb \<and>
     pb_validate pb (rq_params rq) w = None \<and>
     (if state_operation (rq_op rq) then open_state L (eng_key e) rq = Inr p else rq_state rq = [] \<and> p = [])"
  using assms by (auto simp: admit_def split: if_splits option.splits sum.splits)

lemma fresh_start: "fresh (start_frame L clk rid rq [] w)"
  by (simp add: fresh_def start_frame_def blank_receipt_def)

lemma dispatch_execute: "rq_op rq = Execute \<Longrightarrow> dispatch L clk key rq pb fr = execute L clk key rq pb fr"
  by (simp add: dispatch_def Let_def)

lemma run_execute_admitted:
  assumes "rq_op rq = Execute" and "admit L e rq w = Inr (pb, p)"
  shows "p = [] \<and> run L clk rid e rq w =
    (finish L clk (fr_rc (execute L clk (eng_key e) rq pb (start_frame L clk rid rq [] w))),
     fr_world (execute L clk (eng_key e) rq pb (start_frame L clk rid rq [] w)))"
proof -
  from admit_Inr_D [OF assms(2)] assms(1) have "p = []" by (simp add: state_operation_def)
  with assms show ?thesis
    by (cases rule: run_cases [of L e rq w clk rid]) (simp_all add: dispatch_execute)
qed

text \<open>The contract, for a whole run: a failure that is not reported as indeterminate left the host alone.\<close>

context playbook_contract
begin

lemma run_execute_failure:
  assumes "lib_ok" and "map_of (eng_books e) (rq_type rq) = Some pb" and "rq_op rq = Execute"
    and "\<not> rc_success (fst (run L clk rid e rq w))" and "\<not> rc_indeterminate (fst (run L clk rid e rq w))"
  shows "obs (snd (run L clk rid e rq w)) = obs w"
proof (cases "admit L e rq w")
  case (Inl err)
  then show ?thesis by (simp add: run_def run_body_def Let_def)
next
  case (Inr a)
  obtain pb' p where "a = (pb', p)" by fastforce
  with Inr have adm: "admit L e rq w = Inr (pb', p)" by simp
  from admit_Inr_D [OF this] assms(2) have "pb' = pb" by simp
  with run_execute_admitted [OF assms(3) adm] have r: "run L clk rid e rq w =
     (finish L clk (fr_rc (execute L clk (eng_key e) rq pb (start_frame L clk rid rq [] w))),
      fr_world (execute L clk (eng_key e) rq pb (start_frame L clk rid rq [] w)))" by simp
  have "obs (fr_world (execute L clk (eng_key e) rq pb (start_frame L clk rid rq [] w))) =
      obs (fr_world (start_frame L clk rid rq [] w))"
    using assms(1,4,5) r by (intro execute_failure_keeps_host fresh_start) simp_all
  with r show ?thesis by (simp add: start_frame_def)
qed

end

subsection \<open>Readings of the clock\<close>

definition step_times :: "receipt \<Rightarrow> instant list" where
  "step_times rc = concat (map (\<lambda>s. [st_started s, st_finished s]) (rc_steps rc))"

definition clocked :: "(nat \<Rightarrow> instant) \<Rightarrow> receipt \<Rightarrow> bool" where
  "clocked clk rc \<longleftrightarrow> rc_started rc = clk 0 \<and> step_times rc = map clk [1..<2 * length (rc_steps rc) + 1]"

lemma clocked_audit: "clocked clk rc \<Longrightarrow> clocked clk (audit clk op out rc)"
  by (simp add: clocked_def audit_def step_times_def Let_def)

lemma clocked_update [simp]:
  "clocked clk (rc\<lparr>rc_success := b\<rparr>) = clocked clk rc" "clocked clk (rc\<lparr>rc_indeterminate := b\<rparr>) = clocked clk rc"
  "clocked clk (rc\<lparr>rc_error := x\<rparr>) = clocked clk rc" "clocked clk (rc\<lparr>rc_state := x\<rparr>) = clocked clk rc"
  "clocked clk (rc\<lparr>rc_state_digest := x\<rparr>) = clocked clk rc" "clocked clk (rc\<lparr>rc_confirm_by := t\<rparr>) = clocked clk rc"
  by (simp_all add: clocked_def step_times_def)

lemma clocked_run_result:
  "run_result clk op f fr = (ok, fr') \<Longrightarrow> clocked clk (fr_rc fr) \<Longrightarrow> clocked clk (fr_rc fr')"
  by (auto simp: run_result_def clocked_audit split: prod.splits)

lemma clocked_run_apply:
  "run_apply L clk key rq pb fr = (ok, fr') \<Longrightarrow> clocked clk (fr_rc fr) \<Longrightarrow> clocked clk (fr_rc fr')"
  by (erule run_apply_cases) (auto simp: clocked_audit)

lemma clocked_roll_back_now:
  "clocked clk (fr_rc fr) \<Longrightarrow> clocked clk (fr_rc (roll_back_now clk what pb fr))"
  by (auto simp: roll_back_now_def forget_state_def Let_def split: prod.splits dest: clocked_run_result)

lemma clocked_recover: "clocked clk (fr_rc fr) \<Longrightarrow> clocked clk (fr_rc (recover_apply_failure L clk pb fr))"
  by (simp add: recover_apply_failure_def clocked_roll_back_now)

lemma clocked_execute: "clocked clk (fr_rc fr) \<Longrightarrow> clocked clk (fr_rc (execute L clk key rq pb fr))"
  by (auto simp: execute_def Let_def set_success_def split: prod.split
      intro!: clocked_recover clocked_roll_back_now elim!: clocked_run_apply clocked_run_result)

lemma clocked_snd:
  "clocked clk (fr_rc fr) \<Longrightarrow> clocked clk (fr_rc (snd (run_result clk op f fr)))"
  "clocked clk (fr_rc fr) \<Longrightarrow> clocked clk (fr_rc (snd (run_apply L clk key rq pb fr)))"
  by (metis clocked_run_result prod.collapse) (metis clocked_run_apply prod.collapse)

lemma clocked_dispatch:
  assumes "clocked clk (fr_rc fr)"
  shows "clocked clk (fr_rc (dispatch L clk key rq pb fr))"
proof (cases "rq_op rq")
  case Apply
  with assms clocked_snd [OF assms] show ?thesis
    by (auto simp: dispatch_def Let_def set_success_def split_beta intro!: clocked_recover)
qed (use assms clocked_snd [OF assms] in \<open>auto simp: dispatch_def Let_def set_success_def fail_with_def
  unknown_on_failure_def clocked_execute split: option.split\<close>)

definition all_times :: "receipt \<Rightarrow> instant list" where
  "all_times rc = rc_started rc # step_times rc @ [rc_finished rc]"

lemma all_times_finish:
  assumes "clocked clk rc"
  shows "all_times (finish L clk rc) = map clk [0..<2 * length (rc_steps rc) + 2]"
proof -
  let ?n = "2 * length (rc_steps rc)"
  have "[0..<?n + 2] = [0..<1] @ [1..<?n + 1] @ [?n + 1]"
    using upt_add_eq_append [of 0 1 "?n"] by (simp add: numeral_2_eq_2)
  then have "[0..<?n + 2] = 0 # [1..<?n + 1] @ [?n + 1]" by simp
  with assms show ?thesis by (simp add: all_times_def clocked_def step_times_def)
qed

end
