(* ===== verification/EngineProps.thy ===== *)
theory EngineProps
  imports EngineLaws
begin

text \<open>The properties of the action engine, over \<open>Engine\<close> and \<open>EngineLaws\<close>.\<close>

section \<open>Auxiliary facts on sealing\<close>

definition nul_free :: "string \<Rightarrow> bool" where
  "nul_free s \<longleftrightarrow> CHR 0x00 \<notin> set s"

lemma nul_split:
  assumes "nul_free a" and "nul_free b" and "a @ CHR 0x00 # x = b @ CHR 0x00 # y"
  shows "a = b \<and> x = y"
proof -
  have "cut (CHR 0x00) (a @ CHR 0x00 # x) = Some (a, x)" "cut (CHR 0x00) (b @ CHR 0x00 # y) = Some (b, y)"
    using assms(1,2) by (simp_all add: cut_append nul_free_def)
  then have "(a, x) = (b, y)" unfolding assms(3) by simp
  then show ?thesis by simp
qed

lemma sealed_for_fields [simp]:
  "sl_version (sealed_for L key aid ty params p) = 1"
  "sl_action_id (sealed_for L key aid ty params p) = aid"
  "sl_type (sealed_for L key aid ty params p) = ty"
  "sl_params_digest (sealed_for L key aid ty params p) = digest_parameters L params"
  "sl_payload (sealed_for L key aid ty params p) = p"
  by (simp_all add: sealed_for_def Let_def)

lemma mac_message_cong:
  "sl_version s = sl_version t \<Longrightarrow> sl_action_id s = sl_action_id t \<Longrightarrow> sl_type s = sl_type t \<Longrightarrow>
   sl_params_digest s = sl_params_digest t \<Longrightarrow> sl_payload s = sl_payload t \<Longrightarrow> mac_message s = mac_message t"
  by (simp add: mac_message_def)

lemma mac_message_ignores_mac [simp]: "mac_message (s\<lparr>sl_mac := m\<rparr>) = mac_message s"
  by (simp add: mac_message_def)

lemma sealed_for_mac: "sl_mac (sealed_for L key aid ty params p) = state_mac L key (sealed_for L key aid ty params p)"
proof -
  let ?s = "\<lparr>sl_version = 1, sl_action_id = aid, sl_type = ty,
    sl_params_digest = digest_parameters L params, sl_payload = p, sl_mac = []\<rparr>"
  have "mac_message (sealed_for L key aid ty params p) = mac_message ?s"
    by (rule mac_message_cong) simp_all
  moreover have "sl_mac (sealed_for L key aid ty params p) = state_mac L key ?s"
    by (simp add: sealed_for_def Let_def)
  ultimately show ?thesis by (simp add: state_mac_def)
qed

lemma sealed_for_eqI:
  "sl_version s = 1 \<Longrightarrow> sl_action_id s = aid \<Longrightarrow> sl_type s = ty \<Longrightarrow> sl_params_digest s = digest_parameters L params \<Longrightarrow>
   sl_payload s = p \<Longrightarrow> sl_mac s = state_mac L key s \<Longrightarrow> s = sealed_for L key aid ty params p"
proof -
  assume a: "sl_version s = 1" "sl_action_id s = aid" "sl_type s = ty"
    "sl_params_digest s = digest_parameters L params" "sl_payload s = p" "sl_mac s = state_mac L key s"
  then have "mac_message s = mac_message (sealed_for L key aid ty params p)"
    by (intro mac_message_cong) simp_all
  with a have "sl_mac s = sl_mac (sealed_for L key aid ty params p)"
    by (simp add: sealed_for_mac state_mac_def)
  with a show ?thesis by (intro sealed_state.equality) simp_all
qed

lemma register_spec:
  "register m ps = Inr m' \<Longrightarrow> distinct (map fst m) \<Longrightarrow>
   \<exists>qs. ps = map Some qs \<and> m' = m @ map (\<lambda>q. (pb_type q, q)) qs \<and> distinct (map fst m')"
proof (induction m ps rule: register.induct)
  case (3 m p ps)
  from "3.prems"(1) have ty: "pb_type p \<noteq> []" "map_of m (pb_type p) = None"
    and r: "register (m @ [(pb_type p, p)]) ps = Inr m'"
    by (auto split: if_splits)
  from ty(2) "3.prems"(2) have "distinct (map fst (m @ [(pb_type p, p)]))"
    by (simp add: map_of_eq_None_iff)
  with "3.IH" ty r obtain qs where "ps = map Some qs" "distinct (map fst m')"
    "m' = (m @ [(pb_type p, p)]) @ map (\<lambda>q. (pb_type q, q)) qs" by auto
  then show ?case by (intro exI [of _ "p # qs"]) simp
qed simp_all

section \<open>Properties\<close>

text \<open>
  C1: An \<open>execute\<close> request ends in one of nine ways: it is refused before any phase
  runs (no step, no state, host untouched), or its audit trail is one of eight
  sequences; only the one with four successful steps is a success, and rollback
  state leaves the engine only with a success or an indeterminate outcome.
\<close>

theorem run_execute_outcome:
  "let (rc, w') = run L clk rid e (rq\<lparr>rq_op := Execute\<rparr>) w
   in exec_outcome L rc \<or>
      (w' = w \<and> trace rc = [] \<and> \<not> rc_success rc \<and> \<not> rc_indeterminate rc \<and> rc_state rc = [])"
proof (cases rule: run_cases [of L e "rq\<lparr>rq_op := Execute\<rparr>" w clk rid])
  case (refused err)
  then show ?thesis by (simp add: blank_receipt_def trace_def)
next
  case (admitted pb p)
  have "exec_outcome L (fst (run L clk rid e (rq\<lparr>rq_op := Execute\<rparr>) w))"
    using run_execute_admitted [OF _ admitted(1)] by (simp add: execute_outcome fresh_start)
  then show ?thesis by (simp add: split_beta)
qed

text \<open>
  Rollback state is accepted only when it is exactly what this engine's key
  seals for the same action, type and parameters: a payload sealed for one action
  cannot be replayed into another.
\<close>

theorem open_state_authentic:
  assumes "open_state L key rq = Inr p"
  shows "dec_sealed L (rq_state rq) = Some (sealed_for L key (rq_action_id rq) (rq_type rq) (rq_params rq) p)
    \<and> json_ok L p \<and> length p \<le> max_rollback_state_bytes"
  using assms by (auto simp: open_state_def split: if_splits option.splits intro: sealed_for_eqI)

definition demo_lib :: lib where
  "demo_lib = \<lparr>json_ok = (\<lambda>s. s \<noteq> []), json_canonical = Some, sha256 = Cons CHR ''h'',
     hmac_sha256 = (\<lambda>k m. k @ m), enc_sealed = sl_payload,
     dec_sealed = (\<lambda>p. Some (sealed_for
        \<lparr>json_ok = (\<lambda>s. s \<noteq> []), json_canonical = Some, sha256 = Cons CHR ''h'', hmac_sha256 = (\<lambda>k m. k @ m),
         enc_sealed = sl_payload, dec_sealed = (\<lambda>_. None), enc_receipt = rc_error\<rparr>
        ''k'' ''a1'' TypeTemporaryIPBan ''{}'' p)),
     enc_receipt = rc_error\<rparr>"

definition demo_rollback :: request where
  "demo_rollback = \<lparr>rq_action_id = ''a1'', rq_actor = ''admin'', rq_type = TypeTemporaryIPBan,
     rq_op = Rollback, rq_params = ''{}'', rq_state = ''[7]''\<rparr>"

lemma demo_sealed:
  "dec_sealed demo_lib p = Some (sealed_for demo_lib ''k'' ''a1'' TypeTemporaryIPBan ''{}'' p)"
  by (simp add: demo_lib_def sealed_for_def Let_def state_mac_def digest_parameters_def digest_bytes_def)

lemma demo_open: "open_state demo_lib ''k'' demo_rollback = Inr ''[7]''"
proof -
  have "valid_state demo_lib ''[7]''" "json_ok demo_lib ''[7]''"
    by (simp_all add: valid_state_def demo_lib_def)
  then show ?thesis
    by (simp add: open_state_def demo_sealed demo_rollback_def sealed_for_mac)
qed

theorem open_state_authentic_witness:
  "dec_sealed demo_lib ''[7]'' =
     Some (sealed_for demo_lib ''k'' ''a1'' TypeTemporaryIPBan ''{}'' ''[7]'')"
  using open_state_authentic [OF demo_open] by (simp add: demo_rollback_def)

text \<open>
  Sealing and opening are inverse for the action they were sealed for, when
  the JSON coder of the sealed record round-trips this record into valid JSON.
\<close>

theorem seal_open_roundtrip:
  assumes "dec_sealed L (seal_state L key aid ty params p) = Some (sealed_for L key aid ty params p)"
    and "valid_state L (seal_state L key aid ty params p)"
    and "json_ok L p" and "length p \<le> max_rollback_state_bytes"
  shows "open_state L key \<lparr>rq_action_id = aid, rq_actor = actor, rq_type = ty, rq_op = op,
     rq_params = params, rq_state = seal_state L key aid ty params p\<rparr> = Inr p"
  using assms by (simp add: open_state_def sealed_for_mac)

theorem seal_open_roundtrip_witness:
  "open_state demo_lib ''k'' \<lparr>rq_action_id = ''a1'', rq_actor = ''x'', rq_type = TypeTemporaryIPBan,
     rq_op = Rollback, rq_params = ''{}'',
     rq_state = seal_state demo_lib ''k'' ''a1'' TypeTemporaryIPBan ''{}'' ''[7]''\<rparr> = Inr ''[7]''"
proof (rule seal_open_roundtrip)
  have s: "seal_state demo_lib ''k'' ''a1'' TypeTemporaryIPBan ''{}'' ''[7]'' = ''[7]''"
    by (simp add: seal_state_def demo_lib_def)
  show "dec_sealed demo_lib (seal_state demo_lib ''k'' ''a1'' TypeTemporaryIPBan ''{}'' ''[7]'') =
      Some (sealed_for demo_lib ''k'' ''a1'' TypeTemporaryIPBan ''{}'' ''[7]'')"
    unfolding s by (rule demo_sealed)
  show "valid_state demo_lib (seal_state demo_lib ''k'' ''a1'' TypeTemporaryIPBan ''{}'' ''[7]'')"
    unfolding s by (simp add: valid_state_def demo_lib_def)
  show "json_ok demo_lib ''[7]''" by (simp add: demo_lib_def)
  show "length ''[7]'' \<le> max_rollback_state_bytes" by simp
qed

text \<open>
  The message under the MAC determines every field it protects, so that two
  sealed states of version 1 with the same message agree on action, type,
  parameters and payload (no field can be shifted into its neighbour).
\<close>

theorem mac_message_injective:
  assumes "mac_message s = mac_message t" and "sl_version s = 1" and "sl_version t = 1"
    and "nul_free (sl_action_id s)" and "nul_free (sl_action_id t)"
    and "nul_free (sl_type s)" and "nul_free (sl_type t)"
    and "nul_free (sl_params_digest s)" and "nul_free (sl_params_digest t)"
  shows "sl_action_id s = sl_action_id t \<and> sl_type s = sl_type t \<and>
     sl_params_digest s = sl_params_digest t \<and> sl_payload s = sl_payload t"
proof -
  have "itoa 1 = ''1''" by code_simp
  then have one: "nul_free (itoa 1)" by (simp add: nul_free_def)
  have "sl_action_id s @ CHR 0x00 # sl_type s @ CHR 0x00 # sl_params_digest s @ CHR 0x00 # sl_payload s =
      sl_action_id t @ CHR 0x00 # sl_type t @ CHR 0x00 # sl_params_digest t @ CHR 0x00 # sl_payload t"
    using assms(1-3) nul_split [OF one one] by (simp add: mac_message_def)
  from nul_split [OF assms(4,5) this] have 1: "sl_action_id s = sl_action_id t"
    and r: "sl_type s @ CHR 0x00 # sl_params_digest s @ CHR 0x00 # sl_payload s =
      sl_type t @ CHR 0x00 # sl_params_digest t @ CHR 0x00 # sl_payload t" by simp_all
  from nul_split [OF assms(6,7) r] have 2: "sl_type s = sl_type t"
    and r: "sl_params_digest s @ CHR 0x00 # sl_payload s = sl_params_digest t @ CHR 0x00 # sl_payload t"
    by simp_all
  from nul_split [OF assms(8,9) r] 1 2 show ?thesis by simp
qed

definition demo_state :: sealed_state where
  "demo_state = \<lparr>sl_version = 1, sl_action_id = ''a1'', sl_type = TypeTemporaryIPBan,
     sl_params_digest = ''sha256:00'', sl_payload = ''{}'', sl_mac = ''aa''\<rparr>"

theorem mac_message_injective_witness:
  "sl_payload demo_state = sl_payload (demo_state\<lparr>sl_mac := ''bb''\<rparr>)"
  using mac_message_injective [of demo_state "demo_state\<lparr>sl_mac := ''bb''\<rparr>"]
  by (simp add: demo_state_def nul_free_def TypeTemporaryIPBan_def mac_message_def)

text \<open>
  C8: The audit trail is the run's own sequence of clock readings: the receipt's
  start, each step's start and end in order, and the receipt's end are exactly the
  readings \<open>0, 1, 2, ...\<close> of the clock, none skipped or repeated, for every
  operation and outcome.
\<close>

theorem run_clock_readings:
  "all_times (fst (run L clk rid e rq w)) =
     map clk [0..<2 * length (rc_steps (fst (run L clk rid e rq w))) + 2]"
proof (cases rule: run_cases [of L e rq w clk rid])
  case (refused err)
  have "clocked clk ((blank_receipt L clk rid rq)\<lparr>rc_error := err\<rparr>)"
    by (simp add: clocked_def blank_receipt_def step_times_def)
  from all_times_finish [OF this] refused show ?thesis by simp
next
  case (admitted pb p)
  have "clocked clk (fr_rc (start_frame L clk rid rq p w))"
    by (simp add: start_frame_def clocked_def blank_receipt_def step_times_def)
  from all_times_finish [OF clocked_dispatch [OF this]] admitted show ?thesis by simp
qed

text \<open>
  A phase of a playbook runs only for a request with a well-formed identity and
  actor and valid JSON parameters that the registered playbook of its type
  accepts, and a phase that works on rollback state only with state sealed for
  this request.
\<close>

theorem run_admission:
  assumes "rc_steps (fst (run L clk rid e rq w)) \<noteq> []"
  shows "action_id_ok (rq_action_id rq) \<and> rq_actor rq \<noteq> [] \<and> length (rq_actor rq) \<le> 128 \<and>
    json_ok L (rq_params rq) \<and>
    (\<exists>pb. map_of (eng_books e) (rq_type rq) = Some pb \<and> pb_validate pb (rq_params rq) w = None) \<and>
    (if state_operation (rq_op rq)
     then \<exists>p. dec_sealed L (rq_state rq) =
        Some (sealed_for L (eng_key e) (rq_action_id rq) (rq_type rq) (rq_params rq) p)
     else rq_state rq = [])"
proof (cases rule: run_cases [of L e rq w clk rid])
  case (refused err)
  with assms show ?thesis by (simp add: blank_receipt_def)
next
  case (admitted pb p)
  note adm = admit_Inr_D [OF admitted(1)]
  show ?thesis
  proof (cases "state_operation (rq_op rq)")
    case True
    with adm have "open_state L (eng_key e) rq = Inr p" by simp
    then have "dec_sealed L (rq_state rq) =
        Some (sealed_for L (eng_key e) (rq_action_id rq) (rq_type rq) (rq_params rq) p)"
      by (auto simp: open_state_def split: if_splits option.splits intro: sealed_for_eqI)
    with adm True show ?thesis by auto
  next
    case False
    with adm show ?thesis by auto
  qed
qed

definition demo_playbook :: "nat playbook" where
  "demo_playbook = \<lparr>pb_type = TypeTemporaryIPBan, pb_validate = (\<lambda>_ _. None),
     pb_precheck = (\<lambda>_ w. (Inr no_result, w)), pb_preview = (\<lambda>_ w. (Inr no_result, w)),
     pb_apply = (\<lambda>_ w. (no_apply\<lparr>apr_state := ''[7]''\<rparr>, None, w + 1)),
     pb_verify = (\<lambda>_ w. (Inr no_result, w)), pb_rollback = (\<lambda>_ w. (Inr no_result, w - 1)),
     pb_confirm = None\<rparr>"

theorem run_admission_witness:
  "action_id_ok (rq_action_id demo_rollback)"
proof -
  let ?e = "\<lparr>eng_books = [(TypeTemporaryIPBan, demo_playbook)], eng_key = ''k''\<rparr>"
  have "json_ok demo_lib ''{}''" by (simp add: demo_lib_def)
  moreover have "action_id_ok ''a1''"
    by (simp add: action_id_ok_def class_pattern_def is_alnum_def is_lower_def is_digit_def)
  ultimately have "admit demo_lib ?e demo_rollback 1 = Inr (demo_playbook, ''[7]'')"
    using demo_open by (simp add: admit_def demo_rollback_def demo_playbook_def state_operation_def)
  then have "rc_steps (fst (run demo_lib int ''r'' ?e demo_rollback 1)) \<noteq> []"
    by (simp add: run_def run_body_def dispatch_def demo_rollback_def valid_state_def demo_lib_def
        unknown_on_failure_def set_success_def run_result_def demo_playbook_def audit_def finish_def Let_def)
  from run_admission [OF this] show ?thesis by simp
qed

text \<open>
  C9: The engine accepts a list of playbooks only when all are present, named and
  of pairwise different types; then every one is found under its own type and
  \<open>Types\<close> lists exactly their types in order.
\<close>

theorem new_engine_registry:
  assumes "new_engine L key ps = Inr e"
  shows "\<exists>qs. ps = map Some qs \<and> distinct (map pb_type qs) \<and> 32 \<le> length key \<and>
    (\<forall>q \<in> set qs. map_of (eng_books e) (pb_type q) = Some q) \<and>
    sorted (engine_types e) \<and> set (engine_types e) = pb_type ` set qs"
proof -
  from assms obtain m where m: "register [] ps = Inr m" "32 \<le> length key" "eng_books e = m"
    by (auto simp: new_engine_def split: if_splits sum.splits)
  from register_spec [OF m(1)] obtain qs where qs: "ps = map Some qs"
    "m = map (\<lambda>q. (pb_type q, q)) qs" "distinct (map pb_type qs)" by (auto simp: comp_def)
  have "map_of m (pb_type q) = Some q" if "q \<in> set qs" for q
    using that qs(2,3) by (simp add: map_of_eq_Some_iff comp_def)
  with qs m(2,3) show ?thesis
    by (intro exI [of _ qs]) (auto simp: engine_types_def)
qed

theorem new_engine_registry_witness:
  "sorted (engine_types \<lparr>eng_books = [(TypeTemporaryIPBan, demo_playbook)],
     eng_key = CHR ''h'' # replicate 32 (CHR ''k'')\<rparr>)"
proof -
  have "new_engine demo_lib (replicate 32 (CHR ''k'')) [Some demo_playbook] =
      Inr \<lparr>eng_books = [(TypeTemporaryIPBan, demo_playbook)], eng_key = CHR ''h'' # replicate 32 (CHR ''k'')\<rparr>"
    by (simp add: new_engine_def demo_playbook_def demo_lib_def TypeTemporaryIPBan_def)
  from new_engine_registry [OF this] show ?thesis by blast
qed

end
