(* ===== verification/PlanGuard.thy ===== *)
theory PlanGuard
  imports ActionTypes
begin

text \<open>
  \<open>internal/action/package_plan_guard.go\<close>: the APT hook that reads the locked
  transaction plan and decides whether it may run, with the name patterns and
  version maps of \<open>package_upgrade.go\<close>.  A Go map is the association list of its
  entries in the (unspecified) order an iteration visits them.
\<close>

section \<open>Names and versions\<close>

definition base_char :: "char \<Rightarrow> bool" where
  "base_char c \<longleftrightarrow> is_lower c \<or> is_digit c"

definition debian_base :: "string \<Rightarrow> bool" where
  "debian_base = class_pattern base_char (\<lambda>c. base_char c \<or> c \<in> {CHR ''+'', CHR ''.'', CHR ''-''}) 127"

definition debian_arch :: "string \<Rightarrow> bool" where
  "debian_arch = class_pattern base_char (\<lambda>c. base_char c \<or> c = CHR ''-'') 31"

definition debian_version :: "string \<Rightarrow> bool" where
  "debian_version = class_pattern is_alnum
     (\<lambda>c. is_alnum c \<or> c \<in> {CHR ''.'', CHR ''+'', CHR '':'', CHR ''~'', CHR ''_'', CHR ''-''}) 255"

definition canonical_package :: "string \<Rightarrow> bool" where
  "canonical_package name =
     (case cut (CHR '':'') name of
        None \<Rightarrow> False
      | Some (base, arch) \<Rightarrow> \<not> contains arch '':'' \<and> debian_base base \<and> debian_arch arch)"

type_synonym version_map = "(string \<times> string) list"

definition valid_version_map :: "version_map \<Rightarrow> bool" where
  "valid_version_map m \<longleftrightarrow> m \<noteq> [] \<and> length m \<le> 20000 \<and>
     list_all (\<lambda>(name, v). canonical_package name \<and> debian_version v) m"

text \<open>Go's \<open>m[k]\<close> on a map to strings: the zero value when the key is absent.\<close>

definition get_str :: "version_map \<Rightarrow> string \<Rightarrow> string" where
  "get_str m k = (case map_of m k of None \<Rightarrow> [] | Some v \<Rightarrow> v)"

section \<open>Specifications, plans and results\<close>

record transition =
  tr_from :: string
  tr_to :: string
  tr_dir :: string

type_synonym plan = "(string \<times> transition) list"

datatype guard_mode = GuardApply | GuardRollback | GuardOther string

record guard_spec =
  gs_version :: int
  gs_mode :: guard_mode
  gs_installed :: version_map
  gs_authorized :: version_map
  gs_transitions :: plan

record guard_result =
  gr_version :: int
  gr_allowed :: bool
  gr_plan :: plan
  gr_reason :: string

definition valid_transitions :: "plan \<Rightarrow> bool" where
  "valid_transitions p \<longleftrightarrow> list_all (\<lambda>(name, t). canonical_package name \<and> debian_version (tr_from t) \<and>
     debian_version (tr_to t) \<and> tr_from t \<noteq> tr_to t \<and> (tr_dir t = ''<'' \<or> tr_dir t = ''>'')) p"

definition validate_spec :: "guard_spec \<Rightarrow> string option" where
  "validate_spec s =
     (if gs_version s \<noteq> 1 then Some ''unsupported package plan guard specification version''
      else case gs_mode s of
        GuardApply \<Rightarrow>
          (if \<not> valid_version_map (gs_installed s) \<or> \<not> valid_version_map (gs_authorized s)
              \<or> length (gs_authorized s) > 64 \<or> gs_transitions s \<noteq> []
           then Some ''invalid apply package plan guard baseline''
           else if \<not> list_all (\<lambda>(name, v). get_str (gs_installed s) name = v) (gs_authorized s)
           then Some ''authorized package set does not match the installed baseline''
           else None)
      | GuardRollback \<Rightarrow>
          (if gs_installed s \<noteq> [] \<or> gs_authorized s \<noteq> [] \<or> gs_transitions s = []
              \<or> length (gs_transitions s) > 512 \<or> \<not> valid_transitions (gs_transitions s)
           then Some ''invalid rollback package plan guard transitions''
           else None)
      | GuardOther _ \<Rightarrow> Some ''invalid package plan guard mode'')"

section \<open>Reading the plan\<close>

definition NL :: char where "NL = CHR 0x0A"
definition CR :: char where "CR = CHR 0x0D"

abbreviation max_plan_bytes :: nat where "max_plan_bytes \<equiv> 4194304"

text \<open>\<open>bufio.Reader.ReadString\<close>: the line with its newline, or the rest at end of file.\<close>

definition read_string :: "string \<Rightarrow> string \<times> bool \<times> string" where
  "read_string input =
     (let line = takeWhile (\<lambda>c. c \<noteq> NL) input; rest = dropWhile (\<lambda>c. c \<noteq> NL) input
      in case rest of [] \<Rightarrow> (line, True, []) | _ # rest' \<Rightarrow> (line @ [NL], False, rest'))"

datatype plan_line = Line string | EndOfFile | Oversized

definition read_plan_line :: "string \<Rightarrow> plan_line \<times> string" where
  "read_plan_line input =
     (let (raw, eof, rest) = read_string input;
          line = trim_suffix (trim_suffix raw [NL]) [CR]
      in if length raw > 65536 then (Oversized, rest)
         else if eof \<and> line = [] then (EndOfFile, rest)
         else (Line line, rest))"

lemma read_plan_line_shorter: "read_plan_line input = (Line l, rest) \<Longrightarrow> length rest < length input"
proof -
  assume a: "read_plan_line input = (Line l, rest)"
  show ?thesis
  proof (cases "dropWhile (\<lambda>c. c \<noteq> NL) input")
    case Nil
    then have "read_string input = (takeWhile (\<lambda>c. c \<noteq> NL) input, True, [])"
      unfolding read_string_def Let_def Nil by simp
    with a have "rest = []" "input \<noteq> []"
      by (auto simp: read_plan_line_def Let_def trim_suffix_def has_suffix_def split: if_splits)
    then show ?thesis by simp
  next
    case (Cons c cs)
    then have "read_string input = (takeWhile (\<lambda>c. c \<noteq> NL) input @ [NL], False, cs)"
      by (simp add: read_string_def Let_def)
    with a have "rest = cs" by (auto simp: read_plan_line_def Let_def split: if_splits)
    moreover have "length (dropWhile (\<lambda>c. c \<noteq> NL) input) \<le> length input" by (rule length_dropWhile_le)
    ultimately show ?thesis using Cons by simp
  qed
qed

record apt_side =
  side_present :: bool
  side_arch :: string
  side_multi :: string

definition absent_side :: apt_side where
  "absent_side = \<lparr>side_present = False, side_arch = [], side_multi = []\<rparr>"

definition parse_side :: "string \<Rightarrow> string \<Rightarrow> string \<Rightarrow> apt_side option" where
  "parse_side version arch multi =
     (if version = ''-'' then
        (if arch \<noteq> ''-'' \<or> (multi \<noteq> ''none'' \<and> multi \<noteq> ''no'') then None else Some absent_side)
      else if \<not> debian_version version \<or> \<not> debian_arch arch then None
      else (let m = (if multi = ''none'' then ''no'' else multi)
            in if m \<noteq> ''same'' \<and> m \<noteq> ''foreign'' \<and> m \<noteq> ''allowed'' \<and> m \<noteq> ''no'' then None
               else Some \<lparr>side_present = True, side_arch = arch, side_multi = m\<rparr>))"

text \<open>One action line: the package, its transition, and whether it is a configure action.\<close>

definition parse_action :: "string \<Rightarrow> string + string \<times> transition \<times> bool" where
  "parse_action line =
     (case go_fields line of
        [name, v1, a1, m1, dir, v2, a2, m2, act] \<Rightarrow>
          (if \<not> debian_base name \<or> (dir \<noteq> ''<'' \<and> dir \<noteq> ''='' \<and> dir \<noteq> ''>'')
           then Inl ''APT plan contains a malformed package action''
           else case (parse_side v1 a1 m1, parse_side v2 a2 m2) of
             (Some old, Some new) \<Rightarrow>
               (if \<not> side_present old \<and> \<not> side_present new
                then Inl ''APT plan contains an invalid version, architecture, or Multi-Arch tuple''
                else if side_present old \<and> side_present new
                   \<and> (side_arch old \<noteq> side_arch new \<or> side_multi old \<noteq> side_multi new)
                then Inl ''APT plan changes package architecture or Multi-Arch type''
                else (let arch = (if side_present old then side_arch old else side_arch new);
                          key = name @ '':'' @ arch;
                          t = \<lparr>tr_from = v1, tr_to = v2, tr_dir = dir\<rparr>
                      in if act = ''**CONFIGURE**'' then Inr (key, t, True)
                         else if act \<noteq> ''**REMOVE**'' \<and> (\<not> has_prefix act ''/'' \<or> \<not> has_suffix act ''.deb'')
                         then Inl ''APT plan contains an unsupported package action''
                         else Inr (key, t, False)))
           | _ \<Rightarrow> Inl ''APT plan contains an invalid version, architecture, or Multi-Arch tuple'')
      | _ \<Rightarrow> Inl ''APT plan contains a malformed package action'')"

text \<open>\<open>m[name] = t\<close>, refused when another transition is there already.\<close>

definition put_same :: "plan \<Rightarrow> string \<Rightarrow> transition \<Rightarrow> plan option" where
  "put_same m name t =
     (case map_of m name of
        None \<Rightarrow> Some (m @ [(name, t)])
      | Some t' \<Rightarrow> if t' = t then Some m else None)"

function read_config :: "string \<Rightarrow> string + string" where
  "read_config input =
     (case read_plan_line input of
        (Line l, rest) \<Rightarrow>
          (if l = [] then Inr rest
           else if \<not> contains l ''='' \<or> CHR 0x00 \<in> set l
           then Inl ''APT plan contains a malformed configuration line''
           else read_config rest)
      | _ \<Rightarrow> Inl ''APT plan ended before its configuration delimiter'')"
  by pat_completeness auto
termination by (relation "measure length") (auto dest: read_plan_line_shorter [OF sym])

function read_actions :: "string \<Rightarrow> plan \<Rightarrow> plan \<Rightarrow> string + plan \<times> plan" where
  "read_actions input plan conf =
     (case read_plan_line input of
        (EndOfFile, rest) \<Rightarrow> Inr (plan, conf)
      | (Oversized, rest) \<Rightarrow> Inl ''APT plan contains an oversized line''
      | (Line l, rest) \<Rightarrow>
          (if l = [] then read_actions rest plan conf
           else case parse_action l of
               Inl e \<Rightarrow> Inl e
             | Inr (name, t, True) \<Rightarrow>
                 (case put_same conf name t of
                    None \<Rightarrow> Inl ''APT plan contains conflicting configure actions''
                  | Some conf' \<Rightarrow> read_actions rest plan conf')
             | Inr (name, t, False) \<Rightarrow>
                 (case put_same plan name t of
                    None \<Rightarrow> Inl ''APT plan contains conflicting package transitions''
                  | Some plan' \<Rightarrow>
                      (if length plan' > 512 then Inl ''APT plan exceeds the supported transaction size''
                       else read_actions rest plan' conf))))"
  by pat_completeness auto
termination by (relation "measure (\<lambda>(input, _, _). length input)") (auto dest: read_plan_line_shorter [OF sym])

declare read_config.simps [simp del] read_actions.simps [simp del]

definition parse_plan :: "string \<Rightarrow> string + plan" where
  "parse_plan stream =
     (case read_plan_line (take (max_plan_bytes + 1) stream) of
        (Line l, rest) \<Rightarrow>
          (if l \<noteq> ''VERSION 3'' then Inl ''APT plan is not version 3''
           else case read_config rest of
               Inl e \<Rightarrow> Inl e
             | Inr rest' \<Rightarrow>
                (case read_actions rest' [] [] of
                   Inl e \<Rightarrow> Inl e
                 | Inr (plan, conf) \<Rightarrow>
                    (if \<not> list_all (\<lambda>(name, t). map_of plan name = Some t) conf
                     then Inl ''APT plan contains an unpaired configure action''
                     else if plan = [] then Inl ''APT plan did not contain a package transition''
                     else Inr plan)))
      | _ \<Rightarrow> Inl ''APT plan is not version 3'')"

section \<open>Deciding\<close>

fun validate_apply :: "guard_spec \<Rightarrow> plan \<Rightarrow> string option" where
  "validate_apply s [] = None"
| "validate_apply s ((name, t) # p) =
     (case map_of (gs_authorized s) name of
        None \<Rightarrow> Some (''package '' @ quote name @ '' is outside the explicitly authorized package set'')
      | Some av \<Rightarrow>
         (case map_of (gs_installed s) name of
            None \<Rightarrow> Some (''package '' @ quote name @ '' would be newly installed or removed; refusing a non-reversible upgrade'')
          | Some base \<Rightarrow>
             (if tr_from t = ''-'' \<or> tr_to t = ''-''
              then Some (''package '' @ quote name @ '' would be newly installed or removed; refusing a non-reversible upgrade'')
              else if tr_from t \<noteq> base \<or> tr_from t \<noteq> av
              then Some (''package '' @ quote name @ '' changed while waiting for the APT lock'')
              else if tr_from t = tr_to t \<or> tr_dir t \<noteq> ''<''
              then Some (''package '' @ quote name @ '' would not be upgraded monotonically'')
              else validate_apply s p)))"

fun validate_rollback :: "guard_spec \<Rightarrow> plan \<Rightarrow> string option" where
  "validate_rollback s [] = None"
| "validate_rollback s ((name, t) # p) =
     (case map_of (gs_transitions s) name of
        None \<Rightarrow> Some (''rollback would mutate unrecorded package '' @ quote name)
      | Some expected \<Rightarrow>
         (if t \<noteq> expected
          then Some (''package '' @ quote name @ '' changed while waiting for the APT rollback lock'')
          else if tr_from t = ''-'' \<or> tr_to t = ''-'' \<or> tr_from t = tr_to t \<or> tr_dir t \<noteq> ''>''
          then Some (''rollback would install or remove package '' @ quote name)
          else validate_rollback s p))"

definition validate_locked :: "guard_spec \<Rightarrow> plan \<Rightarrow> string option" where
  "validate_locked s p =
     (case gs_mode s of
        GuardApply \<Rightarrow> validate_apply s p
      | GuardRollback \<Rightarrow> validate_rollback s p
      | GuardOther _ \<Rightarrow> Some ''invalid package plan guard mode'')"

section \<open>The hook\<close>

text \<open>
  A transaction directory: what its validation, and opening and decoding its
  \<open>spec.json\<close>, return, and the result file the hook creates exclusively.
\<close>

record plan_dir =
  pd_check :: "string option"
  pd_spec :: "string + guard_spec"
  pd_result :: "guard_result option"

definition read_spec :: "plan_dir \<Rightarrow> string + guard_spec" where
  "read_spec d =
     (case pd_spec d of Inl e \<Rightarrow> Inl e
      | Inr s \<Rightarrow> (case validate_spec s of Some e \<Rightarrow> Inl e | None \<Rightarrow> Inr s))"

definition guard_decision :: "guard_spec \<Rightarrow> string \<Rightarrow> guard_result" where
  "guard_decision s stream =
     (case parse_plan stream of
        Inl _ \<Rightarrow> \<lparr>gr_version = 1, gr_allowed = False, gr_plan = [],
                 gr_reason = ''APT supplied an invalid or incomplete locked transaction plan''\<rparr>
      | Inr plan \<Rightarrow>
         (case validate_locked s plan of
            Some e \<Rightarrow> \<lparr>gr_version = 1, gr_allowed = False, gr_plan = [], gr_reason = e\<rparr>
          | None \<Rightarrow> \<lparr>gr_version = 1, gr_allowed = True, gr_plan = plan, gr_reason = []\<rparr>))"

definition run_plan_guard :: "string \<Rightarrow> plan_dir \<Rightarrow> string option \<times> plan_dir" where
  "run_plan_guard stream d =
     (case pd_check d of
        Some e \<Rightarrow> (Some e, d)
      | None \<Rightarrow>
         (case read_spec d of
            Inl e \<Rightarrow> (Some e, d)
          | Inr s \<Rightarrow>
             (let r = guard_decision s stream
              in if pd_result d \<noteq> None then (Some ''persist locked APT plan: file exists'', d)
                 else (if gr_allowed r then None else Some (gr_reason r), d\<lparr>pd_result := Some r\<rparr>))))"

text \<open>The checks \<open>readPackagePlanGuardResult\<close> makes on the decoded result.\<close>

definition acceptable_result :: "guard_result \<Rightarrow> bool" where
  "acceptable_result r \<longleftrightarrow> \<not> (gr_version r \<noteq> 1 \<or> (gr_plan r \<noteq> [] \<and> \<not> valid_transitions (gr_plan r))
     \<or> (gr_allowed r \<and> gr_plan r = []) \<or> (\<not> gr_allowed r \<and> gr_reason r = []))"

end
