(* ===== verification/PlanGuardProps.thy ===== *)
theory PlanGuardProps
  imports PlanGuard
begin

text \<open>What the package plan guard lets through, and the round trip of its plan reader.\<close>

section \<open>Parsed plans\<close>

lemma arch_no_colon: "debian_arch a \<Longrightarrow> CHR '':'' \<notin> set a"
  by (auto simp: debian_arch_def base_char_def is_lower_def is_digit_def dest!: class_pattern_chars)

lemma base_no_colon: "debian_base b \<Longrightarrow> CHR '':'' \<notin> set b"
  by (auto simp: debian_base_def base_char_def is_lower_def is_digit_def dest!: class_pattern_chars)

lemma contains_colon: "CHR '':'' \<notin> set a \<Longrightarrow> \<not> contains a '':''"
  by (induction a) auto

lemma canonical_packageI: "debian_base b \<Longrightarrow> debian_arch a \<Longrightarrow> canonical_package (b @ '':'' @ a)"
  using cut_append [OF base_no_colon, of b a] arch_no_colon [of a]
  by (simp add: canonical_package_def contains_colon)

definition entry_ok :: "string \<times> transition \<Rightarrow> bool" where
  "entry_ok e \<longleftrightarrow> canonical_package (fst e) \<and> (tr_from (snd e) = ''-'' \<or> debian_version (tr_from (snd e)))
     \<and> (tr_to (snd e) = ''-'' \<or> debian_version (tr_to (snd e)))
     \<and> tr_dir (snd e) \<in> {''<'', ''='', ''>''}"

lemma parse_side_SomeD:
  "parse_side v a m = Some s \<Longrightarrow>
   (if side_present s then v \<noteq> ''-'' \<and> debian_version v \<and> debian_arch a \<and> side_arch s = a else v = ''-'')"
  by (auto simp: parse_side_def absent_side_def Let_def split: if_splits)

lemma parse_action_entry:
  assumes "parse_action line = Inr (name, t, b)"
  shows "entry_ok (name, t)"
proof -
  from assms obtain n v1 a1 m1 d v2 a2 m2 act where f: "go_fields line = [n, v1, a1, m1, d, v2, a2, m2, act]"
    by (auto simp: parse_action_def split: list.splits)
  from assms f obtain old new where s: "parse_side v1 a1 m1 = Some old" "parse_side v2 a2 m2 = Some new"
    and n: "debian_base n" "d \<in> {''<'', ''='', ''>''}"
    and p: "side_present old \<or> side_present new"
    and r: "name = n @ '':'' @ (if side_present old then side_arch old else side_arch new)"
      "t = \<lparr>tr_from = v1, tr_to = v2, tr_dir = d\<rparr>"
    by (auto simp: parse_action_def Let_def split: if_splits option.splits)
  from s p have "debian_arch (if side_present old then side_arch old else side_arch new)"
    by (auto dest!: parse_side_SomeD split: if_splits)
  then have c: "canonical_package name" using n(1) canonical_packageI r(1) by blast
  moreover have "v1 = ''-'' \<or> debian_version v1" "v2 = ''-'' \<or> debian_version v2"
    using s by (auto dest!: parse_side_SomeD split: if_splits)
  ultimately show ?thesis using n(2) r(2) by (simp add: entry_ok_def)
qed

definition plan_inv :: "plan \<Rightarrow> bool" where
  "plan_inv p \<longleftrightarrow> distinct (map fst p) \<and> list_all entry_ok p \<and> length p \<le> 512"

lemma put_same_SomeD:
  "put_same m name t = Some m' \<Longrightarrow>
   m' = m \<and> map_of m name = Some t \<or> m' = m @ [(name, t)] \<and> map_of m name = None"
  by (auto simp: put_same_def split: option.splits if_splits)

lemma plan_inv_put:
  "plan_inv p \<Longrightarrow> put_same p name t = Some p' \<Longrightarrow> entry_ok (name, t) \<Longrightarrow> length p' \<le> 512 \<Longrightarrow> plan_inv p'"
  by (auto simp: plan_inv_def map_of_eq_None_iff dest!: put_same_SomeD)

lemma read_actions_inv:
  "read_actions input plan conf = Inr (plan', conf') \<Longrightarrow> plan_inv plan \<Longrightarrow> plan_inv plan'"
proof (induction input plan conf rule: read_actions.induct)
  case (1 input plan conf)
  note eq = "1.prems"(1) [unfolded read_actions.simps [of input plan conf]]
  show ?case
  proof (cases "read_plan_line input")
    case (Pair pl rest)
    show ?thesis
    proof (cases pl)
      case (Line l)
      show ?thesis
      proof (cases "l = []")
        case True
        with eq Pair Line "1.IH"(1) [OF Pair [symmetric] Line] "1.prems"(2) show ?thesis by simp
      next
        case False
        with eq Pair Line obtain name t b where pa: "parse_action l = Inr (name, t, b)"
          by (auto split: sum.splits)
        show ?thesis
        proof (cases b)
          case True
          with eq Pair Line False pa "1.IH"(2) "1.prems"(2) show ?thesis
            by (auto split: option.splits)
        next
          case b: False
          with eq Pair Line False pa obtain p' where p': "put_same plan name t = Some p'" "length p' \<le> 512"
            and r: "read_actions rest p' conf = Inr (plan', conf')"
            by (auto split: option.splits if_splits)
          have "plan_inv p'"
            using plan_inv_put "1.prems"(2) p' parse_action_entry [OF pa] by blast
          with "1.IH"(3) [OF Pair [symmetric] Line False pa] b p' r show ?thesis by simp
        qed
      qed
    qed (use eq Pair "1.prems" in auto)
  qed
qed

lemma parse_plan_inv: "parse_plan stream = Inr p \<Longrightarrow> plan_inv p \<and> p \<noteq> []"
  by (auto simp: parse_plan_def plan_inv_def [of "[]"] dest!: read_actions_inv
      split: prod.splits plan_line.splits if_splits sum.splits)

section \<open>Decisions\<close>

lemma validate_apply_None_iff:
  "validate_apply s p = None \<longleftrightarrow> list_all (\<lambda>(name, t). map_of (gs_authorized s) name = Some (tr_from t) \<and>
     map_of (gs_installed s) name = Some (tr_from t) \<and> tr_from t \<noteq> ''-'' \<and> tr_to t \<noteq> ''-'' \<and>
     tr_from t \<noteq> tr_to t \<and> tr_dir t = ''<'') p"
  by (induction s p rule: validate_apply.induct) (auto split: option.split)

lemma validate_rollback_None_iff:
  "validate_rollback s p = None \<longleftrightarrow> list_all (\<lambda>(name, t). map_of (gs_transitions s) name = Some t \<and>
     tr_from t \<noteq> ''-'' \<and> tr_to t \<noteq> ''-'' \<and> tr_from t \<noteq> tr_to t \<and> tr_dir t = ''>'') p"
  by (induction s p rule: validate_rollback.induct) (auto split: option.split)

lemma guard_allowedD:
  "gr_allowed (guard_decision s stream) \<Longrightarrow>
   parse_plan stream = Inr (gr_plan (guard_decision s stream)) \<and>
   validate_locked s (gr_plan (guard_decision s stream)) = None"
  by (auto simp: guard_decision_def split: sum.splits option.splits)

lemma validate_locked_reason: "validate_locked s p = Some e \<Longrightarrow> e \<noteq> []"
proof -
  have "validate_apply s p = Some e \<Longrightarrow> e \<noteq> []"
    by (induction s p rule: validate_apply.induct) (auto split: option.splits if_splits)
  moreover have "validate_rollback s p = Some e \<Longrightarrow> e \<noteq> []"
    by (induction s p rule: validate_rollback.induct) (auto split: option.splits if_splits)
  ultimately show "validate_locked s p = Some e \<Longrightarrow> e \<noteq> []"
    by (auto simp: validate_locked_def split: guard_mode.splits)
qed

lemma allowed_transitions_valid:
  assumes "gr_allowed (guard_decision s stream)"
  shows "valid_transitions (gr_plan (guard_decision s stream))"
proof -
  let ?p = "gr_plan (guard_decision s stream)"
  from guard_allowedD [OF assms] have inv: "plan_inv ?p" and v: "validate_locked s ?p = None"
    using parse_plan_inv by blast+
  have "canonical_package n \<and> debian_version (tr_from t) \<and> debian_version (tr_to t) \<and>
      tr_from t \<noteq> tr_to t \<and> (tr_dir t = ''<'' \<or> tr_dir t = ''>'')" if "(n, t) \<in> set ?p" for n t
  proof -
    from inv that have "entry_ok (n, t)" by (auto simp: plan_inv_def list_all_iff)
    moreover from v that have "tr_from t \<noteq> ''-'' \<and> tr_to t \<noteq> ''-'' \<and> tr_from t \<noteq> tr_to t \<and>
        (tr_dir t = ''<'' \<or> tr_dir t = ''>'')"
      by (auto simp: validate_locked_def validate_apply_None_iff validate_rollback_None_iff list_all_iff
          split: guard_mode.splits)
    ultimately show ?thesis by (auto simp: entry_ok_def)
  qed
  then show ?thesis by (auto simp: valid_transitions_def list_all_iff)
qed

lemma acceptable_decision: "acceptable_result (guard_decision s stream)"
proof (cases "gr_allowed (guard_decision s stream)")
  case True
  have "gr_plan (guard_decision s stream) \<noteq> []"
    using guard_allowedD [OF True] parse_plan_inv by blast
  moreover have "gr_version (guard_decision s stream) = 1"
    by (simp add: guard_decision_def split: sum.split option.split)
  ultimately show ?thesis
    using True allowed_transitions_valid [OF True] by (simp add: acceptable_result_def)
next
  case False
  then show ?thesis
    by (auto simp: acceptable_result_def guard_decision_def dest: validate_locked_reason
        split: sum.splits option.splits)
qed

section \<open>The round trip\<close>

text \<open>One upgrade as APT prints it: package, architecture, versions and archive.\<close>

record upgrade =
  up_base :: string
  up_arch :: string
  up_from :: string
  up_to :: string
  up_archive :: string

definition upgrade_ok :: "upgrade \<Rightarrow> bool" where
  "upgrade_ok u \<longleftrightarrow> debian_base (up_base u) \<and> debian_arch (up_arch u) \<and> debian_version (up_from u) \<and>
     debian_version (up_to u) \<and> is_word (up_archive u) \<and> has_prefix (up_archive u) ''/'' \<and>
     has_suffix (up_archive u) ''.deb'' \<and> length (up_archive u) \<le> 4096"

definition up_words :: "upgrade \<Rightarrow> string list" where
  "up_words u = [up_base u, up_from u, up_arch u, ''none'', ''<'', up_to u, up_arch u, ''none'', up_archive u]"

definition up_line :: "upgrade \<Rightarrow> string" where
  "up_line u = unwords (up_words u) @ [NL]"

definition up_entry :: "upgrade \<Rightarrow> string \<times> transition" where
  "up_entry u = (up_base u @ '':'' @ up_arch u, \<lparr>tr_from = up_from u, tr_to = up_to u, tr_dir = ''<''\<rparr>)"

definition render_plan :: "upgrade list \<Rightarrow> string" where
  "render_plan us = ''VERSION 3'' @ [NL] @ ''APT::Architecture=amd64'' @ [NL] @ [NL] @ concat (map up_line us)"

lemma alnum_graph: "is_alnum c \<Longrightarrow> is_graph c"
  by (auto simp: is_alnum_def is_lower_def is_upper_def is_digit_def is_graph_def)

lemma base_graph: "base_char c \<Longrightarrow> is_graph c"
  by (auto simp: base_char_def is_lower_def is_digit_def is_graph_def)

lemma pattern_word:
  assumes "class_pattern p q n s" and "\<And>c. p c \<or> q c \<Longrightarrow> is_graph c"
  shows "is_word s"
  using assms class_pattern_nonempty [OF assms(1)] class_pattern_chars [OF assms(1)]
  by (auto simp: is_word_def list_all_iff)

lemma version_word: "debian_version v \<Longrightarrow> is_word v"
  unfolding debian_version_def by (erule pattern_word) (auto dest!: alnum_graph simp: is_graph_def)

lemma base_word: "debian_base v \<Longrightarrow> is_word v"
  unfolding debian_base_def by (erule pattern_word) (auto dest!: base_graph simp: is_graph_def)

lemma arch_word: "debian_arch v \<Longrightarrow> is_word v"
  unfolding debian_arch_def by (erule pattern_word) (auto dest!: base_graph simp: is_graph_def)

lemma up_words_ok: "upgrade_ok u \<Longrightarrow> list_all is_word (up_words u)"
  by (auto simp: upgrade_ok_def up_words_def version_word base_word arch_word)
    (simp_all add: is_word_def is_graph_def)

lemma not_dash_version: "debian_version v \<Longrightarrow> v \<noteq> ''-''"
  by (auto simp: debian_version_def class_pattern_def is_alnum_def is_lower_def is_upper_def is_digit_def)

lemma parse_up_line:
  assumes "upgrade_ok u"
  shows "parse_action (unwords (up_words u)) = Inr (fst (up_entry u), snd (up_entry u), False)"
proof -
  have "go_fields (unwords (up_words u)) = up_words u"
    using fields_unwords [OF up_words_ok [OF assms]] by (simp add: up_words_def)
  moreover have "up_archive u \<noteq> ''**CONFIGURE**''"
    using assms by (auto simp: upgrade_ok_def)
  ultimately show ?thesis
    using assms not_dash_version [of "up_from u"] not_dash_version [of "up_to u"]
    by (simp add: parse_action_def up_words_def upgrade_ok_def parse_side_def up_entry_def Let_def)
qed

lemma length_unwords: "length (unwords ws) \<le> sum_list (map (\<lambda>w. Suc (length w)) ws)"
  by (induction ws rule: unwords.induct) auto

lemma up_line_short: "upgrade_ok u \<Longrightarrow> length (up_line u) \<le> 65536"
  using length_unwords [of "up_words u"]
  by (auto simp: up_line_def up_words_def upgrade_ok_def debian_base_def debian_arch_def debian_version_def
      dest!: class_pattern_length)

lemma no_newline_word: "is_word w \<Longrightarrow> NL \<notin> set w \<and> CR \<notin> set w"
  by (auto simp: is_word_def list_all_iff is_graph_def NL_def CR_def)

lemma trim_suffix_one: "trim_suffix s [c] = (if s \<noteq> [] \<and> last s = c then butlast s else s)"
  by (cases s rule: rev_cases) (auto simp: trim_suffix_def has_suffix_def)

lemma read_line_at:
  assumes "NL \<notin> set l" and "CR \<notin> set l" and "length l < 65536"
  shows "read_plan_line (l @ NL # rest) = (Line l, rest)"
proof -
  have "takeWhile (\<lambda>c. c \<noteq> NL) (l @ NL # rest) = l" "dropWhile (\<lambda>c. c \<noteq> NL) (l @ NL # rest) = NL # rest"
    using assms(1) by (simp_all add: takeWhile_append2 dropWhile_append2 takeWhile_append dropWhile_append)
  then have "read_string (l @ NL # rest) = (l @ [NL], False, rest)"
    by (simp add: read_string_def Let_def)
  moreover have "l \<noteq> [] \<Longrightarrow> last l \<noteq> CR" using assms(2) by (metis last_in_set)
  ultimately show ?thesis
    using assms(3) by (auto simp: read_plan_line_def Let_def trim_suffix_one)
qed

lemma read_up_line:
  assumes "upgrade_ok u"
  shows "read_plan_line (up_line u @ rest) = (Line (unwords (up_words u)), rest)"
proof -
  have "NL \<notin> set (unwords (up_words u))" "CR \<notin> set (unwords (up_words u))"
    using set_unwords [of "up_words u"] up_words_ok [OF assms]
    by (auto simp: list_all_iff dest!: no_newline_word subsetD) (auto simp: NL_def CR_def)
  with up_line_short [OF assms] show ?thesis
    using read_line_at by (simp add: up_line_def)
qed

lemma read_end: "read_plan_line [] = (EndOfFile, [])"
  by (simp add: read_plan_line_def read_string_def trim_suffix_def has_suffix_def)

lemma read_rendered:
  assumes "list_all upgrade_ok us" and "distinct (map fst (p @ map up_entry us))"
    and "length p + length us \<le> 512"
  shows "read_actions (concat (map up_line us)) p [] = Inr (p @ map up_entry us, [])"
  using assms
proof (induction us arbitrary: p)
  case Nil
  then show ?case by (simp add: read_actions.simps read_end)
next
  case (Cons u us)
  have ok: "upgrade_ok u" and ne: "unwords (up_words u) \<noteq> []"
    using Cons.prems(1) unwords_nonempty [OF up_words_ok] by (auto simp: up_words_def)
  have "map_of p (fst (up_entry u)) = None"
    using Cons.prems(2) by (auto simp: map_of_eq_None_iff)
  then have "put_same p (fst (up_entry u)) (snd (up_entry u)) = Some (p @ [up_entry u])"
    by (simp add: put_same_def)
  then have "read_actions (concat (map up_line (u # us))) p [] =
      read_actions (concat (map up_line us)) (p @ [up_entry u]) []"
    using ne Cons.prems(3)
    by (subst read_actions.simps) (simp add: read_up_line [OF ok] parse_up_line [OF ok])
  also have "\<dots> = Inr (p @ map up_entry (u # us), [])"
    using Cons.IH [of "p @ [up_entry u]"] Cons.prems by simp
  finally show ?case .
qed

lemma read_header: "read_config (''APT::Architecture=amd64'' @ [NL] @ [NL] @ rest) = Inr rest"
proof -
  have "read_plan_line (''APT::Architecture=amd64'' @ NL # [NL] @ rest) =
      (Line ''APT::Architecture=amd64'', [NL] @ rest)"
    by (rule read_line_at) (simp_all add: NL_def CR_def)
  moreover have "read_plan_line ([] @ NL # rest) = (Line [], rest)"
    by (rule read_line_at) simp_all
  ultimately show ?thesis by (simp add: read_config.simps)
qed

lemma parse_rendered:
  assumes "list_all upgrade_ok us" and "us \<noteq> []" and "distinct (map (fst \<circ> up_entry) us)"
    and "length us \<le> 512" and "length (render_plan us) \<le> max_plan_bytes"
  shows "parse_plan (render_plan us) = Inr (map up_entry us)"
proof -
  have "read_plan_line (''VERSION 3'' @ NL # ''APT::Architecture=amd64'' @ [NL] @ [NL] @ concat (map up_line us)) =
      (Line ''VERSION 3'', ''APT::Architecture=amd64'' @ [NL] @ [NL] @ concat (map up_line us))"
    by (rule read_line_at) (simp_all add: NL_def CR_def)
  then have "read_plan_line (take (max_plan_bytes + 1) (render_plan us)) =
      (Line ''VERSION 3'', ''APT::Architecture=amd64'' @ [NL] @ [NL] @ concat (map up_line us))"
    using assms(5) by (simp add: render_plan_def)
  moreover have "read_actions (concat (map up_line us)) [] [] = Inr (map up_entry us, [])"
    using read_rendered [of us "[]"] assms by (simp add: comp_def)
  ultimately show ?thesis
    using assms(2) read_header [of "concat (map up_line us)"] by (simp add: parse_plan_def)
qed

section \<open>Properties\<close>

text \<open>What an apply-mode guard knows of each entry it lets through.\<close>

definition upgrade_authorized :: "guard_spec \<Rightarrow> string \<times> transition \<Rightarrow> bool" where
  "upgrade_authorized s e \<longleftrightarrow> (let (name, t) = e in
     map_of (gs_authorized s) name = Some (tr_from t) \<and> map_of (gs_installed s) name = Some (tr_from t) \<and>
     tr_from t \<noteq> tr_to t \<and> debian_version (tr_to t) \<and> tr_dir t = ''<'')"

lemma authorized_keys:
  assumes "list_all (upgrade_authorized s) p"
  shows "fst ` set p \<subseteq> fst ` set (gs_authorized s)"
proof
  fix n assume "n \<in> fst ` set p"
  then obtain t where "(n, t) \<in> set p" by auto
  with assms have "map_of (gs_authorized s) n = Some (tr_from t)"
    by (auto simp: list_all_iff upgrade_authorized_def)
  then show "n \<in> fst ` set (gs_authorized s)" by (metis domI dom_map_of_conv_image_fst)
qed

lemma plan_card:
  assumes "distinct (map fst p)" and "fst ` set p \<subseteq> fst ` set (m :: ('k \<times> 'v) list)"
  shows "length p \<le> length m"
proof -
  have "length p = card (set (map fst p))" using assms(1) by (metis distinct_card length_map)
  also have "\<dots> \<le> card (set (map fst m))" using assms(2) by (intro card_mono) auto
  also have "\<dots> \<le> length m" by (metis card_length length_map)
  finally show ?thesis .
qed

text \<open>
  C2: In apply mode the hook lets a locked APT transaction run only when every
  package it touches is in the authorized set and is installed at exactly the
  version both baselines recorded, and moves strictly upward to another version:
  nothing is installed, removed or downgraded, no package appears twice, and no
  more packages move than were authorized (at most 64).
\<close>

theorem guard_apply_sound:
  assumes "validate_spec s = None" and "gs_mode s = GuardApply" and "gr_allowed (guard_decision s stream)"
  shows "let p = gr_plan (guard_decision s stream) in
     parse_plan stream = Inr p \<and> p \<noteq> [] \<and> distinct (map fst p) \<and> length p \<le> 64 \<and>
     list_all (upgrade_authorized s) p"
proof -
  let ?p = "gr_plan (guard_decision s stream)"
  note allowed = guard_allowedD [OF assms(3)]
  then have inv: "plan_inv ?p \<and> ?p \<noteq> []" using parse_plan_inv by blast
  have "list_all (upgrade_authorized s) ?p"
    using allowed allowed_transitions_valid [OF assms(3)] assms(2)
    by (auto simp: validate_locked_def validate_apply_None_iff list_all_iff upgrade_authorized_def
        valid_transitions_def)
  moreover from this inv have "length ?p \<le> length (gs_authorized s)"
    by (intro plan_card authorized_keys) (simp_all add: plan_inv_def)
  moreover have "length (gs_authorized s) \<le> 64"
    using assms(1,2) by (simp add: validate_spec_def split: if_splits)
  ultimately show ?thesis using allowed inv by (simp add: Let_def plan_inv_def)
qed

definition demo_upgrade :: upgrade where
  "demo_upgrade = \<lparr>up_base = ''openssl'', up_arch = ''amd64'', up_from = ''3.0-1'', up_to = ''3.0-2'',
     up_archive = ''/v/o.deb''\<rparr>"

definition demo_spec :: guard_spec where
  "demo_spec = \<lparr>gs_version = 1, gs_mode = GuardApply,
     gs_installed = [(''bash:amd64'', ''5.2''), (''openssl:amd64'', ''3.0-1'')],
     gs_authorized = [(''openssl:amd64'', ''3.0-1'')], gs_transitions = []\<rparr>"

lemma demo_upgrade_ok: "upgrade_ok demo_upgrade"
  by code_simp

lemma demo_spec_ok: "validate_spec demo_spec = None"
  by code_simp

lemma demo_short: "length (render_plan [demo_upgrade]) \<le> max_plan_bytes"
  by (simp add: render_plan_def up_line_def up_words_def demo_upgrade_def)

lemma demo_plan: "parse_plan (render_plan [demo_upgrade]) = Inr [up_entry demo_upgrade]"
proof -
  show ?thesis
    using demo_short  parse_rendered [of "[demo_upgrade]"] demo_upgrade_ok by simp
qed

lemma demo_locked: "validate_locked demo_spec [up_entry demo_upgrade] = None"
  by code_simp

lemma demo_allowed: "gr_allowed (guard_decision demo_spec (render_plan [demo_upgrade]))"
  by (simp add: guard_decision_def demo_plan demo_locked)

theorem guard_apply_sound_witness:
  "list_all (upgrade_authorized demo_spec) (gr_plan (guard_decision demo_spec (render_plan [demo_upgrade])))"
proof -
  have "gs_mode demo_spec = GuardApply" by (simp add: demo_spec_def)
  from guard_apply_sound [OF demo_spec_ok this demo_allowed] show ?thesis by (simp add: Let_def)
qed

text \<open>
  C4: The plan reader inverts APT's version 3 stream: for every list of at most 512
  upgrades of different packages, written one per line within the 4 MiB bound,
  the reader returns exactly their transitions, in order.
\<close>

theorem plan_roundtrip:
  assumes "list_all upgrade_ok us" and "us \<noteq> []" and "distinct (map (\<lambda>u. fst (up_entry u)) us)"
    and "length us \<le> 512" and "length (render_plan us) \<le> max_plan_bytes"
  shows "parse_plan (render_plan us) = Inr (map up_entry us)"
  using assms parse_rendered [of us] by (simp add: comp_def)

theorem plan_roundtrip_witness:
  "parse_plan (render_plan [demo_upgrade]) =
     Inr [(''openssl:amd64'', \<lparr>tr_from = ''3.0-1'', tr_to = ''3.0-2'', tr_dir = ''<''\<rparr>)]"
proof -
  show ?thesis
    using demo_short  plan_roundtrip [of "[demo_upgrade]"] demo_upgrade_ok by (simp add: up_entry_def demo_upgrade_def)
qed

text \<open>
  The hook run on a transaction directory succeeds exactly when it has just
  recorded an allowing decision there; it never replaces a result that exists,
  and whatever it records passes the checks the helper makes when it reads the
  result back.
\<close>

theorem hook_records_decision:
  "let (err, d') = run_plan_guard stream d in
     (err = None \<longleftrightarrow> pd_result d = None \<and> (\<exists>r. pd_result d' = Some r \<and> gr_allowed r)) \<and>
     (\<forall>r. pd_result d = Some r \<longrightarrow> d' = d \<and> err \<noteq> None) \<and>
     (\<forall>r. pd_result d = None \<longrightarrow> pd_result d' = Some r \<longrightarrow> acceptable_result r)"
  by (auto simp: run_plan_guard_def Let_def acceptable_decision
      split: option.splits sum.splits prod.splits)

theorem hook_records_decision_witness:
  "acceptable_result (guard_decision demo_spec (render_plan [demo_upgrade]))"
proof -
  let ?d = "\<lparr>pd_check = None, pd_spec = Inr demo_spec, pd_result = None\<rparr>"
  have "run_plan_guard (render_plan [demo_upgrade]) ?d =
      (None, ?d\<lparr>pd_result := Some (guard_decision demo_spec (render_plan [demo_upgrade]))\<rparr>)"
    using demo_allowed by (simp add: run_plan_guard_def read_spec_def demo_spec_ok Let_def)
  then show ?thesis
    using hook_records_decision [of "render_plan [demo_upgrade]" ?d] by simp
qed

end
