(* ===== verification/Runner.thy ===== *)
theory Runner
  imports GoStrings
begin

text \<open>
  \<open>internal/action/runner.go\<close>: commands, the bounded output buffer, and the runner
  that executes allow-listed programs only.  Starting a process is a parameter.
\<close>

record command =
  cmd_path :: string
  cmd_args :: "string list"
  cmd_stdin :: bytes
  cmd_timeout :: duration

record command_result =
  cr_stdout :: string
  cr_stderr :: string
  cr_exit :: int
  cr_truncated :: bool

definition no_output :: command_result where
  "no_output = \<lparr>cr_stdout = [], cr_stderr = [], cr_exit = 0, cr_truncated = False\<rparr>"

text \<open>The interface \<open>Runner\<close>: a result and an optional error, on a host state.\<close>

type_synonym 'w runner = "command \<Rightarrow> 'w \<Rightarrow> (command_result \<times> string option) \<times> 'w"

definition plain_command :: "string \<Rightarrow> string list \<Rightarrow> duration \<Rightarrow> command" where
  "plain_command path args t = \<lparr>cmd_path = path, cmd_args = args, cmd_stdin = [], cmd_timeout = t\<rparr>"

section \<open>The bounded buffer\<close>

record limited_buffer =
  lb_data :: bytes
  lb_limit :: int
  lb_truncated :: bool

definition lb_write :: "bytes \<Rightarrow> limited_buffer \<Rightarrow> limited_buffer" where
  "lb_write v b =
     (let remaining = lb_limit b - int (length (lb_data b));
          kept = (if remaining > 0 then take (nat remaining) v else [])
      in b\<lparr>lb_data := lb_data b @ kept,
           lb_truncated := lb_truncated b \<or> remaining < int (length v)\<rparr>)"

definition lb_new :: "int \<Rightarrow> limited_buffer" where
  "lb_new n = \<lparr>lb_data = [], lb_limit = n, lb_truncated = False\<rparr>"

lemma lb_writes:
  assumes "0 \<le> lb_limit b" and "lb_data b = take (nat (lb_limit b)) acc"
    and "lb_truncated b \<longleftrightarrow> lb_limit b < int (length acc)"
  shows "let b' = fold lb_write vs b in
     lb_data b' = take (nat (lb_limit b)) (acc @ concat vs) \<and>
     (lb_truncated b' \<longleftrightarrow> lb_limit b < int (length (acc @ concat vs)))"
  using assms
proof (induction vs arbitrary: b acc)
  case (Cons v vs)
  have lim: "lb_limit (lb_write v b) = lb_limit b" by (simp add: lb_write_def Let_def)
  have "lb_data (lb_write v b) = take (nat (lb_limit b)) (acc @ v)"
    using Cons.prems by (auto simp: lb_write_def Let_def min_def nat_diff_distrib)
  moreover have "lb_truncated (lb_write v b) \<longleftrightarrow> lb_limit b < int (length (acc @ v))"
    using Cons.prems by (auto simp: lb_write_def Let_def min_def)
  ultimately show ?case
    using Cons.IH [of "lb_write v b" "acc @ v"] Cons.prems(1) lim by (simp add: Let_def)
qed (simp add: Let_def)

section \<open>\<open>ExecRunner\<close>\<close>

record exec_runner =
  er_allowed :: "string list"
  er_max_output :: int

definition new_exec_runner :: "string list \<Rightarrow> exec_runner" where
  "new_exec_runner paths = \<lparr>er_allowed = map path_clean (filter is_abs paths), er_max_output = 1048576\<rparr>"

text \<open>How a started process ended: \<open>cmd.Run\<close> returned nil, or an error with the deadline passed or not.\<close>

datatype exit_status = Completed | TimedOut | ExitStatus int | StartFailed string

definition effective_timeout :: "duration \<Rightarrow> duration" where
  "effective_timeout t = (if t \<le> 0 \<or> t > 10 * minute then 2 * minute else t)"

definition output_limit :: "int \<Rightarrow> int" where
  "output_limit n = (if n \<le> 0 \<or> n > 8388608 then 1048576 else n)"

definition exec_run :: "(string \<Rightarrow> string list \<Rightarrow> bytes \<Rightarrow> duration \<Rightarrow> 'w \<Rightarrow>
    (bytes list \<times> bytes list \<times> exit_status) \<times> 'w) \<Rightarrow> exec_runner \<Rightarrow> 'w runner" where
  "exec_run spawn r c w =
     (let path = path_clean (cmd_path c)
      in if \<not> is_abs path then ((no_output, Some ''command path must be absolute''), w)
         else if path \<notin> set (er_allowed r)
         then ((no_output, Some (''command path '' @ quote path @ '' is not allowlisted'')), w)
         else
           (let ((outs, errs, st), w') = spawn path (cmd_args c) (cmd_stdin c) (effective_timeout (cmd_timeout c)) w;
                stdout = fold lb_write outs (lb_new (output_limit (er_max_output r)));
                stderr = fold lb_write errs (lb_new (output_limit (er_max_output r)));
                res = \<lparr>cr_stdout = lb_data stdout, cr_stderr = lb_data stderr, cr_exit = 0,
                       cr_truncated = lb_truncated stdout \<or> lb_truncated stderr\<rparr>
            in (case st of
                  Completed \<Rightarrow> (res, None)
                | TimedOut \<Rightarrow> (res, Some ''command timed out: context deadline exceeded'')
                | ExitStatus n \<Rightarrow> (res\<lparr>cr_exit := n\<rparr>, Some (''command failed with exit code '' @ itoa n))
                | StartFailed e \<Rightarrow> (res, Some (''command failed: '' @ e)), w')))"

end
