(* ===== verification/PackageUpgrade.thy ===== *)
theory PackageUpgrade
  imports PlanGuard Runner
begin

text \<open>
  \<open>internal/action/package_upgrade.go\<close>: the package upgrade playbook.  The process
  runner, the files of a plan transaction and the JSON coders of the parameters and
  the rollback state are parameters.
\<close>

section \<open>State and host\<close>

record pkg_state =
  us_versions :: version_map
  us_applied :: version_map
  us_guarded :: bool
  us_noop :: bool

definition boundary_state :: pkg_state where
  "boundary_state = \<lparr>us_versions = [], us_applied = [], us_guarded = False, us_noop = False\<rparr>"

text \<open>What opening, checking and decoding \<open>result.json\<close> returns before its contents are judged.\<close>

datatype guard_read = Missing string | Unreadable string | Decoded guard_result

record 'w pkg_host =
  ph_run :: "'w runner"
  ph_create :: "string \<Rightarrow> guard_spec \<Rightarrow> 'w \<Rightarrow> (string + string) \<times> 'w"
  ph_result :: "string \<Rightarrow> 'w \<Rightarrow> guard_read"
  ph_remove :: "string \<Rightarrow> 'w \<Rightarrow> 'w"

record pkg_codec =
  pc_params :: "bytes \<Rightarrow> string list \<times> string option"
  pc_enc :: "pkg_state \<Rightarrow> string + bytes"
  pc_dec :: "bytes \<Rightarrow> pkg_state option"

record pkg_config =
  pk_apt_get :: string
  pk_dpkg_query :: string
  pk_hook :: string
  pk_plan_dir :: string

section \<open>Validation\<close>

text \<open>\<open>debianPackagePattern\<close>: a base name with an optional architecture.\<close>

definition debian_package :: "string \<Rightarrow> bool" where
  "debian_package name =
     (case cut (CHR '':'') name of
        None \<Rightarrow> debian_base name
      | Some (b, a) \<Rightarrow> debian_base b \<and> debian_arch a)"

fun check_packages :: "string list \<Rightarrow> string list \<Rightarrow> string option" where
  "check_packages seen [] = None"
| "check_packages seen (name # ns) =
     (if \<not> debian_package name then Some (''invalid Debian package name '' @ quote name)
      else if name \<in> set seen then Some (''duplicate package '' @ quote name)
      else check_packages (name # seen) ns)"

definition validate_package_list :: "string list \<Rightarrow> string option" where
  "validate_package_list ps =
     (if ps = [] \<or> length ps > 64 then Some ''packages must contain between 1 and 64 explicit package names''
      else check_packages [] ps)"

definition pkg_validate :: "pkg_codec \<Rightarrow> bytes \<Rightarrow> string option" where
  "pkg_validate J raw =
     (case pc_params J raw of (ps, Some e) \<Rightarrow> Some e | (ps, None) \<Rightarrow> validate_package_list ps)"

section \<open>Reading dpkg's answers\<close>

definition TAB :: char where "TAB = CHR 0x09"

definition dpkg_format :: string where
  "dpkg_format = ''-f=${db:Status-Abbrev}'' @ [CHR 0x5C] @ ''t${Package}'' @ [CHR 0x5C] @ ''t${Architecture}''
     @ [CHR 0x5C] @ ''t${Version}'' @ [CHR 0x5C] @ ''n''"

definition valid_status_abbrev :: "string \<Rightarrow> bool" where
  "valid_status_abbrev st =
     (case st of [a, b, c] \<Rightarrow> a \<in> set ''uihrp'' \<and> c = CHR '' '' | _ \<Rightarrow> False)"

text \<open>
  One line of the baseline: skipped, an installed package, or an error.
\<close>

definition baseline_line :: "string \<Rightarrow> string + (string \<times> string) option" where
  "baseline_line line =
     (if trim_space line = [] then Inr None
      else case split_on TAB line of
        [st, pkg, arch, ver] \<Rightarrow>
          (if \<not> valid_status_abbrev st \<or> \<not> debian_base pkg \<or> \<not> debian_arch arch
           then Inl ''dpkg-query returned a malformed installed package baseline''
           else if st ! 1 = CHR ''n'' \<or> st ! 1 = CHR ''c'' then
             (if ver \<noteq> [] \<and> \<not> debian_version ver
              then Inl ''dpkg-query returned an unsafe residual package version'' else Inr None)
           else if st ! 1 \<noteq> CHR ''i'' \<or> \<not> debian_version ver
           then Inl ''dpkg-query reported a package in a non-installed or incomplete state''
           else Inr (Some (pkg @ '':'' @ arch, ver)))
      | _ \<Rightarrow> Inl ''dpkg-query returned a malformed installed package baseline'')"

fun read_baseline :: "version_map \<Rightarrow> string list \<Rightarrow> string + version_map" where
  "read_baseline m [] = (if m = [] then Inl ''dpkg-query returned an empty installed package baseline'' else Inr m)"
| "read_baseline m (line # ls) =
     (case baseline_line line of
        Inl e \<Rightarrow> Inl e
      | Inr None \<Rightarrow> read_baseline m ls
      | Inr (Some (name, v)) \<Rightarrow>
          (if map_of m name \<noteq> None then Inl ''dpkg-query returned a duplicate installed package''
           else if length m + 1 > 20000
           then Inl ''installed package baseline exceeds the supported package count''
           else read_baseline (m @ [(name, v)]) ls))"

definition parse_baseline :: "string \<Rightarrow> string + version_map" where
  "parse_baseline out = read_baseline [] (split_on NL (trim_space out))"

definition installed_package_versions :: "pkg_config \<Rightarrow> 'w pkg_host \<Rightarrow> 'w \<Rightarrow> (string + version_map) \<times> 'w" where
  "installed_package_versions c H w =
     (let ((res, err), w') = ph_run H (plain_command (pk_dpkg_query c) [''-W'', dpkg_format] (45 * second)) w
      in (case err of
            Some e \<Rightarrow> Inl (''read installed package baseline: '' @ e)
          | None \<Rightarrow> if cr_truncated res then Inl ''installed package baseline exceeded the bounded command output''
                    else parse_baseline (cr_stdout res), w'))"

text \<open>The answer to a query for one package: its canonical name and version.\<close>

definition parse_installed :: "string \<Rightarrow> string \<Rightarrow> string + string \<times> string" where
  "parse_installed name out =
     (case split_on NL (trim_space out) of
        [line] \<Rightarrow>
          (case go_fields line of
             [[a, b], pkg, arch, ver] \<Rightarrow>
               (if b \<noteq> CHR ''i'' \<or> a \<notin> set ''uihrp'' \<or> \<not> debian_base pkg \<or> \<not> debian_arch arch \<or> \<not> debian_version ver
                then Inl (''package '' @ quote name @ '' did not return a safe installed version'')
                else if (case cut (CHR '':'') name of None \<Rightarrow> pkg \<noteq> name | Some (n, ar) \<Rightarrow> pkg \<noteq> n \<or> arch \<noteq> ar)
                then Inl (''package '' @ quote name @ '' resolved to an unexpected architecture'')
                else Inr (pkg @ '':'' @ arch, ver))
           | _ \<Rightarrow> Inl (''package '' @ quote name @ '' did not return a safe installed version''))
      | _ \<Rightarrow> Inl (''package '' @ quote name @ '' resolved to multiple installed architectures; qualify it explicitly''))"

fun installed_versions :: "pkg_config \<Rightarrow> 'w pkg_host \<Rightarrow> version_map \<Rightarrow> string list \<Rightarrow> 'w \<Rightarrow>
    (string + version_map) \<times> 'w" where
  "installed_versions c H m [] w = (Inr m, w)"
| "installed_versions c H m (name # ns) w =
     (let ((res, err), w') = ph_run H (plain_command (pk_dpkg_query c) [''-W'', dpkg_format, name] (15 * second)) w
      in case err of
          Some e \<Rightarrow> (Inl (''package '' @ quote name @ '' is not installed or dpkg-query failed: '' @ e), w')
        | None \<Rightarrow>
            (case parse_installed name (cr_stdout res) of
               Inl e \<Rightarrow> (Inl e, w')
             | Inr (canonical, v) \<Rightarrow>
                 (if map_of m canonical \<noteq> None
                  then (Inl (''package '' @ quote name @ '' duplicates another requested architecture''), w')
                  else installed_versions c H (m @ [(canonical, v)]) ns w')))"

definition sorted_keys :: "(string \<times> 'a) list \<Rightarrow> string list" where
  "sorted_keys m = sort (map fst m)"

section \<open>The plan transaction\<close>

definition prepare_transaction :: "'w pkg_host \<Rightarrow> string \<Rightarrow> guard_spec \<Rightarrow> 'w \<Rightarrow> (string + string) \<times> 'w" where
  "prepare_transaction H base s w =
     (case validate_spec s of Some e \<Rightarrow> (Inl e, w) | None \<Rightarrow> ph_create H base s w)"

definition read_guard :: "'w pkg_host \<Rightarrow> string \<Rightarrow> 'w \<Rightarrow> guard_read" where
  "read_guard H dir w =
     (case ph_result H dir w of
        Decoded r \<Rightarrow> if acceptable_result r then Decoded r else Unreadable ''invalid package plan guard result''
      | x \<Rightarrow> x)"

definition plan_options :: "pkg_config \<Rightarrow> string \<Rightarrow> string list" where
  "plan_options c dir = [''-o'', ''DPkg::Pre-Install-Pkgs::='' @ pk_hook c @ '' apt-plan-guard '' @ dir,
     ''-o'', ''DPkg::Tools::options::'' @ pk_hook c @ ''::Version=3'']"

definition apt_upgrade :: "pkg_config \<Rightarrow> string \<Rightarrow> string list \<Rightarrow> command" where
  "apt_upgrade c dir ps = plain_command (pk_apt_get c)
     ([''-y'', ''--no-remove'', ''--only-upgrade'', ''-o'', ''APT::Get::Mark-Auto=true''] @ plan_options c dir
      @ [''install''] @ ps) (10 * minute)"

definition apt_downgrade :: "pkg_config \<Rightarrow> string \<Rightarrow> plan \<Rightarrow> command" where
  "apt_downgrade c dir ts = plain_command (pk_apt_get c)
     ([''-y'', ''--no-remove'', ''--allow-downgrades'', ''-o'', ''APT::Get::Mark-Auto=true''] @ plan_options c dir
      @ [''install''] @ map (\<lambda>n. n @ ''='' @ (case map_of ts n of None \<Rightarrow> [] | Some t \<Rightarrow> tr_to t)) (sorted_keys ts))
     (10 * minute)"

section \<open>Reading phases\<close>

definition pkg_precheck :: "pkg_codec \<Rightarrow> pkg_config \<Rightarrow> 'w pkg_host \<Rightarrow> 'w phase" where
  "pkg_precheck J c H i w =
     (let ps = fst (pc_params J (inv_params i));
          ((_, err), w1) = ph_run H (plain_command (pk_apt_get c) [''--version''] (15 * second)) w
      in case err of
          Some e \<Rightarrow> (Inl (''apt-get is unavailable: '' @ e), w1)
        | None \<Rightarrow>
           (case installed_versions c H [] ps w1 of
              (Inl e, w2) \<Rightarrow> (Inl e, w2)
            | (Inr m, w2) \<Rightarrow>
               (Inr \<lparr>res_summary = ''all requested packages are installed and eligible for an explicit upgrade'',
                 res_details = [(''packages'', DStrs (sorted_keys m)), (''count'', DInt (int (length m)))]\<rparr>, w2)))"

definition pkg_preview :: "pkg_codec \<Rightarrow> pkg_config \<Rightarrow> 'w pkg_host \<Rightarrow> 'w phase" where
  "pkg_preview J c H i w =
     (let ps = fst (pc_params J (inv_params i));
          args = [''--simulate'', ''--no-remove'', ''--only-upgrade'', ''-o'', ''APT::Get::Mark-Auto=true'', ''install''] @ ps;
          ((res, err), w1) = ph_run H (plain_command (pk_apt_get c) args (2 * minute)) w
      in case err of
          Some e \<Rightarrow> (Inl (''apt-get could not construct an upgrade plan: '' @ e), w1)
        | None \<Rightarrow>
           (Inr \<lparr>res_summary = ''validated apt upgrade plan for the explicit package list'',
             res_details = [(''packages'', DStrs ps), (''outputTruncated'', DBool (cr_truncated res))]\<rparr>, w1))"

section \<open>Apply\<close>

abbreviation boundary :: "bytes \<Rightarrow> apply_result" where
  "boundary b \<equiv> no_apply\<lparr>apr_state := b\<rparr>"

text \<open>The first package whose requested version the baseline does not confirm.\<close>

definition first_changed :: "version_map \<Rightarrow> version_map \<Rightarrow> string option" where
  "first_changed now expected = map_option fst (find (\<lambda>(name, v). get_str now name \<noteq> v) expected)"

definition noop_apply :: "pkg_codec \<Rightarrow> pkg_config \<Rightarrow> 'w pkg_host \<Rightarrow> version_map \<Rightarrow> version_map \<Rightarrow>
    string list \<Rightarrow> 'w \<Rightarrow> (string + apply_result) \<times> 'w" where
  "noop_apply J c H inventory requested ps w =
     (case installed_package_versions c H w of
        (Inl e, w1) \<Rightarrow> (Inl (''prove no-op package transaction: '' @ e), w1)
      | (Inr current, w1) \<Rightarrow>
          (if length current \<noteq> length inventory
           then (Inl ''APT completed without a locked package plan receipt and the installed package inventory changed'', w1)
           else case first_changed current inventory of
               Some n \<Rightarrow> (Inl (''APT completed without a locked package plan receipt and package ''
                          @ quote n @ '' changed''), w1)
             | None \<Rightarrow>
                 (case pc_enc J \<lparr>us_versions = requested, us_applied = requested, us_guarded = True, us_noop = True\<rparr> of
                    Inl e \<Rightarrow> (Inl e, w1)
                  | Inr st \<Rightarrow> (Inr \<lparr>apr_result = \<lparr>res_summary = ''requested packages were already current'',
                        res_details = [(''packages'', DStrs ps), (''transactionPackages'', DStrs [])]\<rparr>,
                      apr_state = st, apr_confirm_by = None\<rparr>, w1))))"

text \<open>The checks of the observed versions against the locked plan.\<close>

fun check_reached :: "bool \<Rightarrow> version_map \<Rightarrow> plan \<Rightarrow> string option" where
  "check_reached apt_ok current [] = None"
| "check_reached apt_ok current ((name, t) # p) =
     (case map_of current name of
        None \<Rightarrow> Some (''package '' @ quote name @ '' has a version outside the locked transaction plan'')
      | Some v \<Rightarrow>
          (if v \<noteq> tr_from t \<and> v \<noteq> tr_to t
           then Some (''package '' @ quote name @ '' has a version outside the locked transaction plan'')
           else if apt_ok \<and> v \<noteq> tr_to t
           then Some (''package '' @ quote name @ '' did not reach its locked target version'')
           else check_reached apt_ok current p))"

definition state_of_plan :: "plan \<Rightarrow> pkg_state" where
  "state_of_plan p = \<lparr>us_versions = map (\<lambda>(n, t). (n, tr_from t)) p, us_applied = map (\<lambda>(n, t). (n, tr_to t)) p,
     us_guarded = True, us_noop = False\<rparr>"

text \<open>After APT ran under an allowing guard.\<close>

definition apply_guarded :: "pkg_codec \<Rightarrow> pkg_config \<Rightarrow> 'w pkg_host \<Rightarrow> bytes \<Rightarrow> string list \<Rightarrow>
    string option \<Rightarrow> plan \<Rightarrow> 'w \<Rightarrow> apply_result \<times> string option \<times> 'w" where
  "apply_guarded J c H bnd ps apt_err p w =
     (let oversized = (boundary bnd, Some ''locked package plan exceeds the bounded rollback state'', w)
      in case pc_enc J (state_of_plan p) of
          Inl _ \<Rightarrow> oversized
        | Inr st \<Rightarrow>
           (if length st > 524288 then oversized
            else case installed_package_versions c H w of
                (Inl e, w1) \<Rightarrow> (boundary st, Some (''read package versions after the guarded transaction: '' @ e), w1)
              | (Inr current, w1) \<Rightarrow>
                 (case check_reached (apt_err = None) current p of
                    Some e \<Rightarrow> (boundary st, Some e, w1)
                  | None \<Rightarrow>
                     (case apt_err of
                        Some e \<Rightarrow> (boundary st,
                          Some (''guarded package upgrade failed after entering the package transaction: '' @ e), w1)
                      | None \<Rightarrow> (\<lparr>apr_result = \<lparr>res_summary = ''requested packages upgraded under the locked APT plan'',
                            res_details = [(''packages'', DStrs ps),
                              (''transactionPackages'', DStrs (sorted_keys p))]\<rparr>,
                          apr_state = st, apr_confirm_by = None\<rparr>, None, w1)))))"

text \<open>From the prepared transaction directory on.\<close>

definition apply_locked :: "pkg_codec \<Rightarrow> pkg_config \<Rightarrow> 'w pkg_host \<Rightarrow> string \<Rightarrow> version_map \<Rightarrow> version_map \<Rightarrow>
    string list \<Rightarrow> 'w \<Rightarrow> apply_result \<times> string option \<times> 'w" where
  "apply_locked J c H dir inventory requested ps w =
     (case pc_enc J boundary_state of
        Inl e \<Rightarrow> (no_apply, Some e, w)
      | Inr bnd \<Rightarrow>
         (let ((_, apt_err), w1) = ph_run H (apt_upgrade c dir ps) w
          in case read_guard H dir w1 of
              Missing g \<Rightarrow>
                (case apt_err of
                   Some e \<Rightarrow> (boundary bnd,
                     Some (''package upgrade stopped without a locked mutation plan receipt: '' @ e), w1)
                 | None \<Rightarrow>
                    (case noop_apply J c H inventory requested ps w1 of
                       (Inl e, w2) \<Rightarrow> (boundary bnd, Some e, w2)
                     | (Inr r, w2) \<Rightarrow> (r, None, w2)))
            | Unreadable g \<Rightarrow> (boundary bnd,
                Some (''locked package plan result is unavailable after entering APT: '' @ g), w1)
            | Decoded r \<Rightarrow>
                (if \<not> gr_allowed r then
                   (case apt_err of
                      None \<Rightarrow> (boundary bnd, Some ''APT ignored a rejecting package plan guard'', w1)
                    | Some _ \<Rightarrow> (no_apply, Some (''locked package plan rejected before mutation: '' @ gr_reason r), w1))
                 else apply_guarded J c H bnd ps apt_err (gr_plan r) w1)))"

definition apply_spec :: "version_map \<Rightarrow> version_map \<Rightarrow> guard_spec" where
  "apply_spec inventory requested = \<lparr>gs_version = 1, gs_mode = GuardApply, gs_installed = inventory,
     gs_authorized = requested, gs_transitions = []\<rparr>"

definition pkg_apply :: "pkg_codec \<Rightarrow> pkg_config \<Rightarrow> 'w pkg_host \<Rightarrow> invocation \<Rightarrow> 'w \<Rightarrow>
    apply_result \<times> string option \<times> 'w" where
  "pkg_apply J c H i w =
     (let ps = fst (pc_params J (inv_params i))
      in case installed_versions c H [] ps w of
          (Inl e, w1) \<Rightarrow> (no_apply, Some e, w1)
        | (Inr requested, w1) \<Rightarrow>
           (case installed_package_versions c H w1 of
              (Inl e, w2) \<Rightarrow> (no_apply, Some e, w2)
            | (Inr inventory, w2) \<Rightarrow>
               (case first_changed inventory requested of
                  Some n \<Rightarrow> (no_apply,
                    Some (''package '' @ quote n @ '' changed while capturing its installed baseline''), w2)
                | None \<Rightarrow>
                   (case prepare_transaction H (pk_plan_dir c) (apply_spec inventory requested) w2 of
                      (Inl e, w3) \<Rightarrow> (no_apply, Some (''prepare locked package plan guard: '' @ e), w3)
                    | (Inr dir, w3) \<Rightarrow>
                       (let (r, err, w4) = apply_locked J c H dir inventory requested ps w3
                        in (r, err, ph_remove H dir w4))))))"

section \<open>Verify and Rollback\<close>

definition decode_pkg_state :: "pkg_codec \<Rightarrow> bytes \<Rightarrow> string + pkg_state" where
  "decode_pkg_state J raw =
     (case pc_dec J raw of
        None \<Rightarrow> Inl ''invalid guarded package rollback state''
      | Some st \<Rightarrow>
         (if \<not> us_guarded st \<or> \<not> valid_version_map (us_versions st) \<or> \<not> valid_version_map (us_applied st)
             \<or> length (us_versions st) \<noteq> length (us_applied st)
          then Inl ''invalid guarded package rollback state''
          else if \<not> list_all (\<lambda>(n, _). map_of (us_applied st) n \<noteq> None) (us_versions st)
          then Inl ''package rollback state lacks an applied-version guard''
          else Inr st))"

definition pkg_verify :: "pkg_codec \<Rightarrow> pkg_config \<Rightarrow> 'w pkg_host \<Rightarrow> 'w phase" where
  "pkg_verify J c H i w =
     (case decode_pkg_state J (inv_state i) of
        Inl e \<Rightarrow> (Inl e, w)
      | Inr st \<Rightarrow>
         (case installed_versions c H [] (sorted_keys (us_versions st)) w of
            (Inl e, w1) \<Rightarrow> (Inl e, w1)
          | (Inr current, w1) \<Rightarrow>
             (case find (\<lambda>(n, v). get_str (us_applied st) n \<noteq> v) current of
                Some (n, _) \<Rightarrow> (Inl (''package '' @ quote n @ '' changed after apply before verification''), w1)
              | None \<Rightarrow>
                 (Inr \<lparr>res_summary = ''all transaction packages match the locked APT plan'',
                   res_details =
                     [(''upgraded'', DStrs (sorted_keys (filter (\<lambda>(n, v). get_str (us_versions st) n \<noteq> v) current))),
                      (''alreadyCurrent'', DStrs (sorted_keys (filter (\<lambda>(n, v). get_str (us_versions st) n = v) current)))]\<rparr>, w1))))"

fun rollback_transitions :: "version_map \<Rightarrow> version_map \<Rightarrow> version_map \<Rightarrow> string + plan" where
  "rollback_transitions applied current [] = Inr []"
| "rollback_transitions applied current ((name, original) # vs) =
     (case map_of current name of
        None \<Rightarrow> Inl (''package '' @ quote name @ '' changed after apply; refusing stale rollback'')
      | Some v \<Rightarrow>
         (if v \<noteq> original \<and> v \<noteq> get_str applied name
          then Inl (''package '' @ quote name @ '' changed after apply; refusing stale rollback'')
          else case rollback_transitions applied current vs of
              Inl e \<Rightarrow> Inl e
            | Inr ts \<Rightarrow>
               Inr (if v \<noteq> original
                    then (name, \<lparr>tr_from = get_str applied name, tr_to = original, tr_dir = ''>''\<rparr>) # ts
                    else ts)))"

definition rollback_spec :: "plan \<Rightarrow> guard_spec" where
  "rollback_spec ts = \<lparr>gs_version = 1, gs_mode = GuardRollback, gs_installed = [], gs_authorized = [],
     gs_transitions = ts\<rparr>"

definition rollback_locked :: "pkg_config \<Rightarrow> 'w pkg_host \<Rightarrow> string \<Rightarrow> pkg_state \<Rightarrow> plan \<Rightarrow> 'w \<Rightarrow>
    (string + act_result) \<times> 'w" where
  "rollback_locked c H dir st ts w =
     (let ((_, apt_err), w1) = ph_run H (apt_downgrade c dir ts) w
      in case read_guard H dir w1 of
          Missing e \<Rightarrow> (Inl (''locked package rollback plan is unavailable: '' @ e), w1)
        | Unreadable e \<Rightarrow> (Inl (''locked package rollback plan is unavailable: '' @ e), w1)
        | Decoded g \<Rightarrow>
           (if \<not> gr_allowed g then (Inl (''locked package rollback rejected before mutation: '' @ gr_reason g), w1)
            else case installed_package_versions c H w1 of
                (Inl e, w2) \<Rightarrow> (Inl e, w2)
              | (Inr current, w2) \<Rightarrow>
                 (case first_changed current (us_versions st) of
                    Some n \<Rightarrow> (Inl (''package '' @ quote n @ '' did not return to its recorded version''), w2)
                  | None \<Rightarrow>
                     (case apt_err of
                        Some e \<Rightarrow> (Inl (''package rollback command failed even though the recorded versions were observed: '' @ e), w2)
                      | None \<Rightarrow> (Inr \<lparr>res_summary = ''packages restored to their locked pre-transaction versions'',
                          res_details = [(''packages'', DStrs (sorted_keys (us_versions st)))]\<rparr>, w2)))))"

definition pkg_rollback :: "pkg_codec \<Rightarrow> pkg_config \<Rightarrow> 'w pkg_host \<Rightarrow> 'w phase" where
  "pkg_rollback J c H i w =
     (case decode_pkg_state J (inv_state i) of
        Inl e \<Rightarrow> (Inl e, w)
      | Inr st \<Rightarrow>
         (let names = [(''packages'', DStrs (sorted_keys (us_versions st)))]
          in if us_noop st
             then (Inr \<lparr>res_summary = ''no package rollback was needed because the guarded action made no package change'',
                     res_details = names\<rparr>, w)
             else case installed_package_versions c H w of
                 (Inl e, w1) \<Rightarrow> (Inl e, w1)
               | (Inr current, w1) \<Rightarrow>
                  (case rollback_transitions (us_applied st) current (us_versions st) of
                     Inl e \<Rightarrow> (Inl e, w1)
                   | Inr ts \<Rightarrow>
                      (if ts = []
                       then (Inr \<lparr>res_summary = ''packages already match their recorded original versions'',
                               res_details = names\<rparr>, w1)
                       else case prepare_transaction H (pk_plan_dir c) (rollback_spec ts) w1 of
                           (Inl e, w2) \<Rightarrow> (Inl (''prepare locked package rollback guard: '' @ e), w2)
                         | (Inr dir, w2) \<Rightarrow>
                            (let (out, w3) = rollback_locked c H dir st ts w2
                             in (out, ph_remove H dir w3))))))"

definition package_playbook :: "pkg_codec \<Rightarrow> pkg_config \<Rightarrow> 'w pkg_host \<Rightarrow> 'w playbook" where
  "package_playbook J c H = \<lparr>pb_type = TypePackageSecurityUpgrade, pb_validate = (\<lambda>raw _. pkg_validate J raw),
     pb_precheck = pkg_precheck J c H, pb_preview = pkg_preview J c H, pb_apply = pkg_apply J c H,
     pb_verify = pkg_verify J c H, pb_rollback = pkg_rollback J c H, pb_confirm = None\<rparr>"

end
