(* ===== verification/PackageLaws.thy ===== *)
theory PackageLaws
  imports PackageUpgrade PlanGuardProps EngineLaws
begin

text \<open>
  What the package upgrade playbook guarantees: the inventories it reads are well
  formed, the specifications it hands to the plan guard always pass the guard's
  validation, and, when APT and dpkg behave as documented, it keeps the playbook
  contract of the engine.
\<close>

section \<open>Inventories\<close>

definition inventory_ok :: "version_map \<Rightarrow> bool" where
  "inventory_ok m \<longleftrightarrow> distinct (map fst m) \<and> list_all (\<lambda>(name, v). canonical_package name \<and> debian_version v) m"

lemma inventory_ok_Nil [simp]: "inventory_ok []"
  by (simp add: inventory_ok_def)

lemma inventory_ok_snoc:
  "inventory_ok m \<Longrightarrow> map_of m n = None \<Longrightarrow> canonical_package n \<Longrightarrow> debian_version v \<Longrightarrow> inventory_ok (m @ [(n, v)])"
  by (simp add: inventory_ok_def map_of_eq_None_iff)

lemma inventory_version: "inventory_ok m \<Longrightarrow> (n, v) \<in> set m \<Longrightarrow> debian_version v \<and> v \<noteq> []"
  by (auto simp: inventory_ok_def list_all_iff debian_version_def dest: class_pattern_nonempty)

lemma get_str_eq: "v \<noteq> [] \<Longrightarrow> get_str m n = v \<longleftrightarrow> map_of m n = Some v"
  by (auto simp: get_str_def split: option.split)

lemma baseline_line_entry:
  "baseline_line l = Inr (Some (n, v)) \<Longrightarrow> canonical_package n \<and> debian_version v"
  by (auto simp: baseline_line_def split: list.splits if_splits intro: canonical_packageI [simplified])

lemma read_baseline_ok:
  "read_baseline m ls = Inr m' \<Longrightarrow> inventory_ok m \<Longrightarrow> length m \<le> 20000 \<Longrightarrow>
   inventory_ok m' \<and> m' \<noteq> [] \<and> length m' \<le> 20000"
proof (induction m ls rule: read_baseline.induct)
  case (2 m line ls)
  show ?case
  proof (cases "baseline_line line")
    case (Inr o1)
    show ?thesis
    proof (cases o1)
      case None
      with 2 Inr show ?thesis by simp
    next
      case (Some e)
      obtain n v where e: "e = (n, v)" by fastforce
      with "2.prems"(1) Inr Some have "map_of m n = None" "length m + 1 \<le> 20000"
        "read_baseline (m @ [(n, v)]) ls = Inr m'" by (auto split: if_splits)
      with "2.IH"(2) [OF Inr Some e [symmetric]] "2.prems"(2) Inr Some e show ?thesis
        by (auto dest!: baseline_line_entry intro!: inventory_ok_snoc)
    qed
  qed (use 2 in auto)
qed (auto split: if_splits)

lemma parse_baseline_ok: "parse_baseline out = Inr m \<Longrightarrow> inventory_ok m \<and> valid_version_map m"
  using read_baseline_ok [of "[]"] by (auto simp: parse_baseline_def valid_version_map_def inventory_ok_def)

lemma installed_package_versions_ok:
  "installed_package_versions c H w = (Inr m, w') \<Longrightarrow> inventory_ok m \<and> valid_version_map m"
  by (auto simp: installed_package_versions_def split: prod.splits option.splits if_splits dest!: parse_baseline_ok)

lemma parse_installed_entry:
  "parse_installed name out = Inr (n, v) \<Longrightarrow> canonical_package n \<and> debian_version v"
  by (auto simp: parse_installed_def split: list.splits if_splits intro: canonical_packageI [simplified])

lemma installed_versions_ok:
  "installed_versions c H m ns w = (Inr m', w') \<Longrightarrow> inventory_ok m \<Longrightarrow>
   inventory_ok m' \<and> length m' = length m + length ns"
proof (induction c H m ns w rule: installed_versions.induct)
  case (2 c H m name ns w)
  obtain res err w1 where r: "ph_run H (plain_command (pk_dpkg_query c) [''-W'', dpkg_format, name] (15 * second)) w
      = ((res, err), w1)" by (metis prod.exhaust)
  with "2.prems"(1) obtain n v where e: "err = None" "parse_installed name (cr_stdout res) = Inr (n, v)"
    "map_of m n = None" "installed_versions c H (m @ [(n, v)]) ns w1 = (Inr m', w')"
    by (auto split: option.splits sum.splits if_splits)
  have "inventory_ok (m @ [(n, v)])"
    using inventory_ok_snoc "2.prems"(2) e parse_installed_entry by blast
  with "2.IH" r e show ?case by fastforce
qed simp

lemma first_changed_None:
  "first_changed now m = None \<longleftrightarrow> (\<forall>(n, v) \<in> set m. get_str now n = v)"
  by (auto simp: first_changed_def find_None_iff)

lemma first_changed_map:
  assumes "inventory_ok m" and "first_changed now m = None" and "map_of m n = Some v"
  shows "map_of now n = Some v"
proof -
  from assms(3) have "(n, v) \<in> set m" by (rule map_of_SomeD)
  with assms(1,2) show ?thesis
    using inventory_version get_str_eq [of v now n] by (force simp: first_changed_None)
qed

text \<open>Inventories of the same size, one confirmed by the other, are the same map.\<close>

lemma same_inventory:
  assumes "inventory_ok m" and "inventory_ok now" and "length now = length m" and "first_changed now m = None"
  shows "map_of now = map_of m"
proof -
  have sub: "map_of m \<subseteq>\<^sub>m map_of now"
    using first_changed_map [OF assms(1,4)] by (auto simp: map_le_def)
  have "card (dom (map_of m)) = length m" "card (dom (map_of now)) = length now"
    using assms(1,2) by (metis distinct_card dom_map_of_conv_image_fst inventory_ok_def length_map list.set_map)+
  with assms(3) have "dom (map_of m) = dom (map_of now)"
    using card_subset_eq [OF finite_dom_map_of map_le_implies_dom_le [OF sub]] by simp
  with sub show ?thesis by (metis map_le_antisym map_le_def)
qed

section \<open>The specifications given to the guard\<close>

lemma apply_spec_valid:
  assumes "validate_package_list ps = None" and "installed_versions c H [] ps w = (Inr requested, w1)"
    and "installed_package_versions c H w1 = (Inr inventory, w2)" and "first_changed inventory requested = None"
  shows "validate_spec (apply_spec inventory requested) = None"
proof -
  have ps: "ps \<noteq> []" "length ps \<le> 64" using assms(1) by (auto simp: validate_package_list_def split: if_splits)
  have r: "inventory_ok requested" "length requested = length ps"
    using installed_versions_ok [OF assms(2)] by auto
  then have "valid_version_map requested" using ps by (auto simp: valid_version_map_def inventory_ok_def)
  moreover have "valid_version_map inventory" using installed_package_versions_ok [OF assms(3)] by simp
  ultimately show ?thesis
    using ps r assms(4) by (auto simp: validate_spec_def apply_spec_def first_changed_None list_all_iff)
qed

lemma rollback_transitions_entry:
  "rollback_transitions applied current vs = Inr ts \<Longrightarrow> (n, t) \<in> set ts \<Longrightarrow>
   (n, tr_to t) \<in> set vs \<and> tr_from t = get_str applied n \<and> tr_dir t = ''>'' \<and> tr_from t \<noteq> tr_to t \<and>
   map_of current n = Some (tr_from t)"
  by (induction vs arbitrary: ts) (auto split: option.splits if_splits sum.splits)

lemma rollback_transitions_length:
  "rollback_transitions applied current vs = Inr ts \<Longrightarrow> length ts \<le> length vs"
  by (induction vs arbitrary: ts) (auto split: option.splits if_splits sum.splits intro: le_SucI)

lemma rollback_transitions_Nil:
  "rollback_transitions applied current vs = Inr [] \<Longrightarrow> (n, v) \<in> set vs \<Longrightarrow> map_of current n = Some v"
  by (induction vs) (auto split: option.splits if_splits sum.splits)

lemma decode_pkg_stateD:
  "decode_pkg_state J raw = Inr st \<Longrightarrow> pc_dec J raw = Some st \<and> us_guarded st \<and> valid_version_map (us_versions st) \<and>
   valid_version_map (us_applied st) \<and> (\<forall>(n, v) \<in> set (us_versions st). map_of (us_applied st) n \<noteq> None)"
  by (auto simp: decode_pkg_state_def list_all_iff split: option.splits if_splits)

lemma rollback_spec_valid:
  assumes "decode_pkg_state J raw = Inr st" and "length (us_versions st) \<le> 512"
    and "rollback_transitions (us_applied st) current (us_versions st) = Inr ts" and "ts \<noteq> []"
  shows "validate_spec (rollback_spec ts) = None"
proof -
  note st = decode_pkg_stateD [OF assms(1)]
  have "canonical_package n \<and> debian_version (tr_from t) \<and> debian_version (tr_to t) \<and> tr_from t \<noteq> tr_to t \<and>
      tr_dir t = ''>''" if nt: "(n, t) \<in> set ts" for n t
  proof -
    note e = rollback_transitions_entry [OF assms(3) nt]
    with st obtain a where a: "map_of (us_applied st) n = Some a" by auto
    then have "tr_from t = a" "(n, a) \<in> set (us_applied st)" using e by (auto simp: get_str_def dest: map_of_SomeD)
    with st e show ?thesis by (auto simp: valid_version_map_def list_all_iff)
  qed
  then have "valid_transitions ts" by (auto simp: valid_transitions_def list_all_iff)
  with rollback_transitions_length [OF assms(3)] assms(2,4) show ?thesis
    by (auto simp: validate_spec_def rollback_spec_def)
qed

text \<open>What a rollback-mode guard lets through.\<close>

lemma guard_rollback_sound:
  assumes "gs_mode s = GuardRollback" and "gr_allowed (guard_decision s stream)"
    and "(n, t) \<in> set (gr_plan (guard_decision s stream))"
  shows "map_of (gs_transitions s) n = Some t"
  using guard_allowedD [OF assms(2)] assms(1,3)
  by (auto simp: validate_locked_def validate_rollback_None_iff list_all_iff)

lemma guard_apply_entry:
  assumes "gs_mode s = GuardApply" and "gr_allowed (guard_decision s stream)"
    and "(n, t) \<in> set (gr_plan (guard_decision s stream))"
  shows "map_of (gs_installed s) n = Some (tr_from t)"
  using guard_allowedD [OF assms(2)] assms(1,3)
  by (auto simp: validate_locked_def validate_apply_None_iff list_all_iff)

lemma guard_plan_distinct:
  "gr_allowed (guard_decision s stream) \<Longrightarrow> distinct (map fst (gr_plan (guard_decision s stream)))"
  using guard_allowedD parse_plan_inv by (auto simp: plan_inv_def)

section \<open>APT and dpkg as documented\<close>

text \<open>
  \<open>db w\<close> is the host's package database.  Queries, simulations and the handling of
  plan files do not change it; a baseline that parses is the database; the
  rollback-state coder round-trips; and APT, run with the hook on a directory made
  for specification \<open>s\<close>, leaves there a decision of the hook for \<open>s\<close>: after a
  refusal nothing was changed, and otherwise no package outside the plan.
\<close>

definition reads_only :: "('w \<Rightarrow> string \<rightharpoonup> string) \<Rightarrow> 'w pkg_host \<Rightarrow> command \<Rightarrow> bool" where
  "reads_only db H cmd \<longleftrightarrow> (\<forall>w. db (snd (ph_run H cmd w)) = db w)"

definition hook_respected :: "('w \<Rightarrow> string \<rightharpoonup> string) \<Rightarrow> 'w pkg_host \<Rightarrow> string \<Rightarrow> (string \<Rightarrow> command) \<Rightarrow> bool" where
  "hook_respected db H base cmd \<longleftrightarrow> (\<forall>s w0 dir w r. ph_create H base s w0 = (Inr dir, w) \<longrightarrow>
     ph_result H dir (snd (ph_run H (cmd dir) w)) = Decoded r \<longrightarrow>
     (\<exists>stream. r = guard_decision s stream) \<and>
     (\<forall>n. \<not> gr_allowed r \<or> n \<notin> fst ` set (gr_plan r) \<longrightarrow> db (snd (ph_run H (cmd dir) w)) n = db w n))"

definition apt_ok :: "pkg_codec \<Rightarrow> pkg_config \<Rightarrow> 'w pkg_host \<Rightarrow> ('w \<Rightarrow> string \<rightharpoonup> string) \<Rightarrow> bool" where
  "apt_ok J c H db \<longleftrightarrow>
     (\<forall>st b. pc_enc J st = Inr b \<longrightarrow> b \<noteq> [] \<and> pc_dec J b = Some st) \<and>
     (\<forall>args t. reads_only db H (plain_command (pk_dpkg_query c) args t)) \<and>
     (\<forall>args t. reads_only db H (plain_command (pk_apt_get c) (''--simulate'' # args) t)) \<and>
     (\<forall>t. reads_only db H (plain_command (pk_apt_get c) [''--version''] t)) \<and>
     (\<forall>w m w'. installed_package_versions c H w = (Inr m, w') \<longrightarrow> map_of m = db w) \<and>
     (\<forall>s w. db (snd (ph_create H (pk_plan_dir c) s w)) = db w) \<and>
     (\<forall>dir w. db (ph_remove H dir w) = db w) \<and>
     (\<forall>ps. hook_respected db H (pk_plan_dir c) (\<lambda>dir. apt_upgrade c dir ps)) \<and>
     (\<forall>ts. hook_respected db H (pk_plan_dir c) (\<lambda>dir. apt_downgrade c dir ts))"

lemma apt_okD:
  assumes "apt_ok J c H db"
  shows apt_codec: "pc_enc J st = Inr b \<Longrightarrow> b \<noteq> [] \<and> pc_dec J b = Some st"
    and apt_query: "ph_run H (plain_command (pk_dpkg_query c) args t) w = (x, w') \<Longrightarrow> db w' = db w"
    and apt_simulate: "ph_run H (plain_command (pk_apt_get c) (''--simulate'' # args) t) w = (x, w') \<Longrightarrow> db w' = db w"
    and apt_version: "ph_run H (plain_command (pk_apt_get c) [''--version''] t) w = (x, w') \<Longrightarrow> db w' = db w"
    and apt_create: "ph_create H (pk_plan_dir c) s w = (y, w') \<Longrightarrow> db w' = db w"
    and apt_remove: "db (ph_remove H dir w) = db w"
  using assms unfolding apt_ok_def reads_only_def by (metis snd_conv)+

lemma apt_inventory:
  assumes "apt_ok J c H db" and "installed_package_versions c H w = (out, w')"
  shows "db w' = db w" and "out = Inr m \<Longrightarrow> map_of m = db w"
proof -
  show "db w' = db w"
    using assms(2) apt_query [OF assms(1)] by (auto simp: installed_package_versions_def split: prod.splits)
  show "out = Inr m \<Longrightarrow> map_of m = db w" using assms by (auto simp: apt_ok_def)
qed


lemma apt_installed:
  "apt_ok J c H db \<Longrightarrow> installed_versions c H m ns w = (out, w') \<Longrightarrow> db w' = db w"
proof (induction c H m ns w rule: installed_versions.induct)
  case (2 c H m name ns w)
  obtain res err w1 where r: "ph_run H (plain_command (pk_dpkg_query c) [''-W'', dpkg_format, name] (15 * second)) w
      = ((res, err), w1)" by (metis prod.exhaust)
  have w1: "db w1 = db w" by (rule apt_query [OF "2.prems"(1) r])
  show ?case
  proof (cases "err = None \<and> (\<exists>n v. parse_installed name (cr_stdout res) = Inr (n, v) \<and> map_of m n = None)")
    case True
    then obtain n v where e: "err = None" "parse_installed name (cr_stdout res) = Inr (n, v)" "map_of m n = None"
      by auto
    with "2.prems"(2) r have "installed_versions c H (m @ [(n, v)]) ns w1 = (out, w')" by simp
    with "2.IH" r e "2.prems"(1) w1 show ?thesis by fastforce
  next
    case False
    with "2.prems"(2) r w1 show ?thesis by (auto split: option.splits sum.splits if_splits)
  qed
qed simp

lemma apt_prepare:
  "apt_ok J c H db \<Longrightarrow> prepare_transaction H (pk_plan_dir c) s w = (out, w') \<Longrightarrow> db w' = db w"
  using apt_create by (auto simp: prepare_transaction_def split: option.splits)

lemma apt_hook:
  assumes "apt_ok J c H db" and "prepare_transaction H (pk_plan_dir c) s w0 = (Inr dir, w)"
    and "cmd dir = apt_upgrade c dir ps \<or> cmd dir = apt_downgrade c dir ts"
    and "ph_run H (cmd dir) w = (x, w1)" and "read_guard H dir w1 = Decoded r"
  obtains stream where "r = guard_decision s stream"
    and "\<And>n. \<not> gr_allowed r \<or> n \<notin> fst ` set (gr_plan r) \<Longrightarrow> db w1 n = db w n"
proof -
  have cr: "ph_create H (pk_plan_dir c) s w0 = (Inr dir, w)"
    using assms(2) by (auto simp: prepare_transaction_def split: option.splits)
  have rd: "ph_result H dir (snd (ph_run H (cmd dir) w)) = Decoded r"
    using assms(4,5) by (auto simp: read_guard_def split: guard_read.splits if_splits)
  have "hook_respected db H (pk_plan_dir c) (\<lambda>dir. apt_upgrade c dir ps)"
    "hook_respected db H (pk_plan_dir c) (\<lambda>dir. apt_downgrade c dir ts)"
    using assms(1) by (auto simp: apt_ok_def)
  with assms(3) cr rd have "(\<exists>stream. r = guard_decision s stream) \<and>
     (\<forall>n. \<not> gr_allowed r \<or> n \<notin> fst ` set (gr_plan r) \<longrightarrow> db (snd (ph_run H (cmd dir) w)) n = db w n)"
    unfolding hook_respected_def by metis
  with assms(4) that show ?thesis by auto
qed

section \<open>The playbook contract\<close>

text \<open>
  How \<open>Apply\<close> can end: a clean refusal, the boundary marker that \<open>Rollback\<close> never
  accepts, a proven no-op, or a guarded transaction whose state records every
  package of the locked plan with the version it had.
\<close>

inductive apply_ending :: "pkg_codec \<Rightarrow> ('w \<Rightarrow> string \<rightharpoonup> string) \<Rightarrow> 'w \<Rightarrow> apply_result \<Rightarrow> string option \<Rightarrow> 'w \<Rightarrow> bool"
  for J db w where
  ending_clean: "apr_state r = [] \<Longrightarrow> db w' = db w \<Longrightarrow> apply_ending J db w r (Some e) w'"
| ending_boundary: "pc_enc J boundary_state = Inr (apr_state r) \<Longrightarrow> apply_ending J db w r (Some e) w'"
| ending_noop: "pc_enc J st = Inr (apr_state r) \<Longrightarrow> us_noop st \<Longrightarrow> db w' = db w \<Longrightarrow> apply_ending J db w r None w'"
| ending_guarded: "pc_enc J (state_of_plan p) = Inr (apr_state r) \<Longrightarrow> distinct (map fst p) \<Longrightarrow>
    \<forall>(n, t) \<in> set p. db w n = Some (tr_from t) \<Longrightarrow> \<forall>n. n \<notin> fst ` set p \<longrightarrow> db w' n = db w n \<Longrightarrow>
    apply_ending J db w r err w'"

lemma apply_guarded_ending:
  assumes ok: "apt_ok J c H db" and "pc_enc J boundary_state = Inr bnd" and "distinct (map fst p)"
    and "\<forall>(n, t) \<in> set p. db w0 n = Some (tr_from t)" and "\<forall>n. n \<notin> fst ` set p \<longrightarrow> db w n = db w0 n"
    and "apply_guarded J c H bnd ps apt_err p w = (r, err, w')"
  shows "apply_ending J db w0 r err w'"
proof (cases "\<exists>st. pc_enc J (state_of_plan p) = Inr st \<and> length st \<le> 524288")
  case True
  then obtain st where st: "pc_enc J (state_of_plan p) = Inr st" "length st \<le> 524288" by auto
  obtain out w1 where q: "installed_package_versions c H w = (out, w1)" by fastforce
  from assms(6) st q have "apr_state r = st" "w' = w1"
    by (auto simp: apply_guarded_def split: sum.splits option.splits)
  with st q assms(3-5) apt_inventory(1) [OF ok q] show ?thesis
    by (intro ending_guarded [of J p]) auto
next
  case False
  with assms(2,6) show ?thesis
    by (auto simp: apply_guarded_def Let_def not_le intro: ending_boundary split: sum.splits if_splits)
qed

lemma apply_locked_ending:
  assumes ok: "apt_ok J c H db" and prep: "prepare_transaction H (pk_plan_dir c) (apply_spec inventory requested) w0 = (Inr dir, w)"
    and "inventory_ok inventory" and "map_of inventory = db w0"
    and "apply_locked J c H dir inventory requested ps w = (r, err, w')"
  shows "apply_ending J db w0 r err w'"
proof (cases "pc_enc J boundary_state")
  case (Inl e)
  with assms(5) apt_prepare [OF ok prep] show ?thesis
    by (auto simp: apply_locked_def no_apply_def intro: ending_clean)
next
  case (Inr bnd)
  obtain res apt_err w1 where run: "ph_run H (apt_upgrade c dir ps) w = ((res, apt_err), w1)"
    by (metis prod.exhaust)
  have w: "db w = db w0" by (rule apt_prepare [OF ok prep])
  note eq = assms(5) [unfolded apply_locked_def Inr sum.case run Let_def prod.case]
  have bnd: "apply_ending J db w0 (boundary bnd) (Some e) w'" for e w'
    using Inr by (intro ending_boundary) simp
  show ?thesis
  proof (cases "read_guard H dir w1")
    case (Missing g)
    show ?thesis
    proof (cases "apt_err = None \<and> (\<exists>r2 w2. noop_apply J c H inventory requested ps w1 = (Inr r2, w2))")
      case True
      then obtain r2 w2 where n: "noop_apply J c H inventory requested ps w1 = (Inr r2, w2)" and "apt_err = None" by auto
      with eq Missing have "r = r2" "err = None" "w' = w2" by auto
      from n obtain current st where q: "installed_package_versions c H w1 = (Inr current, w2)"
        and c: "length current = length inventory" "first_changed current inventory = None"
        and st: "pc_enc J st = Inr (apr_state r2)" "us_noop st"
        by (auto simp: noop_apply_def split: prod.splits sum.splits if_splits option.splits)
      have "map_of current = map_of inventory"
        using same_inventory installed_package_versions_ok [OF q] assms(3) c by auto
      then have "db w2 = db w0"
        using assms(4) apt_inventory [OF ok q] by simp
      with st show ?thesis unfolding \<open>r = r2\<close> \<open>err = None\<close> \<open>w' = w2\<close> by (intro ending_noop)
    next
      case False
      with eq Missing bnd show ?thesis by (auto split: option.splits prod.splits sum.splits)
    qed
  next
    case (Unreadable g)
    with eq bnd show ?thesis by auto
  next
    case (Decoded g)
    from apt_hook [where cmd = "\<lambda>dir. apt_upgrade c dir ps", OF ok prep _ run Decoded] obtain stream where
      g: "g = guard_decision (apply_spec inventory requested) stream"
      and keep: "\<And>n. \<not> gr_allowed g \<or> n \<notin> fst ` set (gr_plan g) \<Longrightarrow> db w1 n = db w n" by blast
    show ?thesis
    proof (cases "gr_allowed g")
      case True
      have frm: "\<forall>(n, t) \<in> set (gr_plan g). db w0 n = Some (tr_from t)"
        using guard_apply_entry [of "apply_spec inventory requested" stream] True g assms(4)
        by (auto simp: apply_spec_def)
      have d: "distinct (map fst (gr_plan g))"
        using guard_plan_distinct True unfolding g by blast
      from eq Decoded True have "apply_guarded J c H bnd ps apt_err (gr_plan g) w1 = (r, err, w')" by simp
      from apply_guarded_ending [OF ok Inr d frm _ this] keep w show ?thesis by simp
    next
      case False
      with keep w have "db w1 = db w0" by auto
      with eq Decoded False bnd show ?thesis
        by (auto simp: no_apply_def intro: ending_clean split: option.splits)
    qed
  qed
qed

lemma pkg_apply_ending:
  assumes ok: "apt_ok J c H db" and "pkg_apply J c H i w = (r, err, w')"
  shows "apply_ending J db w r err w'"
proof -
  let ?ps = "fst (pc_params J (inv_params i))"
  obtain o1 w1 where q1: "installed_versions c H [] ?ps w = (o1, w1)" by fastforce
  obtain o2 w2 where q2: "installed_package_versions c H w1 = (o2, w2)" by fastforce
  have d1: "db w1 = db w" by (rule apt_installed [OF ok q1])
  have d2: "db w2 = db w1" by (rule apt_inventory(1) [OF ok q2])
  show ?thesis
  proof (cases "\<exists>requested inventory. o1 = Inr requested \<and> o2 = Inr inventory \<and> first_changed inventory requested = None")
    case True
    then obtain requested inventory where i: "o1 = Inr requested" "o2 = Inr inventory"
      "first_changed inventory requested = None" by auto
    obtain o3 w3 where q3: "prepare_transaction H (pk_plan_dir c) (apply_spec inventory requested) w2 = (o3, w3)" by fastforce
    show ?thesis
    proof (cases o3)
      case (Inl e)
      with assms(2) q1 q2 q3 i d1 d2 apt_prepare [OF ok q3] show ?thesis
        by (auto simp: pkg_apply_def no_apply_def intro: ending_clean)
    next
      case (Inr dir)
      obtain r4 e4 w4 where q4: "apply_locked J c H dir inventory requested ?ps w3 = (r4, e4, w4)" by (metis prod.exhaust)
      with assms(2) q1 q2 q3 i Inr have eq: "r = r4" "err = e4" "w' = ph_remove H dir w4"
        by (auto simp: pkg_apply_def)
      have "inventory_ok inventory"
        using installed_package_versions_ok [of c H w1 inventory w2] q2 i(2) by simp
      moreover have "map_of inventory = db w2"
        using apt_inventory [OF ok q2] i(2) by simp
      ultimately have inv: "inventory_ok inventory" "map_of inventory = db w2" by simp_all
      from apply_locked_ending [OF ok q3 [unfolded Inr] inv q4] have "apply_ending J db w2 r4 e4 w4" .
      then show ?thesis
        unfolding eq using d1 d2 apt_remove [OF ok, of dir w4] by (simp add: apply_ending.simps)
    qed
  next
    case False
    with assms(2) q1 q2 d1 d2 show ?thesis
      by (auto simp: pkg_apply_def no_apply_def split: sum.splits option.splits intro: ending_clean)
  qed
qed

end
