(* ===== verification/PackageProps.thy ===== *)
theory PackageProps
  imports PackageLaws EngineProps
begin

text \<open>
  The package upgrade playbook keeps the playbook contract of the engine under APT
  and dpkg as documented, and the properties that follow.
\<close>

section \<open>Undoing an upgrade\<close>

lemma noop_rollback:
  assumes "pc_dec J (inv_state i) = Some st" and "us_noop st" and "pkg_rollback J c H i w = (Inr res, w')"
  shows "w' = w"
  using assms by (auto simp: pkg_rollback_def decode_pkg_state_def split: sum.splits if_splits)

lemma boundary_rollback:
  "pc_dec J (inv_state i) = Some boundary_state \<Longrightarrow> pkg_rollback J c H i w \<noteq> (Inr res, w')"
  by (auto simp: pkg_rollback_def decode_pkg_state_def boundary_state_def split: sum.splits if_splits)

lemma rollback_locked_undoes:
  assumes ok: "apt_ok J c H db" and prep: "prepare_transaction H (pk_plan_dir c) (rollback_spec ts) w0 = (Inr dir, w)"
    and "rollback_locked c H dir st ts w = (Inr res, w')"
  shows "(\<forall>n. n \<notin> fst ` set ts \<longrightarrow> db w' n = db w0 n) \<and>
    (\<forall>(n, v) \<in> set (us_versions st). debian_version v \<longrightarrow> db w' n = Some v)"
proof -
  obtain x apt_err w1 where run: "ph_run H (apt_downgrade c dir ts) w = ((x, apt_err), w1)" by (metis prod.exhaust)
  from assms(3) run obtain g current w2 where g: "read_guard H dir w1 = Decoded g" "gr_allowed g"
    and q: "installed_package_versions c H w1 = (Inr current, w2)" "w' = w2"
    and fc: "first_changed current (us_versions st) = None"
    by (auto simp: rollback_locked_def split: guard_read.splits if_splits prod.splits sum.splits option.splits)
  from apt_hook [where cmd = "\<lambda>dir. apt_downgrade c dir ts", OF ok prep _ run g(1)] obtain stream where
    gd: "g = guard_decision (rollback_spec ts) stream"
    and keep: "\<And>n. \<not> gr_allowed g \<or> n \<notin> fst ` set (gr_plan g) \<Longrightarrow> db w1 n = db w n" by blast
  have "fst ` set (gr_plan g) \<subseteq> fst ` set ts"
  proof
    fix n assume "n \<in> fst ` set (gr_plan g)"
    then obtain t where "(n, t) \<in> set (gr_plan g)" by auto
    with g(2) gd have "map_of ts n = Some t"
      using guard_rollback_sound [of "rollback_spec ts" stream n t] by (simp add: rollback_spec_def)
    then show "n \<in> fst ` set ts" by (metis domI dom_map_of_conv_image_fst)
  qed
  with keep have "\<forall>n. n \<notin> fst ` set ts \<longrightarrow> db w1 n = db w n" by blast
  moreover have "db w2 = db w1" "map_of current = db w1" using apt_inventory [OF ok q(1)] by simp_all
  moreover have "db w = db w0" by (rule apt_prepare [OF ok prep])
  moreover have "map_of current n = Some v" if "(n, v) \<in> set (us_versions st)" "debian_version v" for n v
  proof -
    have "v \<noteq> []" using that(2) unfolding debian_version_def by (rule class_pattern_nonempty)
    moreover have "get_str current n = v" using that(1) fc by (auto simp: first_changed_None)
    ultimately show ?thesis by (simp add: get_str_eq)
  qed
  ultimately show ?thesis using q(2) by auto
qed

lemma guarded_rollback:
  assumes ok: "apt_ok J c H db" and dec: "pc_dec J (inv_state i) = Some (state_of_plan p)"
    and "distinct (map fst p)" and "pkg_rollback J c H i w = (Inr res, w')"
  shows "(\<forall>n. n \<notin> fst ` set p \<longrightarrow> db w' n = db w n) \<and> (\<forall>(n, t) \<in> set p. db w' n = Some (tr_from t))"
proof -
  let ?st = "state_of_plan p"
  have d: "decode_pkg_state J (inv_state i) = Inr ?st"
    using assms(4) dec by (auto simp: pkg_rollback_def decode_pkg_state_def split: if_splits)
  have vs: "us_versions ?st = map (\<lambda>(n, t). (n, tr_from t)) p" "us_noop ?st = False"
    by (simp_all add: state_of_plan_def)
  have ver: "debian_version v" if "(n, v) \<in> set (us_versions ?st)" for n v
    using decode_pkg_stateD [OF d] that by (auto simp: valid_version_map_def list_all_iff)
  have keys: "fst ` set (us_versions ?st) = fst ` set p" unfolding vs by force
  obtain out w1 where q: "installed_package_versions c H w = (out, w1)" by fastforce
  from assms(4) d vs(2) q obtain current ts where o: "out = Inr current"
    and ts: "rollback_transitions (us_applied ?st) current (us_versions ?st) = Inr ts"
    by (auto simp: pkg_rollback_def Let_def split: sum.splits)
  note inv = apt_inventory [OF ok q]
  have versions: "(n, tr_from t) \<in> set (us_versions ?st)" if "(n, t) \<in> set p" for n t
    using that unfolding vs(1) by force
  show ?thesis
  proof (cases "ts = []")
    case True
    with assms(4) d vs(2) q o ts have "w' = w1" by (simp add: pkg_rollback_def Let_def)
    moreover have "db w n = Some v" if "(n, v) \<in> set (us_versions ?st)" for n v
      using rollback_transitions_Nil [OF ts [unfolded True] that] inv(2) [OF o] by simp
    ultimately show ?thesis using inv(1) versions by auto
  next
    case False
    with assms(4) d vs(2) q o ts obtain dir w2 w3 where
      prep: "prepare_transaction H (pk_plan_dir c) (rollback_spec ts) w1 = (Inr dir, w2)"
      and rl: "rollback_locked c H dir ?st ts w2 = (Inr res, w3)" and w': "w' = ph_remove H dir w3"
      by (auto simp: pkg_rollback_def Let_def split: sum.splits prod.splits)
    note undo = rollback_locked_undoes [OF ok prep rl]
    have "db w' = db w3" using w' apt_remove [OF ok] by simp
    moreover have "fst ` set ts \<subseteq> fst ` set p"
      using rollback_transitions_entry [OF ts] keys by force
    moreover have "db w3 n = Some (tr_from t)" if "(n, t) \<in> set p" for n t
      using undo versions [OF that] ver [OF versions [OF that]] by blast
    ultimately show ?thesis using undo inv(1) by (intro conjI allI impI) (metis subsetD, auto)
  qed
qed

lemma ending_rollback:
  assumes ok: "apt_ok J c H db" and fin: "apply_ending J db w r err w1" and "apr_state r \<noteq> []" and "db w2 = db w1"
    and rb: "pkg_rollback J c H (i\<lparr>inv_state := apr_state r\<rparr>) w2 = (Inr res, w3)"
  shows "db w3 = db w"
  using fin
proof cases
  case ending_clean
  with assms(3) show ?thesis by simp
next
  case ending_boundary
  with apt_codec [OF ok] boundary_rollback rb show ?thesis by (metis invocation.select_convs(4) invocation.surjective invocation.update_convs(4))
next
  case (ending_noop st)
  with apt_codec [OF ok] have "pc_dec J (inv_state (i\<lparr>inv_state := apr_state r\<rparr>)) = Some st" by simp
  with noop_rollback rb ending_noop assms(4) show ?thesis by metis
next
  case (ending_guarded p)
  with apt_codec [OF ok] have "pc_dec J (inv_state (i\<lparr>inv_state := apr_state r\<rparr>)) = Some (state_of_plan p)" by simp
  note undo = guarded_rollback [OF ok this ending_guarded(2) rb]
  show ?thesis
  proof
    fix n show "db w3 n = db w n"
    proof (cases "n \<in> fst ` set p")
      case True
      then obtain t where "(n, t) \<in> set p" by auto
      with undo ending_guarded(3) show ?thesis by fastforce
    next
      case False
      with undo ending_guarded(4) assms(4) show ?thesis by simp
    qed
  qed
qed

section \<open>The contract\<close>

lemma pkg_reads:
  assumes ok: "apt_ok J c H db"
  shows "db (snd (pkg_precheck J c H i w)) = db w" "db (snd (pkg_preview J c H i w)) = db w"
    "db (snd (pkg_verify J c H i w)) = db w"
  using apt_installed [OF ok] apt_version [OF ok] apt_simulate [OF ok]
  by (auto simp: pkg_precheck_def pkg_preview_def pkg_verify_def Let_def
      split: prod.splits sum.splits option.splits)

interpretation pkg: playbook_contract "package_playbook J c H" db "apt_ok J c H db" for J c H db
proof unfold_locales
  fix i :: invocation and w w1 :: 'a and r e
  assume ok: "apt_ok J c H db" and "pb_apply (package_playbook J c H) i w = (r, Some e, w1)" and r: "apr_state r = []"
  then have "apply_ending J db w r (Some e) w1" by (intro pkg_apply_ending) (simp_all add: package_playbook_def)
  then show "db w1 = db w" using r apt_codec [OF ok] by cases fastforce+
next
  fix i :: invocation and w w1 w2 w3 :: 'a and r err res
  assume ok: "apt_ok J c H db" and a: "pb_apply (package_playbook J c H) i w = (r, err, w1)"
    and "apr_state r \<noteq> []" "db w2 = db w1"
    and rb: "pb_rollback (package_playbook J c H) (i\<lparr>inv_state := apr_state r\<rparr>) w2 = (Inr res, w3)"
  have "apply_ending J db w r err w1" using pkg_apply_ending [OF ok] a by (simp add: package_playbook_def)
  with ok \<open>apr_state r \<noteq> []\<close> \<open>db w2 = db w1\<close> rb show "db w3 = db w"
    by (intro ending_rollback) (simp_all add: package_playbook_def)
qed (simp_all add: package_playbook_def pkg_reads)

section \<open>A host that behaves as documented\<close>

text \<open>
  A host with one upgradable package: its APT runs the hook on the plan that
  upgrades it, refuses every downgrade, and knows no other package.
\<close>

record demo_host =
  dh_upgraded :: bool
  dh_spec :: "guard_spec option"
  dh_result :: "guard_result option"

definition demo_config :: pkg_config where
  "demo_config = \<lparr>pk_apt_get = ''/a'', pk_dpkg_query = ''/d'', pk_hook = ''/h'', pk_plan_dir = ''/p''\<rparr>"

definition demo_inventory :: "demo_host \<Rightarrow> version_map" where
  "demo_inventory w = [(''openssl:amd64'', if dh_upgraded w then ''3.0-2'' else ''3.0-1'')]"

definition demo_line :: "demo_host \<Rightarrow> string" where
  "demo_line w = ''ii '' @ [TAB] @ ''openssl'' @ [TAB] @ ''amd64'' @ [TAB] @
     (if dh_upgraded w then ''3.0-2'' else ''3.0-1'') @ [NL]"

definition demo_apt :: "string list \<Rightarrow> demo_host \<Rightarrow> (command_result \<times> string option) \<times> demo_host" where
  "demo_apt args w =
     (if args = [] \<or> hd args \<noteq> ''-y'' then ((no_output, None), w)
      else case dh_spec w of
          None \<Rightarrow> ((no_output, Some ''no hook''), w)
        | Some s \<Rightarrow>
           (let r = guard_decision s (if ''--only-upgrade'' \<in> set args then render_plan [demo_upgrade] else [])
            in if gr_allowed r
               then ((no_output, None), w\<lparr>dh_result := Some r, dh_upgraded := True\<rparr>)
               else ((no_output, Some ''hook failed''), w\<lparr>dh_result := Some r\<rparr>)))"

definition demo_runner :: "demo_host runner" where
  "demo_runner c w =
     (if cmd_path c = ''/d'' then
        (if length (cmd_args c) \<noteq> 2 \<and> ''openssl'' \<notin> set (cmd_args c) then ((no_output, Some ''exit 1''), w)
         else ((no_output\<lparr>cr_stdout := demo_line w\<rparr>, None), w))
      else demo_apt (cmd_args c) w)"

definition demo_files :: "demo_host pkg_host" where
  "demo_files = \<lparr>ph_run = demo_runner,
     ph_create = (\<lambda>_ s w. (Inr ''/p/t'', w\<lparr>dh_spec := Some s, dh_result := None\<rparr>)),
     ph_result = (\<lambda>_ w. case dh_result w of None \<Rightarrow> Missing ''no such file'' | Some r \<Rightarrow> Decoded r),
     ph_remove = (\<lambda>_ w. w\<lparr>dh_spec := None\<rparr>)\<rparr>"

definition demo_codec :: pkg_codec where
  "demo_codec = \<lparr>pc_params = (\<lambda>b. ([b], None)),
     pc_enc = (\<lambda>st. if st = boundary_state then Inr ''b''
        else if st = state_of_plan [up_entry demo_upgrade] then Inr ''g'' else Inl ''unsupported''),
     pc_dec = (\<lambda>b. if b = ''b'' then Some boundary_state
        else if b = ''g'' then Some (state_of_plan [up_entry demo_upgrade]) else None)\<rparr>"

lemma demo_baseline: "parse_baseline (demo_line w) = Inr (demo_inventory w)"
proof (cases "dh_upgraded w")
  case True
  have "parse_baseline (''ii '' @ [TAB] @ ''openssl'' @ [TAB] @ ''amd64'' @ [TAB] @ ''3.0-2'' @ [NL]) =
      Inr [(''openssl:amd64'', ''3.0-2'')]" by code_simp
  with True show ?thesis by (simp add: demo_line_def demo_inventory_def)
next
  case False
  have "parse_baseline (''ii '' @ [TAB] @ ''openssl'' @ [TAB] @ ''amd64'' @ [TAB] @ ''3.0-1'' @ [NL]) =
      Inr [(''openssl:amd64'', ''3.0-1'')]" by code_simp
  with False show ?thesis by (simp add: demo_line_def demo_inventory_def)
qed

lemma demo_hook:
  assumes "\<forall>dir. cmd_path (cmd dir) = ''/a'' \<and> cmd_args (cmd dir) \<noteq> [] \<and> hd (cmd_args (cmd dir)) = ''-y''"
  shows "hook_respected (\<lambda>w. map_of (demo_inventory w)) demo_files base cmd"
proof -
  have plan: "parse_plan (if b then render_plan [demo_upgrade] else []) = Inr p \<Longrightarrow> fst ` set p = {''openssl:amd64''}" for b p
  proof (cases b)
    case True
    assume "parse_plan (if b then render_plan [demo_upgrade] else []) = Inr p"
    with True demo_plan have "p = [up_entry demo_upgrade]" by simp
    then show ?thesis by (simp add: up_entry_def demo_upgrade_def)
  next
    case False
    assume "parse_plan (if b then render_plan [demo_upgrade] else []) = Inr p"
    with False show ?thesis by (simp add: parse_plan_def read_end)
  qed
  show ?thesis
  proof (unfold hook_respected_def, intro allI impI)
    fix s w0 dir w r
    assume c: "ph_create demo_files base s w0 = (Inr dir, w)"
      and r: "ph_result demo_files dir (snd (ph_run demo_files (cmd dir) w)) = Decoded r"
    let ?stream = "if ''--only-upgrade'' \<in> set (cmd_args (cmd dir)) then render_plan [demo_upgrade] else []"
    have s: "dh_spec w = Some s" using c by (auto simp: demo_files_def)
    have run: "snd (ph_run demo_files (cmd dir) w) =
        (if gr_allowed (guard_decision s ?stream)
         then w\<lparr>dh_result := Some (guard_decision s ?stream), dh_upgraded := True\<rparr>
         else w\<lparr>dh_result := Some (guard_decision s ?stream)\<rparr>)"
      using assms s by (simp add: demo_files_def demo_runner_def demo_apt_def Let_def)
    with r have g: "r = guard_decision s ?stream" by (auto simp: demo_files_def split: if_splits)
    have "fst ` set (gr_plan r) = {''openssl:amd64''}" if "gr_allowed r"
      using guard_allowedD [of s ?stream] that g plan by blast
    then show "(\<exists>stream. r = guard_decision s stream) \<and>
        (\<forall>n. \<not> gr_allowed r \<or> n \<notin> fst ` set (gr_plan r) \<longrightarrow>
          map_of (demo_inventory (snd (ph_run demo_files (cmd dir) w))) n = map_of (demo_inventory w) n)"
      using g unfolding run by (auto simp: demo_inventory_def)
  qed
qed

lemma demo_apt_ok: "apt_ok demo_codec demo_config demo_files (\<lambda>w. map_of (demo_inventory w))"
proof -
  have "boundary_state \<noteq> state_of_plan [up_entry demo_upgrade]" by (simp add: boundary_state_def state_of_plan_def)
  then have "\<forall>st b. pc_enc demo_codec st = Inr b \<longrightarrow> b \<noteq> [] \<and> pc_dec demo_codec b = Some st"
    by (simp add: demo_codec_def)
  moreover have "map_of m = map_of (demo_inventory w)"
    if "installed_package_versions demo_config demo_files w = (Inr m, w')" for w m w'
    using that by (auto simp: installed_package_versions_def demo_files_def demo_runner_def demo_config_def
        plain_command_def no_output_def demo_baseline)
  moreover have "hook_respected (\<lambda>w. map_of (demo_inventory w)) demo_files base (\<lambda>dir. apt_upgrade demo_config dir ps)"
    "hook_respected (\<lambda>w. map_of (demo_inventory w)) demo_files base (\<lambda>dir. apt_downgrade demo_config dir ts)" for base ps ts
    by (rule demo_hook; simp add: apt_upgrade_def apt_downgrade_def plain_command_def demo_config_def)+
  ultimately show ?thesis
    by (simp add: apt_ok_def reads_only_def demo_files_def demo_runner_def demo_config_def plain_command_def
        demo_apt_def demo_inventory_def)
qed

section \<open>Properties\<close>


definition demo_package_request :: request where
  "demo_package_request = \<lparr>rq_action_id = ''a1'', rq_actor = ''admin'', rq_type = TypePackageSecurityUpgrade,
     rq_op = Execute, rq_params = ''curl'', rq_state = []\<rparr>"


text \<open>
  C12: The specification \<open>Apply\<close> writes for the plan guard always passes the guard's
  own validation: for a valid package list whose versions the baseline confirms,
  preparing the transaction never fails on the specification.
\<close>

theorem apply_spec_accepted:
  assumes "validate_package_list ps = None" and "installed_versions c H [] ps w = (Inr requested, w1)"
    and "installed_package_versions c H w1 = (Inr inventory, w2)" and "first_changed inventory requested = None"
  shows "prepare_transaction H base (apply_spec inventory requested) w2 =
    ph_create H base (apply_spec inventory requested) w2"
  using apply_spec_valid [OF assms] by (simp add: prepare_transaction_def)

theorem apply_spec_accepted_witness:
  "fst (prepare_transaction demo_files ''/p''
     (apply_spec [(''openssl:amd64'', ''3.0-1'')] [(''openssl:amd64'', ''3.0-1'')])
     \<lparr>dh_upgraded = False, dh_spec = None, dh_result = None\<rparr>) = Inr ''/p/t''"
proof -
  let ?w = "\<lparr>dh_upgraded = False, dh_spec = None, dh_result = None\<rparr>"
  have v: "validate_package_list [''openssl''] = None"
    "parse_installed ''openssl'' (''ii '' @ [TAB] @ ''openssl'' @ [TAB] @ ''amd64'' @ [TAB] @ ''3.0-1'' @ [NL]) =
      Inr (''openssl:amd64'', ''3.0-1'')" by code_simp+
  have 1: "installed_versions demo_config demo_files [] [''openssl''] ?w = (Inr [(''openssl:amd64'', ''3.0-1'')], ?w)"
    using v(2) by (simp add: demo_files_def demo_runner_def demo_config_def plain_command_def demo_line_def no_output_def)
  have 2: "installed_package_versions demo_config demo_files ?w = (Inr [(''openssl:amd64'', ''3.0-1'')], ?w)"
    by (simp add: installed_package_versions_def demo_files_def demo_runner_def demo_config_def
        plain_command_def no_output_def demo_baseline) (simp add: demo_inventory_def)
  have 3: "first_changed [(''openssl:amd64'', ''3.0-1'')] [(''openssl:amd64'', ''3.0-1'')] = None"
    by (simp add: first_changed_def get_str_def)
  show ?thesis
    unfolding apply_spec_accepted [OF v(1) 1 2 3] by (simp add: demo_files_def)
qed

text \<open>
  A rollback the plan guard allows only moves packages back: each package it
  touches goes from the version the action installed, which is the version
  installed now, to the version recorded before the action.
\<close>

theorem rollback_moves_back:
  assumes "rollback_transitions (us_applied st) current (us_versions st) = Inr ts"
    and "gr_allowed (guard_decision (rollback_spec ts) stream)"
  shows "list_all (\<lambda>(n, t). (n, tr_to t) \<in> set (us_versions st) \<and> tr_from t = get_str (us_applied st) n \<and>
     map_of current n = Some (tr_from t)) (gr_plan (guard_decision (rollback_spec ts) stream))"
proof -
  have "map_of ts n = Some t" if "(n, t) \<in> set (gr_plan (guard_decision (rollback_spec ts) stream))" for n t
    using guard_rollback_sound [OF _ assms(2) that] by (simp add: rollback_spec_def)
  then show ?thesis
    using rollback_transitions_entry [OF assms(1)] by (fastforce simp: list_all_iff dest: map_of_SomeD)
qed

definition demo_downgrade_line :: string where
  "demo_downgrade_line = ''openssl 3.0-2 amd64 none > 3.0-1 amd64 none /v/o.deb''"

definition demo_downgrade :: string where
  "demo_downgrade = ''VERSION 3'' @ NL # ''APT::Architecture=amd64'' @ [NL] @ [NL] @ demo_downgrade_line @ NL # []"

lemma parse_downgrade:
  "parse_plan demo_downgrade = Inr [(''openssl:amd64'', \<lparr>tr_from = ''3.0-2'', tr_to = ''3.0-1'', tr_dir = ''>''\<rparr>)]"
proof -
  let ?t = "\<lparr>tr_from = ''3.0-2'', tr_to = ''3.0-1'', tr_dir = ''>''\<rparr>"
  have "parse_action demo_downgrade_line = Inr (''openssl:amd64'', ?t, False)" by code_simp
  moreover have "read_plan_line (demo_downgrade_line @ NL # []) = (Line demo_downgrade_line, [])"
    by (rule read_line_at) (simp_all add: NL_def CR_def demo_downgrade_line_def)
  moreover have "demo_downgrade_line \<noteq> []" by (simp add: demo_downgrade_line_def)
  ultimately have a: "read_actions (demo_downgrade_line @ NL # []) [] [] = Inr ([(''openssl:amd64'', ?t)], [])"
    by (simp add: read_actions.simps [of "demo_downgrade_line @ NL # []"] read_actions.simps [of "[]"] read_end put_same_def)
  have "read_plan_line demo_downgrade = (Line ''VERSION 3'', ''APT::Architecture=amd64'' @ [NL] @ [NL] @ demo_downgrade_line @ NL # [])"
    unfolding demo_downgrade_def by (rule read_line_at) (simp_all add: NL_def CR_def)
  moreover have "take (max_plan_bytes + 1) demo_downgrade = demo_downgrade"
    by (simp add: demo_downgrade_def demo_downgrade_line_def)
  ultimately show ?thesis
    using a read_header [of "demo_downgrade_line @ NL # []"] unfolding parse_plan_def by simp
qed

theorem rollback_moves_back_witness:
  "list_all (\<lambda>(n, t). (n, tr_to t) \<in> set (us_versions (state_of_plan [up_entry demo_upgrade])))
     (gr_plan (guard_decision (rollback_spec [(''openssl:amd64'', \<lparr>tr_from = ''3.0-2'', tr_to = ''3.0-1'', tr_dir = ''>''\<rparr>)])
        demo_downgrade))"
proof -
  let ?ts = "[(''openssl:amd64'', \<lparr>tr_from = ''3.0-2'', tr_to = ''3.0-1'', tr_dir = ''>''\<rparr>)]"
  have "rollback_transitions (us_applied (state_of_plan [up_entry demo_upgrade])) [(''openssl:amd64'', ''3.0-2'')]
      (us_versions (state_of_plan [up_entry demo_upgrade])) = Inr ?ts"
    by (simp add: state_of_plan_def up_entry_def demo_upgrade_def get_str_def)
  moreover have "gr_allowed (guard_decision (rollback_spec ?ts) demo_downgrade)"
  proof -
    have "validate_locked (rollback_spec ?ts) ?ts = None" by code_simp
    then show ?thesis by (simp add: guard_decision_def parse_downgrade)
  qed
  ultimately show ?thesis using rollback_moves_back by (fastforce simp: list_all_iff)
qed

end
