(* ===== verification/StoreTypes.thy ===== *)
theory StoreTypes
  imports ActionTypes "HOL-Library.Product_Lexorder"
begin

text \<open>
  The Controller's database (\<open>internal/store/store.go\<close>, \<open>internal/domain/models.go\<close>):
  one record field per table, one record per row, and the JSON coders the queries
  and handlers use.  A Go method that runs a transaction is a function to
  \<open>store_error + store\<close>: \<open>Inl\<close> is a rollback, which leaves the database as it was.
\<close>

section \<open>Errors\<close>

datatype store_error =
    ErrNotFound
  | ErrConflict
  | ErrUnauthorized
  | ErrTokenExpired
  | ErrTokenExhausted
  | ErrPolicyStopped
  | ErrBanAlreadyLive
  | ErrBanRateLimited
  | ErrConstraint              \<comment> \<open>an SQL constraint error that is not mapped\<close>
  | ErrOther string

section \<open>Actions and commands\<close>

datatype action_status = Draft | Approved | Executing | AwaitingConfirmation | Confirming
  | Succeeded | Failed | RollingBack | RolledBack | Cancelled | Indeterminate

datatype command_type = CommandScan | CommandExecuteAction | CommandRollback | CommandConfirm
  | CommandOther string

definition action_command :: "command_type \<Rightarrow> bool" where
  "action_command t \<longleftrightarrow> t = CommandExecuteAction \<or> t = CommandRollback \<or> t = CommandConfirm"

abbreviation (input) ActionCommandTTL :: duration where "ActionCommandTTL \<equiv> 10 * minute"
abbreviation (input) ActionExecutionTimeout :: duration where "ActionExecutionTimeout \<equiv> 2 * hour"

record action_row =
  ac_id :: string
  ac_device :: string
  ac_finding :: string
  ac_type :: action_type
  ac_params :: bytes
  ac_preview :: bytes
  ac_status :: action_status
  ac_nonce :: string
  ac_approved_by :: string
  ac_approved_at :: "instant option"
  ac_executed :: "instant option"
  ac_completed :: "instant option"
  ac_rollback :: "bytes option"
  ac_confirm_by :: "instant option"
  ac_error :: string
  ac_created :: instant
  ac_updated :: instant

record audit_row =
  au_action :: string
  au_actor :: string
  au_event :: string
  au_details :: bytes
  au_at :: instant

record cmd_row =
  cm_id :: string
  cm_device :: string
  cm_type :: command_type
  cm_payload :: bytes
  cm_created :: instant
  cm_claimed :: "instant option"
  cm_started :: "instant option"
  cm_completed :: "instant option"
  cm_result :: "bytes option"
  cm_error :: string
  cm_digest :: string

section \<open>Automatic defense\<close>

record ban_row =
  bn_id :: string
  bn_device :: string
  bn_action :: string
  bn_source :: string
  bn_reason :: string
  bn_expires :: instant
  bn_created :: instant
  bn_simulated :: bool
  bn_status :: string

record policy_row =
  po_device :: string
  po_enabled :: bool
  po_stop :: bool
  po_auto_ban :: bool
  po_threshold :: int
  po_window :: int           \<comment> \<open>seconds\<close>
  po_ban_duration :: int     \<comment> \<open>seconds\<close>
  po_max_bans :: int
  po_allowlist :: bytes
  po_updated :: instant

datatype autonomy_mode = AutonomyObserve | AutonomyAssist | AutonomyAutoLowRisk | AutonomyEnhanced

record grant_row =
  pg_device :: string
  pg_capability :: string
  pg_enabled :: bool
  pg_mode :: autonomy_mode
  pg_allowed :: bytes
  pg_max :: int
  pg_stop :: bool
  pg_updated :: instant

section \<open>Incidents, response plans and notifications\<close>

datatype plan_status = PlanProposed | PlanApproved | PlanExecuting | PlanCompleted | PlanFailed | PlanCancelled

datatype incident_status = IncidentOpen | IncidentInvestigating | IncidentAwaitingApproval
  | IncidentResponding | IncidentMonitoring | IncidentResolved | IncidentDismissed

datatype severity = SeverityInfo | SeverityLow | SeverityMedium | SeverityHigh | SeverityCritical

record plan_row =
  pl_id :: string
  pl_incident :: string
  pl_investigation :: string
  pl_title :: string
  pl_rationale :: string
  pl_risk :: string
  pl_status :: plan_status
  pl_requires :: bool
  pl_steps :: bytes
  pl_created :: instant
  pl_updated :: instant

text \<open>A step of a plan; \<open>rs_rest\<close> stands for the fields the store only carries (title, rationale, risk, approval flag).\<close>

record response_step =
  rs_id :: string
  rs_type :: action_type
  rs_params :: bytes
  rs_action :: string
  rs_rest :: bytes

record link_row =
  lk_plan :: string
  lk_step :: string
  lk_action :: string

record incident_row =
  in_id :: string
  in_device :: string
  in_key :: string
  in_category :: string
  in_severity :: severity
  in_status :: incident_status
  in_count :: nat
  in_first :: instant
  in_last :: instant
  in_investigated :: "instant option"
  in_created :: instant
  in_updated :: instant

record timeline_row =
  tl_incident :: string
  tl_actor :: string
  tl_type :: string
  tl_details :: bytes
  tl_at :: instant

record notification_event =
  ne_id :: string
  ne_type :: string
  ne_severity :: string
  ne_device :: string
  ne_title :: string
  ne_message :: string
  ne_at :: instant
  ne_data :: bytes

datatype channel = Webhook | Smtp

datatype delivery_status = NtPending | NtInflight | NtDelivered | NtFailed | NtCanceled

record outbox_row =
  ob_id :: string
  ob_event_id :: string
  ob_channel :: channel
  ob_event :: bytes
  ob_version :: instant
  ob_status :: delivery_status
  ob_attempts :: nat
  ob_next :: instant
  ob_lease :: "instant option"
  ob_error :: string
  ob_created :: instant
  ob_updated :: instant
  ob_delivered :: "instant option"

record notify_settings =
  ns_webhook :: bool
  ns_smtp :: bool
  ns_updated :: instant

section \<open>The database\<close>

datatype device_status = DevicePending | DeviceOnline | DeviceOffline | DeviceRevoked

record device_row =
  dv_id :: string
  dv_name :: string
  dv_hostname :: string
  dv_os :: string
  dv_arch :: string
  dv_version :: string
  dv_observer :: bool
  dv_identity :: string
  dv_status :: device_status
  dv_last_seen :: "instant option"
  dv_enrolled :: instant
  dv_created :: instant
  dv_updated :: instant

record store =
  st_devices :: "device_row list"
  st_actions :: "action_row list"
  st_audit :: "audit_row list"
  st_commands :: "cmd_row list"
  st_bans :: "ban_row list"
  st_policies :: "policy_row list"
  st_grants :: "grant_row list"
  st_plans :: "plan_row list"
  st_links :: "link_row list"
  st_incidents :: "incident_row list"
  st_timeline :: "timeline_row list"
  st_settings :: "notify_settings option"
  st_outbox :: "outbox_row list"

section \<open>Coders\<close>

record start_meta =
  sm_action :: string
  sm_policy :: bool
  sm_type :: action_type
  sm_params :: bytes

record cmd_meta =
  me_action :: string
  me_type :: action_type
  me_params :: bytes

text \<open>
  A receipt as the Controller decodes it; \<open>hs_details\<close> is the details map of a step
  with a result.
\<close>

record helper_step =
  hs_op :: operation
  hs_started :: instant
  hs_finished :: instant
  hs_success :: bool
  hs_details :: "(string \<times> detail) list option"

record helper_receipt =
  hr_action :: string
  hr_type :: action_type
  hr_op :: operation
  hr_params_digest :: string
  hr_started :: instant
  hr_finished :: instant
  hr_success :: bool
  hr_indeterminate :: bool
  hr_state_digest :: string
  hr_confirm_by :: "instant option"
  hr_steps :: "helper_step list"

record stored_step =
  ss_op :: operation
  ss_started :: instant
  ss_finished :: instant
  ss_success :: bool
  ss_pending :: "bool option"

record stored_receipt =
  sr_action :: string
  sr_type :: action_type
  sr_op :: operation
  sr_params_digest :: string
  sr_started :: instant
  sr_finished :: instant
  sr_success :: bool
  sr_indeterminate :: bool
  sr_state_digest :: string
  sr_confirm_by :: "instant option"
  sr_steps :: "stored_step list"

text \<open>
  \<open>encoding/json\<close> on the types above and SQLite's \<open>json_extract\<close>.  A decoder
  returns \<open>None\<close> where \<open>json.Unmarshal\<close> fails; that of a receipt returns what it
  filled in and whether it succeeded.  An encoder of a value with embedded
  raw JSON returns \<open>[]\<close> where \<open>json.Marshal\<close> fails (the code ignores that error).
\<close>

record store_lib =
  jx_lib :: lib
  jx_start :: "bytes \<Rightarrow> start_meta option"
  jx_meta :: "bytes \<Rightarrow> cmd_meta option"
  jx_action_id :: "bytes \<Rightarrow> string option"
  jx_extract_id :: "bytes \<Rightarrow> string option"
  jx_ttl :: "bytes \<Rightarrow> int option"
  jx_receipt :: "bytes \<Rightarrow> helper_receipt \<times> bool"
  jx_stored_receipt :: "stored_receipt \<Rightarrow> bytes"
  jx_object_size :: "bytes \<Rightarrow> nat option"
  jx_result :: "bool \<Rightarrow> bool \<Rightarrow> bytes \<Rightarrow> bytes \<Rightarrow> bytes"
  jx_completion :: "string \<Rightarrow> string \<Rightarrow> bool \<Rightarrow> bytes \<Rightarrow> bytes \<Rightarrow> bytes \<Rightarrow> string \<Rightarrow> bytes option"
  jx_legacy_result :: "bool \<Rightarrow> bytes \<Rightarrow> bytes \<Rightarrow> bytes option"
  jx_result_ok :: "bytes \<Rightarrow> bool"
  jx_map :: "(string \<times> detail) list \<Rightarrow> bytes"
  jx_rollback :: "cmd_meta \<Rightarrow> bytes \<Rightarrow> bytes"
  jx_event :: "notification_event \<Rightarrow> bytes option"
  jx_dec_event :: "bytes \<Rightarrow> notification_event option"
  jx_event_type :: "bytes \<Rightarrow> string option"
  jx_event_device :: "bytes \<Rightarrow> string option"
  jx_allowed :: "bytes \<Rightarrow> string list option"
  jx_steps :: "bytes \<Rightarrow> response_step list option"
  jx_enc_steps :: "response_step list \<Rightarrow> bytes option"
  jx_prepared :: "string \<Rightarrow> string \<Rightarrow> bytes \<Rightarrow> bytes"

section \<open>Rows\<close>

definition insert_action :: "action_row \<Rightarrow> store \<Rightarrow> store_error + store" where
  "insert_action a s =
     (if ac_id a \<in> ac_id ` set (st_actions s) \<or> ac_device a \<notin> dv_id ` set (st_devices s) then Inl ErrConflict
      else Inr (s\<lparr>st_actions := st_actions s @ [a]\<rparr>))"

definition insert_command :: "cmd_row \<Rightarrow> store \<Rightarrow> store_error + store" where
  "insert_command c s =
     (if cm_id c \<in> cm_id ` set (st_commands s) \<or> cm_device c \<notin> dv_id ` set (st_devices s) then Inl ErrConstraint
      else Inr (s\<lparr>st_commands := st_commands s @ [c]\<rparr>))"

definition insert_ban :: "ban_row \<Rightarrow> store \<Rightarrow> store_error + store" where
  "insert_ban b s =
     (if bn_id b \<in> bn_id ` set (st_bans s) \<or> bn_device b \<notin> dv_id ` set (st_devices s) then Inl ErrConstraint
      else Inr (s\<lparr>st_bans := st_bans s @ [b]\<rparr>))"

definition insert_audit :: "audit_row \<Rightarrow> store \<Rightarrow> store_error + store" where
  "insert_audit a s =
     (if au_action a \<notin> ac_id ` set (st_actions s) then Inl ErrConstraint
      else Inr (s\<lparr>st_audit := st_audit s @ [a]\<rparr>))"

text \<open>A command as an \<open>INSERT\<close> of five columns leaves it.\<close>

definition new_command :: "string \<Rightarrow> string \<Rightarrow> command_type \<Rightarrow> bytes \<Rightarrow> instant \<Rightarrow> cmd_row" where
  "new_command i d t p at = \<lparr>cm_id = i, cm_device = d, cm_type = t, cm_payload = p, cm_created = at,
     cm_claimed = None, cm_started = None, cm_completed = None, cm_result = None, cm_error = [], cm_digest = []\<rparr>"

definition find_action :: "string \<Rightarrow> store \<Rightarrow> action_row option" where
  "find_action i s = find (\<lambda>a. ac_id a = i) (st_actions s)"

definition find_command :: "string \<Rightarrow> string \<Rightarrow> store \<Rightarrow> cmd_row option" where
  "find_command i d s = find (\<lambda>c. cm_id c = i \<and> cm_device c = d) (st_commands s)"

definition empty_json :: bytes where "empty_json = ''{}''"

definition nonempty_json :: "bytes \<Rightarrow> bytes" where
  "nonempty_json b = (if b = [] then empty_json else b)"

text \<open>\<open>UPDATE actions SET ... WHERE\<close>, with the number of rows it changed.\<close>

definition update_actions :: "(action_row \<Rightarrow> bool) \<Rightarrow> (action_row \<Rightarrow> action_row) \<Rightarrow> store \<Rightarrow> store" where
  "update_actions p f s = s\<lparr>st_actions := upd_where p f (st_actions s)\<rparr>"

definition affected :: "(action_row \<Rightarrow> bool) \<Rightarrow> store \<Rightarrow> nat" where
  "affected p s = cnt_where p (st_actions s)"

definition update_commands :: "(cmd_row \<Rightarrow> bool) \<Rightarrow> (cmd_row \<Rightarrow> cmd_row) \<Rightarrow> store \<Rightarrow> store" where
  "update_commands p f s = s\<lparr>st_commands := upd_where p f (st_commands s)\<rparr>"

definition update_bans :: "(ban_row \<Rightarrow> bool) \<Rightarrow> (ban_row \<Rightarrow> ban_row) \<Rightarrow> store \<Rightarrow> store" where
  "update_bans p f s = s\<lparr>st_bans := upd_where p f (st_bans s)\<rparr>"

text \<open>\<open>time.Duration(n) * time.Second\<close> on 64-bit integers.\<close>

definition wrap64 :: "int \<Rightarrow> int" where
  "wrap64 n = (n + 9223372036854775808) mod 18446744073709551616 - 9223372036854775808"

definition seconds :: "int \<Rightarrow> duration" where
  "seconds n = wrap64 (wrap64 n * second)"

text \<open>Division truncated toward zero, as Go's \<open>/\<close>.\<close>

definition tdiv :: "int \<Rightarrow> int \<Rightarrow> int" where
  "tdiv a b = (if (a < 0) = (b < 0) then \<bar>a\<bar> div \<bar>b\<bar> else - (\<bar>a\<bar> div \<bar>b\<bar>))"

end
