(* ===== verification/Outbox.thy ===== *)
theory Outbox
  imports StoreTypes
begin

text \<open>
  \<open>internal/store/notification_outbox.go\<close>: the durable queue of notification
  deliveries, one row per event and channel, with leases.
\<close>

section \<open>Enqueueing\<close>

definition ob_live :: "channel \<Rightarrow> outbox_row \<Rightarrow> bool" where
  "ob_live ch r \<longleftrightarrow> ob_channel r = ch \<and> (ob_status r = NtPending \<or> ob_status r = NtInflight)"

definition ob_terminal :: "channel \<Rightarrow> outbox_row \<Rightarrow> bool" where
  "ob_terminal ch r \<longleftrightarrow> ob_channel r = ch \<and> ob_status r \<in> {NtDelivered, NtFailed, NtCanceled}"

abbreviation max_pending_notifications :: nat where "max_pending_notifications \<equiv> 5000"
abbreviation max_terminal_notifications :: nat where "max_terminal_notifications \<equiv> 10000"

definition prune_terminal :: "channel \<Rightarrow> outbox_row list \<Rightarrow> outbox_row list" where
  "prune_terminal ch t =
     (let gone = map ob_id (beyond max_terminal_notifications (\<lambda>r. (ob_updated r, ob_id r)) (filter (ob_terminal ch) t))
      in del_where (\<lambda>r. ob_id r \<in> set gone) t)"

text \<open>The oldest queued reports of the same device make room for its newest one.\<close>

definition evict_reports :: "store_lib \<Rightarrow> channel \<Rightarrow> string \<Rightarrow> nat \<Rightarrow> outbox_row list \<Rightarrow> outbox_row list" where
  "evict_reports J ch dev n t =
     (let old = sort_key (\<lambda>r. (ob_created r, ob_id r))
            (filter (\<lambda>r. ob_channel r = ch \<and> ob_status r = NtPending \<and>
               jx_event_type J (ob_event r) = Some ''report_completed'' \<and> jx_event_device J (ob_event r) = Some dev) t)
      in del_where (\<lambda>r. ob_id r \<in> ob_id ` set (take n old)) t)"

definition make_room :: "store_lib \<Rightarrow> channel \<Rightarrow> notification_event \<Rightarrow> outbox_row list \<Rightarrow> outbox_row list" where
  "make_room J ch e t =
     (let pending = cnt_where (ob_live ch) t
      in if pending \<ge> max_pending_notifications \<and> ne_type e = ''report_completed'' \<and> ne_device e \<noteq> []
         then evict_reports J ch (ne_device e) (pending - max_pending_notifications + 1) t else t)"

text \<open>\<open>INSERT OR IGNORE\<close> under the primary key and \<open>UNIQUE(event_id, channel)\<close>.\<close>

definition insert_or_ignore :: "outbox_row \<Rightarrow> outbox_row list \<Rightarrow> nat \<times> outbox_row list" where
  "insert_or_ignore r t =
     (if ob_id r \<in> ob_id ` set t \<or> (ob_event_id r, ob_channel r) \<in> (\<lambda>x. (ob_event_id x, ob_channel x)) ` set t
      then (0, t) else (1, t @ [r]))"

definition enqueue_channel :: "store_lib \<Rightarrow> string \<Rightarrow> bytes \<Rightarrow> notification_event \<Rightarrow> instant \<Rightarrow> instant \<Rightarrow>
    channel \<Rightarrow> outbox_row list \<Rightarrow> nat \<times> outbox_row list" where
  "enqueue_channel J new_id payload e version now ch t =
     (let t' = make_room J ch e (prune_terminal ch t);
          row = \<lparr>ob_id = new_id, ob_event_id = ne_id e, ob_channel = ch, ob_event = payload, ob_version = version,
             ob_status = NtPending, ob_attempts = 0, ob_next = now, ob_lease = None, ob_error = [],
             ob_created = now, ob_updated = now, ob_delivered = None\<rparr>
      in if cnt_where (ob_live ch) t' \<ge> max_pending_notifications
         then (0, snd (insert_or_ignore (row\<lparr>ob_status := NtFailed,
                 ob_error := ''delivery dropped because notification backlog capacity was reached''\<rparr>) t'))
         else insert_or_ignore row t')"

text \<open>\<open>enqueueNotificationTx\<close>; \<open>new_ids\<close> are the two random row ids.\<close>

definition enqueue_notification :: "store_lib \<Rightarrow> string \<times> string \<Rightarrow> notification_event \<Rightarrow> instant \<Rightarrow> store \<Rightarrow>
    store_error + nat \<times> store" where
  "enqueue_notification J new_ids e now s =
     (if trim_space (ne_id e) = [] then Inl (ErrOther ''notification event ID is required'')
      else case jx_event J e of
          None \<Rightarrow> Inl (ErrOther ''json: error calling MarshalJSON'')
        | Some payload \<Rightarrow>
           (if length payload > 16384 then Inl (ErrOther ''notification event is too large'')
            else case st_settings s of
                None \<Rightarrow> Inr (0, s)
              | Some ns \<Rightarrow>
                 (let (n1, t1) = (if ns_webhook ns then enqueue_channel J (fst new_ids) payload e (ns_updated ns) now Webhook (st_outbox s)
                                  else (0, st_outbox s));
                      (n2, t2) = (if ns_smtp ns then enqueue_channel J (snd new_ids) payload e (ns_updated ns) now Smtp t1
                                  else (0, t1))
                  in Inr (n1 + n2, s\<lparr>st_outbox := t2\<rparr>))))"

section \<open>Delivery\<close>

record delivery =
  dl_id :: string
  dl_event_id :: string
  dl_channel :: channel
  dl_event :: notification_event
  dl_attempts :: nat
  dl_lease :: instant
  dl_created :: instant
  dl_settings :: instant

definition ob_due :: "instant \<Rightarrow> outbox_row \<Rightarrow> bool" where
  "ob_due now r \<longleftrightarrow> (ob_status r = NtPending \<and> ob_next r \<le> now) \<or>
     (ob_status r = NtInflight \<and> (case ob_lease r of None \<Rightarrow> False | Some l \<Rightarrow> l \<le> now))"

definition next_due :: "channel \<Rightarrow> instant \<Rightarrow> outbox_row list \<Rightarrow> outbox_row option" where
  "next_due ch now t =
     (case sort_key (\<lambda>r. (ob_next r, ob_created r, ob_id r)) (filter (\<lambda>r. ob_channel r = ch \<and> ob_due now r) t) of
        [] \<Rightarrow> None | r # _ \<Rightarrow> Some r)"

definition claim_delivery :: "store_lib \<Rightarrow> channel \<Rightarrow> instant \<Rightarrow> duration \<Rightarrow> store \<Rightarrow> store_error + delivery \<times> store" where
  "claim_delivery J ch now lease s =
     (if lease \<le> 0 then Inl (ErrOther ''notification lease must be positive'')
      else case next_due ch now (st_outbox s) of
          None \<Rightarrow> Inl ErrNotFound
        | Some r \<Rightarrow>
           (case jx_dec_event J (ob_event r) of
              None \<Rightarrow> Inl (ErrOther ''invalid event'')
            | Some e \<Rightarrow>
               (let d = \<lparr>dl_id = ob_id r, dl_event_id = ob_event_id r, dl_channel = ch, dl_event = e,
                      dl_attempts = ob_attempts r + 1, dl_lease = now + lease, dl_created = ob_created r,
                      dl_settings = ob_version r\<rparr>;
                    p = (\<lambda>x. ob_id x = ob_id r \<and> ob_due now x)
                in if cnt_where p (st_outbox s) \<noteq> 1 then Inl ErrConflict
                   else Inr (d, s\<lparr>st_outbox := upd_where p (\<lambda>x. x\<lparr>ob_status := NtInflight,
                          ob_attempts := dl_attempts d, ob_lease := Some (dl_lease d), ob_updated := now\<rparr>)
                        (st_outbox s)\<rparr>))))"

text \<open>The lease a worker holds: only the row it claimed, in the attempt it claimed.\<close>

definition holds :: "delivery \<Rightarrow> outbox_row \<Rightarrow> bool" where
  "holds d r \<longleftrightarrow> ob_id r = dl_id d \<and> ob_status r = NtInflight \<and> ob_attempts r = dl_attempts d \<and>
     ob_lease r = Some (dl_lease d)"

definition settle :: "delivery \<Rightarrow> (outbox_row \<Rightarrow> outbox_row) \<Rightarrow> store \<Rightarrow> store_error + store" where
  "settle d f s =
     (if cnt_where (holds d) (st_outbox s) \<noteq> 1 then Inl ErrConflict
      else Inr (s\<lparr>st_outbox := upd_where (holds d) f (st_outbox s)\<rparr>))"

definition complete_delivery :: "delivery \<Rightarrow> bool \<Rightarrow> instant \<Rightarrow> instant \<Rightarrow> int \<Rightarrow> string \<Rightarrow> store \<Rightarrow> store_error + store" where
  "complete_delivery d delivered retry_at now max_attempts last_error s =
     (if max_attempts < 1 then Inl (ErrOther ''notification max attempts must be positive'')
      else settle d (\<lambda>r. r\<lparr>ob_status := (if delivered then NtDelivered
                            else if int (dl_attempts d) \<ge> max_attempts then NtFailed else NtPending),
             ob_next := (if delivered then now else retry_at), ob_lease := None,
             ob_error := take 512 last_error, ob_updated := now,
             ob_delivered := (if delivered then Some now else None)\<rparr>) s)"

definition cancel_delivery :: "delivery \<Rightarrow> string \<Rightarrow> instant \<Rightarrow> store \<Rightarrow> store_error + store" where
  "cancel_delivery d reason now s =
     settle d (\<lambda>r. r\<lparr>ob_status := NtCanceled, ob_lease := None, ob_error := take 512 reason, ob_updated := now\<rparr>) s"

text \<open>\<open>attempts-1\<close> is under \<open>CHECK(attempts >= 0)\<close>.\<close>

definition release_delivery :: "delivery \<Rightarrow> instant \<Rightarrow> store \<Rightarrow> store_error + store" where
  "release_delivery d now s =
     (if dl_attempts d = 0 \<and> cnt_where (holds d) (st_outbox s) \<noteq> 0 then Inl ErrConstraint
      else settle d (\<lambda>r. r\<lparr>ob_status := NtPending, ob_attempts := ob_attempts r - 1, ob_next := now,
             ob_lease := None, ob_updated := now\<rparr>) s)"

definition cancel_channel :: "channel \<Rightarrow> string \<Rightarrow> instant \<Rightarrow> store \<Rightarrow> store" where
  "cancel_channel ch reason now s =
     s\<lparr>st_outbox := upd_where (\<lambda>r. ob_channel r = ch \<and> ob_status r = NtPending)
        (\<lambda>r. r\<lparr>ob_status := NtCanceled, ob_error := take 512 reason, ob_updated := now\<rparr>) (st_outbox s)\<rparr>"

definition prune_outbox :: "instant \<Rightarrow> store \<Rightarrow> nat \<times> store" where
  "prune_outbox before s =
     (let p = (\<lambda>r. ob_status r \<in> {NtDelivered, NtFailed, NtCanceled} \<and> ob_updated r < before)
      in (cnt_where p (st_outbox s), s\<lparr>st_outbox := del_where p (st_outbox s)\<rparr>))"

text \<open>\<open>PutNotificationSettings\<close> (\<open>notifications.go\<close>), in the columns the outbox reads.\<close>

definition put_settings :: "notify_settings \<Rightarrow> store \<Rightarrow> store" where
  "put_settings ns s =
     s\<lparr>st_settings := Some ns,
       st_outbox := upd_where (\<lambda>r. ob_status r = NtPending \<and> ob_version r \<noteq> ns_updated ns)
         (\<lambda>r. r\<lparr>ob_status := NtCanceled, ob_error := ''channel configuration changed before delivery'',
            ob_updated := ns_updated ns\<rparr>) (st_outbox s)\<rparr>"

end
