(* ===== verification/StoreDemo.thy ===== *)
theory StoreDemo
  imports StoreTypes EngineProps
begin

text \<open>
  A concrete database and concrete coders for the closed instances of the store's
  properties: a command payload is the identifier of its action.
\<close>

definition demo_receipt :: helper_receipt where
  "demo_receipt = \<lparr>hr_action = ''act1'', hr_type = TypeTemporaryIPBan, hr_op = Execute,
     hr_params_digest = digest_parameters demo_lib ''{}'', hr_started = 1, hr_finished = 2, hr_success = True,
     hr_indeterminate = False, hr_state_digest = digest_bytes demo_lib ''[7]'', hr_confirm_by = None,
     hr_steps = map (\<lambda>op. \<lparr>hs_op = op, hs_started = 1, hs_finished = 2, hs_success = True, hs_details = Some []\<rparr>)
       [Precheck, Preview, Apply, Verify]\<rparr>"

definition demo_jx :: store_lib where
  "demo_jx = \<lparr>jx_lib = demo_lib,
     jx_start = (\<lambda>p. Some \<lparr>sm_action = p, sm_policy = True, sm_type = TypeTemporaryIPBan, sm_params = ''{}''\<rparr>),
     jx_meta = (\<lambda>p. Some \<lparr>me_action = p, me_type = TypeTemporaryIPBan, me_params = ''{}''\<rparr>),
     jx_action_id = Some, jx_extract_id = Some, jx_ttl = (\<lambda>_. Some 600),
     jx_receipt = (\<lambda>_. (demo_receipt, True)), jx_stored_receipt = (\<lambda>_. ''{}''), jx_object_size = (\<lambda>_. Some 1),
     jx_result = (\<lambda>ok _ r a. (if ok then ''T'' else ''F'') @ r @ a),
     jx_completion = (\<lambda>d c ok r b a e. Some (d @ c @ (if ok then ''T'' else ''F'') @ r @ b @ a @ e)),
     jx_legacy_result = (\<lambda>_ r a. Some (r @ a)), jx_result_ok = (\<lambda>b. has_prefix b ''T''),
     jx_map = (\<lambda>_. ''{}''), jx_rollback = (\<lambda>m _. me_action m),
     jx_event = (\<lambda>e. Some (ne_id e)),
     jx_dec_event = (\<lambda>b. Some \<lparr>ne_id = b, ne_type = [], ne_severity = [], ne_device = [], ne_title = [],
        ne_message = [], ne_at = 0, ne_data = []\<rparr>),
     jx_event_type = (\<lambda>_. None), jx_event_device = (\<lambda>_. None),
     jx_allowed = (\<lambda>_. Some [TypeTemporaryIPBan]), jx_steps = (\<lambda>_. Some []),
     jx_enc_steps = (\<lambda>_. Some []), jx_prepared = (\<lambda>_ _ p. p)\<rparr>"

definition demo_device :: device_row where
  "demo_device = \<lparr>dv_id = ''dev1'', dv_name = ''web'', dv_hostname = ''web1'', dv_os = ''linux'', dv_arch = ''amd64'',
     dv_version = ''1.0'', dv_observer = False, dv_identity = ''key1'', dv_status = DeviceOnline, dv_last_seen = Some 0,
     dv_enrolled = 0, dv_created = 0, dv_updated = 0\<rparr>"

definition demo_store :: store where
  "demo_store = \<lparr>st_devices = [demo_device], st_actions = [], st_audit = [],
     st_commands = [], st_bans = [], st_policies = [], st_grants = [], st_plans = [], st_links = [],
     st_incidents = [], st_timeline = [],
     st_settings = Some \<lparr>ns_webhook = True, ns_smtp = False, ns_updated = 5\<rparr>, st_outbox = []\<rparr>"

definition demo_event :: notification_event where
  "demo_event = \<lparr>ne_id = ''ev1'', ne_type = ''action_failure'', ne_severity = ''high'', ne_device = ''dev1'',
     ne_title = ''t'', ne_message = ''m'', ne_at = 1, ne_data = []\<rparr>"

definition demo_row :: outbox_row where
  "demo_row = \<lparr>ob_id = ''n1'', ob_event_id = ''ev1'', ob_channel = Webhook, ob_event = ''ev1'', ob_version = 5,
     ob_status = NtPending, ob_attempts = 0, ob_next = 10, ob_lease = None, ob_error = [], ob_created = 10,
     ob_updated = 10, ob_delivered = None\<rparr>"

text \<open>A pre-authorized ban, approved by policy, queued for its device and not yet started.\<close>

definition demo_approved :: action_row where
  "demo_approved = \<lparr>ac_id = ''act1'', ac_device = ''dev1'', ac_finding = [], ac_type = TypeTemporaryIPBan, ac_params = ''{}'',
     ac_preview = ''{}'', ac_status = Approved, ac_nonce = [], ac_approved_by = ''policy:x'', ac_approved_at = Some 200,
     ac_executed = None, ac_completed = None, ac_rollback = None, ac_confirm_by = None, ac_error = [],
     ac_created = 200, ac_updated = 200\<rparr>"

definition demo_command :: cmd_row where
  "demo_command = new_command ''cmd1'' ''dev1'' CommandExecuteAction ''act1'' 200"

definition demo_ban :: ban_row where
  "demo_ban = \<lparr>bn_id = ''ban1'', bn_device = ''dev1'', bn_action = ''act1'', bn_source = ''203.0.113.9'', bn_reason = [],
     bn_expires = 300, bn_created = 200, bn_simulated = False, bn_status = ''pending''\<rparr>"

definition demo_policy :: policy_row where
  "demo_policy = \<lparr>po_device = ''dev1'', po_enabled = True, po_stop = False, po_auto_ban = True, po_threshold = 10,
     po_window = 300, po_ban_duration = 900, po_max_bans = 10, po_allowlist = ''[]'', po_updated = 100\<rparr>"

definition demo_queued :: store where
  "demo_queued = demo_store\<lparr>st_actions := [demo_approved], st_commands := [demo_command], st_bans := [demo_ban],
     st_policies := [demo_policy]\<rparr>"

text \<open>The same store with the action rolling back, and its rollback command.\<close>

definition demo_rolling :: store where
  "demo_rolling = demo_store\<lparr>st_actions := [demo_approved\<lparr>ac_status := RollingBack, ac_rollback := Some ''[7]''\<rparr>],
     st_commands := [demo_command\<lparr>cm_type := CommandRollback\<rparr>]\<rparr>"

text \<open>The ban while it executes.\<close>

definition demo_running :: store where
  "demo_running = demo_store\<lparr>st_actions := [demo_approved\<lparr>ac_status := Executing, ac_executed := Some 300\<rparr>],
     st_commands := [demo_command\<lparr>cm_started := Some 300\<rparr>], st_bans := [demo_ban]\<rparr>"

lemmas demo_store_defs = demo_running_def demo_store_def demo_device_def demo_approved_def demo_command_def demo_ban_def demo_policy_def demo_queued_def
  demo_rolling_def new_command_def

end
