(* ===== verification/OutboxProps.thy ===== *)
theory OutboxProps
  imports Outbox StoreDemo
begin

text \<open>The outbox as a machine: bounded live backlog, one row per event and channel, exclusive leases.\<close>

section \<open>The invariant\<close>

definition rows_ok :: "outbox_row list \<Rightarrow> bool" where
  "rows_ok t \<longleftrightarrow> distinct (map ob_id t) \<and> distinct (map (\<lambda>r. (ob_event_id r, ob_channel r)) t) \<and>
     (\<forall>ch. cnt_where (ob_live ch) t \<le> max_pending_notifications)"

definition outbox_ok :: "store \<Rightarrow> bool" where
  "outbox_ok s = rows_ok (st_outbox s)"

lemma outbox_ok_outbox [simp]: "outbox_ok (s\<lparr>st_outbox := t\<rparr>) = rows_ok t"
  by (simp add: outbox_ok_def)

lemma outbox_okD: "outbox_ok s \<Longrightarrow> rows_ok (st_outbox s)"
  by (simp add: outbox_ok_def)

text \<open>The columns no update changes.\<close>

definition ob_keys :: "outbox_row \<Rightarrow> string \<times> string \<times> channel" where
  "ob_keys r = (ob_id r, ob_event_id r, ob_channel r)"

lemma rows_ok_upd:
  assumes "rows_ok t" and "\<forall>r. ob_keys (f r) = ob_keys r"
    and "\<forall>ch r. p r \<longrightarrow> ob_live ch (f r) \<longrightarrow> ob_live ch r"
  shows "rows_ok (upd_where p f t)"
proof -
  have "map ob_id (upd_where p f t) = map ob_id t"
    "map (\<lambda>r. (ob_event_id r, ob_channel r)) (upd_where p f t) = map (\<lambda>r. (ob_event_id r, ob_channel r)) t"
    using assms(2) by (intro map_upd_where_key; simp add: ob_keys_def)+
  moreover have "cnt_where (ob_live ch) (upd_where p f t) \<le> max_pending_notifications" for ch
  proof -
    have "cnt_where (ob_live ch) (upd_where p f t) \<le> cnt_where (ob_live ch) t"
      using assms(3) by (intro cnt_upd_where_le) blast
    also have "\<dots> \<le> max_pending_notifications" using assms(1) by (simp add: rows_ok_def)
    finally show ?thesis .
  qed
  ultimately show ?thesis using assms(1) unfolding rows_ok_def by (metis (mono_tags, lifting))
qed

lemma rows_ok_del:
  assumes "rows_ok t"
  shows "rows_ok (del_where p t)"
proof -
  have "cnt_where (ob_live ch) (del_where p t) \<le> max_pending_notifications" for ch
    using cnt_del_where_le [of "ob_live ch" p t] assms by (auto simp: rows_ok_def intro: le_trans)
  then show ?thesis using assms by (simp add: rows_ok_def distinct_del_where)
qed

lemma rows_ok_make_room: "rows_ok t \<Longrightarrow> rows_ok (make_room J ch e (prune_terminal ch t))"
  by (auto simp: make_room_def prune_terminal_def evict_reports_def Let_def intro: rows_ok_del)

lemma rows_ok_insert:
  assumes "rows_ok t" and "\<forall>c. ob_live c r \<longrightarrow> cnt_where (ob_live c) t < max_pending_notifications"
  shows "rows_ok (snd (insert_or_ignore r t))"
proof (cases "ob_id r \<in> ob_id ` set t \<or> (ob_event_id r, ob_channel r) \<in> (\<lambda>x. (ob_event_id x, ob_channel x)) ` set t")
  case True
  with assms(1) show ?thesis by (auto simp: insert_or_ignore_def)
next
  case False
  have "cnt_where (ob_live c) (t @ [r]) \<le> max_pending_notifications" for c
    using assms by (cases "ob_live c r") (auto simp: rows_ok_def table_simps Suc_le_eq)
  with False assms(1) show ?thesis by (simp add: insert_or_ignore_def rows_ok_def)
qed

lemma rows_ok_enqueue:
  assumes "rows_ok t"
  shows "rows_ok (snd (enqueue_channel J i p e v now ch t))"
proof -
  note room = rows_ok_make_room [OF assms, of J ch e]
  show ?thesis
    unfolding enqueue_channel_def Let_def
    by (cases "cnt_where (ob_live ch) (make_room J ch e (prune_terminal ch t)) \<ge> max_pending_notifications")
      (simp_all, (rule rows_ok_insert [OF room]; simp add: ob_live_def)+)
qed

lemma outbox_ok_enqueue:
  assumes "enqueue_notification J ids e now s = Inr (n, s')" and "outbox_ok s"
  shows "outbox_ok s'"
proof (cases "st_settings s")
  case None
  with assms show ?thesis by (auto simp: enqueue_notification_def split: if_splits option.splits)
next
  case (Some ns)
  obtain payload where p: "jx_event J e = Some payload" using assms(1) by (auto simp: enqueue_notification_def split: if_splits option.splits)
  let ?step = "\<lambda>on i ch t. if on then enqueue_channel J i payload e (ns_updated ns) now ch t else (0, t)"
  let ?t1 = "snd (?step (ns_webhook ns) (fst ids) Webhook (st_outbox s))"
  have "rows_ok ?t1" using rows_ok_enqueue [OF outbox_okD [OF assms(2)]] outbox_okD [OF assms(2)] by simp
  then have "rows_ok (snd (?step (ns_smtp ns) (snd ids) Smtp ?t1))" using rows_ok_enqueue by simp
  moreover have "s' = s\<lparr>st_outbox := snd (?step (ns_smtp ns) (snd ids) Smtp ?t1)\<rparr>"
    using assms(1) Some p by (simp add: enqueue_notification_def Let_def split_beta split: if_splits)
  ultimately show ?thesis by simp
qed

section \<open>The machine\<close>

inductive outbox_step :: "store_lib \<Rightarrow> store \<Rightarrow> store \<Rightarrow> bool" for J where
  os_enqueue: "enqueue_notification J ids e now s = Inr (n, s') \<Longrightarrow> outbox_step J s s'"
| os_claim: "claim_delivery J ch now lease s = Inr (d, s') \<Longrightarrow> outbox_step J s s'"
| os_complete: "complete_delivery d ok retry_at now m e s = Inr s' \<Longrightarrow> outbox_step J s s'"
| os_cancel: "cancel_delivery d reason now s = Inr s' \<Longrightarrow> outbox_step J s s'"
| os_release: "release_delivery d now s = Inr s' \<Longrightarrow> outbox_step J s s'"
| os_cancel_channel: "outbox_step J s (cancel_channel ch reason now s)"
| os_prune: "outbox_step J s (snd (prune_outbox before s))"
| os_settings: "outbox_step J s (put_settings ns s)"

lemma settle_ok:
  assumes "settle d f s = Inr s'" and "outbox_ok s" and "\<forall>r. ob_keys (f r) = ob_keys r"
  shows "outbox_ok s'"
proof -
  have "rows_ok (upd_where (holds d) f (st_outbox s))"
    using assms(3) by (intro rows_ok_upd outbox_okD [OF assms(2)]) (auto simp: holds_def ob_live_def ob_keys_def)
  with assms(1) show ?thesis by (auto simp: settle_def split: if_splits)
qed

lemma claim_ok:
  assumes "claim_delivery J ch now lease s = Inr (d, s')" and "outbox_ok s"
  shows "outbox_ok s'"
proof -
  have "rows_ok (upd_where (\<lambda>x. ob_id x = i \<and> ob_due now x) (\<lambda>x. x\<lparr>ob_status := NtInflight, ob_attempts := n,
      ob_lease := l, ob_updated := now\<rparr>) (st_outbox s))" for i n l
    by (intro rows_ok_upd outbox_okD [OF assms(2)]) (auto simp: ob_due_def ob_live_def ob_keys_def)
  with assms(1) show ?thesis by (auto simp: claim_delivery_def Let_def split: if_splits option.splits)
qed

lemma outbox_ok_step: "outbox_step J s s' \<Longrightarrow> outbox_ok s \<Longrightarrow> outbox_ok s'"
proof (induction rule: outbox_step.induct)
  case (os_complete d ok retry_at now m e s s')
  then show ?case by (auto simp: complete_delivery_def ob_keys_def split: if_splits elim: settle_ok)
next
  case (os_cancel d reason now s s')
  then show ?case by (auto simp: cancel_delivery_def ob_keys_def elim: settle_ok)
next
  case (os_release d now s s')
  then show ?case by (auto simp: release_delivery_def ob_keys_def split: if_splits elim: settle_ok)
next
  case (os_cancel_channel s ch reason now)
  then show ?case by (auto simp: cancel_channel_def ob_keys_def ob_live_def dest: outbox_okD intro!: rows_ok_upd)
next
  case (os_prune s before)
  then show ?case by (simp add: prune_outbox_def Let_def rows_ok_del outbox_okD)
next
  case (os_settings s ns)
  then show ?case by (auto simp: put_settings_def ob_keys_def ob_live_def dest: outbox_okD intro!: rows_ok_upd)
qed (auto intro: outbox_ok_enqueue claim_ok)

interpretation outbox: machine "\<lambda>s. st_outbox s = []" "outbox_step J" outbox_ok for J
  by unfold_locales (simp add: outbox_ok_def rows_ok_def table_simps, erule (1) outbox_ok_step [rotated])

section \<open>Leases\<close>

lemma next_due_SomeD: "next_due ch now t = Some r \<Longrightarrow> r \<in> set t \<and> ob_due now r \<and> ob_channel r = ch"
proof -
  assume "next_due ch now t = Some r"
  then obtain rs where "sort_key (\<lambda>r. (ob_next r, ob_created r, ob_id r))
      (filter (\<lambda>r. ob_channel r = ch \<and> ob_due now r) t) = r # rs"
    by (auto simp: next_due_def split: list.splits)
  then have "r \<in> set (sort_key (\<lambda>r. (ob_next r, ob_created r, ob_id r))
      (filter (\<lambda>r. ob_channel r = ch \<and> ob_due now r) t))" by simp
  then show ?thesis by simp
qed

lemma claim_SomeD:
  assumes "claim_delivery J ch now lease s = Inr (d, s')"
  obtains r where "r \<in> set (st_outbox s)" "ob_id r = dl_id d" "ob_due now r" "ob_channel r = ch"
    "dl_attempts d = ob_attempts r + 1" "dl_lease d = now + lease" "lease > 0"
    "st_outbox s' = upd_where (\<lambda>x. ob_id x = ob_id r \<and> ob_due now x) (\<lambda>x. x\<lparr>ob_status := NtInflight,
       ob_attempts := dl_attempts d, ob_lease := Some (dl_lease d), ob_updated := now\<rparr>) (st_outbox s)"
  using assms by (auto simp: claim_delivery_def Let_def dest!: next_due_SomeD split: if_splits option.splits)

text \<open>A settled lease is gone: no row answers to it any more.\<close>

lemma settle_releases:
  assumes "settle d f s = Inr s'" and "\<forall>r. ob_lease (f r) = None"
  shows "cnt_where (holds d) (st_outbox s') = 0"
  using assms by (auto simp: settle_def cnt_where_0_iff set_upd_where holds_def split: if_splits)

section \<open>Properties\<close>

text \<open>
  C11: In every state the outbox operations reach from an empty outbox, each channel
  has at most 5000 live deliveries and each event has at most one row per channel,
  whatever the order of enqueueing, claiming, completing, cancelling, releasing,
  pruning and settings changes.
\<close>

theorem outbox_bounded:
  assumes "reach (\<lambda>s. st_outbox s = []) (outbox_step J) s"
  shows "cnt_where (ob_live ch) (st_outbox s) \<le> max_pending_notifications \<and>
    distinct (map (\<lambda>r. (ob_event_id r, ob_channel r)) (st_outbox s))"
  using outbox.reach_inv [OF assms] by (simp add: outbox_ok_def rows_ok_def)

lemma demo_enqueue:
  "enqueue_notification demo_jx (''n1'', ''n2'') demo_event 10 demo_store =
     Inr (1, demo_store\<lparr>st_outbox := [demo_row]\<rparr>)"
proof -
  have "trim_space ''ev1'' = ''ev1''" by code_simp
  then show ?thesis
    by (simp add: enqueue_notification_def enqueue_channel_def prune_terminal_def make_room_def insert_or_ignore_def
        beyond_def descending_def del_where_def cnt_where_def demo_event_def demo_store_def demo_device_def demo_jx_def demo_row_def)
qed

theorem outbox_bounded_witness:
  "cnt_where (ob_live Webhook) (st_outbox (demo_store\<lparr>st_outbox := [demo_row]\<rparr>)) \<le> max_pending_notifications"
proof -
  have "reach (\<lambda>s. st_outbox s = []) (outbox_step demo_jx) demo_store"
    by (rule reach_init) (simp add: demo_store_def demo_device_def)
  then have "reach (\<lambda>s. st_outbox s = []) (outbox_step demo_jx) (demo_store\<lparr>st_outbox := [demo_row]\<rparr>)"
    using os_enqueue [OF demo_enqueue] by (rule reach_step)
  from outbox_bounded [OF this] show ?thesis by blast
qed


definition demo_delivery :: delivery where
  "demo_delivery = \<lparr>dl_id = ''n1'', dl_event_id = ''ev1'', dl_channel = Webhook,
     dl_event = \<lparr>ne_id = ''ev1'', ne_type = [], ne_severity = [], ne_device = [], ne_title = [],
        ne_message = [], ne_at = 0, ne_data = []\<rparr>,
     dl_attempts = 1, dl_lease = 120, dl_created = 10, dl_settings = 5\<rparr>"

definition demo_row2 :: outbox_row where
  "demo_row2 = demo_row\<lparr>ob_id := ''n2'', ob_event_id := ''ev2''\<rparr>"

definition demo_claimed :: outbox_row where
  "demo_claimed = demo_row\<lparr>ob_status := NtInflight, ob_attempts := 1, ob_lease := Some 120, ob_updated := 20\<rparr>"

lemma demo_claim:
  "claim_delivery demo_jx Webhook 20 100 (demo_store\<lparr>st_outbox := [demo_row, demo_row2]\<rparr>) =
     Inr (demo_delivery, demo_store\<lparr>st_outbox := [demo_claimed, demo_row2]\<rparr>)"
proof -
  have "''n1'' < ''n2''" by code_simp
  then show ?thesis
    by (simp add: claim_delivery_def next_due_def ob_due_def demo_row_def demo_row2_def demo_jx_def demo_delivery_def
        demo_claimed_def upd_where_def cnt_where_def)
qed


text \<open>
  A lease is good for one answer: after a delivery was completed, cancelled or
  released, every further answer under the same lease is refused as a conflict, so
  a late worker cannot overwrite the outcome of a newer attempt.
\<close>

theorem lease_answered_once:
  assumes "complete_delivery d ok retry_at now m e s = Inr s' \<or> cancel_delivery d reason now s = Inr s' \<or>
    release_delivery d now s = Inr s'" and "0 < m'"
  shows "complete_delivery d ok' retry_at' now' m' e' s' = Inl ErrConflict \<and>
    cancel_delivery d reason' now' s' = Inl ErrConflict \<and> release_delivery d now' s' = Inl ErrConflict"
proof -
  have "cnt_where (holds d) (st_outbox s') = 0"
    using assms(1) by (auto simp: complete_delivery_def cancel_delivery_def release_delivery_def
        split: if_splits intro: settle_releases)
  then show ?thesis
    using assms(2) by (simp add: complete_delivery_def cancel_delivery_def release_delivery_def settle_def)
qed

theorem lease_answered_once_witness:
  "\<exists>s. complete_delivery demo_delivery True 0 60 8 [] (demo_store\<lparr>st_outbox := [demo_claimed]\<rparr>) = Inr s \<and>
     complete_delivery demo_delivery False 0 70 8 [] s = Inl ErrConflict"
proof -
  obtain s where s: "complete_delivery demo_delivery True 0 60 8 [] (demo_store\<lparr>st_outbox := [demo_claimed]\<rparr>) = Inr s"
    by (simp add: complete_delivery_def settle_def holds_def demo_delivery_def demo_claimed_def demo_row_def cnt_where_def)
  have "(0::int) < 8" by simp
  from lease_answered_once [OF disjI1 [OF s] this] s show ?thesis by blast
qed

end
