(* ===== verification/PlanSync.thy ===== *)
theory PlanSync
  imports StoreTypes
begin

text \<open>
  The projection of an action's progress onto its response plan and incident
  (\<open>internal/store/security_engineer.go\<close>, \<open>markIncidentRespondingForActionTx\<close> and
  \<open>syncResponsePlanForActionTx\<close>).  The display text of a timeline row is left out.
\<close>

section \<open>Rows\<close>

definition incident_active :: "incident_row \<Rightarrow> bool" where
  "incident_active i \<longleftrightarrow> in_status i \<in> {IncidentOpen, IncidentInvestigating, IncidentAwaitingApproval,
     IncidentResponding, IncidentMonitoring}"

text \<open>The partial unique index \<open>incidents_active_correlation_idx\<close>.\<close>

definition correlation_unique :: "incident_row list \<Rightarrow> bool" where
  "correlation_unique t = distinct (map (\<lambda>i. (in_device i, in_key i)) (filter incident_active t))"

definition set_incident :: "string \<Rightarrow> incident_status \<Rightarrow> instant \<Rightarrow> store \<Rightarrow> store_error + store" where
  "set_incident iid st now s =
     (let t = upd_where (\<lambda>i. in_id i = iid) (\<lambda>i. i\<lparr>in_status := st, in_updated := now\<rparr>) (st_incidents s)
      in if correlation_unique t then Inr (s\<lparr>st_incidents := t\<rparr>) else Inl ErrConstraint)"

definition set_plan :: "string \<Rightarrow> plan_status \<Rightarrow> instant \<Rightarrow> store \<Rightarrow> store" where
  "set_plan pid st now s =
     s\<lparr>st_plans := upd_where (\<lambda>p. pl_id p = pid) (\<lambda>p. p\<lparr>pl_status := st, pl_updated := now\<rparr>) (st_plans s)\<rparr>"

definition insert_timeline :: "timeline_row \<Rightarrow> store \<Rightarrow> store_error + store" where
  "insert_timeline r s =
     (if tl_incident r \<notin> in_id ` set (st_incidents s) then Inl ErrConstraint
      else Inr (s\<lparr>st_timeline := st_timeline s @ [r]\<rparr>))"

text \<open>The plan and step an action belongs to.\<close>

definition plan_of_action :: "string \<Rightarrow> store \<Rightarrow> (plan_row \<times> string) option" where
  "plan_of_action aid s =
     (case find (\<lambda>x. lk_action x = aid) (st_links s) of
        None \<Rightarrow> None
      | Some x \<Rightarrow> map_option (\<lambda>p. (p, lk_step x)) (find (\<lambda>p. pl_id p = lk_plan x) (st_plans s)))"

section \<open>Starting a response\<close>

definition mark_responding :: "store_lib \<Rightarrow> string \<Rightarrow> string \<Rightarrow> instant \<Rightarrow> store \<Rightarrow> store_error + store" where
  "mark_responding J aid actor now s =
     (case plan_of_action aid s of
        None \<Rightarrow> Inr s
      | Some (p, step) \<Rightarrow>
          bindE (set_incident (pl_incident p) IncidentResponding now (set_plan (pl_id p) PlanExecuting now s))
            (insert_timeline \<lparr>tl_incident = pl_incident p, tl_actor = actor, tl_type = ''response_started'',
               tl_details = jx_map J [(''responsePlanId'', DStr (pl_id p)), (''stepId'', DStr step), (''actionId'', DStr aid)],
               tl_at = now\<rparr>))"

section \<open>Following its actions\<close>

definition step_statuses :: "string \<Rightarrow> store \<Rightarrow> (string \<times> action_status) list" where
  "step_statuses pid s =
     concat (map (\<lambda>x. case find_action (lk_action x) s of None \<Rightarrow> [] | Some a \<Rightarrow> [(lk_step x, ac_status a)])
       (filter (\<lambda>x. lk_plan x = pid) (st_links s)))"

definition status_done :: "action_status \<Rightarrow> bool" where
  "status_done st \<longleftrightarrow> st = Succeeded \<or> st = RolledBack"

definition status_failed :: "action_status \<Rightarrow> bool" where
  "status_failed st \<longleftrightarrow> st = Failed \<or> st = Indeterminate \<or> st = Cancelled"

definition next_plan_state :: "(string \<rightharpoonup> action_status) \<Rightarrow> string list \<Rightarrow> plan_status \<times> incident_status" where
  "next_plan_state st steps =
     (let all_complete = (steps \<noteq> [] \<and> list_all (\<lambda>x. case st x of None \<Rightarrow> False | Some t \<Rightarrow> status_done t) steps);
          any_failed = list_ex (\<lambda>x. case st x of None \<Rightarrow> False | Some t \<Rightarrow> status_failed t) steps;
          any_executing = list_ex (\<lambda>x. case st x of None \<Rightarrow> False | Some t \<Rightarrow> \<not> status_done t \<and> \<not> status_failed t) steps
      in if any_failed then (PlanFailed, IncidentOpen)
         else if all_complete then (PlanCompleted, IncidentMonitoring)
         else if any_executing then (PlanExecuting, IncidentResponding)
         else (PlanApproved, IncidentAwaitingApproval))"

definition plan_status_text :: "plan_status \<Rightarrow> string" where
  "plan_status_text st = (case st of PlanProposed \<Rightarrow> ''proposed'' | PlanApproved \<Rightarrow> ''approved''
     | PlanExecuting \<Rightarrow> ''executing'' | PlanCompleted \<Rightarrow> ''completed'' | PlanFailed \<Rightarrow> ''failed'' | PlanCancelled \<Rightarrow> ''cancelled'')"

definition sync_plan :: "store_lib \<Rightarrow> string \<Rightarrow> instant \<Rightarrow> store \<Rightarrow> store_error + store" where
  "sync_plan J aid now s =
     (case plan_of_action aid s of
        None \<Rightarrow> Inr s
      | Some (p, _) \<Rightarrow>
         (case jx_steps J (pl_steps p) of
            None \<Rightarrow> Inl (ErrOther ''invalid response steps'')
          | Some steps \<Rightarrow>
             (let (next_plan, next_incident) = next_plan_state (map_of (step_statuses (pl_id p) s)) (map rs_id steps)
              in if pl_status p = next_plan then Inr s
                 else bindE (set_incident (pl_incident p) next_incident now (set_plan (pl_id p) next_plan now s))
                   (insert_timeline \<lparr>tl_incident = pl_incident p, tl_actor = ''controller'',
                      tl_type = ''response_state_changed'',
                      tl_details = jx_map J [(''responsePlanId'', DStr (pl_id p)), (''actionId'', DStr aid),
                        (''status'', DStr (plan_status_text next_plan))], tl_at = now\<rparr>))))"

end
