(* ===== verification/Lifecycle.thy ===== *)
theory Lifecycle
  imports PlanSync
begin

text \<open>
  The actions table and its administrator operations
  (\<open>internal/store/settings_actions_defense.go\<close>): drafting, approving, requesting a
  rollback or a confirmation, expiry, the emergency stop, and the defense policy.
\<close>

section \<open>Capacity and expiry of drafts\<close>

abbreviation (input) action_approval_ttl :: duration where "action_approval_ttl \<equiv> 10 * minute"
abbreviation max_unfinished_actions :: nat where "max_unfinished_actions \<equiv> 200"

definition terminal :: "action_status \<Rightarrow> bool" where
  "terminal st \<longleftrightarrow> st \<in> {Succeeded, Failed, RolledBack, Cancelled, Indeterminate}"

definition unfinished :: "string \<Rightarrow> action_row \<Rightarrow> bool" where
  "unfinished dev a \<longleftrightarrow> ac_device a = dev \<and> \<not> terminal (ac_status a)"

definition ensure_capacity :: "string \<Rightarrow> store \<Rightarrow> store_error + unit" where
  "ensure_capacity dev s = guardE (cnt_where (unfinished dev) (st_actions s) < max_unfinished_actions) ErrConflict"

text \<open>\<open>dev\<close> is empty for the sweep over all devices.\<close>

definition stale_draft :: "string \<Rightarrow> instant \<Rightarrow> action_row \<Rightarrow> bool" where
  "stale_draft dev now a \<longleftrightarrow> ac_status a = Draft \<and> ac_created a < now - action_approval_ttl \<and>
     (dev = [] \<or> ac_device a = dev)"

definition audit_entry :: "string \<Rightarrow> string \<Rightarrow> string \<Rightarrow> bytes \<Rightarrow> instant \<Rightarrow> audit_row" where
  "audit_entry aid actor event details at =
     \<lparr>au_action = aid, au_actor = actor, au_event = event, au_details = details, au_at = at\<rparr>"

definition cancel_with :: "string \<Rightarrow> instant \<Rightarrow> action_row \<Rightarrow> action_row" where
  "cancel_with msg now a = a\<lparr>ac_status := Cancelled, ac_completed := Some now, ac_error := msg, ac_updated := now\<rparr>"

definition expire_drafts :: "string \<Rightarrow> instant \<Rightarrow> store \<Rightarrow> store" where
  "expire_drafts dev now s =
     (let gone = filter (stale_draft dev now) (st_actions s);
          entries = map (\<lambda>a. audit_entry (ac_id a) ''controller'' ''approval_expired'' empty_json now) gone
      in update_actions (stale_draft dev now) (cancel_with ''action approval expired before confirmation'' now)
           (s\<lparr>st_audit := st_audit s @ entries\<rparr>))"

definition expire_draft_actions :: "instant \<Rightarrow> store \<Rightarrow> store" where
  "expire_draft_actions now s = expire_drafts [] now s"

section \<open>Drafting and approving\<close>

definition create_action :: "action_row \<Rightarrow> string \<Rightarrow> string \<Rightarrow> store \<Rightarrow> store_error + store" where
  "create_action x nonce actor s =
     (let a = x\<lparr>ac_params := nonempty_json (ac_params x), ac_preview := nonempty_json (ac_preview x),
            ac_nonce := nonce, ac_approved_by := [], ac_approved_at := None, ac_executed := None,
            ac_completed := None, ac_rollback := None, ac_confirm_by := None, ac_error := []\<rparr>;
          s1 = expire_drafts (ac_device a) (ac_created a) s
      in bindE (ensure_capacity (ac_device a) s1) (\<lambda>_.
         bindE (insert_action a s1)
           (insert_audit (audit_entry (ac_id a) actor ''preview_created'' (ac_preview a) (ac_created a)))))"

text \<open>The guarded \<open>UPDATE\<close> of an approval: a draft, its nonce, and no older than ten minutes.\<close>

definition approvable :: "string \<Rightarrow> string \<Rightarrow> instant \<Rightarrow> action_row \<Rightarrow> bool" where
  "approvable aid nonce now a \<longleftrightarrow> ac_id a = aid \<and> ac_status a = Draft \<and> ac_nonce a = nonce \<and>
     ac_created a \<ge> now - action_approval_ttl"

definition approve_update :: "string \<Rightarrow> string \<Rightarrow> string \<Rightarrow> instant \<Rightarrow> store \<Rightarrow> store_error + store" where
  "approve_update aid nonce admin now s =
     (if affected (approvable aid nonce now) s = 0 then Inl ErrConflict
      else Inr (update_actions (approvable aid nonce now)
        (\<lambda>a. a\<lparr>ac_status := Approved, ac_approved_by := admin, ac_approved_at := Some now, ac_updated := now\<rparr>) s))"

definition approve_action :: "string \<Rightarrow> string \<Rightarrow> string \<Rightarrow> instant \<Rightarrow> store \<Rightarrow> store_error + store" where
  "approve_action aid nonce admin now s =
     bindE (approve_update aid nonce admin now s)
       (insert_audit (audit_entry aid admin ''approved'' empty_json now))"

text \<open>The five columns of a command that callers supply.\<close>

record new_cmd =
  nc_id :: string
  nc_device :: string
  nc_type :: command_type
  nc_payload :: bytes
  nc_created :: instant

definition enqueue_row :: "new_cmd \<Rightarrow> store \<Rightarrow> store_error + store" where
  "enqueue_row c s = insert_command (new_command (nc_id c) (nc_device c) (nc_type c) (nc_payload c) (nc_created c)) s"

definition approve_and_enqueue :: "store_lib \<Rightarrow> string \<Rightarrow> string \<Rightarrow> string \<Rightarrow> new_cmd \<Rightarrow> instant \<Rightarrow> store \<Rightarrow>
    store_error + store" where
  "approve_and_enqueue J aid nonce admin cmd now s =
     bindE (approve_update aid nonce admin now s) (\<lambda>s1.
     bindE (enqueue_row cmd s1) (\<lambda>s2.
     bindE (insert_audit (audit_entry aid admin ''approved_and_queued'' empty_json now) s2)
       (mark_responding J aid admin now)))"

section \<open>Transitions\<close>

definition transition_action :: "string \<Rightarrow> action_status \<Rightarrow> action_status \<Rightarrow> string \<Rightarrow> string \<Rightarrow> bytes \<Rightarrow> string \<Rightarrow>
    instant \<Rightarrow> store \<Rightarrow> store_error + store" where
  "transition_action aid frm to actor event details err now s =
     (let p = (\<lambda>a. ac_id a = aid \<and> ac_status a = frm)
      in if affected p s = 0 then Inl ErrConflict
         else insert_audit (audit_entry aid actor event (nonempty_json details) now)
           (update_actions p (\<lambda>a. a\<lparr>ac_status := to, ac_error := err, ac_updated := now\<rparr>) s))"

definition mark_action_executing :: "string \<Rightarrow> instant \<Rightarrow> store \<Rightarrow> store_error + store" where
  "mark_action_executing aid now s =
     transition_action aid Approved Executing ''agent'' ''execution_started'' [] [] now s"

definition complete_rollback :: "string \<Rightarrow> bool \<Rightarrow> bytes \<Rightarrow> string \<Rightarrow> instant \<Rightarrow> store \<Rightarrow> store_error + store" where
  "complete_rollback aid ok details err now s =
     transition_action aid RollingBack (if ok then RolledBack else Failed) ''agent''
       (if ok then ''rolled_back'' else ''failed'') details err now s"

definition request_rollback :: "string \<Rightarrow> string \<Rightarrow> instant \<Rightarrow> store \<Rightarrow> store_error + store" where
  "request_rollback aid admin now s =
     transition_action aid Succeeded RollingBack admin ''rollback_requested'' [] [] now s"

definition nullable_json :: "bytes \<Rightarrow> bytes option" where
  "nullable_json v = (if v = [] then None else Some v)"

definition complete_action :: "string \<Rightarrow> bool \<Rightarrow> bytes \<Rightarrow> bytes \<Rightarrow> string \<Rightarrow> instant \<Rightarrow> store \<Rightarrow> store_error + store" where
  "complete_action aid ok result rollback err now s =
     (let p = (\<lambda>a. ac_id a = aid \<and> (ac_status a = Executing \<or> ac_status a = Approved))
      in if affected p s = 0 then Inl ErrConflict
         else insert_audit (audit_entry aid ''agent'' (if ok then ''succeeded'' else ''failed'') (nonempty_json result) now)
           (update_actions p (\<lambda>a. a\<lparr>ac_status := (if ok then Succeeded else Failed), ac_completed := Some now,
              ac_rollback := nullable_json rollback, ac_error := err, ac_updated := now\<rparr>) s))"

definition can_roll_back :: "action_row \<Rightarrow> bool" where
  "can_roll_back a \<longleftrightarrow> ac_rollback a \<noteq> None \<and> ac_status a \<in> {Succeeded, AwaitingConfirmation, Failed, Indeterminate}"

definition request_rollback_and_enqueue :: "string \<Rightarrow> string \<Rightarrow> new_cmd \<Rightarrow> instant \<Rightarrow> store \<Rightarrow> store_error + store" where
  "request_rollback_and_enqueue aid admin cmd now s =
     bindE (ensure_capacity (nc_device cmd) s) (\<lambda>_.
       let p = (\<lambda>a. ac_id a = aid \<and> can_roll_back a)
       in if affected p s = 0 then Inl ErrConflict
          else bindE (enqueue_row cmd (update_actions p (\<lambda>a. a\<lparr>ac_status := RollingBack, ac_updated := now\<rparr>) s))
            (insert_audit (audit_entry aid admin ''rollback_requested'' empty_json now)))"

definition can_confirm :: "instant \<Rightarrow> action_row \<Rightarrow> bool" where
  "can_confirm now a \<longleftrightarrow> ac_status a = AwaitingConfirmation \<and> ac_rollback a \<noteq> None \<and>
     (case ac_confirm_by a of None \<Rightarrow> False | Some t \<Rightarrow> t > now)"

definition request_confirmation_and_enqueue :: "string \<Rightarrow> string \<Rightarrow> new_cmd \<Rightarrow> instant \<Rightarrow> store \<Rightarrow> store_error + store" where
  "request_confirmation_and_enqueue aid admin cmd now s =
     (let p = (\<lambda>a. ac_id a = aid \<and> can_confirm now a)
      in if affected p s \<noteq> 1 then Inl ErrConflict
         else bindE (enqueue_row cmd (update_actions p (\<lambda>a. a\<lparr>ac_status := Confirming, ac_updated := now\<rparr>) s))
           (insert_audit (audit_entry aid admin ''confirmation_requested'' empty_json now)))"

section \<open>The confirmation window\<close>

definition confirmation_expired :: "instant \<Rightarrow> action_row \<Rightarrow> bool" where
  "confirmation_expired now a \<longleftrightarrow> ac_status a = AwaitingConfirmation \<and>
     (case ac_confirm_by a of None \<Rightarrow> False | Some t \<Rightarrow> t \<le> now)"

definition expire_one_confirmation :: "instant \<Rightarrow> string \<Rightarrow> store \<Rightarrow> store" where
  "expire_one_confirmation now aid s =
     (let p = (\<lambda>a. ac_id a = aid \<and> ac_status a = AwaitingConfirmation);
          s' = update_actions p (cancel_with ''confirmation window expired; the helper safety rollback was triggered'' now) s
      in if affected p s = 1
         then s'\<lparr>st_audit := st_audit s' @ [audit_entry aid ''controller''
                 ''confirmation_expired_safety_rollback_triggered'' empty_json now]\<rparr>
         else s')"

definition expire_confirmations :: "instant \<Rightarrow> store \<Rightarrow> store" where
  "expire_confirmations now s =
     fold (expire_one_confirmation now) (map ac_id (filter (confirmation_expired now) (st_actions s))) s"

section \<open>Listings\<close>

definition list_limit :: "int \<Rightarrow> int \<Rightarrow> int \<Rightarrow> nat" where
  "list_limit most dflt n = nat (if n \<le> 0 \<or> n > most then dflt else n)"

definition list_actions :: "string \<Rightarrow> int \<Rightarrow> store \<Rightarrow> action_row list" where
  "list_actions dev limit s =
     take (list_limit 200 50 limit)
       (descending ac_created (filter (\<lambda>a. dev = [] \<or> ac_device a = dev) (st_actions s)))"

definition action_audit :: "string \<Rightarrow> int \<Rightarrow> store \<Rightarrow> audit_row list" where
  "action_audit aid limit s =
     take (list_limit 500 100 limit) (rev (filter (\<lambda>r. aid = [] \<or> au_action r = aid) (st_audit s)))"

section \<open>The defense policy\<close>

definition default_policy :: "string \<Rightarrow> instant \<Rightarrow> policy_row" where
  "default_policy dev now = \<lparr>po_device = dev, po_enabled = False, po_stop = False, po_auto_ban = False,
     po_threshold = 10, po_window = 300, po_ban_duration = 900, po_max_bans = 10, po_allowlist = ''[]'', po_updated = now\<rparr>"

definition defense_policy :: "string \<Rightarrow> instant \<Rightarrow> store \<Rightarrow> store_error + policy_row" where
  "defense_policy dev now s =
     (case find (\<lambda>p. po_device p = dev) (st_policies s) of
        Some p \<Rightarrow> Inr p
      | None \<Rightarrow> if dev \<in> dv_id ` set (st_devices s) then Inr (default_policy dev now) else Inl ErrNotFound)"

text \<open>\<open>INSERT ... ON CONFLICT(device_id) DO UPDATE\<close>.\<close>

definition upsert_policy :: "policy_row \<Rightarrow> store \<Rightarrow> store_error + store" where
  "upsert_policy x s =
     (if po_device x \<notin> dv_id ` set (st_devices s) then Inl ErrConstraint
      else if po_device x \<in> po_device ` set (st_policies s)
      then Inr (s\<lparr>st_policies := upd_where (\<lambda>p. po_device p = po_device x) (\<lambda>_. x) (st_policies s)\<rparr>)
      else Inr (s\<lparr>st_policies := st_policies s @ [x]\<rparr>))"

definition same_grant :: "grant_row \<Rightarrow> grant_row \<Rightarrow> bool" where
  "same_grant g h \<longleftrightarrow> pg_device g = pg_device h \<and> pg_capability g = pg_capability h"

definition upsert_grant :: "grant_row \<Rightarrow> store \<Rightarrow> store" where
  "upsert_grant g s =
     (if list_ex (same_grant g) (st_grants s)
      then s\<lparr>st_grants := upd_where (same_grant g) (\<lambda>_. g) (st_grants s)\<rparr>
      else s\<lparr>st_grants := st_grants s @ [g]\<rparr>)"

definition policy_mode :: "policy_row \<Rightarrow> autonomy_mode" where
  "policy_mode x = (if po_enabled x \<and> po_auto_ban x then AutonomyAutoLowRisk
     else if po_enabled x then AutonomyAssist else AutonomyObserve)"

definition bruteforce_grant :: "policy_row \<Rightarrow> grant_row" where
  "bruteforce_grant x = \<lparr>pg_device = po_device x, pg_capability = ''network.auth_bruteforce'',
     pg_enabled = po_enabled x, pg_mode = policy_mode x, pg_allowed = ''['' @ quote ''temporary_ip_ban'' @ '']'',
     pg_max = po_max_bans x, pg_stop = po_stop x, pg_updated = po_updated x\<rparr>"

text \<open>The queued policy commands an emergency stop finds: command and action id.\<close>

definition queued_policy :: "store_lib \<Rightarrow> string \<Rightarrow> store \<Rightarrow> (string \<times> string) list" where
  "queued_policy J dev s =
     concat (map (\<lambda>c. map (\<lambda>a. (cm_id c, ac_id a))
         (filter (\<lambda>a. Some (ac_id a) = jx_extract_id J (cm_payload c) \<and> ac_status a = Approved \<and>
            like_prefix (ac_approved_by a) ''policy:'') (st_actions s)))
       (filter (\<lambda>c. cm_device c = dev \<and> cm_completed c = None \<and> cm_type c = CommandExecuteAction) (st_commands s)))"

definition close_command :: "string \<Rightarrow> bytes \<Rightarrow> string \<Rightarrow> instant \<Rightarrow> store \<Rightarrow> store" where
  "close_command cid result msg now s =
     update_commands (\<lambda>c. cm_id c = cid \<and> cm_completed c = None)
       (\<lambda>c. c\<lparr>cm_completed := Some now, cm_result := Some result, cm_error := msg\<rparr>) s"

definition ok_false :: bytes where
  "ok_false = ''{'' @ quote ''ok'' @ '':false}''"

definition cancel_pending_bans :: "string \<Rightarrow> store \<Rightarrow> store" where
  "cancel_pending_bans aid s =
     update_bans (\<lambda>b. bn_action b = aid \<and> bn_status b = ''pending'') (\<lambda>b. b\<lparr>bn_status := ''cancelled''\<rparr>) s"

definition stop_message :: string where
  "stop_message = ''cancelled by automatic-defense emergency stop''"

definition stop_one :: "instant \<Rightarrow> string \<times> string \<Rightarrow> store \<Rightarrow> store_error + store" where
  "stop_one now item s =
     (let s1 = close_command (fst item) ok_false stop_message now s;
          s2 = update_actions (\<lambda>a. ac_id a = snd item \<and> ac_status a = Approved) (cancel_with stop_message now) s1;
          s3 = cancel_pending_bans (snd item) s2
      in insert_audit (audit_entry (snd item) ''controller'' ''cancelled_by_emergency_stop'' empty_json now) s3)"

fun stop_all :: "instant \<Rightarrow> (string \<times> string) list \<Rightarrow> store \<Rightarrow> store_error + store" where
  "stop_all now [] s = Inr s"
| "stop_all now (x # xs) s = bindE (stop_one now x s) (stop_all now xs)"

definition put_policy :: "policy_row \<Rightarrow> store \<Rightarrow> store_error + store" where
  "put_policy x s = upsert_policy x s"

definition put_policy_and_cancel :: "store_lib \<Rightarrow> policy_row \<Rightarrow> store \<Rightarrow> store_error + nat \<times> store" where
  "put_policy_and_cancel J x s =
     bindE (upsert_policy x s) (\<lambda>s1.
       let s2 = upsert_grant (bruteforce_grant x) s1;
           s3 = s2\<lparr>st_grants := upd_where (\<lambda>g. pg_device g = po_device x)
                  (\<lambda>g. g\<lparr>pg_stop := po_stop x, pg_updated := po_updated x\<rparr>) (st_grants s2)\<rparr>
       in if \<not> po_stop x then Inr (0, s3)
          else (let items = queued_policy J (po_device x) s3
                in bindE (stop_all (po_updated x) items s3) (\<lambda>s4. Inr (length items, s4))))"

section \<open>Temporary bans\<close>

definition add_temporary_ban :: "ban_row \<Rightarrow> store \<Rightarrow> store_error + store" where
  "add_temporary_ban x s =
     insert_ban (if bn_status x = [] then x\<lparr>bn_status := (if bn_simulated x then ''simulated'' else ''active'')\<rparr> else x) s"

definition ban_live :: "string \<Rightarrow> string \<Rightarrow> instant \<Rightarrow> ban_row \<Rightarrow> bool" where
  "ban_live dev ip now b \<longleftrightarrow> bn_device b = dev \<and> bn_source b = ip \<and>
     (bn_status b = ''pending'' \<or> ((bn_status b = ''active'' \<or> bn_status b = ''indeterminate'') \<and> bn_expires b > now))"

definition ban_recent :: "string \<Rightarrow> instant \<Rightarrow> ban_row \<Rightarrow> bool" where
  "ban_recent dev since b \<longleftrightarrow> bn_device b = dev \<and> bn_created b \<ge> since \<and> \<not> bn_simulated b"

definition count_recent_bans :: "string \<Rightarrow> instant \<Rightarrow> store \<Rightarrow> nat" where
  "count_recent_bans dev since s = cnt_where (ban_recent dev since) (st_bans s)"

definition active_ban :: "string \<Rightarrow> string \<Rightarrow> instant \<Rightarrow> store \<Rightarrow> store_error + ban_row" where
  "active_ban dev ip now s =
     (case descending bn_expires (filter (ban_live dev ip now) (st_bans s)) of
        [] \<Rightarrow> Inl ErrNotFound | b # _ \<Rightarrow> Inr b)"

end
