(* ===== verification/CommandQueue.thy ===== *)
theory CommandQueue
  imports Lifecycle
begin

text \<open>
  The durable command queue of a device (\<open>internal/store/reports_commands.go\<close>): one
  pending scan at most, claims with a two-minute lease, and the expiry of action
  commands that were never started or never answered.
\<close>

section \<open>Enqueueing\<close>

definition superseded_scan_message :: string where
  "superseded_scan_message = ''superseded by a newer scan request''"

definition execution_indeterminate_message :: string where
  "execution_indeterminate_message = ''privileged execution result was not received before the safety timeout; remote state is unknown and requires manual verification''"

definition superseded_result :: bytes where
  "superseded_result = ''{'' @ quote ''ok'' @ '':false,'' @ quote ''superseded'' @ '':true}''"

definition indeterminate_result :: bytes where
  "indeterminate_result = ''{'' @ quote ''ok'' @ '':false,'' @ quote ''indeterminate'' @ '':true}''"

definition pending_scan :: "string \<Rightarrow> cmd_row \<Rightarrow> bool" where
  "pending_scan dev c \<longleftrightarrow> cm_device c = dev \<and> cm_type c = CommandScan \<and> cm_completed c = None"

definition supersede_scans :: "string \<Rightarrow> string \<Rightarrow> instant \<Rightarrow> store \<Rightarrow> store" where
  "supersede_scans dev keep now s =
     update_commands (\<lambda>c. pending_scan dev c \<and> (keep = [] \<or> cm_id c \<noteq> keep))
       (\<lambda>c. c\<lparr>cm_completed := Some now, cm_result := Some superseded_result, cm_error := superseded_scan_message\<rparr>) s"

definition latest_pending_scan :: "string \<Rightarrow> store \<Rightarrow> string" where
  "latest_pending_scan dev s =
     (case descending cm_created (filter (pending_scan dev) (st_commands s)) of [] \<Rightarrow> [] | c # _ \<Rightarrow> cm_id c)"

text \<open>\<open>EnqueueCommand\<close>: constraint errors are conflicts, and a scan replaces the pending ones.\<close>

definition mapped :: "store_error + 'a \<Rightarrow> store_error + 'a" where
  "mapped r = (case r of Inl ErrConstraint \<Rightarrow> Inl ErrConflict | _ \<Rightarrow> r)"

definition enqueue_command :: "new_cmd \<Rightarrow> store \<Rightarrow> store_error + store" where
  "enqueue_command c s =
     (let c' = c\<lparr>nc_payload := nonempty_json (nc_payload c)\<rparr>
      in if nc_type c \<noteq> CommandScan then mapped (enqueue_row c' s)
         else mapped (enqueue_row c' (supersede_scans (nc_device c) [] (nc_created c) s)))"

section \<open>Expiry\<close>

definition action_open_statuses :: "action_status set" where
  "action_open_statuses = {Approved, Executing, RollingBack, AwaitingConfirmation, Confirming}"

definition unstarted_stale :: "string \<Rightarrow> instant \<Rightarrow> cmd_row \<Rightarrow> bool" where
  "unstarted_stale dev now c \<longleftrightarrow> cm_completed c = None \<and> cm_started c = None \<and> action_command (cm_type c) \<and>
     cm_created c < now - ActionCommandTTL \<and> (dev = [] \<or> cm_device c = dev)"

definition started_stale :: "string \<Rightarrow> instant \<Rightarrow> cmd_row \<Rightarrow> bool" where
  "started_stale dev now c \<longleftrightarrow> cm_completed c = None \<and> action_command (cm_type c) \<and>
     (case cm_started c of None \<Rightarrow> False | Some t \<Rightarrow> t < now - ActionExecutionTimeout) \<and>
     (dev = [] \<or> cm_device c = dev)"

definition command_type_text :: "command_type \<Rightarrow> string" where
  "command_type_text t = (case t of CommandScan \<Rightarrow> ''scan'' | CommandExecuteAction \<Rightarrow> ''execute_action''
     | CommandRollback \<Rightarrow> ''rollback_action'' | CommandConfirm \<Rightarrow> ''confirm_action'' | CommandOther x \<Rightarrow> x)"

definition delivery_expired_message :: string where
  "delivery_expired_message = ''action approval expired before device delivery''"

definition action_id_of :: "store_lib \<Rightarrow> bytes \<Rightarrow> string option" where
  "action_id_of J p = (case jx_action_id J p of None \<Rightarrow> None | Some i \<Rightarrow> if i = [] then None else Some i)"

definition expire_unstarted :: "store_lib \<Rightarrow> instant \<Rightarrow> cmd_row \<Rightarrow> store \<Rightarrow> store" where
  "expire_unstarted J now c s =
     (let s1 = close_command (cm_id c) ok_false delivery_expired_message now s
      in case action_id_of J (cm_payload c) of
          None \<Rightarrow> s1
        | Some aid \<Rightarrow>
           (let p = (\<lambda>a. ac_id a = aid \<and> ac_device a = cm_device c \<and> ac_status a \<in> action_open_statuses);
                s2 = update_actions p (\<lambda>a. a\<lparr>ac_status := Failed, ac_completed := Some now,
                       ac_error := delivery_expired_message, ac_updated := now\<rparr>) s1
            in if affected p s1 = 1
               then (let s3 = update_bans (\<lambda>b. bn_action b = aid \<and> bn_status b = ''pending'') (\<lambda>b. b\<lparr>bn_status := ''failed''\<rparr>) s2
                     in s3\<lparr>st_audit := st_audit s3 @ [audit_entry aid ''controller'' ''expired_before_delivery''
                          (jx_map J [(''commandId'', DStr (cm_id c)), (''commandType'', DStr (command_type_text (cm_type c))),
                             (''ttl'', DStr ''10m0s'')]) now]\<rparr>)
               else s2))"

definition expire_started :: "store_lib \<Rightarrow> instant \<Rightarrow> cmd_row \<Rightarrow> store \<Rightarrow> store" where
  "expire_started J now c s =
     (let s1 = close_command (cm_id c) indeterminate_result execution_indeterminate_message now s
      in case action_id_of J (cm_payload c) of
          None \<Rightarrow> s1
        | Some aid \<Rightarrow>
           (let p = (\<lambda>a. ac_id a = aid \<and> ac_device a = cm_device c \<and> ac_status a \<in> {Executing, RollingBack, Confirming});
                s2 = update_actions p (\<lambda>a. a\<lparr>ac_status := Indeterminate, ac_completed := Some now,
                       ac_error := execution_indeterminate_message, ac_updated := now\<rparr>) s1
            in if affected p s1 = 1
               then (let s3 = update_bans (\<lambda>b. bn_action b = aid \<and> bn_status b \<in> {''pending'', ''active'', ''indeterminate''})
                           (\<lambda>b. b\<lparr>bn_status := ''indeterminate''\<rparr>) s2
                     in s3\<lparr>st_audit := st_audit s3 @ [audit_entry aid ''controller'' ''execution_result_indeterminate''
                          (jx_map J [(''commandId'', DStr (cm_id c)), (''commandType'', DStr (command_type_text (cm_type c))),
                             (''timeout'', DStr ''2h0m0s''), (''manualVerificationRequired'', DBool True)]) now]\<rparr>)
               else s2))"

definition unstarted_batch :: "string \<Rightarrow> instant \<Rightarrow> store \<Rightarrow> cmd_row list" where
  "unstarted_batch dev now s = take 500 (sort_key cm_created (filter (unstarted_stale dev now) (st_commands s)))"

definition started_batch :: "string \<Rightarrow> instant \<Rightarrow> store \<Rightarrow> cmd_row list" where
  "started_batch dev now s =
     take 500 (sort_key (\<lambda>c. case cm_started c of None \<Rightarrow> 0 | Some t \<Rightarrow> t) (filter (started_stale dev now) (st_commands s)))"

definition expire_stale :: "store_lib \<Rightarrow> string \<Rightarrow> instant \<Rightarrow> store \<Rightarrow> store" where
  "expire_stale J dev now s =
     (let s1 = fold (expire_unstarted J now) (unstarted_batch dev now s) s
      in fold (expire_started J now) (started_batch dev now s1) s1)"

definition expire_stale_action_commands :: "store_lib \<Rightarrow> instant \<Rightarrow> store \<Rightarrow> store" where
  "expire_stale_action_commands J now s = expire_stale J [] now s"

section \<open>Claiming\<close>

abbreviation (input) claim_lease :: duration where "claim_lease \<equiv> 2 * minute"

definition claimable :: "string \<Rightarrow> instant \<Rightarrow> cmd_row \<Rightarrow> bool" where
  "claimable dev now c \<longleftrightarrow> cm_device c = dev \<and> cm_completed c = None \<and>
     (case cm_claimed c of None \<Rightarrow> True | Some t \<Rightarrow> t < now - claim_lease)"

text \<open>The rows of the query are claimed one by one; \<open>id\<close> is the primary key.\<close>

fun claim_each :: "instant \<Rightarrow> cmd_row list \<Rightarrow> store \<Rightarrow> store_error + store" where
  "claim_each now [] s = Inr s"
| "claim_each now (c # cs) s =
     (let p = (\<lambda>x. cm_id x = cm_id c \<and> cm_completed x = None)
      in if cnt_where p (st_commands s) \<noteq> 1 then Inl ErrConflict
         else claim_each now cs (update_commands p (\<lambda>x. x\<lparr>cm_claimed := Some now\<rparr>) s))"

definition claim_commands :: "store_lib \<Rightarrow> string \<Rightarrow> int \<Rightarrow> instant \<Rightarrow> store \<Rightarrow> store_error + cmd_row list \<times> store" where
  "claim_commands J dev limit now s =
     (let s1 = expire_stale J dev now s;
          latest = latest_pending_scan dev s1;
          s2 = (if latest = [] then s1 else supersede_scans dev latest now s1);
          out = take (list_limit 20 10 limit) (sort_key cm_created (filter (claimable dev now) (st_commands s2)))
      in bindE (claim_each now out s2) (\<lambda>s3. Inr (map (\<lambda>c. c\<lparr>cm_claimed := Some now\<rparr>) out, s3)))"

section \<open>Completing a command without an action\<close>

definition complete_command :: "string \<Rightarrow> string \<Rightarrow> bytes \<Rightarrow> string \<Rightarrow> instant \<Rightarrow> store \<Rightarrow> store_error + store" where
  "complete_command dev cid result err now s =
     (let r = nonempty_json result;
          p = (\<lambda>c. cm_id c = cid \<and> cm_device c = dev \<and> cm_completed c = None)
      in if cnt_where p (st_commands s) = 0
         then (case find (\<lambda>c. cm_id c = cid \<and> cm_device c = dev \<and> cm_completed c \<noteq> None) (st_commands s) of
                 None \<Rightarrow> Inl ErrNotFound
               | Some c \<Rightarrow> if cm_result c = Some r \<and> cm_error c = err then Inr s else Inl ErrConflict)
         else Inr (update_commands p (\<lambda>c. c\<lparr>cm_completed := Some now, cm_result := Some r, cm_error := err\<rparr>) s))"

end
