(* ===== verification/ActionResults.thy ===== *)
theory ActionResults
  imports CommandQueue Outbox
begin

text \<open>
  \<open>internal/store/action_results.go\<close>: policy actions, the final gate before the
  Agent crosses into the privileged helper, and the projection of a completed
  command onto its action.
\<close>

section \<open>Policy actions\<close>

definition insert_policy_action :: "action_row \<Rightarrow> new_cmd \<Rightarrow> string \<Rightarrow> store \<Rightarrow> store_error + store" where
  "insert_policy_action x cmd actor s =
     (let a = x\<lparr>ac_params := nonempty_json (ac_params x), ac_preview := nonempty_json (ac_preview x),
            ac_status := Approved, ac_nonce := [], ac_approved_by := actor,
            ac_approved_at := Some (case ac_approved_at x of None \<Rightarrow> ac_created x | Some t \<Rightarrow> t),
            ac_executed := None, ac_completed := None, ac_rollback := None, ac_confirm_by := None, ac_error := []\<rparr>;
          s1 = expire_drafts (ac_device x) (ac_created x) s
      in bindE (ensure_capacity (ac_device x) s1) (\<lambda>_.
         bindE (insert_action a s1) (\<lambda>s2.
         bindE (insert_audit (audit_entry (ac_id x) actor ''policy_preauthorized_and_queued'' (ac_preview a) (ac_created x)) s2)
           (enqueue_row cmd))))"

definition insert_policy_ban :: "action_row \<Rightarrow> new_cmd \<Rightarrow> ban_row \<Rightarrow> string \<Rightarrow> store \<Rightarrow> store_error + store" where
  "insert_policy_ban x cmd ban actor s =
     bindE (insert_policy_action x cmd actor s)
       (insert_ban (ban\<lparr>bn_action := ac_id x, bn_simulated := False, bn_status := ''pending''\<rparr>))"

definition create_policy_action :: "action_row \<Rightarrow> new_cmd \<Rightarrow> ban_row \<Rightarrow> string \<Rightarrow> store \<Rightarrow> store_error + store" where
  "create_policy_action x cmd ban actor s = insert_policy_ban x cmd ban actor s"

definition policy_active :: "policy_row \<Rightarrow> bool" where
  "policy_active p \<longleftrightarrow> po_enabled p \<and> \<not> po_stop p \<and> po_auto_ban p"

definition find_policy :: "string \<Rightarrow> store \<Rightarrow> policy_row option" where
  "find_policy dev s = find (\<lambda>p. po_device p = dev) (st_policies s)"

definition create_policy_action_limited :: "action_row \<Rightarrow> new_cmd \<Rightarrow> ban_row \<Rightarrow> string \<Rightarrow> int \<Rightarrow> instant \<Rightarrow> store \<Rightarrow>
    store_error + store" where
  "create_policy_action_limited x cmd ban actor max_per_hour since s =
     (case find_policy (ac_device x) s of
        None \<Rightarrow> Inl ErrPolicyStopped
      | Some p \<Rightarrow>
         (if \<not> policy_active p then Inl ErrPolicyStopped
          else (let limit = (if po_max_bans p < max_per_hour \<or> max_per_hour \<le> 0 then po_max_bans p else max_per_hour)
                in if cnt_where (ban_live (ac_device x) (bn_source ban) (ac_created x)) (st_bans s) > 0
                   then Inl ErrBanAlreadyLive
                   else if int (count_recent_bans (ac_device x) since s) \<ge> limit then Inl ErrBanRateLimited
                   else insert_policy_ban x cmd ban actor s)))"

section \<open>The start gate\<close>

definition open_command_statuses :: "action_status set" where
  "open_command_statuses = {Approved, RollingBack, Confirming}"

text \<open>The command is closed and its action cancelled, in the statuses of \<open>from\<close>.\<close>

definition abandon :: "string \<Rightarrow> string \<Rightarrow> string \<Rightarrow> action_status set \<Rightarrow> bool \<Rightarrow> string \<Rightarrow> string \<Rightarrow> instant \<Rightarrow> store \<Rightarrow>
    store_error + store" where
  "abandon dev cid aid frm bans msg event now s =
     (let s1 = close_command cid ok_false msg now s;
          s2 = update_actions (\<lambda>a. ac_id a = aid \<and> ac_device a = dev \<and> ac_status a \<in> frm) (cancel_with msg now) s1;
          s3 = (if bans then cancel_pending_bans aid s2 else s2)
      in insert_audit (audit_entry aid ''controller'' event empty_json now) s3)"

text \<open>Whether the policy still authorizes a queued pre-authorized action.\<close>

definition grant_capability :: "action_type \<Rightarrow> string" where
  "grant_capability t = (if t = TypeTemporaryProcessSuspend then ''workload.runtime'' else [])"

definition grant_authorizes :: "store_lib \<Rightarrow> string \<Rightarrow> action_type \<Rightarrow> store \<Rightarrow> bool" where
  "grant_authorizes J dev t s =
     (if grant_capability t = [] then False
      else case find (\<lambda>g. pg_device g = dev \<and> pg_capability g = grant_capability t) (st_grants s) of
          None \<Rightarrow> False
        | Some g \<Rightarrow>
           (case jx_allowed J (pg_allowed g) of
              None \<Rightarrow> False
            | Some ts \<Rightarrow> pg_enabled g \<and> \<not> pg_stop g \<and> pg_mode g = AutonomyEnhanced \<and> t \<in> set ts))"

definition ban_authorized :: "string \<Rightarrow> store \<Rightarrow> bool" where
  "ban_authorized dev s = (case find_policy dev s of None \<Rightarrow> False | Some p \<Rightarrow> policy_active p)"

definition start_expired :: "cmd_row \<Rightarrow> instant \<Rightarrow> bool" where
  "start_expired c now \<longleftrightarrow> cm_created c > now + 5 * minute \<or> now - cm_created c > ActionCommandTTL"

text \<open>Marking the action executing, and the ban's guaranteed-active horizon.\<close>

definition start_execution :: "store_lib \<Rightarrow> string \<Rightarrow> start_meta \<Rightarrow> instant \<Rightarrow> store \<Rightarrow> store_error + store" where
  "start_execution J dev m now s =
     (let p = (\<lambda>a. ac_id a = sm_action m \<and> ac_device a = dev \<and> ac_status a = Approved);
          s1 = update_actions p (\<lambda>a. a\<lparr>ac_status := Executing,
             ac_executed := (case ac_executed a of None \<Rightarrow> Some now | Some t \<Rightarrow> Some t), ac_updated := now\<rparr>) s
      in bindE (if affected p s = 1
                then insert_audit (audit_entry (sm_action m) ''agent'' ''execution_started'' empty_json now) s1
                else case find (\<lambda>a. ac_id a = sm_action m \<and> ac_device a = dev) (st_actions s1) of
                    None \<Rightarrow> Inl (ErrOther ''sql: no rows in result set'')
                  | Some a \<Rightarrow> if ac_status a = Executing then Inr s1 else Inl ErrConflict)
         (\<lambda>s2. if sm_type m = TypeTemporaryIPBan
               then (case jx_ttl J (sm_params m) of
                  None \<Rightarrow> Inl (ErrOther ''temporary ban action parameters are invalid'')
                | Some ttl \<Rightarrow>
                    (if ttl < 1 then Inl (ErrOther ''temporary ban action parameters are invalid'')
                     else (let horizon = now + seconds ttl
                           in Inr (update_bans (\<lambda>b. bn_action b = sm_action m \<and> bn_status b = ''pending'')
                                (\<lambda>b. b\<lparr>bn_expires := (if bn_expires b < horizon then horizon else bn_expires b)\<rparr>) s2))))
               else Inr s2))"

definition expect_status :: "string \<Rightarrow> string \<Rightarrow> action_status \<Rightarrow> store \<Rightarrow> store_error + unit" where
  "expect_status dev aid st s =
     (case find (\<lambda>a. ac_id a = aid \<and> ac_device a = dev) (st_actions s) of
        None \<Rightarrow> Inl (ErrOther ''sql: no rows in result set'')
      | Some a \<Rightarrow> guardE (ac_status a = st) ErrConflict)"

definition mark_started :: "string \<Rightarrow> string \<Rightarrow> instant \<Rightarrow> store \<Rightarrow> store_error + store" where
  "mark_started dev cid now s =
     (let p = (\<lambda>c. cm_id c = cid \<and> cm_device c = dev \<and> cm_started c = None \<and> cm_completed c = None)
      in if cnt_where p (st_commands s) \<noteq> 1 then Inl ErrConflict
         else Inr (update_commands p (\<lambda>c. c\<lparr>cm_started := Some now\<rparr>) s))"

text \<open>The gate once the command is known to be open, its action named and its device in action mode.\<close>

definition start_gate :: "store_lib \<Rightarrow> string \<Rightarrow> cmd_row \<Rightarrow> start_meta \<Rightarrow> instant \<Rightarrow> store \<Rightarrow> store_error + bool \<times> store" where
  "start_gate J dev c m now s =
     (let execute = (cm_type c = CommandExecuteAction); refused = map_sum id (\<lambda>s'. (False, s'))
      in if start_expired c now
         then refused (abandon dev (cm_id c) (sm_action m) open_command_statuses True
                ''action command expired before privileged execution'' ''command_expired_before_execution'' now s)
         else if execute \<and> sm_policy m \<and> sm_type m = TypeTemporaryIPBan \<and> \<not> ban_authorized dev s
         then refused (abandon dev (cm_id c) (sm_action m) {Approved} True
                ''automatic defense command cancelled before execution'' ''policy_command_cancelled_before_execution'' now s)
         else if execute \<and> sm_policy m \<and> sm_type m \<noteq> TypeTemporaryIPBan \<and> \<not> grant_authorizes J dev (sm_type m) s
         then refused (abandon dev (cm_id c) (sm_action m) {Approved} False
                ''pre-authorized action cancelled because its policy grant is no longer active''
                ''policy_command_cancelled_before_execution'' now s)
         else bindE (if execute then start_execution J dev m now s
                     else bindE (expect_status dev (sm_action m) (if cm_type c = CommandConfirm then Confirming else RollingBack) s)
                            (\<lambda>_. Inr s))
                (\<lambda>s1. bindE (mark_started dev (cm_id c) now s1) (\<lambda>s2. Inr (True, s2))))"

definition start_action_command :: "store_lib \<Rightarrow> string \<Rightarrow> string \<Rightarrow> instant \<Rightarrow> store \<Rightarrow> store_error + bool \<times> store" where
  "start_action_command J dev cid now s =
     (case find_command cid dev s of
        None \<Rightarrow> Inl ErrNotFound
      | Some c \<Rightarrow>
         (if cm_completed c \<noteq> None then Inr (False, s)
          else if \<not> action_command (cm_type c) then Inl ErrConflict
          else case jx_start J (cm_payload c) of
              None \<Rightarrow> Inl (ErrOther ''action command payload is invalid'')
            | Some m \<Rightarrow>
               (if sm_action m = [] then Inl (ErrOther ''action command payload is invalid'')
                else case find (\<lambda>d. dv_id d = dev) (st_devices s) of
                    None \<Rightarrow> Inl (ErrOther ''sql: no rows in result set'')
                  | Some d \<Rightarrow>
                     (if dv_observer d
                      then map_sum id (\<lambda>s'. (False, s'))
                        (abandon dev cid (sm_action m) open_command_statuses True
                           ''action command cancelled because the device is read-only observer mode''
                           ''observer_mode_cancelled'' now s)
                      else if cm_started c \<noteq> None then Inr (True, s)
                      else start_gate J dev c m now s))))"

section \<open>Judging a helper receipt\<close>

definition expected_steps :: "command_type \<Rightarrow> operation list" where
  "expected_steps t = (if t = CommandRollback then [Rollback] else if t = CommandConfirm then [Confirm]
     else [Precheck, Preview, Apply, Verify])"

definition valid_successful_steps :: "helper_step list \<Rightarrow> command_type \<Rightarrow> bool" where
  "valid_successful_steps steps t \<longleftrightarrow> length steps = length (expected_steps t) \<and>
     list_all2 (\<lambda>h op. hs_op h = op \<and> hs_success h \<and> hs_details h \<noteq> None) steps (expected_steps t)"

text \<open>Steps as a list of operations and outcomes, each success with its result.\<close>

definition steps_are :: "(operation \<times> bool) list \<Rightarrow> helper_step list \<Rightarrow> bool" where
  "steps_are want steps \<longleftrightarrow>
     list_all2 (\<lambda>h (op, ok). hs_op h = op \<and> hs_success h = ok \<and> (ok \<longrightarrow> hs_details h \<noteq> None)) steps want"

definition verify_rollback_failure :: "(operation \<times> bool) list" where
  "verify_rollback_failure = [(Precheck, True), (Preview, True), (Apply, True), (Verify, False), (Rollback, False)]"

definition apply_rollback_failure :: "(operation \<times> bool) list" where
  "apply_rollback_failure = [(Precheck, True), (Preview, True), (Apply, False), (Rollback, False)]"

definition valid_recoverable :: "helper_receipt \<Rightarrow> bool" where
  "valid_recoverable r =
     (if hr_success r then valid_successful_steps (hr_steps r) CommandExecuteAction
      else if length (hr_steps r) = 4 then steps_are apply_rollback_failure (hr_steps r)
      else steps_are verify_rollback_failure (hr_steps r))"

definition valid_unavailable :: "helper_receipt \<Rightarrow> bool" where
  "valid_unavailable r \<longleftrightarrow> \<not> hr_success r \<and> steps_are [(Precheck, True), (Preview, True), (Apply, False)] (hr_steps r)"

definition valid_failed_single :: "operation \<Rightarrow> helper_receipt \<Rightarrow> bool" where
  "valid_failed_single op r \<longleftrightarrow> \<not> hr_success r \<and>
     (case hr_steps r of [h] \<Rightarrow> hs_op h = op \<and> \<not> hs_success h | _ \<Rightarrow> False)"

definition valid_rollback_state :: "store_lib \<Rightarrow> bytes \<Rightarrow> bool" where
  "valid_rollback_state J v \<longleftrightarrow> v \<noteq> [] \<and> json_ok (jx_lib J) v \<and>
     (case jx_object_size J v of None \<Rightarrow> False | Some n \<Rightarrow> n > 0)"

text \<open>The verification step of an SSH execution says whether a change awaits confirmation.\<close>

fun confirmation_pending :: "helper_step list \<Rightarrow> bool option" where
  "confirmation_pending [] = None"
| "confirmation_pending (h # hs) =
     (if hs_op h \<noteq> Verify \<or> \<not> hs_success h \<or> hs_details h = None then confirmation_pending hs
      else case map_of (the (hs_details h)) ''confirmationPending'' of Some (DBool b) \<Rightarrow> Some b | _ \<Rightarrow> None)"

definition sanitize_step :: "helper_step \<Rightarrow> stored_step" where
  "sanitize_step h = \<lparr>ss_op = hs_op h, ss_started = hs_started h, ss_finished = hs_finished h, ss_success = hs_success h,
     ss_pending = (if hs_op h = Verify \<and> hs_success h
        then (case hs_details h of None \<Rightarrow> None
              | Some d \<Rightarrow> (case map_of d ''confirmationPending'' of Some (DBool b) \<Rightarrow> Some b | _ \<Rightarrow> None))
        else None)\<rparr>"

definition sanitize_receipt :: "helper_receipt \<Rightarrow> stored_receipt" where
  "sanitize_receipt r = \<lparr>sr_action = hr_action r, sr_type = hr_type r, sr_op = hr_op r,
     sr_params_digest = hr_params_digest r, sr_started = hr_started r, sr_finished = hr_finished r,
     sr_success = hr_success r, sr_indeterminate = hr_indeterminate r, sr_state_digest = hr_state_digest r,
     sr_confirm_by = hr_confirm_by r, sr_steps = map sanitize_step (take 5 (hr_steps r))\<rparr>"

end
