(* ===== verification/Completion.thy ===== *)
theory Completion
  imports ActionResults
begin

text \<open>
  \<open>CompleteCommandAndActionWithOutcome\<close> of \<open>internal/store/action_results.go\<close>: the
  Controller's verdict on a device's result, its replay rules, and the projection
  of the verdict onto action, bans, audit trail, notifications and response plan.
\<close>

section \<open>The verdict\<close>

definition no_receipt :: helper_receipt where
  "no_receipt = \<lparr>hr_action = [], hr_type = [], hr_op = OtherOp [], hr_params_digest = [], hr_started = 0, hr_finished = 0,
     hr_success = False, hr_indeterminate = False, hr_state_digest = [], hr_confirm_by = None, hr_steps = []\<rparr>"

definition no_meta :: cmd_meta where
  "no_meta = \<lparr>me_action = [], me_type = [], me_params = []\<rparr>"

record submission =
  su_ok :: bool
  su_result :: bytes
  su_rollback :: bytes
  su_audit :: bytes
  su_error :: string

text \<open>What the checks read: command type, decoded payload and receipt, and whether the row was completed before.\<close>

record case_file =
  cf_type :: command_type
  cf_meta :: cmd_meta
  cf_receipt :: helper_receipt
  cf_matches :: bool
  cf_completed :: bool
  cf_digest_empty :: bool

definition expected_operation :: "command_type \<Rightarrow> operation" where
  "expected_operation t = (if t = CommandRollback then Rollback else if t = CommandConfirm then Confirm else Execute)"

definition receipt_matches :: "store_lib \<Rightarrow> command_type \<Rightarrow> cmd_meta \<Rightarrow> helper_receipt \<Rightarrow> bool" where
  "receipt_matches J t m r \<longleftrightarrow> hr_action r = me_action m \<and> hr_type r = me_type m \<and>
     hr_op r = expected_operation t \<and> hr_params_digest r = digest_parameters (jx_lib J) (me_params m)"

definition legacy_resume :: "case_file \<Rightarrow> bool" where
  "legacy_resume f \<longleftrightarrow> hr_confirm_by (cf_receipt f) \<noteq> None \<and> me_type (cf_meta f) = TypeTemporaryProcessSuspend \<and>
     cf_type f = CommandExecuteAction"

text \<open>
  The reasons to turn a claimed success into a failure, in the order of the checks;
  the first one found is reported.
\<close>

definition receipt_objection :: "store_lib \<Rightarrow> case_file \<Rightarrow> bytes \<Rightarrow> string option" where
  "receipt_objection J f rollback =
     (let r = cf_receipt f; execute = (cf_type f = CommandExecuteAction)
      in if action_command (cf_type f) \<and> (\<not> cf_matches f \<or> \<not> hr_success r \<or> hr_indeterminate r \<or>
              \<not> valid_successful_steps (hr_steps r) (cf_type f))
         then Some ''privileged helper receipt was missing or did not match the approved action''
         else if execute \<and> (\<not> valid_rollback_state J rollback \<or> hr_state_digest r \<noteq> digest_bytes (jx_lib J) rollback)
         then Some ''privileged helper receipt lacked a matching durable rollback state''
         else if action_command (cf_type f) \<and> \<not> execute \<and> rollback \<noteq> []
         then Some ''only an action execution may return durable rollback state''
         else None)"

definition confirm_objection :: "case_file \<Rightarrow> instant \<Rightarrow> string option" where
  "confirm_objection f now =
     (let r = cf_receipt f; execute = (cf_type f = CommandExecuteAction);
          ssh = (me_type (cf_meta f) = TypeSSHPasswordHardening \<and> execute);
          pending = confirmation_pending (hr_steps r)
      in if hr_confirm_by r \<noteq> None \<and> \<not> legacy_resume f \<and> \<not> ssh
         then Some ''only an SSH hardening execution may request a safety confirmation window''
         else if ssh \<and> pending = None
         then Some ''SSH helper receipt did not prove whether the configuration changed''
         else if ssh \<and> pending = Some True \<and> hr_confirm_by r = None
         then Some ''SSH change lacked a matching durable rollback state or safety confirmation deadline''
         else if ssh \<and> pending = Some False \<and> hr_confirm_by r \<noteq> None
         then Some ''SSH receipt requested confirmation even though verification reported no pending change''
         else case hr_confirm_by r of
             None \<Rightarrow> None
           | Some d \<Rightarrow>
               (if \<not> (cf_completed f \<and> cf_digest_empty f) \<and>
                   (\<not> d < now + 15 * minute \<or> (\<not> legacy_resume f \<and> \<not> d > now))
                then Some ''safety recovery deadline was invalid or already elapsed'' else None))"

definition objection :: "store_lib \<Rightarrow> case_file \<Rightarrow> bytes \<Rightarrow> instant \<Rightarrow> string option" where
  "objection J f rollback now =
     (case receipt_objection J f rollback of Some e \<Rightarrow> Some e | None \<Rightarrow> confirm_objection f now)"

text \<open>The success-side checks of a result whose receipt could not be cached.\<close>

definition valid_recovered :: "store_lib \<Rightarrow> case_file \<Rightarrow> bytes \<Rightarrow> instant \<Rightarrow> bool" where
  "valid_recovered J f rollback now =
     (let r = cf_receipt f; ssh = (me_type (cf_meta f) = TypeSSHPasswordHardening)
      in if cf_type f \<noteq> CommandExecuteAction then rollback = [] \<and> hr_confirm_by r = None
         else valid_rollback_state J rollback \<and> hr_state_digest r = digest_bytes (jx_lib J) rollback \<and>
           (hr_confirm_by r \<noteq> None \<longrightarrow> ssh) \<and>
           (ssh \<longrightarrow> (case confirmation_pending (hr_steps r) of None \<Rightarrow> False
              | Some p \<Rightarrow> p = (hr_confirm_by r \<noteq> None))) \<and>
           (case hr_confirm_by r of None \<Rightarrow> True | Some d \<Rightarrow> d > now \<and> d < now + 15 * minute))"

record verdict =
  vd_ok :: bool
  vd_indeterminate :: bool
  vd_error :: string
  vd_rollback :: bytes
  vd_resume :: bool
  vd_warn :: bool

definition trusted_success :: "store_lib \<Rightarrow> case_file \<Rightarrow> submission \<Rightarrow> instant \<Rightarrow> bool" where
  "trusted_success J f su now \<longleftrightarrow> \<not> cf_completed f \<and> \<not> su_ok su \<and> su_error su = ReceiptPersistenceFailureMessage \<and>
     action_command (cf_type f) \<and> cf_matches f \<and> hr_success (cf_receipt f) \<and> \<not> hr_indeterminate (cf_receipt f) \<and>
     valid_successful_steps (hr_steps (cf_receipt f)) (cf_type f) \<and> valid_recovered J f (su_rollback su) now"

text \<open>A matching receipt that itself reports an unknown outcome, with or without recoverable state.\<close>

definition unknown_receipt :: "case_file \<Rightarrow> submission \<Rightarrow> bool" where
  "unknown_receipt f su \<longleftrightarrow> \<not> cf_completed f \<and> \<not> su_ok su \<and> su_error su \<noteq> ExecutionIndeterminateMessage \<and>
     cf_matches f \<and> \<not> hr_success (cf_receipt f) \<and> hr_indeterminate (cf_receipt f)"

definition unknown_with_state :: "store_lib \<Rightarrow> case_file \<Rightarrow> submission \<Rightarrow> bool" where
  "unknown_with_state J f su \<longleftrightarrow> unknown_receipt f su \<and> cf_type f = CommandExecuteAction \<and>
     valid_rollback_state J (su_rollback su) \<and>
     hr_state_digest (cf_receipt f) = digest_bytes (jx_lib J) (su_rollback su) \<and> valid_recoverable (cf_receipt f)"

definition unknown_without_state :: "case_file \<Rightarrow> submission \<Rightarrow> bool" where
  "unknown_without_state f su \<longleftrightarrow> unknown_receipt f su \<and> su_rollback su = [] \<and> hr_state_digest (cf_receipt f) = [] \<and>
     (cf_type f = CommandExecuteAction \<and> valid_unavailable (cf_receipt f) \<or>
      cf_type f = CommandRollback \<and> valid_failed_single Rollback (cf_receipt f) \<or>
      cf_type f = CommandConfirm \<and> valid_failed_single Confirm (cf_receipt f))"

definition judge :: "store_lib \<Rightarrow> case_file \<Rightarrow> submission \<Rightarrow> instant \<Rightarrow> verdict" where
  "judge J f su now =
     (let obj = (if su_ok su then objection J f (su_rollback su) now else None);
          ok = (su_ok su \<and> obj = None);
          err = (case obj of None \<Rightarrow> su_error su | Some e \<Rightarrow> e);
          lost = (action_command (cf_type f) \<and> \<not> su_ok su \<and> err = ExecutionIndeterminateMessage);
          proven = trusted_success J f su now;
          unknown = lost \<or> unknown_with_state J f su \<or> unknown_without_state f su;
          ok' = (ok \<or> proven) \<and> \<not> unknown;
          keep = ok' \<or> proven \<and> cf_type f = CommandExecuteAction \<or> unknown_with_state J f su
      in \<lparr>vd_ok = ok', vd_indeterminate = unknown,
          vd_error = (if lost then execution_indeterminate_message else err),
          vd_rollback = (if keep then su_rollback su else []),
          vd_resume = ok \<and> legacy_resume f, vd_warn = proven\<rparr>)"

section \<open>The outcome\<close>

record outcome =
  oc_ok :: bool
  oc_error :: string
  oc_new :: bool
  oc_event :: "notification_event option"
  oc_queued :: nat

definition told :: "bool \<Rightarrow> string \<Rightarrow> outcome" where
  "told ok err = \<lparr>oc_ok = ok, oc_error = err, oc_new = False, oc_event = None, oc_queued = 0\<rparr>"

definition completion_digest :: "store_lib \<Rightarrow> string \<Rightarrow> string \<Rightarrow> submission \<Rightarrow> string option" where
  "completion_digest J dev cid su =
     map_option (\<lambda>p. hex_encode (sha256 (jx_lib J) p))
       (jx_completion J dev cid (su_ok su) (su_result su) (su_rollback su) (su_audit su) (su_error su))"

section \<open>Projecting an execution\<close>

record projection =
  pr_dev :: string
  pr_cid :: string
  pr_meta :: cmd_meta
  pr_receipt :: helper_receipt
  pr_verdict :: verdict
  pr_details :: bytes
  pr_started :: instant

definition execute_status :: "projection \<Rightarrow> action_status" where
  "execute_status p =
     (let v = pr_verdict p
      in if vd_resume v then RollingBack
         else if vd_ok v \<and> hr_confirm_by (pr_receipt p) \<noteq> None then AwaitingConfirmation
         else if vd_indeterminate v then Indeterminate
         else if vd_ok v then Succeeded else Failed)"

definition status_text :: "action_status \<Rightarrow> string" where
  "status_text st = (case st of Draft \<Rightarrow> ''draft'' | Approved \<Rightarrow> ''approved'' | Executing \<Rightarrow> ''executing''
     | AwaitingConfirmation \<Rightarrow> ''awaiting_confirmation'' | Confirming \<Rightarrow> ''confirming'' | Succeeded \<Rightarrow> ''succeeded''
     | Failed \<Rightarrow> ''failed'' | RollingBack \<Rightarrow> ''rolling_back'' | RolledBack \<Rightarrow> ''rolled_back''
     | Cancelled \<Rightarrow> ''cancelled'' | Indeterminate \<Rightarrow> ''indeterminate'')"

definition action_in :: "projection \<Rightarrow> action_status \<Rightarrow> action_row \<Rightarrow> bool" where
  "action_in p st a \<longleftrightarrow> ac_id a = me_action (pr_meta p) \<and> ac_device a = pr_dev p \<and> ac_status a = st"

text \<open>The guarded \<open>UPDATE\<close> of exactly one action row.\<close>

definition move_action :: "projection \<Rightarrow> action_status \<Rightarrow> (action_row \<Rightarrow> action_row) \<Rightarrow> store \<Rightarrow> store_error + store" where
  "move_action p from f s =
     (if affected (action_in p from) s \<noteq> 1 then Inl ErrConflict else Inr (update_actions (action_in p from) f s))"

definition execute_update :: "projection \<Rightarrow> instant \<Rightarrow> action_row \<Rightarrow> action_row" where
  "execute_update p now a =
     (let v = pr_verdict p; open_end = vd_resume v \<or> (vd_ok v \<and> hr_confirm_by (pr_receipt p) \<noteq> None)
      in a\<lparr>ac_status := execute_status p,
           ac_executed := (case ac_executed a of None \<Rightarrow> Some now | Some t \<Rightarrow> Some t),
           ac_completed := (if open_end then None else Some now),
           ac_rollback := nullable_json (vd_rollback v),
           ac_confirm_by := (if \<not> vd_resume v \<and> vd_ok v then hr_confirm_by (pr_receipt p) else None),
           ac_error := vd_error v, ac_updated := now\<rparr>)"

definition project_bans :: "store_lib \<Rightarrow> projection \<Rightarrow> instant \<Rightarrow> store \<Rightarrow> store_error + bool \<times> store" where
  "project_bans J p now s =
     (let v = pr_verdict p; m = pr_meta p;
          st = (if vd_indeterminate v then ''indeterminate'' else if vd_ok v then ''active'' else ''failed'');
          mine = (\<lambda>b. bn_action b = me_action m \<and> bn_status b = ''pending'')
      in if (vd_ok v \<or> vd_indeterminate v) \<and> me_type m = TypeTemporaryIPBan
         then (case jx_ttl J (me_params m) of
             None \<Rightarrow> Inl (ErrOther ''temporary ban action parameters are invalid'')
           | Some ttl \<Rightarrow>
              (if ttl < 1 then Inl (ErrOther ''temporary ban action parameters are invalid'')
               else (let ends = pr_started p + seconds ttl; late = (\<not> ends > now)
                     in Inr (late, update_bans mine
                          (\<lambda>b. b\<lparr>bn_status := (if late then ''indeterminate'' else st), bn_expires := ends\<rparr>) s))))
         else Inr (False, update_bans mine (\<lambda>b. b\<lparr>bn_status := st\<rparr>) s))"

definition project_execute :: "store_lib \<Rightarrow> string \<Rightarrow> projection \<Rightarrow> instant \<Rightarrow> store \<Rightarrow> store_error + bool \<times> store" where
  "project_execute J resume_id p now s =
     (let v = pr_verdict p; aid = me_action (pr_meta p)
      in bindE (move_action p Executing (execute_update p now) s) (\<lambda>s1.
         bindE (if vd_resume v
                then bindE (enqueue_row \<lparr>nc_id = resume_id, nc_device = pr_dev p, nc_type = CommandRollback,
                         nc_payload = jx_rollback J (pr_meta p) (vd_rollback v), nc_created = now\<rparr> s1)
                       (insert_audit (audit_entry aid ''controller'' ''legacy_process_resume_queued''
                         (jx_map J [(''reason'', DStr ''legacy helper receipt had no crash-safe local resume journal''),
                            (''automaticResumeQueued'', DBool True)]) now))
                else Inr s1) (\<lambda>s2.
         bindE (project_bans J p now s2) (\<lambda>(late, s3).
         bindE (insert_audit (audit_entry aid ''agent'' (status_text (execute_status p)) (pr_details p) now) s3)
           (\<lambda>s4. Inr (late, s4))))))"

section \<open>Projecting a rollback or a confirmation\<close>

definition rollback_status :: "verdict \<Rightarrow> action_status" where
  "rollback_status v = (if vd_indeterminate v then Indeterminate else if vd_ok v then RolledBack else Failed)"

definition confirm_status :: "verdict \<Rightarrow> action_status" where
  "confirm_status v = (if vd_indeterminate v then Indeterminate else if vd_ok v then Succeeded else Failed)"

definition end_action :: "action_status \<Rightarrow> string \<Rightarrow> instant \<Rightarrow> action_row \<Rightarrow> action_row" where
  "end_action st err now a = a\<lparr>ac_status := st, ac_completed := Some now, ac_error := err, ac_updated := now\<rparr>"

definition rollback_bans :: "projection \<Rightarrow> store \<Rightarrow> store" where
  "rollback_bans p s =
     (let v = pr_verdict p; aid = me_action (pr_meta p)
      in if vd_ok v
         then update_bans (\<lambda>b. bn_action b = aid \<and> bn_status b \<in> {''active'', ''indeterminate''})
                (\<lambda>b. b\<lparr>bn_status := ''rolled_back''\<rparr>) s
         else if vd_indeterminate v
         then update_bans (\<lambda>b. bn_action b = aid \<and> bn_status b \<in> {''pending'', ''active'', ''indeterminate''})
                (\<lambda>b. b\<lparr>bn_status := ''indeterminate''\<rparr>) s
         else s)"

definition project_rollback :: "projection \<Rightarrow> instant \<Rightarrow> store \<Rightarrow> store_error + bool \<times> store" where
  "project_rollback p now s =
     (let st = rollback_status (pr_verdict p)
      in bindE (move_action p RollingBack (end_action st (vd_error (pr_verdict p)) now) s) (\<lambda>s1.
         bindE (insert_audit (audit_entry (me_action (pr_meta p)) ''agent'' (status_text st) (pr_details p) now) (rollback_bans p s1))
           (\<lambda>s2. Inr (False, s2))))"

definition project_confirm :: "projection \<Rightarrow> instant \<Rightarrow> store \<Rightarrow> store_error + bool \<times> store" where
  "project_confirm p now s =
     (let v = pr_verdict p
      in bindE (move_action p Confirming (end_action (confirm_status v) (vd_error v) now) s) (\<lambda>s1.
         bindE (insert_audit (audit_entry (me_action (pr_meta p)) ''agent''
                  (if vd_ok v then ''confirmed'' else ''confirmation_failed'') (pr_details p) now) s1)
           (\<lambda>s2. Inr (False, s2))))"

section \<open>Committing a result\<close>

definition operation_text :: "operation \<Rightarrow> string" where
  "operation_text op = (case op of Precheck \<Rightarrow> ''precheck'' | Preview \<Rightarrow> ''preview'' | Apply \<Rightarrow> ''apply''
     | Verify \<Rightarrow> ''verify'' | Rollback \<Rightarrow> ''rollback'' | Execute \<Rightarrow> ''execute'' | Confirm \<Rightarrow> ''confirm'' | OtherOp x \<Rightarrow> x)"

definition failure_event :: "projection \<Rightarrow> instant \<Rightarrow> notification_event" where
  "failure_event p now =
     (let v = pr_verdict p; unknown = vd_indeterminate v
      in \<lparr>ne_id = (if unknown then ''action-indeterminate:'' else ''action-failure:'') @ pr_cid p,
          ne_type = (if unknown then ''action_indeterminate'' else ''action_failure''), ne_severity = ''high'',
          ne_device = pr_dev p,
          ne_title = (if unknown then ''A security action needs manual verification'' else ''A security action failed''),
          ne_message = take 1000 (vd_error v), ne_at = now, ne_data = []\<rparr>)"

text \<open>What follows the projection: warnings, the failure notification and the response plan.\<close>

definition follow_up :: "store_lib \<Rightarrow> string \<times> string \<Rightarrow> projection \<Rightarrow> command_type \<Rightarrow> bool \<Rightarrow> instant \<Rightarrow> store \<Rightarrow>
    store_error + outcome \<times> store" where
  "follow_up J note_ids p t late now s =
     (let v = pr_verdict p; aid = me_action (pr_meta p);
          base = \<lparr>oc_ok = vd_ok v, oc_error = vd_error v, oc_new = True, oc_event = None, oc_queued = 0\<rparr>
      in bindE (if vd_warn v
                then insert_audit (audit_entry aid ''controller'' ''helper_receipt_persistence_warning''
                  (jx_map J [(''message'', DStr (vd_error v)), (''manualVerificationRequired'', DBool False),
                     (''operation'', DStr (operation_text (expected_operation t)))]) now) s
                else Inr s) (\<lambda>s1.
         bindE (if late
                then insert_audit (audit_entry aid ''controller'' ''temporary_ban_expiry_indeterminate''
                  (jx_map J [(''message'', DStr ''temporary ban result arrived after the Controller's guaranteed-active horizon; kernel TTL was not restarted and the current host state is unknown''),
                     (''manualVerificationRequired'', DBool True)]) now) s1
                else Inr s1) (\<lambda>s2.
         bindE (if vd_ok v then Inr (base, s2)
                else map_sum id (\<lambda>(n, s'). (base\<lparr>oc_event := Some (failure_event p now), oc_queued := n\<rparr>, s'))
                       (enqueue_notification J note_ids (failure_event p now) now s2)) (\<lambda>(out, s3).
         bindE (sync_plan J aid now s3) (\<lambda>s4. Inr (out, s4))))))"

text \<open>A result for a row that an older Controller completed without a digest, or for a superseded scan.\<close>

definition legacy_rollback_matches :: "projection \<Rightarrow> command_type \<Rightarrow> store \<Rightarrow> bool" where
  "legacy_rollback_matches p t s =
     (if t \<noteq> CommandExecuteAction then vd_rollback (pr_verdict p) = []
      else case find_action (me_action (pr_meta p)) s of
          None \<Rightarrow> False
        | Some a \<Rightarrow> ac_rollback a = Some (vd_rollback (pr_verdict p)) \<and>
             ac_confirm_by a = hr_confirm_by (pr_receipt p))"

definition replay :: "store_lib \<Rightarrow> cmd_row \<Rightarrow> projection \<Rightarrow> submission \<Rightarrow> string \<Rightarrow> bytes \<Rightarrow> store \<Rightarrow>
    store_error + outcome \<times> store" where
  "replay J c p su digest stored s =
     (let v = pr_verdict p; out = told (vd_ok v) (vd_error v); t = cm_type c
      in if t = CommandScan \<and> cm_error c = superseded_scan_message then Inr (out, s)
         else if action_command t
         then (case jx_legacy_result J (vd_ok v) (su_result su) (su_audit su) of
             None \<Rightarrow> Inl (ErrOther ''json: error calling MarshalJSON'')
           | Some legacy \<Rightarrow>
               (let same = (cm_result c = Some legacy \<and> cm_error c = vd_error v)
                in if \<not> vd_ok v then (if same then Inr (out, s) else Inl ErrConflict)
                   else if same \<and> legacy_rollback_matches p t s
                   then Inr (out, update_commands (\<lambda>x. cm_id x = cm_id c \<and> cm_device x = cm_device c)
                          (\<lambda>x. x\<lparr>cm_digest := digest\<rparr>) s)
                   else Inl ErrConflict))
         else if cm_result c = Some stored \<and> cm_error c = vd_error v then Inr (out, s) else Inl ErrConflict)"

definition record_result :: "cmd_row \<Rightarrow> bytes \<Rightarrow> string \<Rightarrow> string \<Rightarrow> instant \<Rightarrow> store \<Rightarrow> store" where
  "record_result c stored err digest now s =
     update_commands (\<lambda>x. cm_id x = cm_id c \<and> cm_device x = cm_device c \<and> cm_completed x = None)
       (\<lambda>x. x\<lparr>cm_completed := Some now, cm_result := Some stored, cm_error := err, cm_digest := digest\<rparr>) s"

definition project :: "store_lib \<Rightarrow> string \<Rightarrow> projection \<Rightarrow> command_type \<Rightarrow> instant \<Rightarrow> store \<Rightarrow> store_error + bool \<times> store" where
  "project J resume_id p t now s =
     (if t = CommandExecuteAction then project_execute J resume_id p now s
      else if t = CommandRollback then project_rollback p now s else project_confirm p now s)"

text \<open>The receipt of a submission, with whether it decoded; the case file; and the audit bytes that are stored.\<close>

definition receipt_of :: "store_lib \<Rightarrow> command_type \<Rightarrow> submission \<Rightarrow> helper_receipt \<times> bool" where
  "receipt_of J t su = (if action_command t \<and> su_audit su \<noteq> [] then jx_receipt J (su_audit su) else (no_receipt, False))"

definition case_of :: "store_lib \<Rightarrow> cmd_row \<Rightarrow> cmd_meta \<Rightarrow> submission \<Rightarrow> case_file" where
  "case_of J c m su =
     (let t = cm_type c; (rc, decoded) = receipt_of J t su
      in \<lparr>cf_type = t, cf_meta = m, cf_receipt = rc, cf_matches = action_command t \<and> decoded \<and> receipt_matches J t m rc,
          cf_completed = cm_completed c \<noteq> None, cf_digest_empty = cm_digest c = []\<rparr>)"

definition stored_audit :: "store_lib \<Rightarrow> cmd_row \<Rightarrow> submission \<Rightarrow> bytes" where
  "stored_audit J c su =
     (if action_command (cm_type c) then jx_stored_receipt J (sanitize_receipt (fst (receipt_of J (cm_type c) su))) else [])"

definition stored_result :: "store_lib \<Rightarrow> cmd_row \<Rightarrow> submission \<Rightarrow> verdict \<Rightarrow> bytes" where
  "stored_result J c su v = jx_result J (vd_ok v) (vd_indeterminate v) (su_result su) (stored_audit J c su)"

definition projection_of :: "store_lib \<Rightarrow> cmd_row \<Rightarrow> cmd_meta \<Rightarrow> submission \<Rightarrow> verdict \<Rightarrow> projection" where
  "projection_of J c m su v =
     \<lparr>pr_dev = cm_device c, pr_cid = cm_id c, pr_meta = m, pr_receipt = fst (receipt_of J (cm_type c) su), pr_verdict = v,
      pr_details = nonempty_json (if stored_audit J c su = [] then su_result su else stored_audit J c su),
      pr_started = (case cm_started c of None \<Rightarrow> 0 | Some x \<Rightarrow> x)\<rparr>"

text \<open>A command whose row is open, or was completed without a digest; the three random ids come first.\<close>

definition settle_command :: "store_lib \<Rightarrow> string \<times> string \<times> string \<Rightarrow> cmd_row \<Rightarrow> cmd_meta \<Rightarrow> submission \<Rightarrow> string \<Rightarrow>
    instant \<Rightarrow> store \<Rightarrow> store_error + outcome \<times> store" where
  "settle_command J new_ids c m su digest now s =
     (let v = judge J (case_of J c m su) su now;
          stored = stored_result J c su v;
          p = projection_of J c m su v
      in if cm_completed c \<noteq> None then replay J c p su digest stored s
         else (let s1 = record_result c stored (vd_error v) digest now s
               in if \<not> action_command (cm_type c)
                  then Inr (\<lparr>oc_ok = vd_ok v, oc_error = vd_error v, oc_new = True, oc_event = None, oc_queued = 0\<rparr>, s1)
                  else bindE (project J (fst new_ids) p (cm_type c) now s1)
                    (\<lambda>(late, s2). follow_up J (snd new_ids) p (cm_type c) late now s2)))"

definition complete_command_and_action :: "store_lib \<Rightarrow> string \<times> string \<times> string \<Rightarrow> string \<Rightarrow> string \<Rightarrow> submission \<Rightarrow>
    instant \<Rightarrow> store \<Rightarrow> store_error + outcome \<times> store" where
  "complete_command_and_action J new_ids dev cid sub now s =
     (let su = sub\<lparr>su_result := nonempty_json (su_result sub)\<rparr>
      in case completion_digest J dev cid su of
          None \<Rightarrow> Inl (ErrOther ''json: error calling MarshalJSON'')
        | Some digest \<Rightarrow>
           (case find_command cid dev s of
              None \<Rightarrow> Inl ErrNotFound
            | Some c \<Rightarrow>
               (if cm_completed c \<noteq> None \<and> cm_digest c \<noteq> []
                then (if cm_digest c = digest
                      then Inr (told (case cm_result c of None \<Rightarrow> False | Some b \<Rightarrow> jx_result_ok J b) (cm_error c), s)
                      else Inl ErrConflict)
                else if cm_completed c \<noteq> None \<and> cm_error c = execution_indeterminate_message
                then Inr (told False (cm_error c), s)
                else if action_command (cm_type c)
                then (case jx_meta J (cm_payload c) of
                    None \<Rightarrow> Inl (ErrOther ''action command payload is invalid'')
                  | Some m \<Rightarrow>
                     (if me_action m = [] then Inl (ErrOther ''action command payload is invalid'')
                      else if cm_started c = None then Inl ErrConflict
                      else settle_command J new_ids c m su digest now s))
                else settle_command J new_ids c no_meta su digest now s)))"

end
