(* ===== verification/ResponsePlans.thy ===== *)
theory ResponsePlans
  imports Lifecycle
begin

text \<open>
  Response plans of the security engineer (\<open>internal/store/security_engineer.go\<close>):
  binding exactly one plan step to a draft action, and the administrator's change
  of an incident's status.
\<close>

section \<open>Binding a step\<close>

text \<open>
  The step may be free, or bound to an action that was cancelled; its link is then
  removed.  The result is the steps with the step freed, and the links.
\<close>

definition free_step :: "string \<Rightarrow> response_step \<Rightarrow> store \<Rightarrow> store_error + link_row list" where
  "free_step pid x s =
     (if rs_action x = [] then Inr (st_links s)
      else case find_action (rs_action x) s of
          None \<Rightarrow> Inl ErrConflict
        | Some a \<Rightarrow>
            if ac_status a \<noteq> Cancelled then Inl ErrConflict
            else Inr (del_where (\<lambda>l. lk_plan l = pid \<and> lk_step l = rs_id x \<and> lk_action l = rs_action x) (st_links s)))"

definition bind_step :: "string \<Rightarrow> string \<Rightarrow> string \<Rightarrow> action_row \<Rightarrow> response_step list \<Rightarrow> store \<Rightarrow> store_error + link_row list" where
  "bind_step pid sid dev a steps s =
     (case find (\<lambda>x. rs_id x = sid) steps of
        None \<Rightarrow> Inl ErrConflict
      | Some x \<Rightarrow>
          if ac_device a \<noteq> dev \<or> ac_type a \<noteq> rs_type x \<or> ac_params a \<noteq> rs_params x then Inl ErrConflict
          else free_step pid x s)"

text \<open>The first step with the identifier is the bound one.\<close>

fun set_step_action :: "string \<Rightarrow> string \<Rightarrow> response_step list \<Rightarrow> response_step list" where
  "set_step_action sid aid [] = []"
| "set_step_action sid aid (x # xs) = (if rs_id x = sid then x\<lparr>rs_action := aid\<rparr> # xs else x # set_step_action sid aid xs)"

definition insert_link :: "link_row \<Rightarrow> store \<Rightarrow> store_error + store" where
  "insert_link l s =
     (if list_ex (\<lambda>m. (lk_plan m = lk_plan l \<and> lk_step m = lk_step l) \<or> lk_action m = lk_action l) (st_links s) \<or>
         lk_plan l \<notin> pl_id ` set (st_plans s) \<or> lk_action l \<notin> ac_id ` set (st_actions s)
      then Inl ErrConflict else Inr (s\<lparr>st_links := st_links s @ [l]\<rparr>))"

definition recent_actions :: "action_row \<Rightarrow> store \<Rightarrow> nat" where
  "recent_actions a s =
     cnt_where (\<lambda>b. ac_device b = ac_device a \<and> ac_type b = ac_type a \<and> ac_created b \<ge> ac_created a - hour) (st_actions s)"

definition insert_plan_action :: "store_lib \<Rightarrow> plan_row \<Rightarrow> string \<Rightarrow> response_step list \<Rightarrow> action_row \<Rightarrow> string \<Rightarrow>
    string \<Rightarrow> store \<Rightarrow> store_error + store" where
  "insert_plan_action J p sid steps a nonce actor s =
     (let s1 = expire_drafts (ac_device a) (ac_created a) s;
          row = a\<lparr>ac_nonce := nonce, ac_approved_by := [], ac_approved_at := None, ac_executed := None,
            ac_completed := None, ac_rollback := None, ac_confirm_by := None, ac_error := []\<rparr>;
          details = jx_prepared J (pl_id p) sid (ac_preview a)
      in bindE (ensure_capacity (ac_device a) s1) (\<lambda>_.
         bindE (insert_action row s1) (\<lambda>s2.
         case jx_enc_steps J (set_step_action sid (ac_id a) steps) of
           None \<Rightarrow> Inl (ErrOther ''json'')
         | Some enc \<Rightarrow>
             bindE (insert_link \<lparr>lk_plan = pl_id p, lk_step = sid, lk_action = ac_id a\<rparr> s2) (\<lambda>s3.
             bindE (set_incident (pl_incident p) IncidentAwaitingApproval (ac_updated a)
                 (s3\<lparr>st_plans := upd_where (\<lambda>q. pl_id q = pl_id p)
                    (\<lambda>q. q\<lparr>pl_status := PlanApproved, pl_steps := enc, pl_updated := ac_updated a\<rparr>) (st_plans s3)\<rparr>)) (\<lambda>s4.
             bindE (insert_audit (audit_entry (ac_id a) actor ''response_plan_step_prepared'' details (ac_created a)) s4)
               (insert_timeline \<lparr>tl_incident = pl_incident p, tl_actor = actor, tl_type = ''response_step_prepared'',
                  tl_details = details, tl_at = ac_created a\<rparr>))))))"

text \<open>The plan with the device of its incident.\<close>

definition find_plan :: "string \<Rightarrow> store \<Rightarrow> (plan_row \<times> string) option" where
  "find_plan pid s =
     (case find (\<lambda>p. pl_id p = pid) (st_plans s) of
        None \<Rightarrow> None
      | Some p \<Rightarrow> map_option (\<lambda>i. (p, in_device i)) (find (\<lambda>i. in_id i = pl_incident p) (st_incidents s)))"

definition create_plan_action :: "store_lib \<Rightarrow> string \<Rightarrow> string \<Rightarrow> action_row \<Rightarrow> string \<Rightarrow> string \<Rightarrow> int \<Rightarrow> store \<Rightarrow>
    store_error + store" where
  "create_plan_action J pid sid a nonce actor max_per_hour s =
     (case find_plan pid s of
        None \<Rightarrow> Inl ErrNotFound
      | Some (p, dev) \<Rightarrow>
          bindE (guardE (pl_status p = PlanProposed \<or> pl_status p = PlanApproved) ErrConflict) (\<lambda>_.
          case jx_steps J (pl_steps p) of
            None \<Rightarrow> Inl (ErrOther ''json'')
          | Some steps \<Rightarrow>
              bindE (bind_step pid sid dev a steps s) (\<lambda>links.
              bindE (guardE (ac_params a \<noteq> [] \<and> ac_preview a \<noteq> [] \<and> ac_status a = Draft)
                (ErrOther ''response plan action is invalid'')) (\<lambda>_.
              bindE (guardE (1 \<le> max_per_hour \<and> max_per_hour \<le> 1000)
                (ErrOther ''response plan action limit is invalid'')) (\<lambda>_.
              bindE (guardE (int (recent_actions a s) < max_per_hour) ErrConflict) (\<lambda>_.
                insert_plan_action J p sid steps a nonce actor (s\<lparr>st_links := links\<rparr>)))))))"

section \<open>The administrator's status change\<close>

definition incident_status_text :: "incident_status \<Rightarrow> string" where
  "incident_status_text st = (case st of IncidentOpen \<Rightarrow> ''open'' | IncidentInvestigating \<Rightarrow> ''investigating''
     | IncidentAwaitingApproval \<Rightarrow> ''awaiting_approval'' | IncidentResponding \<Rightarrow> ''responding''
     | IncidentMonitoring \<Rightarrow> ''monitoring'' | IncidentResolved \<Rightarrow> ''resolved'' | IncidentDismissed \<Rightarrow> ''dismissed'')"

definition set_incident_status :: "string \<Rightarrow> incident_status \<Rightarrow> string \<Rightarrow> instant \<Rightarrow> store \<Rightarrow> store_error + store" where
  "set_incident_status iid st actor now s =
     bindE (set_incident iid st now s) (\<lambda>s1.
     bindE (guardE (cnt_where (\<lambda>i. in_id i = iid) (st_incidents s) = 1) ErrNotFound) (\<lambda>_.
       insert_timeline \<lparr>tl_incident = iid, tl_actor = actor, tl_type = ''status_changed'',
         tl_details = ''{'' @ quote ''status'' @ '':'' @ quote (incident_status_text st) @ ''}'', tl_at = now\<rparr> s1))"

end
