(* ===== verification/ActionMachine.thy ===== *)
theory ActionMachine
  imports Completion ResponsePlans StoreDemo
begin

text \<open>
  The life of an action across every operation of the Controller: the status
  diagram, its final states, and the bound on unfinished actions per device.
\<close>

section \<open>The status diagram\<close>

fun successors :: "action_status \<Rightarrow> action_status list" where
  "successors Draft = [Approved, Cancelled]"
| "successors Approved = [Executing, Cancelled, Failed]"
| "successors Executing = [Succeeded, Failed, Indeterminate, AwaitingConfirmation, RollingBack]"
| "successors AwaitingConfirmation = [RollingBack, Confirming, Cancelled, Failed]"
| "successors Confirming = [Succeeded, Failed, Indeterminate, Cancelled]"
| "successors RollingBack = [RolledBack, Failed, Indeterminate, Cancelled]"
| "successors _ = []"

abbreviation leads_to :: "action_status \<Rightarrow> action_status \<Rightarrow> bool" where
  "leads_to \<equiv> (\<lambda>x y. y \<in> set (successors x))\<^sup>*\<^sup>*"

lemma successors_terminal: "terminal x \<Longrightarrow> successors x = []"
  by (cases x) (auto simp: terminal_def)

lemma leads_to_terminal: "leads_to x y \<Longrightarrow> terminal x \<Longrightarrow> y = x"
  by (induction rule: converse_rtranclp_induct) (auto simp: successors_terminal)

definition follows :: "action_row \<Rightarrow> action_row \<Rightarrow> bool" where
  "follows a b \<longleftrightarrow> ac_id b = ac_id a \<and> ac_device b = ac_device a \<and> leads_to (ac_status a) (ac_status b)"

lemma follows_refl [simp, intro]: "follows a a"
  by (simp add: follows_def)

lemma follows_trans: "follows a b \<Longrightarrow> follows b c \<Longrightarrow> follows a c"
  by (auto simp: follows_def)

lemma follows_step:
  "ac_id b = ac_id a \<Longrightarrow> ac_device b = ac_device a \<Longrightarrow> ac_status b \<in> set (successors (ac_status a)) \<Longrightarrow> follows a b"
  by (auto simp: follows_def)

lemma follows_unfinished: "follows a b \<Longrightarrow> unfinished dev b \<Longrightarrow> unfinished dev a"
  by (auto simp: follows_def unfinished_def dest: leads_to_terminal)

section \<open>Tables that only move forward\<close>

definition forward :: "store \<Rightarrow> store \<Rightarrow> bool" where
  "forward s s' = list_all2 follows (st_actions s) (st_actions s')"

named_theorems forward_intros \<open>operations that only move actions forward\<close>

lemma forward_refl [forward_intros]: "st_actions s' = st_actions s \<Longrightarrow> forward s s'"
  by (simp add: forward_def list_all2_refl)

lemma forward_trans: "forward s t \<Longrightarrow> forward t u \<Longrightarrow> forward s u"
  unfolding forward_def by (rule list_all2_trans) (auto intro: follows_trans)

lemma forward_update [forward_intros]:
  assumes "\<forall>a. p a \<longrightarrow> follows a (f a)"
  shows "forward s (update_actions p f s)"
proof -
  have "list_all2 follows t (upd_where p f t)" for t
    using assms by (induction t) (auto simp: table_simps)
  then show ?thesis by (simp add: forward_def update_actions_def)
qed

lemma forward_ids: "forward s s' \<Longrightarrow> map ac_id (st_actions s') = map ac_id (st_actions s)"
proof -
  have "list_all2 follows t t' \<Longrightarrow> map ac_id t' = map ac_id t" for t t'
    by (induction rule: list_all2_induct) (auto simp: follows_def)
  then show "forward s s' \<Longrightarrow> map ac_id (st_actions s') = map ac_id (st_actions s)" by (simp add: forward_def)
qed

lemma forward_cnt:
  "forward s s' \<Longrightarrow> cnt_where (unfinished dev) (st_actions s') \<le> cnt_where (unfinished dev) (st_actions s)"
proof -
  have "list_all2 follows t t' \<Longrightarrow> cnt_where (unfinished dev) t' \<le> cnt_where (unfinished dev) t" for t t'
    by (induction rule: list_all2_induct) (auto simp: table_simps dest: follows_unfinished)
  then show "forward s s' \<Longrightarrow> cnt_where (unfinished dev) (st_actions s') \<le> cnt_where (unfinished dev) (st_actions s)"
    by (simp add: forward_def)
qed

lemma forward_row:
  assumes "forward s s'" and "a \<in> set (st_actions s)"
  shows "\<exists>b \<in> set (st_actions s'). follows a b"
proof -
  have "list_all2 follows t t' \<Longrightarrow> a \<in> set t \<Longrightarrow> \<exists>b \<in> set t'. follows a b" for t t'
    by (induction rule: list_all2_induct) auto
  with assms show ?thesis by (simp add: forward_def)
qed

text \<open>Operations on the other tables.\<close>

lemma actions_unchanged [simp]:
  "st_actions (update_commands p f s) = st_actions s"
  "st_actions (update_bans q g s) = st_actions s"
  "st_actions (close_command cid r m now s) = st_actions s"
  "st_actions (cancel_pending_bans aid s) = st_actions s"
  "st_actions (supersede_scans dev keep now s) = st_actions s"
  "st_actions (set_plan pid st now s) = st_actions s"
  "st_actions (upsert_grant g' s) = st_actions s"
  "st_actions (rollback_bans pr s) = st_actions s"
  "st_actions (record_result c stored err digest now s) = st_actions s"
  by (simp_all add: update_commands_def update_bans_def close_command_def cancel_pending_bans_def supersede_scans_def
      set_plan_def upsert_grant_def rollback_bans_def record_result_def Let_def)

lemma inserts_unchanged:
  "insert_audit x s = Inr s' \<Longrightarrow> st_actions s' = st_actions s"
  "insert_command y s = Inr s' \<Longrightarrow> st_actions s' = st_actions s"
  "insert_ban z s = Inr s' \<Longrightarrow> st_actions s' = st_actions s"
  "enqueue_row c s = Inr s' \<Longrightarrow> st_actions s' = st_actions s"
  "insert_timeline r s = Inr s' \<Longrightarrow> st_actions s' = st_actions s"
  "set_incident i st now s = Inr s' \<Longrightarrow> st_actions s' = st_actions s"
  "upsert_policy po s = Inr s' \<Longrightarrow> st_actions s' = st_actions s"
  by (auto simp: insert_audit_def insert_command_def insert_ban_def enqueue_row_def insert_timeline_def
      set_incident_def upsert_policy_def Let_def split: if_splits)

lemma mark_responding_unchanged: "mark_responding J aid actor now s = Inr s' \<Longrightarrow> st_actions s' = st_actions s"
  by (auto simp: mark_responding_def bindE_Inr_iff dest!: inserts_unchanged split: option.splits)

lemma sync_plan_unchanged: "sync_plan J aid now s = Inr s' \<Longrightarrow> st_actions s' = st_actions s"
  by (auto simp: sync_plan_def bindE_Inr_iff Let_def dest!: inserts_unchanged split: option.splits prod.splits if_splits)

lemma enqueue_notification_unchanged:
  "enqueue_notification J ids e now s = Inr (n, s') \<Longrightarrow> st_actions s' = st_actions s"
  by (auto simp: enqueue_notification_def Let_def split: option.splits prod.splits if_splits)

lemmas table_unchanged = inserts_unchanged mark_responding_unchanged sync_plan_unchanged enqueue_notification_unchanged

section \<open>Every operation\<close>

lemma follows_cancel:
  "Cancelled \<in> set (successors (ac_status a)) \<Longrightarrow> follows a (cancel_with msg now a)"
  by (intro follows_step) (simp_all add: cancel_with_def)

lemma forward_expire_drafts [forward_intros]: "forward s (expire_drafts dev now s)"
proof -
  let ?s = "s\<lparr>st_audit := st_audit s @ map (\<lambda>a. audit_entry (ac_id a) ''controller'' ''approval_expired'' empty_json now)
    (filter (stale_draft dev now) (st_actions s))\<rparr>"
  have "forward ?s (expire_drafts dev now s)"
    unfolding expire_drafts_def Let_def by (intro forward_update) (auto simp: stale_draft_def intro: follows_cancel)
  then show ?thesis by (simp add: forward_def)
qed

lemma forward_approve: "approve_update aid nonce admin now s = Inr s' \<Longrightarrow> forward s s'"
  by (auto simp: approve_update_def approvable_def split: if_splits intro!: forward_update follows_step)

lemma forward_approve_and_enqueue: "approve_and_enqueue J aid nonce admin cmd now s = Inr s' \<Longrightarrow> forward s s'"
  by (auto simp: approve_and_enqueue_def bindE_Inr_iff forward_def dest!: table_unchanged forward_approve)

lemma forward_confirmation:
  "request_confirmation_and_enqueue aid admin cmd now s = Inr s' \<Longrightarrow> forward s s'"
proof -
  have "forward s (update_actions (\<lambda>a. ac_id a = aid \<and> can_confirm now a) (\<lambda>a. a\<lparr>ac_status := Confirming, ac_updated := now\<rparr>) s)"
    by (intro forward_update) (auto simp: can_confirm_def intro: follows_step)
  then show "request_confirmation_and_enqueue aid admin cmd now s = Inr s' \<Longrightarrow> forward s s'"
    by (auto simp: request_confirmation_and_enqueue_def bindE_Inr_iff Let_def forward_def dest!: table_unchanged split: if_splits)
qed

lemma forward_expire_one: "forward s (expire_one_confirmation now aid s)"
proof -
  have "forward s (update_actions (\<lambda>a. ac_id a = aid \<and> ac_status a = AwaitingConfirmation) (cancel_with m now) s)" for m
    by (intro forward_update) (auto intro: follows_cancel)
  then show ?thesis by (simp add: expire_one_confirmation_def Let_def forward_def)
qed

lemma forward_fold: "(\<And>x t. forward t (f x t)) \<Longrightarrow> forward s (fold f xs s)"
  by (induction xs arbitrary: s) (auto intro: forward_refl forward_trans)

lemma forward_expire_confirmations: "forward s (expire_confirmations now s)"
  unfolding expire_confirmations_def by (intro forward_fold forward_expire_one)

lemma forward_expire_unstarted: "forward s (expire_unstarted J now c s)"
proof (cases "action_id_of J (cm_payload c)")
  case (Some aid)
  let ?s1 = "close_command (cm_id c) ok_false delivery_expired_message now s"
  have "forward ?s1 (update_actions (\<lambda>a. ac_id a = aid \<and> ac_device a = cm_device c \<and> ac_status a \<in> action_open_statuses)
      (\<lambda>a. a\<lparr>ac_status := Failed, ac_completed := Some now, ac_error := delivery_expired_message, ac_updated := now\<rparr>) ?s1)"
    by (intro forward_update) (auto simp: action_open_statuses_def intro: follows_step)
  with Some show ?thesis by (simp add: expire_unstarted_def Let_def forward_def)
qed (simp add: expire_unstarted_def Let_def forward_refl)

lemma forward_expire_started: "forward s (expire_started J now c s)"
proof (cases "action_id_of J (cm_payload c)")
  case (Some aid)
  let ?s1 = "close_command (cm_id c) indeterminate_result execution_indeterminate_message now s"
  have "forward ?s1 (update_actions (\<lambda>a. ac_id a = aid \<and> ac_device a = cm_device c \<and> ac_status a \<in> {Executing, RollingBack, Confirming})
      (\<lambda>a. a\<lparr>ac_status := Indeterminate, ac_completed := Some now, ac_error := execution_indeterminate_message, ac_updated := now\<rparr>) ?s1)"
    by (intro forward_update) (auto intro: follows_step)
  with Some show ?thesis by (simp add: expire_started_def Let_def forward_def)
qed (simp add: expire_started_def Let_def forward_refl)

lemma forward_expire_stale: "forward s (expire_stale J dev now s)"
  unfolding expire_stale_def Let_def
  by (rule forward_trans [OF forward_fold forward_fold]) (rule forward_expire_unstarted forward_expire_started)+

lemma claim_each_unchanged: "claim_each now cs s = Inr s' \<Longrightarrow> st_actions s' = st_actions s"
  by (induction now cs s rule: claim_each.induct) (auto simp: Let_def split: if_splits)

lemma forward_claim: "claim_commands J dev limit now s = Inr (out, s') \<Longrightarrow> forward s s'"
  using forward_expire_stale [of s J dev now]
  by (auto simp: claim_commands_def Let_def bindE_Inr_iff forward_def dest!: claim_each_unchanged split: if_splits)

lemma enqueue_command_unchanged: "enqueue_command c s = Inr s' \<Longrightarrow> st_actions s' = st_actions s"
  by (auto simp: enqueue_command_def mapped_def Let_def split: if_splits sum.splits store_error.splits dest!: inserts_unchanged)

lemma forward_stop_one: "stop_one now item s = Inr s' \<Longrightarrow> forward s s'"
proof -
  let ?s1 = "close_command (fst item) ok_false stop_message now s"
  have "forward ?s1 (update_actions (\<lambda>a. ac_id a = snd item \<and> ac_status a = Approved) (cancel_with stop_message now) ?s1)"
    by (intro forward_update) (auto intro: follows_cancel)
  then show "stop_one now item s = Inr s' \<Longrightarrow> forward s s'"
    by (auto simp: stop_one_def Let_def forward_def dest!: inserts_unchanged)
qed

lemma forward_stop_all: "stop_all now items s = Inr s' \<Longrightarrow> forward s s'"
  by (induction now items s arbitrary: rule: stop_all.induct)
    (auto simp: bindE_Inr_iff intro: forward_refl forward_trans dest: forward_stop_one)

lemma forward_put_policy: "put_policy_and_cancel J x s = Inr (n, s') \<Longrightarrow> forward s s'"
  by (auto simp: put_policy_and_cancel_def Let_def bindE_Inr_iff forward_def [of s] dest!: inserts_unchanged forward_stop_all
      split: if_splits) (simp_all add: forward_def list_all2_refl)

lemma forward_abandon:
  assumes "abandon dev cid aid frm bans msg event now s = Inr s'"
    and "\<forall>st \<in> frm. Cancelled \<in> set (successors st)"
  shows "forward s s'"
proof -
  let ?s1 = "close_command cid ok_false msg now s"
  have "forward ?s1 (update_actions (\<lambda>a. ac_id a = aid \<and> ac_device a = dev \<and> ac_status a \<in> frm) (cancel_with msg now) ?s1)"
    using assms(2) by (intro forward_update) (auto intro: follows_cancel)
  with assms(1) show ?thesis
    by (auto simp: abandon_def Let_def forward_def dest!: inserts_unchanged split: if_splits)
qed

lemma forward_start_execution: "start_execution J dev m now s = Inr s' \<Longrightarrow> forward s s'"
proof -
  let ?s1 = "update_actions (\<lambda>a. ac_id a = sm_action m \<and> ac_device a = dev \<and> ac_status a = Approved)
    (\<lambda>a. a\<lparr>ac_status := Executing, ac_executed := (case ac_executed a of None \<Rightarrow> Some now | Some t \<Rightarrow> Some t), ac_updated := now\<rparr>) s"
  have "forward s ?s1" by (intro forward_update) (auto intro: follows_step)
  then show "start_execution J dev m now s = Inr s' \<Longrightarrow> forward s s'"
    by (auto simp: start_execution_def Let_def bindE_Inr_iff forward_def dest!: inserts_unchanged
        split: if_splits option.splits)
qed

lemma mark_started_unchanged: "mark_started dev cid now s = Inr s' \<Longrightarrow> st_actions s' = st_actions s"
  by (auto simp: mark_started_def Let_def split: if_splits)

lemma map_sum_Inr: "map_sum id f r = Inr y \<longleftrightarrow> (\<exists>x. r = Inr x \<and> y = f x)"
  by (cases r) auto

lemma forward_start_gate: "start_gate J dev c m now s = Inr (b, s') \<Longrightarrow> forward s s'"
  unfolding start_gate_def Let_def
  by (auto simp: map_sum_Inr bindE_Inr_iff open_command_statuses_def split: if_splits
      dest!: forward_abandon mark_started_unchanged forward_start_execution)
    (simp_all add: forward_def list_all2_refl)

lemma forward_start: "start_action_command J dev cid now s = Inr (b, s') \<Longrightarrow> forward s s'"
  by (auto simp: start_action_command_def map_sum_Inr open_command_statuses_def split: option.splits if_splits
      dest!: forward_abandon intro: forward_refl forward_start_gate)

lemma forward_move:
  "move_action p frm f s = Inr s' \<Longrightarrow> \<forall>a. ac_status a = frm \<longrightarrow> follows a (f a) \<Longrightarrow> forward s s'"
  by (auto simp: move_action_def action_in_def split: if_splits intro!: forward_update)

lemma execute_status_cases: "execute_status p \<in> {RollingBack, AwaitingConfirmation, Indeterminate, Succeeded, Failed}"
  by (simp add: execute_status_def Let_def)

lemma forward_project: "project J i p t now s = Inr (late, s') \<Longrightarrow> forward s s'"
proof -
  have e: "forward s s1" if "move_action p Executing (execute_update p now) s = Inr s1" for s1
    using execute_status_cases [of p] by (intro forward_move [OF that]) (auto simp: execute_update_def Let_def intro!: follows_step)
  have r: "forward s s1" if "move_action p RollingBack (end_action (rollback_status v) err now) s = Inr s1" for s1 v err
    by (intro forward_move [OF that]) (auto simp: end_action_def rollback_status_def intro!: follows_step)
  have c: "forward s s1" if "move_action p Confirming (end_action (confirm_status v) err now) s = Inr s1" for s1 v err
    by (intro forward_move [OF that]) (auto simp: end_action_def confirm_status_def intro!: follows_step)
  have bans: "st_actions s1 = st_actions s0" if "project_bans J p now s0 = Inr (b, s1)" for s0 b s1
    using that by (auto simp: project_bans_def Let_def split: if_splits option.splits)
  assume "project J i p t now s = Inr (late, s')"
  then show ?thesis
    unfolding project_def project_execute_def project_rollback_def project_confirm_def Let_def
    by (auto simp: bindE_Inr_iff split: if_splits dest!: e r c inserts_unchanged bans) (simp_all add: forward_def)
qed

lemma follow_up_unchanged: "follow_up J ids p t late now s = Inr (out, s') \<Longrightarrow> st_actions s' = st_actions s"
  by (auto simp: follow_up_def Let_def bindE_Inr_iff map_sum_Inr split: if_splits dest!: table_unchanged)

lemma forward_settle: "settle_command J ids c m su digest now s = Inr (out, s') \<Longrightarrow> forward s s'"
  unfolding settle_command_def Let_def
  by (auto simp: bindE_Inr_iff replay_def Let_def split: if_splits prod.splits option.splits
      dest!: forward_project follow_up_unchanged) (simp_all add: forward_def list_all2_refl)

lemma forward_complete:
  "complete_command_and_action J ids dev cid su now s = Inr (out, s') \<Longrightarrow> forward s s'"
  by (auto simp: complete_command_and_action_def Let_def split: option.splits if_splits intro: forward_refl forward_settle)

section \<open>The machine\<close>

text \<open>
  One committed operation of the Controller.  A rollback request carries a command
  for the device of its action, as the HTTP handler builds it.
\<close>

inductive controller_step :: "store_lib \<Rightarrow> store \<Rightarrow> store \<Rightarrow> bool" for J where
  cs_create: "create_action x nonce actor s = Inr s' \<Longrightarrow> controller_step J s s'"
| cs_plan: "create_plan_action J pid sid x nonce actor n s = Inr s' \<Longrightarrow> controller_step J s s'"
| cs_incident: "set_incident_status iid st actor now s = Inr s' \<Longrightarrow> controller_step J s s'"
| cs_approve: "approve_and_enqueue J aid nonce admin cmd now s = Inr s' \<Longrightarrow> controller_step J s s'"
| cs_policy: "create_policy_action_limited x cmd ban actor n since s = Inr s' \<Longrightarrow> controller_step J s s'"
| cs_rollback: "request_rollback_and_enqueue aid admin cmd now s = Inr s' \<Longrightarrow>
    find_action aid s = Some a \<Longrightarrow> nc_device cmd = ac_device a \<Longrightarrow> controller_step J s s'"
| cs_confirm: "request_confirmation_and_enqueue aid admin cmd now s = Inr s' \<Longrightarrow> controller_step J s s'"
| cs_expire_confirmations: "controller_step J s (expire_confirmations now s)"
| cs_expire_drafts: "controller_step J s (expire_draft_actions now s)"
| cs_expire_stale: "controller_step J s (expire_stale_action_commands J now s)"
| cs_put_policy: "put_policy_and_cancel J po s = Inr (n, s') \<Longrightarrow> controller_step J s s'"
| cs_enqueue: "enqueue_command cmd s = Inr s' \<Longrightarrow> controller_step J s s'"
| cs_claim: "claim_commands J dev limit now s = Inr (out, s') \<Longrightarrow> controller_step J s s'"
| cs_start: "start_action_command J dev cid now s = Inr (b, s') \<Longrightarrow> controller_step J s s'"
| cs_complete: "complete_command_and_action J ids dev cid su now s = Inr (oc, s') \<Longrightarrow> controller_step J s s'"

text \<open>A step moves actions forward, adds one within the capacity, or restarts one for rollback.\<close>

inductive progress :: "store \<Rightarrow> store \<Rightarrow> bool" where
  pg_forward: "forward s s' \<Longrightarrow> progress s s'"
| pg_insert: "forward s t \<Longrightarrow> cnt_where (unfinished (ac_device x)) (st_actions t) < max_unfinished_actions \<Longrightarrow>
    ac_id x \<notin> ac_id ` set (st_actions t) \<Longrightarrow> st_actions s' = st_actions t @ [x] \<Longrightarrow> progress s s'"
| pg_restart: "find_action aid s = Some a \<Longrightarrow> can_roll_back a \<Longrightarrow>
    cnt_where (unfinished (ac_device a)) (st_actions s) < max_unfinished_actions \<Longrightarrow>
    st_actions s' = upd_where (\<lambda>b. ac_id b = aid \<and> can_roll_back b)
      (\<lambda>b. b\<lparr>ac_status := RollingBack, ac_updated := now\<rparr>) (st_actions s) \<Longrightarrow> progress s s'"

lemma progress_insert:
  assumes "ensure_capacity d t = Inr ()" and "insert_action x t = Inr u" and "st_actions s' = st_actions u"
    and "ac_device x = d" and "forward s t"
  shows "progress s s'"
  using assms by (intro pg_insert [of s t x]) (auto simp: ensure_capacity_def insert_action_def split: if_splits)

lemma progress_create: "create_action x nonce actor s = Inr s' \<Longrightarrow> progress s s'"
  by (auto simp: create_action_def Let_def bindE_Inr_iff forward_expire_drafts dest!: inserts_unchanged
      elim!: progress_insert)

lemma insert_link_unchanged: "insert_link l s = Inr s' \<Longrightarrow> st_actions s' = st_actions s"
  by (auto simp: insert_link_def split: if_splits)

lemma forward_links: "forward (s\<lparr>st_links := l\<rparr>) t \<Longrightarrow> forward s t"
  by (simp add: forward_def)

lemma progress_insert_plan:
  "insert_plan_action J p sid steps x nonce actor (s\<lparr>st_links := l\<rparr>) = Inr s' \<Longrightarrow> progress s s'"
  by (auto simp: insert_plan_action_def Let_def bindE_Inr_iff forward_links [OF forward_expire_drafts]
      dest!: inserts_unchanged insert_link_unchanged split: option.splits elim!: progress_insert)

lemma progress_plan: "create_plan_action J pid sid x nonce actor n s = Inr s' \<Longrightarrow> progress s s'"
  by (auto simp: create_plan_action_def bindE_Inr_iff split: option.splits dest!: progress_insert_plan)

lemma forward_incident: "set_incident_status iid st actor now s = Inr s' \<Longrightarrow> forward s s'"
  by (auto simp: set_incident_status_def bindE_Inr_iff dest!: inserts_unchanged intro!: forward_refl)

lemma progress_insert_ban: "insert_policy_ban x cmd ban actor s = Inr s' \<Longrightarrow> progress s s'"
  by (auto simp: insert_policy_ban_def insert_policy_action_def Let_def bindE_Inr_iff forward_expire_drafts
      dest!: inserts_unchanged elim!: progress_insert)

lemma create_policy_limited_inserts:
  "create_policy_action_limited x cmd ban actor n since s = Inr s' \<Longrightarrow> insert_policy_ban x cmd ban actor s = Inr s'"
  by (auto simp: create_policy_action_limited_def Let_def split: option.splits if_split_asm)

lemmas progress_policy = progress_insert_ban [OF create_policy_limited_inserts]

lemma progress_rollback:
  assumes "request_rollback_and_enqueue aid admin cmd now s = Inr s'" and "find_action aid s = Some a"
    and "nc_device cmd = ac_device a" and "distinct (map ac_id (st_actions s))"
  shows "progress s s'"
proof -
  from assms(1) have aff: "affected (\<lambda>b. ac_id b = aid \<and> can_roll_back b) s \<noteq> 0"
    and cap: "cnt_where (unfinished (nc_device cmd)) (st_actions s) < max_unfinished_actions"
    and s': "st_actions s' = upd_where (\<lambda>b. ac_id b = aid \<and> can_roll_back b)
      (\<lambda>b. b\<lparr>ac_status := RollingBack, ac_updated := now\<rparr>) (st_actions s)"
    by (auto simp: request_rollback_and_enqueue_def bindE_Inr_iff Let_def ensure_capacity_def update_actions_def
        dest!: inserts_unchanged split: if_splits)
  from aff obtain b where b: "b \<in> set (st_actions s)" "ac_id b = aid" "can_roll_back b"
    by (auto simp: affected_def cnt_where_0_iff)
  moreover from assms(2) have "a \<in> set (st_actions s)" "ac_id a = aid"
    by (auto simp: find_action_def dest: find_SomeD)
  ultimately have "b = a" using assms(4) by (metis distinct_map inj_onD)
  with b cap s' assms(2,3) show ?thesis by (intro pg_restart) simp_all
qed

lemma controller_step_progress:
  assumes "controller_step J s s'" and "distinct (map ac_id (st_actions s))"
  shows "progress s s'"
  using assms
proof cases
  case (cs_rollback aid admin cmd now a)
  then show ?thesis using assms(2) by (intro progress_rollback)
next
  case (cs_enqueue cmd)
  then show ?thesis by (intro pg_forward forward_refl enqueue_command_unchanged)
qed (auto simp: expire_draft_actions_def expire_stale_action_commands_def
    intro: pg_forward progress_create progress_plan progress_policy forward_incident forward_approve_and_enqueue forward_confirmation
      forward_expire_confirmations forward_expire_drafts forward_expire_stale forward_put_policy
      forward_claim forward_start forward_complete)

definition actions_ok :: "store \<Rightarrow> bool" where
  "actions_ok s \<longleftrightarrow> distinct (map ac_id (st_actions s)) \<and>
     (\<forall>dev. cnt_where (unfinished dev) (st_actions s) \<le> max_unfinished_actions)"

lemma actions_ok_progress:
  assumes "progress s s'" and "actions_ok s"
  shows "actions_ok s'"
  using assms
proof cases
  case pg_forward
  then show ?thesis using assms(2) forward_cnt forward_ids by (metis (no_types) actions_ok_def le_trans)
next
  case (pg_insert t x)
  have t: "actions_ok t" using pg_insert(1) assms(2) forward_cnt forward_ids by (metis (no_types) actions_ok_def le_trans)
  have "cnt_where (unfinished dev) (st_actions t @ [x]) \<le> max_unfinished_actions" for dev
    using t pg_insert(2) by (cases "dev = ac_device x") (auto simp: actions_ok_def table_simps unfinished_def)
  with t pg_insert show ?thesis by (auto simp: actions_ok_def)
next
  case (pg_restart aid a now)
  let ?p = "\<lambda>b. ac_id b = aid \<and> can_roll_back b" and ?f = "\<lambda>b. b\<lparr>ac_status := RollingBack, ac_updated := now\<rparr>"
  have d: "distinct (map ac_id (st_actions s))" using assms(2) by (simp add: actions_ok_def)
  have a: "a \<in> set (st_actions s)" "ac_id a = aid"
    using pg_restart(1) by (auto simp: find_action_def dest: find_SomeD)
  have uniq: "b = a" if "b \<in> set (st_actions s)" "ac_id b = aid" for b
    using that a d by (metis distinct_map inj_onD)
  have "cnt_where (unfinished dev) (upd_where ?p ?f (st_actions s)) \<le> max_unfinished_actions" for dev
  proof (cases "dev = ac_device a")
    case True
    have "cnt_where (unfinished dev) (upd_where ?p ?f (st_actions s)) \<le> Suc (cnt_where (unfinished dev) (st_actions s))"
      using d by (rule cnt_upd_where_unique [where i = aid]) simp
    with pg_restart(3) True show ?thesis by simp
  next
    case False
    have "cnt_where (unfinished dev) (upd_where ?p ?f (st_actions s)) \<le> cnt_where (unfinished dev) (st_actions s)"
      using False uniq by (intro cnt_upd_where_le) (auto simp: unfinished_def)
    with assms(2) show ?thesis by (auto simp: actions_ok_def intro: le_trans)
  qed
  moreover have "map ac_id (st_actions s') = map ac_id (st_actions s)"
    unfolding pg_restart(4) by (rule map_upd_where_key) simp
  ultimately show ?thesis using d pg_restart(4) by (simp add: actions_ok_def)
qed

interpretation controller: machine "\<lambda>s. st_actions s = []" "controller_step J" actions_ok for J
proof unfold_locales
  fix s :: store assume "st_actions s = []"
  then show "actions_ok s" by (simp add: actions_ok_def table_simps)
next
  fix s t :: store assume ok: "actions_ok s" and "controller_step J s t"
  then have "progress s t" using controller_step_progress by (simp add: actions_ok_def)
  with ok show "actions_ok t" using actions_ok_progress by blast
qed

section \<open>Properties\<close>

text \<open>
  C9: From an empty actions table, whatever the order of creations (by hand, from a plan,
  by policy), approvals,
  policy actions, claims, starts, results, rollbacks, confirmations, expiries and
  policy changes, a device never has more than 200 unfinished actions and action
  identifiers stay unique.
\<close>

theorem unfinished_bounded:
  assumes "reach (\<lambda>s. st_actions s = []) (controller_step J) s"
  shows "cnt_where (unfinished dev) (st_actions s) \<le> max_unfinished_actions \<and> distinct (map ac_id (st_actions s))"
  using controller.reach_inv [OF assms] by (simp add: actions_ok_def)

definition demo_draft :: action_row where
  "demo_draft = \<lparr>ac_id = ''act1'', ac_device = ''dev1'', ac_finding = [], ac_type = TypeTemporaryIPBan, ac_params = ''{}'',
     ac_preview = ''{}'', ac_status = Draft, ac_nonce = ''n'', ac_approved_by = [], ac_approved_at = None,
     ac_executed = None, ac_completed = None, ac_rollback = None, ac_confirm_by = None, ac_error = [],
     ac_created = 100, ac_updated = 100\<rparr>"

definition demo_drafted :: store where
  "demo_drafted = demo_store\<lparr>st_actions := [demo_draft],
     st_audit := [audit_entry ''act1'' ''alice'' ''preview_created'' ''{}'' 100]\<rparr>"

lemma demo_create: "create_action demo_draft ''n'' ''alice'' demo_store = Inr demo_drafted"
  by (simp add: create_action_def expire_drafts_def update_actions_def upd_where_def ensure_capacity_def guardE_def
      cnt_where_def insert_action_def insert_audit_def demo_draft_def demo_store_def demo_device_def demo_drafted_def nonempty_json_def
      audit_entry_def)

theorem unfinished_bounded_witness:
  "cnt_where (unfinished ''dev1'') (st_actions demo_drafted) \<le> max_unfinished_actions"
proof -
  have "reach (\<lambda>s. st_actions s = []) (controller_step demo_jx) demo_store"
    by (rule reach_init) (simp add: demo_store_def demo_device_def)
  from unfinished_bounded [OF reach_step [OF this cs_create [OF demo_create]]] show ?thesis by blast
qed


definition demo_cmd :: new_cmd where
  "demo_cmd = \<lparr>nc_id = ''cmd1'', nc_device = ''dev1'', nc_type = CommandExecuteAction, nc_payload = ''act1'', nc_created = 200\<rparr>"

lemma demo_approve: "\<exists>s'. approve_and_enqueue demo_jx ''act1'' ''n'' ''alice'' demo_cmd 200 demo_drafted = Inr s'"
  by (simp add: approve_and_enqueue_def approve_update_def affected_def approvable_def cnt_where_def update_actions_def
      upd_where_def enqueue_row_def insert_command_def new_command_def insert_audit_def mark_responding_def
      plan_of_action_def demo_draft_def demo_store_def demo_device_def demo_drafted_def demo_cmd_def audit_entry_def)


end
