(* ===== verification/StartGateProps.thy ===== *)
theory StartGateProps
  imports ActionMachine
begin

text \<open>
  The start gate and the emergency stop: what a device may begin, that a refusal is
  final, and that no pre-authorized command passes once the stop is committed.
\<close>

section \<open>What the operations leave alone\<close>

lemma commands_unchanged [simp]:
  "st_commands (update_actions pa fa s) = st_commands s"
  "st_commands (update_bans pb fb s) = st_commands s"
  "st_commands (cancel_pending_bans aid s) = st_commands s"
  "st_commands (upsert_grant g s) = st_commands s"
  by (simp_all add: update_actions_def update_bans_def cancel_pending_bans_def upsert_grant_def)

lemma insert_audit_eqs:
  assumes "insert_audit r s = Inr s'"
  shows "st_commands s' = st_commands s" "st_policies s' = st_policies s" "st_grants s' = st_grants s"
    "st_bans s' = st_bans s" "st_devices s' = st_devices s"
  using assms by (auto simp: insert_audit_def split: if_splits)

lemma upsert_policy_eqs:
  assumes "upsert_policy x s = Inr s'"
  shows "st_commands s' = st_commands s" "st_actions s' = st_actions s" "st_grants s' = st_grants s" "st_devices s' = st_devices s"
  using assms by (auto simp: upsert_policy_def split: if_splits)

lemma start_execution_commands: "start_execution J dev m now s = Inr s' \<Longrightarrow> st_commands s' = st_commands s"
  by (auto simp: start_execution_def Let_def bindE_Inr_iff dest!: insert_audit_eqs(1)
      split: if_splits option.splits)

lemma find_command_upd:
  assumes "\<forall>c. cm_id (f c) = cm_id c \<and> cm_device (f c) = cm_device c"
  shows "find_command cid dev (update_commands p f s) = map_option (\<lambda>c. if p c then f c else c) (find_command cid dev s)"
  unfolding find_command_def update_commands_def using assms by (simp add: find_upd_where)

lemma find_command_cong: "st_commands s = st_commands t \<Longrightarrow> find_command cid dev s = find_command cid dev t"
  by (simp add: find_command_def)

lemma find_command_ids: "find_command cid dev s = Some c \<Longrightarrow> cm_id c = cid \<and> cm_device c = dev"
  by (auto simp: find_command_def dest: find_SomeD)

section \<open>Passing the gate\<close>

lemma mark_started_marks:
  assumes "mark_started dev cid now s = Inr s'" and "find_command cid dev s = Some c" and "cm_started c = None" and "cm_completed c = None"
  shows "find_command cid dev s' = Some (c\<lparr>cm_started := Some now\<rparr>)"
proof -
  let ?p = "\<lambda>c. cm_id c = cid \<and> cm_device c = dev \<and> cm_started c = None \<and> cm_completed c = None"
  have "s' = update_commands ?p (\<lambda>c. c\<lparr>cm_started := Some now\<rparr>) s"
    using assms(1) by (simp add: mark_started_def Let_def split: if_splits)
  with assms(2-) find_command_ids [OF assms(2)] show ?thesis by (simp add: find_command_upd)
qed

lemma upd_where_hit:
  assumes "cnt_where p t \<noteq> 0" and "\<forall>r. p r \<longrightarrow> q (f r)"
  shows "\<exists>r \<in> set (upd_where p f t). q r"
proof -
  obtain r0 where "r0 \<in> set t" "p r0" using assms(1) by (auto simp: cnt_where_0_iff)
  then have "f r0 \<in> set (upd_where p f t)" by (auto simp: set_upd_where)
  with \<open>p r0\<close> assms(2) show ?thesis by blast
qed

lemma start_execution_executing:
  assumes "start_execution J dev m now s = Inr s'"
  shows "\<exists>a \<in> set (st_actions s'). ac_id a = sm_action m \<and> ac_device a = dev \<and> ac_status a = Executing"
proof -
  let ?p = "\<lambda>a. ac_id a = sm_action m \<and> ac_device a = dev \<and> ac_status a = Approved"
  let ?f = "\<lambda>a. a\<lparr>ac_status := Executing, ac_executed := (case ac_executed a of None \<Rightarrow> Some now | Some t \<Rightarrow> Some t), ac_updated := now\<rparr>"
  let ?s1 = "update_actions ?p ?f s"
  have same: "st_actions s' = st_actions ?s1"
    using assms by (auto simp: start_execution_def Let_def bindE_Inr_iff dest!: inserts_unchanged split: if_splits option.splits)
  show ?thesis
  proof (cases "affected ?p s = 1")
    case True
    then have "cnt_where ?p (st_actions s) \<noteq> 0" by (simp add: affected_def)
    then show ?thesis unfolding same update_actions_def by (simp, intro upd_where_hit) simp_all
  next
    case False
    then obtain a where "find (\<lambda>a. ac_id a = sm_action m \<and> ac_device a = dev) (st_actions ?s1) = Some a" "ac_status a = Executing"
      using assms by (auto simp: start_execution_def Let_def bindE_Inr_iff split: if_splits option.splits)
    then show ?thesis unfolding same by (auto dest: find_SomeD)
  qed
qed

definition authorized :: "store_lib \<Rightarrow> string \<Rightarrow> cmd_row \<Rightarrow> start_meta \<Rightarrow> store \<Rightarrow> bool" where
  "authorized J dev c m s \<longleftrightarrow> (cm_type c = CommandExecuteAction \<and> sm_policy m \<longrightarrow>
     (if sm_type m = TypeTemporaryIPBan then ban_authorized dev s else grant_authorizes J dev (sm_type m) s))"

lemma start_gate_passed:
  assumes "start_gate J dev c m now s = Inr (True, s')"
  shows "\<not> start_expired c now \<and> authorized J dev c m s \<and>
    (\<exists>s1. mark_started dev (cm_id c) now s1 = Inr s' \<and> st_commands s1 = st_commands s \<and>
      (if cm_type c = CommandExecuteAction then start_execution J dev m now s = Inr s1
       else s1 = s \<and> expect_status dev (sm_action m) (if cm_type c = CommandConfirm then Confirming else RollingBack) s = Inr ()))"
  using assms unfolding start_gate_def Let_def authorized_def
  by (auto simp: bindE_Inr_iff map_sum_Inr start_execution_commands split: if_splits)

lemma mark_started_actions: "mark_started dev cid now s = Inr s' \<Longrightarrow> st_actions s' = st_actions s"
  by (rule mark_started_unchanged)

lemma expect_status_found:
  "expect_status dev aid st s = Inr () \<Longrightarrow> \<exists>a \<in> set (st_actions s). ac_id a = aid \<and> ac_device a = dev \<and> ac_status a = st"
  by (auto simp: expect_status_def split: option.splits dest: find_SomeD)

text \<open>The status an action must have while its command runs.\<close>

definition running_status :: "command_type \<Rightarrow> action_status" where
  "running_status t = (if t = CommandExecuteAction then Executing else if t = CommandConfirm then Confirming else RollingBack)"

lemma start_gate_action:
  assumes "start_gate J dev c m now s = Inr (True, s')"
  shows "\<exists>a \<in> set (st_actions s'). ac_id a = sm_action m \<and> ac_device a = dev \<and> ac_status a = running_status (cm_type c)"
proof -
  from start_gate_passed [OF assms] obtain s1 where m: "mark_started dev (cm_id c) now s1 = Inr s'"
    and e: "if cm_type c = CommandExecuteAction then start_execution J dev m now s = Inr s1
       else s1 = s \<and> expect_status dev (sm_action m) (if cm_type c = CommandConfirm then Confirming else RollingBack) s = Inr ()"
    by blast
  have "st_actions s' = st_actions s1" using m by (rule mark_started_actions)
  then show ?thesis
    using e start_execution_executing expect_status_found by (fastforce simp: running_status_def split: if_splits)
qed

section \<open>Refusals\<close>

lemma close_command_closes:
  assumes "find_command cid dev s = Some c"
  shows "\<exists>c'. find_command cid dev (close_command cid r msg now s) = Some c' \<and> cm_completed c' \<noteq> None"
  using assms find_command_ids [OF assms] by (simp add: close_command_def find_command_upd)

definition abandons :: "string \<Rightarrow> string \<Rightarrow> store \<Rightarrow> store \<Rightarrow> bool" where
  "abandons dev cid s s' \<longleftrightarrow> (\<exists>aid frm bans msg event now. abandon dev cid aid frm bans msg event now s = Inr s')"

lemma abandonsI: "abandon dev cid aid frm bans msg event now s = Inr s' \<Longrightarrow> abandons dev cid s s'"
  unfolding abandons_def by blast

lemma abandons_closes:
  assumes "abandons dev cid s s'" and "find_command cid dev s = Some c"
  shows "\<exists>c'. find_command cid dev s' = Some c' \<and> cm_completed c' \<noteq> None"
proof -
  obtain msg now where "st_commands s' = st_commands (close_command cid ok_false msg now s)"
    using assms(1) by (auto simp: abandons_def abandon_def Let_def dest!: insert_audit_eqs(1) split: if_splits)
  then show ?thesis using close_command_closes [OF assms(2)] find_command_cong by metis
qed

lemma start_gate_refused: "start_gate J dev c m now s = Inr (False, s') \<Longrightarrow> abandons dev (cm_id c) s s'"
  unfolding start_gate_def Let_def
  by (auto simp: bindE_Inr_iff map_sum_Inr split: if_splits intro: abandonsI)

section \<open>The emergency stop\<close>

lemma stop_one_eqs:
  assumes "stop_one now item s = Inr s'"
  shows "st_policies s' = st_policies s" "st_grants s' = st_grants s"
    "st_commands s' = upd_where (\<lambda>c. cm_id c = fst item \<and> cm_completed c = None)
       (\<lambda>c. c\<lparr>cm_completed := Some now, cm_result := Some ok_false, cm_error := stop_message\<rparr>) (st_commands s)"
    "st_actions s' = upd_where (\<lambda>a. ac_id a = snd item \<and> ac_status a = Approved) (cancel_with stop_message now) (st_actions s)"
  using assms by (auto simp: stop_one_def Let_def insert_audit_def close_command_def update_commands_def
      update_actions_def cancel_pending_bans_def update_bans_def split: if_splits)

text \<open>A row left open was open before, and none of the listed commands is open.\<close>

lemma stop_all_commands:
  assumes "stop_all now items s = Inr s'" and "c \<in> set (st_commands s')" and "cm_completed c = None"
  shows "c \<in> set (st_commands s) \<and> cm_id c \<notin> fst ` set items"
  using assms
proof (induction now items s rule: stop_all.induct)
  case (2 now x xs s)
  from "2.prems"(1) obtain s1 where s1: "stop_one now x s = Inr s1" "stop_all now xs s1 = Inr s'"
    by (auto simp: bindE_Inr_iff)
  from "2.IH" [OF s1(2) "2.prems"(2,3)] "2.prems"(3) show ?case
    by (auto simp: stop_one_eqs(3) [OF s1(1)] set_upd_where split: if_splits)
qed simp

lemma stop_all_actions:
  assumes "stop_all now items s = Inr s'" and "a \<in> set (st_actions s')" and "ac_status a = Approved"
  shows "a \<in> set (st_actions s)"
  using assms
proof (induction now items s rule: stop_all.induct)
  case (2 now x xs s)
  from "2.prems"(1) obtain s1 where s1: "stop_one now x s = Inr s1" "stop_all now xs s1 = Inr s'"
    by (auto simp: bindE_Inr_iff)
  from "2.IH" [OF s1(2) "2.prems"(2,3)] "2.prems"(3) show ?case
    by (auto simp: stop_one_eqs(4) [OF s1(1)] set_upd_where cancel_with_def split: if_splits)
qed simp

lemma stop_all_eqs:
  "stop_all now items s = Inr s' \<Longrightarrow> st_policies s' = st_policies s \<and> st_grants s' = st_grants s"
proof (induction now items s rule: stop_all.induct)
  case (2 now x xs s)
  then obtain s1 where s1: "stop_one now x s = Inr s1" "stop_all now xs s1 = Inr s'" by (auto simp: bindE_Inr_iff)
  from "2.IH" [OF s1(2)] show ?case by (simp add: stop_one_eqs [OF s1(1)])
qed simp

lemma queued_policy_iff:
  "queued_policy J dev s = [] \<longleftrightarrow> (\<forall>c \<in> set (st_commands s). \<forall>a \<in> set (st_actions s).
     \<not> (cm_device c = dev \<and> cm_completed c = None \<and> cm_type c = CommandExecuteAction \<and>
        Some (ac_id a) = jx_extract_id J (cm_payload c) \<and> ac_status a = Approved \<and> like_prefix (ac_approved_by a) ''policy:''))"
  by (auto simp: queued_policy_def filter_empty_conv)

text \<open>The state of the switches after an emergency stop.\<close>

definition stopped :: "string \<Rightarrow> store \<Rightarrow> bool" where
  "stopped dev s \<longleftrightarrow> (\<forall>p \<in> set (st_policies s). po_device p = dev \<longrightarrow> po_stop p) \<and>
     (\<forall>g \<in> set (st_grants s). pg_device g = dev \<longrightarrow> pg_stop g)"

lemma stopped_unauthorized:
  assumes "stopped dev s" and "cm_type c = CommandExecuteAction" and "sm_policy m"
  shows "\<not> authorized J dev c m s"
proof -
  have "\<not> ban_authorized dev s"
    using assms(1) by (auto simp: ban_authorized_def find_policy_def stopped_def policy_active_def
        split: option.splits dest!: find_SomeD)
  moreover have "\<not> grant_authorizes J dev t s" for t
    using assms(1) by (auto simp: grant_authorizes_def stopped_def split: option.splits if_splits dest!: find_SomeD)
  ultimately show ?thesis using assms(2,3) by (simp add: authorized_def)
qed

lemma upsert_policy_stopped:
  assumes "upsert_policy x s = Inr s'" and "po_stop x" and "p \<in> set (st_policies s')" and "po_device p = po_device x"
  shows "po_stop p"
  using assms by (auto simp: upsert_policy_def set_upd_where image_iff split: if_splits) metis

lemma put_policy_cases:
  assumes "put_policy_and_cancel J x s = Inr (n, s')" and "po_stop x"
  shows "\<exists>s3. stop_all (po_updated x) (queued_policy J (po_device x) s3) s3 = Inr s' \<and> stopped (po_device x) s3"
proof -
  from assms obtain s1 where s1: "upsert_policy x s = Inr s1" by (auto simp: put_policy_and_cancel_def bindE_Inr_iff)
  let ?s2 = "upsert_grant (bruteforce_grant x) s1"
  let ?s3 = "?s2\<lparr>st_grants := upd_where (\<lambda>g. pg_device g = po_device x)
                  (\<lambda>g. g\<lparr>pg_stop := po_stop x, pg_updated := po_updated x\<rparr>) (st_grants ?s2)\<rparr>"
  have "stop_all (po_updated x) (queued_policy J (po_device x) ?s3) ?s3 = Inr s'"
    using assms s1 by (simp add: put_policy_and_cancel_def Let_def bindE_Inr_iff)
  moreover have "st_policies ?s2 = st_policies s1" by (simp add: upsert_grant_def)
  then have "stopped (po_device x) ?s3"
    using upsert_policy_stopped [OF s1 assms(2)] assms(2) by (auto simp: stopped_def set_upd_where)
  ultimately show ?thesis by blast
qed

lemma put_policy_stopped:
  assumes "put_policy_and_cancel J x s = Inr (n, s')" and "po_stop x"
  shows "stopped (po_device x) s'"
proof -
  from put_policy_cases [OF assms] obtain s3 items where "stop_all (po_updated x) items s3 = Inr s'" and st: "stopped (po_device x) s3"
    by blast
  from stop_all_eqs [OF this(1)] st show ?thesis by (simp add: stopped_def)
qed

section \<open>A concrete start\<close>

lemma demo_start: "\<exists>s'. start_action_command demo_jx ''dev1'' ''cmd1'' 300 demo_queued = Inr (True, s')"
  by (simp add: start_action_command_def start_gate_def start_execution_def mark_started_def find_command_def
      action_command_def ban_authorized_def find_policy_def policy_active_def start_expired_def affected_def
      update_actions_def update_bans_def update_commands_def cnt_where_def upd_where_def insert_audit_def audit_entry_def
      demo_store_defs demo_jx_def seconds_def wrap64_def)

lemma demo_refuse: "\<exists>s'. start_action_command demo_jx ''dev1'' ''cmd1'' 900000000000 demo_queued = Inr (False, s')"
  by (simp add: start_action_command_def start_gate_def abandon_def close_command_def find_command_def
      action_command_def start_expired_def update_actions_def update_bans_def update_commands_def cancel_pending_bans_def
      upd_where_def insert_audit_def audit_entry_def cancel_with_def open_command_statuses_def demo_store_defs demo_jx_def)

lemma demo_stop: "\<exists>n s'. put_policy_and_cancel demo_jx (demo_policy\<lparr>po_stop := True\<rparr>) demo_queued = Inr (n, s')"
  by (simp add: put_policy_and_cancel_def upsert_policy_def upsert_grant_def queued_policy_def stop_one_def close_command_def
      update_actions_def update_bans_def update_commands_def cancel_pending_bans_def upd_where_def insert_audit_def
      audit_entry_def cancel_with_def bruteforce_grant_def like_prefix_def Let_def demo_store_defs demo_jx_def)

section \<open>Properties\<close>

text \<open>
  C7: The start gate lets a device begin an open command only when the device is not
  in observer mode, the command is at most ten minutes old and not more than five
  in the future, a pre-authorized action is still covered by its policy, and the
  action is in the status the command needs; the command is then marked started and
  the action of an execution is recorded as executing.
\<close>

theorem start_gate_sound:
  assumes "start_action_command J dev cid now s = Inr (True, s')"
    and "find_command cid dev s = Some c" and "cm_started c = None"
  shows "\<exists>m d. jx_start J (cm_payload c) = Some m \<and> d \<in> set (st_devices s) \<and> dv_id d = dev \<and> \<not> dv_observer d \<and>
    cm_completed c = None \<and> now - cm_created c \<le> ActionCommandTTL \<and> cm_created c - now \<le> 5 * minute \<and>
    authorized J dev c m s \<and> find_command cid dev s' = Some (c\<lparr>cm_started := Some now\<rparr>) \<and>
    (\<exists>a \<in> set (st_actions s'). ac_id a = sm_action m \<and> ac_device a = dev \<and> ac_status a = running_status (cm_type c))"
proof -
  from assms obtain m d where m: "jx_start J (cm_payload c) = Some m" and o: "cm_completed c = None"
    and d: "find (\<lambda>d. dv_id d = dev) (st_devices s) = Some d" "\<not> dv_observer d"
    and g: "start_gate J dev c m now s = Inr (True, s')"
    by (auto simp: start_action_command_def map_sum_Inr split: option.splits if_splits)
  from start_gate_passed [OF g] obtain s1 where e: "\<not> start_expired c now" and auth: "authorized J dev c m s"
    and ms: "mark_started dev (cm_id c) now s1 = Inr s'" and "st_commands s1 = st_commands s" by blast
  then have "find_command cid dev s1 = Some c" using assms(2) by (simp add: find_command_cong [of s1 s])
  with ms have "find_command cid dev s' = Some (c\<lparr>cm_started := Some now\<rparr>)"
    using mark_started_marks assms(3) o find_command_ids [OF assms(2)] by simp
  with m o d e auth start_gate_action [OF g] show ?thesis
    by (intro exI [of _ m] exI [of _ d]) (auto simp: start_expired_def dest!: find_SomeD)
qed

theorem start_gate_sound_witness:
  "\<exists>s'. start_action_command demo_jx ''dev1'' ''cmd1'' 300 demo_queued = Inr (True, s') \<and>
     (\<exists>a \<in> set (st_actions s'). ac_id a = ''act1'' \<and> ac_status a = Executing)"
proof -
  obtain s' where s': "start_action_command demo_jx ''dev1'' ''cmd1'' 300 demo_queued = Inr (True, s')"
    using demo_start by blast
  have c: "find_command ''cmd1'' ''dev1'' demo_queued = Some demo_command" "cm_started demo_command = None"
    by (simp_all add: find_command_def demo_store_defs)
  have "jx_start demo_jx (cm_payload demo_command) = Some m \<Longrightarrow> sm_action m = ''act1''" for m
    by (auto simp: demo_jx_def demo_command_def new_command_def)
  moreover have "running_status (cm_type demo_command) = Executing"
    by (simp add: running_status_def demo_command_def new_command_def)
  ultimately show ?thesis using start_gate_sound [OF s' c] s' by metis
qed

text \<open>
  A refused start is final: the command is completed in the database, so no
  later start of it succeeds.
\<close>

theorem refused_start_final:
  assumes "start_action_command J dev cid now s = Inr (False, s')"
  shows "start_action_command J dev cid later s' = Inr (False, s')"
proof -
  obtain c where c: "find_command cid dev s = Some c"
    using assms by (auto simp: start_action_command_def split: option.splits)
  have "\<exists>c'. find_command cid dev s' = Some c' \<and> cm_completed c' \<noteq> None"
  proof (cases "cm_completed c = None")
    case False
    with assms c show ?thesis by (auto simp: start_action_command_def)
  next
    case True
    with assms c have "abandons dev cid s s'"
      using find_command_ids [OF c]
      by (auto simp: start_action_command_def map_sum_Inr split: option.splits if_splits
          intro: abandonsI dest!: start_gate_refused)
    then show ?thesis using c by (rule abandons_closes)
  qed
  then show ?thesis by (auto simp: start_action_command_def)
qed

theorem refused_start_final_witness:
  "\<exists>s'. start_action_command demo_jx ''dev1'' ''cmd1'' 900000000000 demo_queued = Inr (False, s') \<and>
     start_action_command demo_jx ''dev1'' ''cmd1'' 300 s' = Inr (False, s')"
proof -
  obtain s' where s': "start_action_command demo_jx ''dev1'' ''cmd1'' 900000000000 demo_queued = Inr (False, s')"
    using demo_refuse by blast
  from refused_start_final [OF this] s' show ?thesis by blast
qed

text \<open>
  C8: An emergency stop leaves no queued policy execution behind, and from then on
  the start gate refuses every pre-authorized execution of the device that had not
  been started.
\<close>

theorem emergency_stop_effective:
  assumes "put_policy_and_cancel J x s = Inr (n, s1)" and "po_stop x"
  shows "queued_policy J (po_device x) s1 = [] \<and>
    (\<forall>cid c m now s2. find_command cid (po_device x) s1 = Some c \<longrightarrow> jx_start J (cm_payload c) = Some m \<longrightarrow>
       cm_type c = CommandExecuteAction \<longrightarrow> sm_policy m \<longrightarrow> cm_started c = None \<longrightarrow>
       start_action_command J (po_device x) cid now s1 \<noteq> Inr (True, s2))"
proof (intro conjI allI impI notI)
  from put_policy_cases [OF assms] obtain s3
    where stop: "stop_all (po_updated x) (queued_policy J (po_device x) s3) s3 = Inr s1" by blast
  have "(cm_id c, ac_id a) \<in> set (queued_policy J (po_device x) s3)"
    if "c \<in> set (st_commands s3)" "a \<in> set (st_actions s3)" "cm_device c = po_device x" "cm_completed c = None"
      "cm_type c = CommandExecuteAction" "Some (ac_id a) = jx_extract_id J (cm_payload c)" "ac_status a = Approved"
      "like_prefix (ac_approved_by a) ''policy:''" for c a
    using that by (auto simp: queued_policy_def)
  then show "queued_policy J (po_device x) s1 = []"
    unfolding queued_policy_iff using stop_all_commands [OF stop] stop_all_actions [OF stop] by force
next
  fix cid c m now s2
  assume "start_action_command J (po_device x) cid now s1 = Inr (True, s2)" "find_command cid (po_device x) s1 = Some c"
    "cm_started c = None" and m: "jx_start J (cm_payload c) = Some m" "cm_type c = CommandExecuteAction" "sm_policy m"
  from start_gate_sound [OF this(1-3)] m(1) have "authorized J (po_device x) c m s1" by auto
  with stopped_unauthorized [OF put_policy_stopped [OF assms]] m show False by blast
qed

theorem emergency_stop_effective_witness:
  "\<exists>n s1. put_policy_and_cancel demo_jx (demo_policy\<lparr>po_stop := True\<rparr>) demo_queued = Inr (n, s1) \<and>
     queued_policy demo_jx ''dev1'' s1 = []"
proof -
  obtain n s1 where s1: "put_policy_and_cancel demo_jx (demo_policy\<lparr>po_stop := True\<rparr>) demo_queued = Inr (n, s1)"
    using demo_stop by blast
  have "po_stop (demo_policy\<lparr>po_stop := True\<rparr>)" "po_device (demo_policy\<lparr>po_stop := True\<rparr>) = ''dev1''"
    by (simp_all add: demo_policy_def)
  with emergency_stop_effective [OF s1] s1 show ?thesis by auto
qed

section \<open>A rollback that is started too late\<close>

lemma abandon_effect:
  assumes "a \<in> set (st_actions s)" and "ac_id a = aid"
  shows "\<exists>s'. abandon dev cid aid frm bans msg event now s = Inr s' \<and>
    st_actions s' = upd_where (\<lambda>a. ac_id a = aid \<and> ac_device a = dev \<and> ac_status a \<in> frm) (cancel_with msg now) (st_actions s)"
proof -
  let ?t = "upd_where (\<lambda>a. ac_id a = aid \<and> ac_device a = dev \<and> ac_status a \<in> frm) (cancel_with msg now) (st_actions s)"
  have "map ac_id ?t = map ac_id (st_actions s)" by (rule map_upd_where_key) (simp add: cancel_with_def)
  then have "ac_id ` set ?t = ac_id ` set (st_actions s)" by (metis set_map)
  then have "aid \<in> ac_id ` set ?t" using assms by auto
  then show ?thesis
    by (auto simp: abandon_def Let_def insert_audit_def audit_entry_def close_command_def update_commands_def
        update_actions_def cancel_pending_bans_def update_bans_def)
qed

lemma expire_unstarted_action:
  assumes "action_id_of J (cm_payload c) = Some (ac_id a)" and "a \<in> set (st_actions s)" and "ac_device a = cm_device c"
    and "ac_status a \<in> action_open_statuses"
  shows "a\<lparr>ac_status := Failed, ac_completed := Some now, ac_error := delivery_expired_message, ac_updated := now\<rparr>
    \<in> set (st_actions (expire_unstarted J now c s))"
  using assms by (auto simp: expire_unstarted_def Let_def update_actions_def set_upd_where image_iff)

text \<open>
  When the ten minutes of a queued rollback pass, the outcome depends on which
  sweep sees it first.  The queue's own expiry records a failed action, whose
  rollback can be requested again; the start gate records a cancelled one, whose
  rollback state is kept but can never be requested again.
\<close>

theorem late_rollback_unrecoverable:
  assumes "find_command cid dev s = Some c" and "cm_type c = CommandRollback" and "cm_completed c = None" and "cm_started c = None"
    and "jx_start J (cm_payload c) = Some m" and "sm_action m \<noteq> []" and "a \<in> set (st_actions s)" and "ac_id a = sm_action m"
    and "ac_device a = dev" and "ac_status a = RollingBack" and "distinct (map ac_id (st_actions s))"
    and "d \<in> set (st_devices s)" and "dv_id d = dev" and "\<forall>d \<in> set (st_devices s). \<not> dv_observer d"
    and "now - cm_created c > ActionCommandTTL" and "action_id_of J (cm_payload c) = Some (ac_id a)" and "ac_rollback a \<noteq> None"
  shows "(\<exists>b \<in> set (st_actions (expire_unstarted J now c s)). ac_id b = ac_id a \<and> ac_status b = Failed \<and> can_roll_back b) \<and>
   (\<exists>s'. start_action_command J dev cid now s = Inr (False, s') \<and>
    (\<exists>b \<in> set (st_actions s'). ac_id b = ac_id a \<and> ac_status b = Cancelled \<and> ac_rollback b = ac_rollback a) \<and>
    (\<forall>admin cmd later s''. request_rollback_and_enqueue (ac_id a) admin cmd later s' \<noteq> Inr s''))"
proof (rule conjI)
  have "ac_device a = cm_device c" "ac_status a \<in> action_open_statuses"
    using assms(9,10) find_command_ids [OF assms(1)] by (simp_all add: action_open_statuses_def)
  from expire_unstarted_action [OF assms(16,7) this, of now] assms(17)
  show "\<exists>b \<in> set (st_actions (expire_unstarted J now c s)). ac_id b = ac_id a \<and> ac_status b = Failed \<and> can_roll_back b"
    by (intro bexI) (auto simp: can_roll_back_def)
next
  let ?msg = "''action command expired before privileged execution''"
  obtain d' where d': "find (\<lambda>d. dv_id d = dev) (st_devices s) = Some d'" "\<not> dv_observer d'"
    using assms(12-14) by (cases "find (\<lambda>d. dv_id d = dev) (st_devices s)") (auto simp: find_None_iff dest: find_SomeD)
  let ?event = "''command_expired_before_execution''"
  obtain s' where ab: "abandon dev (cm_id c) (sm_action m) open_command_statuses True ?msg ?event now s = Inr s'"
    and acts: "st_actions s' = upd_where (\<lambda>a. ac_id a = sm_action m \<and> ac_device a = dev \<and> ac_status a \<in> open_command_statuses)
      (cancel_with ?msg now) (st_actions s)"
    using abandon_effect [OF assms(7,8), of dev "cm_id c" open_command_statuses True ?msg ?event now] by (elim exE conjE)
  have "start_gate J dev c m now s = Inr (False, s')"
    using ab assms(15) by (simp add: start_gate_def Let_def start_expired_def)
  then have "start_action_command J dev cid now s = Inr (False, s')"
    using assms(1-6) d' by (simp add: start_action_command_def action_command_def)
  moreover have b: "cancel_with ?msg now a \<in> set (st_actions s')"
    using assms(7-10) unfolding acts set_upd_where by (auto simp: open_command_statuses_def image_iff)
  moreover have "affected (\<lambda>b. ac_id b = ac_id a \<and> can_roll_back b) s' = 0"
  proof -
    have "\<not> can_roll_back r" if r: "r \<in> set (st_actions s')" "ac_id r = ac_id a" for r
    proof -
      from r(1) obtain x where x: "x \<in> set (st_actions s)" "r = x \<or> r = cancel_with ?msg now x" and
        c: "ac_device x = dev \<Longrightarrow> ac_id x = sm_action m \<Longrightarrow> ac_status x \<in> open_command_statuses \<Longrightarrow> ac_status r = Cancelled"
        unfolding acts set_upd_where by (auto simp: cancel_with_def)
      from x(2) r(2) have "ac_id x = ac_id a" by (auto simp: cancel_with_def)
      with x(1) assms(7,11) have "x = a" using inj_onD [of ac_id "set (st_actions s)" x a] by (simp add: distinct_map)
      with c assms(8-10) have "ac_status r = Cancelled" by (simp add: open_command_statuses_def)
      then show ?thesis by (simp add: can_roll_back_def)
    qed
    then show ?thesis by (auto simp: affected_def cnt_where_0_iff)
  qed
  then have "request_rollback_and_enqueue (ac_id a) admin cmd later s' \<noteq> Inr s''" for admin cmd later s''
    by (simp add: request_rollback_and_enqueue_def bindE_Inr_iff Let_def)
  ultimately show "\<exists>s'. start_action_command J dev cid now s = Inr (False, s') \<and>
    (\<exists>b \<in> set (st_actions s'). ac_id b = ac_id a \<and> ac_status b = Cancelled \<and> ac_rollback b = ac_rollback a) \<and>
    (\<forall>admin cmd later s''. request_rollback_and_enqueue (ac_id a) admin cmd later s' \<noteq> Inr s'')"
    by (intro exI [of _ s'] conjI bexI [OF _ b]) (simp_all add: cancel_with_def)
qed

theorem late_rollback_unrecoverable_witness:
  "\<exists>s'. start_action_command demo_jx ''dev1'' ''cmd1'' 900000000000 demo_rolling = Inr (False, s') \<and>
     (\<forall>admin cmd later s''. request_rollback_and_enqueue ''act1'' admin cmd later s' \<noteq> Inr s'')"
proof -
  let ?c = "demo_command\<lparr>cm_type := CommandRollback\<rparr>"
  let ?a = "demo_approved\<lparr>ac_status := RollingBack, ac_rollback := Some ''[7]''\<rparr>"
  let ?m = "\<lparr>sm_action = ''act1'', sm_policy = True, sm_type = TypeTemporaryIPBan, sm_params = ''{}''\<rparr>"
  let ?d = demo_device
  have "find_command ''cmd1'' ''dev1'' demo_rolling = Some ?c" "cm_type ?c = CommandRollback" "cm_completed ?c = None"
    "cm_started ?c = None" "jx_start demo_jx (cm_payload ?c) = Some ?m" "sm_action ?m \<noteq> []" "?a \<in> set (st_actions demo_rolling)"
    "ac_id ?a = sm_action ?m" "ac_device ?a = ''dev1''" "ac_status ?a = RollingBack" "distinct (map ac_id (st_actions demo_rolling))"
    "?d \<in> set (st_devices demo_rolling)" "dv_id ?d = ''dev1''" "\<forall>d \<in> set (st_devices demo_rolling). \<not> dv_observer d"
    "900000000000 - cm_created ?c > ActionCommandTTL" "action_id_of demo_jx (cm_payload ?c) = Some (ac_id ?a)" "ac_rollback ?a \<noteq> None"
    by (simp_all add: find_command_def demo_store_defs demo_jx_def action_id_of_def)
  from conjunct2 [OF late_rollback_unrecoverable [OF this]] show ?thesis by (auto simp: demo_approved_def)
qed

end
