(* ===== verification/CompletionProps.thy ===== *)
theory CompletionProps
  imports StartGateProps
begin

text \<open>
  The Controller's judgement of a device's result: a success rests on a matching
  receipt, a result counts once, and a committed result is answered alike forever.
\<close>

section \<open>The verdict\<close>

text \<open>The receipt that a success needs.\<close>

definition proven_success :: "store_lib \<Rightarrow> command_type \<Rightarrow> cmd_meta \<Rightarrow> helper_receipt \<Rightarrow> bytes \<Rightarrow> bool" where
  "proven_success J t m r rollback \<longleftrightarrow> receipt_matches J t m r \<and> hr_success r \<and> \<not> hr_indeterminate r \<and>
     valid_successful_steps (hr_steps r) t \<and>
     (if t = CommandExecuteAction
      then valid_rollback_state J rollback \<and> hr_state_digest r = digest_bytes (jx_lib J) rollback
      else rollback = [])"

lemma objection_None:
  assumes "objection J f rollback now = None" and "action_command (cf_type f)"
  shows "cf_matches f \<and> hr_success (cf_receipt f) \<and> \<not> hr_indeterminate (cf_receipt f) \<and>
    valid_successful_steps (hr_steps (cf_receipt f)) (cf_type f) \<and>
    (if cf_type f = CommandExecuteAction
     then valid_rollback_state J rollback \<and> hr_state_digest (cf_receipt f) = digest_bytes (jx_lib J) rollback
     else rollback = [])"
proof -
  have "receipt_objection J f rollback = None" using assms(1) by (simp add: objection_def split: option.splits)
  with assms(2) show ?thesis
    by (cases "cf_type f = CommandExecuteAction") (auto simp: receipt_objection_def Let_def split: if_splits)
qed

lemma trusted_success_evidence:
  assumes "trusted_success J f su now"
  shows "cf_matches f \<and> hr_success (cf_receipt f) \<and> \<not> hr_indeterminate (cf_receipt f) \<and>
    valid_successful_steps (hr_steps (cf_receipt f)) (cf_type f) \<and>
    (if cf_type f = CommandExecuteAction
     then valid_rollback_state J (su_rollback su) \<and> hr_state_digest (cf_receipt f) = digest_bytes (jx_lib J) (su_rollback su)
     else su_rollback su = [])"
  using assms by (simp add: trusted_success_def valid_recovered_def Let_def split: if_splits)

lemma judge_ok:
  assumes "vd_ok (judge J f su now)" and "action_command (cf_type f)"
  shows "cf_matches f \<and> hr_success (cf_receipt f) \<and> \<not> hr_indeterminate (cf_receipt f) \<and>
    valid_successful_steps (hr_steps (cf_receipt f)) (cf_type f) \<and>
    (if cf_type f = CommandExecuteAction
     then valid_rollback_state J (su_rollback su) \<and> hr_state_digest (cf_receipt f) = digest_bytes (jx_lib J) (su_rollback su)
     else su_rollback su = [])"
proof (cases "trusted_success J f su now")
  case True
  then show ?thesis by (rule trusted_success_evidence)
next
  case False
  with assms(1) have "objection J f (su_rollback su) now = None"
    by (simp add: judge_def Let_def split: if_splits)
  then show ?thesis using assms(2) by (rule objection_None)
qed

lemma case_of_fields [simp]:
  "cf_type (case_of J c m su) = cm_type c"
  "cf_meta (case_of J c m su) = m"
  "cf_receipt (case_of J c m su) = fst (receipt_of J (cm_type c) su)"
  "cf_matches (case_of J c m su) \<longleftrightarrow> action_command (cm_type c) \<and> snd (receipt_of J (cm_type c) su) \<and>
     receipt_matches J (cm_type c) m (fst (receipt_of J (cm_type c) su))"
  by (simp_all add: case_of_def Let_def split_beta)

section \<open>Commands survive the projection\<close>

text \<open>Rows are only appended: what a query by identifier found, it still finds.\<close>

definition extends :: "store \<Rightarrow> store \<Rightarrow> bool" where
  "extends s t \<longleftrightarrow> (\<exists>l. st_commands t = st_commands s @ l)"

lemma extends_same [intro]: "st_commands t = st_commands s \<Longrightarrow> extends s t"
  by (simp add: extends_def)

lemma extends_find: "extends s t \<Longrightarrow> find_command cid dev s = Some c \<Longrightarrow> find_command cid dev t = Some c"
  by (auto simp: extends_def find_command_def find_append)

lemma enqueue_row_commands:
  "enqueue_row c s = Inr t \<Longrightarrow> \<exists>r. st_commands t = st_commands s @ [r]"
  by (auto simp: enqueue_row_def insert_command_def split: if_splits)

lemma other_commands:
  "set_incident i st now s = Inr t \<Longrightarrow> st_commands t = st_commands s"
  "insert_timeline r s = Inr t \<Longrightarrow> st_commands t = st_commands s"
  by (auto simp: set_incident_def insert_timeline_def Let_def split: if_splits)

lemma set_plan_commands [simp]: "st_commands (set_plan pid st now s) = st_commands s"
  by (simp add: set_plan_def)

lemma sync_plan_commands: "sync_plan J aid now s = Inr t \<Longrightarrow> st_commands t = st_commands s"
  by (auto simp: sync_plan_def bindE_Inr_iff Let_def dest!: other_commands split: option.splits prod.splits if_splits)

lemma enqueue_notification_commands: "enqueue_notification J ids e now s = Inr (n, t) \<Longrightarrow> st_commands t = st_commands s"
  by (auto simp: enqueue_notification_def Let_def split: option.splits prod.splits if_splits)

lemma project_bans_commands: "project_bans J p now s = Inr (b, t) \<Longrightarrow> st_commands t = st_commands s"
  by (auto simp: project_bans_def Let_def split: if_splits option.splits)

lemma rollback_bans_commands [simp]: "st_commands (rollback_bans p s) = st_commands s"
  by (simp add: rollback_bans_def Let_def)

lemma move_action_commands: "move_action p frm f s = Inr t \<Longrightarrow> st_commands t = st_commands s"
  by (auto simp: move_action_def split: if_splits)

lemmas commands_kept = insert_audit_eqs(1) other_commands sync_plan_commands enqueue_notification_commands
  project_bans_commands move_action_commands

lemma extends_project:
  "project J i p t now s = Inr (late, s') \<Longrightarrow> extends s s'"
  unfolding project_def project_execute_def project_rollback_def project_confirm_def Let_def extends_def
  by (auto simp: bindE_Inr_iff split: if_splits dest!: commands_kept enqueue_row_commands)

lemma follow_up_commands: "follow_up J ids p t late now s = Inr (out, s') \<Longrightarrow> st_commands s' = st_commands s"
  by (auto simp: follow_up_def Let_def bindE_Inr_iff map_sum_Inr split: if_splits dest!: commands_kept)

lemma follow_up_outcome:
  "follow_up J ids p t late now s = Inr (out, s') \<Longrightarrow>
   oc_ok out = vd_ok (pr_verdict p) \<and> oc_error out = vd_error (pr_verdict p) \<and> oc_new out"
  by (auto simp: follow_up_def Let_def bindE_Inr_iff map_sum_Inr split: if_splits)

section \<open>What a completion does\<close>

text \<open>A result that counts for the first time.\<close>

lemma completion_new:
  assumes "complete_command_and_action J ids dev cid sub now s = Inr (oc, s')" and "oc_new oc"
  obtains c m digest where
    "find_command cid dev s = Some c" "cm_completed c = None"
    "completion_digest J dev cid (sub\<lparr>su_result := nonempty_json (su_result sub)\<rparr>) = Some digest"
    "settle_command J ids c m (sub\<lparr>su_result := nonempty_json (su_result sub)\<rparr>) digest now s = Inr (oc, s')"
    "if action_command (cm_type c) then jx_meta J (cm_payload c) = Some m \<and> me_action m \<noteq> [] \<and> cm_started c \<noteq> None else m = no_meta"
proof -
  let ?su = "sub\<lparr>su_result := nonempty_json (su_result sub)\<rparr>"
  obtain c digest where c: "find_command cid dev s = Some c" and d: "completion_digest J dev cid ?su = Some digest"
    using assms(1) by (auto simp: complete_command_and_action_def Let_def split: option.splits)
  have "\<exists>m. settle_command J ids c m ?su digest now s = Inr (oc, s') \<and>
      (if action_command (cm_type c) then jx_meta J (cm_payload c) = Some m \<and> me_action m \<noteq> [] \<and> cm_started c \<noteq> None else m = no_meta)"
    using assms c d by (auto simp: complete_command_and_action_def Let_def told_def split: option.splits if_splits)
  then obtain m where m: "settle_command J ids c m ?su digest now s = Inr (oc, s')"
      "if action_command (cm_type c) then jx_meta J (cm_payload c) = Some m \<and> me_action m \<noteq> [] \<and> cm_started c \<noteq> None else m = no_meta"
    by blast
  then have "cm_completed c = None"
    using assms(2) by (auto simp: settle_command_def replay_def Let_def told_def split: option.splits if_splits)
  with c d m that show ?thesis by blast
qed

lemma settle_outcome:
  assumes "settle_command J ids c m su digest now s = Inr (oc, s')" and "cm_completed c = None"
  shows "oc_ok oc = vd_ok (judge J (case_of J c m su) su now) \<and> oc_error oc = vd_error (judge J (case_of J c m su) su now) \<and>
    extends (record_result c (stored_result J c su (judge J (case_of J c m su) su now))
      (vd_error (judge J (case_of J c m su) su now)) digest now s) s'"
proof (cases "action_command (cm_type c)")
  case False
  with assms show ?thesis by (auto simp: settle_command_def Let_def)
next
  case True
  let ?v = "judge J (case_of J c m su) su now"
  let ?s1 = "record_result c (stored_result J c su ?v) (vd_error ?v) digest now s"
  from True assms obtain late s2 where p: "project J (fst ids) (projection_of J c m su ?v) (cm_type c) now ?s1 = Inr (late, s2)"
    and f: "follow_up J (snd ids) (projection_of J c m su ?v) (cm_type c) late now s2 = Inr (oc, s')"
    by (auto simp: settle_command_def Let_def bindE_Inr_iff)
  have "extends ?s1 s'" using extends_project [OF p] follow_up_commands [OF f] by (simp add: extends_def)
  with follow_up_outcome [OF f] show ?thesis by (simp add: projection_of_def)
qed

lemma record_result_find:
  assumes "find_command cid dev s = Some c" and "cm_completed c = None"
  shows "find_command cid dev (record_result c stored err digest now s) =
    Some (c\<lparr>cm_completed := Some now, cm_result := Some stored, cm_error := err, cm_digest := digest\<rparr>)"
  using assms find_command_ids [OF assms(1)] by (simp add: record_result_def find_command_upd)

lemma sha_digest_nonempty:
  assumes "completion_digest J dev cid su = Some d" and "\<forall>b. sha256 (jx_lib J) b \<noteq> []"
  shows "d \<noteq> []"
  using assms by (auto simp: completion_digest_def hex_encode_def)

section \<open>The action's row after an execution\<close>

lemma judge_rollback:
  assumes "vd_rollback (judge J f su now) \<noteq> []" and "cf_type f = CommandExecuteAction"
  shows "cf_matches f \<and> (hr_success (cf_receipt f) \<or> hr_indeterminate (cf_receipt f)) \<and>
    vd_rollback (judge J f su now) = su_rollback su \<and>
    hr_state_digest (cf_receipt f) = digest_bytes (jx_lib J) (su_rollback su)"
proof (cases "vd_ok (judge J f su now)")
  case True
  from judge_ok [OF this] assms show ?thesis
    by (auto simp: action_command_def judge_def Let_def split: if_splits)
next
  case False
  with assms have "trusted_success J f su now \<or> unknown_with_state J f su"
    by (auto simp: judge_def Let_def split: if_splits)
  moreover have "vd_rollback (judge J f su now) = su_rollback su"
    using assms(1) by (auto simp: judge_def Let_def split: if_splits)
  ultimately show ?thesis
    using trusted_success_evidence [of J f su now] assms(2) by (auto simp: unknown_with_state_def unknown_receipt_def)
qed

lemma project_execute_row:
  assumes "project J i p CommandExecuteAction now s = Inr (late, s')"
  shows "\<exists>a \<in> set (st_actions s). action_in p Executing a \<and> execute_update p now a \<in> set (st_actions s')"
proof -
  from assms obtain s1 where m: "move_action p Executing (execute_update p now) s = Inr s1" and same: "st_actions s' = st_actions s1"
    by (auto simp: project_def project_execute_def Let_def bindE_Inr_iff project_bans_def split: if_splits option.splits
        dest!: inserts_unchanged)
  then have "affected (action_in p Executing) s = 1" and s1: "s1 = update_actions (action_in p Executing) (execute_update p now) s"
    by (auto simp: move_action_def split: if_splits)
  then obtain a where "a \<in> set (st_actions s)" "action_in p Executing a"
    using cnt_where_0_iff [of "action_in p Executing" "st_actions s"] by (auto simp: affected_def)
  then show ?thesis unfolding same s1 by (auto simp: update_actions_def set_upd_where)
qed

lemma settle_execute_row:
  assumes "settle_command J ids c m su digest now s = Inr (oc, s')" and "cm_completed c = None" and "cm_type c = CommandExecuteAction"
  shows "\<exists>a \<in> set (st_actions s). ac_id a = me_action m \<and> ac_device a = cm_device c \<and> ac_status a = Executing \<and>
    execute_update (projection_of J c m su (judge J (case_of J c m su) su now)) now a \<in> set (st_actions s')"
proof -
  let ?v = "judge J (case_of J c m su) su now"
  let ?p = "projection_of J c m su ?v"
  let ?s1 = "record_result c (stored_result J c su ?v) (vd_error ?v) digest now s"
  from assms obtain late s2 where p: "project J (fst ids) ?p CommandExecuteAction now ?s1 = Inr (late, s2)"
    and f: "follow_up J (snd ids) ?p CommandExecuteAction late now s2 = Inr (oc, s')"
    by (auto simp: settle_command_def Let_def bindE_Inr_iff action_command_def)
  from project_execute_row [OF p] follow_up_unchanged [OF f] show ?thesis
    by (auto simp: action_in_def projection_of_def)
qed

section \<open>A concrete completion\<close>

definition demo_result :: submission where
  "demo_result = \<lparr>su_ok = True, su_result = ''{}'', su_rollback = ''[7]'', su_audit = ''r'', su_error = []\<rparr>"

lemma demo_verdict:
  "judge demo_jx (case_of demo_jx (demo_command\<lparr>cm_started := Some 300\<rparr>)
     \<lparr>me_action = ''act1'', me_type = TypeTemporaryIPBan, me_params = ''{}''\<rparr> demo_result) demo_result 400 =
   \<lparr>vd_ok = True, vd_indeterminate = False, vd_error = [], vd_rollback = ''[7]'', vd_resume = False, vd_warn = False\<rparr>"
  by (simp add: judge_def objection_def receipt_objection_def confirm_objection_def legacy_resume_def trusted_success_def
      unknown_with_state_def unknown_without_state_def unknown_receipt_def receipt_of_def receipt_matches_def
      expected_operation_def valid_successful_steps_def expected_steps_def valid_rollback_state_def action_command_def
      demo_result_def demo_receipt_def demo_jx_def demo_command_def new_command_def ExecutionIndeterminateMessage_def
      action_type_defs demo_lib_def Let_def)

lemma demo_complete:
  "\<exists>oc s'. complete_command_and_action demo_jx ([], [], []) ''dev1'' ''cmd1'' demo_result 400 demo_running = Inr (oc, s') \<and>
     oc_new oc \<and> oc_ok oc"
proof -
  let ?c = "demo_command\<lparr>cm_started := Some 300\<rparr>"
  let ?m = "\<lparr>me_action = ''act1'', me_type = TypeTemporaryIPBan, me_params = ''{}''\<rparr>"
  have su: "demo_result\<lparr>su_result := nonempty_json (su_result demo_result)\<rparr> = demo_result"
    by (simp add: demo_result_def nonempty_json_def)
  obtain d where d: "completion_digest demo_jx ''dev1'' ''cmd1'' demo_result = Some d"
    by (simp add: completion_digest_def demo_jx_def demo_result_def)
  have c: "find_command ''cmd1'' ''dev1'' demo_running = Some ?c" by (simp add: find_command_def demo_store_defs)
  have "\<exists>oc s'. settle_command demo_jx ([], [], []) ?c ?m demo_result d 400 demo_running = Inr (oc, s') \<and> oc_new oc \<and> oc_ok oc"
    unfolding settle_command_def Let_def demo_verdict
    by (simp add: project_def project_execute_def move_action_def action_in_def affected_def cnt_where_def project_bans_def
        follow_up_def sync_plan_def plan_of_action_def insert_audit_def audit_entry_def record_result_def update_commands_def
        update_actions_def update_bans_def upd_where_def execute_update_def projection_of_def receipt_of_def demo_receipt_def
        action_command_def demo_store_defs demo_jx_def seconds_def wrap64_def Let_def)
  then show ?thesis
    using c d by (simp add: complete_command_and_action_def su action_command_def demo_jx_def demo_command_def new_command_def)
qed

section \<open>Properties\<close>

text \<open>
  C5: A device's claim is never enough: when a newly completed action command counts
  as a success, the submission carried a decodable helper receipt for exactly this
  action, type, operation and parameters, with every step successful, and an
  execution's rollback state is the one the receipt binds by its digest.
\<close>

theorem completion_success_proven:
  assumes "complete_command_and_action J ids dev cid su now s = Inr (oc, s')" and "oc_new oc" and "oc_ok oc"
    and "find_command cid dev s = Some c" and "action_command (cm_type c)"
  shows "cm_started c \<noteq> None \<and> (\<exists>m rc. jx_meta J (cm_payload c) = Some m \<and> su_audit su \<noteq> [] \<and>
    jx_receipt J (su_audit su) = (rc, True) \<and> proven_success J (cm_type c) m rc (su_rollback su))"
proof -
  let ?su = "su\<lparr>su_result := nonempty_json (su_result su)\<rparr>"
  from assms(1,2) obtain c' m digest where c': "find_command cid dev s = Some c'" "cm_completed c' = None"
    and st: "settle_command J ids c' m ?su digest now s = Inr (oc, s')"
    and m: "if action_command (cm_type c') then jx_meta J (cm_payload c') = Some m \<and> me_action m \<noteq> [] \<and> cm_started c' \<noteq> None
      else m = no_meta"
    by (rule completion_new)
  have [simp]: "c' = c" using c'(1) assms(4) by simp
  have "vd_ok (judge J (case_of J c m ?su) ?su now)" using settle_outcome [OF st c'(2)] assms(3) by simp
  from judge_ok [OF this] assms(5)
  have "su_audit su \<noteq> [] \<and> snd (jx_receipt J (su_audit su)) \<and>
      proven_success J (cm_type c) m (fst (jx_receipt J (su_audit su))) (su_rollback su)"
    by (auto simp: case_of_def receipt_of_def Let_def split_beta proven_success_def split: if_splits)
  with m assms(5) show ?thesis by (cases "jx_receipt J (su_audit su)") auto
qed

theorem completion_success_proven_witness:
  "proven_success demo_jx CommandExecuteAction \<lparr>me_action = ''act1'', me_type = TypeTemporaryIPBan, me_params = ''{}''\<rparr>
     demo_receipt ''[7]''"
proof -
  let ?c = "demo_command\<lparr>cm_started := Some 300\<rparr>"
  obtain oc s' where s': "complete_command_and_action demo_jx ([], [], []) ''dev1'' ''cmd1'' demo_result 400 demo_running = Inr (oc, s')"
    and o: "oc_new oc" "oc_ok oc" using demo_complete by blast
  have c: "find_command ''cmd1'' ''dev1'' demo_running = Some ?c" "action_command (cm_type ?c)"
    by (simp_all add: find_command_def demo_store_defs action_command_def)
  from completion_success_proven [OF s' o c] show ?thesis
    by (auto simp: demo_jx_def demo_result_def demo_command_def new_command_def)
qed



text \<open>
  C11: A newly completed execution moves its action out of \<open>executing\<close>: to a success,
  a confirmation window or an automatic resume when the verdict is a success, to
  failed or indeterminate otherwise; and rollback state is kept only when a matching
  receipt binds it by its digest.
\<close>

theorem execution_result_recorded:
  assumes "complete_command_and_action J ids dev cid su now s = Inr (oc, s')" and "oc_new oc"
    and "find_command cid dev s = Some c" and "cm_type c = CommandExecuteAction"
  shows "\<exists>m a b. jx_meta J (cm_payload c) = Some m \<and> a \<in> set (st_actions s) \<and> b \<in> set (st_actions s') \<and>
    ac_id a = me_action m \<and> ac_device a = dev \<and> ac_status a = Executing \<and> ac_id b = ac_id a \<and> ac_device b = dev \<and>
    ac_status b \<in> (if oc_ok oc then {Succeeded, AwaitingConfirmation, RollingBack} else {Failed, Indeterminate}) \<and>
    (\<forall>rb. ac_rollback b = Some rb \<longrightarrow> rb = su_rollback su \<and>
       (\<exists>rc. jx_receipt J (su_audit su) = (rc, True) \<and> receipt_matches J (cm_type c) m rc \<and>
          (hr_success rc \<or> hr_indeterminate rc) \<and> hr_state_digest rc = digest_bytes (jx_lib J) rb))"
proof -
  let ?su = "su\<lparr>su_result := nonempty_json (su_result su)\<rparr>"
  from assms(1,2) obtain c' m digest where c': "find_command cid dev s = Some c'" "cm_completed c' = None"
    and st: "settle_command J ids c' m ?su digest now s = Inr (oc, s')"
    and m: "if action_command (cm_type c') then jx_meta J (cm_payload c') = Some m \<and> me_action m \<noteq> [] \<and> cm_started c' \<noteq> None
      else m = no_meta"
    by (rule completion_new)
  have [simp]: "c' = c" using c'(1) assms(3) by simp
  have dev: "cm_device c = dev" using find_command_ids [OF assms(3)] by simp
  let ?f = "case_of J c m ?su" let ?v = "judge J ?f ?su now"
  from settle_execute_row [OF st c'(2)] assms(4) obtain a where a: "a \<in> set (st_actions s)" "ac_id a = me_action m"
    "ac_device a = dev" "ac_status a = Executing" and b: "execute_update (projection_of J c m ?su ?v) now a \<in> set (st_actions s')"
    by (auto simp: dev)
  have ok: "oc_ok oc = vd_ok ?v" using settle_outcome [OF st c'(2)] by simp
  have resume: "vd_resume ?v \<Longrightarrow> vd_ok ?v" and unk: "vd_indeterminate ?v \<Longrightarrow> \<not> vd_ok ?v"
    by (auto simp: judge_def Let_def unknown_with_state_def unknown_without_state_def unknown_receipt_def split: if_splits)
  define p where "p = projection_of J c m ?su ?v"
  define b where "b = execute_update p now a"
  have bf: "ac_id b = ac_id a" "ac_device b = dev" "ac_status b = execute_status p" "ac_rollback b = nullable_json (vd_rollback ?v)"
    using a(3) by (simp_all add: b_def execute_update_def Let_def p_def projection_of_def)
  have st': "execute_status p \<in> (if oc_ok oc then {Succeeded, AwaitingConfirmation, RollingBack} else {Failed, Indeterminate})"
    using ok resume unk by (auto simp: p_def execute_status_def projection_of_def Let_def)
  have bin: "b \<in> set (st_actions s')" using b by (simp add: b_def p_def)
  have rb: "rb = su_rollback su \<and> (\<exists>rc. jx_receipt J (su_audit su) = (rc, True) \<and> receipt_matches J (cm_type c) m rc \<and>
          (hr_success rc \<or> hr_indeterminate rc) \<and> hr_state_digest rc = digest_bytes (jx_lib J) rb)"
    if "ac_rollback b = Some rb" for rb
  proof -
    have eq: "vd_rollback ?v \<noteq> []" "rb = vd_rollback ?v"
      using that by (auto simp: bf(4) nullable_json_def split: if_splits)
    obtain rc dec where r: "jx_receipt J (su_audit su) = (rc, dec)" by fastforce
    show ?thesis using judge_rollback [OF eq(1)] assms(4) r unfolding eq(2)
      by (cases "su_audit su = []") (simp_all add: receipt_of_def action_command_def)
  qed
  have meta: "jx_meta J (cm_payload c) = Some m" using m assms(4) by (simp add: action_command_def)
  from a bf(1,2) st'[folded bf(3)] bin rb meta show ?thesis by blast
qed

theorem execution_result_recorded_witness:
  "\<exists>oc s' b. complete_command_and_action demo_jx ([], [], []) ''dev1'' ''cmd1'' demo_result 400 demo_running = Inr (oc, s') \<and>
     b \<in> set (st_actions s') \<and> ac_id b = ''act1'' \<and> ac_status b \<in> {Succeeded, AwaitingConfirmation, RollingBack}"
proof -
  let ?c = "demo_command\<lparr>cm_started := Some 300\<rparr>"
  obtain oc s' where s': "complete_command_and_action demo_jx ([], [], []) ''dev1'' ''cmd1'' demo_result 400 demo_running = Inr (oc, s')"
    and o: "oc_new oc" "oc_ok oc" using demo_complete by blast
  have c: "find_command ''cmd1'' ''dev1'' demo_running = Some ?c" "cm_type ?c = CommandExecuteAction"
    by (simp_all add: find_command_def demo_store_defs)
  have m: "jx_meta demo_jx (cm_payload ?c) = Some m \<Longrightarrow> me_action m = ''act1''" for m
    by (auto simp: demo_jx_def demo_command_def new_command_def)
  from execution_result_recorded [OF s' o(1) c] m s' o(2) show ?thesis by fastforce
qed

end
