(* ===== verification/ReceiptCache.thy ===== *)
theory ReceiptCache
  imports Engine
begin

text \<open>
  The privileged helper's durable receipt cache (\<open>cmd/witshield-helper/receipt_cache.go\<close>):
  one file per attempt, written as \<open>started\<close> before the engine runs and replaced by
  the \<open>final\<close> response after it.
\<close>

section \<open>Messages\<close>

record process =
  ps_identity :: string
  ps_event :: string
  ps_reason :: string
  ps_name :: string
  ps_executable :: string
  ps_pid :: int
  ps_ppid :: int
  ps_uid :: nat
  ps_start :: nat

record helper_request =
  hq_token :: string
  hq_kind :: string
  hq_attempt :: string
  hq_action :: string
  hq_type :: action_type
  hq_op :: operation
  hq_params :: bytes
  hq_state :: bytes
  hq_rollback :: bytes

record helper_response =
  hp_ok :: bool
  hp_result :: "act_result option"
  hp_rollback :: bytes
  hp_receipt :: "receipt option"
  hp_error :: string
  hp_processes :: "process list"
  hp_observed :: int
  hp_truncated :: bool

definition error_response :: "string \<Rightarrow> helper_response" where
  "error_response e = \<lparr>hp_ok = False, hp_result = None, hp_rollback = [], hp_receipt = None, hp_error = e,
     hp_processes = [], hp_observed = 0, hp_truncated = False\<rparr>"

section \<open>Files\<close>

record cached =
  ch_attempt :: string
  ch_action :: string
  ch_type :: action_type
  ch_op :: operation
  ch_digest :: string
  ch_state :: string
  ch_response :: helper_response

text \<open>
  A \<open>.json\<close> file of the directory, with the size and time the file system reports.
  \<open>rf_state\<close> is what \<open>ensureCapacity\<close> reads of it, \<open>None\<close> where it refuses its type,
  mode, owner, size or encoding; \<open>rf_item\<close> is what the strict decoding of \<open>load\<close> makes of it.
\<close>

record receipt_file =
  rf_path :: string
  rf_size :: nat
  rf_time :: instant
  rf_state :: "string option"
  rf_item :: "cached option"

record cache_config =
  cc_dir :: string
  cc_items :: nat
  cc_bytes :: nat

text \<open>
  What a write meets: nothing, an error before the new file is in place, or one
  after (the synchronisation of the directory).
\<close>

datatype io_fault = NoFault | FaultBefore string | FaultAfter string

fun operation_name :: "operation \<Rightarrow> string" where
  "operation_name Precheck = ''precheck''"
| "operation_name Preview = ''preview''"
| "operation_name Apply = ''apply''"
| "operation_name Verify = ''verify''"
| "operation_name Rollback = ''rollback''"
| "operation_name Execute = ''execute''"
| "operation_name Confirm = ''confirm''"
| "operation_name (OtherOp x) = x"

definition request_digest :: "lib \<Rightarrow> action_type \<Rightarrow> operation \<Rightarrow> bytes \<Rightarrow> bytes \<Rightarrow> string" where
  "request_digest L t op params state =
     hex_encode (sha256 L (t @ CHR 0x00 # operation_name op @ CHR 0x00 # params @ CHR 0x00 # state))"

definition receipt_path :: "lib \<Rightarrow> cache_config \<Rightarrow> string \<Rightarrow> string" where
  "receipt_path L c attempt = cc_dir c @ ''/'' @ hex_encode (sha256 L attempt) @ ''.json''"

definition valid_item_state :: "string \<Rightarrow> bool" where
  "valid_item_state st \<longleftrightarrow> st = ''started'' \<or> st = ''final''"

section \<open>Capacity\<close>

definition unsafe_file :: "receipt_file \<Rightarrow> bool" where
  "unsafe_file f \<longleftrightarrow> (case rf_state f of None \<Rightarrow> True | Some st \<Rightarrow> \<not> valid_item_state st)"

definition final_file :: "receipt_file \<Rightarrow> bool" where
  "final_file f \<longleftrightarrow> rf_state f = Some ''final''"

definition fits :: "cache_config \<Rightarrow> nat \<Rightarrow> nat \<Rightarrow> bool" where
  "fits c count tot \<longleftrightarrow> count \<le> cc_items c \<and> tot \<le> cc_bytes c"

text \<open>The eviction loop over the final files, oldest first.\<close>

fun evict :: "cache_config \<Rightarrow> nat \<Rightarrow> nat \<Rightarrow> receipt_file list \<Rightarrow> receipt_file list \<Rightarrow> (nat \<times> nat) \<times> receipt_file list" where
  "evict c count tot [] d = ((count, tot), d)"
| "evict c count tot (f # fs) d =
     (if fits c count tot then ((count, tot), d)
      else evict c (count - 1) (tot - rf_size f) fs (filter (\<lambda>g. rf_path g \<noteq> rf_path f) d))"

definition ensure_room :: "cache_config \<Rightarrow> nat \<Rightarrow> string \<Rightarrow> bool \<Rightarrow> receipt_file list \<Rightarrow> string option \<times> receipt_file list" where
  "ensure_room c required replacing add d =
     (let entries = filter (\<lambda>f. rf_path f \<noteq> replacing) d;
          count = length entries + (if add then 1 else 0);
          tot = sum_list (map rf_size entries) + (if add then required else 0)
      in if list_ex unsafe_file entries then (Some ''receipt cache contains an unsafe file'', d)
         else if fits c count tot then (None, d)
         else (let ((count', tot'), d') = evict c count tot (sort_key rf_time (filter final_file entries)) d
               in if fits c count' tot' then (None, d')
                  else (Some ''receipt cache capacity reached; unresolved started actions are retained'', d')))"

section \<open>Writing and loading\<close>

text \<open>The file of an item: one of more than four mebibytes can be written, and is refused when read.\<close>

definition receipt_file_of :: "string \<Rightarrow> bytes \<Rightarrow> instant \<Rightarrow> cached \<Rightarrow> receipt_file" where
  "receipt_file_of path b now item =
     (let readable = length b \<le> 4194304
      in \<lparr>rf_path = path, rf_size = length b, rf_time = now,
          rf_state = (if readable then Some (ch_state item) else None), rf_item = (if readable then Some item else None)\<rparr>)"

lemma receipt_file_of_simps [simp]:
  "rf_path (receipt_file_of path b now item) = path" "rf_size (receipt_file_of path b now item) = length b"
  "rf_item (receipt_file_of path b now item) = Some i \<longleftrightarrow> length b \<le> 4194304 \<and> i = item"
  "rf_item (receipt_file_of path b now item) = None \<longleftrightarrow> length b > 4194304"
  "rf_state (receipt_file_of path b now item) = Some st \<longleftrightarrow> length b \<le> 4194304 \<and> st = ch_state item"
  by (auto simp: receipt_file_of_def Let_def)

definition put_file :: "receipt_file \<Rightarrow> receipt_file list \<Rightarrow> receipt_file list" where
  "put_file f d = filter (\<lambda>g. rf_path g \<noteq> rf_path f) d @ [f]"

definition write_item :: "cache_config \<Rightarrow> (cached \<Rightarrow> bytes) \<Rightarrow> instant \<Rightarrow> io_fault \<Rightarrow> string \<Rightarrow> cached \<Rightarrow> bool \<Rightarrow>
    receipt_file list \<Rightarrow> string option \<times> receipt_file list" where
  "write_item c enc now fault path item exclusive d =
     (let b = enc item; f = receipt_file_of path b now item
      in case ensure_room c (length b) path True d of
          (Some e, d1) \<Rightarrow> (Some e, d1)
        | (None, d1) \<Rightarrow>
           (if exclusive
            then (if path \<in> rf_path ` set d1 then (Some ''file exists'', d1)
                  else case fault of
                      NoFault \<Rightarrow> (None, d1 @ [f])
                    | FaultBefore e \<Rightarrow> (Some e, d1)
                    | FaultAfter e \<Rightarrow> (Some e, d1))
            else (case fault of
                      NoFault \<Rightarrow> (None, put_file f d1)
                    | FaultBefore e \<Rightarrow> (Some e, d1)
                    | FaultAfter e \<Rightarrow> (Some e, put_file f d1))))"

definition started_item :: "lib \<Rightarrow> helper_request \<Rightarrow> operation \<Rightarrow> bytes \<Rightarrow> cached" where
  "started_item L q op state = \<lparr>ch_attempt = hq_attempt q, ch_action = hq_action q, ch_type = hq_type q, ch_op = op,
     ch_digest = request_digest L (hq_type q) op (hq_params q) state, ch_state = ''started'',
     ch_response = error_response ExecutionIndeterminateMessage\<rparr>"

definition final_item :: "lib \<Rightarrow> helper_request \<Rightarrow> operation \<Rightarrow> bytes \<Rightarrow> helper_response \<Rightarrow> cached" where
  "final_item L q op state response = \<lparr>ch_attempt = hq_attempt q, ch_action = hq_action q, ch_type = hq_type q, ch_op = op,
     ch_digest = request_digest L (hq_type q) op (hq_params q) state, ch_state = ''final'', ch_response = response\<rparr>"

definition load_item :: "lib \<Rightarrow> cache_config \<Rightarrow> helper_request \<Rightarrow> operation \<Rightarrow> bytes \<Rightarrow> receipt_file list \<Rightarrow>
    string + helper_response option" where
  "load_item L c q op state d =
     (case find (\<lambda>f. rf_path f = receipt_path L c (hq_attempt q)) d of
        None \<Rightarrow> Inr None
      | Some f \<Rightarrow>
         (case rf_item f of
            None \<Rightarrow> Inl ''unsafe cached receipt''
          | Some i \<Rightarrow>
             (if ch_attempt i \<noteq> hq_attempt q \<or> ch_action i \<noteq> hq_action q \<or> ch_type i \<noteq> hq_type q \<or> ch_op i \<noteq> op \<or>
                 ch_digest i \<noteq> request_digest L (hq_type q) op (hq_params q) state
              then Inl ''action ID replayed with different operation or parameters''
              else if \<not> valid_item_state (ch_state i) then Inl ''cached receipt has invalid state''
              else Inr (Some (ch_response i)))))"

end
