(* ===== verification/HelperServer.thy ===== *)
theory HelperServer
  imports ReceiptCache
begin

text \<open>
  The request handler of the privileged helper (\<open>cmd/witshield-helper/main.go\<close>).
  Cacheable requests hold one mutex from the lookup of their attempt to the saving
  of its response, so a sequence of handler calls is what clients can observe.
\<close>

section \<open>Reading a request\<close>

abbreviation (input) max_request_bytes :: nat where "max_request_bytes \<equiv> 1048576"

text \<open>One line of at most a mebibyte; \<open>Inl None\<close> is a connection closed without an answer.\<close>

definition read_request :: "bytes \<Rightarrow> helper_response option + bytes" where
  "read_request s =
     (let l = takeWhile (\<lambda>c. c \<noteq> CHR 0x0A) s
      in if length l > max_request_bytes then Inl (Some (error_response ''request exceeds size limit''))
         else if length l = length s then Inl None
         else if length l + 1 > max_request_bytes then Inl (Some (error_response ''request exceeds size limit''))
         else Inr (l @ [CHR 0x0A]))"

text \<open>\<open>peer\<close> is the uid of the connected process, if the kernel reports it.\<close>

definition token_matches :: "string \<Rightarrow> bytes \<Rightarrow> bool" where
  "token_matches candidate expected \<longleftrightarrow> candidate = expected"

definition authenticate :: "nat option \<Rightarrow> string \<Rightarrow> bytes \<Rightarrow> string option" where
  "authenticate peer candidate token =
     (if peer = Some 0 then Some ''local-uid:0''
      else if \<not> token_matches candidate token then None
      else case peer of Some u \<Rightarrow> Some (''local-uid:'' @ itoa (int u)) | None \<Rightarrow> Some ''local-token-client'')"

definition attempt_id_ok :: "string \<Rightarrow> bool" where
  "attempt_id_ok = class_pattern is_alnum
     (\<lambda>c. is_alnum c \<or> c \<in> {CHR ''_'', CHR ''.'', CHR '':'', CHR ''-''}) 127"

section \<open>The helper\<close>

record 'w helper_env =
  he_lib :: lib
  he_engine :: "'w engine"
  he_cache :: cache_config
  he_enc :: "cached \<Rightarrow> bytes"
  he_decode :: "bytes \<Rightarrow> helper_request option"
  he_token :: bytes
  he_observe :: "(string + process list \<times> int \<times> bool) option"

record 'w helper =
  hl_files :: "receipt_file list"
  hl_world :: 'w

text \<open>What one request meets: the engine's clock and receipt identifier, the times and faults of the two writes.\<close>

record circumstances =
  ci_clock :: "nat \<Rightarrow> instant"
  ci_rid :: string
  ci_begin_at :: instant
  ci_begin_fault :: io_fault
  ci_save_at :: instant
  ci_save_fault :: io_fault

definition cacheable :: "operation \<Rightarrow> bool" where
  "cacheable op \<longleftrightarrow> op = Execute \<or> op = Rollback \<or> op = Confirm"

text \<open>The operation and state of a request, or the error its shape is refused with.\<close>

definition shape :: "helper_request \<Rightarrow> string + operation \<times> bytes" where
  "shape q =
     (if \<not> attempt_id_ok (hq_attempt q) then Inl ''invalid attempt identity''
      else if hq_state q \<noteq> [] \<and> hq_rollback q \<noteq> [] then Inl ''state and rollbackPayload are mutually exclusive''
      else (let op = (if hq_op q = OtherOp [] then (if hq_rollback q \<noteq> [] then Rollback else Execute) else hq_op q);
                state = (if hq_rollback q \<noteq> [] then hq_rollback q else hq_state q)
            in if op \<in> {Precheck, Preview, Apply, Execute} \<and> state \<noteq> []
               then Inl ''rollback state is not accepted for this operation''
               else Inr (op, state)))"

fun last_result :: "audit_step list \<Rightarrow> act_result option" where
  "last_result [] = None"
| "last_result (x # xs) = (case last_result xs of Some r \<Rightarrow> Some r | None \<Rightarrow> st_result x)"

definition response_of :: "receipt \<Rightarrow> helper_response" where
  "response_of rc = \<lparr>hp_ok = rc_success rc, hp_result = last_result (rc_steps rc), hp_rollback = rc_state rc,
     hp_receipt = Some rc, hp_error = rc_error rc, hp_processes = [], hp_observed = 0, hp_truncated = False\<rparr>"

definition unsaved_response :: "receipt \<Rightarrow> helper_response" where
  "unsaved_response rc = (response_of rc)\<lparr>hp_ok := False, hp_error := (if rc_success rc then ReceiptPersistenceFailureMessage
     else ''action did not reach a verified state and durable receipt persistence also failed: '' @ rc_error rc)\<rparr>"

definition engine_request :: "helper_request \<Rightarrow> string \<Rightarrow> operation \<Rightarrow> bytes \<Rightarrow> request" where
  "engine_request q actor op state = \<lparr>rq_action_id = hq_action q, rq_actor = actor, rq_type = hq_type q, rq_op = op,
     rq_params = hq_params q, rq_state = state\<rparr>"

text \<open>From the lookup of the attempt on.\<close>

definition perform :: "'w helper_env \<Rightarrow> circumstances \<Rightarrow> helper_request \<Rightarrow> string \<Rightarrow> operation \<Rightarrow> bytes \<Rightarrow> 'w helper \<Rightarrow>
    helper_response \<times> 'w helper" where
  "perform E ci q actor op state h =
     (let L = he_lib E; c = he_cache E; path = receipt_path L c (hq_attempt q);
          go = (\<lambda>d. let (rc, w) = run L (ci_clock ci) (ci_rid ci) (he_engine E) (engine_request q actor op state) (hl_world h)
                    in (rc, \<lparr>hl_files = d, hl_world = w\<rparr>))
      in if \<not> cacheable op then (let (rc, h1) = go (hl_files h) in (response_of rc, h1))
         else case load_item L c q op state (hl_files h) of
             Inl _ \<Rightarrow> (error_response ''receipt cache validation failed'', h)
           | Inr (Some cached_response) \<Rightarrow> (cached_response, h)
           | Inr None \<Rightarrow>
              (case write_item c (he_enc E) (ci_begin_at ci) (ci_begin_fault ci) path (started_item L q op state) True (hl_files h) of
                 (Some _, d) \<Rightarrow> (error_response ''failed to persist action execution intent'', h\<lparr>hl_files := d\<rparr>)
               | (None, d) \<Rightarrow>
                  (let (rc, h1) = go d
                   in case write_item c (he_enc E) (ci_save_at ci) (ci_save_fault ci) path (final_item L q op state (response_of rc)) False (hl_files h1) of
                       (None, d2) \<Rightarrow> (response_of rc, h1\<lparr>hl_files := d2\<rparr>)
                     | (Some _, d2) \<Rightarrow> (unsaved_response rc, h1\<lparr>hl_files := d2\<rparr>))))"

definition observe :: "'w helper_env \<Rightarrow> helper_request \<Rightarrow> helper_response" where
  "observe E q =
     (if hq_kind q \<noteq> ''observe_suspicious_processes_v1'' \<or> hq_attempt q \<noteq> [] \<or> hq_action q \<noteq> [] \<or> hq_type q \<noteq> [] \<or>
         hq_op q \<noteq> OtherOp [] \<or> hq_params q \<noteq> [] \<or> hq_state q \<noteq> [] \<or> hq_rollback q \<noteq> [] \<or> he_observe E = None
      then error_response ''invalid observation request''
      else case the (he_observe E) of
          Inl _ \<Rightarrow> error_response ''process observation failed''
        | Inr (ps, observed, truncated) \<Rightarrow>
            (if length ps > 256 \<or> observed < int (length ps) then error_response ''process observation exceeded safe capacity''
             else (error_response [])\<lparr>hp_ok := True, hp_processes := ps, hp_observed := observed, hp_truncated := truncated\<rparr>))"

text \<open>One connection: \<open>None\<close> is no answer.\<close>

definition handle :: "'w helper_env \<Rightarrow> nat option \<Rightarrow> circumstances \<Rightarrow> bytes \<Rightarrow> 'w helper \<Rightarrow> helper_response option \<times> 'w helper" where
  "handle E peer ci stream h =
     (case read_request stream of
        Inl r \<Rightarrow> (r, h)
      | Inr line \<Rightarrow>
         (case he_decode E line of
            None \<Rightarrow> (Some (error_response ''invalid request''), h)
          | Some q \<Rightarrow>
             (case authenticate peer (hq_token q) (he_token E) of
                None \<Rightarrow> (Some (error_response ''authentication failed''), h)
              | Some actor \<Rightarrow>
                 (if hq_kind q \<noteq> [] then (Some (observe E q), h)
                  else case shape q of
                      Inl e \<Rightarrow> (Some (error_response e), h)
                    | Inr (op, state) \<Rightarrow> (let (r, h1) = perform E ci q actor op state h in (Some r, h1))))))"

end
