(* ===== verification/HelperLaws.thy ===== *)
theory HelperLaws
  imports HelperServer
begin

text \<open>
  Lemmas on the helper: what eviction and the two writes of an attempt do to the cache
  directory, the cases of a request, and what every step of the helper keeps.
\<close>

section \<open>Directories\<close>

definition dir_ok :: "cache_config \<Rightarrow> receipt_file list \<Rightarrow> bool" where
  "dir_ok c d \<longleftrightarrow> distinct (map rf_path d) \<and> fits c (length d) (sum_list (map rf_size d))"

abbreviation others :: "string \<Rightarrow> receipt_file list \<Rightarrow> receipt_file list" where
  "others p d \<equiv> filter (\<lambda>f. rf_path f \<noteq> p) d"

lemma filter_key_remove1:
  "distinct (map k d) \<Longrightarrow> x \<in> set d \<Longrightarrow> filter (\<lambda>g. k g \<noteq> k x) d = remove1 x d"
proof (induction d)
  case (Cons a d)
  show ?case
  proof (cases "a = x")
    case True
    then have "\<forall>g \<in> set d. k g \<noteq> k x" using Cons.prems(1) by (auto simp: image_iff)
    with True show ?thesis by (simp add: filter_id_conv)
  next
    case False
    then have "x \<in> set d" using Cons.prems(2) by simp
    moreover from this have "k a \<noteq> k x" using Cons.prems(1) by (auto simp: image_iff)
    ultimately show ?thesis using Cons False by simp
  qed
qed simp

lemma fits_mono: "fits c m n \<Longrightarrow> m' \<le> m \<Longrightarrow> n' \<le> n \<Longrightarrow> fits c m' n'"
  by (simp add: fits_def)

lemma dir_ok_filter: "dir_ok c d \<Longrightarrow> dir_ok c (filter P d)"
proof -
  have "sum_list (map rf_size (filter P d)) \<le> sum_list (map rf_size d)" by (induction d) auto
  then show "dir_ok c d \<Longrightarrow> dir_ok c (filter P d)"
    by (auto simp: dir_ok_def distinct_map_filter intro: fits_mono)
qed

section \<open>Eviction\<close>

text \<open>Eviction removes listed files only, and its counters follow the directory.\<close>

lemma evict_spec:
  assumes "evict c count tot fs d = ((count', tot'), d')" and "distinct (map rf_path d)"
    and "set fs \<subseteq> set (others p d)" and "distinct (map rf_path fs)"
    and "count = length (others p d) + a" and "tot = sum_list (map rf_size (others p d)) + b"
  shows "count' = length (others p d') + a \<and> tot' = sum_list (map rf_size (others p d')) + b \<and>
    (\<exists>Q. d' = filter (\<lambda>g. rf_path g \<notin> Q) d \<and> Q \<subseteq> rf_path ` set fs)"
  using assms
proof (induction c count tot fs d rule: evict.induct)
  case (1 c count tot d)
  then show ?case by (auto intro: exI [of _ "{}"])
next
  case (2 c count tot f fs d)
  show ?case
  proof (cases "fits c count tot")
    case True
    with 2 show ?thesis by (auto intro: exI [of _ "{}"])
  next
    case False
    let ?d = "filter (\<lambda>g. rf_path g \<noteq> rf_path f) d"
    have f: "f \<in> set (others p d)" using "2.prems"(3) by simp
    have d: "distinct (map rf_path (others p d))" using "2.prems"(2) by (simp add: distinct_map_filter)
    have "others p ?d = filter (\<lambda>g. rf_path g \<noteq> rf_path f) (others p d)" by (simp add: conj_commute)
    then have o: "others p ?d = remove1 f (others p d)" using filter_key_remove1 [OF d f] by simp
    have sub: "set fs \<subseteq> set (others p ?d)"
    proof
      fix g assume g: "g \<in> set fs"
      then have "rf_path g \<noteq> rf_path f" using "2.prems"(4) by (auto simp: image_iff)
      with g "2.prems"(3) show "g \<in> set (others p ?d)" by auto
    qed
    have cnt: "count - 1 = length (others p ?d) + a"
    proof -
      have "length (remove1 f (others p d)) + 1 = length (others p d)"
        using length_pos_if_in_set [OF f] f by (simp add: length_remove1 del: length_filter_conv_card)
      then show ?thesis using "2.prems"(5) unfolding o by linarith
    qed
    have tot: "tot - rf_size f = sum_list (map rf_size (others p ?d)) + b"
      using "2.prems"(6) f unfolding o by (simp add: sum_list_map_remove1)
    from "2.prems"(1) False have "evict c (count - 1) (tot - rf_size f) fs ?d = ((count', tot'), d')" by simp
    from "2.IH" [OF False this _ sub _ cnt tot] "2.prems"(2,4) obtain Q
      where "count' = length (others p d') + a" "tot' = sum_list (map rf_size (others p d')) + b"
        "d' = filter (\<lambda>g. rf_path g \<notin> Q) ?d" "Q \<subseteq> rf_path ` set fs"
      by (auto simp: distinct_map_filter)
    then show ?thesis by (intro conjI exI [of _ "insert (rf_path f) Q"]) auto
  qed
qed

lemma ensure_room_spec:
  assumes "ensure_room c req p True d = (e, d')" and "distinct (map rf_path d)"
  shows "(\<exists>Q. d' = filter (\<lambda>g. rf_path g \<notin> Q) d \<and> p \<notin> Q \<and> (\<forall>f \<in> set d. rf_path f \<in> Q \<longrightarrow> final_file f)) \<and>
    (e = None \<longrightarrow> fits c (length (others p d') + 1) (sum_list (map rf_size (others p d')) + req))"
proof -
  let ?n = "length (others p d) + 1" and ?t = "sum_list (map rf_size (others p d)) + req"
  let ?fs = "sort_key rf_time (filter final_file (others p d))"
  show ?thesis
  proof (cases "list_ex unsafe_file (others p d) \<or> fits c ?n ?t")
    case True
    with assms(1) have "d' = d" "e = None \<longrightarrow> fits c ?n ?t" by (auto simp: ensure_room_def Let_def split: if_splits)
    then show ?thesis by (auto intro!: exI [of _ "{}"])
  next
    case False
    obtain n' t' d'' where ev: "evict c ?n ?t ?fs d = ((n', t'), d'')" by (metis prod.exhaust)
    have di: "distinct (map rf_path ?fs)"
      using assms(2) by (simp add: distinct_map distinct_filter inj_on_subset [of _ "set d"] subset_iff)
    have "set ?fs \<subseteq> set (others p d)" by auto
    from evict_spec [OF ev assms(2) this di, of 1 req] obtain Q where
      s: "n' = length (others p d'') + 1" "t' = sum_list (map rf_size (others p d'')) + req"
      and Q: "d'' = filter (\<lambda>g. rf_path g \<notin> Q) d" "Q \<subseteq> rf_path ` set ?fs" by blast
    have "final_file f" if "f \<in> set d" "rf_path f \<in> Q" for f
    proof -
      from that(2) Q(2) obtain g where g: "g \<in> set d" "final_file g" "rf_path g = rf_path f" by auto
      have "inj_on rf_path (set d)" using assms(2) by (simp add: distinct_map)
      from inj_onD [OF this g(3) g(1) that(1)] have "g = f" .
      with g show ?thesis by simp
    qed
    moreover have "p \<notin> Q" using Q(2) by auto
    moreover from assms(1) False ev have "d' = d''" "e = None \<longrightarrow> fits c n' t'"
      by (auto simp: ensure_room_def Let_def split: if_splits)
    ultimately show ?thesis using s Q(1) by auto
  qed
qed

text \<open>When it does not suffice, every listed file is gone.\<close>

lemma evict_exhausted:
  "evict c count tot fs d = ((count', tot'), d') \<Longrightarrow> \<not> fits c count' tot' \<Longrightarrow>
   d' = filter (\<lambda>g. rf_path g \<notin> rf_path ` set fs) d"
proof (induction c count tot fs d rule: evict.induct)
  case (2 c count tot f fs d)
  then show ?case by (cases "fits c count tot") (auto intro: filter_cong)
qed auto

lemma ensure_room_granted:
  assumes "distinct (map rf_path d)" and "\<forall>f \<in> set d. \<not> unsafe_file f" and "p \<notin> rf_path ` set d"
    and "fits c (length (filter (\<lambda>f. \<not> final_file f) d) + 1) (sum_list (map rf_size (filter (\<lambda>f. \<not> final_file f) d)) + req)"
  shows "fst (ensure_room c req p True d) = None"
proof -
  let ?fs = "sort_key rf_time (filter final_file d)"
  have o: "others p d = d" using assms(3) by (auto simp: filter_id_conv)
  obtain n t d' where ev: "evict c (length d + 1) (sum_list (map rf_size d) + req) ?fs d = ((n, t), d')"
    by (metis prod.exhaust)
  have di: "distinct (map rf_path ?fs)"
    using assms(1) by (simp add: distinct_map distinct_filter inj_on_subset [of _ "set d"] subset_iff)
  have "set ?fs \<subseteq> set (others p d)" unfolding o by auto
  from evict_spec [OF ev assms(1) this di, of 1 req] o obtain Q where
    s: "n = length (others p d') + 1" "t = sum_list (map rf_size (others p d')) + req" by auto
  have "fits c n t"
  proof (rule ccontr)
    assume "\<not> fits c n t"
    from evict_exhausted [OF ev this] have d': "d' = filter (\<lambda>g. rf_path g \<notin> rf_path ` set ?fs) d" .
    have "rf_path g \<notin> rf_path ` set ?fs \<longleftrightarrow> \<not> final_file g" if "g \<in> set d" for g
      using that assms(1) by (auto simp: distinct_map dest: inj_onD)
    with d' have "d' = filter (\<lambda>f. \<not> final_file f) d" by (auto intro: filter_cong)
    moreover from this assms(3) have "others p d' = d'" by (auto intro: filter_cong)
    ultimately show False using s assms(4) \<open>\<not> fits c n t\<close> by simp
  qed
  with ev assms(2) o show ?thesis by (auto simp: ensure_room_def Let_def list_ex_iff)
qed

section \<open>Writes\<close>

lemma sum_put: "distinct (map rf_path d) \<Longrightarrow> length (put_file f d) = length (others (rf_path f) d) + 1 \<and>
    sum_list (map rf_size (put_file f d)) = sum_list (map rf_size (others (rf_path f) d)) + rf_size f"
  by (simp add: put_file_def)

lemma write_item_ok:
  assumes "write_item c enc now fault path item exclusive d = (e, d')" and "dir_ok c d"
  shows "dir_ok c d'"
proof -
  obtain e1 d1 where room: "ensure_room c (length (enc item)) path True d = (e1, d1)" by fastforce
  have di: "distinct (map rf_path d)" using assms(2) by (simp add: dir_ok_def)
  let ?f = "(receipt_file_of path (enc item) now item)"
  from ensure_room_spec [OF room di] obtain Q where d1: "d1 = filter (\<lambda>g. rf_path g \<notin> Q) d"
    and fit: "e1 = None \<longrightarrow> fits c (length (others path d1) + 1) (sum_list (map rf_size (others path d1)) + length (enc item))" by blast
  have ok1: "dir_ok c d1" unfolding d1 by (rule dir_ok_filter [OF assms(2)])
  have put: "dir_ok c (put_file ?f d1)" if "e1 = None"
    using that fit ok1 by (auto simp: dir_ok_def put_file_def distinct_map_filter)
  have app: "dir_ok c (d1 @ [?f])" if "e1 = None" "path \<notin> rf_path ` set d1"
  proof -
    have "others path d1 = d1" using that(2) by (auto simp: filter_id_conv)
    then have "put_file ?f d1 = d1 @ [?f]" by (simp add: put_file_def)
    with put [OF that(1)] show ?thesis by simp
  qed
  show ?thesis
    using assms(1) room ok1 put app
    by (auto simp: write_item_def Let_def split: option.splits if_splits io_fault.splits)
qed

text \<open>A file that is not final, or is the one being replaced, survives a write of another item.\<close>

lemma write_item_keeps:
  assumes "write_item c enc now fault path item exclusive d = (e, d')" and "distinct (map rf_path d)"
    and "f \<in> set d" and "rf_path f \<noteq> path" and "\<not> final_file f"
  shows "f \<in> set d'"
proof -
  obtain e1 d1 where room: "ensure_room c (length (enc item)) path True d = (e1, d1)" by fastforce
  from ensure_room_spec [OF room assms(2)] assms(3,5) have "f \<in> set d1" by auto
  with assms(1,4) room show ?thesis
    by (auto simp: write_item_def put_file_def Let_def split: option.splits if_splits io_fault.splits)
qed

lemma write_started:
  assumes "write_item c enc now fault path item True d = (None, d')" and "distinct (map rf_path d)"
  shows "find (\<lambda>f. rf_path f = path) d' = Some (receipt_file_of path (enc item) now item)"
proof -
  obtain e1 d1 where room: "ensure_room c (length (enc item)) path True d = (e1, d1)" by fastforce
  with assms(1) have "path \<notin> rf_path ` set d1" "d' = d1 @ [(receipt_file_of path (enc item) now item)]"
    by (auto simp: write_item_def Let_def split: option.splits if_splits io_fault.splits)
  moreover from this(1) have "find (\<lambda>f. rf_path f = path) d1 = None" by (auto simp: find_None_iff)
  ultimately show ?thesis by (simp add: find_append)
qed

text \<open>Saving leaves the attempt's own file: the new one, or the old one where the save failed.\<close>

lemma write_final:
  assumes "write_item c enc now fault path item False d = (e, d')" and "distinct (map rf_path d)"
    and "find (\<lambda>f. rf_path f = path) d = Some f"
  shows "\<exists>g. find (\<lambda>f. rf_path f = path) d' = Some g \<and>
    (rf_item g = (if length (enc item) \<le> 4194304 then Some item else None) \<or> e \<noteq> None \<and> g = f)"
proof -
  obtain e1 d1 where room: "ensure_room c (length (enc item)) path True d = (e1, d1)" by fastforce
  from ensure_room_spec [OF room assms(2)] obtain Q where Q: "d1 = filter (\<lambda>g. rf_path g \<notin> Q) d" "path \<notin> Q" by blast
  have "find (\<lambda>f. rf_path f = path) (filter (\<lambda>g. rf_path g \<notin> Q) t) = find (\<lambda>f. rf_path f = path) t" for t
    using Q(2) by (induction t) auto
  from trans [OF this assms(3)] have old: "find (\<lambda>f. rf_path f = path) d1 = Some f" unfolding Q(1) .
  have new: "find (\<lambda>f. rf_path f = path) (put_file h t) = Some h" if "rf_path h = path" for h t
  proof -
    have "find (\<lambda>f. rf_path f = path) (others path t) = None" by (simp add: find_None_iff)
    with that show ?thesis by (simp add: put_file_def find_append)
  qed
  show ?thesis
    using assms(1) room old new
    by (auto simp: write_item_def Let_def split: option.splits if_splits io_fault.splits)
qed

section \<open>The helper as a machine\<close>

text \<open>
  The helper's state changes when a request is served, and when the helper dies
  between the two writes of a cacheable request, which leaves the started file
  and the host in any state.
\<close>

definition begun :: "'w helper_env \<Rightarrow> circumstances \<Rightarrow> helper_request \<Rightarrow> operation \<Rightarrow> bytes \<Rightarrow> 'w helper \<Rightarrow>
    receipt_file list \<Rightarrow> bool" where
  "begun E ci q op state h d \<longleftrightarrow> cacheable op \<and> load_item (he_lib E) (he_cache E) q op state (hl_files h) = Inr None \<and>
     write_item (he_cache E) (he_enc E) (ci_begin_at ci) (ci_begin_fault ci) (receipt_path (he_lib E) (he_cache E) (hq_attempt q))
       (started_item (he_lib E) q op state) True (hl_files h) = (None, d)"

inductive helper_moves :: "'w helper_env \<Rightarrow> 'w helper \<Rightarrow> 'w helper \<Rightarrow> bool" for E where
  served: "handle E peer ci stream h = (r, h') \<Longrightarrow> helper_moves E h h'"
| died: "begun E ci q op state h d \<Longrightarrow> helper_moves E h \<lparr>hl_files = d, hl_world = w\<rparr>"

inductive_cases helper_movesE: "helper_moves E h h'"

abbreviation file_at :: "string \<Rightarrow> receipt_file list \<Rightarrow> receipt_file option" where
  "file_at p d \<equiv> find (\<lambda>f. rf_path f = p) d"

abbreviation invalid_replay :: helper_response where
  "invalid_replay \<equiv> error_response ''receipt cache validation failed''"

lemma load_missing: "load_item L c q op state d = Inr None \<Longrightarrow> file_at (receipt_path L c (hq_attempt q)) d = None"
  by (auto simp: load_item_def split: option.splits if_splits)

lemma load_hit: "load_item L c q op state d = Inr (Some r) \<Longrightarrow>
    \<exists>f i. file_at (receipt_path L c (hq_attempt q)) d = Some f \<and> rf_item f = Some i \<and> ch_response i = r"
  by (auto simp: load_item_def split: option.splits if_splits)

lemma file_at_set: "distinct (map rf_path d) \<Longrightarrow> f \<in> set d \<Longrightarrow> file_at (rf_path f) d = Some f"
  by (induction d) auto

text \<open>What a request with an engine operation does, from the lookup on.\<close>

lemma perform_cases:
  assumes "perform E ci q actor op state h = (r, h1)"
  obtains (direct) "\<not> cacheable op" "hl_files h1 = hl_files h"
  | (hit) "cacheable op" "h1 = h" "r = invalid_replay \<or> load_item (he_lib E) (he_cache E) q op state (hl_files h) = Inr (Some r)"
      "file_at (receipt_path (he_lib E) (he_cache E) (hq_attempt q)) (hl_files h) \<noteq> None"
  | (unbegun) e where "cacheable op" "load_item (he_lib E) (he_cache E) q op state (hl_files h) = Inr None"
      "write_item (he_cache E) (he_enc E) (ci_begin_at ci) (ci_begin_fault ci) (receipt_path (he_lib E) (he_cache E) (hq_attempt q))
       (started_item (he_lib E) q op state) True (hl_files h) = (Some e, hl_files h1)" "hl_world h1 = hl_world h"
      "r = error_response ''failed to persist action execution intent''"
  | (ran) d rc e where "begun E ci q op state h d" 
      "run (he_lib E) (ci_clock ci) (ci_rid ci) (he_engine E) (engine_request q actor op state) (hl_world h) = (rc, hl_world h1)"
      "write_item (he_cache E) (he_enc E) (ci_save_at ci) (ci_save_fault ci) (receipt_path (he_lib E) (he_cache E) (hq_attempt q))
       (final_item (he_lib E) q op state (response_of rc)) False d = (e, hl_files h1)"
      "r = (if e = None then response_of rc else unsaved_response rc)"
proof -
  let ?load = "load_item (he_lib E) (he_cache E) q op state (hl_files h)"
  consider "\<not> cacheable op" | x where "cacheable op" "?load = Inl x" | y where "cacheable op" "?load = Inr (Some y)"
    | "cacheable op" "?load = Inr None" by (cases ?load; cases "projr ?load") auto
  then show thesis
  proof cases
    case 1
    with assms show ?thesis by (intro direct) (auto simp: perform_def Let_def split_beta)
  next
    case 2
    moreover from this have "file_at (receipt_path (he_lib E) (he_cache E) (hq_attempt q)) (hl_files h) \<noteq> None"
      by (cases "file_at (receipt_path (he_lib E) (he_cache E) (hq_attempt q)) (hl_files h)") (auto simp: load_item_def)
    ultimately show ?thesis using assms by (intro hit) (auto simp: perform_def Let_def)
  next
    case 3
    with load_hit [OF 3(2)] assms show ?thesis by (intro hit) (auto simp: perform_def Let_def)
  next
    case 4
    obtain x d where w: "write_item (he_cache E) (he_enc E) (ci_begin_at ci) (ci_begin_fault ci)
        (receipt_path (he_lib E) (he_cache E) (hq_attempt q)) (started_item (he_lib E) q op state) True (hl_files h) = (x, d)"
      by fastforce
    show ?thesis
    proof (cases x)
      case (Some e)
      with 4 w assms show ?thesis by (intro unbegun [of e]) (auto simp: perform_def Let_def)
    next
      case None
      obtain rc w' where r: "run (he_lib E) (ci_clock ci) (ci_rid ci) (he_engine E) (engine_request q actor op state) (hl_world h) = (rc, w')"
        by fastforce
      obtain e d' where s: "write_item (he_cache E) (he_enc E) (ci_save_at ci) (ci_save_fault ci)
          (receipt_path (he_lib E) (he_cache E) (hq_attempt q)) (final_item (he_lib E) q op state (response_of rc)) False d = (e, d')"
        by fastforce
      have h1: "h1 = \<lparr>hl_files = d', hl_world = w'\<rparr> \<and> r = (if e = None then response_of rc else unsaved_response rc)"
        using assms 4 w None r s by (cases e) (auto simp: perform_def Let_def)
      from 4 w None have "begun E ci q op state h d" by (simp add: begun_def)
      then show ?thesis using r s h1 by (intro ran [of d rc e]) simp_all
    qed
  qed
qed

lemma handle_cases:
  assumes "handle E peer ci stream h = (r, h')"
  obtains (idle) "h' = h"
  | (performed) l q actor op state r' where "read_request stream = Inr l" "he_decode E l = Some q"
      "authenticate peer (hq_token q) (he_token E) = Some actor" "hq_kind q = []" "shape q = Inr (op, state)"
      "perform E ci q actor op state h = (r', h')" "r = Some r'"
proof (cases "h' = h")
  case False
  then obtain l where l: "read_request stream = Inr l" using assms by (auto simp: handle_def split: sum.splits)
  with False assms obtain q where q: "he_decode E l = Some q" by (auto simp: handle_def split: option.splits)
  with False l assms obtain actor where a: "authenticate peer (hq_token q) (he_token E) = Some actor"
    by (auto simp: handle_def split: option.splits)
  with False l q assms have k: "hq_kind q = []" by (auto simp: handle_def split: if_splits)
  with False l q a assms obtain op state where s: "shape q = Inr (op, state)"
    by (auto simp: handle_def split: sum.splits)
  obtain r' h'' where p: "perform E ci q actor op state h = (r', h'')" by fastforce
  with l q a k s assms have "r = Some r' \<and> h'' = h'" by (simp add: handle_def)
  with l q a k s p performed show ?thesis by blast
qed (rule idle)

section \<open>What every step keeps\<close>

definition dirs_ok :: "'w helper_env \<Rightarrow> 'w helper \<Rightarrow> bool" where
  "dirs_ok E h \<longleftrightarrow> dir_ok (he_cache E) (hl_files h)"

lemma dirs_ok_distinct: "dirs_ok E h \<Longrightarrow> distinct (map rf_path (hl_files h))"
  by (simp add: dirs_ok_def dir_ok_def)

lemma begun_ok: "begun E ci q op state h d \<Longrightarrow> dirs_ok E h \<Longrightarrow> dir_ok (he_cache E) d"
  unfolding begun_def dirs_ok_def by (blast intro: write_item_ok)

lemma perform_ok:
  assumes "perform E ci q actor op state h = (r, h1)" and "dirs_ok E h"
  shows "dirs_ok E h1"
  using assms(1)
proof (cases rule: perform_cases)
  case (unbegun e)
  with assms(2) show ?thesis unfolding dirs_ok_def by (blast intro: write_item_ok)
next
  case (ran d rc e)
  with begun_ok [OF ran(1) assms(2)] show ?thesis unfolding dirs_ok_def by (blast intro: write_item_ok)
qed (use assms(2) in \<open>simp_all add: dirs_ok_def\<close>)

lemma helper_moves_ok: "helper_moves E h h' \<Longrightarrow> dirs_ok E h \<Longrightarrow> dirs_ok E h'"
proof (erule helper_movesE)
  fix peer ci stream r
  assume "handle E peer ci stream h = (r, h')" "dirs_ok E h"
  then show ?thesis by (cases rule: handle_cases) (auto intro: perform_ok)
next
  fix ci q op state d w
  assume "h' = \<lparr>hl_files = d, hl_world = w\<rparr>" "begun E ci q op state h d" "dirs_ok E h"
  then show ?thesis using begun_ok by (simp add: dirs_ok_def)
qed

text \<open>A file that is not final stays until the helper is restarted on another directory.\<close>

definition pending_file :: "'w helper_env \<Rightarrow> string \<Rightarrow> receipt_file \<Rightarrow> 'w helper \<Rightarrow> bool" where
  "pending_file E p f h \<longleftrightarrow> file_at p (hl_files h) = Some f \<and> \<not> final_file f"

lemma begun_keeps:
  assumes "begun E ci q op state h d" and "dirs_ok E h" and "pending_file E p f h"
  shows "file_at p d = Some f \<and> p \<noteq> receipt_path (he_lib E) (he_cache E) (hq_attempt q)"
proof -
  from assms(3) have f: "f \<in> set (hl_files h)" "rf_path f = p" "\<not> final_file f"
    by (auto simp: pending_file_def dest: find_SomeD)
  from assms(1) have "file_at (receipt_path (he_lib E) (he_cache E) (hq_attempt q)) (hl_files h) = None"
    by (auto simp: begun_def dest: load_missing)
  with f(1,2) have ne: "p \<noteq> receipt_path (he_lib E) (he_cache E) (hq_attempt q)" by (auto simp: find_None_iff)
  from assms(1) f ne dirs_ok_distinct [OF assms(2)] have "f \<in> set d"
    by (auto simp: begun_def intro: write_item_keeps)
  with begun_ok [OF assms(1,2)] f(2) ne show ?thesis by (auto simp: dir_ok_def intro: file_at_set)
qed

lemma perform_keeps:
  assumes "perform E ci q actor op state h = (r, h1)" and "dirs_ok E h" and "pending_file E p f h"
  shows "pending_file E p f h1"
  using assms(1)
proof (cases rule: perform_cases)
  case (unbegun e)
  from assms(3) have f: "f \<in> set (hl_files h)" "rf_path f = p" "\<not> final_file f"
    by (auto simp: pending_file_def dest: find_SomeD)
  from load_missing [OF unbegun(2)] f(1,2) have "p \<noteq> receipt_path (he_lib E) (he_cache E) (hq_attempt q)"
    by (auto simp: find_None_iff)
  with write_item_keeps [OF unbegun(3) dirs_ok_distinct [OF assms(2)] f(1)] f have "f \<in> set (hl_files h1)" by simp
  with f dirs_ok_distinct [OF perform_ok [OF assms(1,2)]] show ?thesis by (auto simp: pending_file_def intro: file_at_set)
next
  case (ran d rc e)
  from begun_keeps [OF ran(1) assms(2,3)] have f: "f \<in> set d" "rf_path f = p" and
    ne: "p \<noteq> receipt_path (he_lib E) (he_cache E) (hq_attempt q)" by (auto dest: find_SomeD)
  from assms(3) have nf: "\<not> final_file f" by (simp add: pending_file_def)
  have "distinct (map rf_path d)" using begun_ok [OF ran(1) assms(2)] by (simp add: dir_ok_def)
  with write_item_keeps [OF ran(3) _ f(1)] f ne nf have "f \<in> set (hl_files h1)" by simp
  with f nf dirs_ok_distinct [OF perform_ok [OF assms(1,2)]] show ?thesis by (auto simp: pending_file_def intro: file_at_set)
qed (use assms(3) in \<open>simp_all add: pending_file_def\<close>)

lemma helper_moves_keeps: "helper_moves E h h' \<Longrightarrow> dirs_ok E h \<Longrightarrow> pending_file E p f h \<Longrightarrow> pending_file E p f h'"
proof (erule helper_movesE)
  fix peer ci stream r
  assume "handle E peer ci stream h = (r, h')" "dirs_ok E h" "pending_file E p f h"
  then show ?thesis by (cases rule: handle_cases) (auto intro: perform_keeps)
next
  fix ci q op state d w
  assume a: "h' = \<lparr>hl_files = d, hl_world = w\<rparr>" "begun E ci q op state h d" "dirs_ok E h" "pending_file E p f h"
  from begun_keeps [OF a(2-4)] a(1,4) show ?thesis by (simp add: pending_file_def)
qed

lemma helper_movess_keep:
  assumes "(helper_moves E)\<^sup>*\<^sup>* h h'" and "dirs_ok E h" and "pending_file E p f h"
  shows "dirs_ok E h' \<and> pending_file E p f h'"
  using assms by (induction rule: rtranclp_induct) (auto intro: helper_moves_ok helper_moves_keeps)

end
