(* ===== verification/HelperProps.thy ===== *)
theory HelperProps
  imports HelperLaws EngineProps
begin

text \<open>
  The helper executes an attempt at most once: replays are answered from the cache,
  an interrupted attempt is never repeated, the cache stays within its bounds, and a
  fresh attempt is executed whenever the unresolved ones leave room for it.
\<close>

section \<open>Auxiliary facts\<close>

lemma started_not_final [simp]: "ch_state (started_item L q op state) = ''started''"
  by (simp add: started_item_def)

lemma begun_file:
  assumes "begun E ci q op state h d" and "dirs_ok E h"
  shows "\<exists>f. pending_file E (receipt_path (he_lib E) (he_cache E) (hq_attempt q)) f \<lparr>hl_files = d, hl_world = w\<rparr> \<and>
    (rf_item f = None \<or> rf_item f = Some (started_item (he_lib E) q op state))"
  using write_started [of "he_cache E" "he_enc E"] assms dirs_ok_distinct [OF assms(2)]
  by (auto simp: begun_def pending_file_def final_file_def)

text \<open>A request of an attempt that has a file is answered from it.\<close>

lemma perform_on_file:
  assumes "file_at (receipt_path (he_lib E) (he_cache E) (hq_attempt q)) (hl_files h) = Some f" and "cacheable op"
  shows "\<exists>r. perform E ci q actor op state h = (r, h) \<and> (r = invalid_replay \<or> (\<exists>i. rf_item f = Some i \<and> r = ch_response i))"
proof -
  obtain r h1 where p: "perform E ci q actor op state h = (r, h1)" by fastforce
  then show ?thesis
  proof (cases rule: perform_cases)
    case hit
    with p load_hit [of "he_lib E" "he_cache E" q op state "hl_files h" r] assms(1) show ?thesis by auto
  next
    case (unbegun e)
    with load_missing [OF unbegun(2)] assms(1) show ?thesis by simp
  next
    case (ran d rc e)
    with assms(1) show ?thesis by (auto simp: begun_def dest: load_missing)
  qed (use assms(2) in simp)
qed

section \<open>Properties\<close>

text \<open>
  Once an attempt has run its action, it never runs again: whatever cacheable request
  next carries its identity (other parameters, operation or actor included) leaves the
  host and the cache as they are, and is answered by the receipt of that run, by the
  notice that the outcome is unknown, or by a refusal.
\<close>

theorem attempt_runs_once:
  assumes "perform E ci q actor op state h = (r, h1)" and "cacheable op" and "hl_world h1 \<noteq> hl_world h"
    and "dirs_ok E h" and "hq_attempt q' = hq_attempt q" and "cacheable op'"
  shows "\<exists>r'. perform E ci' q' actor' op' state' h1 = (r', h1) \<and>
    (r' = invalid_replay \<or> r' = error_response ExecutionIndeterminateMessage \<or> hp_receipt r' = hp_receipt r)"
  using assms(1)
proof (cases rule: perform_cases)
  case (ran d rc e)
  from begun_file [OF ran(1) assms(4), of undefined] obtain f where
    f: "file_at (receipt_path (he_lib E) (he_cache E) (hq_attempt q)) d = Some f"
      "rf_item f = None \<or> rf_item f = Some (started_item (he_lib E) q op state)" by (auto simp: pending_file_def)
  have "distinct (map rf_path d)" using begun_ok [OF ran(1) assms(4)] by (simp add: dir_ok_def)
  from write_final [OF ran(3) this f(1)] obtain g where
    g: "file_at (receipt_path (he_lib E) (he_cache E) (hq_attempt q')) (hl_files h1) = Some g"
    and i: "rf_item g = None \<or> rf_item g = Some (final_item (he_lib E) q op state (response_of rc)) \<or> g = f"
    unfolding assms(5) by (auto split: if_splits)
  from perform_on_file [OF g assms(6)] obtain r' where
    "perform E ci' q' actor' op' state' h1 = (r', h1)" "r' = invalid_replay \<or> (\<exists>i. rf_item g = Some i \<and> r' = ch_response i)"
    by blast
  with i f(2) ran(4) show ?thesis
    by (auto simp: final_item_def started_item_def unsaved_response_def response_of_def)
qed (use assms(2,3) in simp_all)

text \<open>
  A success is durable before it is reported: where the encoded receipt is within the
  four mebibytes the cache reads back, repeating the request that was answered
  with success gives the same answer, receipt included, and changes nothing.
\<close>

theorem success_is_replayed:
  assumes "perform E ci q actor op state h = (r, h1)" and "cacheable op" and "hp_ok r" and "dirs_ok E h"
    and "length (he_enc E (final_item (he_lib E) q op state r)) \<le> 4194304"
  shows "perform E ci' q actor' op state h1 = (r, h1)"
proof -
  have load: "load_item (he_lib E) (he_cache E) q op state (hl_files h1) = Inr (Some r)"
    using assms(1)
  proof (cases rule: perform_cases)
    case (ran d rc e)
    from begun_file [OF ran(1) assms(4), of undefined] obtain f where
      f: "file_at (receipt_path (he_lib E) (he_cache E) (hq_attempt q)) d = Some f" by (auto simp: pending_file_def)
    have "e = None" using ran(4) assms(3) by (cases e) (auto simp: unsaved_response_def)
    moreover from this ran(4) assms(5) have "length (he_enc E (final_item (he_lib E) q op state (response_of rc))) \<le> 4194304"
      by simp
    moreover have "distinct (map rf_path d)" using begun_ok [OF ran(1) assms(4)] by (simp add: dir_ok_def)
    ultimately obtain g where "file_at (receipt_path (he_lib E) (he_cache E) (hq_attempt q)) (hl_files h1) = Some g"
      "rf_item g = Some (final_item (he_lib E) q op state (response_of rc))"
      using write_final [OF ran(3) _ f] by auto
    with \<open>e = None\<close> ran(4) show ?thesis by (simp add: load_item_def final_item_def valid_item_state_def)
  qed (use assms(2,3) in \<open>auto simp: error_response_def\<close>)
  with assms(2) show ?thesis by (simp add: perform_def Let_def)
qed

text \<open>
  C13: An attempt whose execution was cut short by the death of the helper is never
  executed again, after any further sequence of requests and deaths: its started file is
  not evicted, and every cacheable request that carries its identity leaves the host
  as it is and is answered by the notice that the outcome is unknown, or refused.
\<close>

theorem interrupted_never_repeated:
  assumes "begun E ci q op state h0 d" and "dirs_ok E h0"
    and "(helper_moves E)\<^sup>*\<^sup>* \<lparr>hl_files = d, hl_world = w\<rparr> h"
    and "handle E peer ci' stream h = (r, h')" and "read_request stream = Inr l" and "he_decode E l = Some q'"
    and "hq_attempt q' = hq_attempt q" and "shape q' = Inr (op', state')" and "cacheable op'"
  shows "h' = h \<and> (hq_kind q' = [] \<longrightarrow> r \<in> Some ` {error_response ''authentication failed'', invalid_replay,
    error_response ExecutionIndeterminateMessage})"
proof -
  from begun_file [OF assms(1,2)] obtain f where
    f: "pending_file E (receipt_path (he_lib E) (he_cache E) (hq_attempt q)) f \<lparr>hl_files = d, hl_world = w\<rparr>"
      "rf_item f = None \<or> rf_item f = Some (started_item (he_lib E) q op state)" by blast
  have "dirs_ok E \<lparr>hl_files = d, hl_world = w\<rparr>" using begun_ok [OF assms(1,2)] by (simp add: dirs_ok_def)
  from helper_movess_keep [OF assms(3) this f(1)]
  have at: "file_at (receipt_path (he_lib E) (he_cache E) (hq_attempt q')) (hl_files h) = Some f"
    by (simp add: pending_file_def assms(7))
  show ?thesis
  proof (cases "authenticate peer (hq_token q') (he_token E)")
    case None
    with assms(4-6) show ?thesis by (simp add: handle_def)
  next
    case (Some actor)
    from perform_on_file [OF at assms(9), of ci' actor state'] f(2) obtain r' where "perform E ci' q' actor op' state' h = (r', h)"
      "r' = invalid_replay \<or> r' = error_response ExecutionIndeterminateMessage" by (auto simp: started_item_def)
    with Some assms(4-6,8) show ?thesis by (auto simp: handle_def split: if_splits)
  qed
qed

text \<open>
  C24: The receipt directory never exceeds its bounds: from a directory within them,
  after any sequence of requests and deaths of the helper, it holds at most \<open>cc_items\<close> files
  of at most \<open>cc_bytes\<close> bytes in all, one per attempt.
\<close>

theorem receipt_cache_bounded:
  assumes "(helper_moves E)\<^sup>*\<^sup>* h h'" and "dirs_ok E h"
  shows "length (hl_files h') \<le> cc_items (he_cache E) \<and> sum_list (map rf_size (hl_files h')) \<le> cc_bytes (he_cache E) \<and>
    distinct (map rf_path (hl_files h'))"
proof -
  from assms have "dirs_ok E h'" by (induction rule: rtranclp_induct) (auto intro: helper_moves_ok)
  then show ?thesis by (simp add: dirs_ok_def dir_ok_def fits_def)
qed

text \<open>
  C14: A connection changes the host or the cache only through one line of at most a
  mebibyte that decodes to a request of the root user or with the helper's token, whose
  attempt identity is well formed, and the actor recorded is the peer the kernel named.
\<close>

theorem only_authenticated_requests_act:
  assumes "handle E peer ci stream h = (r, h')" and "h' \<noteq> h"
  shows "\<exists>l q actor op state r'. read_request stream = Inr l \<and> length l \<le> 1048576 \<and> he_decode E l = Some q \<and>
    (peer = Some 0 \<or> hq_token q = he_token E) \<and> attempt_id_ok (hq_attempt q) \<and>
    actor = (case peer of Some u \<Rightarrow> ''local-uid:'' @ itoa (int u) | None \<Rightarrow> ''local-token-client'') \<and>
    perform E ci q actor op state h = (r', h') \<and> r = Some r'"
  using assms(1)
proof (cases rule: handle_cases)
  case (performed l q actor op state r')
  have z: "itoa 0 = ''0''" by code_simp
  from performed(1) have "length l \<le> 1048576" by (auto simp: read_request_def Let_def split: if_splits)
  moreover from performed(3) z have "peer = Some 0 \<or> hq_token q = he_token E"
    "actor = (case peer of Some u \<Rightarrow> ''local-uid:'' @ itoa (int u) | None \<Rightarrow> ''local-token-client'')"
    by (auto simp: authenticate_def token_matches_def split: if_splits option.splits)
  moreover from performed(5) have "attempt_id_ok (hq_attempt q)" by (auto simp: shape_def split: if_splits)
  ultimately show ?thesis using performed by blast
qed (use assms(2) in simp)

text \<open>
  A fresh attempt is executed whenever its started file fits next to the unresolved
  ones: with every file of the cache in order, no input or output error at the start, and
  the files that are not final leaving room, the engine runs on the host.
\<close>

theorem fresh_attempt_executed:
  assumes "cacheable op" and "load_item (he_lib E) (he_cache E) q op state (hl_files h) = Inr None"
    and "dirs_ok E h" and "\<forall>f \<in> set (hl_files h). \<not> unsafe_file f" and "ci_begin_fault ci = NoFault"
    and "length (filter (\<lambda>f. \<not> final_file f) (hl_files h)) < cc_items (he_cache E)"
    and "sum_list (map rf_size (filter (\<lambda>f. \<not> final_file f) (hl_files h))) +
      length (he_enc E (started_item (he_lib E) q op state)) \<le> cc_bytes (he_cache E)"
  shows "\<exists>rc. run (he_lib E) (ci_clock ci) (ci_rid ci) (he_engine E) (engine_request q actor op state) (hl_world h) =
      (rc, hl_world (snd (perform E ci q actor op state h))) \<and> hp_receipt (fst (perform E ci q actor op state h)) = Some rc"
proof -
  let ?p = "receipt_path (he_lib E) (he_cache E) (hq_attempt q)" and ?i = "started_item (he_lib E) q op state"
  from load_missing [OF assms(2)] have new: "?p \<notin> rf_path ` set (hl_files h)" by (auto simp: find_None_iff)
  from assms(6,7) have "fits (he_cache E) (length (filter (\<lambda>f. \<not> final_file f) (hl_files h)) + 1)
      (sum_list (map rf_size (filter (\<lambda>f. \<not> final_file f) (hl_files h))) + length (he_enc E ?i))" by (simp add: fits_def)
  note granted = ensure_room_granted [OF dirs_ok_distinct [OF assms(3)] assms(4) new this]
  obtain e d1 where room: "ensure_room (he_cache E) (length (he_enc E ?i)) ?p True (hl_files h) = (e, d1)" by fastforce
  with granted have "e = None" by simp
  moreover from ensure_room_spec [OF room dirs_ok_distinct [OF assms(3)]] new have "?p \<notin> rf_path ` set d1" by auto
  ultimately obtain d where b: "begun E ci q op state h d"
    using assms(1,2,5) room by (auto simp: begun_def write_item_def Let_def)
  obtain r h1 where p: "perform E ci q actor op state h = (r, h1)" by fastforce
  then show ?thesis
  proof (cases rule: perform_cases)
    case (hit)
    with load_missing [OF assms(2)] show ?thesis by simp
  next
    case (unbegun e)
    with b show ?thesis by (simp add: begun_def)
  next
    case (ran d' rc e)
    then show ?thesis using p by (auto simp: unsaved_response_def response_of_def)
  qed (use assms(1) in simp)
qed

section \<open>Witnesses\<close>

definition demo_request :: helper_request where
  "demo_request = \<lparr>hq_token = ''t'', hq_kind = [], hq_attempt = ''at1'', hq_action = ''a1'', hq_type = TypeTemporaryIPBan,
     hq_op = Execute, hq_params = ''{}'', hq_state = [], hq_rollback = []\<rparr>"

definition demo_env :: "nat helper_env" where
  "demo_env = \<lparr>he_lib = demo_lib, he_engine = \<lparr>eng_books = [(TypeTemporaryIPBan, demo_playbook)], eng_key = ''k''\<rparr>,
     he_cache = \<lparr>cc_dir = ''/d'', cc_items = 5, cc_bytes = 50\<rparr>, he_enc = (\<lambda>_. ''item''),
     he_decode = (\<lambda>_. Some demo_request), he_token = ''t'', he_observe = None\<rparr>"

definition demo_ci :: circumstances where
  "demo_ci = \<lparr>ci_clock = int, ci_rid = ''r'', ci_begin_at = 1, ci_begin_fault = NoFault, ci_save_at = 2, ci_save_fault = NoFault\<rparr>"

definition demo_helper :: "nat helper" where
  "demo_helper = \<lparr>hl_files = [], hl_world = 0\<rparr>"

lemmas demo_helper_defs = demo_request_def demo_env_def demo_ci_def demo_helper_def

lemma demo_attempt_ok: "attempt_id_ok ''at1''" "action_id_ok ''a1''" "valid_state demo_lib ''[7]''" "\<not> valid_state demo_lib []"
    "json_ok demo_lib ''{}''"
  by (simp_all add: attempt_id_ok_def action_id_ok_def class_pattern_def is_alnum_def is_lower_def is_digit_def valid_state_def demo_lib_def)

lemma demo_dirs_ok: "dirs_ok demo_env demo_helper"
  by (simp add: dirs_ok_def dir_ok_def fits_def demo_helper_def)

lemma demo_load: "load_item demo_lib (he_cache demo_env) demo_request Execute [] [] = Inr None"
  by (simp add: load_item_def)

lemma demo_begun: "\<exists>d. begun demo_env demo_ci demo_request Execute [] demo_helper d"
  by (simp add: begun_def cacheable_def demo_helper_defs load_item_def write_item_def ensure_room_def fits_def Let_def)

lemma demo_run:
  "\<exists>rc. run demo_lib int ''r'' \<lparr>eng_books = [(TypeTemporaryIPBan, demo_playbook)], eng_key = ''k''\<rparr>
     (engine_request demo_request ''local-uid:7'' Execute []) 0 = (rc, 1) \<and> rc_success rc"
proof -
  have "admit demo_lib \<lparr>eng_books = [(TypeTemporaryIPBan, demo_playbook)], eng_key = ''k''\<rparr>
     (engine_request demo_request ''local-uid:7'' Execute []) 0 = Inr (demo_playbook, [])"
    using demo_attempt_ok by (simp add: admit_def engine_request_def demo_request_def demo_playbook_def state_operation_def)
  then show ?thesis using demo_attempt_ok
    by (simp add: run_def run_body_def dispatch_def engine_request_def demo_request_def execute_def run_apply_def apply_error_def
        set_success_def run_result_def demo_playbook_def audit_def finish_def no_apply_def Let_def)
qed

lemma demo_perform: "\<exists>r h. perform demo_env demo_ci demo_request ''local-uid:7'' Execute [] demo_helper = (r, h) \<and>
    hp_ok r \<and> hl_world h = 1 \<and> h \<noteq> demo_helper"
proof -
  from demo_run obtain rc where "run demo_lib int ''r'' \<lparr>eng_books = [(TypeTemporaryIPBan, demo_playbook)], eng_key = ''k''\<rparr>
     (engine_request demo_request ''local-uid:7'' Execute []) 0 = (rc, 1)" "rc_success rc" by blast
  moreover have "itoa 7 = ''7''" by code_simp
  ultimately show ?thesis
    by (auto simp: perform_def cacheable_def demo_env_def demo_ci_def demo_helper_def load_item_def write_item_def
        ensure_room_def fits_def put_file_def response_of_def Let_def)
qed

theorem attempt_runs_once_witness:
  "\<exists>r h. perform demo_env demo_ci demo_request ''local-uid:7'' Execute [] demo_helper = (r, h) \<and> h \<noteq> demo_helper \<and>
    snd (perform demo_env demo_ci demo_request ''local-uid:8'' Rollback ''x'' h) = h"
proof -
  from demo_perform obtain r h where p: "perform demo_env demo_ci demo_request ''local-uid:7'' Execute [] demo_helper = (r, h)"
    "hl_world h \<noteq> hl_world demo_helper" "h \<noteq> demo_helper" by (auto simp: demo_helper_def)
  from attempt_runs_once [OF p(1) _ p(2) demo_dirs_ok, of demo_request Rollback demo_ci "''local-uid:8''" "''x''"]
  show ?thesis using p by (auto simp: cacheable_def)
qed

theorem success_is_replayed_witness:
  "\<exists>r h. hp_ok r \<and> perform demo_env demo_ci demo_request ''local-uid:8'' Execute [] h = (r, h)"
proof -
  from demo_perform obtain r h where p: "perform demo_env demo_ci demo_request ''local-uid:7'' Execute [] demo_helper = (r, h)"
    "hp_ok r" by blast
  have "length (he_enc demo_env i) \<le> 4194304" for i by (simp add: demo_env_def)
  from success_is_replayed [OF p(1) _ p(2) demo_dirs_ok this] p(2) show ?thesis by (auto simp: cacheable_def)
qed

lemma demo_shape: "shape demo_request = Inr (Execute, [])"
  using demo_attempt_ok by (simp add: shape_def demo_request_def)

lemma demo_read: "read_request ''q\<newline>'' = Inr ''q\<newline>''"
  by (simp add: read_request_def)

theorem interrupted_never_repeated_witness:
  "\<exists>d. begun demo_env demo_ci demo_request Execute [] demo_helper d \<and>
    snd (handle demo_env (Some 7) demo_ci ''q\<newline>'' \<lparr>hl_files = d, hl_world = 1\<rparr>) = \<lparr>hl_files = d, hl_world = 1\<rparr>"
proof -
  from demo_begun obtain d where b: "begun demo_env demo_ci demo_request Execute [] demo_helper d" by blast
  obtain r h' where h: "handle demo_env (Some 7) demo_ci ''q\<newline>'' \<lparr>hl_files = d, hl_world = 1\<rparr> = (r, h')" by fastforce
  have "he_decode demo_env ''q\<newline>'' = Some demo_request" by (simp add: demo_env_def)
  from interrupted_never_repeated [OF b demo_dirs_ok rtranclp.rtrancl_refl h demo_read this refl demo_shape] b h
  show ?thesis by (auto simp: cacheable_def)
qed

theorem receipt_cache_bounded_witness:
  "\<exists>h. (helper_moves demo_env)\<^sup>*\<^sup>* demo_helper h \<and> h \<noteq> demo_helper \<and> length (hl_files h) \<le> 5"
proof -
  from demo_begun obtain d where b: "begun demo_env demo_ci demo_request Execute [] demo_helper d" by blast
  have s: "(helper_moves demo_env)\<^sup>*\<^sup>* demo_helper \<lparr>hl_files = d, hl_world = 1\<rparr>"
    by (rule r_into_rtranclp) (rule died [OF b])
  from receipt_cache_bounded [OF s demo_dirs_ok] s show ?thesis
    by (intro exI [of _ "\<lparr>hl_files = d, hl_world = 1\<rparr>"]) (simp add: demo_env_def demo_helper_def)
qed

theorem only_authenticated_requests_act_witness:
  "snd (handle demo_env (Some 7) demo_ci ''q\<newline>'' demo_helper) \<noteq> demo_helper \<and>
   he_decode demo_env ''q\<newline>'' = Some demo_request \<and> hq_token demo_request = he_token demo_env"
proof -
  from demo_perform obtain r h where p: "perform demo_env demo_ci demo_request ''local-uid:7'' Execute [] demo_helper = (r, h)"
    "h \<noteq> demo_helper" by blast
  have "itoa 7 = ''7''" by code_simp
  then have "authenticate (Some 7) ''t'' ''t'' = Some ''local-uid:7''" by (simp add: authenticate_def token_matches_def)
  then have "authenticate (Some 7) (hq_token demo_request) (he_token demo_env) = Some ''local-uid:7''"
    by (simp add: demo_request_def demo_env_def)
  moreover have "hq_kind demo_request = []" by (simp add: demo_request_def)
  moreover have "he_decode demo_env ''q\<newline>'' = Some demo_request" by (simp add: demo_env_def)
  ultimately have h: "handle demo_env (Some 7) demo_ci ''q\<newline>'' demo_helper = (Some r, h)"
    using demo_read demo_shape p(1) by (simp add: handle_def)
  from only_authenticated_requests_act [OF this p(2)] h p(2) show ?thesis by (auto simp: demo_env_def)
qed

theorem fresh_attempt_executed_witness:
  "hl_world (snd (perform demo_env demo_ci demo_request ''local-uid:7'' Execute [] demo_helper)) = 1"
proof -
  have "cacheable Execute" "load_item (he_lib demo_env) (he_cache demo_env) demo_request Execute [] (hl_files demo_helper) = Inr None"
    "\<forall>f \<in> set (hl_files demo_helper). \<not> unsafe_file f" "ci_begin_fault demo_ci = NoFault"
    by (simp_all add: cacheable_def demo_helper_def demo_ci_def load_item_def)
  from fresh_attempt_executed [OF this(1,2) demo_dirs_ok this(3,4), of "''local-uid:7''"] demo_run
  show ?thesis by (auto simp: demo_env_def demo_helper_def demo_ci_def)
qed

end
