(* ===== verification/BanTargets.thy ===== *)
theory BanTargets
  imports ActionTypes Runner "HOL-Library.Word"
begin

text \<open>
  Which addresses a temporary ban may target (\<open>internal/action/ip_ban.go\<close>): the address
  classes of \<open>net/netip\<close>, the shared safety gate and the playbook's own protections.
\<close>

section \<open>Addresses and prefixes\<close>

text \<open>\<open>netip.Addr\<close>: an IPv4 address, or an IPv6 address with its zone.\<close>

datatype addr = V4 "32 word" | V6 "128 word" string

fun zone :: "addr \<Rightarrow> string" where
  "zone (V4 w) = []"
| "zone (V6 w z) = z"

fun unmap :: "addr \<Rightarrow> addr" where
  "unmap (V4 w) = V4 w"
| "unmap (V6 w z) = (if drop_bit 32 w = 0xFFFF then V4 (ucast w) else V6 w z)"

fun is_unspecified :: "addr \<Rightarrow> bool" where
  "is_unspecified (V4 w) = (w = 0)"
| "is_unspecified (V6 w z) = (w = 0 \<and> z = [])"

fun is_loopback :: "addr \<Rightarrow> bool" where
  "is_loopback (V4 w) = (drop_bit 24 w = 127)"
| "is_loopback (V6 w z) = (w = 1)"

fun is_private :: "addr \<Rightarrow> bool" where
  "is_private (V4 w) = (drop_bit 24 w = 10 \<or> drop_bit 20 w = 0xAC1 \<or> drop_bit 16 w = 0xC0A8)"
| "is_private (V6 w z) = (drop_bit 121 w = 0x7E)"

fun is_link_local_unicast :: "addr \<Rightarrow> bool" where
  "is_link_local_unicast (V4 w) = (drop_bit 16 w = 0xA9FE)"
| "is_link_local_unicast (V6 w z) = (drop_bit 118 w = 0x3FA)"

fun is_link_local_multicast :: "addr \<Rightarrow> bool" where
  "is_link_local_multicast (V4 w) = (drop_bit 8 w = 0xE00000)"
| "is_link_local_multicast (V6 w z) = (and (drop_bit 112 w) 0xFF0F = 0xFF02)"

fun is_multicast :: "addr \<Rightarrow> bool" where
  "is_multicast (V4 w) = (drop_bit 28 w = 0xE)"
| "is_multicast (V6 w z) = (drop_bit 120 w = 0xFF)"

definition is_global_unicast :: "addr \<Rightarrow> bool" where
  "is_global_unicast a \<longleftrightarrow> (case a of V4 w \<Rightarrow> w \<noteq> 0 \<and> w \<noteq> 0xFFFFFFFF | V6 w z \<Rightarrow> w \<noteq> 0 \<or> z \<noteq> []) \<and>
     \<not> is_loopback a \<and> \<not> is_multicast a \<and> \<not> is_link_local_unicast a"

text \<open>\<open>netip.Prefix\<close>; \<open>NoPrefix\<close> is one that is not valid.\<close>

datatype prefix = P4 "32 word" nat | P6 "128 word" nat | NoPrefix

fun masked :: "prefix \<Rightarrow> prefix" where
  "masked (P4 w n) = P4 (push_bit (32 - n) (drop_bit (32 - n) w)) n"
| "masked (P6 w n) = P6 (push_bit (128 - n) (drop_bit (128 - n) w)) n"
| "masked NoPrefix = NoPrefix"

fun prefix_contains :: "prefix \<Rightarrow> addr \<Rightarrow> bool" where
  "prefix_contains (P4 p n) (V4 w) = (drop_bit (32 - n) (xor p w) = 0)"
| "prefix_contains (P6 p n) (V6 w z) = (z = [] \<and> drop_bit (128 - n) (xor p w) = 0)"
| "prefix_contains _ _ = False"

text \<open>\<open>nonPublicBanTargets\<close>, in the order of the source.\<close>

definition nonPublicBanTargets :: "prefix list" where
  "nonPublicBanTargets =
     [P4 0 8, P4 0x64400000 10, P4 0xC0000000 24, P4 0xC0000200 24, P4 0xC6120000 15, P4 0xC6336400 24,
      P4 0xCB007100 24, P4 0xF0000000 4, P6 0x0064FF9B000100000000000000000000 48, P6 0x01000000000000000000000000000000 64,
      P6 0x20010002000000000000000000000000 48, P6 0x20010DB8000000000000000000000000 32]"

section \<open>The shared gate\<close>

text \<open>
  \<open>bk_parse\<close> and \<open>bk_text\<close> are \<open>netip.ParseAddr\<close> and \<open>Addr.String\<close>; \<open>bk_params\<close> is the
  strict decoding of the parameters, with the value it leaves and its error.
\<close>

record ban_params =
  bp_address :: string
  bp_ttl :: int
  bp_admin :: string
  bp_reason :: string

record ban_state =
  bs_address :: string
  bs_set :: string
  bs_generation :: string
  bs_ttl :: int
  bs_expires :: instant
  bs_prev_generation :: string
  bs_prev_millis :: int
  bs_prev_expires :: "instant option"

record ban_codec =
  bk_parse :: "string \<Rightarrow> addr option"
  bk_text :: "addr \<Rightarrow> string"
  bk_params :: "bytes \<Rightarrow> ban_params \<times> string option"
  bk_enc :: "ban_state \<Rightarrow> string + bytes"
  bk_dec :: "bytes \<Rightarrow> ban_state option"
  bk_sha256 :: "bytes \<Rightarrow> bytes"

definition validate_ban_target :: "ban_codec \<Rightarrow> string \<Rightarrow> string + addr" where
  "validate_ban_target J raw =
     (case bk_parse J raw of
        None \<Rightarrow> Inl ''address must be a canonical IPv4 or IPv6 address without a zone''
      | Some a0 \<Rightarrow>
         (if zone a0 \<noteq> [] then Inl ''address must be a canonical IPv4 or IPv6 address without a zone''
          else let a = unmap a0
               in if \<not> is_global_unicast a \<or> is_loopback a \<or> is_private a \<or> is_link_local_unicast a \<or>
                     is_link_local_multicast a \<or> is_multicast a \<or> is_unspecified a
                  then Inl ''loopback, private, local, multicast, and non-unicast addresses are protected''
                  else if list_ex (\<lambda>p. prefix_contains p a) nonPublicBanTargets
                  then Inl ''shared, reserved, benchmarking, and documentation addresses are protected''
                  else Inr a))"

section \<open>The playbook's configuration and target\<close>

record ban_config =
  bc_nft :: string
  bc_protected :: "prefix list"
  bc_admins :: "addr option list"
  bc_min :: duration
  bc_max :: duration

fun first_index :: "('a \<Rightarrow> bool) \<Rightarrow> nat \<Rightarrow> 'a list \<Rightarrow> nat option" where
  "first_index p n [] = None"
| "first_index p n (x # xs) = (if p x then Some n else first_index p (n + 1) xs)"

text \<open>\<open>NewTemporaryIPBanPlaybook\<close>: \<open>runner\<close> says whether a runner was given, and an address that is \<open>None\<close> is not valid.\<close>

definition new_ban_playbook :: "bool \<Rightarrow> ban_config \<Rightarrow> string + ban_config" where
  "new_ban_playbook runner c =
     (if \<not> runner \<or> bc_nft c = [] then Inl ''temporary IP ban requires a runner and nft path''
      else let lo = (if bc_min c \<le> 0 then 30 * second else bc_min c);
               hi = (if bc_max c \<le> 0 then 86400 * second else bc_max c)
           in if lo > hi then Inl ''minimum ban TTL exceeds maximum TTL''
              else case first_index (\<lambda>p. p = NoPrefix) 0 (bc_protected c) of
                  Some n \<Rightarrow> Inl (''protected prefix '' @ itoa (int n) @ '' is invalid'')
                | None \<Rightarrow>
                   (case first_index (\<lambda>a. a = None) 0 (bc_admins c) of
                      Some n \<Rightarrow> Inl (''current administrator IP '' @ itoa (int n) @ '' is invalid'')
                    | None \<Rightarrow> Inr (c\<lparr>bc_min := lo, bc_max := hi, bc_protected := map masked (bc_protected c),
                        bc_admins := map (map_option unmap) (bc_admins c)\<rparr>)))"

definition nftTable :: string where "nftTable = ''witshield''"
definition nftChain :: string where "nftChain = ''input''"
definition nftBanSetV4 :: string where "nftBanSetV4 = ''temporary_bans_v4''"
definition nftBanSetV6 :: string where "nftBanSetV6 = ''temporary_bans_v6''"

definition safe_target :: "ban_codec \<Rightarrow> ban_config \<Rightarrow> ban_params \<Rightarrow> string + addr \<times> string" where
  "safe_target J c p =
     (case validate_ban_target J (bp_address p) of
        Inl e \<Rightarrow> Inl e
      | Inr a \<Rightarrow>
         (case bk_parse J (bp_admin p) of
            None \<Rightarrow> Inl ''currentAdminIp must be a valid address without a zone''
          | Some admin \<Rightarrow>
             (if zone admin \<noteq> [] then Inl ''currentAdminIp must be a valid address without a zone''
              else if a = unmap admin then Inl ''refusing to ban the current administrator IP''
              else if list_ex (\<lambda>x. Some a = x) (bc_admins c) then Inl ''refusing to ban a protected administrator IP''
              else if list_ex (\<lambda>q. prefix_contains q a) (bc_protected c)
              then Inl ''refusing to ban an address in a protected prefix''
              else Inr (a, case a of V4 _ \<Rightarrow> nftBanSetV4 | V6 _ _ \<Rightarrow> nftBanSetV6))))"

text \<open>\<open>unicode.IsControl\<close> on UTF-8 text: U+0000 to U+001F and U+007F to U+009F.\<close>

fun has_control :: "string \<Rightarrow> bool" where
  "has_control [] = False"
| "has_control (c # cs) = ((of_char c :: nat) < 32 \<or> (of_char c :: nat) = 127 \<or>
     (c = CHR 0xC2 \<and> (case cs of [] \<Rightarrow> False | d # _ \<Rightarrow> 128 \<le> (of_char d :: nat) \<and> (of_char d :: nat) < 160)) \<or> has_control cs)"

definition ban_validate :: "ban_codec \<Rightarrow> ban_config \<Rightarrow> bytes \<Rightarrow> string option" where
  "ban_validate J c raw =
     (case bk_params J raw of
        (_, Some e) \<Rightarrow> Some e
      | (p, None) \<Rightarrow>
         (let lo = (bc_min c + second - 1) div second; hi = bc_max c div second
          in if bp_ttl p < lo \<or> bp_ttl p > hi
             then Some (''ttlSeconds must be between '' @ itoa lo @ '' and '' @ itoa hi)
             else if bp_admin p = [] then Some ''currentAdminIp is required for lockout protection''
             else if length (bp_reason p) > 256 \<or> has_control (bp_reason p)
             then Some ''reason is too long or contains control characters''
             else case safe_target J c p of Inl e \<Rightarrow> Some e | Inr _ \<Rightarrow> None))"

end
