(* ===== verification/BanElements.thy ===== *)
theory BanElements
  imports BanTargets
begin

text \<open>
  Reading nftables elements (\<open>internal/action/ip_ban.go\<close>): time specifications, the
  remaining TTL and the owner comment.  Durations are \<open>int64\<close>, so the sum is kept at its width.
\<close>

section \<open>Time specifications\<close>

datatype time_unit = Day | Hour | Minute | Second | Milli

fun unit_ns :: "time_unit \<Rightarrow> int" where
  "unit_ns Day = 24 * hour"
| "unit_ns Hour = hour"
| "unit_ns Minute = minute"
| "unit_ns Second = second"
| "unit_ns Milli = millisecond"

fun unit_text :: "time_unit \<Rightarrow> string" where
  "unit_text Day = ''d''"
| "unit_text Hour = ''h''"
| "unit_text Minute = ''m''"
| "unit_text Second = ''s''"
| "unit_text Milli = ''ms''"

text \<open>\<open>(ms|[dhms])\<close> at the start of a string.\<close>

definition match_unit :: "string \<Rightarrow> (time_unit \<times> string) option" where
  "match_unit s =
     (if has_prefix s ''ms'' then Some (Milli, drop 2 s)
      else case s of
          [] \<Rightarrow> None
        | c # cs \<Rightarrow>
           (if c = CHR ''d'' then Some (Day, cs) else if c = CHR ''h'' then Some (Hour, cs)
            else if c = CHR ''m'' then Some (Minute, cs) else if c = CHR ''s'' then Some (Second, cs) else None))"

text \<open>\<open>([0-9]+)(ms|[dhms])\<close> at the start of a string: digits, unit, rest.\<close>

definition match_part :: "string \<Rightarrow> (string \<times> time_unit \<times> string) option" where
  "match_part s =
     (let ds = takeWhile is_digit s
      in if ds = [] then None
         else map_option (\<lambda>(u, rest). (ds, u, rest)) (match_unit (dropWhile is_digit s)))"

lemma match_unit_length: "match_unit s = Some (u, rest) \<Longrightarrow> length rest < length s"
proof -
  assume a: "match_unit s = Some (u, rest)"
  then have "s \<noteq> []" by (cases s) (auto simp: match_unit_def)
  with a show ?thesis by (cases s) (auto simp: match_unit_def split: if_splits)
qed

lemma match_part_length: "match_part s = Some (ds, u, rest) \<Longrightarrow> length rest < length s"
  using length_dropWhile_le [of is_digit s] by (fastforce simp: match_part_def Let_def split: if_splits dest: match_unit_length)

text \<open>\<open>FindAllStringSubmatch\<close>: the parts from left to right; what matches nothing is passed over.\<close>

function time_parts :: "string \<Rightarrow> (string \<times> time_unit) list" where
  "time_parts s =
     (case match_part s of
        Some (ds, u, rest) \<Rightarrow> (ds, u) # time_parts rest
      | None \<Rightarrow> (case s of [] \<Rightarrow> [] | _ # cs \<Rightarrow> time_parts cs))"
  by pat_completeness auto
termination by (relation "measure length") (auto dest: match_part_length)

declare time_parts.simps [simp del]

definition digit_val :: "char \<Rightarrow> nat" where
  "digit_val c = (of_char c :: nat) - 48"

definition nat_of_digits :: "string \<Rightarrow> nat" where
  "nat_of_digits ds = fold (\<lambda>c n. 10 * n + digit_val c) ds 0"

text \<open>\<open>strconv.ParseInt\<close> of a string of digits.\<close>

abbreviation (input) max_int64 :: int where "max_int64 \<equiv> 9223372036854775807"

definition parse_int64 :: "string \<Rightarrow> string + int" where
  "parse_int64 ds = (let n = int (nat_of_digits ds) in if n > max_int64 then Inl ''value out of range'' else Inr n)"

fun add_parts :: "64 word \<Rightarrow> (string \<times> time_unit) list \<Rightarrow> string + 64 word" where
  "add_parts tot [] = Inr tot"
| "add_parts tot ((ds, u) # ps) =
     (case parse_int64 ds of
        Inl e \<Rightarrow> Inl e
      | Inr amount \<Rightarrow>
         (if amount > max_int64 div unit_ns u then Inl ''nftables time value overflows duration''
          else let tot' = tot + word_of_int amount * word_of_int (unit_ns u)
               in if sint tot' < 0 then Inl ''nftables time value overflows duration'' else add_parts tot' ps))"

definition parts_text :: "(string \<times> time_unit) list \<Rightarrow> string" where
  "parts_text ps = concat (map (\<lambda>(ds, u). ds @ unit_text u) ps)"

definition parse_nft_timespec :: "string \<Rightarrow> string + 64 word" where
  "parse_nft_timespec v =
     (let ps = time_parts v
      in if ps = [] then Inl ''empty nftables time value''
         else case add_parts 0 ps of
             Inl e \<Rightarrow> Inl e
           | Inr t \<Rightarrow> if parts_text ps \<noteq> v then Inl ''nftables time value is malformed'' else Inr t)"

section \<open>Elements\<close>

definition is_word_char :: "char \<Rightarrow> bool" where
  "is_word_char c \<longleftrightarrow> is_alnum c \<or> c = CHR ''_''"

text \<open>RE2's \<open>\s\<close>.\<close>

definition re_space :: "char \<Rightarrow> bool" where
  "re_space c \<longleftrightarrow> (of_char c :: nat) \<in> {9, 10, 12, 13, 32}"

text \<open>\<open>((?:[0-9]+(?:ms|[dhms]))+)\<close>: the text of as many parts as follow one another, and the rest.\<close>

function take_parts :: "string \<Rightarrow> string \<times> string" where
  "take_parts s =
     (case match_part s of
        None \<Rightarrow> ([], s)
      | Some (ds, u, rest) \<Rightarrow> (let (a, b) = take_parts rest in (ds @ unit_text u @ a, b)))"
  by pat_completeness auto
termination by (relation "measure length") (auto dest: match_part_length)

declare take_parts.simps [simp del]

text \<open>A keyword at a word boundary followed by white space, and what \<open>f\<close> reads after it, leftmost first.\<close>

definition after_keyword :: "string \<Rightarrow> (string \<Rightarrow> string option) \<Rightarrow> string \<Rightarrow> string option" where
  "after_keyword kw f s =
     (if has_prefix s kw
      then (let t = drop (length kw) s; u = dropWhile re_space t in if u = t then None else f u)
      else None)"

fun find_keyword :: "string \<Rightarrow> (string \<Rightarrow> string option) \<Rightarrow> bool \<Rightarrow> string \<Rightarrow> string option" where
  "find_keyword kw f boundary [] = None"
| "find_keyword kw f boundary (c # cs) =
     (case (if boundary then after_keyword kw f (c # cs) else None) of
        Some x \<Rightarrow> Some x
      | None \<Rightarrow> find_keyword kw f (\<not> is_word_char c) cs)"

definition read_expires :: "string \<Rightarrow> string option" where
  "read_expires s =
     (let (a, b) = take_parts s
      in if a = [] then None else (case b of [] \<Rightarrow> Some a | c # _ \<Rightarrow> if re_space c then Some a else None))"

definition lower_hex :: "char \<Rightarrow> bool" where
  "lower_hex c \<longleftrightarrow> is_digit c \<or> (97 \<le> (of_char c :: nat) \<and> (of_char c :: nat) \<le> 102)"

text \<open>\<open>"(witshield:[0-9a-f]{64})"\<close>.\<close>

definition read_generation :: "string \<Rightarrow> string option" where
  "read_generation s =
     (let q = CHR 0x22 # ''witshield:''; g = take 64 (drop 11 s); rest = drop 75 s
      in if has_prefix s q \<and> length g = 64 \<and> list_all lower_hex g \<and> has_prefix rest [CHR 0x22]
         then Some (''witshield:'' @ g) else None)"

definition find_expires :: "string \<Rightarrow> string option" where
  "find_expires = find_keyword ''expires'' read_expires True"

definition find_generation :: "string \<Rightarrow> string option" where
  "find_generation = find_keyword ''comment'' read_generation True"

text \<open>The owner and the remaining TTL of an element.\<close>

definition parse_ban_element :: "command_result \<Rightarrow> duration \<Rightarrow> string + string \<times> duration" where
  "parse_ban_element res maximum =
     (case find_expires (cr_stdout res) of
        None \<Rightarrow> Inl ''nftables element did not expose a remaining TTL''
      | Some v \<Rightarrow>
         (case parse_nft_timespec v of
            Inl _ \<Rightarrow> Inl ''nftables element exposed an invalid remaining TTL''
          | Inr t \<Rightarrow>
             (if sint t \<le> 0 \<or> sint t > maximum then Inl ''nftables element exposed an invalid remaining TTL''
              else case find_generation (cr_stdout res) of
                  Some g \<Rightarrow> Inr (g, sint t)
                | None \<Rightarrow> if contains (cr_stdout res) ''comment '' then Inl ''nftables element has an unrecognized owner comment''
                          else Inr ([], sint t))))"

definition nft_element_missing :: "command_result \<Rightarrow> string option \<Rightarrow> bool" where
  "nft_element_missing res err \<longleftrightarrow> err \<noteq> None \<and> cr_exit res \<noteq> 0 \<and> \<not> cr_truncated res \<and>
     contains (map ascii_lower (cr_stderr res)) ''could not process rule'' \<and>
     contains (map ascii_lower (cr_stderr res)) ''no such file or directory''"

end
