(* ===== verification/IPBan.thy ===== *)
theory IPBan
  imports BanElements
begin

text \<open>
  The temporary IP ban playbook (\<open>internal/action/ip_ban.go\<close>): its nft commands, the
  reconciliation of its infrastructure and its phases.  The process runner and the clock
  are parameters.
\<close>

text \<open>\<open>bh_now\<close> is \<open>time.Now\<close>: the wall clock and the monotonic one.\<close>

record 'w ban_host =
  bh_run :: "'w runner"
  bh_now :: "'w \<Rightarrow> (instant \<times> duration) \<times> 'w"

section \<open>Commands\<close>

definition nft :: "ban_config \<Rightarrow> string list \<Rightarrow> command" where
  "nft c args = plain_command (bc_nft c) args (15 * second)"

definition get_element :: "ban_codec \<Rightarrow> ban_config \<Rightarrow> string \<Rightarrow> addr \<Rightarrow> command" where
  "get_element J c set_name a = nft c [''get'', ''element'', ''inet'', nftTable, set_name, ''{'', bk_text J a, ''}'']"

definition delete_element :: "ban_codec \<Rightarrow> ban_config \<Rightarrow> string \<Rightarrow> addr \<Rightarrow> command" where
  "delete_element J c set_name a = plain_command (bc_nft c)
     [''delete'', ''element'', ''inet'', nftTable, set_name, ''{'', bk_text J a, ''}''] (30 * second)"

definition temporaryBanMutationTimeout :: duration where
  "temporaryBanMutationTimeout = 30 * second"

definition element_line :: "string \<Rightarrow> string \<Rightarrow> string \<Rightarrow> string" where
  "element_line verb set_name element =
     verb @ '' element inet '' @ nftTable @ '' '' @ set_name @ '' { '' @ element @ '' }'' @ [CHR 0x0A]"

definition install_script :: "ban_codec \<Rightarrow> string \<Rightarrow> addr \<Rightarrow> int \<Rightarrow> string \<Rightarrow> string" where
  "install_script J set_name a ttl generation =
     (let final = bk_text J a @ '' timeout '' @ itoa ttl @ ''s'' @
            (if generation = [] then [] else '' comment '' @ CHR 0x22 # generation @ [CHR 0x22])
      in element_line ''add'' set_name (bk_text J a) @ element_line ''delete'' set_name (bk_text J a) @
         element_line ''add'' set_name final)"

definition install_element :: "ban_codec \<Rightarrow> ban_config \<Rightarrow> string \<Rightarrow> addr \<Rightarrow> int \<Rightarrow> string \<Rightarrow> command" where
  "install_element J c set_name a ttl generation =
     \<lparr>cmd_path = bc_nft c, cmd_args = [''-f'', ''-''], cmd_stdin = install_script J set_name a ttl generation,
      cmd_timeout = temporaryBanMutationTimeout\<rparr>"

definition install_or_refresh :: "ban_codec \<Rightarrow> ban_config \<Rightarrow> 'w ban_host \<Rightarrow> string \<Rightarrow> addr \<Rightarrow> int \<Rightarrow> string \<Rightarrow> 'w \<Rightarrow>
    string option \<times> 'w" where
  "install_or_refresh J c H set_name a ttl generation w =
     (let ((_, err), w1) = bh_run H (install_element J c set_name a ttl generation) w
      in (map_option (\<lambda>e. ''atomically install temporary nftables element: '' @ e) err, w1))"

definition ban_generation :: "ban_codec \<Rightarrow> string \<Rightarrow> string + string" where
  "ban_generation J aid =
     (if aid = [] then Inl ''temporary ban requires an action ID''
      else Inr (''witshield:'' @ hex_encode (bk_sha256 J aid)))"

section \<open>Infrastructure\<close>

definition list_table :: "ban_config \<Rightarrow> command" where
  "list_table c = nft c [''list'', ''table'', ''inet'', nftTable]"
definition list_set :: "ban_config \<Rightarrow> string \<Rightarrow> command" where
  "list_set c s = nft c [''list'', ''set'', ''inet'', nftTable, s]"
definition list_chain :: "ban_config \<Rightarrow> command" where
  "list_chain c = nft c [''list'', ''chain'', ''inet'', nftTable, nftChain]"

definition ban_sets :: "(string \<times> string) list" where
  "ban_sets = [(nftBanSetV4, ''ipv4_addr''), (nftBanSetV6, ''ipv6_addr'')]"

definition ban_rules :: "(string \<times> string) list" where
  "ban_rules = [(''ip'', nftBanSetV4), (''ip6'', nftBanSetV6)]"

definition rule_text :: "string \<times> string \<Rightarrow> string" where
  "rule_text r = fst r @ '' saddr @'' @ snd r @ '' drop''"

definition set_as_expected :: "string \<Rightarrow> string \<Rightarrow> bool" where
  "set_as_expected out ty \<longleftrightarrow> contains out (''type '' @ ty) \<and> contains out ''flags timeout''"

definition chain_as_expected :: "string \<Rightarrow> bool" where
  "chain_as_expected out \<longleftrightarrow> contains out ''hook input'' \<and> contains out ''policy accept''"

fun check_sets :: "ban_config \<Rightarrow> 'w ban_host \<Rightarrow> (string \<times> string) list \<Rightarrow> 'w \<Rightarrow> string option \<times> 'w" where
  "check_sets c H [] w = (None, w)"
| "check_sets c H ((name, ty) # ss) w =
     (let ((res, err), w1) = bh_run H (list_set c name) w
      in if err \<noteq> None \<or> \<not> set_as_expected (cr_stdout res) ty
         then (Some (''dedicated nftables set '' @ quote name @ '' is absent or has an unexpected definition''), w1)
         else check_sets c H ss w1)"

definition check_nftables :: "ban_config \<Rightarrow> 'w ban_host \<Rightarrow> 'w \<Rightarrow> string option \<times> 'w" where
  "check_nftables c H w =
     (let ((_, err), w1) = bh_run H (list_table c) w
      in if err \<noteq> None then (Some ''dedicated nftables table is absent'', w1)
         else case check_sets c H ban_sets w1 of
             (Some e, w2) \<Rightarrow> (Some e, w2)
           | (None, w2) \<Rightarrow>
              (let ((res, err), w3) = bh_run H (list_chain c) w2
               in if err \<noteq> None \<or> \<not> chain_as_expected (cr_stdout res) \<or>
                     \<not> list_all (\<lambda>r. contains (cr_stdout res) (rule_text r)) ban_rules
                  then (Some ''dedicated nftables input chain is absent or incomplete'', w3)
                  else (None, w3)))"

fun ensure_sets :: "ban_config \<Rightarrow> 'w ban_host \<Rightarrow> (string \<times> string) list \<Rightarrow> 'w \<Rightarrow> string option \<times> 'w" where
  "ensure_sets c H [] w = (None, w)"
| "ensure_sets c H ((name, ty) # ss) w =
     (let ((res, err), w1) = bh_run H (list_set c name) w
      in if err = None
         then (if \<not> set_as_expected (cr_stdout res) ty
               then (Some (''existing nftables set '' @ quote name @ '' has an unexpected definition''), w1)
               else ensure_sets c H ss w1)
         else (let ((_, add_err), w2) = bh_run H (nft c [''add'', ''set'', ''inet'', nftTable, name,
                     ''{'', ''type'', ty, '';'', ''flags'', ''timeout'', '';'', ''}'']) w1
               in case add_err of
                   Some e \<Rightarrow> (Some (''create nftables timeout set '' @ quote name @ '': '' @ e), w2)
                 | None \<Rightarrow> ensure_sets c H ss w2))"

fun ensure_rules :: "ban_config \<Rightarrow> 'w ban_host \<Rightarrow> string \<Rightarrow> (string \<times> string) list \<Rightarrow> 'w \<Rightarrow> string option \<times> 'w" where
  "ensure_rules c H out [] w = (None, w)"
| "ensure_rules c H out (r # rs) w =
     (if contains out (rule_text r) then ensure_rules c H out rs w
      else (let ((_, err), w1) = bh_run H (nft c [''add'', ''rule'', ''inet'', nftTable, nftChain, fst r, ''saddr'',
                 CHR ''@'' # snd r, ''drop'']) w
            in case err of
                Some e \<Rightarrow> (Some (''install nftables temporary-ban rule: '' @ e), w1)
              | None \<Rightarrow> ensure_rules c H out rs w1))"

text \<open>The chain: its listing when it is there, nothing when it was just created.\<close>

definition ensure_chain :: "ban_config \<Rightarrow> 'w ban_host \<Rightarrow> 'w \<Rightarrow> (string + string) \<times> 'w" where
  "ensure_chain c H w =
     (let ((res, err), w1) = bh_run H (list_chain c) w
      in if err \<noteq> None
         then (let ((_, add_err), w2) = bh_run H (nft c [''add'', ''chain'', ''inet'', nftTable, nftChain, ''{'', ''type'', ''filter'',
                     ''hook'', ''input'', ''priority'', ''-10'', '';'', ''policy'', ''accept'', '';'', ''}'']) w1
               in case add_err of
                   Some e \<Rightarrow> (Inl (''create dedicated nftables input chain: '' @ e), w2)
                 | None \<Rightarrow> (Inr [], w2))
         else if \<not> chain_as_expected (cr_stdout res)
         then (Inl ''existing WitShield nftables chain does not have the expected input hook and accept policy'', w1)
         else (Inr (cr_stdout res), w1))"

definition ensure_table :: "ban_config \<Rightarrow> 'w ban_host \<Rightarrow> 'w \<Rightarrow> string option \<times> 'w" where
  "ensure_table c H w =
     (let ((_, err), w1) = bh_run H (list_table c) w
      in if err = None then (None, w1)
         else (let ((_, add_err), w2) = bh_run H (nft c [''add'', ''table'', ''inet'', nftTable]) w1
               in (map_option (\<lambda>e. ''create dedicated nftables table: '' @ e) add_err, w2)))"

text \<open>\<open>ensureNFTables\<close>, which is all of \<open>Prepare\<close>.\<close>

definition ensure_nftables :: "ban_config \<Rightarrow> 'w ban_host \<Rightarrow> 'w \<Rightarrow> string option \<times> 'w" where
  "ensure_nftables c H w =
     (case ensure_table c H w of
        (Some e, w1) \<Rightarrow> (Some e, w1)
      | (None, w1) \<Rightarrow>
         (case ensure_sets c H ban_sets w1 of
            (Some e, w2) \<Rightarrow> (Some e, w2)
          | (None, w2) \<Rightarrow>
             (case ensure_chain c H w2 of
                (Inl e, w3) \<Rightarrow> (Some e, w3)
              | (Inr out, w3) \<Rightarrow>
                 (case ensure_rules c H out ban_rules w3 of
                    (Some e, w4) \<Rightarrow> (Some e, w4)
                  | (None, w4) \<Rightarrow> check_nftables c H w4))))"

section \<open>Precheck and Preview\<close>

text \<open>The existing element of a target: none, or one that the requested TTL covers.\<close>

definition read_existing :: "string \<Rightarrow> ban_codec \<Rightarrow> ban_config \<Rightarrow> 'w ban_host \<Rightarrow> string \<Rightarrow> addr \<Rightarrow> int \<Rightarrow> 'w \<Rightarrow>
    (string + (string \<times> duration) option) \<times> 'w" where
  "read_existing what J c H set_name a ttl w =
     (let ((res, err), w1) = bh_run H (get_element J c set_name a) w
      in (case err of
            None \<Rightarrow>
              (case parse_ban_element res (bc_max c) of
                 Inl e \<Rightarrow> Inl (''existing temporary ban cannot be safely refreshed: '' @ e)
               | Inr (g, remaining) \<Rightarrow>
                   if remaining > ttl * second
                   then Inl ''refusing to shorten an existing temporary ban; requested TTL must cover its remaining kernel TTL''
                   else Inr (Some (g, remaining)))
          | Some e \<Rightarrow> if nft_element_missing res err then Inr None else Inl (what @ e), w1))"

definition ban_precheck :: "ban_codec \<Rightarrow> ban_config \<Rightarrow> 'w ban_host \<Rightarrow> 'w phase" where
  "ban_precheck J c H i w =
     (let p = fst (bk_params J (inv_params i))
      in case safe_target J c p of
          Inl e \<Rightarrow> (Inl e, w)
        | Inr (a, set_name) \<Rightarrow>
           (let ((_, err), w1) = bh_run H (nft c [''--version'']) w
            in case err of
                Some e \<Rightarrow> (Inl (''nftables is unavailable: '' @ e), w1)
              | None \<Rightarrow>
                 (case check_nftables c H w1 of
                    (Some e, w2) \<Rightarrow> (Inl (''WitShield nftables infrastructure is not ready: '' @ e), w2)
                  | (None, w2) \<Rightarrow>
                     (let shown = [(''address'', DStr (bk_text J a)), (''ttlSeconds'', DInt (bp_ttl p))]
                      in case read_existing ''inspect existing temporary ban: '' J c H set_name a (bp_ttl p) w2 of
                          (Inl e, w3) \<Rightarrow> (Inl e, w3)
                        | (Inr (Some (g, remaining)), w3) \<Rightarrow>
                            (Inr \<lparr>res_summary = ''target already has a bounded WitShield ban and can be atomically refreshed'',
                              res_details = shown @ [(''refreshExisting'', DBool True), (''existingGeneration'', DStr g),
                                (''existingRemainingSeconds'', DInt (remaining div second))]\<rparr>, w3)
                        | (Inr None, w3) \<Rightarrow>
                            (Inr \<lparr>res_summary = ''target is a public non-protected address and nftables is available'',
                              res_details = shown\<rparr>, w3)))))"

definition ban_preview :: "ban_codec \<Rightarrow> ban_config \<Rightarrow> 'w ban_host \<Rightarrow> 'w phase" where
  "ban_preview J c H i w =
     (let p = fst (bk_params J (inv_params i))
      in case safe_target J c p of
          Inl e \<Rightarrow> (Inl e, w)
        | Inr (a, _) \<Rightarrow>
           (Inr \<lparr>res_summary = ''temporarily drop inbound packets from one address using a kernel-enforced TTL'',
              res_details = [(''address'', DStr (bk_text J a)), (''ttlSeconds'', DInt (bp_ttl p)),
                (''automaticExpiry'', DBool True)]\<rparr>, w))"

end
