(* ===== verification/IPBanPhases.thy ===== *)
theory IPBanPhases
  imports IPBan
begin

text \<open>
  The mutating phases of the temporary IP ban playbook (\<open>internal/action/ip_ban.go\<close>):
  apply, verify and rollback, and the playbook they make up.
\<close>

section \<open>Apply\<close>

text \<open>What apply remembers of the element it refreshes: owner, remaining TTL, its wall-clock expiry, and when it was read.\<close>

record predecessor =
  pd_generation :: string
  pd_millis :: int
  pd_expires :: "instant option"
  pd_captured :: "duration option"

definition no_predecessor :: predecessor where
  "no_predecessor = \<lparr>pd_generation = [], pd_millis = 0, pd_expires = None, pd_captured = None\<rparr>"

definition capture :: "'w ban_host \<Rightarrow> (string \<times> duration) option \<Rightarrow> 'w \<Rightarrow> predecessor \<times> 'w" where
  "capture H existing w =
     (case existing of
        None \<Rightarrow> (no_predecessor, w)
      | Some (g, remaining) \<Rightarrow>
         (let ((_, mono), w1) = bh_now H w; ((wall, _), w2) = bh_now H w1
          in (\<lparr>pd_generation = g, pd_millis = remaining div millisecond, pd_expires = Some (wall + remaining),
               pd_captured = Some mono\<rparr>, w2)))"

definition recovery_state :: "ban_codec \<Rightarrow> string \<Rightarrow> addr \<Rightarrow> int \<Rightarrow> string \<Rightarrow> instant \<Rightarrow> predecessor \<Rightarrow> ban_state" where
  "recovery_state J set_name a ttl generation now pd =
     \<lparr>bs_address = bk_text J a, bs_set = set_name, bs_generation = generation, bs_ttl = ttl,
      bs_expires = now + temporaryBanMutationTimeout + ttl * second, bs_prev_generation = pd_generation pd,
      bs_prev_millis = pd_millis pd, bs_prev_expires = pd_expires pd\<rparr>"

text \<open>
  What is left of the predecessor's TTL: the time from its capture to the commit of the new
  element is the total elapsed less the new element's age.
\<close>

definition predecessor_left :: "int \<Rightarrow> duration \<Rightarrow> duration \<Rightarrow> int \<Rightarrow> duration" where
  "predecessor_left millis elapsed current ttl =
     millis * millisecond - max 0 (elapsed - max 0 (ttl * second - current))"

definition age_predecessor :: "'w ban_host \<Rightarrow> predecessor \<Rightarrow> int \<Rightarrow> duration \<Rightarrow> ban_state \<Rightarrow> 'w \<Rightarrow> ban_state \<times> 'w" where
  "age_predecessor H pd ttl current st w =
     (case pd_captured pd of
        None \<Rightarrow> (st, w)
      | Some t0 \<Rightarrow>
         (if pd_millis pd \<le> 0 then (st, w)
          else (let ((_, mono), w1) = bh_now H w; left = predecessor_left (pd_millis pd) (mono - t0) current ttl
                in (if left \<le> 0 then st\<lparr>bs_prev_generation := [], bs_prev_millis := 0, bs_prev_expires := None\<rparr>
                    else st\<lparr>bs_prev_millis := left div millisecond\<rparr>, w1))))"

text \<open>\<open>errors.Join\<close>, and the verb \<open>%w\<close> of an error that may be nil.\<close>

definition join_errors :: "string option list \<Rightarrow> string" where
  "join_errors es = join_with (CHR 0x0A) (map the (filter (\<lambda>e. e \<noteq> None) es))"

definition wrapped :: "string option \<Rightarrow> string" where
  "wrapped e = (case e of None \<Rightarrow> ''%!w(<nil>)'' | Some x \<Rightarrow> x)"

definition state_bytes :: "string + bytes \<Rightarrow> bytes" where
  "state_bytes r = (case r of Inl _ \<Rightarrow> [] | Inr b \<Rightarrow> b)"

text \<open>From the observation of the element after the mutation on.\<close>

definition observe_applied :: "ban_codec \<Rightarrow> ban_config \<Rightarrow> 'w ban_host \<Rightarrow> addr \<Rightarrow> int \<Rightarrow> string \<Rightarrow> predecessor \<Rightarrow>
    ban_state \<Rightarrow> string option \<Rightarrow> (command_result \<times> string option) \<times> 'w \<Rightarrow> apply_result \<times> string option \<times> 'w" where
  "observe_applied J c H a ttl generation pd st mutation_err observed =
     (let ((res, err), w) = observed; uncertain = no_apply\<lparr>apr_state := state_bytes (bk_enc J st)\<rparr>
      in case err of
          Some oe \<Rightarrow>
            (if mutation_err \<noteq> None \<and> nft_element_missing res err \<and> pd_generation pd = [] then (no_apply, mutation_err, w)
             else (case bk_enc J st of
                Inl ee \<Rightarrow> (no_apply, Some (''temporary ban outcome is unknown and recovery state could not be encoded: '' @
                             join_errors [mutation_err, err, Some ee]), w)
              | Inr b \<Rightarrow> (uncertain, Some (''temporary ban outcome could not be observed after the mutation boundary: '' @
                             join_errors [mutation_err, err]), w)))
        | None \<Rightarrow>
           (case parse_ban_element res (bc_max c) of
              Inl pe \<Rightarrow> (uncertain, Some (''temporary ban outcome could not be parsed after the mutation boundary: '' @
                             join_errors [mutation_err, Some pe]), w)
            | Inr (current_generation, current) \<Rightarrow>
               (if current_generation \<noteq> generation
                then (if mutation_err \<noteq> None \<and> current_generation = pd_generation pd then (no_apply, mutation_err, w)
                      else (uncertain, Some (''temporary ban generation after the mutation boundary was unexpected: '' @
                             wrapped mutation_err), w))
                else (let (st1, w1) = age_predecessor H pd ttl current st w; ((wall, _), w2) = bh_now H w1
                      in case bk_enc J (st1\<lparr>bs_expires := wall + current\<rparr>) of
                          Inl ee \<Rightarrow> (no_apply, Some (''encode exact temporary ban state after apply: '' @ ee), w2)
                        | Inr b \<Rightarrow>
                           (if mutation_err \<noteq> None then (no_apply\<lparr>apr_state := b\<rparr>, mutation_err, w2)
                            else (\<lparr>apr_result = \<lparr>res_summary = ''temporary IP ban installed with kernel-enforced expiry'',
                                    res_details = [(''address'', DStr (bk_text J a)), (''ttlSeconds'', DInt ttl)]\<rparr>,
                                   apr_state = b, apr_confirm_by = None\<rparr>, None, w2))))))"

definition ban_apply :: "ban_codec \<Rightarrow> ban_config \<Rightarrow> 'w ban_host \<Rightarrow> invocation \<Rightarrow> 'w \<Rightarrow> apply_result \<times> string option \<times> 'w" where
  "ban_apply J c H i w =
     (let p = fst (bk_params J (inv_params i))
      in case safe_target J c p of
          Inl e \<Rightarrow> (no_apply, Some e, w)
        | Inr (a, set_name) \<Rightarrow>
           (case check_nftables c H w of
              (Some e, w1) \<Rightarrow> (no_apply, Some e, w1)
            | (None, w1) \<Rightarrow>
               (case read_existing ''inspect existing temporary ban before refresh: '' J c H set_name a (bp_ttl p) w1 of
                  (Inl e, w2) \<Rightarrow> (no_apply, Some e, w2)
                | (Inr existing, w2) \<Rightarrow>
                   (let (pd, w3) = capture H existing w2
                    in case ban_generation J (inv_action_id i) of
                        Inl e \<Rightarrow> (no_apply, Some e, w3)
                      | Inr generation \<Rightarrow>
                         (let ((now, _), w4) = bh_now H w3;
                              st = recovery_state J set_name a (bp_ttl p) generation now pd;
                              (mutation_err, w5) = install_or_refresh J c H set_name a (bp_ttl p) generation w4
                          in observe_applied J c H a (bp_ttl p) generation pd st mutation_err
                               (bh_run H (get_element J c set_name a) w5))))))"

section \<open>Recorded state\<close>

definition valid_ban_state :: "ban_codec \<Rightarrow> ban_config \<Rightarrow> ban_state \<Rightarrow> addr \<Rightarrow> string \<Rightarrow> string \<Rightarrow> bool" where
  "valid_ban_state J c st a set_name generation \<longleftrightarrow>
     \<not> (bs_address st \<noteq> bk_text J a \<or> bs_set st \<noteq> set_name \<or>
        (bs_generation st \<noteq> [] \<and> bs_generation st \<noteq> generation) \<or> bs_prev_millis st < 0 \<or> bs_ttl st < 0 \<or>
        bs_ttl st > bc_max c div second \<or> bs_prev_millis st > bc_max c div millisecond) \<and>
     \<not> (bs_prev_generation st \<noteq> [] \<and> bs_prev_expires st = None \<and> bs_prev_millis st \<le> 0) \<and>
     \<not> (bs_prev_millis st > 0 \<and> (bs_ttl st \<le> 0 \<or> bs_prev_millis st > bs_ttl st * 1000))"

text \<open>The recorded state of an invocation, if it is the target's and the action's own.\<close>

definition own_state :: "ban_codec \<Rightarrow> ban_config \<Rightarrow> invocation \<Rightarrow> addr \<Rightarrow> string \<Rightarrow> (string \<times> ban_state) option" where
  "own_state J c i a set_name =
     (case (ban_generation J (inv_action_id i), bk_dec J (inv_state i)) of
        (Inr g, Some st) \<Rightarrow> if valid_ban_state J c st a set_name g then Some (g, st) else None
      | _ \<Rightarrow> None)"

section \<open>Verify\<close>

definition ban_verify :: "ban_codec \<Rightarrow> ban_config \<Rightarrow> 'w ban_host \<Rightarrow> 'w phase" where
  "ban_verify J c H i w =
     (let p = fst (bk_params J (inv_params i))
      in case safe_target J c p of
          Inl e \<Rightarrow> (Inl e, w)
        | Inr (a, set_name) \<Rightarrow>
           (case own_state J c i a set_name of
              None \<Rightarrow> (Inl ''temporary ban state does not match the requested address'', w)
            | Some (generation, st) \<Rightarrow>
               (let ((res, err), w1) = bh_run H (get_element J c set_name a) w
                in case err of
                    Some e \<Rightarrow> (Inl (''temporary nftables element is not present: '' @ e), w1)
                  | None \<Rightarrow>
                     (case parse_ban_element res (bc_max c) of
                        Inl e \<Rightarrow> (Inl (''read temporary ban generation: '' @ e), w1)
                      | Inr (current, _) \<Rightarrow>
                         (if bs_generation st = [] \<and> current \<noteq> []
                          then (Inl ''legacy temporary ban was superseded by a newer action generation'', w1)
                          else if bs_generation st \<noteq> [] \<and> current \<noteq> generation
                          then (Inl ''temporary nftables element belongs to a newer action generation'', w1)
                          else (Inr \<lparr>res_summary = ''temporary IP ban is active and will expire automatically'',
                              res_details = [(''address'', DStr (bk_text J a)), (''expiresAt'', DTime (bs_expires st))]\<rparr>, w1))))))"

section \<open>Rollback\<close>

definition had_predecessor :: "ban_state \<Rightarrow> bool" where
  "had_predecessor st \<longleftrightarrow> bs_prev_expires st \<noteq> None \<or> bs_prev_millis st > 0"

text \<open>Why the element that is there may not be rolled back.\<close>

definition not_owned :: "ban_state \<Rightarrow> string \<Rightarrow> string \<Rightarrow> instant \<Rightarrow> string option" where
  "not_owned st generation current now =
     (if bs_generation st = [] \<and> current \<noteq> []
      then Some ''legacy temporary ban was superseded by a newer action and cannot be rolled back''
      else if bs_generation st = [] \<and> current = [] \<and> \<not> now < bs_expires st
      then Some ''legacy temporary ban ownership cannot be proven after its recorded wall-clock horizon; inspect nftables manually''
      else if bs_generation st \<noteq> [] \<and> current \<noteq> generation
      then Some ''temporary ban was superseded by a newer action and cannot be rolled back''
      else None)"

definition remove_element :: "ban_codec \<Rightarrow> ban_config \<Rightarrow> 'w ban_host \<Rightarrow> string \<Rightarrow> addr \<Rightarrow> 'w \<Rightarrow> (string + act_result) \<times> 'w" where
  "remove_element J c H set_name a w =
     (let ((_, err), w1) = bh_run H (delete_element J c set_name a) w
      in case err of
          None \<Rightarrow> (Inr \<lparr>res_summary = ''temporary IP ban removed before its TTL'',
                     res_details = [(''address'', DStr (bk_text J a))]\<rparr>, w1)
        | Some e \<Rightarrow>
           (let ((res, read_err), w2) = bh_run H (get_element J c set_name a) w1
            in (if read_err \<noteq> None \<and> nft_element_missing res read_err
                then Inr \<lparr>res_summary = ''temporary IP ban is already absent'', res_details = []\<rparr>
                else Inl (''remove temporary nftables element: '' @ e), w2)))"

text \<open>
  What is left of the predecessor at rollback: its recorded TTL less the age of the element,
  and no more than its wall-clock expiry allows.
\<close>

definition rollback_left :: "ban_state \<Rightarrow> duration \<Rightarrow> instant \<Rightarrow> duration" where
  "rollback_left st elapsed wall =
     (let left = bs_prev_millis st * millisecond - max 0 elapsed
      in case bs_prev_expires st of None \<Rightarrow> left | Some t \<Rightarrow> min left (t - wall))"

definition restore_predecessor :: "ban_codec \<Rightarrow> ban_config \<Rightarrow> 'w ban_host \<Rightarrow> string \<Rightarrow> addr \<Rightarrow> ban_state \<Rightarrow> duration \<Rightarrow>
    'w \<Rightarrow> (string + act_result) \<times> 'w" where
  "restore_predecessor J c H set_name a st current w =
     (let ttl = bs_ttl st * second; elapsed = ttl - current
      in if bs_prev_millis st \<le> 0 \<or> bs_ttl st \<le> 0
         then (Inl ''legacy predecessor rollback state lacks a monotonic TTL proof; inspect nftables manually'', w)
         else if elapsed < - second \<or> elapsed > ttl
         then (Inl ''current temporary ban TTL is inconsistent with its rollback state'', w)
         else (let ((wall, _), w1) = (if bs_prev_expires st = None then ((0, 0), w) else bh_now H w);
                   left = rollback_left st elapsed wall
               in if left \<le> 0 then remove_element J c H set_name a w1
                  else if left > bc_max c
                  then (Inl ''previous temporary ban TTL exceeds the configured safety bound'', w1)
                  else (let seconds = (left + second - 1) div second
                        in case install_or_refresh J c H set_name a seconds (bs_prev_generation st) w1 of
                            (Some e, w2) \<Rightarrow> (Inl (''restore previous temporary ban generation: '' @ e), w2)
                          | (None, w2) \<Rightarrow> (Inr \<lparr>res_summary = ''previous temporary IP ban generation restored'',
                              res_details = [(''address'', DStr (bk_text J a)), (''remainingSeconds'', DInt seconds)]\<rparr>, w2))))"

text \<open>From the element read at the start of a rollback on.\<close>

definition roll_back_element :: "ban_codec \<Rightarrow> ban_config \<Rightarrow> 'w ban_host \<Rightarrow> string \<Rightarrow> addr \<Rightarrow> string \<Rightarrow> ban_state \<Rightarrow> instant \<Rightarrow>
    (command_result \<times> string option) \<times> 'w \<Rightarrow> (string + act_result) \<times> 'w" where
  "roll_back_element J c H set_name a generation st now observed =
     (let ((res, err), w) = observed
      in case err of
          Some e \<Rightarrow>
            (if nft_element_missing res err
             then (if had_predecessor st
                   then (Inl ''temporary ban element is absent and the previous generation's remaining monotonic TTL cannot be proven; inspect nftables manually'', w)
                   else (Inr \<lparr>res_summary = ''temporary IP ban is already absent'', res_details = []\<rparr>, w))
             else (Inl (''read temporary nftables element before rollback: '' @ e), w))
        | None \<Rightarrow>
           (case parse_ban_element res (bc_max c) of
              Inl e \<Rightarrow> (Inl (''read temporary ban generation before rollback: '' @ e), w)
            | Inr (current, remaining) \<Rightarrow>
               (if had_predecessor st \<and> current = bs_prev_generation st
                then (Inr \<lparr>res_summary = ''previous temporary IP ban generation was already intact'',
                        res_details = [(''address'', DStr (bk_text J a))]\<rparr>, w)
                else case not_owned st generation current now of
                    Some e \<Rightarrow> (Inl e, w)
                  | None \<Rightarrow> if had_predecessor st then restore_predecessor J c H set_name a st remaining w
                            else remove_element J c H set_name a w)))"

definition ban_rollback :: "ban_codec \<Rightarrow> ban_config \<Rightarrow> 'w ban_host \<Rightarrow> 'w phase" where
  "ban_rollback J c H i w =
     (let p = fst (bk_params J (inv_params i))
      in case safe_target J c p of
          Inl e \<Rightarrow> (Inl e, w)
        | Inr (a, set_name) \<Rightarrow>
           (case own_state J c i a set_name of
              None \<Rightarrow> (Inl ''temporary ban rollback state does not match the request'', w)
            | Some (generation, st) \<Rightarrow>
               (let ((now, _), w1) = bh_now H w
                in roll_back_element J c H set_name a generation st now (bh_run H (get_element J c set_name a) w1))))"

definition ban_playbook :: "ban_codec \<Rightarrow> ban_config \<Rightarrow> 'w ban_host \<Rightarrow> 'w playbook" where
  "ban_playbook J c H = \<lparr>pb_type = TypeTemporaryIPBan, pb_validate = (\<lambda>raw _. ban_validate J c raw),
     pb_precheck = ban_precheck J c H, pb_preview = ban_preview J c H, pb_apply = ban_apply J c H,
     pb_verify = ban_verify J c H, pb_rollback = ban_rollback J c H, pb_confirm = None\<rparr>"

end
