(* ===== verification/BanTargetProps.thy ===== *)
theory BanTargetProps
  imports BanElements
begin

text \<open>
  The shared safety gate for ban targets equals a table of address ranges, and the reader of
  nftables time specifications is exact.
\<close>

section \<open>Ranges\<close>

lemma uint_drop_bit_int: "uint (drop_bit k w) = uint w div 2 ^ k"
proof -
  have "uint (drop_bit k w) = drop_bit k (uint w)" by (simp only: unsigned_drop_bit_eq bintr_uint [OF order_refl])
  then show ?thesis by (simp only: drop_bit_eq_div)
qed

lemma drop_bit_range:
  fixes w :: "'a::len word"
  shows "drop_bit k w = c \<longleftrightarrow> uint c * 2 ^ k \<le> uint w \<and> uint w < (uint c + 1) * 2 ^ k"
proof -
  have "drop_bit k w = c \<longleftrightarrow> uint w div 2 ^ k = uint c"
    by (simp only: word_uint_eq_iff uint_drop_bit_int)
  also have "\<dots> \<longleftrightarrow> uint c * 2 ^ k \<le> uint w \<and> uint w < (uint c + 1) * 2 ^ k"
  proof
    assume a: "uint w div 2 ^ k = uint c"
    have "uint w = uint w div 2 ^ k * 2 ^ k + uint w mod 2 ^ k" by (rule div_mult_mod_eq [symmetric])
    moreover have "0 \<le> uint w mod 2 ^ k" "uint w mod 2 ^ k < 2 ^ k" by simp_all
    ultimately show "uint c * 2 ^ k \<le> uint w \<and> uint w < (uint c + 1) * 2 ^ k"
      unfolding a distrib_right by linarith
  next
    assume "uint c * 2 ^ k \<le> uint w \<and> uint w < (uint c + 1) * 2 ^ k"
    then show "uint w div 2 ^ k = uint c" by (intro int_div_pos_eq [of _ _ _ "uint w - uint c * 2 ^ k"]) (simp_all add: algebra_simps)
  qed
  finally show ?thesis .
qed

lemma xor_zero: "xor a b = 0 \<longleftrightarrow> b = a" for a b :: "'a::len word"
  by (metis bit.xor_self xor.assoc xor.right_neutral xor.commute)

text \<open>
  The reference: inclusive ranges of addresses, written as in the IANA registries.
\<close>

definition quad :: "int \<Rightarrow> int \<Rightarrow> int \<Rightarrow> int \<Rightarrow> int" where
  "quad a b c d = ((a * 256 + b) * 256 + c) * 256 + d"

definition reserved_v4 :: "(int \<times> int) list" where
  "reserved_v4 =
     [(quad 0 0 0 0, quad 0 255 255 255), (quad 10 0 0 0, quad 10 255 255 255), (quad 100 64 0 0, quad 100 127 255 255),
      (quad 127 0 0 0, quad 127 255 255 255), (quad 169 254 0 0, quad 169 254 255 255), (quad 172 16 0 0, quad 172 31 255 255),
      (quad 192 0 0 0, quad 192 0 0 255), (quad 192 0 2 0, quad 192 0 2 255), (quad 192 168 0 0, quad 192 168 255 255),
      (quad 198 18 0 0, quad 198 19 255 255), (quad 198 51 100 0, quad 198 51 100 255), (quad 203 0 113 0, quad 203 0 113 255),
      (quad 224 0 0 0, quad 239 255 255 255), (quad 240 0 0 0, quad 255 255 255 255)]"

text \<open>\<open>block g n\<close>: the addresses whose first \<open>n\<close> 16-bit groups are \<open>g\<close>.\<close>

definition block :: "int list \<Rightarrow> int \<times> int" where
  "block g = (let k = 2 ^ (16 * (8 - length g)); base = fold (\<lambda>x n. n * 65536 + x) g 0 in (base * k, (base + 1) * k - 1))"

definition span :: "int list \<Rightarrow> int list \<Rightarrow> int \<times> int" where
  "span g h = (fst (block g), snd (block h))"

definition reserved_v6 :: "(int \<times> int) list" where
  "reserved_v6 = [(0, 1), block [0x64, 0xFF9B, 1], block [0x100, 0, 0, 0], block [0x2001, 2, 0], block [0x2001, 0xDB8],
     span [0xFC00] [0xFDFF], span [0xFE80] [0xFEBF], span [0xFF00] [0xFFFF]]"

definition outside :: "(int \<times> int) list \<Rightarrow> int \<Rightarrow> bool" where
  "outside rs n \<longleftrightarrow> (\<forall>(lo, hi) \<in> set rs. n < lo \<or> hi + 1 \<le> n)"

fun public_address :: "addr \<Rightarrow> bool" where
  "public_address (V4 w) = outside reserved_v4 (uint w)"
| "public_address (V6 w z) = (z = [] \<and> (if uint w div 2 ^ 32 = 0xFFFF then outside reserved_v4 (uint w mod 2 ^ 32) else outside reserved_v6 (uint w)))"

lemmas class_simps = is_global_unicast_def nonPublicBanTargets_def xor_zero drop_bit_range

definition gate :: "addr \<Rightarrow> bool" where
  "gate a \<longleftrightarrow> is_global_unicast a \<and> \<not> is_loopback a \<and> \<not> is_private a \<and> \<not> is_link_local_unicast a \<and>
     \<not> is_link_local_multicast a \<and> \<not> is_multicast a \<and> \<not> is_unspecified a \<and>
     \<not> list_ex (\<lambda>p. prefix_contains p a) nonPublicBanTargets"

lemma gate_v4: "gate (V4 w) \<longleftrightarrow> outside reserved_v4 (uint w)"
proof -
  have u: "0 \<le> uint w" "uint w < 4294967296" using uint_lt2p [of w] by simp_all
  have e: "w = 0 \<longleftrightarrow> uint w = 0" "w = 0xFFFFFFFF \<longleftrightarrow> uint w = 4294967295" by (simp_all add: word_uint_eq_iff)
  have l: "uint w < 3758096384 \<or> 4026531840 \<le> uint w \<Longrightarrow> uint w < 3758096384 \<or> 3758096640 \<le> uint w" by linarith
  show ?thesis using u
    by (simp add: gate_def class_simps e outside_def reserved_v4_def quad_def not_le not_less imp_conv_disj)
      (rule iffI; elim conjE; intro conjI; (assumption | linarith | (rule l; assumption)))
qed

lemma link_local_multicast_v6: "is_link_local_multicast (V6 w z) \<Longrightarrow> is_multicast (V6 w z)"
proof -
  assume a: "is_link_local_multicast (V6 w z)"
  let ?y = "drop_bit 120 w"
  have "drop_bit 8 (and (drop_bit 112 w) 0xFF0F) = (0xFF :: 128 word)" using a by simp
  then have "and ?y 0xFF = 0xFF" by (simp add: drop_bit_drop_bit)
  moreover have "(0xFF :: 128 word) = mask 8" by (simp add: mask_eq_exp_minus_1)
  moreover have "take_bit 8 ?y = ?y" by (rule bit_word_eqI) (auto simp: bit_take_bit_iff bit_drop_bit_eq dest: bit_imp_le_length)
  ultimately show ?thesis by (simp add: take_bit_eq_mask)
qed

lemma gate_v6: "gate (V6 w []) \<longleftrightarrow> outside reserved_v6 (uint w)"
proof -
  have u: "0 \<le> uint w" "uint w < 340282366920938463463374607431768211456" using uint_lt2p [of w] by simp_all
  have e: "w \<noteq> 0 \<and> w \<noteq> 1 \<longleftrightarrow> 2 \<le> uint w"
  proof -
    have "w = 0 \<longleftrightarrow> uint w = 0" "w = 1 \<longleftrightarrow> uint w = 1" by (simp_all add: word_uint_eq_iff)
    with u(1) show ?thesis by linarith
  qed
  have "gate (V6 w []) \<longleftrightarrow> (w \<noteq> 0 \<and> w \<noteq> 1) \<and> \<not> is_multicast (V6 w []) \<and> \<not> is_link_local_unicast (V6 w []) \<and> \<not> is_private (V6 w []) \<and>
      \<not> list_ex (\<lambda>p. prefix_contains p (V6 w [])) nonPublicBanTargets"
    using link_local_multicast_v6 [of w "[]"] by (auto simp: gate_def is_global_unicast_def)
  also have "\<dots> \<longleftrightarrow> 2 \<le> uint w \<and> \<not> is_multicast (V6 w []) \<and> \<not> is_link_local_unicast (V6 w []) \<and> \<not> is_private (V6 w []) \<and>
      \<not> list_ex (\<lambda>p. prefix_contains p (V6 w [])) nonPublicBanTargets"
    unfolding e ..
  finally show ?thesis using u
    by (simp add: class_simps outside_def reserved_v6_def block_def span_def Let_def not_le not_less imp_conv_disj)
      (rule iffI; elim conjE; intro conjI; assumption)
qed

lemma validate_ban_target_Inr:
  "bk_parse J s = Some a \<Longrightarrow> zone a = [] \<Longrightarrow> validate_ban_target J s = Inr b \<longleftrightarrow> gate (unmap a) \<and> b = unmap a"
  by (auto simp: validate_ban_target_def gate_def Let_def)

section \<open>Time specifications\<close>

definition amount_ns :: "string \<times> time_unit \<Rightarrow> int" where
  "amount_ns p = int (nat_of_digits (fst p)) * unit_ns (snd p)"

lemma unit_ns_pos: "0 < unit_ns u"
  by (cases u) simp_all

lemma amount_ns_nonneg: "0 \<le> amount_ns p"
  using unit_ns_pos [of "snd p"] by (simp add: amount_ns_def)

lemma sint_int64: "sint (word_of_int n :: 64 word) = (n + 9223372036854775808) mod 18446744073709551616 - 9223372036854775808"
  by (simp add: sint_sbintrunc' signed_take_bit_eq_take_bit_shift take_bit_eq_mod)

lemma le_div_int: "0 < u \<Longrightarrow> k \<le> m div u \<longleftrightarrow> k * u \<le> m" for k m u :: int
proof
  assume "0 < u" "k \<le> m div u"
  then have "k * u \<le> m div u * u" by (simp add: mult_right_mono)
  also have "\<dots> \<le> m" using \<open>0 < u\<close> div_mult_mod_eq [of m u] pos_mod_sign [of u m] by linarith
  finally show "k * u \<le> m" .
next
  assume "0 < u" "k * u \<le> m"
  from zdiv_mono1 [OF this(2,1)] \<open>0 < u\<close> show "k \<le> m div u" by simp
qed

lemma word_int64: "0 \<le> n \<Longrightarrow> n \<le> max_int64 \<Longrightarrow> sint (word_of_int n :: 64 word) = n"
  unfolding sint_int64 by simp

lemma word_int64_over: "max_int64 < n \<Longrightarrow> n \<le> 2 * max_int64 \<Longrightarrow> sint (word_of_int n :: 64 word) < 0"
proof -
  assume a: "max_int64 < n" "n \<le> 2 * max_int64"
  have "(n + 9223372036854775808) mod 18446744073709551616 = (n + 9223372036854775808 - 18446744073709551616) mod 18446744073709551616"
    by (rule minus_mod_self2 [symmetric])
  also have "\<dots> = n + 9223372036854775808 - 18446744073709551616" using a by (intro mod_pos_pos_trivial) simp_all
  finally show ?thesis unfolding sint_int64 using a by simp
qed

text \<open>The sum is exact, and every sum beyond \<open>int64\<close> is refused.\<close>

lemma add_parts_spec:
  "0 \<le> n \<Longrightarrow> n \<le> max_int64 \<Longrightarrow>
   (let tot = n + sum_list (map amount_ns ps)
    in if tot \<le> max_int64 then add_parts (word_of_int n) ps = Inr (word_of_int tot) else \<exists>e. add_parts (word_of_int n) ps = Inl e)"
proof (induction ps arbitrary: n)
  case (Cons p ps)
  obtain ds u where p: "p = (ds, u)" by (cases p)
  let ?k = "int (nat_of_digits ds)" and ?rest = "sum_list (map amount_ns ps)"
  have rest: "0 \<le> ?rest" by (rule sum_list_nonneg) (auto simp: amount_ns_nonneg)
  have amt: "amount_ns p = ?k * unit_ns u" by (simp add: amount_ns_def p)
  have u1: "1 \<le> unit_ns u" using unit_ns_pos [of u] by simp
  have fit: "?k \<le> max_int64 div unit_ns u \<longleftrightarrow> ?k * unit_ns u \<le> max_int64"
    by (rule le_div_int [OF unit_ns_pos])
  have le: "?k \<le> ?k * unit_ns u" using mult_left_mono [OF u1, of ?k] by simp
  have w: "word_of_int n + word_of_int ?k * word_of_int (unit_ns u) = (word_of_int (n + ?k * unit_ns u) :: 64 word)"
    by (simp add: wi_hom_mult wi_hom_add)
  consider "?k * unit_ns u > max_int64" | "?k * unit_ns u \<le> max_int64" "n + ?k * unit_ns u > max_int64"
    | "?k * unit_ns u \<le> max_int64" "n + ?k * unit_ns u \<le> max_int64" by linarith
  then show ?case
  proof cases
    case 1
    then have "\<exists>e. add_parts (word_of_int n) (p # ps) = Inl e" using fit by (simp add: p parse_int64_def Let_def)
    moreover have "\<not> n + sum_list (map amount_ns (p # ps)) \<le> max_int64" using 1 Cons.prems(1) rest amt by simp
    ultimately show ?thesis by (simp add: Let_def)
  next
    case 2
    from word_int64_over [OF 2(2)] 2(1) Cons.prems have "sint (word_of_int (n + ?k * unit_ns u) :: 64 word) < 0" by simp
    then have "\<exists>e. add_parts (word_of_int n) (p # ps) = Inl e"
      using fit 2(1) le by (simp add: p parse_int64_def Let_def w del: of_int_add of_int_mult of_int_of_nat_eq)
    moreover have "\<not> n + sum_list (map amount_ns (p # ps)) \<le> max_int64" using 2(2) rest amt by simp
    ultimately show ?thesis by (simp add: Let_def)
  next
    case 3
    have nn: "0 \<le> n + ?k * unit_ns u" using Cons.prems(1) unit_ns_pos [of u] by simp
    from word_int64 [OF nn 3(2)] nn have "\<not> sint (word_of_int (n + ?k * unit_ns u) :: 64 word) < 0" by linarith
    then have stp: "add_parts (word_of_int n) (p # ps) = add_parts (word_of_int (n + ?k * unit_ns u)) ps"
      using fit 3(1) le by (simp add: p parse_int64_def Let_def w del: of_int_add of_int_mult of_int_of_nat_eq)
    have "n + sum_list (map amount_ns (p # ps)) = n + ?k * unit_ns u + ?rest" by (simp add: amt)
    then show ?thesis unfolding stp using Cons.IH [OF nn 3(2)] by (simp only:)
  qed
qed (simp add: Let_def)

text \<open>Rendered parts are read back: digits end where a unit starts.\<close>

definition part_ok :: "string \<times> time_unit \<Rightarrow> bool" where
  "part_ok p \<longleftrightarrow> fst p \<noteq> [] \<and> list_all is_digit (fst p)"

lemma match_part_text:
  assumes "part_ok (ds, u)" and "rest = [] \<or> is_digit (hd rest)"
  shows "match_part (ds @ unit_text u @ rest) = Some (ds, u, rest)"
proof -
  have ds: "ds \<noteq> []" "\<forall>c \<in> set ds. is_digit c" using assms(1) by (auto simp: part_ok_def list_all_iff)
  have nd: "\<not> is_digit (hd (unit_text u @ rest))" "unit_text u @ rest \<noteq> []" by (cases u; simp add: is_digit_def)+
  then have tw: "takeWhile is_digit (unit_text u @ rest) = []" "dropWhile is_digit (unit_text u @ rest) = unit_text u @ rest"
    by (cases "unit_text u @ rest"; simp)+
  have "takeWhile is_digit (ds @ unit_text u @ rest) = ds" "dropWhile is_digit (ds @ unit_text u @ rest) = unit_text u @ rest"
    using ds tw by (simp_all add: takeWhile_append2 dropWhile_append2)
  moreover have "match_unit (unit_text u @ rest) = Some (u, rest)"
  proof (cases u)
    case Minute
    have "\<not> has_prefix rest ''s''" using assms(2) by (cases rest) (auto simp: is_digit_def)
    with Minute show ?thesis by (cases rest) (auto simp: match_unit_def)
  qed (auto simp: match_unit_def)
  ultimately show ?thesis using ds(1) by (simp add: match_part_def Let_def)
qed

lemma parts_text_starts: "list_all part_ok ps \<Longrightarrow> parts_text ps = [] \<or> is_digit (hd (parts_text ps))"
  by (cases ps) (auto simp: parts_text_def part_ok_def list_all_iff hd_append)

lemma time_parts_text: "list_all part_ok ps \<Longrightarrow> time_parts (parts_text ps) = ps"
proof (induction ps)
  case (Cons p ps)
  obtain ds u where p: "p = (ds, u)" by (cases p)
  have "match_part (ds @ unit_text u @ parts_text ps) = Some (ds, u, parts_text ps)"
    using Cons.prems p parts_text_starts [of ps] by (intro match_part_text) simp_all
  moreover have "parts_text (p # ps) = ds @ unit_text u @ parts_text ps" by (simp add: parts_text_def p)
  ultimately show ?case using Cons p by (subst time_parts.simps) simp
qed (subst time_parts.simps, simp add: parts_text_def match_part_def)

section \<open>Properties\<close>

text \<open>
  C15: The shared gate accepts exactly the addresses of the reference table: an address that
  the chain of class tests and prefixes lets through lies outside every reserved range of its
  family (an IPv4-mapped IPv6 address outside those of IPv4), and conversely; what it returns
  is the unmapped address.
\<close>

theorem ban_target_equivalence:
  assumes "bk_parse J s = Some a"
  shows "validate_ban_target J s = Inr b \<longleftrightarrow> public_address a \<and> b = unmap a"
proof (cases "zone a = []")
  case True
  have "gate (unmap a) \<longleftrightarrow> public_address a"
  proof (cases a)
    case (V4 w)
    then show ?thesis by (simp add: gate_v4)
  next
    case (V6 w z)
    have "drop_bit 32 w = 0xFFFF \<longleftrightarrow> uint (drop_bit 32 w) = 0xFFFF" by (simp add: word_uint_eq_iff)
    also have "\<dots> \<longleftrightarrow> uint w div 2 ^ 32 = 0xFFFF"
      unfolding uint_drop_bit_int by simp
    finally have m: "drop_bit 32 w = 0xFFFF \<longleftrightarrow> uint w div 2 ^ 32 = 0xFFFF" .
    have "uint (ucast w :: 32 word) = uint w mod 2 ^ 32" by (simp add: unsigned_ucast_eq take_bit_eq_mod)
    with V6 True m gate_v6 [of w] gate_v4 [of "ucast w"] show ?thesis by simp
  qed
  with validate_ban_target_Inr [OF assms True] show ?thesis by simp
next
  case False
  then have "\<not> public_address a" by (cases a) simp_all
  with assms False show ?thesis by (simp add: validate_ban_target_def)
qed

text \<open>
  C16: A time specification that the reader accepts is the concatenation of its parts, and its
  value is their exact sum: no multiplication or addition wraps around in \<open>int64\<close>.
\<close>

theorem nft_timespec_exact:
  assumes "parse_nft_timespec v = Inr t"
  shows "v = parts_text (time_parts v) \<and> sint t = sum_list (map amount_ns (time_parts v)) \<and> 0 \<le> sint t"
proof -
  let ?s = "sum_list (map amount_ns (time_parts v))"
  have s: "0 \<le> ?s" by (rule sum_list_nonneg) (auto simp: amount_ns_nonneg)
  from assms have v: "v = parts_text (time_parts v)" and t: "add_parts 0 (time_parts v) = Inr t"
    by (auto simp: parse_nft_timespec_def Let_def split: if_splits sum.splits)
  from add_parts_spec [of 0 "time_parts v"] t have "?s \<le> max_int64 \<and> t = word_of_int ?s" by (auto simp: Let_def split: if_splits)
  with word_int64 [OF s] s v show ?thesis by simp
qed

text \<open>
  C29: Rendering and reading a time specification are inverse while the total fits in \<open>int64\<close>,
  and a total that does not fit is an error.
\<close>

theorem nft_timespec_roundtrip:
  assumes "ps \<noteq> []" and "list_all part_ok ps"
  shows "if sum_list (map amount_ns ps) \<le> max_int64
    then parse_nft_timespec (parts_text ps) = Inr (word_of_int (sum_list (map amount_ns ps)))
    else \<exists>e. parse_nft_timespec (parts_text ps) = Inl e"
  using assms time_parts_text [OF assms(2)] add_parts_spec [of 0 ps]
  by (auto simp: parse_nft_timespec_def Let_def split: if_splits)

section \<open>Witnesses\<close>

definition demo_ban_codec :: ban_codec where
  "demo_ban_codec = \<lparr>bk_parse = (\<lambda>s. if s = ''8.8.8.8'' then Some (V4 0x08080808)
       else if s = ''9.9.9.9'' then Some (V4 0x09090909) else None),
     bk_text = (\<lambda>_. ''8.8.8.8''),
     bk_params = (\<lambda>_. (\<lparr>bp_address = ''8.8.8.8'', bp_ttl = 60, bp_admin = ''9.9.9.9'', bp_reason = []\<rparr>, None)),
     bk_enc = (\<lambda>st. Inr (if bs_prev_generation st = [] then ''s'' else ''p'')),
     bk_dec = (\<lambda>b. Some \<lparr>bs_address = ''8.8.8.8'', bs_set = nftBanSetV4, bs_generation = ''witshield:61'', bs_ttl = 60,
       bs_expires = 100, bs_prev_generation = [], bs_prev_millis = 0, bs_prev_expires = None\<rparr>),
     bk_sha256 = (\<lambda>_. ''a'')\<rparr>"

lemma demo_public_target: "validate_ban_target demo_ban_codec ''8.8.8.8'' = Inr (V4 0x08080808)"
  by (simp add: validate_ban_target_def demo_ban_codec_def is_global_unicast_def nonPublicBanTargets_def)

theorem ban_target_equivalence_witness:
  "validate_ban_target demo_ban_codec ''8.8.8.8'' = Inr (V4 0x08080808)"
proof -
  have "bk_parse demo_ban_codec ''8.8.8.8'' = Some (V4 0x08080808)" by (simp add: demo_ban_codec_def)
  moreover have "public_address (V4 0x08080808)" by (simp add: outside_def reserved_v4_def quad_def)
  ultimately show ?thesis using ban_target_equivalence by simp
qed

definition demo_parts :: "(string \<times> time_unit) list" where
  "demo_parts = [(''1'', Hour), (''5'', Minute), (''30'', Second), (''250'', Milli)]"

lemma demo_parts_ok: "demo_parts \<noteq> []" "list_all part_ok demo_parts" "parts_text demo_parts = ''1h5m30s250ms''"
    "sum_list (map amount_ns demo_parts) = 3930250000000"
  by (simp_all add: demo_parts_def part_ok_def is_digit_def parts_text_def amount_ns_def nat_of_digits_def digit_val_def)

theorem nft_timespec_roundtrip_witness:
  "parse_nft_timespec ''1h5m30s250ms'' = Inr 3930250000000"
  using nft_timespec_roundtrip [OF demo_parts_ok(1,2)] by (simp add: demo_parts_ok(3,4))

theorem nft_timespec_exact_witness:
  "\<exists>t. parse_nft_timespec ''1h5m30s250ms'' = Inr t \<and> sint t = 3930250000000"
proof -
  have p: "parse_nft_timespec (parts_text demo_parts) = Inr (word_of_int (sum_list (map amount_ns demo_parts)))"
    using time_parts_text [OF demo_parts_ok(2)] add_parts_spec [of 0 demo_parts] demo_parts_ok(1,4)
    by (simp add: parse_nft_timespec_def Let_def)
  from nft_timespec_exact [OF p] p show ?thesis by (simp add: time_parts_text [OF demo_parts_ok(2)] demo_parts_ok(3,4))
qed

end
