(* ===== verification/IPBanProps.thy ===== *)
theory IPBanProps
  imports IPBanPhases BanTargetProps
begin

text \<open>
  The temporary ban playbook: rollback touches only elements the action owns, and every
  state apply leaves is one that verify and rollback accept for the same action.
\<close>

section \<open>Rollback\<close>

lemma not_owned_None:
  "not_owned st g current now = None \<longleftrightarrow>
   (if bs_generation st = [] then current = [] \<and> now < bs_expires st else current = g)"
  by (auto simp: not_owned_def)

lemma roll_back_element_reads:
  assumes "roll_back_element J c H s a g st now ((res, err), w) = (out, w')" and "w' \<noteq> w"
  shows "err = None \<and> (\<exists>current left. parse_ban_element res (bc_max c) = Inr (current, left) \<and>
    (if bs_generation st = [] then current = [] \<and> now < bs_expires st else current = g))"
proof (cases err)
  case None
  with assms obtain current left where p: "parse_ban_element res (bc_max c) = Inr (current, left)"
    by (cases "parse_ban_element res (bc_max c)") (auto simp: roll_back_element_def Let_def)
  with assms None have "not_owned st g current now = None"
    by (cases "not_owned st g current now") (auto simp: roll_back_element_def Let_def split: if_splits)
  with p None show ?thesis by (simp only: not_owned_None) blast
next
  case (Some e)
  with assms show ?thesis by (auto simp: roll_back_element_def Let_def split: if_splits)
qed

section \<open>Recorded state\<close>

definition config_ok :: "ban_config \<Rightarrow> bool" where
  "config_ok c \<longleftrightarrow> 0 < bc_min c \<and> bc_min c \<le> bc_max c"

definition ttl_ok :: "ban_config \<Rightarrow> int \<Rightarrow> bool" where
  "ttl_ok c ttl \<longleftrightarrow> 0 < ttl \<and> ttl \<le> bc_max c div second"

lemma new_ban_playbook_ok: "new_ban_playbook r c0 = Inr c \<Longrightarrow> config_ok c"
  by (auto simp: new_ban_playbook_def config_ok_def Let_def split: if_splits option.splits)

lemma validated_ttl: "ban_validate J c raw = None \<Longrightarrow> config_ok c \<Longrightarrow> ttl_ok c (bp_ttl (fst (bk_params J raw)))"
proof -
  assume v: "ban_validate J c raw = None" and c: "config_ok c"
  obtain p e where pe: "bk_params J raw = (p, e)" by (cases "bk_params J raw")
  from c have "1 \<le> (bc_min c + second - 1) div second" by (simp add: config_ok_def le_div_int)
  with v pe show ?thesis by (auto simp: ban_validate_def ttl_ok_def Let_def split: option.splits if_splits)
qed

definition pd_ok :: "ban_config \<Rightarrow> int \<Rightarrow> predecessor \<Rightarrow> bool" where
  "pd_ok c ttl pd \<longleftrightarrow> 0 \<le> pd_millis pd \<and> pd_millis pd \<le> bc_max c div millisecond \<and> pd_millis pd \<le> ttl * 1000 \<and>
     (pd_generation pd \<noteq> [] \<longrightarrow> pd_expires pd \<noteq> None)"

lemma parse_ban_element_bounds: "parse_ban_element res m = Inr (g, left) \<Longrightarrow> 0 < left \<and> left \<le> m"
  by (auto simp: parse_ban_element_def split: option.splits sum.splits if_splits)

lemma capture_ok:
  assumes "read_existing what J c H s a ttl w = (Inr existing, w1)" and "capture H existing w2 = (pd, w3)"
    and "ttl_ok c ttl" and "config_ok c"
  shows "pd_ok c ttl pd"
proof (cases existing)
  case None
  with assms(2) have "pd = no_predecessor" by (simp add: capture_def)
  moreover have "0 \<le> bc_max c div millisecond" using assms(4) by (simp add: config_ok_def le_div_int)
  ultimately show ?thesis using assms(3) by (simp add: no_predecessor_def pd_ok_def ttl_ok_def)
next
  case (Some p)
  obtain g left where p: "p = (g, left)" by (cases p)
  obtain res err w' where r: "bh_run H (get_element J c s a) w = ((res, err), w')" by (metis prod.exhaust)
  with assms(1) Some p have e: "parse_ban_element res (bc_max c) = Inr (g, left)" "left \<le> ttl * second"
    by (auto simp: read_existing_def Let_def split: option.splits sum.splits if_splits)
  from parse_ban_element_bounds [OF e(1)] have b: "0 < left" "left \<le> bc_max c" by simp_all
  have "left div millisecond \<le> bc_max c div millisecond" using b(2) by (intro zdiv_mono1) simp_all
  moreover have "left div millisecond \<le> ttl * 1000" using e(2) by linarith
  moreover have "0 \<le> left div millisecond" using b(1) by simp
  moreover from assms(2) Some p have "pd_millis pd = left div millisecond" "pd_expires pd \<noteq> None"
    by (auto simp: capture_def Let_def split: prod.splits)
  ultimately show ?thesis by (simp add: pd_ok_def)
qed

lemma recovery_state_valid:
  "pd_ok c ttl pd \<Longrightarrow> ttl_ok c ttl \<Longrightarrow> valid_ban_state J c (recovery_state J s a ttl g now pd) a s g"
  by (auto simp: pd_ok_def ttl_ok_def valid_ban_state_def recovery_state_def)

lemma valid_ban_state_expires: "valid_ban_state J c st a s g \<Longrightarrow> valid_ban_state J c (st\<lparr>bs_expires := x\<rparr>) a s g"
  by (simp add: valid_ban_state_def)

lemma predecessor_left_le: "predecessor_left m elapsed current ttl \<le> m * millisecond"
  by (simp add: predecessor_left_def)

lemma age_predecessor_valid:
  assumes "valid_ban_state J c st a s g" and "age_predecessor H pd ttl current st w = (st', w')"
    and "bs_prev_millis st = pd_millis pd" and "bs_prev_generation st \<noteq> [] \<longrightarrow> bs_prev_expires st \<noteq> None"
  shows "valid_ban_state J c st' a s g \<and> bs_generation st' = bs_generation st"
proof (cases "pd_captured pd = None \<or> pd_millis pd \<le> 0")
  case True
  with assms(1,2) show ?thesis by (auto simp: age_predecessor_def split: option.splits)
next
  case False
  then obtain t0 where t0: "pd_captured pd = Some t0" "0 < pd_millis pd" by auto
  obtain wall mono w1 where n: "bh_now H w = ((wall, mono), w1)" by (metis prod.exhaust)
  let ?left = "predecessor_left (pd_millis pd) (mono - t0) current ttl"
  have st': "st' = (if ?left \<le> 0 then st\<lparr>bs_prev_generation := [], bs_prev_millis := 0, bs_prev_expires := None\<rparr>
      else st\<lparr>bs_prev_millis := ?left div millisecond\<rparr>)"
    using assms(2) t0 n by (simp add: age_predecessor_def Let_def)
  show ?thesis
  proof (cases "?left \<le> 0")
    case True
    with st' assms(1) show ?thesis by (auto simp: valid_ban_state_def)
  next
    case False
    then have "0 \<le> ?left div millisecond" by (simp add: le_div_int)
    moreover have "?left div millisecond \<le> bs_prev_millis st"
      using predecessor_left_le [of "pd_millis pd" "mono - t0" current ttl] assms(3) by linarith
    ultimately show ?thesis using False st' assms(1,3,4) t0 by (auto simp: valid_ban_state_def)
  qed
qed

text \<open>What apply records for an action.\<close>

definition recorded :: "ban_codec \<Rightarrow> ban_config \<Rightarrow> addr \<Rightarrow> string \<Rightarrow> string \<Rightarrow> bytes \<Rightarrow> bool" where
  "recorded J c a s g b \<longleftrightarrow> (\<exists>st. bk_enc J st = Inr b \<and> valid_ban_state J c st a s g \<and> bs_generation st = g)"

lemma observe_applied_records:
  assumes "observe_applied J c H a ttl g pd st merr observed = (r, err, w')" and "apr_state r \<noteq> []"
    and "valid_ban_state J c st a s g" and "bs_generation st = g" and "bs_prev_millis st = pd_millis pd"
    and "bs_prev_generation st \<noteq> [] \<longrightarrow> bs_prev_expires st \<noteq> None"
  shows "recorded J c a s g (apr_state r)"
proof -
  obtain res oerr w where o: "observed = ((res, oerr), w)" by (metis prod.exhaust)
  let ?b = "state_bytes (bk_enc J st)"
  have rec: "recorded J c a s g ?b" if "?b \<noteq> []"
    using that assms(3,4) by (auto simp: recorded_def state_bytes_def split: sum.splits)
  consider "apr_state r = ?b" | cur left st1 w1 x where "oerr = None" "parse_ban_element res (bc_max c) = Inr (cur, left)"
      "age_predecessor H pd ttl left st w = (st1, w1)" "bk_enc J (st1\<lparr>bs_expires := x\<rparr>) = Inr (apr_state r)"
  proof (cases oerr)
    case (Some e)
    with assms(1,2) o that(1) show ?thesis
      by (auto simp: observe_applied_def Let_def no_apply_def split: if_splits sum.splits)
  next
    case None
    show ?thesis
    proof (cases "parse_ban_element res (bc_max c)")
      case (Inl e)
      with assms(1) o None that(1) show ?thesis by (auto simp: observe_applied_def Let_def)
    next
      case (Inr p)
      obtain cur left where p: "p = (cur, left)" by (cases p)
      obtain st1 w1 where a: "age_predecessor H pd ttl left st w = (st1, w1)" by fastforce
      obtain x m w2 where n: "bh_now H w1 = ((x, m), w2)" by (metis prod.exhaust)
      show ?thesis
      proof (cases "cur = g")
        case True
        with assms(1,2) o None Inr p a n have "bk_enc J (st1\<lparr>bs_expires := x + left\<rparr>) = Inr (apr_state r)"
          by (auto simp: observe_applied_def Let_def no_apply_def split: if_splits sum.splits)
        with None Inr p a that(2) show ?thesis by blast
      next
        case False
        with assms(1,2) o None Inr p that(1) show ?thesis
          by (auto simp: observe_applied_def Let_def no_apply_def split: if_splits)
      qed
    qed
  qed
  then show ?thesis
  proof cases
    case 1
    with rec assms(2) show ?thesis by simp
  next
    case (2 cur left st1 w1 x)
    from age_predecessor_valid [OF assms(3) 2(3) assms(5,6)] have v: "valid_ban_state J c st1 a s g" "bs_generation st1 = g"
      using assms(4) by simp_all
    have "bs_generation (st1\<lparr>bs_expires := x\<rparr>) = g" using v(2) by simp
    with 2(4) valid_ban_state_expires [OF v(1)] show ?thesis unfolding recorded_def by blast
  qed
qed

lemma apply_records:
  assumes "ban_apply J c H i w = (r, err, w')" and "apr_state r \<noteq> []"
    and "ttl_ok c (bp_ttl (fst (bk_params J (inv_params i))))" and "config_ok c"
  obtains a s g where "safe_target J c (fst (bk_params J (inv_params i))) = Inr (a, s)"
    "ban_generation J (inv_action_id i) = Inr g" "recorded J c a s g (apr_state r)"
proof -
  let ?p = "fst (bk_params J (inv_params i))" and ?what = "''inspect existing temporary ban before refresh: ''"
  from assms(1,2) obtain a s where t: "safe_target J c ?p = Inr (a, s)"
    by (cases "safe_target J c ?p") (auto simp: ban_apply_def Let_def no_apply_def)
  obtain e1 w1 where c1: "check_nftables c H w = (e1, w1)" by fastforce
  with assms(1,2) t have e1: "e1 = None" by (cases e1) (auto simp: ban_apply_def Let_def no_apply_def)
  obtain ex w2 where x: "read_existing ?what J c H s a (bp_ttl ?p) w1 = (ex, w2)" by fastforce
  with assms(1,2) t c1 e1 obtain existing where ex: "ex = Inr existing"
    by (cases ex) (auto simp: ban_apply_def Let_def no_apply_def)
  obtain pd w3 where cap: "capture H existing w2 = (pd, w3)" by fastforce
  from capture_ok [OF x [unfolded ex] cap assms(3,4)] have pd: "pd_ok c (bp_ttl ?p) pd" .
  from assms(1,2) t c1 e1 x ex cap obtain g where g: "ban_generation J (inv_action_id i) = Inr g"
    by (cases "ban_generation J (inv_action_id i)") (auto simp: ban_apply_def Let_def no_apply_def)
  obtain now m w4 where n: "bh_now H w3 = ((now, m), w4)" by (metis prod.exhaust)
  obtain merr w5 where ins: "install_or_refresh J c H s a (bp_ttl ?p) g w4 = (merr, w5)" by fastforce
  let ?st = "recovery_state J s a (bp_ttl ?p) g now pd"
  from assms(1) t c1 e1 x ex cap g n ins have o: "observe_applied J c H a (bp_ttl ?p) g pd ?st merr
      (bh_run H (get_element J c s a) w5) = (r, err, w')" by (simp add: ban_apply_def Let_def)
  have f: "bs_generation ?st = g" "bs_prev_millis ?st = pd_millis pd" "bs_prev_generation ?st \<noteq> [] \<longrightarrow> bs_prev_expires ?st \<noteq> None"
    using pd by (auto simp: recovery_state_def pd_ok_def)
  from observe_applied_records [OF o assms(2) recovery_state_valid [OF pd assms(3)] f] t g that show ?thesis by blast
qed

section \<open>Properties\<close>

text \<open>
  A rollback touches nothing but the action's own element: beyond reading the clock and
  the element, a command reaches the host only when the element read back carries the
  generation of this very action (or, for a state of the older format, no owner at all,
  within its recorded horizon).
\<close>

theorem rollback_only_own_element:
  "snd (ban_rollback J c H i w) = w \<or>
   (\<exists>a s g st t w1 res err w2. safe_target J c (fst (bk_params J (inv_params i))) = Inr (a, s) \<and>
      own_state J c i a s = Some (g, st) \<and> bh_now H w = (t, w1) \<and> bh_run H (get_element J c s a) w1 = ((res, err), w2) \<and>
      (snd (ban_rollback J c H i w) = w2 \<or>
       err = None \<and> (\<exists>current left. parse_ban_element res (bc_max c) = Inr (current, left) \<and>
         (if bs_generation st = [] then current = [] \<and> fst t < bs_expires st else current = g))))"
proof (cases "safe_target J c (fst (bk_params J (inv_params i)))")
  case (Inr p)
  obtain a s where p: "p = (a, s)" by (cases p)
  show ?thesis
  proof (cases "own_state J c i a s")
    case (Some q)
    obtain g st where q: "q = (g, st)" by (cases q)
    obtain now m w1 where n: "bh_now H w = ((now, m), w1)" by (metis prod.exhaust)
    obtain res err w2 where r: "bh_run H (get_element J c s a) w1 = ((res, err), w2)" by (metis prod.exhaust)
    obtain out w' where e: "roll_back_element J c H s a g st now ((res, err), w2) = (out, w')" by fastforce
    with Inr p Some q n r have sw: "snd (ban_rollback J c H i w) = w'" by (simp add: ban_rollback_def)
    have "snd (ban_rollback J c H i w) = w2 \<or>
       err = None \<and> (\<exists>current left. parse_ban_element res (bc_max c) = Inr (current, left) \<and>
         (if bs_generation st = [] then current = [] \<and> fst (now, m) < bs_expires st else current = g))"
      using roll_back_element_reads [OF e] unfolding sw fst_conv by blast
    with Inr p Some q n r show ?thesis by blast
  qed (simp add: ban_rollback_def Inr p)
qed (simp add: ban_rollback_def)

text \<open>
  Every rollback state apply hands out, on success and at the mutation boundary of a
  failure alike, is one that verify and rollback accept for the same action, parameters and
  configuration: its bounds, owner and predecessor record are in order.
\<close>

theorem apply_state_accepted:
  assumes "new_ban_playbook r0 c0 = Inr c" and "ban_validate J c (inv_params i) = None"
    and "ban_apply J c H i w = (r, err, w')" and "apr_state r \<noteq> []"
    and "\<And>st b. bk_enc J st = Inr b \<Longrightarrow> bk_dec J b = Some st"
  shows "\<exists>a s g st. safe_target J c (fst (bk_params J (inv_params i))) = Inr (a, s) \<and>
    ban_generation J (inv_action_id i) = Inr g \<and>
    own_state J c (i\<lparr>inv_state := apr_state r\<rparr>) a s = Some (g, st) \<and> bs_generation st = g"
proof -
  note c = new_ban_playbook_ok [OF assms(1)]
  from apply_records [OF assms(3,4) validated_ttl [OF assms(2) c] c] obtain a s g where
    t: "safe_target J c (fst (bk_params J (inv_params i))) = Inr (a, s)" "ban_generation J (inv_action_id i) = Inr g"
    and r: "recorded J c a s g (apr_state r)" by blast
  from r obtain st where st: "bk_enc J st = Inr (apr_state r)" "valid_ban_state J c st a s g" "bs_generation st = g"
    unfolding recorded_def by blast
  from t(2) assms(5) [OF st(1)] st(2) have "own_state J c (i\<lparr>inv_state := apr_state r\<rparr>) a s = Some (g, st)"
    by (simp add: own_state_def)
  with t st(3) show ?thesis by blast
qed

section \<open>Witnesses\<close>

definition demo_ban_state :: ban_state where
  "demo_ban_state = \<lparr>bs_address = ''8.8.8.8'', bs_set = nftBanSetV4, bs_generation = ''witshield:61'', bs_ttl = 60,
     bs_expires = 90000000000, bs_prev_generation = [], bs_prev_millis = 0, bs_prev_expires = None\<rparr>"

definition demo_codec :: ban_codec where
  "demo_codec = demo_ban_codec\<lparr>bk_enc := (\<lambda>st. if st = demo_ban_state then Inr ''s'' else Inl ''unused''),
     bk_dec := (\<lambda>_. Some demo_ban_state)\<rparr>"

definition demo_listing :: string where
  "demo_listing = ''type ipv4_addr type ipv6_addr flags timeout hook input policy accept '' @
     ''ip saddr @temporary_bans_v4 drop ip6 saddr @temporary_bans_v6 drop''"

text \<open>A host whose infrastructure is in place, and which fails to answer after the transaction.\<close>

definition demo_ban_host :: "bool ban_host" where
  "demo_ban_host = \<lparr>bh_run = (\<lambda>cmd w.
       if cmd_args cmd = [''-f'', ''-''] then ((no_output, None), True)
       else if hd (cmd_args cmd) = ''get''
       then ((no_output\<lparr>cr_stderr := (if w then [] else ''could not process rule: no such file or directory''), cr_exit := 1\<rparr>, Some ''x''), w)
       else ((no_output\<lparr>cr_stdout := demo_listing\<rparr>, None), w)), bh_now = (\<lambda>w. ((0, 0), w))\<rparr>"

definition demo_ban_config :: ban_config where
  "demo_ban_config = \<lparr>bc_nft = ''/nft'', bc_protected = [], bc_admins = [], bc_min = 30 * second, bc_max = 86400 * second\<rparr>"

definition demo_ban_invocation :: invocation where
  "demo_ban_invocation = \<lparr>inv_action_id = ''a1'', inv_actor = ''x'', inv_params = ''{}'', inv_state = []\<rparr>"

lemma demo_safe_target: "safe_target demo_codec demo_ban_config
    \<lparr>bp_address = ''8.8.8.8'', bp_ttl = 60, bp_admin = ''9.9.9.9'', bp_reason = []\<rparr> = Inr (V4 0x08080808, nftBanSetV4)"
proof -
  have "bk_parse demo_codec ''8.8.8.8'' = Some (V4 0x08080808)" by (simp add: demo_codec_def demo_ban_codec_def)
  moreover have "gate (V4 0x08080808)" by (simp add: gate_v4 outside_def reserved_v4_def quad_def)
  ultimately have "validate_ban_target demo_codec ''8.8.8.8'' = Inr (V4 0x08080808)"
    by (simp add: validate_ban_target_Inr)
  then show ?thesis
    by (simp add: safe_target_def demo_codec_def demo_ban_codec_def demo_ban_config_def)
qed

lemma demo_listing_ok:
  "set_as_expected demo_listing ''ipv4_addr''" "set_as_expected demo_listing ''ipv6_addr''" "chain_as_expected demo_listing"
  "list_all (\<lambda>r. contains demo_listing (rule_text r)) ban_rules"
  by code_simp+

lemma demo_apply: "\<exists>err w. ban_apply demo_codec demo_ban_config demo_ban_host demo_ban_invocation False =
    (no_apply\<lparr>apr_state := ''s''\<rparr>, err, w)"
proof -
  have params: "fst (bk_params demo_codec (inv_params demo_ban_invocation)) =
      \<lparr>bp_address = ''8.8.8.8'', bp_ttl = 60, bp_admin = ''9.9.9.9'', bp_reason = []\<rparr>"
    by (simp add: demo_codec_def demo_ban_codec_def)
  have check: "check_nftables demo_ban_config demo_ban_host False = (None, False)"
    using demo_listing_ok by (simp add: check_nftables_def demo_ban_host_def ban_sets_def list_table_def list_set_def list_chain_def
        nft_def plain_command_def no_output_def)
  have missing: "nft_element_missing (no_output\<lparr>cr_stderr := ''could not process rule: no such file or directory'', cr_exit := 1\<rparr>) (Some ''x'')"
    by code_simp
  have existing: "read_existing what demo_codec demo_ban_config demo_ban_host nftBanSetV4 (V4 0x08080808) 60 False = (Inr None, False)" for what
    using missing by (simp add: read_existing_def demo_ban_host_def get_element_def nft_def plain_command_def)
  have "hex_encode ''a'' = ''61''" by code_simp
  then have g: "ban_generation demo_codec (inv_action_id demo_ban_invocation) = Inr ''witshield:61''"
    by (simp add: ban_generation_def demo_codec_def demo_ban_codec_def demo_ban_invocation_def)
  have st: "recovery_state demo_codec nftBanSetV4 (V4 0x08080808) 60 ''witshield:61'' 0 no_predecessor = demo_ban_state"
    by (simp add: recovery_state_def demo_ban_state_def no_predecessor_def temporaryBanMutationTimeout_def demo_codec_def demo_ban_codec_def)
  have enc: "bk_enc demo_codec demo_ban_state = Inr ''s''" by (simp add: demo_codec_def)
  have obs: "bh_run demo_ban_host (get_element demo_codec demo_ban_config nftBanSetV4 a) True =
      ((no_output\<lparr>cr_stderr := [], cr_exit := 1\<rparr>, Some ''x''), True)" for a
    by (simp add: demo_ban_host_def get_element_def nft_def plain_command_def)
  have ins: "install_or_refresh demo_codec demo_ban_config demo_ban_host nftBanSetV4 (V4 0x08080808) 60 ''witshield:61'' False = (None, True)"
    by (simp add: install_or_refresh_def install_element_def demo_ban_host_def)
  have "bh_now demo_ban_host False = ((0, 0), False)" by (simp add: demo_ban_host_def)
  then show ?thesis
    using params demo_safe_target check existing g st enc obs ins
    by (auto simp: ban_apply_def capture_def observe_applied_def state_bytes_def Let_def)
qed

theorem apply_state_accepted_witness:
  "\<exists>g st. own_state demo_codec demo_ban_config (demo_ban_invocation\<lparr>inv_state := ''s''\<rparr>) (V4 0x08080808) nftBanSetV4 = Some (g, st)"
proof -
  have c: "new_ban_playbook True demo_ban_config = Inr demo_ban_config" by (simp add: new_ban_playbook_def demo_ban_config_def)
  have v: "ban_validate demo_codec demo_ban_config (inv_params demo_ban_invocation) = None"
    using demo_safe_target by (simp add: ban_validate_def demo_codec_def demo_ban_codec_def demo_ban_config_def)
  have rt: "bk_enc demo_codec st = Inr b \<Longrightarrow> bk_dec demo_codec b = Some st" for st b
    by (simp add: demo_codec_def split: if_splits)
  from demo_apply obtain err w where a: "ban_apply demo_codec demo_ban_config demo_ban_host demo_ban_invocation False =
      (no_apply\<lparr>apr_state := ''s''\<rparr>, err, w)" by blast
  have p: "fst (bk_params demo_codec (inv_params demo_ban_invocation)) =
      \<lparr>bp_address = ''8.8.8.8'', bp_ttl = 60, bp_admin = ''9.9.9.9'', bp_reason = []\<rparr>"
    by (simp add: demo_codec_def demo_ban_codec_def)
  from apply_state_accepted [OF c v a _ rt] demo_safe_target show ?thesis unfolding p by auto
qed

end
