(* ===== verification/Scheduler.thy ===== *)
theory Scheduler
  imports CommandQueue
begin

text \<open>
  Scan schedules (\<open>internal/store/reports_commands.go\<close>) and the scheduler that turns due
  ones into commands (\<open>internal/scheduler/scheduler.go\<close>), over its interface to the store.
\<close>

section \<open>The table of schedules\<close>

record schedule_row =
  sc_id :: string
  sc_device :: string
  sc_kind :: string
  sc_interval :: int
  sc_enabled :: bool
  sc_next :: instant
  sc_last :: "instant option"
  sc_created :: instant
  sc_updated :: instant

text \<open>The database with its schedules; the interval is in seconds, at least a minute by its \<open>CHECK\<close>.\<close>

record fleet =
  fl_store :: store
  fl_schedules :: "schedule_row list"

definition schedule_check :: "schedule_row \<Rightarrow> bool" where
  "schedule_check x \<longleftrightarrow> 60 \<le> sc_interval x"

text \<open>\<open>CreateSchedule\<close>; the row's interval is given as a duration.\<close>

definition create_schedule :: "schedule_row \<Rightarrow> duration \<Rightarrow> string \<Rightarrow> fleet \<Rightarrow> store_error + fleet" where
  "create_schedule x every fresh s =
     (let r = x\<lparr>sc_id := (if sc_id x = [] then fresh else sc_id x), sc_interval := every div second, sc_last := None\<rparr>
      in if sc_id r \<in> sc_id ` set (fl_schedules s) \<or> sc_device r \<notin> dv_id ` set (st_devices (fl_store s)) \<or> \<not> schedule_check r
         then Inl ErrConflict else Inr (s\<lparr>fl_schedules := fl_schedules s @ [r]\<rparr>))"

definition list_schedules :: "fleet \<Rightarrow> schedule_row list" where
  "list_schedules s = sort_key sc_created (fl_schedules s)"

definition due_schedules :: "instant \<Rightarrow> int \<Rightarrow> fleet \<Rightarrow> schedule_row list" where
  "due_schedules now limit s =
     take (nat (if limit \<le> 0 then 100 else limit))
       (sort_key sc_next (filter (\<lambda>x. sc_enabled x \<and> sc_next x \<le> now) (fl_schedules s)))"

definition mark_schedule_run :: "string \<Rightarrow> instant \<Rightarrow> instant \<Rightarrow> instant \<Rightarrow> fleet \<Rightarrow> store_error + fleet" where
  "mark_schedule_run sid expected ran_at nxt s =
     (let p = (\<lambda>x. sc_id x = sid \<and> sc_next x = expected)
      in if cnt_where p (fl_schedules s) = 0 then Inl ErrConflict
         else Inr (s\<lparr>fl_schedules := upd_where p (\<lambda>x. x\<lparr>sc_last := Some ran_at, sc_next := nxt, sc_updated := ran_at\<rparr>) (fl_schedules s)\<rparr>))"

definition update_schedule :: "string \<Rightarrow> duration \<Rightarrow> bool \<Rightarrow> instant \<Rightarrow> instant \<Rightarrow> fleet \<Rightarrow> store_error + fleet" where
  "update_schedule sid every enabled nxt now s =
     (let p = (\<lambda>x. sc_id x = sid)
      in if cnt_where p (fl_schedules s) = 0 then Inl ErrNotFound
         else if every div second < 60 then Inl ErrConstraint
         else Inr (s\<lparr>fl_schedules := upd_where p (\<lambda>x. x\<lparr>sc_interval := every div second, sc_enabled := enabled,
                sc_next := nxt, sc_updated := now\<rparr>) (fl_schedules s)\<rparr>))"

definition delete_schedule :: "string \<Rightarrow> fleet \<Rightarrow> store_error + fleet" where
  "delete_schedule sid s =
     (if cnt_where (\<lambda>x. sc_id x = sid) (fl_schedules s) = 0 then Inl ErrNotFound
      else Inr (s\<lparr>fl_schedules := del_where (\<lambda>x. sc_id x = sid) (fl_schedules s)\<rparr>))"

definition enqueue_in_fleet :: "new_cmd \<Rightarrow> fleet \<Rightarrow> store_error + fleet" where
  "enqueue_in_fleet c s =
     (case enqueue_command c (fl_store s) of Inl e \<Rightarrow> Inl e | Inr s' \<Rightarrow> Inr (s\<lparr>fl_store := s'\<rparr>))"

section \<open>The scheduler\<close>

text \<open>The interface \<open>Store\<close> of the scheduler.\<close>

record 's schedule_ops =
  so_due :: "instant \<Rightarrow> int \<Rightarrow> 's \<Rightarrow> schedule_row list"
  so_mark :: "string \<Rightarrow> instant \<Rightarrow> instant \<Rightarrow> instant \<Rightarrow> 's \<Rightarrow> store_error + 's"
  so_enqueue :: "new_cmd \<Rightarrow> 's \<Rightarrow> store_error + 's"

definition fleet_ops :: "fleet schedule_ops" where
  "fleet_ops = \<lparr>so_due = due_schedules, so_mark = mark_schedule_run, so_enqueue = enqueue_in_fleet\<rparr>"

text \<open>\<open>x.Interval\<close> as the row is read.\<close>

definition interval_of :: "schedule_row \<Rightarrow> duration" where
  "interval_of x = sc_interval x * second"

text \<open>The loop to the first run after \<open>now\<close>; \<open>None\<close> where it does not end.\<close>

partial_function (option) next_run :: "duration \<Rightarrow> instant \<Rightarrow> instant \<Rightarrow> instant option" where
  "next_run interval now nxt = (if nxt > now then Some nxt else next_run interval now (nxt + interval))"

text \<open>
  \<open>Tick\<close>, over the due schedules and fresh command identifiers for them; errors are
  collected, and the next schedule is taken up.
\<close>

fun tick_each :: "'s schedule_ops \<Rightarrow> (string \<Rightarrow> instant \<Rightarrow> bytes) \<Rightarrow> instant \<Rightarrow> (string \<times> schedule_row) list \<Rightarrow>
    store_error list \<Rightarrow> 's \<Rightarrow> (store_error list \<times> 's) option" where
  "tick_each S payload now [] errs s = Some (errs, s)"
| "tick_each S payload now ((cid, x) # xs) errs s =
     (case so_enqueue S \<lparr>nc_id = cid, nc_device = sc_device x, nc_type = CommandScan, nc_payload = payload (sc_id x) now,
           nc_created = now\<rparr> s of
        Inl e \<Rightarrow> tick_each S payload now xs (errs @ [e]) s
      | Inr s1 \<Rightarrow>
         (case next_run (interval_of x) now (sc_next x) of
            None \<Rightarrow> None
          | Some nxt \<Rightarrow>
             (case so_mark S (sc_id x) (sc_next x) now nxt s1 of
                Inl e \<Rightarrow> tick_each S payload now xs (if e = ErrConflict then errs else errs @ [e]) s1
              | Inr s2 \<Rightarrow> tick_each S payload now xs errs s2)))"

definition tick :: "'s schedule_ops \<Rightarrow> (string \<Rightarrow> instant \<Rightarrow> bytes) \<Rightarrow> string list \<Rightarrow> instant \<Rightarrow> 's \<Rightarrow> (store_error list \<times> 's) option" where
  "tick S payload ids now s = tick_each S payload now (zip ids (so_due S now 100 s)) [] s"

section \<open>The loop\<close>

lemma next_run_done: "now < nxt \<Longrightarrow> next_run i now nxt = Some nxt"
  by (subst next_run.simps) simp

lemma next_run_again: "nxt \<le> now \<Longrightarrow> next_run i now nxt = next_run i now (nxt + i)"
  by (subst next_run.simps) simp

lemma next_run_steps:
  assumes ret: "next_run i now nxt = Some t"
  shows "now < t \<and> (\<exists>k. t = nxt + int k * i \<and> (k = 0 \<or> t - i \<le> now))"
proof (rule next_run.raw_induct [where P = "\<lambda>i now nxt t. now < t \<and> (\<exists>k. t = nxt + int k * i \<and> (k = 0 \<or> t - i \<le> now))", OF _ ret])
  fix f i now nxt t
  assume IH: "\<And>i now nxt t. f i now nxt = Some t \<Longrightarrow> now < t \<and> (\<exists>k. t = nxt + int k * i \<and> (k = 0 \<or> t - i \<le> now))"
    and eq: "(if now < nxt then Some nxt else f i now (nxt + i)) = Some t"
  show "now < t \<and> (\<exists>k. t = nxt + int k * i \<and> (k = 0 \<or> t - i \<le> now))"
  proof (cases "now < nxt")
    case True
    with eq show ?thesis by (auto intro: exI [of _ 0])
  next
    case False
    with eq have "f i now (nxt + i) = Some t" by simp
    from IH [OF this] obtain k where k: "now < t" "t = nxt + i + int k * i" "k = 0 \<or> t - i \<le> now" by blast
    moreover have "t - i \<le> now" using k(2,3) False by auto
    ultimately show ?thesis by (intro conjI exI [of _ "Suc k"]) (simp_all add: algebra_simps)
  qed
qed

text \<open>It ends exactly when the interval is positive or the run lies ahead, at the first run after \<open>now\<close>.\<close>

lemma next_run_ends:
  assumes "0 < i"
  shows "\<exists>t. next_run i now nxt = Some t"
proof (induction "nat (now - nxt + 1)" arbitrary: nxt rule: less_induct)
  case less
  show ?case
  proof (cases "now < nxt")
    case False
    with assms have "nat (now - (nxt + i) + 1) < nat (now - nxt + 1)" by simp
    from less [OF this] False show ?thesis by (simp add: next_run_again)
  qed (auto simp: next_run_done)
qed

lemma next_run_diverges:
  assumes "i \<le> 0" and "nxt \<le> now"
  shows "next_run i now nxt = None"
proof (cases "next_run i now nxt")
  case (Some t)
  from next_run_steps [OF this] obtain k where t: "now < t" "t = nxt + int k * i" by blast
  moreover have "int k * i \<le> 0" using assms(1) by (simp add: mult_nonneg_nonpos)
  ultimately show ?thesis using assms(2) by simp
qed simp

section \<open>The interface\<close>

text \<open>
  What the scheduler relies on: due schedules are rows that are due, no operation but
  marking changes the rows, and marking moves one row on.
\<close>

definition moved_on :: "instant \<Rightarrow> schedule_row \<Rightarrow> schedule_row list \<Rightarrow> bool" where
  "moved_on now x rows \<longleftrightarrow> (\<exists>y \<in> set rows. sc_id y = sc_id x \<and> sc_last y = Some now \<and> now < sc_next y \<and>
     sc_next y \<le> now + interval_of x \<and> interval_of x dvd sc_next y - sc_next x)"

locale schedule_interface =
  fixes S :: "'s schedule_ops" and ok :: "'s \<Rightarrow> bool" and rows :: "'s \<Rightarrow> schedule_row list"
  assumes due_row: "ok s \<Longrightarrow> x \<in> set (so_due S now n s) \<Longrightarrow> x \<in> set (rows s) \<and> sc_next x \<le> now"
    and due_distinct: "ok s \<Longrightarrow> distinct (map sc_id (so_due S now n s))"
    and enqueue_rows: "ok s \<Longrightarrow> so_enqueue S c s = Inr s' \<Longrightarrow> ok s' \<and> rows s' = rows s"
    and mark_row: "ok s \<Longrightarrow> x \<in> set (rows s) \<Longrightarrow> \<exists>s'. so_mark S (sc_id x) (sc_next x) run_at nxt s = Inr s' \<and> ok s' \<and>
      rows s' = upd_where (\<lambda>y. sc_id y = sc_id x) (\<lambda>y. y\<lparr>sc_last := Some run_at, sc_next := nxt, sc_updated := run_at\<rparr>) (rows s)"
    and rows_distinct: "ok s \<Longrightarrow> distinct (map sc_id (rows s))"
    and rows_positive: "ok s \<Longrightarrow> x \<in> set (rows s) \<Longrightarrow> 0 < interval_of x"
begin

lemma mark_next:
  assumes "ok s" and "x \<in> set (rows s)" and "sc_next x \<le> now"
  obtains nxt s' where "next_run (interval_of x) now (sc_next x) = Some nxt" "so_mark S (sc_id x) (sc_next x) now nxt s = Inr s'"
    "ok s'" "moved_on now x (rows s')" "\<forall>y \<in> set (rows s). sc_id y \<noteq> sc_id x \<longrightarrow> y \<in> set (rows s')"
proof -
  from rows_positive [OF assms(1,2)] have pos: "0 < interval_of x" .
  then obtain nxt where n: "next_run (interval_of x) now (sc_next x) = Some nxt" using next_run_ends by blast
  from next_run_steps [OF n] obtain k where k: "now < nxt" "nxt = sc_next x + int k * interval_of x"
    "k = 0 \<or> nxt - interval_of x \<le> now" by blast
  with assms(3) have le: "nxt \<le> now + interval_of x" by auto
  from mark_row [OF assms(1,2)] obtain s' where s': "so_mark S (sc_id x) (sc_next x) now nxt s = Inr s'" "ok s'"
    "rows s' = upd_where (\<lambda>y. sc_id y = sc_id x) (\<lambda>y. y\<lparr>sc_last := Some now, sc_next := nxt, sc_updated := now\<rparr>) (rows s)" by blast
  have "moved_on now x (rows s')"
    unfolding moved_on_def s'(3) set_upd_where using assms(2) k(1,2) le
    by (intro bexI [of _ "x\<lparr>sc_last := Some now, sc_next := nxt, sc_updated := now\<rparr>"]) (auto simp: image_iff intro!: bexI [of _ x])
  moreover have "\<forall>y \<in> set (rows s). sc_id y \<noteq> sc_id x \<longrightarrow> y \<in> set (rows s')"
    unfolding s'(3) set_upd_where by force
  ultimately show ?thesis using n s'(1,2) that by blast
qed

lemma tick_each_ends:
  assumes "ok s" and "distinct (map (sc_id \<circ> snd) xs)" and "\<forall>(cid, x) \<in> set xs. x \<in> set (rows s) \<and> sc_next x \<le> now"
  shows "\<exists>errs' s'. tick_each S payload now xs errs s = Some (errs', s') \<and> ok s' \<and> length errs \<le> length errs' \<and>
    (\<forall>y \<in> set (rows s). sc_id y \<notin> (sc_id \<circ> snd) ` set xs \<longrightarrow> y \<in> set (rows s')) \<and>
    (length errs' = length errs \<longrightarrow> (\<forall>(cid, x) \<in> set xs. moved_on now x (rows s')))"
  using assms
proof (induction xs arbitrary: errs s)
  case (Cons p xs)
  obtain cid x where p: "p = (cid, x)" by (cases p)
  let ?cmd = "\<lparr>nc_id = cid, nc_device = sc_device x, nc_type = CommandScan, nc_payload = payload (sc_id x) now, nc_created = now\<rparr>"
  show ?case
  proof (cases "so_enqueue S ?cmd s")
    case (Inl e)
    from Cons.IH [of s "errs @ [e]"] Cons.prems obtain errs' s' where
      "tick_each S payload now xs (errs @ [e]) s = Some (errs', s')" "ok s'" "length errs + 1 \<le> length errs'"
      "\<forall>y \<in> set (rows s). sc_id y \<notin> (sc_id \<circ> snd) ` set xs \<longrightarrow> y \<in> set (rows s')" by auto
    with Inl p show ?thesis by auto
  next
    case (Inr s1)
    from enqueue_rows [OF Cons.prems(1) Inr] have s1: "ok s1" "rows s1 = rows s" by simp_all
    with Cons.prems(3) p have x: "x \<in> set (rows s1)" "sc_next x \<le> now" by auto
    obtain nxt s2 where m: "next_run (interval_of x) now (sc_next x) = Some nxt" "so_mark S (sc_id x) (sc_next x) now nxt s1 = Inr s2"
      "ok s2" "moved_on now x (rows s2)" "\<forall>y \<in> set (rows s1). sc_id y \<noteq> sc_id x \<longrightarrow> y \<in> set (rows s2)"
      using mark_next [OF s1(1) x] by blast
    have xs: "\<forall>(cid, y) \<in> set xs. y \<in> set (rows s2) \<and> sc_next y \<le> now"
    proof (intro ballI, clarify)
      fix c y assume y: "(c, y) \<in> set xs"
      with Cons.prems(2) p have "sc_id y \<noteq> sc_id x" by (force simp: image_iff)
      with y Cons.prems(3) m(5) s1(2) show "y \<in> set (rows s2) \<and> sc_next y \<le> now" by auto
    qed
    from Cons.IH [OF m(3) _ xs, of errs] Cons.prems(2) obtain errs' s' where
      t: "tick_each S payload now xs errs s2 = Some (errs', s')" "ok s'" "length errs \<le> length errs'"
      "\<forall>y \<in> set (rows s2). sc_id y \<notin> (sc_id \<circ> snd) ` set xs \<longrightarrow> y \<in> set (rows s')"
      "length errs' = length errs \<longrightarrow> (\<forall>(cid, x) \<in> set xs. moved_on now x (rows s'))" by auto
    have "moved_on now x (rows s')"
    proof -
      from m(4) obtain y where y: "y \<in> set (rows s2)" "sc_id y = sc_id x" "moved_on now x [y]" by (auto simp: moved_on_def)
      moreover from this Cons.prems(2) p have "sc_id y \<notin> (sc_id \<circ> snd) ` set xs" by auto
      ultimately have "y \<in> set (rows s')" using t(4) by blast
      with y(3) show ?thesis by (auto simp: moved_on_def)
    qed
    moreover have "tick_each S payload now (p # xs) errs s = Some (errs', s')" using p Inr m(1,2) t(1) by simp
    moreover have "\<forall>y \<in> set (rows s). sc_id y \<notin> (sc_id \<circ> snd) ` set (p # xs) \<longrightarrow> y \<in> set (rows s')"
      using m(5) t(4) s1(2) p by auto
    ultimately show ?thesis using t(2,3,5) p by auto
  qed
qed simp

text \<open>One tick ends; without an error every schedule it took up lies ahead of it.\<close>

lemma tick_ends:
  assumes "ok s"
  shows "\<exists>errs s'. tick S payload ids now s = Some (errs, s') \<and> ok s' \<and>
    (errs = [] \<longrightarrow> (\<forall>x \<in> set (take (length ids) (so_due S now 100 s)). moved_on now x (rows s')))"
proof -
  let ?xs = "zip ids (so_due S now 100 s)"
  have zs: "map snd ?xs = take (length ids) (so_due S now 100 s)" by (simp add: map_snd_zip_take min_def)
  have m: "map (sc_id \<circ> snd) ?xs = take (length ids) (map sc_id (so_due S now 100 s))"
    unfolding map_map [symmetric] zs by (simp add: take_map)
  have "distinct (map (sc_id \<circ> snd) ?xs)" unfolding m using due_distinct [OF assms] by (rule distinct_take)
  moreover have "\<forall>(cid, x) \<in> set ?xs. x \<in> set (rows s) \<and> sc_next x \<le> now"
    using due_row [OF assms] by (auto dest: set_zip_rightD)
  ultimately obtain errs s' where t: "tick_each S payload now ?xs [] s = Some (errs, s')" "ok s'"
    "errs = [] \<longrightarrow> (\<forall>(cid, x) \<in> set ?xs. moved_on now x (rows s'))" using tick_each_ends [OF assms, of ?xs now payload "[]"] by auto
  have im: "snd ` set ?xs = set (take (length ids) (so_due S now 100 s))" by (metis zs set_map)
  have "moved_on now x (rows s')" if "errs = []" "x \<in> set (take (length ids) (so_due S now 100 s))" for x
  proof -
    from that(2) obtain p where "p \<in> set ?xs" "x = snd p" unfolding im [symmetric] by blast
    with t(3) that(1) show ?thesis by auto
  qed
  with t show ?thesis unfolding tick_def by blast
qed

end

section \<open>The table provides the interface\<close>

definition fleet_ok :: "fleet \<Rightarrow> bool" where
  "fleet_ok s \<longleftrightarrow> distinct (map sc_id (fl_schedules s)) \<and> (\<forall>x \<in> set (fl_schedules s). schedule_check x)"

lemma distinct_take_map: "distinct (map f xs) \<Longrightarrow> distinct (map f (take n xs))"
  unfolding take_map [symmetric] by (rule distinct_take)

lemma upd_where_ids: "map sc_id (upd_where p (\<lambda>x. x\<lparr>sc_last := a, sc_next := b, sc_updated := c\<rparr>) t) = map sc_id t"
  by (rule map_upd_where_key) simp

lemma due_subset: "set (due_schedules now n s) \<subseteq> {x \<in> set (fl_schedules s). sc_enabled x \<and> sc_next x \<le> now}"
  unfolding due_schedules_def by (rule subset_trans [OF set_take_subset]) auto

lemma due_distinct_ids: "distinct (map sc_id (fl_schedules s)) \<Longrightarrow> distinct (map sc_id (due_schedules now n s))"
proof -
  assume "distinct (map sc_id (fl_schedules s))"
  then have d: "distinct (fl_schedules s)" "inj_on sc_id (set (fl_schedules s))" by (simp_all add: distinct_map)
  have "distinct (due_schedules now n s)" using d(1) by (simp add: due_schedules_def)
  moreover have "inj_on sc_id (set (due_schedules now n s))" by (rule inj_on_subset [OF d(2)]) (use due_subset in blast)
  ultimately show ?thesis by (simp add: distinct_map)
qed

lemma mark_schedule_run_row:
  assumes "fleet_ok s" and "x \<in> set (fl_schedules s)"
  shows "\<exists>s'. mark_schedule_run (sc_id x) (sc_next x) run_at nxt s = Inr s' \<and> fleet_ok s' \<and>
    fl_schedules s' = upd_where (\<lambda>y. sc_id y = sc_id x) (\<lambda>y. y\<lparr>sc_last := Some run_at, sc_next := nxt, sc_updated := run_at\<rparr>) (fl_schedules s)"
proof -
  let ?f = "\<lambda>y. y\<lparr>sc_last := Some run_at, sc_next := nxt, sc_updated := run_at\<rparr>"
  have d: "distinct (map sc_id (fl_schedules s))" using assms(1) by (simp add: fleet_ok_def)
  have same: "sc_id y = sc_id x \<and> sc_next y = sc_next x \<longleftrightarrow> sc_id y = sc_id x" if "y \<in> set (fl_schedules s)" for y
    using d that assms(2) by (auto simp: distinct_map dest: inj_onD)
  then have u: "upd_where (\<lambda>y. sc_id y = sc_id x \<and> sc_next y = sc_next x) ?f (fl_schedules s) =
      upd_where (\<lambda>y. sc_id y = sc_id x) ?f (fl_schedules s)" by (simp add: upd_where_def)
  have "cnt_where (\<lambda>y. sc_id y = sc_id x \<and> sc_next y = sc_next x) (fl_schedules s) \<noteq> 0"
    using assms(2) by (auto simp: cnt_where_0_iff)
  then show ?thesis using assms(1) d u
    by (auto simp: mark_schedule_run_def Let_def fleet_ok_def upd_where_ids set_upd_where schedule_check_def)
qed

interpretation sched: schedule_interface fleet_ops fleet_ok fl_schedules
proof
  show "distinct (map sc_id (so_due fleet_ops now n s))" if "fleet_ok s" for now n s
    using that by (simp add: fleet_ops_def fleet_ok_def due_distinct_ids)
qed (use due_subset mark_schedule_run_row in \<open>auto simp: fleet_ops_def fleet_ok_def enqueue_in_fleet_def schedule_check_def
       interval_of_def split: sum.splits\<close>)

section \<open>Properties\<close>


definition demo_schedule :: schedule_row where
  "demo_schedule = \<lparr>sc_id = ''s1'', sc_device = ''dev1'', sc_kind = ''scan'', sc_interval = 3600, sc_enabled = True, sc_next = 5,
     sc_last = None, sc_created = 0, sc_updated = 0\<rparr>"


text \<open>Every operation on schedules keeps the table in order.\<close>

lemma create_schedule_ok: "create_schedule x every fresh s = Inr s' \<Longrightarrow> fleet_ok s \<Longrightarrow> fleet_ok s'"
  by (auto simp: create_schedule_def Let_def fleet_ok_def split: if_splits)

lemma update_schedule_ok: "update_schedule sid every en nxt now s = Inr s' \<Longrightarrow> fleet_ok s \<Longrightarrow> fleet_ok s'"
proof -
  let ?f = "\<lambda>x. x\<lparr>sc_interval := every div second, sc_enabled := en, sc_next := nxt, sc_updated := now\<rparr>"
  have "map sc_id (upd_where (\<lambda>x. sc_id x = sid) ?f t) = map sc_id t" for t by (rule map_upd_where_key) simp
  note d = this [of "fl_schedules s"]
  assume "update_schedule sid every en nxt now s = Inr s'" "fleet_ok s"
  then show "fleet_ok s'" unfolding fleet_ok_def update_schedule_def Let_def
    by (auto simp: set_upd_where schedule_check_def d split: if_splits)
qed

lemma delete_schedule_ok: "delete_schedule sid s = Inr s' \<Longrightarrow> fleet_ok s \<Longrightarrow> fleet_ok s'"
  by (auto simp: delete_schedule_def fleet_ok_def set_del_where distinct_del_where split: if_splits)

end
