(* ===== verification/Correlator.thy ===== *)
theory Correlator
  imports BanTargets StoreTypes
begin

text \<open>
  The automatic defense policy (\<open>internal/defense/correlator.go\<close>): validation of a policy and
  the evaluation of a source's failures against it.  \<open>net.ParseIP\<close> and \<open>net.ParseCIDR\<close> are
  parameters; addresses and networks are unmapped, as \<open>net.IP\<close> compares them.
\<close>

record net_lib =
  nl_ip :: "string \<Rightarrow> addr option"
  nl_cidr :: "string \<Rightarrow> prefix option"

record policy_config =
  dp_enabled :: bool
  dp_auto_ban :: bool
  dp_stop :: bool
  dp_threshold :: int
  dp_window :: duration
  dp_ban :: duration
  dp_max_bans :: int
  dp_allowlist :: "string list"

record evaluation =
  ev_matched :: bool
  ev_ban :: bool
  ev_simulated :: bool
  ev_reason :: string
  ev_expires :: "instant option"

definition MaxFailureThreshold :: int where "MaxFailureThreshold = 100"
definition MaxAutomaticBansPerHour :: int where "MaxAutomaticBansPerHour = 100"

fun prefix_address :: "prefix \<Rightarrow> addr option" where
  "prefix_address (P4 w n) = Some (V4 w)"
| "prefix_address (P6 w n) = Some (V6 w [])"
| "prefix_address NoPrefix = None"

text \<open>An entry that is an address is judged as one; otherwise the network's address is.\<close>

fun has_non_loopback_allowlist :: "net_lib \<Rightarrow> string list \<Rightarrow> bool" where
  "has_non_loopback_allowlist N [] = False"
| "has_non_loopback_allowlist N (e # es) =
     (case nl_ip N e of
        Some a \<Rightarrow> if \<not> is_loopback a \<and> \<not> is_unspecified a then True else has_non_loopback_allowlist N es
      | None \<Rightarrow>
         (case Option.bind (nl_cidr N e) prefix_address of
            Some a \<Rightarrow> if \<not> is_loopback a \<and> \<not> is_unspecified a then True else has_non_loopback_allowlist N es
          | None \<Rightarrow> has_non_loopback_allowlist N es))"

definition validate_policy :: "net_lib \<Rightarrow> policy_config \<Rightarrow> string option" where
  "validate_policy N p =
     (if dp_threshold p < 3 \<or> dp_threshold p > MaxFailureThreshold
      then Some (''failureThreshold must be between 3 and '' @ itoa MaxFailureThreshold)
      else if dp_window p < 10 * second \<or> dp_window p > 24 * hour then Some ''window must be between 10s and 24h''
      else if dp_ban p < minute \<or> dp_ban p > 24 * hour then Some ''banDuration must be between 1m and 24h''
      else if dp_max_bans p < 1 \<or> dp_max_bans p > MaxAutomaticBansPerHour
      then Some (''maxBansPerHour must be between 1 and '' @ itoa MaxAutomaticBansPerHour)
      else case find (\<lambda>e. nl_cidr N e = None \<and> nl_ip N e = None) (dp_allowlist p) of
          Some e \<Rightarrow> Some (''invalid allowlist entry '' @ quote e)
        | None \<Rightarrow>
           (if dp_auto_ban p \<and> \<not> has_non_loopback_allowlist N (dp_allowlist p)
            then Some ''autoBan requires an explicit non-loopback administrator IP or network in allowlist'' else None))"

definition allowlisted :: "net_lib \<Rightarrow> addr \<Rightarrow> string list \<Rightarrow> bool" where
  "allowlisted N a es \<longleftrightarrow>
     list_ex (\<lambda>e. nl_ip N e = Some a \<or> (case nl_cidr N e of Some p \<Rightarrow> prefix_contains p a | None \<Rightarrow> False)) es"

definition no_evaluation :: "string \<Rightarrow> evaluation" where
  "no_evaluation r = \<lparr>ev_matched = False, ev_ban = False, ev_simulated = False, ev_reason = r, ev_expires = None\<rparr>"

definition evaluate :: "net_lib \<Rightarrow> policy_config \<Rightarrow> string \<Rightarrow> int \<Rightarrow> int \<Rightarrow> bool \<Rightarrow> instant \<Rightarrow> evaluation" where
  "evaluate N p source failures recent already now =
     (case nl_ip N (trim_space source) of
        None \<Rightarrow> no_evaluation ''invalid source IP''
      | Some a \<Rightarrow>
         (if allowlisted N a (dp_allowlist p) then no_evaluation ''source is allowlisted''
          else if \<not> dp_enabled p then no_evaluation ''defense policy is disabled''
          else if dp_stop p then no_evaluation ''emergency stop is active''
          else if failures < dp_threshold p
          then no_evaluation (''threshold not met ('' @ itoa failures @ ''/'' @ itoa (dp_threshold p) @ '')'')
          else if already then (no_evaluation ''source already has an active ban'')\<lparr>ev_matched := True\<rparr>
          else if recent \<ge> dp_max_bans p then (no_evaluation ''hourly ban safety limit reached'')\<lparr>ev_matched := True\<rparr>
          else \<lparr>ev_matched = True, ev_ban = dp_auto_ban p, ev_simulated = \<not> dp_auto_ban p,
                ev_reason = ''SSH authentication failure threshold reached'', ev_expires = Some (now + dp_ban p)\<rparr>))"

definition DefaultPolicy :: policy_config where
  "DefaultPolicy = \<lparr>dp_enabled = False, dp_auto_ban = False, dp_stop = False, dp_threshold = 10, dp_window = 5 * minute,
     dp_ban = 15 * minute, dp_max_bans = 10, dp_allowlist = [''127.0.0.0/8'', ''::1/128'']\<rparr>"

section \<open>Properties\<close>

text \<open>The address an entry of the allowlist stands for.\<close>

definition entry_address :: "net_lib \<Rightarrow> string \<Rightarrow> addr option" where
  "entry_address N e = (case nl_ip N e of Some a \<Rightarrow> Some a | None \<Rightarrow> Option.bind (nl_cidr N e) prefix_address)"

lemma has_non_loopback_allowlist_Cons:
  "has_non_loopback_allowlist N (e # es) \<longleftrightarrow>
   (\<exists>a. entry_address N e = Some a \<and> \<not> is_loopback a \<and> \<not> is_unspecified a) \<or> has_non_loopback_allowlist N es"
  by (auto simp: entry_address_def split: option.splits)

lemma has_non_loopback_allowlist_iff:
  "has_non_loopback_allowlist N es \<longleftrightarrow> (\<exists>e \<in> set es. \<exists>a. entry_address N e = Some a \<and> \<not> is_loopback a \<and> \<not> is_unspecified a)"
  by (induction es) (auto simp: has_non_loopback_allowlist_Cons simp del: has_non_loopback_allowlist.simps(2))

text \<open>
  A source is banned, or a ban is simulated, exactly when it is an address outside the
  allowlist, the policy is on and not stopped, its threshold is met, no ban is live and the
  hourly limit is not reached; which of the two follows the policy's switch, and with a valid
  policy the ban lasts between a minute and a day.
\<close>

theorem evaluation_bans_exactly:
  assumes "validate_policy N p = None"
  shows "((ev_ban (evaluate N p source failures recent already now) \<or> ev_simulated (evaluate N p source failures recent already now)) \<longleftrightarrow>
      (\<exists>a. nl_ip N (trim_space source) = Some a \<and> \<not> (\<exists>e \<in> set (dp_allowlist p). nl_ip N e = Some a \<or>
          (\<exists>q. nl_cidr N e = Some q \<and> prefix_contains q a)) \<and>
        dp_enabled p \<and> \<not> dp_stop p \<and> dp_threshold p \<le> failures \<and> \<not> already \<and> recent < dp_max_bans p)) \<and>
    (ev_ban (evaluate N p source failures recent already now) \<longrightarrow> dp_auto_ban p \<and>
      (\<exists>e \<in> set (dp_allowlist p). \<exists>a. entry_address N e = Some a \<and> \<not> is_loopback a \<and> \<not> is_unspecified a)) \<and>
    (\<forall>t. ev_expires (evaluate N p source failures recent already now) = Some t \<longrightarrow> now + minute \<le> t \<and> t \<le> now + 24 * hour)"
proof (intro conjI)
  show "(ev_ban (evaluate N p source failures recent already now) \<or> ev_simulated (evaluate N p source failures recent already now)) \<longleftrightarrow>
      (\<exists>a. nl_ip N (trim_space source) = Some a \<and> \<not> (\<exists>e \<in> set (dp_allowlist p). nl_ip N e = Some a \<or>
          (\<exists>q. nl_cidr N e = Some q \<and> prefix_contains q a)) \<and>
        dp_enabled p \<and> \<not> dp_stop p \<and> dp_threshold p \<le> failures \<and> \<not> already \<and> recent < dp_max_bans p)"
    by (cases "nl_ip N (trim_space source)")
      (auto simp: evaluate_def allowlisted_def no_evaluation_def list_ex_iff split: option.splits)
qed (use assms in \<open>auto simp: evaluate_def validate_policy_def no_evaluation_def has_non_loopback_allowlist_iff
      split: option.splits if_splits\<close>)

definition demo_net :: net_lib where
  "demo_net = \<lparr>nl_ip = (\<lambda>s. if s = ''8.8.8.8'' then Some (V4 0x08080808) else if s = ''9.9.9.9'' then Some (V4 0x09090909) else None),
     nl_cidr = (\<lambda>_. None)\<rparr>"

definition demo_policy :: policy_config where
  "demo_policy = DefaultPolicy\<lparr>dp_enabled := True, dp_auto_ban := True, dp_allowlist := [''9.9.9.9'']\<rparr>"

theorem evaluation_bans_exactly_witness:
  "ev_ban (evaluate demo_net demo_policy ''8.8.8.8'' 10 0 False 5) \<or> ev_simulated (evaluate demo_net demo_policy ''8.8.8.8'' 10 0 False 5)"
proof -
  have v: "validate_policy demo_net demo_policy = None"
    by (simp add: validate_policy_def demo_policy_def DefaultPolicy_def demo_net_def MaxFailureThreshold_def MaxAutomaticBansPerHour_def)
  have "trim_space ''8.8.8.8'' = ''8.8.8.8''" by code_simp
  with evaluation_bans_exactly [OF v, of "''8.8.8.8''" 10 0 False 5] show ?thesis
    by (simp add: demo_net_def demo_policy_def DefaultPolicy_def)
qed

end
