(* ===== verification/AgentQueue.thy ===== *)
theory AgentQueue
  imports ReceiptCache "HOL-Library.Multiset"
begin

text \<open>
  The Agent's durable offline queue (\<open>internal/agent/queue.go\<close>): one file per request,
  named by its time, delivered oldest first and removed once the Controller has answered.
\<close>

section \<open>The directory\<close>

record queued_request =
  qr_id :: string
  qr_kind :: string
  qr_command :: string
  qr_body :: bytes
  qr_created :: "instant option"

text \<open>
  A \<open>.json\<close> file that is no directory or link; \<open>qf_item\<close> is \<open>None\<close> where it is not regular
  or does not decode strictly.
\<close>

record queue_file =
  qf_name :: string
  qf_size :: nat
  qf_item :: "queued_request option"

record queue_config =
  qc_items :: nat
  qc_bytes :: nat

definition maxQueuedPayloadBytes :: nat where "maxQueuedPayloadBytes = 4194304"

definition new_queue :: queue_config where
  "new_queue = \<lparr>qc_items = 5000, qc_bytes = 134217728\<rparr>"

definition queue_files :: "queue_file list \<Rightarrow> queue_file list \<times> nat" where
  "queue_files d = (sort_key qf_name d, sum_list (map qf_size d))"

definition queue_kind :: "string \<Rightarrow> bool" where
  "queue_kind k \<longleftrightarrow> k = ''report'' \<or> k = ''events'' \<or> k = ''command_result''"

text \<open>The file of a new request: \<open>stamp\<close> formats its time, \<open>enc\<close> encodes it.\<close>

definition queue_file_of :: "(instant \<Rightarrow> string) \<Rightarrow> (queued_request \<Rightarrow> bytes) \<Rightarrow> string \<Rightarrow> string \<Rightarrow> string \<Rightarrow> bytes \<Rightarrow> instant \<Rightarrow> queue_file" where
  "queue_file_of stamp enc qid kind cid b now =
     (let item = \<lparr>qr_id = qid, qr_kind = kind, qr_command = cid, qr_body = b, qr_created = Some now\<rparr>
      in \<lparr>qf_name = stamp now @ ''_'' @ qid @ ''.json'', qf_size = length (enc item), qf_item = Some item\<rparr>)"

definition enqueue_request :: "queue_config \<Rightarrow> (instant \<Rightarrow> string) \<Rightarrow> (queued_request \<Rightarrow> bytes) \<Rightarrow> io_fault \<Rightarrow> string \<Rightarrow> string \<Rightarrow>
    string \<Rightarrow> string + bytes \<Rightarrow> instant \<Rightarrow> queue_file list \<Rightarrow> string option \<times> queue_file list" where
  "enqueue_request c stamp enc fault qid kind cid body now d =
     (if \<not> queue_kind kind then (Some ''unsupported queue kind'', d)
      else case body of
          Inl e \<Rightarrow> (Some e, d)
        | Inr b \<Rightarrow>
           (if length b > maxQueuedPayloadBytes then (Some ''queued payload is too large'', d)
            else let (files, tot) = queue_files d; f = queue_file_of stamp enc qid kind cid b now;
                     d' = filter (\<lambda>g. qf_name g \<noteq> qf_name f) d @ [f]
                 in if length files \<ge> qc_items c \<or> tot + length b > qc_bytes c
                    then (Some ''offline queue capacity reached'', d)
                    else case fault of
                        NoFault \<Rightarrow> (None, d')
                      | FaultBefore e \<Rightarrow> (Some e, d)
                      | FaultAfter e \<Rightarrow> (Some e, d')))"

section \<open>Delivery\<close>

datatype send_result = Sent | ApiRefused int string string | SendFailed string

text \<open>
  The connection: \<open>al_cancelled\<close> is \<open>ctx.Err\<close>, \<open>al_send\<close> posts a body to a route, and
  \<open>al_remove\<close> is what removing a file meets.
\<close>

record 'n agent_link =
  al_cancelled :: "'n \<Rightarrow> string option"
  al_send :: "string \<Rightarrow> bytes \<Rightarrow> 'n \<Rightarrow> send_result \<times> 'n"
  al_remove :: "string \<Rightarrow> io_fault"

definition send_error :: "send_result \<Rightarrow> string option" where
  "send_error r = (case r of Sent \<Rightarrow> None
     | ApiRefused status code message \<Rightarrow> Some (''controller HTTP '' @ itoa status @ '': '' @ message)
     | SendFailed e \<Rightarrow> Some e)"

text \<open>Delivering one request; \<open>escape\<close> is \<open>url.PathEscape\<close>.\<close>

definition deliver :: "(string \<Rightarrow> string) \<Rightarrow> 'n agent_link \<Rightarrow> queued_request \<Rightarrow> 'n \<Rightarrow> string option \<times> 'n" where
  "deliver escape A q n =
     (if qr_kind q = ''report'' then (let (r, n1) = al_send A ''/agent/v1/reports'' (qr_body q) n in (send_error r, n1))
      else if qr_kind q = ''events'' then (let (r, n1) = al_send A ''/agent/v1/events'' (qr_body q) n in (send_error r, n1))
      else if qr_kind q = ''command_result''
      then (if qr_command q = [] then (Some ''invalid queued command result'', n)
            else let (r, n1) = al_send A (''/agent/v1/commands/'' @ escape (qr_command q) @ ''/result'') (qr_body q) n
                 in (case r of ApiRefused status code message \<Rightarrow>
                       if status = 410 \<and> code = ''command_result_expired'' then None else send_error r
                     | _ \<Rightarrow> send_error r, n1))
      else (Some ''invalid queue kind'', n))"

definition valid_queue_item :: "(bytes \<Rightarrow> bool) \<Rightarrow> queued_request \<Rightarrow> bool" where
  "valid_queue_item jsonok q \<longleftrightarrow> qr_id q \<noteq> [] \<and> qr_created q \<noteq> None \<and> jsonok (qr_body q)"

definition remove_file :: "string \<Rightarrow> queue_file list \<Rightarrow> queue_file list" where
  "remove_file name d = filter (\<lambda>g. qf_name g \<noteq> name) d"

fun flush_each :: "(string \<Rightarrow> string) \<Rightarrow> (bytes \<Rightarrow> bool) \<Rightarrow> 'n agent_link \<Rightarrow> queue_file list \<Rightarrow> queue_file list \<Rightarrow> 'n \<Rightarrow>
    string option \<times> queue_file list \<times> 'n" where
  "flush_each escape jsonok A [] d n = (None, d, n)"
| "flush_each escape jsonok A (f # fs) d n =
     (case al_cancelled A n of
        Some e \<Rightarrow> (Some e, d, n)
      | None \<Rightarrow>
         (case qf_item f of
            None \<Rightarrow> (Some ''unsafe queue entry'', d, n)
          | Some q \<Rightarrow>
             (if \<not> valid_queue_item jsonok q then (Some ''invalid queue entry'', d, n)
              else case deliver escape A q n of
                  (Some e, n1) \<Rightarrow> (Some e, d, n1)
                | (None, n1) \<Rightarrow>
                   (case al_remove A (qf_name f) of
                      FaultBefore e \<Rightarrow> (Some e, d, n1)
                    | FaultAfter e \<Rightarrow> (Some e, remove_file (qf_name f) d, n1)
                    | NoFault \<Rightarrow> flush_each escape jsonok A fs (remove_file (qf_name f) d) n1))))"

definition flush :: "(string \<Rightarrow> string) \<Rightarrow> (bytes \<Rightarrow> bool) \<Rightarrow> 'n agent_link \<Rightarrow> queue_file list \<Rightarrow> 'n \<Rightarrow>
    string option \<times> queue_file list \<times> 'n" where
  "flush escape jsonok A d n = flush_each escape jsonok A (fst (queue_files d)) d n"

section \<open>First in, first out\<close>

text \<open>The Controller answered every request of a list, in this order.\<close>

fun delivered :: "(string \<Rightarrow> string) \<Rightarrow> 'n agent_link \<Rightarrow> queue_file list \<Rightarrow> 'n \<Rightarrow> 'n \<Rightarrow> bool" where
  "delivered escape A [] n n' \<longleftrightarrow> n' = n"
| "delivered escape A (f # fs) n n' \<longleftrightarrow>
     (\<exists>q n1. qf_item f = Some q \<and> deliver escape A q n = (None, n1) \<and> delivered escape A fs n1 n')"

lemma remove_file_others: "f \<notin> set fs \<Longrightarrow> distinct (map qf_name (f # fs)) \<Longrightarrow> mset d = mset (f # fs) \<Longrightarrow>
    mset (remove_file (qf_name f) d) = mset fs"
proof -
  assume a: "distinct (map qf_name (f # fs))" "mset d = mset (f # fs)"
  have "filter (\<lambda>g. qf_name g \<noteq> qf_name f) fs = fs" using a(1) by (auto simp: filter_id_conv image_iff)
  then have "filter_mset (\<lambda>g. qf_name g \<noteq> qf_name f) (mset (f # fs)) = mset fs" by (simp add: mset_filter [symmetric] del: mset_filter)
  then show ?thesis unfolding remove_file_def a(2) [symmetric] by simp
qed

lemma flush_each_prefix:
  assumes "flush_each escape jsonok A fs d n = (err, d', n')" and "distinct (map qf_name fs)" and "mset d = mset fs"
  shows "\<exists>k nk. k \<le> length fs \<and> delivered escape A (take k fs) n nk \<and> mset d' = mset (drop k fs) \<and>
    (err = None \<longrightarrow> k = length fs \<and> n' = nk)"
  using assms
proof (induction fs arbitrary: d n)
  case (Cons f fs)
  have stay: "\<exists>k nk. k \<le> length (f # fs) \<and> delivered escape A (take k (f # fs)) n nk \<and> mset d' = mset (drop k (f # fs)) \<and>
      (err = None \<longrightarrow> k = length (f # fs) \<and> n' = nk)" if "err \<noteq> None" "d' = d"
    using that Cons.prems(3) by (intro exI [of _ 0] exI [of _ n]) simp
  show ?case
  proof (cases "al_cancelled A n \<noteq> None \<or> qf_item f = None \<or> \<not> valid_queue_item jsonok (the (qf_item f)) \<or>
      fst (deliver escape A (the (qf_item f)) n) \<noteq> None \<or> (\<exists>e. al_remove A (qf_name f) = FaultBefore e)")
    case True
    have "err \<noteq> None \<and> d' = d"
      using True Cons.prems(1)
      by (cases "al_cancelled A n"; cases "qf_item f") (auto split: option.splits if_splits prod.splits io_fault.splits)
    then show ?thesis using stay by blast
  next
    case False
    then obtain q n1 where q: "qf_item f = Some q" "valid_queue_item jsonok q" "deliver escape A q n = (None, n1)"
      and c: "al_cancelled A n = None" by (cases "deliver escape A (the (qf_item f)) n") auto
    let ?d = "remove_file (qf_name f) d"
    have f: "f \<notin> set fs" using Cons.prems(2) by (auto simp: image_iff)
    note d = remove_file_others [OF f Cons.prems(2,3)]
    show ?thesis
    proof (cases "al_remove A (qf_name f)")
      case NoFault
      with Cons.prems(1) q c have "flush_each escape jsonok A fs ?d n1 = (err, d', n')" by simp
      from Cons.IH [OF this _ d] Cons.prems(2) obtain k nk where
        "k \<le> length fs" "delivered escape A (take k fs) n1 nk" "mset d' = mset (drop k fs)" "err = None \<longrightarrow> k = length fs \<and> n' = nk" by auto
      with q show ?thesis by (intro exI [of _ "Suc k"] exI [of _ nk]) simp
    next
      case (FaultAfter e)
      with Cons.prems(1) q c d have "err \<noteq> None" "mset d' = mset fs" by auto
      with q show ?thesis by (intro exI [of _ "1"] exI [of _ n1]) auto
    next
      case (FaultBefore e)
      with False show ?thesis by simp
    qed
  qed
qed simp

text \<open>
  C18: A flush delivers the queued requests oldest first and never loses one: some number of the
  oldest were answered by the Controller, in the order of their names, exactly the others are
  still queued, and without an error that is none.
\<close>

theorem flush_in_order:
  assumes "flush escape jsonok A d n = (err, d', n')" and "distinct (map qf_name d)"
  shows "\<exists>k nk. k \<le> length d \<and> delivered escape A (take k (sort_key qf_name d)) n nk \<and>
    mset d' = mset (drop k (sort_key qf_name d)) \<and> (err = None \<longrightarrow> d' = [] \<and> n' = nk)"
proof -
  have "distinct (map qf_name (sort_key qf_name d))"
    using assms(2) by (simp add: distinct_map)
  with flush_each_prefix [OF assms(1) [unfolded flush_def queue_files_def fst_conv]] obtain k nk where
    k: "k \<le> length (sort_key qf_name d)" "delivered escape A (take k (sort_key qf_name d)) n nk"
      "mset d' = mset (drop k (sort_key qf_name d))" "err = None \<longrightarrow> k = length (sort_key qf_name d) \<and> n' = nk" by auto
  then have "err = None \<longrightarrow> d' = []" by auto
  with k show ?thesis by auto
qed

lemma enqueue_request_bounds:
  assumes "enqueue_request c stamp enc fault qid kind cid body now d = (err, d')" and "length d \<le> qc_items c"
  shows "length d' \<le> qc_items c"
proof -
  have "length (filter P d @ [f]) \<le> qc_items c" if "length d < qc_items c" for P f
    using le_less_trans [OF length_filter_le that] by (simp add: Suc_le_eq)
  then show ?thesis using assms
    by (auto simp: enqueue_request_def queue_files_def Let_def not_le split: sum.splits if_splits io_fault.splits)
qed

definition demo_queue :: "queue_file list" where
  "demo_queue = [\<lparr>qf_name = ''b'', qf_size = 1, qf_item = None\<rparr>,
     \<lparr>qf_name = ''a'', qf_size = 1, qf_item = Some \<lparr>qr_id = ''q'', qr_kind = ''report'', qr_command = [], qr_body = ''{}'', qr_created = Some 1\<rparr>\<rparr>]"

definition demo_link :: "bytes list agent_link" where
  "demo_link = \<lparr>al_cancelled = (\<lambda>_. None), al_send = (\<lambda>_ b n. (Sent, n @ [b])), al_remove = (\<lambda>_. NoFault)\<rparr>"

theorem flush_in_order_witness:
  "\<exists>err d' n'. flush id (\<lambda>_. True) demo_link demo_queue [] = (err, d', n') \<and>
    (\<exists>k nk. delivered id demo_link (take k (sort_key qf_name demo_queue)) [] nk \<and> mset d' = mset (drop k (sort_key qf_name demo_queue)))"
proof -
  obtain err d' n' where f: "flush id (\<lambda>_. True) demo_link demo_queue [] = (err, d', n')" by (metis prod.exhaust)
  have "distinct (map qf_name demo_queue)" by (simp add: demo_queue_def)
  from flush_in_order [OF f this] f show ?thesis by blast
qed

end
