(* ===== verification/ProcessSuspend.thy ===== *)
theory ProcessSuspend
  imports ReceiptCache "HOL-Library.AList"
begin

text \<open>
  The temporary process suspension playbook (\<open>internal/action/process_suspend.go\<close>): its
  phases, the resume journals that make a suspension temporary across restarts, and the
  timers that end it.  Inspecting and signalling processes are parameters.
\<close>

section \<open>Data\<close>

record suspend_params =
  sp_pid :: int
  sp_start :: nat
  sp_exe :: string
  sp_ttl :: int
  sp_reason :: string

record proc_identity =
  pi_pid :: int
  pi_ppid :: int
  pi_uid :: nat
  pi_start :: nat
  pi_exe :: string
  pi_stopped :: bool

record suspend_state =
  ss_action :: string
  ss_pid :: int
  ss_ppid :: int
  ss_uid :: nat
  ss_start :: nat
  ss_exe :: string

record process_journal =
  pj_version :: int
  pj_action :: string
  pj_params_digest :: string
  pj_state :: bytes
  pj_state_digest :: string
  pj_resume_at :: "instant option"

datatype proc_error = ProcessNotFound | InspectFailed string

fun proc_error_text :: "proc_error \<Rightarrow> string" where
  "proc_error_text ProcessNotFound = ''process not found''"
| "proc_error_text (InspectFailed e) = e"

text \<open>
  \<open>ProcessController\<close> with the clock and a short sleep, the strict decoders, and the
  coder of states.
\<close>

record 'h process_env =
  pe_lib :: lib
  pe_params :: "bytes \<Rightarrow> string + suspend_params"
  pe_enc :: "suspend_state \<Rightarrow> bytes"
  pe_dec :: "bytes \<Rightarrow> string + suspend_state"
  pe_inspect :: "int \<Rightarrow> 'h \<Rightarrow> proc_error + proc_identity"
  pe_stop :: "int \<Rightarrow> 'h \<Rightarrow> string option \<times> 'h"
  pe_continue :: "int \<Rightarrow> 'h \<Rightarrow> string option \<times> 'h"
  pe_sleep :: "'h \<Rightarrow> 'h"
  pe_now :: "'h \<Rightarrow> instant"

text \<open>
  The helper's part of the host: the journal files by action (\<open>None\<close> where a file is not
  owner-only, regular and decodable), and the armed timers with their times.
\<close>

record 'h suspend_sys =
  sy_host :: 'h
  sy_journals :: "(string \<times> process_journal option) list"
  sy_timers :: "string \<rightharpoonup> instant"

section \<open>Validation\<close>

definition transient_executable :: "string \<Rightarrow> bool" where
  "transient_executable p \<longleftrightarrow> list_ex (has_prefix p) [''/tmp/'', ''/var/tmp/'', ''/dev/shm/'']"

definition suspend_validate :: "'h process_env \<Rightarrow> bytes \<Rightarrow> string option" where
  "suspend_validate E raw =
     (case pe_params E raw of
        Inl e \<Rightarrow> Some e
      | Inr p \<Rightarrow>
         (if sp_pid p < 2 \<or> sp_start p = 0 \<or> sp_ttl p < 30 \<or> sp_ttl p > 900 \<or> length (sp_reason p) > 256
          then Some ''pid, startTime, ttlSeconds, or reason is outside the safe bound''
          else if \<not> is_abs (path_clean (sp_exe p)) \<or> path_clean (sp_exe p) \<noteq> sp_exe p \<or> \<not> transient_executable (path_clean (sp_exe p))
          then Some ''only an exact executable below /tmp, /var/tmp, or /dev/shm can be temporarily suspended''
          else None))"

definition suspend_inspect :: "'h process_env \<Rightarrow> suspend_params \<Rightarrow> 'h \<Rightarrow> string + proc_identity" where
  "suspend_inspect E p h =
     (case pe_inspect E (sp_pid p) h of
        Inl e \<Rightarrow> Inl (proc_error_text e)
      | Inr i \<Rightarrow>
         (if pi_pid i \<noteq> sp_pid p \<or> pi_start i \<noteq> sp_start p \<or> trim_suffix (pi_exe i) '' (deleted)'' \<noteq> sp_exe p \<or> pi_uid i \<noteq> 0
          then Inl ''process identity changed or is not the expected privileged process'' else Inr i))"

section \<open>Journals\<close>

definition journal_ok :: "'h process_env \<Rightarrow> string \<Rightarrow> process_journal \<Rightarrow> string option" where
  "journal_ok E aid j =
     (if pj_version j \<noteq> 1 \<or> pj_action j \<noteq> aid \<or> pj_state_digest j \<noteq> digest_bytes (pe_lib E) (pj_state j) \<or>
         pj_params_digest j = [] \<or> pj_resume_at j = None
      then Some ''invalid process resume journal''
      else case pe_dec E (pj_state j) of
          Inl _ \<Rightarrow> Some ''invalid process resume journal state''
        | Inr st \<Rightarrow> (if ss_action st \<noteq> aid \<or> ss_pid st < 2 \<or> ss_start st = 0 \<or> \<not> is_abs (ss_exe st)
                     then Some ''invalid process resume journal state'' else None))"

text \<open>\<open>readJournal\<close>: \<open>Inl None\<close> is a file that does not exist.\<close>

definition read_journal :: "'h process_env \<Rightarrow> string \<Rightarrow> (string \<times> process_journal option) list \<Rightarrow> string option + process_journal" where
  "read_journal E aid js =
     (if \<not> action_id_ok aid then Inl (Some ''unsafe process resume action ID'')
      else case map_of js aid of
          None \<Rightarrow> Inl None
        | Some None \<Rightarrow> Inl (Some ''invalid process resume journal'')
        | Some (Some j) \<Rightarrow> (case journal_ok E aid j of Some e \<Rightarrow> Inl (Some e) | None \<Rightarrow> Inr j))"

definition write_journal :: "'h process_env \<Rightarrow> io_fault \<Rightarrow> process_journal \<Rightarrow> (string \<times> process_journal option) list \<Rightarrow>
    string option \<times> (string \<times> process_journal option) list" where
  "write_journal E fault j js =
     (if \<not> action_id_ok (pj_action j) \<or> pj_version j \<noteq> 1 \<or> pj_state_digest j \<noteq> digest_bytes (pe_lib E) (pj_state j)
      then (Some ''invalid process resume journal'', js)
      else let js' = AList.update (pj_action j) (Some j) js
           in case fault of NoFault \<Rightarrow> (None, js') | FaultBefore e \<Rightarrow> (Some e, js) | FaultAfter e \<Rightarrow> (Some e, js'))"

definition delete_journal :: "io_fault \<Rightarrow> string \<Rightarrow> (string \<times> process_journal option) list \<Rightarrow>
    string option \<times> (string \<times> process_journal option) list" where
  "delete_journal fault aid js =
     (if map_of js aid = None then (None, js)
      else let js' = AList.delete aid js
           in case fault of NoFault \<Rightarrow> (None, js') | FaultBefore e \<Rightarrow> (Some e, js) | FaultAfter e \<Rightarrow> (Some e, js'))"

section \<open>Timers\<close>

definition clamp_delay :: "duration \<Rightarrow> duration" where
  "clamp_delay d = (if d < 0 then 0 else if d > 15 * minute then 15 * minute else d)"

definition schedule_resume :: "'h process_env \<Rightarrow> process_journal \<Rightarrow> 'h suspend_sys \<Rightarrow> 'h suspend_sys" where
  "schedule_resume E j s =
     (let now = pe_now E (sy_host s); delay = clamp_delay ((case pj_resume_at j of None \<Rightarrow> 0 | Some t \<Rightarrow> t) - now)
      in s\<lparr>sy_timers := (sy_timers s)(pj_action j \<mapsto> now + delay)\<rparr>)"

definition cancel_timer :: "string \<Rightarrow> 'h suspend_sys \<Rightarrow> 'h suspend_sys" where
  "cancel_timer aid s = s\<lparr>sy_timers := (sy_timers s)(aid := None)\<rparr>"

section \<open>Phases\<close>

definition suspend_precheck :: "'h process_env \<Rightarrow> 'h suspend_sys phase" where
  "suspend_precheck E i s =
     (case pe_params E (inv_params i) of
        Inl e \<Rightarrow> (Inl e, s)
      | Inr p \<Rightarrow>
         (case suspend_inspect E p (sy_host s) of
            Inl e \<Rightarrow> (Inl e, s)
          | Inr x \<Rightarrow>
             (if pi_stopped x then (Inl ''process is already stopped'', s)
              else (Inr \<lparr>res_summary = ''exact privileged process identity verified'',
                  res_details = [(''pid'', DInt (pi_pid x)), (''executable'', DStr (pi_exe x))]\<rparr>, s))))"

definition suspend_preview :: "'h process_env \<Rightarrow> 'h suspend_sys phase" where
  "suspend_preview E i s =
     (case pe_params E (inv_params i) of
        Inl e \<Rightarrow> (Inl e, s)
      | Inr p \<Rightarrow> (Inr \<lparr>res_summary = ''temporarily suspend one exact privileged process'',
          res_details = [(''pid'', DInt (sp_pid p)), (''ttlSeconds'', DInt (sp_ttl p)), (''automaticResume'', DBool True)]\<rparr>, s))"

definition state_of_process :: "string \<Rightarrow> proc_identity \<Rightarrow> suspend_state" where
  "state_of_process aid x = \<lparr>ss_action = aid, ss_pid = pi_pid x, ss_ppid = pi_ppid x, ss_uid = pi_uid x,
     ss_start = pi_start x, ss_exe = pi_exe x\<rparr>"

definition journal_for :: "'h process_env \<Rightarrow> invocation \<Rightarrow> bytes \<Rightarrow> instant \<Rightarrow> process_journal" where
  "journal_for E i st resume_at = \<lparr>pj_version = 1, pj_action = inv_action_id i,
     pj_params_digest = digest_parameters (pe_lib E) (inv_params i), pj_state = st,
     pj_state_digest = digest_bytes (pe_lib E) st, pj_resume_at = Some resume_at\<rparr>"

text \<open>\<open>fault\<close> is what writing the journal meets.\<close>

definition suspend_apply :: "'h process_env \<Rightarrow> io_fault \<Rightarrow> invocation \<Rightarrow> 'h suspend_sys \<Rightarrow>
    apply_result \<times> string option \<times> 'h suspend_sys" where
  "suspend_apply E fault i s =
     (case pe_params E (inv_params i) of
        Inl e \<Rightarrow> (no_apply, Some e, s)
      | Inr p \<Rightarrow>
         (case suspend_inspect E p (sy_host s) of
            Inl e \<Rightarrow> (no_apply, Some e, s)
          | Inr x \<Rightarrow>
             (if \<not> action_id_ok (inv_action_id i)
              then (no_apply, Some ''temporary process action has an invalid action ID'', s)
              else let st = pe_enc E (state_of_process (inv_action_id i) x);
                       resume_at = pe_now E (sy_host s) + sp_ttl p * second;
                       j = journal_for E i st resume_at
                   in case write_journal E fault j (sy_journals s) of
                       (Some e, js) \<Rightarrow> (no_apply, Some (''persist automatic process resume: '' @ e), s\<lparr>sy_journals := js\<rparr>)
                     | (None, js) \<Rightarrow>
                        (let s1 = schedule_resume E j (s\<lparr>sy_journals := js\<rparr>);
                             (err, h) = pe_stop E (pi_pid x) (sy_host s1);
                             s2 = s1\<lparr>sy_host := h\<rparr>
                         in case err of
                             Some e \<Rightarrow> (no_apply\<lparr>apr_state := st\<rparr>, Some (''send temporary stop signal: '' @ e), s2)
                           | None \<Rightarrow> (\<lparr>apr_result = \<lparr>res_summary = ''process temporarily suspended'',
                                 res_details = [(''pid'', DInt (pi_pid x)), (''resumeAt'', DTime resume_at)]\<rparr>,
                               apr_state = st, apr_confirm_by = None\<rparr>, None, s2)))))"

text \<open>At most \<open>n\<close> looks at the process, a short sleep apart.\<close>

fun verify_stopped :: "'h process_env \<Rightarrow> nat \<Rightarrow> suspend_state \<Rightarrow> 'h suspend_sys \<Rightarrow> (string + act_result) \<times> 'h suspend_sys" where
  "verify_stopped E 0 st s = (Inl ''exact process is not proven suspended'', s)"
| "verify_stopped E (Suc n) st s =
     (case pe_inspect E (ss_pid st) (sy_host s) of
        Inl e \<Rightarrow> (Inl (proc_error_text e), s)
      | Inr x \<Rightarrow>
         (if pi_start x \<noteq> ss_start st \<or> pi_exe x \<noteq> ss_exe st
          then (Inl ''process identity changed before suspension could be verified'', s)
          else if pi_stopped x
          then (Inr \<lparr>res_summary = ''exact process suspension verified'', res_details = [(''pid'', DInt (ss_pid st))]\<rparr>, s)
          else verify_stopped E n st (s\<lparr>sy_host := pe_sleep E (sy_host s)\<rparr>)))"

definition suspend_verify :: "'h process_env \<Rightarrow> 'h suspend_sys phase" where
  "suspend_verify E i s =
     (case pe_dec E (inv_state i) of Inl e \<Rightarrow> (Inl e, s) | Inr st \<Rightarrow> verify_stopped E 5 st s)"

definition plain_note :: "string \<Rightarrow> act_result" where
  "plain_note t = \<lparr>res_summary = t, res_details = []\<rparr>"

definition resume_exact :: "'h process_env \<Rightarrow> suspend_state \<Rightarrow> 'h \<Rightarrow> (string + act_result) \<times> 'h" where
  "resume_exact E st h =
     (case pe_inspect E (ss_pid st) h of
        Inl ProcessNotFound \<Rightarrow> (Inr (plain_note ''suspended process already exited; no resume required''), h)
      | Inl (InspectFailed e) \<Rightarrow> (Inl e, h)
      | Inr x \<Rightarrow>
         (if pi_start x \<noteq> ss_start st \<or> pi_exe x \<noteq> ss_exe st
          then (Inr (plain_note ''PID was reused; no signal sent to the replacement process''), h)
          else if \<not> pi_stopped x then (Inr (plain_note ''process was already running''), h)
          else case pe_continue E (ss_pid st) h of
              (Some e, h1) \<Rightarrow> (Inl (''resume exact process: '' @ e), h1)
            | (None, h1) \<Rightarrow> (Inr \<lparr>res_summary = ''temporary process suspension released'',
                  res_details = [(''pid'', DInt (ss_pid st))]\<rparr>, h1)))"

text \<open>\<open>fault\<close> is what deleting the journal meets.\<close>

definition suspend_rollback :: "'h process_env \<Rightarrow> io_fault \<Rightarrow> 'h suspend_sys phase" where
  "suspend_rollback E fault i s =
     (case pe_dec E (inv_state i) of
        Inl e \<Rightarrow> (Inl e, s)
      | Inr st0 \<Rightarrow>
         (let st = (if ss_action st0 = [] then st0\<lparr>ss_action := inv_action_id i\<rparr> else st0)
          in if ss_action st \<noteq> inv_action_id i \<or> \<not> action_id_ok (ss_action st)
             then (Inl ''process resume state does not match the action'', s)
             else case resume_exact E st (sy_host s) of
                 (Inl e, h) \<Rightarrow> (Inl e, s\<lparr>sy_host := h\<rparr>)
               | (Inr r, h) \<Rightarrow>
                  (case delete_journal fault (ss_action st) (sy_journals s) of
                     (Some e, js) \<Rightarrow> (Inl (''process resumed but journal cleanup failed: '' @ e), s\<lparr>sy_host := h, sy_journals := js\<rparr>)
                   | (None, js) \<Rightarrow> (Inr r, cancel_timer (ss_action st) (s\<lparr>sy_host := h, sy_journals := js\<rparr>)))))"

section \<open>Expiry and start\<close>

text \<open>A timer that fires; a failed resume is retried in a minute.\<close>

definition expire_suspension :: "'h process_env \<Rightarrow> io_fault \<Rightarrow> string \<Rightarrow> 'h suspend_sys \<Rightarrow> 'h suspend_sys" where
  "expire_suspension E fault aid s =
     (let retry = (\<lambda>s. s\<lparr>sy_timers := (sy_timers s)(aid \<mapsto> pe_now E (sy_host s) + minute)\<rparr>)
      in case read_journal E aid (sy_journals s) of
          Inl None \<Rightarrow> cancel_timer aid s
        | Inl (Some e) \<Rightarrow> retry s
        | Inr j \<Rightarrow>
           (case pe_dec E (pj_state j) of
              Inl e \<Rightarrow> retry s
            | Inr st \<Rightarrow>
               (case resume_exact E st (sy_host s) of
                  (Inl e, h) \<Rightarrow> retry (s\<lparr>sy_host := h\<rparr>)
                | (Inr r, h) \<Rightarrow> cancel_timer aid (s\<lparr>sy_host := h, sy_journals := snd (delete_journal fault aid (sy_journals s))\<rparr>))))"

text \<open>\<open>resumeJournals\<close>, over the directory in order: every journal is read and scheduled, or the helper does not start.\<close>

fun resume_journals :: "'h process_env \<Rightarrow> string list \<Rightarrow> 'h suspend_sys \<Rightarrow> string + 'h suspend_sys" where
  "resume_journals E [] s = Inr s"
| "resume_journals E (aid # aids) s =
     (case read_journal E aid (sy_journals s) of
        Inl e \<Rightarrow> Inl (''load process resume journal '' @ quote (''process-'' @ aid @ ''.json'') @ '': '' @
           (case e of None \<Rightarrow> ''file does not exist'' | Some x \<Rightarrow> x))
      | Inr j \<Rightarrow> resume_journals E aids (schedule_resume E j s))"

definition start_suspend :: "'h process_env \<Rightarrow> 'h suspend_sys \<Rightarrow> string + 'h suspend_sys" where
  "start_suspend E s = resume_journals E (map fst (sy_journals s)) (s\<lparr>sy_timers := Map.empty\<rparr>)"

definition suspend_playbook :: "'h process_env \<Rightarrow> io_fault \<Rightarrow> io_fault \<Rightarrow> 'h suspend_sys playbook" where
  "suspend_playbook E f1 f2 = \<lparr>pb_type = TypeTemporaryProcessSuspend, pb_validate = (\<lambda>raw _. suspend_validate E raw),
     pb_precheck = suspend_precheck E, pb_preview = suspend_preview E, pb_apply = suspend_apply E f1,
     pb_verify = suspend_verify E, pb_rollback = suspend_rollback E f2, pb_confirm = None\<rparr>"

end
