(* ===== verification/Processes.thy ===== *)
theory Processes
  imports GoStrings ProcessSuspend "HOL-Library.Product_Lexorder"
begin

text \<open>
  What is read of procfs: the bounded observation of suspicious processes
  (\<open>internal/observation/process.go\<close>) and the exact identity of one process
  (\<open>internal/action/process_controller_linux.go\<close>).
\<close>

section \<open>Procfs\<close>

datatype fs_error = NotExist | FsError string

text \<open>
  A name of \<open>/proc\<close>, whether it is a directory, and the cancellation seen before it is looked at.
\<close>

record proc_entry =
  de_name :: string
  de_dir :: bool
  de_cancelled :: "string option"

record procfs =
  pf_entries :: "string + proc_entry list"
  pf_exe :: "int \<Rightarrow> fs_error + string"
  pf_stat :: "int \<Rightarrow> fs_error + bytes"
  pf_status :: "int \<Rightarrow> fs_error + bytes"

abbreviation (input) proc_file_limit :: nat where "proc_file_limit \<equiv> 65536"

definition maxObservedProcesses :: nat where
  "maxObservedProcesses = 32768"

definition maxCandidates :: nat where
  "maxCandidates = 256"

section \<open>Parsing\<close>

text \<open>\<open>ParseStartTime\<close>: field 22 of the line, counted after the last closing parenthesis.\<close>

definition parse_start_time :: "string \<Rightarrow> nat option" where
  "parse_start_time raw =
     (case after_last '') '' raw of
        None \<Rightarrow> None
      | Some rest \<Rightarrow> (let fs = go_fields rest in if length fs \<le> 19 then None else parse_uint 64 (fs ! 19)))"

text \<open>The lines of a status file with at least two fields, as the key without its colon and the first value.\<close>

definition status_pairs :: "bytes \<Rightarrow> (string \<times> string) list" where
  "status_pairs b = concat (map (\<lambda>l. case go_fields l of k # v # _ \<Rightarrow> [(trim_suffix k '':'', v)] | _ \<Rightarrow> [])
     (split_on (CHR 0x0A) b))"

record status_seen =
  st_name :: string
  st_ppid :: int
  st_uid :: "nat option"

definition status_line :: "string \<times> string \<Rightarrow> status_seen \<Rightarrow> status_seen" where
  "status_line kv s =
     (if fst kv = ''Name'' then s\<lparr>st_name := snd kv\<rparr>
      else if fst kv = ''PPid'' then s\<lparr>st_ppid := fst (atoi (snd kv))\<rparr>
      else if fst kv = ''Uid'' then (case parse_uint 32 (snd kv) of None \<Rightarrow> s | Some u \<Rightarrow> s\<lparr>st_uid := Some u\<rparr>)
      else s)"

definition parse_status :: "bytes \<Rightarrow> (string \<times> int \<times> nat) option" where
  "parse_status b =
     (let s = fold status_line (status_pairs b) \<lparr>st_name = [], st_ppid = -1, st_uid = None\<rparr>
      in case st_uid s of
          None \<Rightarrow> None
        | Some u \<Rightarrow> if st_name s \<noteq> [] \<and> 0 \<le> st_ppid s then Some (st_name s, st_ppid s, u) else None)"

definition executable_in_transient_path :: "string \<Rightarrow> bool" where
  "executable_in_transient_path p \<longleftrightarrow> list_ex (has_prefix (path_clean p)) [''/tmp/'', ''/var/tmp/'', ''/dev/shm/'']"

definition is_control :: "char \<Rightarrow> bool" where
  "is_control c \<longleftrightarrow> (of_char c :: nat) < 32 \<or> (of_char c :: nat) = 127"

definition ellipsis :: string where
  "ellipsis = [CHR 0xE2, CHR 0x80, CHR 0xA6]"

definition truncate_field :: "string \<Rightarrow> nat \<Rightarrow> string" where
  "truncate_field v n = (let w = drop_runes is_control (trim_space v) in if length w > n then take n w @ ellipsis else w)"

section \<open>Observation\<close>

definition read_limited :: "fs_error + bytes \<Rightarrow> bytes option" where
  "read_limited r = (case r of Inl _ \<Rightarrow> None | Inr b \<Rightarrow> if length b > proc_file_limit then None else Some b)"

definition suspicious_event :: "string \<Rightarrow> nat \<Rightarrow> (string \<times> string) option" where
  "suspicious_event exe uid =
     (if has_suffix exe '' (deleted)''
      then Some (''deleted_executable_process_running'', ''running executable was removed from the filesystem'')
      else if uid = 0 \<and> executable_in_transient_path (trim_suffix exe '' (deleted)'')
      then Some (''suspicious_privileged_process_started'', ''UID 0 process executable is in a transient writable path'')
      else None)"

definition process_identity :: "lib \<Rightarrow> int \<Rightarrow> nat \<Rightarrow> nat \<Rightarrow> string \<Rightarrow> string" where
  "process_identity L pid start uid exe =
     hex_encode (sha256 L (itoa pid @ [CHR 0x00] @ nat_digits start @ [CHR 0x00] @ nat_digits uid @ [CHR 0x00] @ exe))"

definition inspect_process :: "lib \<Rightarrow> procfs \<Rightarrow> int \<Rightarrow> process option" where
  "inspect_process L F pid =
     (case read_limited (pf_status F pid) of None \<Rightarrow> None | Some sb \<Rightarrow>
        (case parse_status sb of None \<Rightarrow> None | Some (name, ppid, uid) \<Rightarrow>
           (case pf_exe F pid of Inl _ \<Rightarrow> None | Inr exe \<Rightarrow>
              (if exe = [] \<or> length exe > 4096 then None
               else case read_limited (pf_stat F pid) of None \<Rightarrow> None | Some stat \<Rightarrow>
                 (case parse_start_time stat of None \<Rightarrow> None | Some start \<Rightarrow>
                    (case suspicious_event exe uid of None \<Rightarrow> None | Some (event, reason) \<Rightarrow>
                       Some \<lparr>ps_identity = process_identity L pid start uid exe, ps_event = event, ps_reason = reason,
                         ps_name = truncate_field name 128, ps_executable = truncate_field exe 1024,
                         ps_pid = pid, ps_ppid = ppid, ps_uid = uid, ps_start = start\<rparr>))))))"

record process_snapshot =
  sn_processes :: "process list"
  sn_observed :: nat
  sn_truncated :: bool

text \<open>The process a directory entry names, if it names one.\<close>

definition entry_pid :: "proc_entry \<Rightarrow> int option" where
  "entry_pid d = (let (z, ok) = atoi (de_name d) in if \<not> ok \<or> z < 1 \<or> \<not> de_dir d then None else Some z)"

text \<open>\<open>sort.Slice\<close> by identity; the identities of different processes differ.\<close>

definition by_identity :: "process list \<Rightarrow> process list" where
  "by_identity ps = sort_key ps_identity ps"

text \<open>The loop over the entries, with the processes kept (latest first) and the number seen.\<close>

fun scan_processes :: "lib \<Rightarrow> procfs \<Rightarrow> process list \<Rightarrow> nat \<Rightarrow> proc_entry list \<Rightarrow> string + process_snapshot" where
  "scan_processes L F ps n [] = Inr \<lparr>sn_processes = by_identity (rev ps), sn_observed = n, sn_truncated = False\<rparr>"
| "scan_processes L F ps n (d # ds) =
     (case de_cancelled d of Some e \<Rightarrow> Inl e | None \<Rightarrow>
        (case entry_pid d of
           None \<Rightarrow> scan_processes L F ps n ds
         | Some pid \<Rightarrow>
            (if Suc n > maxObservedProcesses
             then Inr \<lparr>sn_processes = rev ps, sn_observed = Suc n, sn_truncated = True\<rparr>
             else case inspect_process L F pid of
                 None \<Rightarrow> scan_processes L F ps (Suc n) ds
               | Some p \<Rightarrow>
                  (if Suc (length ps) \<ge> maxCandidates
                   then Inr \<lparr>sn_processes = by_identity (rev (p # ps)), sn_observed = Suc n, sn_truncated = True\<rparr>
                   else scan_processes L F (p # ps) (Suc n) ds))))"

definition suspicious_processes :: "lib \<Rightarrow> procfs \<Rightarrow> string + process_snapshot" where
  "suspicious_processes L F =
     (case pf_entries F of Inl e \<Rightarrow> Inl (''read procfs: '' @ e) | Inr ds \<Rightarrow> scan_processes L F [] 0 ds)"

section \<open>One exact identity\<close>

record identity_seen =
  is_ppid :: "int option"
  is_uid :: "nat option"
  is_state :: "bool option"

definition identity_line :: "string \<times> string \<Rightarrow> identity_seen \<Rightarrow> identity_seen" where
  "identity_line kv s =
     (if fst kv = ''PPid'' then s\<lparr>is_ppid := (case atoi (snd kv) of (z, ok) \<Rightarrow> if ok then Some z else None)\<rparr>
      else if fst kv = ''Uid'' then s\<lparr>is_uid := parse_uint 32 (snd kv)\<rparr>
      else if fst kv = ''State'' then s\<lparr>is_state := Some (snd kv = ''T'' \<or> snd kv = ''t'')\<rparr>
      else s)"

definition fs_fail :: "string \<Rightarrow> fs_error \<Rightarrow> proc_error" where
  "fs_fail e x = (case x of NotExist \<Rightarrow> ProcessNotFound | FsError _ \<Rightarrow> InspectFailed e)"

definition inspect_identity :: "procfs \<Rightarrow> int \<Rightarrow> proc_error + proc_identity" where
  "inspect_identity F pid =
     (if pid < 1 then Inl ProcessNotFound
      else case pf_exe F pid of
          Inl x \<Rightarrow> Inl (fs_fail (case x of FsError e \<Rightarrow> e | NotExist \<Rightarrow> []) x)
        | Inr exe \<Rightarrow>
           (case pf_stat F pid of
              Inl x \<Rightarrow> Inl (fs_fail ''process stat is unavailable'' x)
            | Inr stat \<Rightarrow>
               (if length stat > proc_file_limit then Inl (InspectFailed ''process stat is unavailable'')
                else case parse_start_time stat of
                    None \<Rightarrow> Inl (InspectFailed ''process start time is invalid'')
                  | Some start \<Rightarrow>
                     (case read_limited (pf_status F pid) of
                        None \<Rightarrow> Inl (InspectFailed ''process status is unavailable'')
                      | Some sb \<Rightarrow>
                         (let s = fold identity_line (status_pairs sb) \<lparr>is_ppid = None, is_uid = None, is_state = None\<rparr>
                          in case (is_ppid s, is_uid s, is_state s) of
                              (Some ppid, Some uid, Some stopped) \<Rightarrow>
                                (if ppid < 0 then Inl (InspectFailed (''process '' @ itoa pid @ '' identity is incomplete''))
                                 else Inr \<lparr>pi_pid = pid, pi_ppid = ppid, pi_uid = uid, pi_start = start, pi_exe = exe, pi_stopped = stopped\<rparr>)
                            | _ \<Rightarrow> Inl (InspectFailed (''process '' @ itoa pid @ '' identity is incomplete'')))))))"

end
