(* ===== verification/ProcessSuspendProps.thy ===== *)
theory ProcessSuspendProps
  imports ProcessSuspend
begin

text \<open>
  What makes a process suspension temporary: while a process may be stopped its journal and
  a timer at most fifteen minutes ahead exist, across restarts; signals only reach the exact
  process that was named.
\<close>

section \<open>Journals and timers\<close>

lemma journal_roundtrip:
  "write_journal E NoFault j js = (None, js') \<Longrightarrow> journal_ok E (pj_action j) j = None \<Longrightarrow>
   read_journal E (pj_action j) js' = Inr j"
  by (auto simp: write_journal_def read_journal_def Let_def AList.update_conv' split: if_splits)

lemma read_journal_update_other:
  "aid \<noteq> pj_action j \<Longrightarrow> read_journal E aid (AList.update (pj_action j) v js) = read_journal E aid js"
  by (simp add: read_journal_def AList.update_conv')

lemma read_journal_delete_other:
  "aid \<noteq> b \<Longrightarrow> read_journal E aid (AList.delete b js) = read_journal E aid js"
  by (simp add: read_journal_def AList.delete_conv')

lemma write_journal_other:
  "write_journal E fault j js = (e, js') \<Longrightarrow> aid \<noteq> pj_action j \<Longrightarrow> read_journal E aid js' = read_journal E aid js"
  by (auto simp: write_journal_def Let_def read_journal_update_other split: if_splits io_fault.splits)

lemma delete_journal_other:
  "delete_journal fault b js = (e, js') \<Longrightarrow> aid \<noteq> b \<Longrightarrow> read_journal E aid js' = read_journal E aid js"
  by (auto simp: delete_journal_def Let_def read_journal_delete_other split: if_splits io_fault.splits)

lemma clamp_delay_bounds: "0 \<le> clamp_delay d \<and> clamp_delay d \<le> 15 * minute"
  by (simp add: clamp_delay_def)

section \<open>The machine\<close>

text \<open>
  The ghost map \<open>held\<close> records the states of suspensions that were attempted (a stop signal
  was sent, whatever it reported) and not yet released.  Actions are applied once, rolled
  back with the state their application returned, and validated before they run; the host
  changes in any way, but its clock does not go back.
\<close>

inductive suspend_step :: "'h process_env \<Rightarrow> 'h suspend_sys \<times> (string \<rightharpoonup> bytes) \<Rightarrow>
    'h suspend_sys \<times> (string \<rightharpoonup> bytes) \<Rightarrow> bool" for E where
  Suspend: "suspend_step E (s, held) (s', if apr_state r = [] then held else held(inv_action_id i \<mapsto> apr_state r))"
    if "suspend_validate E (inv_params i) = None" "held (inv_action_id i) = None"
       "suspend_apply E fault i s = (r, e, s')"
| Release: "suspend_step E (s, held) (s', case pe_dec E (inv_state i) of Inl _ \<Rightarrow> held | Inr st \<Rightarrow>
      (case fst (resume_exact E st (sy_host s)) of Inl _ \<Rightarrow> held | Inr _ \<Rightarrow> held(inv_action_id i := None)))"
    if "held (inv_action_id i) = None \<or> held (inv_action_id i) = Some (inv_state i)"
       "suspend_rollback E fault i s = (r, s')"
| Expire: "suspend_step E (s, held) (expire_suspension E fault aid s, case read_journal E aid (sy_journals s) of Inl _ \<Rightarrow> held
      | Inr j \<Rightarrow> (case pe_dec E (pj_state j) of Inl _ \<Rightarrow> held | Inr st \<Rightarrow>
         (case fst (resume_exact E st (sy_host s)) of Inl _ \<Rightarrow> held | Inr _ \<Rightarrow> held(aid := None))))"
    if "sy_timers s aid \<noteq> None"
| Restart: "suspend_step E (s, held) (s', held)"
    if "start_suspend E s = Inr s'"
| Host: "suspend_step E (s, held) (s\<lparr>sy_host := h\<rparr>, held)"
    if "pe_now E (sy_host s) \<le> pe_now E h"

definition suspend_reachable :: "'h process_env \<Rightarrow> 'h \<Rightarrow> 'h suspend_sys \<times> (string \<rightharpoonup> bytes) \<Rightarrow> bool" where
  "suspend_reachable E h0 x \<longleftrightarrow>
     (suspend_step E)\<^sup>*\<^sup>* (\<lparr>sy_host = h0, sy_journals = [], sy_timers = Map.empty\<rparr>, Map.empty) x"

text \<open>What the host's operations promise: states decode to themselves, and no call moves the clock back.\<close>

definition coder_ok :: "'h process_env \<Rightarrow> bool" where
  "coder_ok E \<longleftrightarrow> (\<forall>st. pe_enc E st \<noteq> [] \<and> pe_dec E (pe_enc E st) = Inr st)"

definition clock_forward :: "'h process_env \<Rightarrow> bool" where
  "clock_forward E \<longleftrightarrow> (\<forall>pid h. pe_now E h \<le> pe_now E (snd (pe_stop E pid h)) \<and> pe_now E h \<le> pe_now E (snd (pe_continue E pid h)))"

text \<open>A suspension in force has its readable journal, its sealed state and an armed timer in reach.\<close>

definition guarded_by :: "'h process_env \<Rightarrow> 'h suspend_sys \<Rightarrow> string \<Rightarrow> bytes \<Rightarrow> bool" where
  "guarded_by E s aid st \<longleftrightarrow> (\<exists>j t. read_journal E aid (sy_journals s) = Inr j \<and> pj_state j = st \<and>
     sy_timers s aid = Some t \<and> t \<le> pe_now E (sy_host s) + 15 * minute)"

definition suspend_inv :: "'h process_env \<Rightarrow> 'h suspend_sys \<times> (string \<rightharpoonup> bytes) \<Rightarrow> bool" where
  "suspend_inv E x \<longleftrightarrow> (\<forall>aid st. snd x aid = Some st \<longrightarrow> guarded_by E (fst x) aid st)"

lemma suspend_invI: "(\<And>aid st. held aid = Some st \<Longrightarrow> guarded_by E s aid st) \<Longrightarrow> suspend_inv E (s, held)"
  by (simp add: suspend_inv_def)

lemma suspend_invD: "suspend_inv E (s, held) \<Longrightarrow> held aid = Some st \<Longrightarrow> guarded_by E s aid st"
  by (simp add: suspend_inv_def)

lemma guarded_by_mono:
  assumes "guarded_by E s aid st" and "read_journal E aid (sy_journals s') = read_journal E aid (sy_journals s)"
    and "sy_timers s' aid = sy_timers s aid" and "pe_now E (sy_host s) \<le> pe_now E (sy_host s')"
  shows "guarded_by E s' aid st"
  using assms unfolding guarded_by_def by fastforce

lemma resume_exact_clock:
  assumes "clock_forward E" and "resume_exact E st h = (r, h')"
  shows "pe_now E h \<le> pe_now E h'"
proof -
  have "pe_now E h \<le> pe_now E (snd (pe_continue E (ss_pid st) h))"
    using assms(1) by (simp add: clock_forward_def)
  with assms(2) show ?thesis
    by (cases "pe_continue E (ss_pid st) h")
      (auto simp: resume_exact_def split: sum.splits proc_error.splits if_splits option.splits)
qed

section \<open>Suspending\<close>

lemma journal_for_ok:
  assumes "coder_ok E" and "action_id_ok (inv_action_id i)" and "2 \<le> pi_pid x" and "pi_start x \<noteq> 0" and "is_abs (pi_exe x)"
  shows "journal_ok E (inv_action_id i) (journal_for E i (pe_enc E (state_of_process (inv_action_id i) x)) t) = None"
  using assms by (simp add: journal_ok_def journal_for_def coder_ok_def state_of_process_def digest_parameters_def split: option.split)

text \<open>The two outcomes of an application: refused with nothing signalled, or journalled, armed and signalled.\<close>

lemma suspend_apply_cases:
  assumes "suspend_apply E fault i s = (r, e, s')"
  obtains js where "apr_state r = []" and "s' = s\<lparr>sy_journals := js\<rparr>"
      and "\<And>aid. aid \<noteq> inv_action_id i \<Longrightarrow> read_journal E aid js = read_journal E aid (sy_journals s)"
  | p x j js where "pe_params E (inv_params i) = Inr p" and "suspend_inspect E p (sy_host s) = Inr x"
      and "action_id_ok (inv_action_id i)"
      and "j = journal_for E i (pe_enc E (state_of_process (inv_action_id i) x)) (pe_now E (sy_host s) + sp_ttl p * second)"
      and "write_journal E fault j (sy_journals s) = (None, js)" and "apr_state r = pj_state j"
      and "s' = (schedule_resume E j (s\<lparr>sy_journals := js\<rparr>))\<lparr>sy_host := snd (pe_stop E (pi_pid x) (sy_host s))\<rparr>"
proof (cases "pe_params E (inv_params i)")
  case (Inl m)
  with assms that(1) [of "sy_journals s"] show ?thesis by (auto simp: suspend_apply_def no_apply_def)
next
  case p: (Inr p)
  show ?thesis
  proof (cases "suspend_inspect E p (sy_host s)")
    case (Inl m)
    with p assms that(1) [of "sy_journals s"] show ?thesis by (auto simp: suspend_apply_def no_apply_def)
  next
    case x: (Inr x)
    show ?thesis
    proof (cases "action_id_ok (inv_action_id i)")
      case False
      with p x assms that(1) [of "sy_journals s"] show ?thesis by (auto simp: suspend_apply_def no_apply_def)
    next
      case ok: True
      define j where j: "j = journal_for E i (pe_enc E (state_of_process (inv_action_id i) x)) (pe_now E (sy_host s) + sp_ttl p * second)"
      obtain we js where w: "write_journal E fault j (sy_journals s) = (we, js)" by force
      have act: "pj_action j = inv_action_id i" by (simp add: j journal_for_def)
      show ?thesis
      proof (cases we)
        case (Some m)
        have "s' = s\<lparr>sy_journals := js\<rparr>" and "apr_state r = []"
          using assms w unfolding Some by (auto simp: suspend_apply_def p x ok j no_apply_def)
        then show ?thesis using that(1) write_journal_other [OF w] act by simp
      next
        case None
        have "s' = (schedule_resume E j (s\<lparr>sy_journals := js\<rparr>))\<lparr>sy_host := snd (pe_stop E (pi_pid x) (sy_host s))\<rparr>"
          and "apr_state r = pj_state j"
          using assms w unfolding None
          by (auto simp: suspend_apply_def p x ok j no_apply_def Let_def schedule_resume_def journal_for_def split: prod.splits option.splits)
        then show ?thesis using that(2) [OF p x ok j] w None by simp
      qed
    qed
  qed
qed

lemma suspend_inspect_valid:
  assumes "pe_params E raw = Inr p" and "suspend_validate E raw = None" and "suspend_inspect E p h = Inr x"
  shows "2 \<le> pi_pid x" and "pi_start x \<noteq> 0" and "is_abs (pi_exe x)" and "pi_uid x = 0"
    and "transient_executable (pi_exe x)" and "pi_pid x = sp_pid p" and "pi_start x = sp_start p"
proof -
  have v: "2 \<le> sp_pid p" "sp_start p \<noteq> 0" "is_abs (sp_exe p)" "transient_executable (sp_exe p)"
    using assms(1,2) by (auto simp: suspend_validate_def split: if_splits)
  have m: "pi_pid x = sp_pid p" "pi_start x = sp_start p" "trim_suffix (pi_exe x) '' (deleted)'' = sp_exe p" "pi_uid x = 0"
    using assms(3) by (auto simp: suspend_inspect_def split: sum.splits if_splits)
  obtain t where e: "pi_exe x = sp_exe p @ t"
    using m(3) has_suffix_iff by (metis append.right_neutral append_take_drop_id trim_suffix_def)
  show "2 \<le> pi_pid x" "pi_start x \<noteq> 0" "pi_uid x = 0" "pi_pid x = sp_pid p" "pi_start x = sp_start p" using v m by auto
  show "is_abs (pi_exe x)" using v(3) by (auto simp: e is_abs_def has_prefix_iff split: list.splits)
  show "transient_executable (pi_exe x)" using v(4) by (auto simp: e transient_executable_def has_prefix_iff)
qed

section \<open>Preservation\<close>

lemma suspend_inv_Suspend:
  assumes inv: "suspend_inv E (s, held)" and E: "coder_ok E" "clock_forward E"
    and val: "suspend_validate E (inv_params i) = None" and ap: "suspend_apply E fault i s = (r, e, s')"
    and free: "held (inv_action_id i) = None"
  shows "suspend_inv E (s', if apr_state r = [] then held else held(inv_action_id i \<mapsto> apr_state r))"
  using ap
proof (cases rule: suspend_apply_cases)
  case (1 js)
  have "guarded_by E s' aid st" if h: "held aid = Some st" for aid st
    using suspend_invD [OF inv h] free h by (rule_tac guarded_by_mono) (auto simp: 1(2) intro!: 1(3))
  then show ?thesis by (simp add: 1(1) suspend_invI)
next
  case (2 p x j js)
  have act: "pj_action j = inv_action_id i" by (simp add: 2(4) journal_for_def)
  have clock: "pe_now E (sy_host s) \<le> pe_now E (sy_host s')"
    using E(2) by (simp add: 2(7) clock_forward_def)
  have new: "guarded_by E s' (inv_action_id i) (pj_state j)"
  proof -
    have "journal_ok E (pj_action j) j = None"
      unfolding act unfolding 2(4) using suspend_inspect_valid [OF 2(1) val 2(2)] 2(3) E(1) by (intro journal_for_ok) auto
    moreover have "js = AList.update (pj_action j) (Some j) (sy_journals s)"
      using 2(5) by (auto simp: write_journal_def Let_def split: if_splits io_fault.splits)
    ultimately have "read_journal E (inv_action_id i) (sy_journals s') = Inr j"
      using 2(3) by (simp add: 2(7) read_journal_def schedule_resume_def Let_def AList.update_conv' act)
    moreover have "\<exists>t. sy_timers s' (inv_action_id i) = Some t \<and> t \<le> pe_now E (sy_host s) + 15 * minute"
      using clamp_delay_bounds by (simp add: 2(7) schedule_resume_def Let_def act)
    ultimately show ?thesis using clock unfolding guarded_by_def by fastforce
  qed
  have old: "guarded_by E s' aid st" if h: "held aid = Some st" for aid st
  proof -
    have ne: "aid \<noteq> inv_action_id i" using free h by auto
    show ?thesis
      by (rule guarded_by_mono [OF suspend_invD [OF inv h] _ _ clock])
        (use write_journal_other [OF 2(5)] ne in \<open>auto simp: 2(7) schedule_resume_def Let_def act\<close>)
  qed
  have ne: "apr_state r \<noteq> []" using E(1) by (simp add: 2(6) 2(4) journal_for_def coder_ok_def)
  show ?thesis using new old by (auto simp: ne 2(6) intro!: suspend_invI split: if_splits)
qed

lemma resume_exact_action [simp]: "resume_exact E (st\<lparr>ss_action := a\<rparr>) h = resume_exact E st h"
proof -
  have "ss_pid (st\<lparr>ss_action := a\<rparr>) = ss_pid st" "ss_start (st\<lparr>ss_action := a\<rparr>) = ss_start st"
    "ss_exe (st\<lparr>ss_action := a\<rparr>) = ss_exe st" by simp_all
  then show ?thesis by (simp only: resume_exact_def)
qed

text \<open>A rollback either leaves journals and timers alone, or has released the process of this action.\<close>

lemma suspend_rollback_cases:
  assumes "suspend_rollback E fault i s = (r, s')"
  obtains "sy_journals s' = sy_journals s" and "sy_timers s' = sy_timers s"
  | st x where "pe_dec E (inv_state i) = Inr st" and "fst (resume_exact E st (sy_host s)) = Inr x"
      and "\<And>aid. aid \<noteq> inv_action_id i \<Longrightarrow> read_journal E aid (sy_journals s') = read_journal E aid (sy_journals s)"
      and "\<And>aid. aid \<noteq> inv_action_id i \<Longrightarrow> sy_timers s' aid = sy_timers s aid"
proof (cases "pe_dec E (inv_state i)")
  case (Inl m)
  with assms that(1) show ?thesis by (auto simp: suspend_rollback_def)
next
  case d: (Inr st0)
  define st where st: "st = (if ss_action st0 = [] then st0\<lparr>ss_action := inv_action_id i\<rparr> else st0)"
  show ?thesis
  proof (cases "ss_action st \<noteq> inv_action_id i \<or> \<not> action_id_ok (ss_action st)")
    case True
    with assms that(1) show ?thesis by (auto simp: suspend_rollback_def d st [symmetric] Let_def)
  next
    case False
    then have act: "ss_action st = inv_action_id i" and ok: "action_id_ok (ss_action st)" by auto
    have same: "resume_exact E st h = resume_exact E st0 h" for h by (simp add: st)
    obtain q h where q: "resume_exact E st (sy_host s) = (q, h)" by force
    show ?thesis
    proof (cases q)
      case (Inl m)
      with assms q that(1) show ?thesis by (auto simp: suspend_rollback_def d st [symmetric] Let_def act ok [unfolded act])
    next
      case (Inr x)
      obtain e js where w: "delete_journal fault (inv_action_id i) (sy_journals s) = (e, js)" by force
      have j: "sy_journals s' = js" and t: "aid \<noteq> inv_action_id i \<Longrightarrow> sy_timers s' aid = sy_timers s aid" for aid
        using assms q w unfolding Inr
        by (auto simp: suspend_rollback_def d st [symmetric] Let_def act ok [unfolded act] cancel_timer_def split: option.splits)
      show ?thesis
        by (rule that(2) [OF d, of x]) (use delete_journal_other [OF w] t q Inr j same in auto)
    qed
  qed
qed

lemma suspend_rollback_clock:
  assumes "clock_forward E" and "suspend_rollback E fault i s = (r, s')"
  shows "pe_now E (sy_host s) \<le> pe_now E (sy_host s')"
  using assms(2) resume_exact_clock [OF assms(1)]
  by (fastforce simp: suspend_rollback_def Let_def cancel_timer_def split: sum.splits if_splits prod.splits option.splits)

lemma suspend_inv_Release:
  assumes inv: "suspend_inv E (s, held)" and E: "clock_forward E" and rb: "suspend_rollback E fault i s = (r, s')"
  shows "suspend_inv E (s', case pe_dec E (inv_state i) of Inl _ \<Rightarrow> held | Inr st \<Rightarrow>
      (case fst (resume_exact E st (sy_host s)) of Inl _ \<Rightarrow> held | Inr _ \<Rightarrow> held(inv_action_id i := None)))"
    (is "suspend_inv E (s', ?held)")
proof (rule suspend_invI)
  note clock = suspend_rollback_clock [OF E rb]
  fix aid st assume h: "?held aid = Some st"
  then have old: "held aid = Some st" by (auto split: sum.splits if_splits)
  note was = suspend_invD [OF inv old]
  show "guarded_by E s' aid st"
    using rb
  proof (cases rule: suspend_rollback_cases)
    case 1
    show ?thesis by (rule guarded_by_mono [OF was _ _ clock]) (simp_all add: 1)
  next
    case (2 st x)
    with h have "aid \<noteq> inv_action_id i" by (auto split: if_splits)
    then show ?thesis by (rule_tac guarded_by_mono [OF was _ _ clock]) (simp_all add: 2)
  qed
qed

lemma expire_suspension_cases:
  obtains "sy_journals (expire_suspension E fault aid s) = sy_journals s"
      and "sy_timers (expire_suspension E fault aid s) = (sy_timers s)(aid \<mapsto> pe_now E (sy_host (expire_suspension E fault aid s)) + minute)"
  | "read_journal E aid (sy_journals s) = Inl None"
      and "expire_suspension E fault aid s = cancel_timer aid s"
  | j st x where "read_journal E aid (sy_journals s) = Inr j" and "pe_dec E (pj_state j) = Inr st"
      and "fst (resume_exact E st (sy_host s)) = Inr x"
      and "sy_journals (expire_suspension E fault aid s) = snd (delete_journal fault aid (sy_journals s))"
      and "sy_timers (expire_suspension E fault aid s) = (sy_timers s)(aid := None)"
proof (cases "read_journal E aid (sy_journals s)")
  case (Inl e)
  then show ?thesis using that(1,2) by (cases e) (auto simp: expire_suspension_def Let_def)
next
  case j: (Inr j)
  show ?thesis
  proof (cases "pe_dec E (pj_state j)")
    case (Inl e)
    then show ?thesis using that(1) j by (auto simp: expire_suspension_def Let_def)
  next
    case st: (Inr st)
    obtain q h where "resume_exact E st (sy_host s) = (q, h)" by force
    then show ?thesis using that(1) that(3) [OF j st]
      by (cases q) (auto simp: expire_suspension_def Let_def j st cancel_timer_def)
  qed
qed

lemma expire_suspension_clock:
  assumes "clock_forward E"
  shows "pe_now E (sy_host s) \<le> pe_now E (sy_host (expire_suspension E fault aid s))"
  using resume_exact_clock [OF assms]
  by (fastforce simp: expire_suspension_def Let_def cancel_timer_def split: sum.splits option.splits prod.splits)

lemma suspend_inv_Expire:
  assumes inv: "suspend_inv E (s, held)" and E: "clock_forward E"
  shows "suspend_inv E (expire_suspension E fault aid s, case read_journal E aid (sy_journals s) of Inl _ \<Rightarrow> held
      | Inr j \<Rightarrow> (case pe_dec E (pj_state j) of Inl _ \<Rightarrow> held | Inr st \<Rightarrow>
         (case fst (resume_exact E st (sy_host s)) of Inl _ \<Rightarrow> held | Inr _ \<Rightarrow> held(aid := None))))"
    (is "suspend_inv E (?s, ?held)")
proof (rule suspend_invI)
  note clock = expire_suspension_clock [OF E, of s fault aid]
  fix b st assume h: "?held b = Some st"
  then have old: "held b = Some st" by (auto split: sum.splits if_splits)
  note was = suspend_invD [OF inv old]
  show "guarded_by E ?s b st"
  proof (cases rule: expire_suspension_cases [where E = E and fault = fault and aid = aid and s = s])
    case 1
    with was clock show ?thesis by (auto simp: guarded_by_def)
  next
    case 2
    with was have "b \<noteq> aid" by (auto simp: guarded_by_def)
    then show ?thesis by (rule_tac guarded_by_mono [OF was _ _ clock]) (simp_all add: 2 cancel_timer_def)
  next
    case (3 j st x)
    with h have ne: "b \<noteq> aid" by (auto split: if_splits)
    have "read_journal E b (sy_journals ?s) = read_journal E b (sy_journals s)"
      unfolding 3(4) using delete_journal_other [OF surjective_pairing ne] .
    then show ?thesis using ne by (rule_tac guarded_by_mono [OF was _ _ clock]) (simp_all add: 3(5))
  qed
qed

text \<open>At start every journal in the directory is armed again.\<close>

lemma resume_journals_spec:
  assumes "resume_journals E aids s = Inr s'"
  shows "sy_journals s' = sy_journals s \<and> sy_host s' = sy_host s \<and>
     (\<forall>aid j. aid \<in> set aids \<longrightarrow> read_journal E aid (sy_journals s) = Inr j \<longrightarrow>
        (\<exists>t. sy_timers s' aid = Some t \<and> t \<le> pe_now E (sy_host s) + 15 * minute)) \<and>
     (\<forall>aid. aid \<notin> set aids \<longrightarrow> sy_timers s' aid = sy_timers s aid)"
  using assms
proof (induction aids arbitrary: s)
  case (Cons a aids)
  from Cons.prems obtain j where j: "read_journal E a (sy_journals s) = Inr j"
    and rest: "resume_journals E aids (schedule_resume E j s) = Inr s'"
    by (auto split: sum.splits)
  have act: "pj_action j = a"
    using j by (auto simp: read_journal_def journal_ok_def split: if_splits option.splits)
  have armed: "\<exists>t. sy_timers (schedule_resume E j s) a = Some t \<and> t \<le> pe_now E (sy_host s) + 15 * minute"
    using clamp_delay_bounds by (simp add: schedule_resume_def Let_def act)
  have keep: "sy_journals (schedule_resume E j s) = sy_journals s" "sy_host (schedule_resume E j s) = sy_host s"
    "b \<noteq> a \<Longrightarrow> sy_timers (schedule_resume E j s) b = sy_timers s b" for b
    by (simp_all add: schedule_resume_def Let_def act)
  show ?case
    using Cons.IH [OF rest] armed keep by (cases "a \<in> set aids") auto
qed simp

lemma suspend_inv_Restart:
  assumes inv: "suspend_inv E (s, held)" and st: "start_suspend E s = Inr s'"
  shows "suspend_inv E (s', held)"
proof (rule suspend_invI)
  fix aid x assume h: "held aid = Some x"
  obtain j where j: "read_journal E aid (sy_journals s) = Inr j" "pj_state j = x"
    using suspend_invD [OF inv h] by (auto simp: guarded_by_def)
  then have "aid \<in> set (map fst (sy_journals s))"
    by (auto simp: read_journal_def map_of_eq_None_iff split: if_splits option.splits dest: map_of_SomeD intro: rev_image_eqI)
  with resume_journals_spec [OF st [unfolded start_suspend_def]] j show "guarded_by E s' aid x"
    by (auto simp: guarded_by_def)
qed

lemma suspend_step_inv:
  assumes "suspend_step E x y" and "suspend_inv E x" and "coder_ok E" and "clock_forward E"
  shows "suspend_inv E y"
  using assms
proof (cases rule: suspend_step.cases)
  case (Suspend i held fault s r e s')
  show ?thesis unfolding Suspend(2)
    by (rule suspend_inv_Suspend) (use assms Suspend in simp_all)
next
  case (Release held i fault s r s')
  with assms show ?thesis using suspend_inv_Release by blast
next
  case (Expire s aid held fault)
  with assms show ?thesis using suspend_inv_Expire by blast
next
  case (Restart s s' held)
  show ?thesis unfolding Restart(2)
    by (rule suspend_inv_Restart [OF _ Restart(3)]) (use assms(2) Restart(1) in simp)
next
  case (Host s h held)
  have "guarded_by E (s\<lparr>sy_host := h\<rparr>) aid st" if "held aid = Some st" for aid st
    by (rule guarded_by_mono [where s = s]) (use Host assms(2) that suspend_invD in auto)
  then show ?thesis unfolding Host(2) by (rule suspend_invI)
qed

lemma suspend_reachable_inv:
  assumes "suspend_reachable E h0 x" and "coder_ok E" and "clock_forward E"
  shows "suspend_inv E x"
  using assms(1) unfolding suspend_reachable_def
proof (induction rule: rtranclp_induct)
  case base
  show ?case by (simp add: suspend_inv_def)
next
  case (step y z)
  then show ?case using suspend_step_inv assms(2,3) by blast
qed

section \<open>Properties\<close>

text \<open>
  C19: A suspension is temporary by construction.  In every state the helper can reach, by
  applying, rolling back, expiring and restarting in any order and with any write fault,
  a suspension that was attempted and not released has a resume journal that reads back
  with exactly the state handed to the controller, and an armed timer that is due within
  fifteen minutes.
\<close>

theorem suspension_is_temporary:
  assumes "suspend_reachable E h0 (s, held)" and "coder_ok E" and "clock_forward E" and "held aid = Some st"
  shows "\<exists>j t. read_journal E aid (sy_journals s) = Inr j \<and> pj_state j = st \<and>
    sy_timers s aid = Some t \<and> t \<le> pe_now E (sy_host s) + 15 * minute"
  using suspend_invD [OF suspend_reachable_inv [OF assms(1-3)] assms(4)] by (simp add: guarded_by_def)

text \<open>
  Signals only reach the exact process.  A valid application changes the host, if at
  all, by one stop signal to a process inspected just before it with the requested pid and
  start time, uid 0 and an executable below a transient directory, and only after its
  journal is written and its timer armed; a rollback changes it, if at all, by one continue
  signal to a stopped process whose start time and executable are those of the state.
\<close>

theorem signals_only_exact_process:
  assumes "suspend_validate E (inv_params i) = None"
  shows "(let s' = snd (snd (suspend_apply E fault i s)) in
      sy_host s' \<noteq> sy_host s \<longrightarrow>
        (\<exists>p x. pe_params E (inv_params i) = Inr p \<and> pe_inspect E (sp_pid p) (sy_host s) = Inr x \<and>
           pi_pid x = sp_pid p \<and> pi_start x = sp_start p \<and> pi_uid x = 0 \<and> transient_executable (pi_exe x) \<and>
           sy_host s' = snd (pe_stop E (pi_pid x) (sy_host s)) \<and>
           map_of (sy_journals s') (inv_action_id i) \<noteq> None \<and> sy_timers s' (inv_action_id i) \<noteq> None))
    \<and> (let s' = snd (suspend_rollback E fault j s) in
      sy_host s' \<noteq> sy_host s \<longrightarrow>
        (\<exists>st x. pe_dec E (inv_state j) = Inr st \<and> pe_inspect E (ss_pid st) (sy_host s) = Inr x \<and> pi_stopped x \<and>
           pi_start x = ss_start st \<and> pi_exe x = ss_exe st \<and> sy_host s' = snd (pe_continue E (ss_pid st) (sy_host s))))"
  (is "?stop \<and> ?cont")
proof
  obtain r e s' where ap: "suspend_apply E fault i s = (r, e, s')" using prod_cases3 by blast
  show ?stop
    using ap
  proof (cases rule: suspend_apply_cases)
    case (1 js)
    then show ?thesis by (simp add: ap)
  next
    case (2 p x j js)
    have "map_of js (inv_action_id i) \<noteq> None"
      using 2(5) by (auto simp: 2(4) write_journal_def Let_def AList.update_conv' journal_for_def split: if_splits io_fault.splits)
    moreover have "pe_inspect E (sp_pid p) (sy_host s) = Inr x"
      using 2(2) by (auto simp: suspend_inspect_def split: sum.splits if_splits)
    ultimately show ?thesis
      using suspend_inspect_valid [OF 2(1) assms 2(2)] 2(1) 2(4)
      by (auto simp: ap 2(7) schedule_resume_def Let_def journal_for_def)
  qed
  show ?cont
  proof (cases "pe_dec E (inv_state j)")
    case (Inl m)
    then show ?thesis by (simp add: suspend_rollback_def)
  next
    case (Inr st)
    have "sy_host (snd (suspend_rollback E fault j s)) = sy_host s \<or>
        sy_host (snd (suspend_rollback E fault j s)) = snd (resume_exact E st (sy_host s))"
      by (auto simp: suspend_rollback_def Inr Let_def cancel_timer_def split: sum.splits option.splits prod.splits)
    then show ?thesis
      by (auto simp: Inr resume_exact_def Let_def split: sum.splits proc_error.splits if_splits option.splits prod.splits)
  qed
qed

text \<open>
  When a timer fires, the suspension ends or is tried again.  If the journal is
  readable, either no timer and no journal are left and the exact process was continued, or
  is gone, replaced or running; or the journal is kept and the timer is armed again, one
  minute later, because the process could not be inspected or continued.
\<close>

theorem expiry_ends_or_retries:
  assumes "read_journal E aid (sy_journals s) = Inr j" and "pe_dec E (pj_state j) = Inr st"
  shows "let s' = expire_suspension E NoFault aid s in
    (sy_timers s' aid = None \<and> map_of (sy_journals s') aid = None \<and>
      (case pe_inspect E (ss_pid st) (sy_host s) of
         Inl e \<Rightarrow> e = ProcessNotFound
       | Inr x \<Rightarrow> pi_start x \<noteq> ss_start st \<or> pi_exe x \<noteq> ss_exe st \<or> \<not> pi_stopped x \<or>
           pe_continue E (ss_pid st) (sy_host s) = (None, sy_host s')))
    \<or> (sy_timers s' aid = Some (pe_now E (sy_host s') + minute) \<and> sy_journals s' = sy_journals s \<and>
       (case pe_inspect E (ss_pid st) (sy_host s) of
          Inl e \<Rightarrow> e \<noteq> ProcessNotFound
        | Inr x \<Rightarrow> fst (pe_continue E (ss_pid st) (sy_host s)) \<noteq> None))"
proof -
  have del: "map_of (snd (delete_journal NoFault aid js)) aid = None" for js
    by (simp add: delete_journal_def AList.delete_conv')
  show ?thesis
  proof (cases "pe_inspect E (ss_pid st) (sy_host s)")
    case (Inl e)
    then show ?thesis using assms del
      by (cases e) (simp_all add: expire_suspension_def resume_exact_def cancel_timer_def Let_def)
  next
    case (Inr x)
    obtain r h where c: "pe_continue E (ss_pid st) (sy_host s) = (r, h)" by force
    show ?thesis using assms del Inr c
      by (cases r) (auto simp: expire_suspension_def resume_exact_def cancel_timer_def Let_def)
  qed
qed

text \<open>
  A suspended process whose executable file is removed is never continued.  The link
  the kernel then reports ends in a deletion mark, which the state does not have: when the
  timer fires, no signal is sent, the stopped process is taken for another one, and the
  journal and the timer that would have released it are dropped.
\<close>

theorem unlinked_executable_never_resumed:
  assumes "read_journal E aid (sy_journals s) = Inr j" and "pe_dec E (pj_state j) = Inr st"
    and "pe_inspect E (ss_pid st) (sy_host s) = Inr x"
    and "pi_start x = ss_start st" and "pi_stopped x" and "pi_exe x = ss_exe st @ '' (deleted)''"
  shows "let s' = expire_suspension E NoFault aid s in
    sy_host s' = sy_host s \<and> sy_timers s' aid = None \<and> map_of (sy_journals s') aid = None"
  using assms
  by (simp add: expire_suspension_def resume_exact_def cancel_timer_def Let_def delete_journal_def AList.delete_conv')

section \<open>A concrete host\<close>

text \<open>A coder of states, with numbers in unary.\<close>

definition unary :: "nat \<Rightarrow> bytes" where
  "unary n = replicate n (CHR ''1'') @ ''0''"

fun read_unary :: "bytes \<Rightarrow> nat \<times> bytes" where
  "read_unary [] = (0, [])"
| "read_unary (c # cs) = (if c = CHR ''1'' then let (n, r) = read_unary cs in (Suc n, r) else (0, cs))"

lemma read_unary [simp]: "read_unary (unary n @ r) = (n, r)"
  by (induction n) (simp_all add: unary_def)

definition int_code :: "int \<Rightarrow> bytes" where
  "int_code z = unary (if z < 0 then 1 else 0) @ unary (nat \<bar>z\<bar>)"

definition read_int :: "bytes \<Rightarrow> int \<times> bytes" where
  "read_int b = (let (s, r) = read_unary b; (n, r2) = read_unary r in (if s = 1 then - int n else int n, r2))"

lemma read_int [simp]: "read_int (int_code z @ r) = (z, r)"
  by (simp add: int_code_def read_int_def)

definition str_code :: "string \<Rightarrow> bytes" where
  "str_code s = unary (length s) @ s"

definition read_str :: "bytes \<Rightarrow> string \<times> bytes" where
  "read_str b = (let (n, r) = read_unary b in (take n r, drop n r))"

lemma read_str [simp]: "read_str (str_code s @ r) = (s, r)"
  by (simp add: str_code_def read_str_def)

definition demo_enc :: "suspend_state \<Rightarrow> bytes" where
  "demo_enc st = str_code (ss_action st) @ int_code (ss_pid st) @ int_code (ss_ppid st) @ unary (ss_uid st) @
     unary (ss_start st) @ str_code (ss_exe st) @ ''.''"

definition demo_dec :: "bytes \<Rightarrow> string + suspend_state" where
  "demo_dec b = (let (a, b1) = read_str b; (p, b2) = read_int b1; (q, b3) = read_int b2; (u, b4) = read_unary b3;
     (t, b5) = read_unary b4; (x, b6) = read_str b5
   in Inr \<lparr>ss_action = a, ss_pid = p, ss_ppid = q, ss_uid = u, ss_start = t, ss_exe = x\<rparr>)"

lemma demo_dec_enc [simp]: "demo_dec (demo_enc st) = Inr st"
  by (simp add: demo_dec_def demo_enc_def)

lemma demo_enc_nonempty [simp]: "demo_enc st \<noteq> []"
  by (simp add: demo_enc_def)

text \<open>One root process below \<open>/tmp\<close>; the host is whether it is stopped and whether its file is gone.\<close>

definition demo_process :: "bool \<times> bool \<Rightarrow> proc_identity" where
  "demo_process h = \<lparr>pi_pid = 9, pi_ppid = 1, pi_uid = 0, pi_start = 5,
     pi_exe = ''/tmp/x'' @ (if snd h then '' (deleted)'' else []), pi_stopped = fst h\<rparr>"

definition demo_lib :: lib where
  "demo_lib = \<lparr>json_ok = (\<lambda>_. True), json_canonical = Some, sha256 = id, hmac_sha256 = (\<lambda>k m. k @ m),
     enc_sealed = (\<lambda>_. []), dec_sealed = (\<lambda>_. None), enc_receipt = (\<lambda>_. [])\<rparr>"

definition demo_suspend_env :: "(bool \<times> bool) process_env" where
  "demo_suspend_env = \<lparr>pe_lib = demo_lib,
     pe_params = (\<lambda>_. Inr \<lparr>sp_pid = 9, sp_start = 5, sp_exe = ''/tmp/x'', sp_ttl = 60, sp_reason = []\<rparr>),
     pe_enc = demo_enc, pe_dec = demo_dec, pe_inspect = (\<lambda>_ h. Inr (demo_process h)),
     pe_stop = (\<lambda>_ h. (None, (True, snd h))), pe_continue = (\<lambda>_ h. (None, (False, snd h))),
     pe_sleep = id, pe_now = (\<lambda>_. 0)\<rparr>"

definition demo_suspend_invocation :: invocation where
  "demo_suspend_invocation = \<lparr>inv_action_id = ''a'', inv_actor = [], inv_params = ''{}'', inv_state = []\<rparr>"

definition demo_start :: "(bool \<times> bool) suspend_sys" where
  "demo_start = \<lparr>sy_host = (False, False), sy_journals = [], sy_timers = Map.empty\<rparr>"

definition demo_held :: bytes where
  "demo_held = demo_enc (state_of_process ''a'' (demo_process (False, False)))"

definition demo_journal :: process_journal where
  "demo_journal = journal_for demo_suspend_env demo_suspend_invocation demo_held (60 * second)"

definition demo_suspended :: "bool \<Rightarrow> (bool \<times> bool) suspend_sys" where
  "demo_suspended gone = \<lparr>sy_host = (True, gone), sy_journals = [(''a'', Some demo_journal)], sy_timers = [''a'' \<mapsto> 60 * second]\<rparr>"

lemma demo_suspend_ok: "coder_ok demo_suspend_env" "clock_forward demo_suspend_env"
  by (simp_all add: coder_ok_def clock_forward_def demo_suspend_env_def)

lemma demo_valid: "suspend_validate demo_suspend_env (inv_params demo_suspend_invocation) = None"
  by (simp add: suspend_validate_def demo_suspend_env_def demo_suspend_invocation_def) code_simp

lemma demo_applied: "\<exists>r e. suspend_apply demo_suspend_env NoFault demo_suspend_invocation demo_start = (r, e, demo_suspended False) \<and>
    apr_state r = demo_held"
proof -
  have id: "action_id_ok ''a''" by code_simp
  have x: "suspend_inspect demo_suspend_env p (False, False) = Inr (demo_process (False, False))"
    if "p = \<lparr>sp_pid = 9, sp_start = 5, sp_exe = ''/tmp/x'', sp_ttl = 60, sp_reason = []\<rparr>" for p
    unfolding that by (simp add: suspend_inspect_def demo_suspend_env_def demo_process_def) code_simp
  show ?thesis
    using x id by (simp add: suspend_apply_def demo_start_def demo_suspend_invocation_def demo_suspend_env_def demo_suspended_def
        demo_journal_def journal_for_def demo_held_def write_journal_def schedule_resume_def clamp_delay_def Let_def demo_process_def
        state_of_process_def)
qed

lemma suspended_read: "read_journal demo_suspend_env ''a'' (sy_journals (demo_suspended gone)) = Inr demo_journal"
  "pe_dec demo_suspend_env (pj_state demo_journal) = Inr (state_of_process ''a'' (demo_process (False, False)))"
proof -
  have "action_id_ok ''a''" by code_simp
  then show "read_journal demo_suspend_env ''a'' (sy_journals (demo_suspended gone)) = Inr demo_journal"
    by (simp add: read_journal_def journal_ok_def demo_suspended_def demo_journal_def journal_for_def demo_suspend_invocation_def
        demo_suspend_env_def demo_held_def state_of_process_def demo_process_def is_abs_def digest_parameters_def demo_lib_def)
  show "pe_dec demo_suspend_env (pj_state demo_journal) = Inr (state_of_process ''a'' (demo_process (False, False)))"
    by (simp add: demo_journal_def journal_for_def demo_suspend_env_def demo_held_def)
qed

text \<open>Witnesses.\<close>

theorem suspension_is_temporary_witness:
  "\<exists>j t. read_journal demo_suspend_env ''a'' (sy_journals (demo_suspended False)) = Inr j \<and> pj_state j = demo_held \<and>
     sy_timers (demo_suspended False) ''a'' = Some t \<and> t \<le> 15 * minute"
proof -
  obtain r e where ap: "suspend_apply demo_suspend_env NoFault demo_suspend_invocation demo_start = (r, e, demo_suspended False)"
    and st: "apr_state r = demo_held" using demo_applied by blast
  have "suspend_step demo_suspend_env (demo_start, Map.empty)
      (demo_suspended False, if apr_state r = [] then Map.empty else Map.empty(inv_action_id demo_suspend_invocation \<mapsto> apr_state r))"
    by (rule suspend_step.Suspend [OF demo_valid _ ap]) simp
  then have "suspend_reachable demo_suspend_env (False, False) (demo_suspended False, [''a'' \<mapsto> demo_held])"
    unfolding suspend_reachable_def demo_start_def [symmetric]
    by (intro r_into_rtranclp) (simp add: st demo_held_def demo_suspend_invocation_def)
  from suspension_is_temporary [OF this demo_suspend_ok, of "''a''" demo_held] show ?thesis
    by (simp add: demo_suspend_env_def demo_suspended_def)
qed

theorem signals_only_exact_process_witness:
  "\<exists>x. pe_inspect demo_suspend_env 9 (False, False) = Inr x \<and> pi_start x = 5 \<and> pi_uid x = 0"
proof -
  obtain r e where ap: "suspend_apply demo_suspend_env NoFault demo_suspend_invocation demo_start = (r, e, demo_suspended False)"
    using demo_applied by blast
  from signals_only_exact_process [OF demo_valid, where fault = NoFault and s = demo_start] ap show ?thesis
    by (simp add: Let_def demo_start_def demo_suspended_def demo_suspend_env_def)
qed

theorem expiry_ends_or_retries_witness:
  "sy_timers (expire_suspension demo_suspend_env NoFault ''a'' (demo_suspended False)) ''a'' = None \<and>
   sy_host (expire_suspension demo_suspend_env NoFault ''a'' (demo_suspended False)) = (False, False)"
proof -
  have i: "pe_inspect demo_suspend_env p h = Inr (demo_process h)"
    and c: "pe_continue demo_suspend_env p h = (None, (False, snd h))" for p h
    by (simp_all add: demo_suspend_env_def)
  have h: "sy_host (demo_suspended False) = (True, False)" by (simp add: demo_suspended_def)
  from expiry_ends_or_retries [OF suspended_read(1) [of False] suspended_read(2)] show ?thesis
    by (auto simp: Let_def i c h demo_process_def state_of_process_def)
qed

theorem unlinked_executable_never_resumed_witness:
  "sy_host (expire_suspension demo_suspend_env NoFault ''a'' (demo_suspended True)) = (True, True) \<and>
   sy_timers (expire_suspension demo_suspend_env NoFault ''a'' (demo_suspended True)) ''a'' = None"
  using unlinked_executable_never_resumed [OF suspended_read(1) [of True] suspended_read(2), of "demo_process (True, True)"]
  by (simp add: demo_suspend_env_def demo_suspended_def state_of_process_def demo_process_def Let_def)

end
