(* ===== verification/ProcessesProps.thy ===== *)
theory ProcessesProps
  imports Processes ProcessSuspendProps "HOL-Library.Multiset"
begin

text \<open>
  The start time is read correctly whatever the process is called, and the observation is
  complete unless it says that it is truncated.
\<close>

section \<open>Start times\<close>

lemma after_last_none: "CHR '')'' \<notin> set s \<Longrightarrow> after_last '') '' s = None"
  by (induction s) auto

lemma after_last_paren: "CHR '')'' \<notin> set s \<Longrightarrow> after_last '') '' (p @ '') '' @ s) = Some s"
proof (rule after_last_append)
  assume "CHR '')'' \<notin> set s"
  then have "after_last '') '' s = None" by (rule after_last_none)
  then show "after_last '') '' ('') '' @ s) = Some s" by simp
qed

lemma fields_aux_newline: "acc \<noteq> [] \<Longrightarrow> go_fields_aux acc [CHR 0x0A] = [rev acc]"
  by (simp add: go_fields_aux.simps space_len_def is_space_def)

lemma fields_unwords_newline:
  "list_all is_word ws \<Longrightarrow> ws \<noteq> [] \<Longrightarrow> go_fields (unwords ws @ [CHR 0x0A]) = ws"
  unfolding go_fields_def
proof (induction ws rule: unwords.induct)
  case (2 w)
  then show ?case using fields_aux_word [of w "[]" "[CHR 0x0A]"] fields_aux_newline [of "rev w"] by (simp add: is_word_def)
next
  case (3 w v ws)
  then show ?case using fields_aux_word [of w "[]"] by (simp add: is_word_def fields_aux_blank)
qed simp

text \<open>
  C29: The start time of a process is read exactly, whatever its name.  For a line of
  \<open>/proc/<pid>/stat\<close> with any name at all, also one that contains spaces, closing
  parentheses or forged fields, the result is the twentieth field after the name.
\<close>

theorem start_time_exact:
  assumes "list_all is_word ws" and "19 < length ws" and "ws ! 19 = nat_digits start" and "start < 2 ^ 64"
    and "\<forall>w \<in> set ws. CHR '')'' \<notin> set w"
  shows "parse_start_time (nat_digits pid @ '' ('' @ name @ '') '' @ unwords ws @ [CHR 0x0A]) = Some start"
proof -
  have "CHR '')'' \<notin> set (unwords ws @ [CHR 0x0A])"
    using assms(5) set_unwords [of ws] by auto
  then have "after_last '') '' ((nat_digits pid @ '' ('' @ name) @ '') '' @ unwords ws @ [CHR 0x0A]) = Some (unwords ws @ [CHR 0x0A])"
    by (rule after_last_paren)
  moreover have "go_fields (unwords ws @ [CHR 0x0A]) = ws"
    using assms(1,2) by (intro fields_unwords_newline) auto
  ultimately show ?thesis
    using assms(2-4) parse_uint_nat_digits by (simp add: parse_start_time_def Let_def)
qed

theorem start_time_exact_witness:
  "parse_start_time (nat_digits 7 @ '' ('' @ ''x) S 1'' @ '') '' @ unwords (replicate 19 ''0'' @ [nat_digits 55]) @ [CHR 0x0A]) = Some 55"
proof (rule start_time_exact)
  show "list_all is_word (replicate 19 ''0'' @ [nat_digits 55])"
    using nat_digits_word [of 55] by (simp add: list_all_iff) (simp add: is_word_def is_graph_def)
  show "\<forall>w \<in> set (replicate 19 ''0'' @ [nat_digits 55]). CHR '')'' \<notin> set w"
    using nat_digits_digits [of 55] by (auto simp: list_all_iff is_digit_def)
qed (simp_all add: nth_append)

section \<open>The observation\<close>

text \<open>The suspicious processes among the entries, in their order.\<close>

definition suspicious_of :: "lib \<Rightarrow> procfs \<Rightarrow> proc_entry list \<Rightarrow> process list" where
  "suspicious_of L F ds = List.map_filter (\<lambda>d. case entry_pid d of None \<Rightarrow> None | Some pid \<Rightarrow> inspect_process L F pid) ds"

lemma suspicious_of_simps [simp]:
  "suspicious_of L F [] = []"
  "suspicious_of L F (d # ds) =
     (case entry_pid d of None \<Rightarrow> suspicious_of L F ds
      | Some pid \<Rightarrow> (case inspect_process L F pid of None \<Rightarrow> suspicious_of L F ds | Some p \<Rightarrow> p # suspicious_of L F ds))"
  by (simp_all add: suspicious_of_def map_filter_simps split: option.split)

lemma scan_processes_spec:
  assumes "scan_processes L F ps n ds = Inr sn" and "length ps < maxCandidates" and "n \<le> maxObservedProcesses"
  shows "length (sn_processes sn) \<le> maxCandidates \<and>
     (\<exists>m. mset (sn_processes sn) = mset (rev ps @ take m (suspicious_of L F ds))) \<and>
     (if sn_truncated sn
      then length (sn_processes sn) = maxCandidates \<or> sn_observed sn = Suc maxObservedProcesses
      else sn_processes sn = by_identity (rev ps @ suspicious_of L F ds) \<and> sn_observed sn \<le> maxObservedProcesses)"
  using assms
proof (induction L F ps n ds rule: scan_processes.induct)
  case (1 L F ps n)
  then show ?case by (auto simp: by_identity_def)
next
  case (2 L F ps n d ds)
  show ?case
  proof (cases "entry_pid d")
    case None
    with 2 show ?thesis by (auto split: option.splits)
  next
    case (Some pid)
    show ?thesis
    proof (cases "Suc n > maxObservedProcesses")
      case True
      with "2.prems" Some show ?thesis by (auto split: option.splits intro: exI [of _ 0])
    next
      case False
      show ?thesis
      proof (cases "inspect_process L F pid")
        case None
        with 2 Some False show ?thesis by (auto split: option.splits)
      next
        case p: (Some p)
        show ?thesis
        proof (cases "Suc (length ps) \<ge> maxCandidates")
          case True
          with "2.prems" Some False p show ?thesis
            by (auto simp: by_identity_def split: option.splits intro!: exI [of _ 1])
        next
          case less: False
          have r: "scan_processes L F (p # ps) (Suc n) ds = Inr sn"
            using "2.prems"(1) Some False p less by (auto split: option.splits)
          have none: "de_cancelled d = None" using "2.prems"(1) by (auto split: option.splits)
          have "length (p # ps) < maxCandidates" "Suc n \<le> maxObservedProcesses" using less False by simp_all
          with "2.IH"(3) [OF none Some False p less r] obtain m where
            m: "mset (sn_processes sn) = mset (rev (p # ps) @ take m (suspicious_of L F ds))"
            and rest: "length (sn_processes sn) \<le> maxCandidates"
              "if sn_truncated sn then length (sn_processes sn) = maxCandidates \<or> sn_observed sn = Suc maxObservedProcesses
               else sn_processes sn = by_identity (rev (p # ps) @ suspicious_of L F ds) \<and> sn_observed sn \<le> maxObservedProcesses"
            by auto
          have "mset (sn_processes sn) = mset (rev ps @ take (Suc m) (suspicious_of L F (d # ds)))"
            using m Some p by simp
          then show ?thesis using rest Some p by (intro conjI exI [of _ "Suc m"]) simp_all
        qed
      qed
    qed
  qed
qed

text \<open>
  The observation never passes a partial result off as complete.  At most 256
  processes are reported; every one of them is a suspicious process of the directory; when
  the snapshot is not marked truncated it holds exactly the suspicious processes, sorted by
  identity; and it is marked truncated only at one of the two bounds.
\<close>

theorem observation_complete_or_marked:
  assumes "pf_entries F = Inr ds" and "suspicious_processes L F = Inr sn"
  shows "length (sn_processes sn) \<le> 256 \<and>
     set (sn_processes sn) \<subseteq> set (suspicious_of L F ds) \<and>
     (if sn_truncated sn then length (sn_processes sn) = 256 \<or> sn_observed sn = 32769
      else mset (sn_processes sn) = mset (suspicious_of L F ds) \<and> sorted (map ps_identity (sn_processes sn)))"
proof -
  have "scan_processes L F [] 0 ds = Inr sn" using assms by (simp add: suspicious_processes_def)
  from scan_processes_spec [OF this] obtain m where len: "length (sn_processes sn) \<le> maxCandidates"
    and m: "mset (sn_processes sn) = mset (take m (suspicious_of L F ds))"
    and t: "if sn_truncated sn then length (sn_processes sn) = maxCandidates \<or> sn_observed sn = Suc maxObservedProcesses
      else sn_processes sn = by_identity (suspicious_of L F ds) \<and> sn_observed sn \<le> maxObservedProcesses"
    by (auto simp: maxCandidates_def cong: if_cong)
  have "set (sn_processes sn) = set (take m (suspicious_of L F ds))" using m by (rule mset_eq_setD)
  then have "set (sn_processes sn) \<subseteq> set (suspicious_of L F ds)" using set_take_subset by metis
  then show ?thesis using len t by (auto simp: by_identity_def maxCandidates_def maxObservedProcesses_def split: if_splits)
qed


text \<open>A directory with one root process below \<open>/tmp\<close> and one entry that is no process.\<close>

definition demo_procfs :: procfs where
  "demo_procfs = \<lparr>pf_entries = Inr [\<lparr>de_name = ''7'', de_dir = True, de_cancelled = None\<rparr>,
       \<lparr>de_name = ''self'', de_dir = True, de_cancelled = None\<rparr>],
     pf_exe = (\<lambda>_. Inr ''/tmp/x''),
     pf_stat = (\<lambda>_. Inr (''7 (x) S '' @ unwords (replicate 18 ''0'' @ [''55'']))),
     pf_status = (\<lambda>_. Inr (''Name: x'' @ [CHR 0x0A] @ ''PPid: 1'' @ [CHR 0x0A] @ ''Uid: 0''))\<rparr>"

theorem observation_complete_or_marked_witness:
  "\<exists>sn. suspicious_processes demo_lib demo_procfs = Inr sn \<and> length (sn_processes sn) \<le> 256"
proof -
  have e: "entry_pid \<lparr>de_name = ''7'', de_dir = True, de_cancelled = None\<rparr> = Some 7"
    "entry_pid \<lparr>de_name = ''self'', de_dir = True, de_cancelled = None\<rparr> = None" by code_simp+
  obtain sn where sn: "suspicious_processes demo_lib demo_procfs = Inr sn"
    by (cases "inspect_process demo_lib demo_procfs 7")
      (auto simp: suspicious_processes_def demo_procfs_def [THEN arg_cong [where f = pf_entries], simplified] e
        maxCandidates_def maxObservedProcesses_def)
  have "pf_entries demo_procfs = Inr [\<lparr>de_name = ''7'', de_dir = True, de_cancelled = None\<rparr>,
       \<lparr>de_name = ''self'', de_dir = True, de_cancelled = None\<rparr>]" by (simp add: demo_procfs_def)
  from observation_complete_or_marked [OF this sn] sn show ?thesis by auto
qed

end
