(* ===== verification/SshConfig.thy ===== *)
theory SshConfig
  imports GoStrings
begin

text \<open>
  The text of the SSH server configuration (\<open>internal/action/ssh_hardening.go\<close>): rewriting it
  so that password authentication is off, and reading the effective settings back.
\<close>

section \<open>Library functions\<close>

text \<open>\<open>strings.ReplaceAll(s, "\r\n", "\n")\<close>.\<close>

fun replace_crlf :: "string \<Rightarrow> string" where
  "replace_crlf (CHR 0x0D # CHR 0x0A # cs) = CHR 0x0A # replace_crlf cs"
| "replace_crlf (c # cs) = c # replace_crlf cs"
| "replace_crlf [] = []"

text \<open>\<open>strings.Join\<close>.\<close>

fun join_text :: "string \<Rightarrow> string list \<Rightarrow> string" where
  "join_text sep [] = []"
| "join_text sep [l] = l"
| "join_text sep (l # m # ls) = l @ sep @ join_text sep (m # ls)"

text \<open>
  \<open>strings.EqualFold\<close> against an ASCII text: letters match in either case, and the letters
  s and k also match the long s and the Kelvin sign.
\<close>

fun equal_fold :: "string \<Rightarrow> string \<Rightarrow> bool" where
  "equal_fold s [] = (s = [])"
| "equal_fold s (d # ds) =
     (case s of
        [] \<Rightarrow> False
      | c # cs \<Rightarrow>
         if ascii_lower c = ascii_lower d then equal_fold cs ds
         else if ascii_lower d = CHR ''s'' \<and> has_prefix s [CHR 0xC5, CHR 0xBF] then equal_fold (drop 2 s) ds
         else if ascii_lower d = CHR ''k'' \<and> has_prefix s [CHR 0xE2, CHR 0x84, CHR 0xAA] then equal_fold (drop 3 s) ds
         else False)"

section \<open>Rewriting\<close>

definition sshManagedMarker :: string where
  "sshManagedMarker = ''# WitShield: password authentication hardening''"

definition no_passwords :: string where
  "no_passwords = ''PasswordAuthentication no''"

definition is_marker :: "string \<Rightarrow> bool" where
  "is_marker l \<longleftrightarrow> trim_space l = sshManagedMarker"

definition is_directive :: "string \<Rightarrow> bool" where
  "is_directive l \<longleftrightarrow> (case go_fields (trim_space l) of [] \<Rightarrow> False
     | f # _ \<Rightarrow> \<not> has_prefix f ''#'' \<and> equal_fold f ''PasswordAuthentication'')"

text \<open>A directive that is not exactly the hardened one counts as a change.\<close>

definition directive_changed :: "string \<Rightarrow> bool" where
  "directive_changed l \<longleftrightarrow> (case go_fields (trim_space l) of
       [f, v] \<Rightarrow> \<not> equal_fold v ''no'' \<or> trim_space l \<noteq> no_passwords
     | _ \<Rightarrow> True)"

record harden_seen =
  hs_output :: "string list"
  hs_changed :: nat
  hs_marker :: bool
  hs_directive :: bool

text \<open>One line of the loop; the output is kept with its latest line first.\<close>

definition harden_line :: "string \<Rightarrow> harden_seen \<Rightarrow> harden_seen" where
  "harden_line l s =
     (if is_marker l then s\<lparr>hs_marker := True\<rparr>
      else if is_directive l
      then s\<lparr>hs_directive := True, hs_changed := hs_changed s + (if directive_changed l then 1 else 0)\<rparr>
      else s\<lparr>hs_output := l # hs_output s\<rparr>)"

definition has_crlf :: "string \<Rightarrow> bool" where
  "has_crlf s = contains s [CHR 0x0D, CHR 0x0A]"

definition harden_ssh_config :: "bytes \<Rightarrow> bytes \<times> nat" where
  "harden_ssh_config content =
     (let newline = (if has_crlf content then [CHR 0x0D, CHR 0x0A] else [CHR 0x0A]);
          s = fold harden_line (split_on (CHR 0x0A) (replace_crlf content))
                \<lparr>hs_output = [], hs_changed = 0, hs_marker = False, hs_directive = False\<rparr>
      in (join_text newline ([sshManagedMarker, no_passwords] @ rev (hs_output s)),
          hs_changed s + (if hs_marker s then 0 else 1) + (if hs_directive s then 0 else 1)))"

text \<open>The first line that sets the key decides.\<close>

fun setting_is_no :: "string \<Rightarrow> string list \<Rightarrow> bool" where
  "setting_is_no key [] = False"
| "setting_is_no key (l # ls) =
     (case go_fields l of
        [k, v] \<Rightarrow> if equal_fold k key then equal_fold v ''no'' else setting_is_no key ls
      | _ \<Rightarrow> setting_is_no key ls)"

definition effective_setting_is_no :: "string \<Rightarrow> string \<Rightarrow> bool" where
  "effective_setting_is_no out key = setting_is_no key (split_on (CHR 0x0A) out)"

section \<open>Hardening is a fixed point\<close>

definition kept_line :: "string \<Rightarrow> bool" where
  "kept_line l \<longleftrightarrow> \<not> is_marker l \<and> \<not> is_directive l"

lemma harden_fold_output:
  "rev (hs_output (fold harden_line ls s)) = rev (hs_output s) @ filter kept_line ls"
  by (induction ls arbitrary: s) (auto simp: harden_line_def kept_line_def)

text \<open>The lines of a configuration, as the loop sees them.\<close>

definition config_lines :: "bytes \<Rightarrow> string list" where
  "config_lines content = split_on (CHR 0x0A) (replace_crlf content)"

lemma harden_text:
  "fst (harden_ssh_config content) =
     join_text (if has_crlf content then [CHR 0x0D, CHR 0x0A] else [CHR 0x0A])
       (sshManagedMarker # no_passwords # filter kept_line (config_lines content))"
  by (simp add: harden_ssh_config_def Let_def harden_fold_output config_lines_def)

lemma replace_crlf_plain: "CHR 0x0D \<notin> set s \<Longrightarrow> replace_crlf s = s"
  by (induction s rule: replace_crlf.induct) auto

lemma replace_crlf_no_crlf: "\<not> has_crlf s \<Longrightarrow> replace_crlf s = s"
  by (induction s rule: replace_crlf.induct) (auto simp: has_crlf_def)

lemma replace_crlf_step: "d \<noteq> CHR 0x0A \<Longrightarrow> replace_crlf (c # d # cs) = c # replace_crlf (d # cs)"
  by (cases "c # d # cs" rule: replace_crlf.cases) auto

lemma replace_crlf_line:
  assumes "CHR 0x0A \<notin> set l"
  shows "replace_crlf (l @ CHR 0x0D # CHR 0x0A # s) = l @ CHR 0x0A # replace_crlf s"
  using assms
proof (induction l)
  case (Cons c l)
  then show ?case by (cases l) (auto simp: replace_crlf_step)
qed simp

lemma contains_iff: "contains s t \<longleftrightarrow> (\<exists>a b. s = a @ t @ b)"
proof (induction s)
  case Nil
  then show ?case by auto
next
  case (Cons c cs)
  have "(\<exists>a b. c # cs = a @ t @ b) \<longleftrightarrow> (\<exists>b. c # cs = t @ b) \<or> (\<exists>a b. cs = a @ t @ b)"
    by (metis append_Cons append_Nil neq_Nil_conv list.inject)
  with Cons show ?case by (simp add: has_prefix_iff)
qed

lemma has_crlf_Cons:
  "has_crlf (c # s) \<longleftrightarrow> (c = CHR 0x0D \<and> s \<noteq> [] \<and> hd s = CHR 0x0A) \<or> has_crlf s"
  by (cases s) (auto simp: has_crlf_def)

lemma has_crlf_Nil [simp]: "\<not> has_crlf []"
  by (simp add: has_crlf_def)

lemma has_crlf_line:
  "CHR 0x0A \<notin> set l \<Longrightarrow> has_crlf (l @ CHR 0x0A # s) \<longleftrightarrow> (l \<noteq> [] \<and> last l = CHR 0x0D) \<or> has_crlf s"
proof (induction l)
  case (Cons c l)
  then show ?case by (cases l) (auto simp: has_crlf_Cons)
qed (simp add: has_crlf_Cons)

lemma no_newline_no_crlf: "CHR 0x0A \<notin> set l \<Longrightarrow> \<not> has_crlf l"
proof (induction l)
  case (Cons c l)
  then show ?case by (cases l) (auto simp: has_crlf_Cons)
qed simp

text \<open>Lines that survive joining with a line feed: no line feed inside, and no return before one.\<close>

definition plain_lines :: "string list \<Rightarrow> bool" where
  "plain_lines ls \<longleftrightarrow> (\<forall>l \<in> set ls. CHR 0x0A \<notin> set l)"

definition no_return_end :: "string list \<Rightarrow> bool" where
  "no_return_end ls \<longleftrightarrow> (\<forall>l \<in> set (butlast ls). l \<noteq> [] \<longrightarrow> last l \<noteq> CHR 0x0D)"

lemma split_on_plain: "plain_lines (split_on (CHR 0x0A) s)"
proof (induction s)
  case (Cons c s)
  then show ?case by (auto simp: plain_lines_def split: list.splits)
qed (simp add: plain_lines_def)

lemma split_join: "plain_lines ls \<Longrightarrow> ls \<noteq> [] \<Longrightarrow> split_on (CHR 0x0A) (join_text [CHR 0x0A] ls) = ls"
  by (induction "[CHR 0x0A]" ls rule: join_text.induct) (auto simp: plain_lines_def split_on_none split_on_append)

lemma crlf_join: "plain_lines ls \<Longrightarrow> has_crlf (join_text [CHR 0x0A] ls) \<longleftrightarrow> \<not> no_return_end ls"
proof (induction "[CHR 0x0A]" ls rule: join_text.induct)
  case (2 l)
  then show ?case by (simp add: plain_lines_def no_return_end_def no_newline_no_crlf)
next
  case (3 l m ls)
  then show ?case by (auto simp: plain_lines_def no_return_end_def has_crlf_line)
qed (simp add: no_return_end_def)

lemma join_split: "join_text [CHR 0x0A] (split_on (CHR 0x0A) s) = s"
proof (induction s)
  case (Cons c s)
  show ?case
  proof (cases "c = CHR 0x0A")
    case True
    have "split_on (CHR 0x0A) s \<noteq> []" by simp
    then obtain l ls where "split_on (CHR 0x0A) s = l # ls" by (cases "split_on (CHR 0x0A) s") auto
    with Cons True show ?thesis by simp
  next
    case False
    obtain l ls where "split_on (CHR 0x0A) s = l # ls"
      using split_on_nonempty [of "CHR 0x0A" s] by (cases "split_on (CHR 0x0A) s") auto
    with Cons False show ?thesis by (cases ls) auto
  qed
qed simp

lemma replace_join:
  "plain_lines ls \<Longrightarrow> replace_crlf (join_text [CHR 0x0D, CHR 0x0A] ls) = join_text [CHR 0x0A] ls"
proof (induction "[CHR 0x0A]" ls rule: join_text.induct)
  case (2 l)
  then show ?case by (simp add: plain_lines_def replace_crlf_no_crlf no_newline_no_crlf)
next
  case (3 l m ls)
  then show ?case by (simp add: plain_lines_def replace_crlf_line)
qed simp

lemma crlf_join_crlf: "has_crlf (join_text [CHR 0x0D, CHR 0x0A] (a # b # ls))"
  unfolding has_crlf_def contains_iff by (intro exI [of _ a] exI [of _ "join_text [CHR 0x0D, CHR 0x0A] (b # ls)"]) simp

lemma marker_plain: "CHR 0x0A \<notin> set sshManagedMarker" "CHR 0x0A \<notin> set no_passwords"
  "last sshManagedMarker \<noteq> CHR 0x0D" "last no_passwords \<noteq> CHR 0x0D"
  by (simp_all add: sshManagedMarker_def no_passwords_def)

lemma prefix_not_kept: "\<not> kept_line sshManagedMarker" "\<not> kept_line no_passwords"
  unfolding kept_line_def by code_simp+

lemma butlast_filter_subset: "set (butlast (filter p xs)) \<subseteq> set (butlast xs)"
proof (induction xs)
  case (Cons x xs)
  then show ?case by (cases "filter p xs"; cases xs) (auto split: if_splits)
qed simp

lemma hardened_lines:
  "config_lines (fst (harden_ssh_config c)) = sshManagedMarker # no_passwords # filter kept_line (config_lines c)"
  and hardened_crlf: "has_crlf (fst (harden_ssh_config c)) = has_crlf c"
proof -
  let ?ls = "sshManagedMarker # no_passwords # filter kept_line (config_lines c)"
  have pl: "plain_lines ?ls"
    using split_on_plain [of "replace_crlf c"] marker_plain by (auto simp: plain_lines_def config_lines_def)
  have "config_lines (fst (harden_ssh_config c)) = ?ls \<and> has_crlf (fst (harden_ssh_config c)) = has_crlf c"
  proof (cases "has_crlf c")
    case True
    then have t: "fst (harden_ssh_config c) = join_text [CHR 0x0D, CHR 0x0A] ?ls" by (simp add: harden_text)
    show ?thesis unfolding t using True pl crlf_join_crlf by (simp add: config_lines_def replace_join split_join del: join_text.simps)
  next
    case False
    then have t: "fst (harden_ssh_config c) = join_text [CHR 0x0A] ?ls" by (simp add: harden_text)
    have l: "config_lines c = split_on (CHR 0x0A) c" using False by (simp add: config_lines_def replace_crlf_no_crlf)
    have "no_return_end (config_lines c)"
      using False crlf_join [OF split_on_plain [of c]] by (simp add: l join_split)
    then have "no_return_end ?ls"
      using butlast_filter_subset [of kept_line "config_lines c"] marker_plain
      by (auto simp: no_return_end_def)
    then have n: "\<not> has_crlf (join_text [CHR 0x0A] ?ls)" using crlf_join [OF pl] by simp
    then have "config_lines (join_text [CHR 0x0A] ?ls) = ?ls"
      using pl by (simp add: config_lines_def replace_crlf_no_crlf split_join del: join_text.simps)
    then show ?thesis unfolding t using n False by simp
  qed
  then show "config_lines (fst (harden_ssh_config c)) = ?ls" "has_crlf (fst (harden_ssh_config c)) = has_crlf c" by auto
qed

lemma harden_twice: "fst (harden_ssh_config (fst (harden_ssh_config c))) = fst (harden_ssh_config c)"
proof -
  have "filter kept_line (config_lines (fst (harden_ssh_config c))) = filter kept_line (config_lines c)"
    by (simp add: hardened_lines prefix_not_kept)
  then show ?thesis
    unfolding harden_text [of "fst (harden_ssh_config c)"] hardened_crlf by (simp only: harden_text [symmetric])
qed

text \<open>
  C23: Hardening puts the directive first and keeps everything else.  The hardened text starts
  with the marker and \<open>PasswordAuthentication no\<close>, before any other line and hence before
  any include; after them it has, in order, exactly the lines of the original that neither
  are the marker nor set password authentication; its line ends are those of the original;
  and hardening it again changes nothing.
\<close>

theorem hardening_exact:
  "config_lines (fst (harden_ssh_config c)) = sshManagedMarker # no_passwords # filter kept_line (config_lines c) \<and>
   has_crlf (fst (harden_ssh_config c)) = has_crlf c \<and>
   fst (harden_ssh_config (fst (harden_ssh_config c))) = fst (harden_ssh_config c)"
  using hardened_lines hardened_crlf harden_twice by blast

end
