(* ===== verification/FileInfo.thy ===== *)
theory FileInfo
  imports GoStrings "HOL-Library.Word"
begin

text \<open>
  Go's \<open>fs.FileMode\<close> and the part of \<open>os.FileInfo\<close> the playbooks read.
\<close>

unbundle bit_operations_syntax

type_synonym file_mode = "32 word"

definition mode_dir :: file_mode where "mode_dir = 0x80000000"
definition mode_symlink :: file_mode where "mode_symlink = 0x08000000"
definition mode_setuid :: file_mode where "mode_setuid = 0x00800000"
definition mode_setgid :: file_mode where "mode_setgid = 0x00400000"
definition mode_sticky :: file_mode where "mode_sticky = 0x00100000"

text \<open>\<open>fs.ModeType\<close>: directory, symbolic link, named pipe, socket, device, character device, irregular.\<close>

definition mode_type :: file_mode where "mode_type = 0x8F280000"

definition perm_bits :: file_mode where "perm_bits = 0x1FF"

definition mode_perm :: "file_mode \<Rightarrow> file_mode" where
  "mode_perm m = m AND perm_bits"

definition is_regular :: "file_mode \<Rightarrow> bool" where
  "is_regular m \<longleftrightarrow> m AND mode_type = 0"

definition is_dir :: "file_mode \<Rightarrow> bool" where
  "is_dir m \<longleftrightarrow> m AND mode_dir \<noteq> 0"

definition is_symlink :: "file_mode \<Rightarrow> bool" where
  "is_symlink m \<longleftrightarrow> m AND mode_symlink \<noteq> 0"

definition has_special_mode_bits :: "file_mode \<Rightarrow> bool" where
  "has_special_mode_bits m \<longleftrightarrow> m AND (mode_setuid OR mode_setgid OR mode_sticky) \<noteq> 0"

definition only_perm :: "file_mode \<Rightarrow> bool" where
  "only_perm m \<longleftrightarrow> m AND NOT perm_bits = 0"

lemma only_perm_iff: "only_perm m \<longleftrightarrow> mode_perm m = m"
proof
  assume "only_perm m"
  then have "m AND NOT perm_bits = 0" by (simp add: only_perm_def)
  moreover have "m = (m AND perm_bits) OR (m AND NOT perm_bits)"
    by (metis bit.conj_cancel_right bit.conj_disj_distrib bit.conj_one_right bit.disj_cancel_right)
  ultimately show "mode_perm m = m" by (simp add: mode_perm_def)
next
  assume "mode_perm m = m"
  then have "m AND NOT perm_bits = (m AND perm_bits) AND NOT perm_bits" by (simp add: mode_perm_def)
  then show "only_perm m" by (simp add: only_perm_def and.assoc)
qed

lemma only_perm_mode_perm [simp]: "only_perm (mode_perm m)"
  by (simp add: only_perm_iff mode_perm_def and.assoc)

lemma only_perm_plain:
  assumes "only_perm m"
  shows "is_regular m" and "\<not> is_dir m" and "\<not> has_special_mode_bits m" and "\<not> is_symlink m"
proof -
  have z: "m AND k = 0" if "perm_bits AND k = 0" for k
  proof -
    have "m AND k = (m AND perm_bits) AND k" using assms by (simp add: only_perm_iff mode_perm_def)
    also have "\<dots> = m AND (perm_bits AND k)" by (simp add: and.assoc)
    finally show ?thesis using that by simp
  qed
  show "is_regular m" unfolding is_regular_def by (rule z) (simp add: perm_bits_def mode_type_def)
  show "\<not> is_dir m" unfolding is_dir_def by (simp add: z perm_bits_def mode_dir_def)
  show "\<not> is_symlink m" unfolding is_symlink_def by (simp add: z perm_bits_def mode_symlink_def)
  show "\<not> has_special_mode_bits m" unfolding has_special_mode_bits_def
    by (simp add: z perm_bits_def mode_setuid_def mode_setgid_def mode_sticky_def)
qed

lemma mode_perm_idem [simp]: "mode_perm (mode_perm m) = mode_perm m"
  by (simp add: mode_perm_def and.assoc)

text \<open>\<open>%04o\<close> of permission bits.\<close>

definition octal4 :: "file_mode \<Rightarrow> string" where
  "octal4 m = (let n = unat (mode_perm m) in
     map (\<lambda>d. char_of (48 + d :: nat)) [0, n div 64 mod 8, n div 8 mod 8, n mod 8])"

record file_info =
  fi_mode :: file_mode
  fi_size :: int
  fi_uid :: int
  fi_gid :: int
  fi_dev :: "64 word"
  fi_ino :: "64 word"

end
