(* ===== verification/SshHardening.thy ===== *)
theory SshHardening
  imports SshConfig FileInfo Runner ReceiptCache "HOL-Library.AList"
begin

text \<open>
  The SSH password hardening playbook (\<open>internal/action/ssh_hardening.go\<close>): the rewritten
  configuration is in force for a bounded time unless it is confirmed; a journal on disk and
  a timer restore the snapshot.
\<close>

section \<open>Data\<close>

record ssh_config =
  sc_sshd :: string
  sc_systemctl :: string
  sc_path :: string
  sc_service :: string
  sc_journal_dir :: string
  sc_default_delay :: duration
  sc_min_delay :: duration
  sc_max_delay :: duration

record file_snapshot =
  fsn_content :: bytes
  fsn_mode :: file_mode
  fsn_uid :: int
  fsn_gid :: int

record ssh_state =
  ssh_action :: string
  ssh_snapshot :: file_snapshot
  ssh_applied :: string
  ssh_changed :: bool
  ssh_confirm :: "instant option"

record ssh_journal =
  sj_action :: string
  sj_params_digest :: string
  sj_state :: bytes
  sj_state_digest :: string
  sj_confirm :: "instant option"

text \<open>
  The runner, the clock, the decoders and the coder of states.  \<open>sv_disk\<close> is what the next
  access to a file meets, on a host state.
\<close>

record 'h ssh_env =
  sv_lib :: lib
  sv_params :: "bytes \<Rightarrow> int \<times> string option"
  sv_enc :: "ssh_state \<Rightarrow> string + bytes"
  sv_dec :: "bytes \<Rightarrow> string + ssh_state"
  sv_run :: "'h runner"
  sv_now :: "'h \<Rightarrow> instant"
  sv_disk :: "'h \<Rightarrow> io_fault \<times> 'h"

text \<open>
  The system: the configuration file with its mode and owner, \<open>None\<close> where there is none; the
  journal files by action, \<open>None\<close> where one is not owner-only, regular and decodable; the timers.
\<close>

record 'h ssh_sys =
  sx_host :: 'h
  sx_file :: "file_snapshot option"
  sx_journals :: "(string \<times> ssh_journal option) list"
  sx_timers :: "string \<rightharpoonup> instant"

datatype ssh_error = Conflict | SshError string

fun ssh_error_text :: "ssh_error \<Rightarrow> string" where
  "ssh_error_text Conflict = ''SSH configuration changed after apply; refusing to overwrite the newer configuration''"
| "ssh_error_text (SshError e) = e"

abbreviation (input) maxSSHConfigBytes :: nat where "maxSSHConfigBytes \<equiv> 262144"

definition both_errors :: "string \<Rightarrow> string \<Rightarrow> string" where
  "both_errors a b = a @ [CHR 0x0A] @ b"

section \<open>Set-up and validation\<close>

definition unit_char :: "char \<Rightarrow> bool" where
  "unit_char c \<longleftrightarrow> is_alnum c \<or> c \<in> {CHR ''_'', CHR ''.'', CHR ''@'', CHR ''-''}"

definition systemd_unit_ok :: "string \<Rightarrow> bool" where
  "systemd_unit_ok = class_pattern is_alnum unit_char 127"

definition or_default :: "duration \<Rightarrow> duration \<Rightarrow> duration" where
  "or_default d v = (if v \<le> 0 then d else v)"

definition new_ssh_config :: "bool \<Rightarrow> ssh_config \<Rightarrow> string + ssh_config" where
  "new_ssh_config has_runner c =
     (if \<not> has_runner \<or> \<not> is_abs (sc_sshd c) \<or> \<not> is_abs (sc_systemctl c) \<or> \<not> is_abs (sc_path c) \<or>
         \<not> is_abs (sc_journal_dir c) \<or> \<not> systemd_unit_ok (sc_service c)
      then Inl ''SSH hardening requires a runner, absolute paths, a service name, and a journal directory''
      else let c' = c\<lparr>sc_default_delay := or_default (2 * minute) (sc_default_delay c),
                      sc_min_delay := or_default (30 * second) (sc_min_delay c),
                      sc_max_delay := or_default (10 * minute) (sc_max_delay c)\<rparr>
           in if sc_default_delay c' < sc_min_delay c' \<or> sc_default_delay c' > sc_max_delay c'
              then Inl ''default SSH rollback delay is outside configured bounds'' else Inr c')"

definition rollback_delay :: "ssh_config \<Rightarrow> int \<Rightarrow> string + duration" where
  "rollback_delay C n =
     (if n = 0 then Inr (sc_default_delay C)
      else let lo = (sc_min_delay C + second - 1) div second; hi = sc_max_delay C div second
           in if n < lo \<or> n > hi
              then Inl (''rollbackAfterSeconds must be between '' @ itoa lo @ '' and '' @ itoa hi) else Inr (n * second))"

definition ssh_validate :: "'h ssh_env \<Rightarrow> ssh_config \<Rightarrow> bytes \<Rightarrow> string option" where
  "ssh_validate E C raw =
     (case sv_params E raw of
        (_, Some e) \<Rightarrow> Some e
      | (n, None) \<Rightarrow> (case rollback_delay C n of Inl e \<Rightarrow> Some e | Inr _ \<Rightarrow> None))"

section \<open>The configuration file\<close>

definition content_hash :: "lib \<Rightarrow> bytes \<Rightarrow> string" where
  "content_hash L b = hex_encode (sha256 L b)"

definition snapshot_regular_file :: "'h ssh_env \<Rightarrow> ssh_config \<Rightarrow> 'h ssh_sys \<Rightarrow> (string + file_snapshot) \<times> 'h ssh_sys" where
  "snapshot_regular_file E C s =
     (case sx_file s of
        None \<Rightarrow> (Inl (''inspect '' @ sc_path C @ '': file does not exist''), s)
      | Some f \<Rightarrow>
         (if \<not> is_regular (fsn_mode f) \<or> is_symlink (fsn_mode f)
          then (Inl (sc_path C @ '' must be a regular non-symlink file''), s)
          else if has_special_mode_bits (fsn_mode f)
          then (Inl (sc_path C @ '' has setuid, setgid, or sticky bits and cannot be safely snapshotted''), s)
          else if length (fsn_content f) > maxSSHConfigBytes
          then (Inl (sc_path C @ '' exceeds the SSH configuration size limit''), s)
          else case sv_disk E (sx_host s) of
              (NoFault, h) \<Rightarrow> (Inr f, s\<lparr>sx_host := h\<rparr>)
            | (FaultBefore e, h) \<Rightarrow> (Inl (''read '' @ sc_path C @ '': '' @ e), s\<lparr>sx_host := h\<rparr>)
            | (FaultAfter e, h) \<Rightarrow> (Inl (''read '' @ sc_path C @ '': '' @ e), s\<lparr>sx_host := h\<rparr>)))"

text \<open>\<open>writeSnapshotFile\<close>: a new file with the mode and owner of the snapshot replaces the old one.\<close>

definition write_snapshot_file :: "'h ssh_env \<Rightarrow> bytes \<Rightarrow> file_snapshot \<Rightarrow> 'h ssh_sys \<Rightarrow> string option \<times> 'h ssh_sys" where
  "write_snapshot_file E content snap s =
     (let owned = (0 \<le> fsn_uid snap \<and> 0 \<le> fsn_gid snap);
          f = \<lparr>fsn_content = content, fsn_mode = mode_perm (fsn_mode snap),
               fsn_uid = (if owned then fsn_uid snap else 0), fsn_gid = (if owned then fsn_gid snap else 0)\<rparr>
      in case sv_disk E (sx_host s) of
          (NoFault, h) \<Rightarrow> (None, s\<lparr>sx_host := h, sx_file := Some f\<rparr>)
        | (FaultBefore e, h) \<Rightarrow> (Some e, s\<lparr>sx_host := h\<rparr>)
        | (FaultAfter e, h) \<Rightarrow> (Some e, s\<lparr>sx_host := h, sx_file := Some f\<rparr>))"

definition ssh_command :: "string \<Rightarrow> string list \<Rightarrow> duration \<Rightarrow> command" where
  "ssh_command path args t = \<lparr>cmd_path = path, cmd_args = args, cmd_stdin = [], cmd_timeout = t\<rparr>"

definition run_ssh :: "'h ssh_env \<Rightarrow> command \<Rightarrow> 'h ssh_sys \<Rightarrow> (command_result \<times> string option) \<times> 'h ssh_sys" where
  "run_ssh E cmd s = (let (r, h) = sv_run E cmd (sx_host s) in (r, s\<lparr>sx_host := h\<rparr>))"

definition test_config :: "'h ssh_env \<Rightarrow> ssh_config \<Rightarrow> string \<Rightarrow> 'h ssh_sys \<Rightarrow> string option \<times> 'h ssh_sys" where
  "test_config E C what s =
     (case run_ssh E (ssh_command (sc_sshd C) [''-t'', ''-f'', sc_path C] (30 * second)) s of
        ((_, None), s1) \<Rightarrow> (None, s1) | ((_, Some e), s1) \<Rightarrow> (Some (what @ e), s1))"

definition reload_ssh :: "'h ssh_env \<Rightarrow> ssh_config \<Rightarrow> 'h ssh_sys \<Rightarrow> string option \<times> 'h ssh_sys" where
  "reload_ssh E C s =
     (case run_ssh E (ssh_command (sc_systemctl C) [''reload'', sc_service C] (45 * second)) s of
        ((_, None), s1) \<Rightarrow> (None, s1) | ((_, Some e), s1) \<Rightarrow> (Some (''reload '' @ sc_service C @ '': '' @ e), s1))"

definition restore_snapshot :: "'h ssh_env \<Rightarrow> ssh_config \<Rightarrow> file_snapshot \<Rightarrow> 'h ssh_sys \<Rightarrow> string option \<times> 'h ssh_sys" where
  "restore_snapshot E C snap s =
     (case write_snapshot_file E (fsn_content snap) snap s of
        (Some e, s1) \<Rightarrow> (Some (''restore SSH snapshot: '' @ e), s1)
      | (None, s1) \<Rightarrow>
         (case test_config E C ''restored SSH snapshot failed validation: '' s1 of
            (Some e, s2) \<Rightarrow> (Some e, s2)
          | (None, s2) \<Rightarrow>
             (case reload_ssh E C s2 of
                (Some e, s3) \<Rightarrow> (Some (''restored SSH snapshot could not be reloaded: '' @ e), s3)
              | (None, s3) \<Rightarrow> (None, s3))))"

definition restore_if_applied :: "'h ssh_env \<Rightarrow> ssh_config \<Rightarrow> ssh_state \<Rightarrow> 'h ssh_sys \<Rightarrow> ssh_error option \<times> 'h ssh_sys" where
  "restore_if_applied E C st s =
     (case snapshot_regular_file E C s of
        (Inl e, s1) \<Rightarrow> (Some (SshError e), s1)
      | (Inr cur, s1) \<Rightarrow>
         (let h = content_hash (sv_lib E) (fsn_content cur); snap = ssh_snapshot st;
              same = (mode_perm (fsn_mode cur) = mode_perm (fsn_mode snap) \<and> fsn_uid cur = fsn_uid snap \<and> fsn_gid cur = fsn_gid snap)
          in if h = content_hash (sv_lib E) (fsn_content snap) \<and> same
             then (case test_config E C ''existing restored SSH snapshot failed validation: '' s1 of
                     (Some e, s2) \<Rightarrow> (Some (SshError e), s2)
                   | (None, s2) \<Rightarrow>
                      (case reload_ssh E C s2 of
                         (Some e, s3) \<Rightarrow> (Some (SshError (''existing restored SSH snapshot could not be reloaded: '' @ e)), s3)
                       | (None, s3) \<Rightarrow> (None, s3)))
             else if h \<noteq> ssh_applied st \<or> \<not> same then (Some Conflict, s1)
             else (case restore_snapshot E C snap s1 of (None, s2) \<Rightarrow> (None, s2) | (Some e, s2) \<Rightarrow> (Some (SshError e), s2))))"

section \<open>Journals and timers\<close>

definition valid_content_hash :: "string \<Rightarrow> bool" where
  "valid_content_hash v \<longleftrightarrow> length v = 64 \<and> list_all (\<lambda>c. is_digit c \<or> (97 \<le> (of_char c :: nat) \<and> (of_char c :: nat) \<le> 102)) v"

definition ssh_journal_ok :: "'h ssh_env \<Rightarrow> string \<Rightarrow> ssh_journal \<Rightarrow> string option" where
  "ssh_journal_ok E aid j =
     (if sj_action j \<noteq> aid \<or> sj_state_digest j \<noteq> digest_bytes (sv_lib E) (sj_state j) then Some ''invalid SSH journal''
      else case sv_dec E (sj_state j) of
          Inl _ \<Rightarrow> Some ''invalid SSH journal state''
        | Inr st \<Rightarrow>
           (if ssh_action st \<noteq> aid \<or> \<not> ssh_changed st \<or> ssh_confirm st = None \<or> ssh_confirm st \<noteq> sj_confirm j \<or>
               length (fsn_content (ssh_snapshot st)) > maxSSHConfigBytes \<or>
               \<not> is_regular (fsn_mode (ssh_snapshot st)) \<or> \<not> only_perm (fsn_mode (ssh_snapshot st)) \<or>
               fsn_uid (ssh_snapshot st) < 0 \<or> fsn_gid (ssh_snapshot st) < 0 \<or> \<not> valid_content_hash (ssh_applied st)
            then Some ''invalid SSH journal state'' else None))"

text \<open>\<open>Inl None\<close> is a file that does not exist.\<close>

definition read_ssh_journal :: "'h ssh_env \<Rightarrow> string \<Rightarrow> (string \<times> ssh_journal option) list \<Rightarrow> string option + ssh_journal" where
  "read_ssh_journal E aid js =
     (if \<not> action_id_ok aid then Inl (Some ''unsafe action ID'')
      else case map_of js aid of
          None \<Rightarrow> Inl None
        | Some None \<Rightarrow> Inl (Some ''invalid SSH journal'')
        | Some (Some j) \<Rightarrow> (case ssh_journal_ok E aid j of Some e \<Rightarrow> Inl (Some e) | None \<Rightarrow> Inr j))"

definition read_error_text :: "string option \<Rightarrow> string" where
  "read_error_text e = (case e of None \<Rightarrow> ''file does not exist'' | Some t \<Rightarrow> t)"

definition write_ssh_journal :: "'h ssh_env \<Rightarrow> ssh_journal \<Rightarrow> 'h ssh_sys \<Rightarrow> string option \<times> 'h ssh_sys" where
  "write_ssh_journal E j s =
     (if \<not> action_id_ok (sj_action j) then (Some ''unsafe action ID for SSH journal'', s)
      else let js = AList.update (sj_action j) (Some j) (sx_journals s)
           in case sv_disk E (sx_host s) of
               (NoFault, h) \<Rightarrow> (None, s\<lparr>sx_host := h, sx_journals := js\<rparr>)
             | (FaultBefore e, h) \<Rightarrow> (Some e, s\<lparr>sx_host := h\<rparr>)
             | (FaultAfter e, h) \<Rightarrow> (Some e, s\<lparr>sx_host := h, sx_journals := js\<rparr>))"

definition delete_ssh_journal :: "'h ssh_env \<Rightarrow> string \<Rightarrow> 'h ssh_sys \<Rightarrow> string option \<times> 'h ssh_sys" where
  "delete_ssh_journal E aid s =
     (if map_of (sx_journals s) aid = None then (None, s)
      else let js = AList.delete aid (sx_journals s)
           in case sv_disk E (sx_host s) of
               (NoFault, h) \<Rightarrow> (None, s\<lparr>sx_host := h, sx_journals := js\<rparr>)
             | (FaultBefore e, h) \<Rightarrow> (Some e, s\<lparr>sx_host := h\<rparr>)
             | (FaultAfter e, h) \<Rightarrow> (Some e, s\<lparr>sx_host := h, sx_journals := js\<rparr>))"

definition schedule_ssh :: "'h ssh_env \<Rightarrow> ssh_config \<Rightarrow> ssh_journal \<Rightarrow> 'h ssh_sys \<Rightarrow> 'h ssh_sys" where
  "schedule_ssh E C j s =
     (let now = sv_now E (sx_host s); d = (case sj_confirm j of None \<Rightarrow> 0 | Some t \<Rightarrow> t) - now;
          delay = (if d < 0 then 0 else if d > sc_max_delay C then sc_max_delay C else d)
      in s\<lparr>sx_timers := (sx_timers s)(sj_action j \<mapsto> now + delay)\<rparr>)"

definition cancel_ssh_timer :: "string \<Rightarrow> 'h ssh_sys \<Rightarrow> 'h ssh_sys" where
  "cancel_ssh_timer aid s = s\<lparr>sx_timers := (sx_timers s)(aid := None)\<rparr>"

text \<open>Any other journal file, readable or not, stands for a pending change.\<close>

definition other_pending :: "string \<Rightarrow> 'h ssh_sys \<Rightarrow> string option" where
  "other_pending aid s = map_option (\<lambda>(other, _). ''SSH hardening action '' @ quote other @ '' is still pending confirmation'')
     (find (\<lambda>(other, _). other \<noteq> aid) (sx_journals s))"

end
