(* ===== verification/SshPhases.thy ===== *)
theory SshPhases
  imports SshHardening
begin

text \<open>
  The phases of the SSH password hardening playbook, the expiry of its timers and the arming
  of its journals at start.
\<close>

section \<open>Before a change\<close>

definition ssh_precheck :: "'h ssh_env \<Rightarrow> ssh_config \<Rightarrow> 'h ssh_sys phase" where
  "ssh_precheck E C i s =
     (case snapshot_regular_file E C s of
        (Inl e, s1) \<Rightarrow> (Inl e, s1)
      | (Inr f, s1) \<Rightarrow>
         (case test_config E C ''existing SSH configuration does not pass sshd validation: '' s1 of
            (Some e, s2) \<Rightarrow> (Inl e, s2)
          | (None, s2) \<Rightarrow> (Inr \<lparr>res_summary = ''SSH configuration is a regular file and passes sshd validation'',
               res_details = [(''path'', DStr (sc_path C)), (''mode'', DStr (octal4 (fsn_mode f)))]\<rparr>, s2)))"

definition ssh_preview :: "'h ssh_env \<Rightarrow> ssh_config \<Rightarrow> 'h ssh_sys phase" where
  "ssh_preview E C i s =
     (case snapshot_regular_file E C s of
        (Inl e, s1) \<Rightarrow> (Inl e, s1)
      | (Inr f, s1) \<Rightarrow>
         (let (hardened, n) = harden_ssh_config (fsn_content f)
          in (Inr \<lparr>res_summary = ''set PasswordAuthentication no with validation, reload, and timed rollback'',
               res_details = [(''path'', DStr (sc_path C)), (''changedLines'', DInt (int n)),
                 (''beforeHash'', DStr (content_hash (sv_lib E) (fsn_content f))),
                 (''afterHash'', DStr (content_hash (sv_lib E) hardened))]\<rparr>, s1)))"

section \<open>Apply\<close>

text \<open>A repeated application of a change that is still pending.\<close>

definition apply_pending :: "'h ssh_env \<Rightarrow> ssh_config \<Rightarrow> invocation \<Rightarrow> ssh_journal \<Rightarrow> 'h ssh_sys \<Rightarrow>
    apply_result \<times> string option \<times> 'h ssh_sys" where
  "apply_pending E C i j s =
     (if sj_params_digest j \<noteq> digest_parameters (sv_lib E) (inv_params i)
      then (no_apply, Some ''action ID already has a different pending SSH change'', s)
      else case sv_dec E (sj_state j) of
          Inl _ \<Rightarrow> (no_apply, Some ''pending SSH journal is invalid'', s)
        | Inr pending \<Rightarrow>
           (if ssh_action pending \<noteq> inv_action_id i \<or> ssh_applied pending = []
            then (no_apply, Some ''pending SSH journal is invalid'', s)
            else case snapshot_regular_file E C s of
                (Inl _, s1) \<Rightarrow> (no_apply, Some ''pending SSH action no longer matches the active configuration'', s1)
              | (Inr cur, s1) \<Rightarrow>
                 (if content_hash (sv_lib E) (fsn_content cur) \<noteq> ssh_applied pending
                  then (no_apply, Some ''pending SSH action no longer matches the active configuration'', s1)
                  else if (case sj_confirm j of None \<Rightarrow> True | Some t \<Rightarrow> \<not> sv_now E (sx_host s1) < t)
                  then (no_apply, Some ''pending SSH action has reached its rollback deadline'', s1)
                  else (\<lparr>apr_result = \<lparr>res_summary = ''SSH hardening is already pending confirmation'', res_details = []\<rparr>,
                          apr_state = sj_state j, apr_confirm_by = sj_confirm j\<rparr>, None, s1))))"

text \<open>The closures \<open>recoverableFailure\<close> and \<open>knownRestoredFailure\<close>.\<close>

definition recoverable_failure :: "'h ssh_env \<Rightarrow> ssh_config \<Rightarrow> ssh_journal \<Rightarrow> string \<Rightarrow> 'h ssh_sys \<Rightarrow>
    apply_result \<times> string option \<times> 'h ssh_sys" where
  "recoverable_failure E C j e s =
     (no_apply\<lparr>apr_state := sj_state j, apr_confirm_by := sj_confirm j\<rparr>, Some e, schedule_ssh E C j s)"

definition known_restored_failure :: "'h ssh_env \<Rightarrow> ssh_config \<Rightarrow> ssh_journal \<Rightarrow> string \<Rightarrow> string \<Rightarrow> 'h ssh_sys \<Rightarrow>
    apply_result \<times> string option \<times> 'h ssh_sys" where
  "known_restored_failure E C j what e s =
     (case delete_ssh_journal E (sj_action j) s of
        (Some d, s1) \<Rightarrow> recoverable_failure E C j
           (what @ ''; the snapshot was restored but rollback journal cleanup failed: '' @ both_errors e d) s1
      | (None, s1) \<Rightarrow> (no_apply, Some (what @ '' and the snapshot was restored: '' @ e), s1))"

text \<open>The journal could not be written: nothing has been changed yet.\<close>

definition journal_write_failed :: "'h ssh_env \<Rightarrow> ssh_config \<Rightarrow> ssh_journal \<Rightarrow> string \<Rightarrow> 'h ssh_sys \<Rightarrow>
    apply_result \<times> string option \<times> 'h ssh_sys" where
  "journal_write_failed E C j e s =
     (let kept = no_apply\<lparr>apr_state := sj_state j, apr_confirm_by := sj_confirm j\<rparr>;
          unknown = (\<lambda>x. ''SSH rollback journal outcome is unknown: '' @ x)
      in case read_ssh_journal E (sj_action j) (sx_journals s) of
          Inr v \<Rightarrow>
            (if sj_state_digest v = sj_state_digest j \<and> sj_params_digest v = sj_params_digest j
             then (kept, Some (''persist SSH rollback journal crossed an uncertain durability boundary: '' @ e), schedule_ssh E C j s)
             else (kept, Some (unknown e), s))
        | Inl None \<Rightarrow> (no_apply, Some e, s)
        | Inl (Some r) \<Rightarrow> (kept, Some (unknown (both_errors e r)), s))"

text \<open>From the journal on: write, validate, reload, or restore.\<close>

definition apply_change :: "'h ssh_env \<Rightarrow> ssh_config \<Rightarrow> ssh_journal \<Rightarrow> file_snapshot \<Rightarrow> bytes \<Rightarrow> 'h ssh_sys \<Rightarrow>
    apply_result \<times> string option \<times> 'h ssh_sys" where
  "apply_change E C j snap hardened s =
     (case write_snapshot_file E hardened snap s of
        (Some e, s1) \<Rightarrow>
          (case write_snapshot_file E (fsn_content snap) snap s1 of
             (None, s2) \<Rightarrow> known_restored_failure E C j ''write hardened SSH configuration failed'' e s2
           | (Some r, s2) \<Rightarrow> recoverable_failure E C j
               (''write hardened SSH configuration failed and the snapshot could not be restored: '' @ both_errors e r) s2)
      | (None, s1) \<Rightarrow>
          (case test_config E C [] s1 of
             (Some e, s2) \<Rightarrow>
               (case write_snapshot_file E (fsn_content snap) snap s2 of
                  (None, s3) \<Rightarrow> known_restored_failure E C j ''hardened SSH configuration failed validation'' e s3
                | (Some r, s3) \<Rightarrow> recoverable_failure E C j
                    (''hardened SSH configuration failed validation and snapshot restoration failed: '' @ both_errors e r) s3)
           | (None, s2) \<Rightarrow>
               (case reload_ssh E C s2 of
                  (Some e, s3) \<Rightarrow>
                    (case restore_snapshot E C snap s3 of
                       (None, s4) \<Rightarrow> known_restored_failure E C j ''SSH reload failed'' e s4
                     | (Some r, s4) \<Rightarrow> recoverable_failure E C j
                         (''SSH reload failed and snapshot restoration also failed: '' @ both_errors e r) s4)
                | (None, s3) \<Rightarrow>
                    (\<lparr>apr_result = \<lparr>res_summary =
                         ''SSH password authentication disabled; confirmation is required before the rollback deadline'',
                         res_details = [(''path'', DStr (sc_path C))]\<rparr>,
                       apr_state = sj_state j, apr_confirm_by = sj_confirm j\<rparr>, None, schedule_ssh E C j s3))))"

definition ssh_journal_for :: "'h ssh_env \<Rightarrow> invocation \<Rightarrow> bytes \<Rightarrow> instant \<Rightarrow> ssh_journal" where
  "ssh_journal_for E i state confirm_by = \<lparr>sj_action = inv_action_id i,
     sj_params_digest = digest_parameters (sv_lib E) (inv_params i), sj_state = state,
     sj_state_digest = digest_bytes (sv_lib E) state, sj_confirm = Some confirm_by\<rparr>"

definition apply_new :: "'h ssh_env \<Rightarrow> ssh_config \<Rightarrow> invocation \<Rightarrow> duration \<Rightarrow> 'h ssh_sys \<Rightarrow>
    apply_result \<times> string option \<times> 'h ssh_sys" where
  "apply_new E C i delay s =
     (case snapshot_regular_file E C s of
        (Inl e, s1) \<Rightarrow> (no_apply, Some e, s1)
      | (Inr snap, s1) \<Rightarrow>
         (case test_config E C ''existing SSH configuration does not pass sshd validation: '' s1 of
            (Some e, s2) \<Rightarrow> (no_apply, Some e, s2)
          | (None, s2) \<Rightarrow>
             (let hardened = fst (harden_ssh_config (fsn_content snap));
                  changed = (hardened \<noteq> fsn_content snap);
                  st = \<lparr>ssh_action = inv_action_id i, ssh_snapshot = snap, ssh_applied = content_hash (sv_lib E) hardened,
                         ssh_changed = changed, ssh_confirm = None\<rparr>
              in if \<not> changed
                 then (\<lparr>apr_result = \<lparr>res_summary = ''SSH password authentication is already hardened'', res_details = []\<rparr>,
                         apr_state = (case sv_enc E st of Inl _ \<Rightarrow> [] | Inr b \<Rightarrow> b), apr_confirm_by = None\<rparr>, None, s2)
                 else let confirm_by = sv_now E (sx_host s2) + delay
                      in case sv_enc E (st\<lparr>ssh_confirm := Some confirm_by\<rparr>) of
                          Inl e \<Rightarrow> (no_apply, Some e, s2)
                        | Inr state \<Rightarrow>
                           (let j = ssh_journal_for E i state confirm_by
                            in case write_ssh_journal E j s2 of
                                (Some e, s3) \<Rightarrow> journal_write_failed E C j e s3
                              | (None, s3) \<Rightarrow> apply_change E C j snap hardened s3))))"

definition delay_of :: "'h ssh_env \<Rightarrow> ssh_config \<Rightarrow> bytes \<Rightarrow> duration" where
  "delay_of E C raw = (case rollback_delay C (fst (sv_params E raw)) of Inl _ \<Rightarrow> 0 | Inr d \<Rightarrow> d)"

definition ssh_apply :: "'h ssh_env \<Rightarrow> ssh_config \<Rightarrow> invocation \<Rightarrow> 'h ssh_sys \<Rightarrow>
    apply_result \<times> string option \<times> 'h ssh_sys" where
  "ssh_apply E C i s =
     (case read_ssh_journal E (inv_action_id i) (sx_journals s) of
        Inr j \<Rightarrow> apply_pending E C i j s
      | Inl (Some e) \<Rightarrow> (no_apply, Some (''inspect existing SSH rollback journal: '' @ e), s)
      | Inl None \<Rightarrow>
         (case other_pending (inv_action_id i) s of
            Some e \<Rightarrow> (no_apply, Some e, s)
          | None \<Rightarrow> apply_new E C i (delay_of E C (inv_params i)) s))"

section \<open>After a change\<close>

definition verify_state :: "'h ssh_env \<Rightarrow> ssh_config \<Rightarrow> ssh_state \<Rightarrow> 'h ssh_sys \<Rightarrow> (string + act_result) \<times> 'h ssh_sys" where
  "verify_state E C st s =
     (case snapshot_regular_file E C s of
        (Inl e, s1) \<Rightarrow> (Inl e, s1)
      | (Inr cur, s1) \<Rightarrow>
         (if content_hash (sv_lib E) (fsn_content cur) \<noteq> ssh_applied st
          then (Inl ''SSH configuration changed after apply'', s1)
          else case test_config E C ''sshd validation failed after apply: '' s1 of
              (Some e, s2) \<Rightarrow> (Inl e, s2)
            | (None, s2) \<Rightarrow>
               (case run_ssh E (ssh_command (sc_sshd C) [''-T'', ''-f'', sc_path C] (30 * second)) s2 of
                  ((_, Some e), s3) \<Rightarrow> (Inl (''could not inspect effective sshd configuration: '' @ e), s3)
                | ((out, None), s3) \<Rightarrow>
                   (if \<not> effective_setting_is_no (cr_stdout out) ''passwordauthentication''
                    then (Inl ''effective sshd configuration still allows password authentication'', s3)
                    else (Inr \<lparr>res_summary = ''sshd validates and reports passwordauthentication no'',
                            res_details = [(''confirmationPending'', DBool (ssh_changed st))]\<rparr>, s3)))))"

definition ssh_verify :: "'h ssh_env \<Rightarrow> ssh_config \<Rightarrow> 'h ssh_sys phase" where
  "ssh_verify E C i s =
     (case sv_dec E (inv_state i) of Inl _ \<Rightarrow> (Inl ''invalid SSH rollback state'', s) | Inr st \<Rightarrow> verify_state E C st s)"

definition ssh_note :: "string \<Rightarrow> act_result" where
  "ssh_note t = \<lparr>res_summary = t, res_details = []\<rparr>"

definition journal_is_for :: "'h ssh_env \<Rightarrow> invocation \<Rightarrow> ssh_journal \<Rightarrow> bool" where
  "journal_is_for E i j \<longleftrightarrow> sj_state_digest j = digest_bytes (sv_lib E) (inv_state i) \<and>
     sj_params_digest j = digest_parameters (sv_lib E) (inv_params i)"

definition ssh_rollback :: "'h ssh_env \<Rightarrow> ssh_config \<Rightarrow> 'h ssh_sys phase" where
  "ssh_rollback E C i s =
     (case sv_dec E (inv_state i) of
        Inl _ \<Rightarrow> (Inl ''invalid SSH rollback state'', s)
      | Inr st \<Rightarrow>
         (if \<not> ssh_changed st then (Inr (ssh_note ''no SSH change required rollback''), s)
          else if \<not> action_id_ok (ssh_action st) then (Inl ''SSH rollback state has an invalid action ID'', s)
          else case read_ssh_journal E (ssh_action st) (sx_journals s) of
              Inl e \<Rightarrow> (Inl (''authoritative SSH rollback journal is unavailable: '' @ read_error_text e), s)
            | Inr j \<Rightarrow>
               (if \<not> journal_is_for E i j then (Inl ''SSH rollback state does not match the protected journal'', s)
                else case sv_dec E (sj_state j) of
                    Inl _ \<Rightarrow> (Inl ''protected SSH rollback journal is invalid'', s)
                  | Inr auth \<Rightarrow>
                     (case restore_if_applied E C auth s of
                        (Some e, s1) \<Rightarrow> (Inl (ssh_error_text e), s1)
                      | (None, s1) \<Rightarrow>
                         (case delete_ssh_journal E (ssh_action st) (cancel_ssh_timer (ssh_action st) s1) of
                            (Some e, s2) \<Rightarrow> (Inl (''SSH was restored but rollback journal cleanup failed: '' @ e), s2)
                          | (None, s2) \<Rightarrow>
                             (Inr (ssh_note ''SSH configuration restored from the protected snapshot and reloaded''), s2))))))"

definition before_deadline :: "'h ssh_env \<Rightarrow> ssh_journal \<Rightarrow> 'h ssh_sys \<Rightarrow> bool" where
  "before_deadline E j s = (case sj_confirm j of None \<Rightarrow> False | Some t \<Rightarrow> sv_now E (sx_host s) < t)"

definition ssh_confirm_phase :: "'h ssh_env \<Rightarrow> ssh_config \<Rightarrow> 'h ssh_sys phase" where
  "ssh_confirm_phase E C i s =
     (case sv_dec E (inv_state i) of
        Inl _ \<Rightarrow> (Inl ''invalid SSH confirmation state'', s)
      | Inr st \<Rightarrow>
         (if \<not> ssh_changed st then (Inr (ssh_note ''SSH configuration was already hardened; no confirmation was needed''), s)
          else if \<not> action_id_ok (ssh_action st) then (Inl ''SSH confirmation state has an invalid action ID'', s)
          else case read_ssh_journal E (ssh_action st) (sx_journals s) of
              Inl _ \<Rightarrow> (Inl ''SSH confirmation window is not pending'', s)
            | Inr j \<Rightarrow>
               (if \<not> journal_is_for E i j then (Inl ''SSH confirmation state does not match the protected journal'', s)
                else if \<not> before_deadline E j s then (Inl ''SSH confirmation deadline has passed'', s)
                else case ssh_verify E C i s of
                    (Inl e, s1) \<Rightarrow> (Inl e, s1)
                  | (Inr _, s1) \<Rightarrow>
                     (if \<not> before_deadline E j s1 then (Inl ''SSH confirmation deadline passed during verification'', s1)
                      else case delete_ssh_journal E (ssh_action st) s1 of
                          (Some e, s2) \<Rightarrow> (Inl (''could not persist SSH confirmation: '' @ e), s2)
                        | (None, s2) \<Rightarrow> (Inr (ssh_note ''SSH hardening confirmed; timed rollback disarmed''),
                            cancel_ssh_timer (ssh_action st) s2)))))"

section \<open>Expiry and start\<close>

text \<open>A failure to restore is retried in a minute; a newer configuration is left alone, with the journal.\<close>

definition expire_ssh :: "'h ssh_env \<Rightarrow> ssh_config \<Rightarrow> string \<Rightarrow> 'h ssh_sys \<Rightarrow> 'h ssh_sys" where
  "expire_ssh E C aid s =
     (let retry = (\<lambda>s. s\<lparr>sx_timers := (sx_timers s)(aid \<mapsto> sv_now E (sx_host s) + minute)\<rparr>);
          settle = (\<lambda>s. cancel_ssh_timer aid (snd (delete_ssh_journal E aid s)))
      in case read_ssh_journal E aid (sx_journals s) of
          Inl None \<Rightarrow> cancel_ssh_timer aid s
        | Inl (Some e) \<Rightarrow> retry s
        | Inr j \<Rightarrow>
           (case sv_dec E (sj_state j) of
              Inl _ \<Rightarrow> settle s
            | Inr st \<Rightarrow>
               (case restore_if_applied E C st s of
                  (None, s1) \<Rightarrow> settle s1
                | (Some Conflict, s1) \<Rightarrow> cancel_ssh_timer aid s1
                | (Some (SshError e), s1) \<Rightarrow> retry s1)))"

fun resume_ssh :: "'h ssh_env \<Rightarrow> ssh_config \<Rightarrow> string list \<Rightarrow> 'h ssh_sys \<Rightarrow> string + 'h ssh_sys" where
  "resume_ssh E C [] s = Inr s"
| "resume_ssh E C (aid # aids) s =
     (case read_ssh_journal E aid (sx_journals s) of
        Inl e \<Rightarrow> Inl (''load SSH rollback journal '' @ quote (''ssh-'' @ aid @ ''.json'') @ '': '' @ read_error_text e)
      | Inr j \<Rightarrow> resume_ssh E C aids (schedule_ssh E C j s))"

definition start_ssh :: "'h ssh_env \<Rightarrow> ssh_config \<Rightarrow> 'h ssh_sys \<Rightarrow> string + 'h ssh_sys" where
  "start_ssh E C s = resume_ssh E C (map fst (sx_journals s)) (s\<lparr>sx_timers := Map.empty\<rparr>)"

definition ssh_playbook :: "'h ssh_env \<Rightarrow> ssh_config \<Rightarrow> 'h ssh_sys playbook" where
  "ssh_playbook E C = \<lparr>pb_type = TypeSSHPasswordHardening, pb_validate = (\<lambda>raw _. ssh_validate E C raw),
     pb_precheck = ssh_precheck E C, pb_preview = ssh_preview E C, pb_apply = ssh_apply E C,
     pb_verify = ssh_verify E C, pb_rollback = ssh_rollback E C, pb_confirm = Some (ssh_confirm_phase E C)\<rparr>"

end
