(* ===== verification/SshProps.thy ===== *)
theory SshProps
  imports SshPhases
begin

text \<open>
  What keeps an administrator from being locked out: a changed configuration always has its
  journal and timer, the timer restores it, a newer configuration is never overwritten, and
  only a verified confirmation before the deadline makes the change permanent.
\<close>

section \<open>What the host promises\<close>

definition ssh_coder_ok :: "'h ssh_env \<Rightarrow> bool" where
  "ssh_coder_ok E \<longleftrightarrow> (\<forall>st b. sv_enc E st = Inr b \<longrightarrow> sv_dec E b = Inr st)"

definition sha256_ok :: "lib \<Rightarrow> bool" where
  "sha256_ok L \<longleftrightarrow> (\<forall>b. length (sha256 L b) = 32)"

text \<open>A regular file without special bits, as the file system reports it.\<close>

definition plain_file :: "file_snapshot \<Rightarrow> bool" where
  "plain_file f \<longleftrightarrow> only_perm (fsn_mode f) \<and> 0 \<le> fsn_uid f \<and> 0 \<le> fsn_gid f"

lemma hex_digit_lower: "n < 16 \<Longrightarrow> is_digit (hex_digit n) \<or> (97 \<le> (of_char (hex_digit n) :: nat) \<and> (of_char (hex_digit n) :: nat) \<le> 102)"
  by (auto simp: hex_digit_def is_digit_def)

lemma hex_encode_lower:
  "list_all (\<lambda>c. is_digit c \<or> (97 \<le> (of_char c :: nat) \<and> (of_char c :: nat) \<le> 102)) (hex_encode bs)"
proof (induction bs)
  case (Cons b bs)
  have "(of_char b :: nat) < 256" by simp
  then have "(of_char b :: nat) div 16 < 16" "(of_char b :: nat) mod 16 < 16"
    by (simp_all add: less_mult_imp_div_less)
  then show ?case using Cons hex_digit_lower [of "of_char b div 16"] hex_digit_lower [of "of_char b mod 16"]
    by (simp add: hex_encode_def)
qed (simp add: hex_encode_def)

lemma hex_encode_length: "length (hex_encode bs) = 2 * length bs"
  by (induction bs) (simp_all add: hex_encode_def)

lemma content_hash_valid: "sha256_ok L \<Longrightarrow> valid_content_hash (content_hash L b)"
  by (simp add: valid_content_hash_def content_hash_def hex_encode_length hex_encode_lower sha256_ok_def)

section \<open>What single steps leave alone\<close>

definition quiet :: "'h ssh_sys \<Rightarrow> 'h ssh_sys \<Rightarrow> bool" where
  "quiet s s' \<longleftrightarrow> sx_file s' = sx_file s \<and> sx_journals s' = sx_journals s \<and> sx_timers s' = sx_timers s"

lemma run_ssh_frame: "run_ssh E cmd s = (r, s') \<Longrightarrow> quiet s s'"
  by (auto simp: run_ssh_def quiet_def split: prod.splits)

lemma test_config_frame: "test_config E C w s = (r, s') \<Longrightarrow> quiet s s'"
  by (auto simp: test_config_def dest!: run_ssh_frame split: prod.splits option.splits)

lemma reload_frame: "reload_ssh E C s = (r, s') \<Longrightarrow> quiet s s'"
  by (auto simp: reload_ssh_def dest!: run_ssh_frame split: prod.splits option.splits)

lemma snapshot_frame: "snapshot_regular_file E C s = (r, s') \<Longrightarrow> quiet s s'"
  by (auto simp: snapshot_regular_file_def quiet_def split: option.splits if_splits prod.splits io_fault.splits)

lemma snapshot_is_file:
  assumes "snapshot_regular_file E C s = (Inr f, s')"
  shows "sx_file s = Some f" and "is_regular (fsn_mode f)" and "length (fsn_content f) \<le> maxSSHConfigBytes"
  using assms by (auto simp: snapshot_regular_file_def split: option.splits if_splits prod.splits io_fault.splits)

lemma write_file_frame:
  assumes "write_snapshot_file E c f s = (r, s')"
  shows "sx_journals s' = sx_journals s \<and> sx_timers s' = sx_timers s"
  using assms by (auto simp: write_snapshot_file_def Let_def split: prod.splits io_fault.splits)

lemma write_file_ok:
  assumes "write_snapshot_file E (fsn_content f) f s = (None, s')" and "plain_file f"
  shows "sx_file s' = Some f"
  using assms
  by (auto simp: write_snapshot_file_def Let_def plain_file_def only_perm_iff split: prod.splits io_fault.splits)

lemma restore_snapshot_frame:
  assumes "restore_snapshot E C f s = (r, s')"
  shows "sx_journals s' = sx_journals s \<and> sx_timers s' = sx_timers s"
  using assms
  by (auto simp: restore_snapshot_def split: prod.splits option.splits
      dest!: write_file_frame test_config_frame reload_frame simp: quiet_def)

lemma restore_snapshot_ok:
  assumes "restore_snapshot E C f s = (None, s')" and "plain_file f"
  shows "sx_file s' = Some f"
  using assms
  by (auto simp: restore_snapshot_def split: prod.splits option.splits
      dest!: test_config_frame reload_frame write_file_ok simp: quiet_def)

lemma restore_if_applied_frame:
  assumes "restore_if_applied E C st s = (r, s')"
  shows "sx_journals s' = sx_journals s \<and> sx_timers s' = sx_timers s"
  using assms
  by (auto simp: restore_if_applied_def Let_def split: prod.splits option.splits sum.splits if_splits
      dest!: snapshot_frame restore_snapshot_frame test_config_frame reload_frame simp: quiet_def)

lemma delete_journal_frame:
  "delete_ssh_journal E aid s = (r, s') \<Longrightarrow> sx_file s' = sx_file s \<and> sx_timers s' = sx_timers s"
  by (auto simp: delete_ssh_journal_def Let_def split: if_splits prod.splits io_fault.splits)

lemma delete_journal_ok:
  "delete_ssh_journal E aid s = (None, s') \<Longrightarrow> map_of (sx_journals s') aid = None"
  by (auto simp: delete_ssh_journal_def Let_def AList.delete_conv' split: if_splits prod.splits io_fault.splits)

section \<open>A change is recoverable\<close>

text \<open>The journal of an action reads back, holds the snapshot, and its timer is armed in bounds.\<close>

definition recovery_armed :: "'h ssh_env \<Rightarrow> ssh_config \<Rightarrow> string \<Rightarrow> file_snapshot \<Rightarrow> 'h ssh_sys \<Rightarrow> bool" where
  "recovery_armed E C aid f s \<longleftrightarrow> (\<exists>j st t. read_ssh_journal E aid (sx_journals s) = Inr j \<and> sv_dec E (sj_state j) = Inr st \<and>
     ssh_snapshot st = f \<and> sx_timers s aid = Some t \<and> t \<le> sv_now E (sx_host s) + sc_max_delay C)"

lemma schedule_armed:
  assumes "0 \<le> sc_max_delay C"
  shows "\<exists>t. sx_timers (schedule_ssh E C j s) (sj_action j) = Some t \<and> t \<le> sv_now E (sx_host s) + sc_max_delay C"
  using assms by (simp add: schedule_ssh_def Let_def)

lemma schedule_frame: "sx_file (schedule_ssh E C j s) = sx_file s" "sx_journals (schedule_ssh E C j s) = sx_journals s"
  "sx_host (schedule_ssh E C j s) = sx_host s"
  by (simp_all add: schedule_ssh_def Let_def)

lemma recoverable_failure_armed:
  assumes "0 \<le> sc_max_delay C" and "read_ssh_journal E (sj_action j) (sx_journals s) = Inr j" and "sv_dec E (sj_state j) = Inr st"
  shows "recovery_armed E C (sj_action j) (ssh_snapshot st) (schedule_ssh E C j s)"
  using schedule_armed [OF assms(1), of E j s] assms(2,3) by (auto simp: recovery_armed_def schedule_frame)

text \<open>Deleting a journal after the file is restored: whatever it meets, the file is the original.\<close>

lemma known_restored_file:
  "known_restored_failure E C j w e s = (r, x, s') \<Longrightarrow> sx_file s' = sx_file s"
  by (auto simp: known_restored_failure_def recoverable_failure_def schedule_frame split: prod.splits option.splits
      dest!: delete_journal_frame)

lemma apply_change_cases:
  assumes "apply_change E C j f hardened s = (r, e, s')" and "plain_file f" and "sx_file s = Some f"
  shows "sx_file s' = Some f \<or> (\<exists>s0. s' = schedule_ssh E C j s0 \<and> sx_journals s0 = sx_journals s)"
proof -
  have known: "known_restored_failure E C j w x s0 = (r, e, s') \<Longrightarrow> sx_file s0 = Some f \<Longrightarrow> ?thesis" for w x s0
    using known_restored_file by metis
  have recover: "recoverable_failure E C j x s0 = (r, e, s') \<Longrightarrow> sx_journals s0 = sx_journals s \<Longrightarrow> ?thesis" for x s0
    by (auto simp: recoverable_failure_def)
  obtain w s1 where w: "write_snapshot_file E hardened f s = (w, s1)" by force
  note j1 = write_file_frame [OF w]
  have restored: "?thesis"
    if "case write_snapshot_file E (fsn_content f) f u of
         (None, s3) \<Rightarrow> known_restored_failure E C j a b s3 = (r, e, s')
       | (Some q, s3) \<Rightarrow> recoverable_failure E C j (c q) s3 = (r, e, s')"
      and "sx_journals u = sx_journals s" for a b c u
    using that known recover assms(2) write_file_frame write_file_ok by (fastforce split: prod.splits option.splits)
  show ?thesis
  proof (cases w)
    case (Some we)
    then show ?thesis using assms(1) w restored [where u = s1] j1 unfolding apply_change_def
      by (auto split: prod.splits option.splits)
  next
    case None
    obtain t s2 where t: "test_config E C [] s1 = (t, s2)" by force
    note j2 = test_config_frame [OF t, unfolded quiet_def]
    show ?thesis
    proof (cases t)
      case (Some te)
      then show ?thesis using assms(1) w None t restored [where u = s2] j1 j2 unfolding apply_change_def
        by (auto split: prod.splits option.splits)
    next
      case t0: None
      obtain l s3 where l: "reload_ssh E C s2 = (l, s3)" by force
      note j3 = reload_frame [OF l, unfolded quiet_def]
      obtain q s4 where q: "restore_snapshot E C f s3 = (q, s4)" by force
      note j4 = restore_snapshot_frame [OF q]
      have ok: "q = None \<Longrightarrow> sx_file s4 = Some f" using restore_snapshot_ok q assms(2) by blast
      show ?thesis
        using assms(1) known [of _ _ s4] recover [of _ s4] j1 j2 j3 j4 ok
        by (auto simp: apply_change_def w None t t0 l q split: option.splits)
    qed
  qed
qed

lemma apply_pending_file: "apply_pending E C i j s = (r, e, s') \<Longrightarrow> sx_file s' = sx_file s"
  by (auto simp: apply_pending_def quiet_def split: if_splits sum.splits prod.splits dest!: snapshot_frame)

lemma journal_write_failed_file: "journal_write_failed E C j x s = (r, e, s') \<Longrightarrow> sx_file s' = sx_file s"
  by (auto simp: journal_write_failed_def Let_def schedule_frame split: sum.splits option.splits if_splits)

lemma write_journal_file: "write_ssh_journal E j s = (r, s') \<Longrightarrow> sx_file s' = sx_file s"
  by (auto simp: write_ssh_journal_def Let_def split: if_splits prod.splits io_fault.splits)

lemma write_journal_ok:
  assumes "write_ssh_journal E j s = (None, s')" and "ssh_journal_ok E (sj_action j) j = None"
  shows "read_ssh_journal E (sj_action j) (sx_journals s') = Inr j"
  using assms
  by (auto simp: write_ssh_journal_def read_ssh_journal_def Let_def AList.update_conv' split: if_splits prod.splits io_fault.splits)

lemma new_journal_ok:
  assumes "ssh_coder_ok E" and "sha256_ok (sv_lib E)" and "plain_file f" and "length (fsn_content f) \<le> maxSSHConfigBytes"
    and "st = \<lparr>ssh_action = inv_action_id i, ssh_snapshot = f, ssh_applied = content_hash (sv_lib E) b,
          ssh_changed = True, ssh_confirm = Some t\<rparr>" and "sv_enc E st = Inr state"
  shows "ssh_journal_ok E (inv_action_id i) (ssh_journal_for E i state t) = None"
proof -
  have "sv_dec E state = Inr st" using assms(1,6) by (simp add: ssh_coder_ok_def)
  moreover have "is_regular (fsn_mode f)" using assms(3) only_perm_plain by (simp add: plain_file_def)
  ultimately show ?thesis using assms(2-4) content_hash_valid
    by (auto simp: ssh_journal_ok_def ssh_journal_for_def assms(5) plain_file_def)
qed

lemma apply_new_recoverable:
  assumes ap: "apply_new E C i delay s = (r, e, s')" and fl: "sx_file s = Some f" "plain_file f"
    and E: "ssh_coder_ok E" "sha256_ok (sv_lib E)" "0 \<le> sc_max_delay C"
  shows "sx_file s' = Some f \<or> recovery_armed E C (inv_action_id i) f s'"
proof -
  obtain q s1 where q: "snapshot_regular_file E C s = (q, s1)" by force
  note f1 = snapshot_frame [OF q, unfolded quiet_def]
  show ?thesis
  proof (cases q)
    case (Inl m)
    then show ?thesis using ap q f1 fl by (simp add: apply_new_def)
  next
    case (Inr g)
    note snap = snapshot_is_file [OF q [unfolded Inr]]
    then have g: "g = f" using fl by simp
    obtain t s2 where t: "test_config E C ''existing SSH configuration does not pass sshd validation: '' s1 = (t, s2)" by force
    note f2 = test_config_frame [OF t, unfolded quiet_def]
    define hardened where "hardened = fst (harden_ssh_config (fsn_content f))"
    define st where "st = \<lparr>ssh_action = inv_action_id i, ssh_snapshot = f, ssh_applied = content_hash (sv_lib E) hardened,
          ssh_changed = True, ssh_confirm = Some (sv_now E (sx_host s2) + delay)\<rparr>"
    show ?thesis
    proof (cases "t \<noteq> None \<or> hardened = fsn_content f \<or> (\<exists>m. sv_enc E st = Inl m)")
      case True
      then have "sx_file s' = sx_file s2"
        using ap by (auto simp: apply_new_def q Inr g t hardened_def [symmetric] st_def Let_def split: option.splits if_splits)
      then show ?thesis using f1 f2 fl by simp
    next
      case False
      then obtain state where state: "sv_enc E st = Inr state" by (cases "sv_enc E st") auto
      define j where "j = ssh_journal_for E i state (sv_now E (sx_host s2) + delay)"
      obtain w s3 where w: "write_ssh_journal E j s2 = (w, s3)" by force
      have f3: "sx_file s3 = Some f" using write_journal_file [OF w] f1 f2 fl by simp
      show ?thesis
      proof (cases w)
        case (Some m)
        have "journal_write_failed E C j m s3 = (r, e, s')"
          using ap False state w Some
          by (simp add: apply_new_def q Inr g t hardened_def [symmetric] st_def j_def)
        then show ?thesis using journal_write_failed_file f3 by metis
      next
        case None
        have ac: "apply_change E C j f hardened s3 = (r, e, s')"
          using ap False state w None
          by (simp add: apply_new_def q Inr g t hardened_def [symmetric] st_def j_def)
        have act: "sj_action j = inv_action_id i" by (simp add: j_def ssh_journal_for_def)
        have "ssh_journal_ok E (sj_action j) j = None"
          unfolding act unfolding j_def by (rule new_journal_ok [OF E(1,2) fl(2) _ st_def state]) (use snap g in simp)
        then have rd: "read_ssh_journal E (sj_action j) (sx_journals s3) = Inr j"
          using write_journal_ok w None by blast
        have de: "sv_dec E (sj_state j) = Inr st" using E(1) state by (simp add: ssh_coder_ok_def j_def ssh_journal_for_def)
        from apply_change_cases [OF ac fl(2) f3] show ?thesis
        proof
          assume "\<exists>s0. s' = schedule_ssh E C j s0 \<and> sx_journals s0 = sx_journals s3"
          then obtain s0 where "s' = schedule_ssh E C j s0" "sx_journals s0 = sx_journals s3" by blast
          then show ?thesis using recoverable_failure_armed [OF E(3) _ de, of s0] rd by (simp add: act st_def)
        qed simp
      qed
    qed
  qed
qed

text \<open>
  C20: No change without a way back.  Whatever the disk, the validator and the service manager
  do, when an application returns with the configuration file other than it was, the journal
  of the action reads back from disk with a snapshot of exactly the original file, and a
  timer within the configured delay is armed.
\<close>

theorem ssh_change_recoverable:
  assumes "ssh_apply E C i s = (r, e, s')" and "sx_file s = Some f" and "plain_file f"
    and "ssh_coder_ok E" and "sha256_ok (sv_lib E)" and "0 \<le> sc_max_delay C"
  shows "sx_file s' \<noteq> Some f \<longrightarrow>
    (\<exists>j st t. read_ssh_journal E (inv_action_id i) (sx_journals s') = Inr j \<and> sv_dec E (sj_state j) = Inr st \<and>
       ssh_snapshot st = f \<and> sx_timers s' (inv_action_id i) = Some t \<and> t \<le> sv_now E (sx_host s') + sc_max_delay C)"
proof -
  have "sx_file s' = Some f \<or> recovery_armed E C (inv_action_id i) f s'"
    using assms(1) apply_new_recoverable [OF _ assms(2-6)] assms(2)
    by (auto simp: ssh_apply_def split: sum.splits option.splits dest!: apply_pending_file)
  then show ?thesis by (auto simp: recovery_armed_def)
qed

section \<open>The way back\<close>

text \<open>The file is as the snapshot says, up to the digest of its content.\<close>

definition same_as_snapshot :: "'h ssh_env \<Rightarrow> file_snapshot \<Rightarrow> file_snapshot \<Rightarrow> bool" where
  "same_as_snapshot E f g \<longleftrightarrow> content_hash (sv_lib E) (fsn_content f) = content_hash (sv_lib E) (fsn_content g) \<and>
     mode_perm (fsn_mode f) = mode_perm (fsn_mode g) \<and> fsn_uid f = fsn_uid g \<and> fsn_gid f = fsn_gid g"

definition owner_matches :: "file_snapshot \<Rightarrow> file_snapshot \<Rightarrow> bool" where
  "owner_matches f g \<longleftrightarrow> mode_perm (fsn_mode f) = mode_perm (fsn_mode g) \<and> fsn_uid f = fsn_uid g \<and> fsn_gid f = fsn_gid g"

lemma write_file_touch:
  assumes "write_snapshot_file E (fsn_content g) g s = (r, s')"
  shows "sx_file s' = sx_file s \<or> (0 \<le> fsn_uid g \<and> 0 \<le> fsn_gid g \<longrightarrow> (\<exists>f. sx_file s' = Some f \<and> same_as_snapshot E f g))"
  using assms
  by (auto simp: write_snapshot_file_def Let_def same_as_snapshot_def split: prod.splits io_fault.splits)

lemma restore_outcome:
  assumes "restore_if_applied E C st s = (r, s')"
  shows "(r = None \<longrightarrow> 0 \<le> fsn_uid (ssh_snapshot st) \<and> 0 \<le> fsn_gid (ssh_snapshot st) \<longrightarrow>
            (\<exists>f. sx_file s' = Some f \<and> same_as_snapshot E f (ssh_snapshot st))) \<and>
         (r = Some Conflict \<longrightarrow> sx_file s' = sx_file s \<and> (\<exists>f. sx_file s = Some f \<and> \<not> same_as_snapshot E f (ssh_snapshot st) \<and>
            (content_hash (sv_lib E) (fsn_content f) \<noteq> ssh_applied st \<or> \<not> owner_matches f (ssh_snapshot st)))) \<and>
         (sx_file s' \<noteq> sx_file s \<longrightarrow> (\<exists>f. sx_file s = Some f \<and> content_hash (sv_lib E) (fsn_content f) = ssh_applied st \<and>
            owner_matches f (ssh_snapshot st)))"
proof -
  obtain q s1 where q: "snapshot_regular_file E C s = (q, s1)" by force
  note f1 = snapshot_frame [OF q, unfolded quiet_def]
  show ?thesis
  proof (cases q)
    case (Inl m)
    then show ?thesis using assms q f1 by (auto simp: restore_if_applied_def)
  next
    case (Inr cur)
    note snap = snapshot_is_file(1) [OF q [unfolded Inr]]
    show ?thesis
    proof (cases "same_as_snapshot E cur (ssh_snapshot st)")
      case True
      then have "sx_file s' = sx_file s" and "r \<noteq> Some Conflict"
        using assms f1
        by (auto simp: restore_if_applied_def q Inr Let_def same_as_snapshot_def quiet_def
            split: prod.splits option.splits dest!: test_config_frame reload_frame)
      then show ?thesis using snap True by auto
    next
      case diff: False
      show ?thesis
      proof (cases "content_hash (sv_lib E) (fsn_content cur) = ssh_applied st \<and> owner_matches cur (ssh_snapshot st)")
        case False
        then have "r = Some Conflict \<and> s' = s1"
          using assms diff by (auto simp: restore_if_applied_def q Inr Let_def same_as_snapshot_def owner_matches_def split: if_splits)
        then show ?thesis using f1 snap diff False by auto
      next
        case True
        obtain b s2 where b: "restore_snapshot E C (ssh_snapshot st) s1 = (b, s2)" by force
        then have r: "r = map_option SshError b" "s' = s2"
          using assms True diff
          by (auto simp: restore_if_applied_def q Inr Let_def same_as_snapshot_def owner_matches_def split: option.splits)
        have "b = None \<Longrightarrow> 0 \<le> fsn_uid (ssh_snapshot st) \<and> 0 \<le> fsn_gid (ssh_snapshot st) \<Longrightarrow>
            \<exists>f. sx_file s2 = Some f \<and> same_as_snapshot E f (ssh_snapshot st)"
          using b
          by (auto simp: restore_snapshot_def quiet_def write_snapshot_file_def Let_def same_as_snapshot_def
              split: prod.splits option.splits io_fault.splits dest!: test_config_frame reload_frame)
        then show ?thesis using r snap True by (cases b) auto
      qed
    qed
  qed
qed


lemma restore_touch:
  assumes "restore_if_applied E C st s = (r, s')" and "sx_file s' \<noteq> sx_file s"
  shows "\<exists>f. sx_file s = Some f \<and> content_hash (sv_lib E) (fsn_content f) = ssh_applied st \<and> owner_matches f (ssh_snapshot st)"
  using restore_outcome [OF assms(1)] assms(2) by blast

lemma settle_file:
  "sx_file (cancel_ssh_timer a (snd (delete_ssh_journal E b t))) = sx_file t"
  using delete_journal_frame [of E b t] by (cases "delete_ssh_journal E b t") (simp add: cancel_ssh_timer_def)

lemma expire_touch:
  assumes "sx_file (expire_ssh E C aid s) \<noteq> sx_file s"
  obtains j st r s1 where "read_ssh_journal E aid (sx_journals s) = Inr j" and "sv_dec E (sj_state j) = Inr st"
    and "restore_if_applied E C st s = (r, s1)" and "sx_file s1 \<noteq> sx_file s"
proof (cases "read_ssh_journal E aid (sx_journals s)")
  case (Inl e)
  with assms show ?thesis by (cases e) (auto simp: expire_ssh_def Let_def cancel_ssh_timer_def)
next
  case j: (Inr j)
  show ?thesis
  proof (cases "sv_dec E (sj_state j)")
    case (Inl e)
    with j assms show ?thesis by (auto simp: expire_ssh_def Let_def settle_file)
  next
    case st: (Inr st)
    obtain r s1 where r: "restore_if_applied E C st s = (r, s1)" by force
    have "sx_file (expire_ssh E C aid s) = sx_file s1"
    proof (cases r)
      case None
      then show ?thesis using j st r by (simp add: expire_ssh_def Let_def settle_file)
    next
      case (Some x)
      then show ?thesis using j st r by (cases x) (simp_all add: expire_ssh_def Let_def cancel_ssh_timer_def)
    qed
    then show ?thesis using that [OF j st r] assms by simp
  qed
qed

lemma rollback_touch:
  assumes "sx_file (snd (ssh_rollback E C i s)) \<noteq> sx_file s"
  obtains st0 j st r s1 where "sv_dec E (inv_state i) = Inr st0" and "read_ssh_journal E (ssh_action st0) (sx_journals s) = Inr j"
    and "journal_is_for E i j" and "sv_dec E (sj_state j) = Inr st" and "restore_if_applied E C st s = (r, s1)"
    and "sx_file s1 \<noteq> sx_file s"
proof (cases "sv_dec E (inv_state i)")
  case (Inl e)
  with assms show ?thesis by (simp add: ssh_rollback_def)
next
  case st0: (Inr st0)
  show ?thesis
  proof (cases "\<not> ssh_changed st0 \<or> \<not> action_id_ok (ssh_action st0) \<or> (\<exists>e. read_ssh_journal E (ssh_action st0) (sx_journals s) = Inl e)")
    case True
    with st0 assms show ?thesis by (auto simp: ssh_rollback_def split: if_splits)
  next
    case False
    then obtain j where j: "read_ssh_journal E (ssh_action st0) (sx_journals s) = Inr j"
      by (cases "read_ssh_journal E (ssh_action st0) (sx_journals s)") auto
    show ?thesis
    proof (cases "\<not> journal_is_for E i j \<or> (\<exists>e. sv_dec E (sj_state j) = Inl e)")
      case True
      with False st0 j assms show ?thesis by (auto simp: ssh_rollback_def split: if_splits)
    next
      case ok: False
      then obtain st where st: "sv_dec E (sj_state j) = Inr st" by (cases "sv_dec E (sj_state j)") auto
      obtain r s1 where r: "restore_if_applied E C st s = (r, s1)" by force
      have "sx_file (snd (ssh_rollback E C i s)) = sx_file s1"
        using False ok st0 j st r
        by (auto simp: ssh_rollback_def cancel_ssh_timer_def split: option.split prod.split dest!: delete_journal_frame)
      then show ?thesis using that [OF st0 j _ st r] ok assms by simp
    qed
  qed
qed

text \<open>
  A newer configuration is never overwritten.  Neither the expiry of a timer nor a
  rollback changes the file unless its content has the digest that was applied and its mode
  and owner are those of the snapshot; a rollback changes it only with the state and the
  parameters its protected journal was written for.
\<close>

theorem newer_ssh_config_untouched:
  "(sx_file (expire_ssh E C aid s) \<noteq> sx_file s \<longrightarrow>
      (\<exists>j st f. read_ssh_journal E aid (sx_journals s) = Inr j \<and> sv_dec E (sj_state j) = Inr st \<and> sx_file s = Some f \<and>
         content_hash (sv_lib E) (fsn_content f) = ssh_applied st \<and> owner_matches f (ssh_snapshot st)))
   \<and> (sx_file (snd (ssh_rollback E C i s)) \<noteq> sx_file s \<longrightarrow>
      (\<exists>st0 j st f. sv_dec E (inv_state i) = Inr st0 \<and> read_ssh_journal E (ssh_action st0) (sx_journals s) = Inr j \<and>
         journal_is_for E i j \<and> sv_dec E (sj_state j) = Inr st \<and> sx_file s = Some f \<and>
         content_hash (sv_lib E) (fsn_content f) = ssh_applied st \<and> owner_matches f (ssh_snapshot st)))"
proof (intro conjI impI)
  assume "sx_file (expire_ssh E C aid s) \<noteq> sx_file s"
  then show "\<exists>j st f. read_ssh_journal E aid (sx_journals s) = Inr j \<and> sv_dec E (sj_state j) = Inr st \<and> sx_file s = Some f \<and>
      content_hash (sv_lib E) (fsn_content f) = ssh_applied st \<and> owner_matches f (ssh_snapshot st)"
    by (rule expire_touch) (use restore_touch in blast)
next
  assume "sx_file (snd (ssh_rollback E C i s)) \<noteq> sx_file s"
  then show "\<exists>st0 j st f. sv_dec E (inv_state i) = Inr st0 \<and> read_ssh_journal E (ssh_action st0) (sx_journals s) = Inr j \<and>
      journal_is_for E i j \<and> sv_dec E (sj_state j) = Inr st \<and> sx_file s = Some f \<and>
      content_hash (sv_lib E) (fsn_content f) = ssh_applied st \<and> owner_matches f (ssh_snapshot st)"
    by (rule rollback_touch) (use restore_touch in blast)
qed


section \<open>At the size limit\<close>

lemma apply_change_success:
  assumes "apply_change E C j f hardened s = (r, None, s')"
  shows "\<exists>g. sx_file s' = Some g \<and> fsn_content g = hardened" and "sx_journals s' = sx_journals s"
proof -
  have no: "known_restored_failure E C j w x s0 \<noteq> (r, None, s')" "recoverable_failure E C j x s0 \<noteq> (r, None, s')" for w x s0
    by (auto simp: known_restored_failure_def recoverable_failure_def split: prod.splits option.splits)
  obtain w s1 where w: "write_snapshot_file E hardened f s = (w, s1)" by force
  obtain t s2 where t: "test_config E C [] s1 = (t, s2)" by force
  obtain l s3 where l: "reload_ssh E C s2 = (l, s3)" by force
  have "w = None \<and> t = None \<and> l = None \<and> s' = schedule_ssh E C j s3"
    using assms no w t l by (auto simp: apply_change_def split: prod.splits option.splits)
  then show "\<exists>g. sx_file s' = Some g \<and> fsn_content g = hardened" "sx_journals s' = sx_journals s"
    using test_config_frame [OF t] reload_frame [OF l] w write_file_frame [OF w]
    by (auto simp: quiet_def schedule_frame write_snapshot_file_def Let_def split: prod.splits io_fault.splits)
qed

lemma oversized_snapshot:
  assumes "sx_file s = Some g" and "length (fsn_content g) > maxSSHConfigBytes"
  obtains e where "snapshot_regular_file E C s = (Inl e, s)"
proof -
  have "\<exists>e. snapshot_regular_file E C s = (Inl e, s)"
    using assms by (simp add: snapshot_regular_file_def split: if_split)
  then show ?thesis using that by blast
qed

text \<open>
  A configuration close to the size limit cannot be restored.  When the original fits the
  limit of 256 KiB and the hardened text does not, a successful application installs a file
  that no later phase can read: verification fails, the expiry of the timer leaves the file
  in place and only arms itself again, and a rollback leaves it too.
\<close>

theorem oversized_hardening_stuck:
  assumes "ssh_apply E C i s = (r, None, s')" and "sx_file s = Some f"
    and "length (fst (harden_ssh_config (fsn_content f))) > maxSSHConfigBytes"
    and "read_ssh_journal E (inv_action_id i) (sx_journals s) = Inl None"
    and "read_ssh_journal E aid (sx_journals s') = Inr j" and "sv_dec E (sj_state j) = Inr st"
  shows "sx_file s' \<noteq> Some f \<and> (\<forall>k. \<exists>e. fst (ssh_verify E C k s') = Inl e) \<and>
     sx_file (expire_ssh E C aid s') = sx_file s' \<and>
     sx_timers (expire_ssh E C aid s') aid = Some (sv_now E (sx_host s') + minute) \<and>
     (\<forall>k. sx_file (snd (ssh_rollback E C k s')) = sx_file s')"
proof -
  have an: "apply_new E C i (delay_of E C (inv_params i)) s = (r, None, s')"
    using assms(1,4) by (auto simp: ssh_apply_def split: option.splits)
  obtain q s1 where q: "snapshot_regular_file E C s = (q, s1)" by force
  then obtain g where g: "q = Inr g" using an by (cases q) (auto simp: apply_new_def)
  have gf: "g = f" "length (fsn_content f) \<le> maxSSHConfigBytes"
    using snapshot_is_file(1,3) [OF q [unfolded g]] assms(2) by auto
  obtain t s2 where t: "test_config E C ''existing SSH configuration does not pass sshd validation: '' s1 = (t, s2)" by force
  have ne: "fst (harden_ssh_config (fsn_content f)) \<noteq> fsn_content f" using gf(2) assms(3) by auto
  obtain j0 s3 where ac: "apply_change E C j0 f (fst (harden_ssh_config (fsn_content f))) s3 = (r, None, s')"
    using an q g gf t ne
    by (auto simp: apply_new_def Let_def journal_write_failed_def split: option.splits sum.splits prod.splits if_splits)
  obtain h where h: "sx_file s' = Some h" "fsn_content h = fst (harden_ssh_config (fsn_content f))"
    using apply_change_success(1) [OF ac] by blast
  obtain e where e: "snapshot_regular_file E C s' = (Inl e, s')"
    using oversized_snapshot [OF h(1)] h(2) assms(3) by metis
  have "\<exists>e. fst (ssh_verify E C k s') = Inl e" for k
    by (cases "sv_dec E (inv_state k)") (auto simp: ssh_verify_def verify_state_def e)
  moreover have r: "restore_if_applied E C x s' = (Some (SshError e), s')" for x by (simp add: restore_if_applied_def e)
  then have "sx_file (expire_ssh E C aid s') = sx_file s' \<and>
      sx_timers (expire_ssh E C aid s') aid = Some (sv_now E (sx_host s') + minute)"
    using assms(5,6) by (simp add: expire_ssh_def Let_def)
  moreover have "sx_file (snd (ssh_rollback E C k s')) = sx_file s'" for k
    using rollback_touch [of E C k s'] r by (metis (no_types, lifting) Pair_inject)
  ultimately show ?thesis using h ne by auto
qed

end
