(* ===== verification/SshDemo.thy ===== *)
theory SshDemo
  imports SshProps
begin

text \<open>
  A concrete host for the SSH playbook, and the properties of SshProps applied to it.
\<close>

section \<open>A concrete host\<close>

text \<open>Commands succeed, the disk works, the clock stands; the validator reports the hardened setting.\<close>

definition demo_ssh_lib :: lib where
  "demo_ssh_lib = \<lparr>json_ok = (\<lambda>_. True), json_canonical = Some, sha256 = (\<lambda>b. take 32 (b @ replicate 32 CHR ''z'')),
     hmac_sha256 = (\<lambda>k m. k @ m), enc_sealed = (\<lambda>_. []), dec_sealed = (\<lambda>_. None), enc_receipt = (\<lambda>_. [])\<rparr>"

definition demo_file :: "bytes \<Rightarrow> file_snapshot" where
  "demo_file c = \<lparr>fsn_content = c, fsn_mode = 0x180, fsn_uid = 0, fsn_gid = 0\<rparr>"

definition demo_ssh_state :: "bytes \<Rightarrow> ssh_state" where
  "demo_ssh_state c = \<lparr>ssh_action = ''a1'', ssh_snapshot = demo_file c,
     ssh_applied = content_hash demo_ssh_lib (fst (harden_ssh_config c)), ssh_changed = True, ssh_confirm = Some (120 * second)\<rparr>"

definition demo_ssh_env :: "bytes \<Rightarrow> unit ssh_env" where
  "demo_ssh_env c = \<lparr>sv_lib = demo_ssh_lib, sv_params = (\<lambda>_. (0, None)),
     sv_enc = (\<lambda>st. if st = demo_ssh_state c then Inr ''s'' else Inl ''unused''), sv_dec = (\<lambda>_. Inr (demo_ssh_state c)),
     sv_run = (\<lambda>cmd h. ((no_output\<lparr>cr_stdout := ''passwordauthentication no''\<rparr>, None), h)),
     sv_now = (\<lambda>_. 0), sv_disk = (\<lambda>h. (NoFault, h))\<rparr>"

definition demo_ssh_config :: ssh_config where
  "demo_ssh_config = \<lparr>sc_sshd = ''/sshd'', sc_systemctl = ''/systemctl'', sc_path = ''/c'', sc_service = ''ssh'', sc_journal_dir = ''/j'',
     sc_default_delay = 120 * second, sc_min_delay = 30 * second, sc_max_delay = 600 * second\<rparr>"

definition demo_ssh_invocation :: invocation where
  "demo_ssh_invocation = \<lparr>inv_action_id = ''a1'', inv_actor = [], inv_params = ''{}'', inv_state = ''s''\<rparr>"

definition demo_ssh_start :: "bytes \<Rightarrow> unit ssh_sys" where
  "demo_ssh_start c = \<lparr>sx_host = (), sx_file = Some (demo_file c), sx_journals = [], sx_timers = Map.empty\<rparr>"

definition demo_ssh_journal :: "bytes \<Rightarrow> ssh_journal" where
  "demo_ssh_journal c = ssh_journal_for (demo_ssh_env c) demo_ssh_invocation ''s'' (120 * second)"

definition demo_ssh_after :: "bytes \<Rightarrow> unit ssh_sys" where
  "demo_ssh_after c = \<lparr>sx_host = (), sx_file = Some (demo_file (fst (harden_ssh_config c))),
     sx_journals = [(''a1'', Some (demo_ssh_journal c))], sx_timers = [''a1'' \<mapsto> 120 * second]\<rparr>"

lemma demo_ssh_host: "ssh_coder_ok (demo_ssh_env c)" "sha256_ok (sv_lib (demo_ssh_env c))" "plain_file (demo_file c)"
  "0 \<le> sc_max_delay demo_ssh_config"
  by (simp_all add: ssh_coder_ok_def sha256_ok_def demo_ssh_env_def demo_ssh_lib_def demo_file_def plain_file_def
      only_perm_def perm_bits_def demo_ssh_config_def min_def)

lemma demo_file_regular: "is_regular (fsn_mode (demo_file c)) \<and> \<not> is_symlink (fsn_mode (demo_file c)) \<and>
    \<not> has_special_mode_bits (fsn_mode (demo_file c))"
  using only_perm_plain [of "fsn_mode (demo_file c)"] demo_ssh_host(3) [of c] by (simp add: plain_file_def)

lemma demo_snapshot:
  assumes "sx_file s = Some (demo_file c)" and "length c \<le> 262144"
  shows "snapshot_regular_file (demo_ssh_env d) C s = (Inr (demo_file c), s)"
  using assms demo_file_regular [of c]
  by (simp add: snapshot_regular_file_def demo_ssh_env_def) (simp add: demo_file_def)

lemma demo_ssh_applied:
  assumes "length c \<le> 262144" and "fst (harden_ssh_config c) \<noteq> c"
  shows "\<exists>r. ssh_apply (demo_ssh_env c) demo_ssh_config demo_ssh_invocation (demo_ssh_start c) = (r, None, demo_ssh_after c)"
proof -
  have id: "action_id_ok ''a1''" by code_simp
  have rd: "read_ssh_journal (demo_ssh_env c) (inv_action_id demo_ssh_invocation) (sx_journals (demo_ssh_start c)) = Inl None"
    using id by (simp add: read_ssh_journal_def demo_ssh_invocation_def demo_ssh_start_def)
  have fl: "sx_file (demo_ssh_start c) = Some (demo_file c)" by (simp add: demo_ssh_start_def)
  have run: "run_ssh (demo_ssh_env c) cmd s = ((no_output\<lparr>cr_stdout := ''passwordauthentication no''\<rparr>, None), s)" for cmd s
    by (simp add: run_ssh_def demo_ssh_env_def)
  have t: "test_config (demo_ssh_env c) C w s = (None, s)" for C w s by (simp add: test_config_def run)
  have l: "reload_ssh (demo_ssh_env c) C s = (None, s)" for C s by (simp add: reload_ssh_def run)
  have d: "delay_of (demo_ssh_env c) demo_ssh_config p = 120 * second" for p
    by (simp add: delay_of_def rollback_delay_def demo_ssh_env_def demo_ssh_config_def)
  have e: "sv_enc (demo_ssh_env c) (demo_ssh_state c) = Inr ''s''" by (simp add: demo_ssh_env_def)
  have st: "\<lparr>ssh_action = inv_action_id demo_ssh_invocation, ssh_snapshot = demo_file c,
      ssh_applied = content_hash (sv_lib (demo_ssh_env c)) (fst (harden_ssh_config c)), ssh_changed = True,
      ssh_confirm = Some (sv_now (demo_ssh_env c) h + 120 * second)\<rparr> = demo_ssh_state c" for h
    by (simp add: demo_ssh_state_def demo_ssh_invocation_def demo_ssh_env_def)
  have now: "sv_now (demo_ssh_env c) h = 0" for h by (simp add: demo_ssh_env_def)
  have disk: "sv_disk (demo_ssh_env c) h = (NoFault, h)" for h by (simp add: demo_ssh_env_def)
  have content: "fsn_content (demo_file c) = c" "mode_perm 0x180 = 0x180"
    by (simp_all add: demo_file_def mode_perm_def perm_bits_def)
  have w: "write_ssh_journal (demo_ssh_env c) (demo_ssh_journal c) (demo_ssh_start c) =
      (None, (demo_ssh_start c)\<lparr>sx_journals := [(''a1'', Some (demo_ssh_journal c))]\<rparr>)"
    using id by (simp add: write_ssh_journal_def demo_ssh_journal_def ssh_journal_for_def demo_ssh_invocation_def disk demo_ssh_start_def)
  have ch: "\<exists>r. apply_change (demo_ssh_env c) demo_ssh_config (demo_ssh_journal c) (demo_file c) (fst (harden_ssh_config c))
      ((demo_ssh_start c)\<lparr>sx_journals := [(''a1'', Some (demo_ssh_journal c))]\<rparr>) = (r, None, demo_ssh_after c)"
    by (simp add: apply_change_def write_snapshot_file_def disk t l content schedule_ssh_def now demo_ssh_journal_def ssh_journal_for_def
        demo_ssh_config_def demo_ssh_after_def demo_ssh_start_def demo_ssh_invocation_def demo_file_def Let_def)
  have j: "ssh_journal_for (demo_ssh_env c) demo_ssh_invocation ''s'' (0 + 120 * second) = demo_ssh_journal c"
    by (simp add: demo_ssh_journal_def)
  have n: "\<exists>r. apply_new (demo_ssh_env c) demo_ssh_config demo_ssh_invocation (120 * second) (demo_ssh_start c) = (r, None, demo_ssh_after c)"
    using ch assms(2) st [unfolded now] e w
    by (simp add: apply_new_def demo_snapshot [OF fl assms(1)] t now content(1) j [simplified] Let_def)
  have o: "other_pending a (demo_ssh_start c) = None" for a by (simp add: other_pending_def demo_ssh_start_def)
  show ?thesis using n by (simp add: ssh_apply_def rd o d)
qed

lemma demo_ssh_read:
  assumes "length c \<le> 262144"
  shows "read_ssh_journal (demo_ssh_env c) ''a1'' (sx_journals (demo_ssh_after c)) = Inr (demo_ssh_journal c)"
    and "sv_dec (demo_ssh_env c) b = Inr (demo_ssh_state c)"
proof -
  have id: "action_id_ok ''a1''" by code_simp
  have e: "sv_enc (demo_ssh_env c) (demo_ssh_state c) = Inr ''s''" by (simp add: demo_ssh_env_def)
  have st: "demo_ssh_state c = \<lparr>ssh_action = inv_action_id demo_ssh_invocation, ssh_snapshot = demo_file c,
      ssh_applied = content_hash (sv_lib (demo_ssh_env c)) (fst (harden_ssh_config c)), ssh_changed = True,
      ssh_confirm = Some (120 * second)\<rparr>"
    by (simp add: demo_ssh_state_def demo_ssh_invocation_def demo_ssh_env_def)
  have "length (fsn_content (demo_file c)) \<le> maxSSHConfigBytes" using assms by (simp add: demo_file_def)
  from new_journal_ok [OF demo_ssh_host(1,2,3) this st e]
  have "ssh_journal_ok (demo_ssh_env c) ''a1'' (demo_ssh_journal c) = None"
    by (simp add: demo_ssh_invocation_def demo_ssh_journal_def)
  then show "read_ssh_journal (demo_ssh_env c) ''a1'' (sx_journals (demo_ssh_after c)) = Inr (demo_ssh_journal c)"
    using id by (simp add: read_ssh_journal_def demo_ssh_after_def)
  show "sv_dec (demo_ssh_env c) b = Inr (demo_ssh_state c)" by (simp add: demo_ssh_env_def)
qed

lemma demo_hardened: "fst (harden_ssh_config ''x'') = sshManagedMarker @ [CHR 0x0A] @ no_passwords @ [CHR 0x0A] @ ''x''"
  by code_simp

lemma demo_changed: "fst (harden_ssh_config ''x'') \<noteq> ''x''"
  unfolding demo_hardened by (simp add: sshManagedMarker_def)

text \<open>Witnesses.\<close>

theorem ssh_change_recoverable_witness:
  "\<exists>t. sx_timers (demo_ssh_after ''x'') ''a1'' = Some t \<and> t \<le> 600 * second"
proof -
  obtain r where ap: "ssh_apply (demo_ssh_env ''x'') demo_ssh_config demo_ssh_invocation (demo_ssh_start ''x'') = (r, None, demo_ssh_after ''x'')"
    using demo_ssh_applied [of "''x''"] demo_changed by auto
  have "sx_file (demo_ssh_start ''x'') = Some (demo_file ''x'')" by (simp add: demo_ssh_start_def)
  moreover have "sx_file (demo_ssh_after ''x'') \<noteq> Some (demo_file ''x'')"
    using demo_changed by (simp add: demo_ssh_after_def demo_file_def)
  ultimately show ?thesis
    using ssh_change_recoverable [OF ap _ demo_ssh_host(3) demo_ssh_host(1,2,4)]
    by (auto simp: demo_ssh_env_def demo_ssh_config_def demo_ssh_invocation_def)
qed



text \<open>A single line of 256 KiB.\<close>

lemma trim_left_subset: "set (trim_left s) \<subseteq> set s"
proof (induction s rule: trim_left.induct)
  case (1 s)
  show ?case
  proof (cases "s = [] \<or> space_len s = 0")
    case True
    then show ?thesis by (simp add: trim_left.simps)
  next
    case False
    then have "trim_left s = trim_left (drop (space_len s) s)" by (simp add: trim_left.simps [of s])
    then show ?thesis using 1 [OF False] set_drop_subset by fastforce
  qed
qed

lemma trim_right_subset: "set (trim_right s) \<subseteq> set s"
proof (induction s rule: trim_right.induct)
  case (1 s)
  show ?case
  proof (cases "s = [] \<or> tail_space s = 0")
    case True
    then show ?thesis by (simp add: trim_right.simps)
  next
    case False
    then have "trim_right s = trim_right (take (length s - tail_space s) s)" by (simp add: trim_right.simps [of s])
    then show ?thesis using 1 [OF False] set_take_subset by fastforce
  qed
qed

lemma trim_space_subset: "set (trim_space s) \<subseteq> set s"
  using trim_left_subset trim_right_subset unfolding trim_space_def by blast

lemma go_fields_aux_subset: "f \<in> set (go_fields_aux acc s) \<Longrightarrow> set f \<subseteq> set acc \<union> set s"
proof (induction acc s rule: go_fields_aux.induct)
  case (1 acc)
  then show ?case by (auto simp: go_fields_aux.simps split: if_splits)
next
  case (2 acc c cs)
  define n where "n = space_len (c # cs)"
  have d: "set (drop n (c # cs)) \<subseteq> set (c # cs)" by (rule set_drop_subset)
  show ?case
  proof (cases "n = 0")
    case True
    then have "f \<in> set (go_fields_aux (c # acc) cs)" using 2(4) by (simp add: go_fields_aux.simps n_def)
    then show ?thesis using 2(1) True n_def by fastforce
  next
    case False
    then have "f = rev acc \<or> f \<in> set (go_fields_aux [] (drop n (c # cs)))"
      using 2(4) by (simp only: go_fields_aux.simps(2) n_def Let_def) (auto split: if_splits)
    then show ?thesis
    proof
      assume "f \<in> set (go_fields_aux [] (drop n (c # cs)))"
      then have "set f \<subseteq> set (drop n (c # cs))"
        using 2(2) 2(3) False n_def by (cases "acc = []") fastforce+
      then show ?thesis using d by auto
    qed auto
  qed
qed

lemma kept_line_xs: "set l \<subseteq> {CHR ''x''} \<Longrightarrow> kept_line l"
proof -
  assume l: "set l \<subseteq> {CHR ''x''}"
  then have t: "set (trim_space l) \<subseteq> {CHR ''x''}" using trim_space_subset by blast
  then have "\<not> is_marker l" by (auto simp: is_marker_def sshManagedMarker_def)
  moreover have "\<not> equal_fold f ''PasswordAuthentication''" if "f \<in> set (go_fields (trim_space l))" for f
  proof -
    have "set f \<subseteq> {CHR ''x''}" using go_fields_aux_subset that t unfolding go_fields_def by fastforce
    moreover have "ascii_lower CHR ''x'' \<noteq> ascii_lower CHR ''P''" by code_simp
    ultimately show ?thesis by (cases f) (auto simp: ascii_lower_def [of "CHR ''P''"] is_upper_def)
  qed
  then have "\<not> is_directive l" by (auto simp: is_directive_def split: list.splits)
  ultimately show ?thesis by (simp add: kept_line_def)
qed

definition demo_line :: "nat \<Rightarrow> bytes" where
  "demo_line n = replicate n CHR ''x''"

lemma demo_line_hardened:
  "fst (harden_ssh_config (demo_line n)) = sshManagedMarker @ [CHR 0x0A] @ no_passwords @ [CHR 0x0A] @ demo_line n"
proof -
  have "set (demo_line n) \<subseteq> {CHR ''x''}" by (auto simp: demo_line_def)
  then have n: "CHR 0x0A \<notin> set (demo_line n)" "CHR 0x0D \<notin> set (demo_line n)" and "kept_line (demo_line n)"
    using kept_line_xs by auto
  moreover have "\<not> has_crlf (demo_line n)" using n by (intro no_newline_no_crlf)
  moreover have "config_lines (demo_line n) = [demo_line n]" using n by (simp add: config_lines_def replace_crlf_plain split_on_none)
  ultimately show ?thesis by (simp add: harden_text)
qed

lemma demo_line_grows: "length (fst (harden_ssh_config (demo_line n))) > n"
  unfolding demo_line_hardened by (simp add: demo_line_def)

lemma demo_line_changed: "fst (harden_ssh_config (demo_line n)) \<noteq> demo_line n"
proof
  assume "fst (harden_ssh_config (demo_line n)) = demo_line n"
  then have "length (demo_line n) > n" using demo_line_grows [of n] by simp
  then show False by (simp add: demo_line_def)
qed

theorem oversized_hardening_stuck_witness:
  "sx_timers (expire_ssh (demo_ssh_env (demo_line 262144)) demo_ssh_config ''a1'' (demo_ssh_after (demo_line 262144))) ''a1'' = Some minute"
proof -
  define c where "c = demo_line 262144"
  have len: "length c \<le> 262144" by (simp only: c_def demo_line_def length_replicate order_refl)
  obtain r where ap: "ssh_apply (demo_ssh_env c) demo_ssh_config demo_ssh_invocation (demo_ssh_start c) = (r, None, demo_ssh_after c)"
    using demo_ssh_applied [OF len] demo_line_changed unfolding c_def by blast
  have f: "sx_file (demo_ssh_start c) = Some (demo_file c)" by (simp add: demo_ssh_start_def)
  have "length (fst (harden_ssh_config c)) > 262144" unfolding c_def by (rule demo_line_grows)
  then have big: "length (fst (harden_ssh_config (fsn_content (demo_file c)))) > 262144"
    by (simp add: demo_file_def)
  have id: "action_id_ok ''a1''" by code_simp
  then have rd: "read_ssh_journal (demo_ssh_env c) (inv_action_id demo_ssh_invocation) (sx_journals (demo_ssh_start c)) = Inl None"
    by (simp add: read_ssh_journal_def demo_ssh_invocation_def demo_ssh_start_def)
  have now: "sv_now (demo_ssh_env c) h = 0" for h by (simp add: demo_ssh_env_def)
  from oversized_hardening_stuck [OF ap f big rd demo_ssh_read [OF len]] show ?thesis
    unfolding c_def [symmetric] now by simp
qed

end
