(* ===== verification/FilePermission.thy ===== *)
theory FilePermission
  imports FileInfo ReceiptCache SshConfig
begin

text \<open>
  The file permission repair playbook (\<open>internal/action/file_permission.go\<close>), the component-wise
  opening of its target (\<open>secure_open_unix.go\<close>) and the identity of a file object
  (\<open>file_object_generation_linux.go\<close>).  The file system is a parameter: its calls act on a host
  state, and the test hooks of the playbook stand for what other processes do in between.
\<close>

section \<open>Data\<close>

record perm_params =
  pp_path :: string
  pp_mode :: string
  pp_uid :: "int option"
  pp_gid :: "int option"

record approved_path =
  ap_path :: string
  ap_descendants :: bool
  ap_file_modes :: "file_mode list"
  ap_dir_modes :: "file_mode list"
  ap_uids :: "int list"
  ap_gids :: "int list"
  ap_resolved :: string

record perm_state =
  pst_path :: string
  pst_device :: "64 word"
  pst_inode :: "64 word"
  pst_version :: int
  pst_kind :: string
  pst_generation :: string
  pst_mode :: file_mode
  pst_uid :: int
  pst_gid :: int
  pst_applied_mode :: file_mode
  pst_applied_uid :: int
  pst_applied_gid :: int
  pst_complete :: bool

record perm_tuple =
  pt_device :: "64 word"
  pt_inode :: "64 word"
  pt_kind :: string
  pt_generation :: string
  pt_mode :: file_mode
  pt_uid :: int
  pt_gid :: int
  pt_dir :: bool

datatype perm_hook = BeforeOpen | BeforeWrite | AfterWrite

text \<open>
  \<open>pv_openat d c dir\<close> opens the component \<open>c\<close> of the open directory \<open>d\<close>, or the path \<open>c\<close>
  where \<open>d\<close> is \<open>None\<close>, without following links, as a directory where \<open>dir\<close> is set;
  \<open>pv_handle f fid\<close> is \<open>name_to_handle_at\<close> with its two kinds of handle.
\<close>

record ('f, 'h) perm_env =
  pv_lib :: lib
  pv_params :: "bytes \<Rightarrow> perm_params \<times> string option"
  pv_enc :: "perm_state \<Rightarrow> string + bytes"
  pv_dec :: "bytes \<Rightarrow> string + perm_state"
  pv_lstat :: "string \<Rightarrow> 'h \<Rightarrow> string + file_info"
  pv_stat :: "string \<Rightarrow> 'h \<Rightarrow> string + file_info"
  pv_resolve :: "string \<Rightarrow> 'h \<Rightarrow> string + string"
  pv_openat :: "'f option \<Rightarrow> string \<Rightarrow> bool \<Rightarrow> 'h \<Rightarrow> string + 'f"
  pv_fstat :: "'f \<Rightarrow> 'h \<Rightarrow> string + file_info"
  pv_handle :: "'f \<Rightarrow> bool \<Rightarrow> 'h \<Rightarrow> string + int \<times> bytes"
  pv_chown :: "'f \<Rightarrow> int \<Rightarrow> int \<Rightarrow> 'h \<Rightarrow> string option \<times> 'h"
  pv_chmod :: "'f \<Rightarrow> file_mode \<Rightarrow> 'h \<Rightarrow> string option \<times> 'h"
  pv_hook :: "perm_hook \<Rightarrow> operation \<Rightarrow> 'h \<Rightarrow> 'h"

section \<open>Paths\<close>

definition path_elems :: "string \<Rightarrow> string list" where
  "path_elems p = filter (\<lambda>e. e \<noteq> []) (split_on (CHR ''/'') (path_clean p))"

fun rel_elems :: "string list \<Rightarrow> string list \<Rightarrow> string list" where
  "rel_elems (b # bs) (t # ts) = (if b = t then rel_elems bs ts else map (\<lambda>_. ''..'') (b # bs) @ t # ts)"
| "rel_elems bs ts = map (\<lambda>_. ''..'') bs @ ts"

text \<open>\<open>filepath.Rel\<close> for two absolute paths.\<close>

definition rel_path :: "string \<Rightarrow> string \<Rightarrow> string" where
  "rel_path base t = (let r = rel_elems (path_elems base) (path_elems t) in if r = [] then ''.'' else join_text ''/'' r)"

definition path_within :: "string \<Rightarrow> string \<Rightarrow> bool" where
  "path_within root t \<longleftrightarrow> (let r = rel_path root t in r \<noteq> ''.'' \<and> r \<noteq> ''..'' \<and> \<not> has_prefix r ''../'' \<and> \<not> is_abs r)"

definition DefaultPermissionRepairSSHPath :: string where
  "DefaultPermissionRepairSSHPath = ''/etc/ssh/sshd_config''"

definition DefaultPermissionRepairTokenPath :: string where
  "DefaultPermissionRepairTokenPath = ''/etc/witshield/helper.token''"

definition default_permission_repair_roots :: "string list" where
  "default_permission_repair_roots = [''/etc/witshield'', ''/var/lib/witshield'', ''/var/lib/witshield-agent'']"

definition protected_permission_repair_path :: "string \<Rightarrow> bool" where
  "protected_permission_repair_path p \<longleftrightarrow> path_clean p = DefaultPermissionRepairTokenPath"

definition is_default_permission_repair_path :: "string \<Rightarrow> bool" where
  "is_default_permission_repair_path p \<longleftrightarrow>
     is_abs p \<and> \<not> protected_permission_repair_path (path_clean p) \<and>
     (path_clean p = DefaultPermissionRepairSSHPath \<or>
      list_ex (\<lambda>r. path_clean p = r \<or> path_within r (path_clean p)) default_permission_repair_roots)"

section \<open>Set-up\<close>

text \<open>The message leaves out the rendering of the offending mode.\<close>

definition allowed_modes_error :: "file_mode list \<Rightarrow> string option" where
  "allowed_modes_error ms = (if list_all only_perm ms then None else Some ''mode includes non-permission or special bits'')"

definition prepare_rule :: "('f, 'h) perm_env \<Rightarrow> 'h \<Rightarrow> nat \<times> approved_path \<Rightarrow> string + approved_path" where
  "prepare_rule E h ir =
     (let r = snd ir in
      if \<not> is_abs (ap_path r) \<or> path_clean (ap_path r) = ''/''
      then Inl (''approved path '' @ itoa (int (fst ir)) @ '' must be an absolute non-root path'')
      else let p = path_clean (ap_path r)
           in case pv_resolve E p h of
               Inl e \<Rightarrow> Inl (''resolve approved path '' @ quote p @ '': '' @ e)
             | Inr q \<Rightarrow>
                (if ap_file_modes r = [] \<and> ap_dir_modes r = [] then Inl (''approved path '' @ quote p @ '' has no allowed modes'')
                 else case (allowed_modes_error (ap_file_modes r), allowed_modes_error (ap_dir_modes r)) of
                     (Some e, _) \<Rightarrow> Inl (''approved path '' @ quote p @ '' file modes: '' @ e)
                   | (None, Some e) \<Rightarrow> Inl (''approved path '' @ quote p @ '' directory modes: '' @ e)
                   | (None, None) \<Rightarrow> Inr (r\<lparr>ap_path := p, ap_resolved := path_clean q\<rparr>)))"

fun prepare_rules :: "('f, 'h) perm_env \<Rightarrow> 'h \<Rightarrow> (nat \<times> approved_path) list \<Rightarrow> string + approved_path list" where
  "prepare_rules E h [] = Inr []"
| "prepare_rules E h (ir # irs) =
     bindE (prepare_rule E h ir) (\<lambda>r. bindE (prepare_rules E h irs) (\<lambda>rs. Inr (r # rs)))"

text \<open>The longest resolved path comes first.\<close>

definition new_permission_playbook :: "('f, 'h) perm_env \<Rightarrow> 'h \<Rightarrow> approved_path list \<Rightarrow> string + approved_path list" where
  "new_permission_playbook E h approved =
     (if approved = [] then Inl ''at least one approved path is required''
      else bindE (prepare_rules E h (enumerate 0 approved))
        (\<lambda>rs. Inr (sort_key (\<lambda>r. - int (length (ap_resolved r))) rs)))"

section \<open>Validation\<close>

definition is_octal :: "char \<Rightarrow> bool" where
  "is_octal c \<longleftrightarrow> 48 \<le> (of_char c :: nat) \<and> (of_char c :: nat) \<le> 55"

definition octal_value :: "string \<Rightarrow> nat" where
  "octal_value s = foldl (\<lambda>n c. 8 * n + digit_value c) 0 s"

definition parse_mode :: "string \<Rightarrow> string + file_mode" where
  "parse_mode s =
     (let v = (if has_prefix s ''0o'' then drop 2 s else s)
      in if length v < 3 \<or> length v > 4 \<or> \<not> list_all is_octal v
         then Inl ''mode must be a three or four digit octal permission value''
         else if octal_value v > 511 then Inl ''special permission bits are not allowed''
         else Inr (of_nat (octal_value v)))"

definition select_rule :: "approved_path list \<Rightarrow> string \<Rightarrow> approved_path option" where
  "select_rule rules resolved =
     find (\<lambda>r. resolved = ap_resolved r \<or> (ap_descendants r \<and> path_within (ap_resolved r) resolved)) rules"

definition modes_for :: "bool \<Rightarrow> approved_path \<Rightarrow> file_mode list" where
  "modes_for dir r = (if dir then ap_dir_modes r else ap_file_modes r)"

definition id_allowed :: "int option \<Rightarrow> int list \<Rightarrow> bool" where
  "id_allowed v allowed = (case v of None \<Rightarrow> True | Some x \<Rightarrow> 0 \<le> x \<and> x \<in> set allowed)"

definition validate_target :: "('f, 'h) perm_env \<Rightarrow> approved_path list \<Rightarrow> perm_params \<Rightarrow> 'h \<Rightarrow>
    string + string \<times> file_mode \<times> approved_path" where
  "validate_target E rules p h =
     (if \<not> is_abs (pp_path p) then Inl ''path must be absolute''
      else let cleaned = path_clean (pp_path p)
      in if protected_permission_repair_path cleaned then Inl ''permission target is protected Helper trust state''
      else case pv_lstat E cleaned h of
        Inl e \<Rightarrow> Inl (''inspect permission target: '' @ e)
      | Inr info \<Rightarrow>
         (if is_symlink (fi_mode info) \<or> (\<not> is_regular (fi_mode info) \<and> \<not> is_dir (fi_mode info))
          then Inl ''permission target must be a regular file or directory, not a symlink or special file''
          else if has_special_mode_bits (fi_mode info)
          then Inl ''permission target has setuid, setgid, or sticky bits and is outside the repair model''
          else case pv_resolve E cleaned h of
            Inl e \<Rightarrow> Inl (''resolve permission target: '' @ e)
          | Inr q \<Rightarrow>
             (let resolved = path_clean q
              in if protected_permission_repair_path resolved then Inl ''permission target resolves to protected Helper trust state''
                 else case select_rule rules resolved of
                   None \<Rightarrow> Inl ''path is outside the approved permission-repair roots''
                 | Some r \<Rightarrow>
                    (case parse_mode (pp_mode p) of
                       Inl e \<Rightarrow> Inl e
                     | Inr mode \<Rightarrow>
                        (if mode \<notin> set (modes_for (is_dir (fi_mode info)) r)
                         then Inl (''mode '' @ octal4 mode @ '' is not approved for this target type'')
                         else if \<not> id_allowed (pp_uid p) (ap_uids r) then Inl ''requested UID is not approved for this path''
                         else if \<not> id_allowed (pp_gid p) (ap_gids r) then Inl ''requested GID is not approved for this path''
                         else Inr (resolved, mode, r))))))"

definition perm_validate :: "('f, 'h) perm_env \<Rightarrow> approved_path list \<Rightarrow> bytes \<Rightarrow> 'h \<Rightarrow> string option" where
  "perm_validate E rules raw h =
     (case pv_params E raw of
        (_, Some e) \<Rightarrow> Some e
      | (p, None) \<Rightarrow> (case validate_target E rules p h of Inl e \<Rightarrow> Some e | Inr _ \<Rightarrow> None))"

section \<open>Opening\<close>

text \<open>Every component below the root is opened in turn, all but the last as directories.\<close>

fun open_components :: "('f, 'h) perm_env \<Rightarrow> 'f \<Rightarrow> string list \<Rightarrow> 'h \<Rightarrow> string + 'f" where
  "open_components E d [] h = Inr d"
| "open_components E d (c # cs) h =
     (if c = [] \<or> c = ''.'' \<or> c = ''..'' then Inl ''permission target contains an invalid path component''
      else case pv_openat E (Some d) c (cs \<noteq> []) h of Inl e \<Rightarrow> Inl e | Inr d' \<Rightarrow> open_components E d' cs h)"

definition open_beneath :: "('f, 'h) perm_env \<Rightarrow> string \<Rightarrow> string \<Rightarrow> 'h \<Rightarrow> string + 'f" where
  "open_beneath E root target h =
     (let r = rel_path root target
      in if is_abs r \<or> r = ''..'' \<or> has_prefix r ''../'' then Inl ''permission target is outside its approved root''
         else if r = ''.'' then pv_openat E None root False h
         else case pv_openat E None root True h of
             Inl e \<Rightarrow> Inl e | Inr d \<Rightarrow> open_components E d (split_on (CHR ''/'') r) h)"

definition open_validated_target :: "('f, 'h) perm_env \<Rightarrow> string \<Rightarrow> string \<Rightarrow> 'h \<Rightarrow> string + 'f" where
  "open_validated_target E root target h =
     (case open_beneath E root target h of
        Inl e \<Rightarrow> Inl e
      | Inr f \<Rightarrow>
         (case pv_fstat E f h of
            Inl e \<Rightarrow> Inl e
          | Inr info \<Rightarrow>
             (if \<not> is_regular (fi_mode info) \<and> \<not> is_dir (fi_mode info)
              then Inl ''permission target changed to a special file during validation'' else Inr f)))"

section \<open>Object identity\<close>

definition linuxFileHandleFIDKind :: string where
  "linuxFileHandleFIDKind = ''linux-file-handle-fid-v1''"

definition linuxFileHandleClassicKind :: string where
  "linuxFileHandleClassicKind = ''linux-file-handle-classic-v1''"

definition handle_generation :: "('f, 'h) perm_env \<Rightarrow> 'f \<Rightarrow> string \<Rightarrow> bool \<Rightarrow> 'h \<Rightarrow> string + string \<times> string" where
  "handle_generation E f kind fid h =
     (case pv_handle E f fid h of
        Inl e \<Rightarrow> Inl e
      | Inr (typ, b) \<Rightarrow>
         (if b = [] \<or> length b > 128 then Inl ''filesystem returned an invalid file handle''
          else Inr (kind, hex_encode (sha256 (pv_lib E)
            (kind @ [CHR 0x00] @ itoa typ @ [CHR 0x00] @ nat_digits (length b) @ [CHR 0x00] @ b)))))"

definition file_object_generation :: "('f, 'h) perm_env \<Rightarrow> 'f \<Rightarrow> string \<Rightarrow> 'h \<Rightarrow> string + string \<times> string" where
  "file_object_generation E f required h =
     (if required = [] then
        (case handle_generation E f linuxFileHandleFIDKind True h of
           Inr g \<Rightarrow> Inr g
         | Inl e1 \<Rightarrow>
            (case handle_generation E f linuxFileHandleClassicKind False h of
               Inr g \<Rightarrow> Inr g
             | Inl e2 \<Rightarrow> Inl (''filesystem exposes no stable file handle: '' @ e1 @ [CHR 0x0A] @ e2)))
      else if required = linuxFileHandleFIDKind then handle_generation E f required True h
      else if required = linuxFileHandleClassicKind then handle_generation E f required False h
      else Inl ''unsupported Linux file-object generation kind'')"

definition tuple_of :: "file_info \<Rightarrow> string \<times> string \<Rightarrow> perm_tuple" where
  "tuple_of info g = \<lparr>pt_device = fi_dev info, pt_inode = fi_ino info, pt_kind = fst g, pt_generation = snd g,
     pt_mode = mode_perm (fi_mode info), pt_uid = fi_uid info, pt_gid = fi_gid info, pt_dir = is_dir (fi_mode info)\<rparr>"

definition opened_tuple :: "('f, 'h) perm_env \<Rightarrow> 'f \<Rightarrow> string \<Rightarrow> 'h \<Rightarrow> string + perm_tuple" where
  "opened_tuple E f kind h =
     (case pv_fstat E f h of
        Inl e \<Rightarrow> Inl e
      | Inr info \<Rightarrow>
         (if has_special_mode_bits (fi_mode info) \<or> (\<not> is_regular (fi_mode info) \<and> \<not> is_dir (fi_mode info))
          then Inl ''opened permission target has unsupported type or special bits''
          else case file_object_generation E f kind h of Inl e \<Rightarrow> Inl e | Inr g \<Rightarrow> Inr (tuple_of info g)))"

definition same_object :: "perm_tuple \<Rightarrow> perm_tuple \<Rightarrow> bool" where
  "same_object a b \<longleftrightarrow> pt_device a = pt_device b \<and> pt_inode a = pt_inode b \<and>
     pt_kind a \<noteq> [] \<and> pt_kind a = pt_kind b \<and> pt_generation a \<noteq> [] \<and> pt_generation a = pt_generation b \<and> pt_dir a = pt_dir b"

section \<open>Guarded changes of an opened file\<close>

definition verify_exact :: "('f, 'h) perm_env \<Rightarrow> 'f \<Rightarrow> perm_tuple \<Rightarrow> 'h \<Rightarrow> string option" where
  "verify_exact E f expected h =
     (case opened_tuple E f (pt_kind expected) h of
        Inl e \<Rightarrow> Some e
      | Inr t \<Rightarrow> if t \<noteq> expected then Some ''opened permission target changed since its metadata guard'' else None)"

text \<open>Owner first, then mode, each only where it differs; the errors are labelled by the caller.\<close>

definition set_metadata :: "('f, 'h) perm_env \<Rightarrow> 'f \<Rightarrow> string \<times> string \<Rightarrow> perm_tuple \<Rightarrow> perm_tuple \<Rightarrow> 'h \<Rightarrow> string option \<times> 'h" where
  "set_metadata E f labels now target h =
     (let (e1, h1) = (if pt_uid now \<noteq> pt_uid target \<or> pt_gid now \<noteq> pt_gid target
                      then pv_chown E f (pt_uid target) (pt_gid target) h else (None, h))
      in case e1 of
          Some e \<Rightarrow> (Some (fst labels @ e), h1)
        | None \<Rightarrow>
           (let (e2, h2) = (if pt_mode now \<noteq> pt_mode target then pv_chmod E f (pt_mode target) h1 else (None, h1))
            in case e2 of Some e \<Rightarrow> (Some (snd labels @ e), h2) | None \<Rightarrow> (verify_exact E f target h2, h2)))"

definition mutate_tuple :: "('f, 'h) perm_env \<Rightarrow> 'f \<Rightarrow> perm_tuple \<Rightarrow> perm_tuple \<Rightarrow> 'h \<Rightarrow> string option \<times> 'h" where
  "mutate_tuple E f expected target h =
     (if \<not> same_object expected target then (Some ''permission metadata mutation cannot change target identity or type'', h)
      else case verify_exact E f expected h of
          Some e \<Rightarrow> (Some e, h)
        | None \<Rightarrow> set_metadata E f (''change opened target ownership: '', ''change opened target mode: '') expected target h)"

definition set_and_verify :: "('f, 'h) perm_env \<Rightarrow> 'f \<Rightarrow> perm_tuple \<Rightarrow> 'h \<Rightarrow> string option \<times> 'h" where
  "set_and_verify E f target h =
     (case opened_tuple E f (pt_kind target) h of
        Inl e \<Rightarrow> (Some e, h)
      | Inr t \<Rightarrow>
         (if \<not> same_object t target then (Some ''opened permission target identity changed before restoration'', h)
          else set_metadata E f ([], []) t target h))"

definition restore_exact :: "('f, 'h) perm_env \<Rightarrow> 'f \<Rightarrow> perm_tuple \<Rightarrow> perm_tuple \<Rightarrow> 'h \<Rightarrow> string option \<times> 'h" where
  "restore_exact E f expected target h =
     (case verify_exact E f expected h of Some e \<Rightarrow> (Some e, h) | None \<Rightarrow> set_and_verify E f target h)"

definition restore_recognized :: "('f, 'h) perm_env \<Rightarrow> 'f \<Rightarrow> perm_tuple \<Rightarrow> perm_tuple \<Rightarrow> perm_tuple \<Rightarrow> 'h \<Rightarrow> string option \<times> 'h" where
  "restore_recognized E f one other target h =
     (case opened_tuple E f (pt_kind target) h of
        Inl e \<Rightarrow> (Some e, h)
      | Inr t \<Rightarrow>
         (if \<not> same_object t target \<or> (pt_mode t \<noteq> pt_mode one \<and> pt_mode t \<noteq> pt_mode other) \<or>
             \<not> ((pt_uid t = pt_uid one \<and> pt_gid t = pt_gid one) \<or> (pt_uid t = pt_uid other \<and> pt_gid t = pt_gid other))
          then (Some ''opened permission target entered an unrecognized metadata state'', h)
          else set_and_verify E f target h))"

definition verify_path :: "('f, 'h) perm_env \<Rightarrow> string \<Rightarrow> string \<Rightarrow> perm_tuple \<Rightarrow> 'h \<Rightarrow> string option" where
  "verify_path E root path expected h =
     (case open_validated_target E root path h of
        Inl e \<Rightarrow> Some e
      | Inr f \<Rightarrow>
         (case opened_tuple E f (pt_kind expected) h of
            Inl e \<Rightarrow> Some e
          | Inr t \<Rightarrow>
             (if \<not> same_object t expected then Some ''permission target pathname now resolves to a replacement inode''
              else if t \<noteq> expected then Some ''permission target pathname does not expose the expected mode and ownership'' else None)))"

end
