(* ===== verification/PermissionPhases.thy ===== *)
theory PermissionPhases
  imports FilePermission
begin

text \<open>
  The phases of the file permission repair playbook.
\<close>

section \<open>Before a change\<close>

definition perm_precheck :: "('f, 'h) perm_env \<Rightarrow> approved_path list \<Rightarrow> 'h phase" where
  "perm_precheck E rules i h =
     (case validate_target E rules (fst (pv_params E (inv_params i))) h of
        Inl e \<Rightarrow> (Inl e, h)
      | Inr (path, mode, r) \<Rightarrow>
         (case pv_stat E path h of
            Inl e \<Rightarrow> (Inl e, h)
          | Inr info \<Rightarrow> (Inr \<lparr>res_summary = ''permission target is inside an approved root'',
              res_details = [(''path'', DStr path), (''currentMode'', DStr (octal4 (fi_mode info))), (''requestedMode'', DStr (octal4 mode))]\<rparr>, h)))"

definition perm_preview :: "('f, 'h) perm_env \<Rightarrow> approved_path list \<Rightarrow> 'h phase" where
  "perm_preview E rules i h =
     (let p = fst (pv_params E (inv_params i))
      in case validate_target E rules p h of
          Inl e \<Rightarrow> (Inl e, h)
        | Inr (path, mode, r) \<Rightarrow>
           (Inr \<lparr>res_summary = ''repair permissions on one approved file or directory'',
              res_details = [(''path'', DStr path), (''mode'', DStr (octal4 mode)), (''singleTarget'', DBool True)] @
                (case pp_uid p of None \<Rightarrow> [] | Some u \<Rightarrow> [(''uid'', DInt u)]) @
                (case pp_gid p of None \<Rightarrow> [] | Some g \<Rightarrow> [(''gid'', DInt g)])\<rparr>, h))"

section \<open>The target of a phase\<close>

text \<open>
  What every phase after validation begins with: the hook, the opening of the validated path,
  and the identity of what was opened.
\<close>

definition open_target :: "('f, 'h) perm_env \<Rightarrow> string \<Rightarrow> string \<Rightarrow> string \<Rightarrow> 'h \<Rightarrow> string + 'f \<times> file_info" where
  "open_target E label root path h =
     (case open_validated_target E root path h of
        Inl e \<Rightarrow> Inl (label @ e)
      | Inr f \<Rightarrow> (case pv_fstat E f h of Inl e \<Rightarrow> Inl e | Inr info \<Rightarrow> Inr (f, info)))"

definition mode_allowed_for_target :: "file_info \<Rightarrow> file_mode \<Rightarrow> approved_path \<Rightarrow> bool" where
  "mode_allowed_for_target info mode r =
     (if is_dir (fi_mode info) then mode \<in> set (ap_dir_modes r)
      else is_regular (fi_mode info) \<and> mode \<in> set (ap_file_modes r))"

section \<open>Apply\<close>

definition perm_state_of :: "string \<Rightarrow> perm_tuple \<Rightarrow> perm_tuple \<Rightarrow> perm_state" where
  "perm_state_of path original target =
     \<lparr>pst_path = path, pst_device = pt_device original, pst_inode = pt_inode original, pst_version = 1,
       pst_kind = pt_kind original, pst_generation = pt_generation original,
       pst_mode = pt_mode original, pst_uid = pt_uid original, pst_gid = pt_gid original,
       pst_applied_mode = pt_mode target, pst_applied_uid = pt_uid target, pst_applied_gid = pt_gid target,
       pst_complete = False\<rparr>"

text \<open>From the encoded state on: check the path again, change the opened file, check the path once more.\<close>

definition perm_change :: "('f, 'h) perm_env \<Rightarrow> string \<Rightarrow> string \<Rightarrow> 'f \<Rightarrow> perm_tuple \<Rightarrow> perm_tuple \<Rightarrow> perm_state \<Rightarrow> bytes \<Rightarrow> 'h \<Rightarrow>
    apply_result \<times> string option \<times> 'h" where
  "perm_change E root path f original target st state h =
     (case verify_path E root path original h of
        Some e \<Rightarrow> (no_apply, Some (''permission target changed before metadata mutation: '' @ e), h)
      | None \<Rightarrow>
         (case mutate_tuple E f original target h of
            (Some e, h1) \<Rightarrow>
              (case restore_recognized E f original target original h1 of
                 (None, h2) \<Rightarrow> (no_apply, Some (''change approved target permissions failed and the opened inode was restored: '' @ e), h2)
               | (Some r, h2) \<Rightarrow> (no_apply\<lparr>apr_state := state\<rparr>,
                   Some (''change approved target permissions failed and direct restoration was incomplete: '' @ e @ [CHR 0x0A] @ r), h2))
          | (None, h1) \<Rightarrow>
              (let h2 = pv_hook E AfterWrite Apply h1
               in case verify_path E root path target h2 of
                   Some e \<Rightarrow>
                     (case restore_exact E f target original h2 of
                        (None, h3) \<Rightarrow> (no_apply,
                          Some (''permission target pathname changed during apply; the opened inode was restored: '' @ e), h3)
                      | (Some r, h3) \<Rightarrow> (no_apply\<lparr>apr_state := state\<rparr>,
                          Some (''permission target pathname changed during apply and the opened inode could not be safely restored: '' @
                            e @ [CHR 0x0A] @ r), h3))
                 | None \<Rightarrow>
                    (case pv_enc E (st\<lparr>pst_complete := True\<rparr>) of
                       Inl e \<Rightarrow> (no_apply\<lparr>apr_state := state\<rparr>, Some (''encode completed permission rollback state: '' @ e), h2)
                     | Inr state' \<Rightarrow> (\<lparr>apr_result = \<lparr>res_summary = ''approved file permissions repaired'',
                           res_details = [(''path'', DStr path), (''mode'', DStr (octal4 (pt_mode target)))]\<rparr>,
                         apr_state = state', apr_confirm_by = None\<rparr>, None, h2)))))"

definition perm_apply :: "('f, 'h) perm_env \<Rightarrow> approved_path list \<Rightarrow> invocation \<Rightarrow> 'h \<Rightarrow>
    apply_result \<times> string option \<times> 'h" where
  "perm_apply E rules i h =
     (let p = fst (pv_params E (inv_params i))
      in case validate_target E rules p h of
          Inl e \<Rightarrow> (no_apply, Some e, h)
        | Inr (path, mode, r) \<Rightarrow>
           (let h1 = pv_hook E BeforeOpen Apply h
            in case open_target E ''open permission target: '' (ap_resolved r) path h1 of
                Inl e \<Rightarrow> (no_apply, Some e, h1)
              | Inr (f, info) \<Rightarrow>
                 (if has_special_mode_bits (fi_mode info)
                  then (no_apply, Some ''permission target gained setuid, setgid, or sticky bits during validation'', h1)
                  else if \<not> mode_allowed_for_target info mode r
                  then (no_apply, Some ''permission target type changed after validation and the requested mode is not approved for its actual type'', h1)
                  else case file_object_generation E f [] h1 of
                      Inl e \<Rightarrow> (no_apply, Some e, h1)
                    | Inr g \<Rightarrow>
                       (let original = tuple_of info g;
                            target = original\<lparr>pt_mode := mode,
                              pt_uid := (case pp_uid p of None \<Rightarrow> fi_uid info | Some u \<Rightarrow> u),
                              pt_gid := (case pp_gid p of None \<Rightarrow> fi_gid info | Some u \<Rightarrow> u)\<rparr>;
                            st = perm_state_of path original target
                        in case pv_enc E st of
                            Inl e \<Rightarrow> (no_apply, Some e, h1)
                          | Inr state \<Rightarrow>
                             perm_change E (ap_resolved r) path f original target st state (pv_hook E BeforeWrite Apply h1)))))"

section \<open>After a change\<close>

definition valid_state_identity :: "perm_state \<Rightarrow> bool" where
  "valid_state_identity st \<longleftrightarrow> pst_version st = 1 \<and> pst_kind st \<noteq> [] \<and> length (pst_kind st) \<le> 128 \<and>
     pst_generation st \<noteq> [] \<and> length (pst_generation st) \<le> 1024"

definition state_matches_object :: "perm_state \<Rightarrow> perm_tuple \<Rightarrow> bool" where
  "state_matches_object st t \<longleftrightarrow> valid_state_identity st \<and> pst_device st = pt_device t \<and> pst_inode st = pt_inode t \<and>
     pt_kind t = pst_kind st \<and> pt_generation t \<noteq> [] \<and> pst_generation st = pt_generation t"

definition rollback_recognized :: "perm_state \<Rightarrow> perm_tuple \<Rightarrow> bool" where
  "rollback_recognized st t \<longleftrightarrow>
     (let original = (pt_mode t = pst_mode st \<and> pt_uid t = pst_uid st \<and> pt_gid t = pst_gid st);
          applied = (pt_mode t = pst_applied_mode st \<and> pt_uid t = pst_applied_uid st \<and> pt_gid t = pst_applied_gid st)
      in if pst_complete st then original \<or> applied
         else (pt_mode t = pst_mode st \<or> pt_mode t = pst_applied_mode st) \<and>
              ((pt_uid t = pst_uid st \<and> pt_gid t = pst_gid st) \<or> (pt_uid t = pst_applied_uid st \<and> pt_gid t = pst_applied_gid st)))"

definition perm_verify :: "('f, 'h) perm_env \<Rightarrow> approved_path list \<Rightarrow> 'h phase" where
  "perm_verify E rules i h =
     (case pv_dec E (inv_state i) of
        Inl _ \<Rightarrow> (Inl ''invalid file permission rollback state'', h)
      | Inr st \<Rightarrow>
         (case validate_target E rules (fst (pv_params E (inv_params i))) h of
            Inl e \<Rightarrow> (Inl e, h)
          | Inr (path, mode, r) \<Rightarrow>
             (if pst_path st \<noteq> path \<or> pst_applied_mode st \<noteq> mode then (Inl ''file permission state does not match the request'', h)
              else let h1 = pv_hook E BeforeOpen Verify h
              in case open_target E [] (ap_resolved r) path h1 of
                Inl e \<Rightarrow> (Inl e, h1)
              | Inr (f, info) \<Rightarrow>
                 (case file_object_generation E f (pst_kind st) h1 of
                    Inl e \<Rightarrow> (Inl e, h1)
                  | Inr g \<Rightarrow>
                     (let t = tuple_of info g
                      in if \<not> state_matches_object st t then (Inl ''permission target was replaced after apply'', h1)
                         else if has_special_mode_bits (fi_mode info) then (Inl ''permission target gained special bits after apply'', h1)
                         else if pt_mode t \<noteq> pst_applied_mode st \<or> pt_uid t \<noteq> pst_applied_uid st \<or> pt_gid t \<noteq> pst_applied_gid st
                         then (Inl ''file permission verification did not observe the requested mode and ownership'', h1)
                         else (Inr \<lparr>res_summary = ''file mode and ownership match the approved request'',
                             res_details = [(''path'', DStr path), (''mode'', DStr (octal4 (pt_mode t)))]\<rparr>, h1))))))"

text \<open>From the recognized guard on: the same guarded change, back to the original metadata.\<close>

definition perm_undo :: "('f, 'h) perm_env \<Rightarrow> string \<Rightarrow> string \<Rightarrow> 'f \<Rightarrow> perm_tuple \<Rightarrow> perm_tuple \<Rightarrow> 'h \<Rightarrow>
    (string + act_result) \<times> 'h" where
  "perm_undo E root path f guard original h =
     (case verify_path E root path guard h of
        Some e \<Rightarrow> (Inl (''permission target changed before rollback metadata mutation: '' @ e), h)
      | None \<Rightarrow>
         (case mutate_tuple E f guard original h of
            (Some e, h1) \<Rightarrow>
              (case restore_recognized E f guard original guard h1 of
                 (Some r, h2) \<Rightarrow> (Inl (''restore file permissions failed and the opened inode could not return to its pre-rollback tuple: '' @
                   e @ [CHR 0x0A] @ r), h2)
               | (None, h2) \<Rightarrow> (Inl (''restore file permissions failed without leaving the opened inode changed: '' @ e), h2))
          | (None, h1) \<Rightarrow>
              (let h2 = pv_hook E AfterWrite Rollback h1
               in case verify_path E root path original h2 of
                   Some e \<Rightarrow>
                     (case restore_exact E f original guard h2 of
                        (Some r, h3) \<Rightarrow> (Inl (''permission pathname changed during rollback and the opened inode could not return to its pre-rollback tuple: '' @
                          e @ [CHR 0x0A] @ r), h3)
                      | (None, h3) \<Rightarrow> (Inl (''permission pathname changed during rollback; the opened inode was returned to its pre-rollback tuple: '' @ e), h3))
                 | None \<Rightarrow> (Inr \<lparr>res_summary = ''original file mode and ownership restored'',
                      res_details = [(''path'', DStr path), (''mode'', DStr (octal4 (pt_mode original)))]\<rparr>, h2))))"

definition perm_rollback :: "('f, 'h) perm_env \<Rightarrow> approved_path list \<Rightarrow> 'h phase" where
  "perm_rollback E rules i h =
     (case pv_dec E (inv_state i) of
        Inl _ \<Rightarrow> (Inl ''invalid file permission rollback state'', h)
      | Inr st \<Rightarrow>
         (if \<not> valid_state_identity st \<or> \<not> only_perm (pst_mode st) \<or> pst_uid st < 0 \<or> pst_gid st < 0
          then (Inl ''invalid file permission rollback state'', h)
          else case validate_target E rules (fst (pv_params E (inv_params i))) h of
            Inl e \<Rightarrow> (Inl e, h)
          | Inr (path, _, r) \<Rightarrow>
             (if pst_path st \<noteq> path then (Inl ''file permission rollback target does not match the request'', h)
              else let h1 = pv_hook E BeforeOpen Rollback h
              in case open_target E [] (ap_resolved r) path h1 of
                Inl e \<Rightarrow> (Inl e, h1)
              | Inr (f, info) \<Rightarrow>
                 (case file_object_generation E f (pst_kind st) h1 of
                    Inl e \<Rightarrow> (Inl e, h1)
                  | Inr g \<Rightarrow>
                     (let guard = tuple_of info g
                      in if \<not> state_matches_object st guard
                         then (Inl ''permission target was replaced after apply; refusing stale rollback'', h1)
                         else if has_special_mode_bits (fi_mode info)
                         then (Inl ''permission target gained special bits after apply; refusing stale rollback'', h1)
                         else if \<not> rollback_recognized st guard
                         then (Inl ''permission target has an unrecognized partial state; refusing rollback'', h1)
                         else perm_undo E (ap_resolved r) path f guard
                           (guard\<lparr>pt_mode := pst_mode st, pt_uid := pst_uid st, pt_gid := pst_gid st\<rparr>)
                           (pv_hook E BeforeWrite Rollback h1))))))"

definition permission_playbook :: "('f, 'h) perm_env \<Rightarrow> approved_path list \<Rightarrow> 'h playbook" where
  "permission_playbook E rules = \<lparr>pb_type = TypeFilePermissionRepair, pb_validate = perm_validate E rules,
     pb_precheck = perm_precheck E rules, pb_preview = perm_preview E rules, pb_apply = perm_apply E rules,
     pb_verify = perm_verify E rules, pb_rollback = perm_rollback E rules, pb_confirm = None\<rparr>"

end
