(* ===== verification/PermissionProps.thy ===== *)
theory PermissionProps
  imports PermissionPhases
begin

text \<open>
  What the file permission repair guarantees against a file system that others change at the
  same time: it writes only approved metadata, only through the file it opened below an
  approved root, and a failure without recovery state leaves that file as it was found.
\<close>

section \<open>Writes\<close>

text \<open>
  The states reached by changing owner or mode of the open file \<open>f\<close>, with values taken from
  the tuples \<open>T\<close>, and by whatever others do at the hooks.
\<close>

inductive file_writes :: "('f, 'h) perm_env \<Rightarrow> 'f \<Rightarrow> perm_tuple set \<Rightarrow> 'h \<Rightarrow> 'h \<Rightarrow> bool" for E f T h where
  Same: "file_writes E f T h h"
| Chown: "file_writes E f T h h1 \<Longrightarrow> t \<in> T \<Longrightarrow> file_writes E f T h (snd (pv_chown E f (pt_uid t) (pt_gid t) h1))"
| Chmod: "file_writes E f T h h1 \<Longrightarrow> t \<in> T \<Longrightarrow> file_writes E f T h (snd (pv_chmod E f (pt_mode t) h1))"
| Others: "file_writes E f T h h1 \<Longrightarrow> file_writes E f T h (pv_hook E k op h1)"

lemma set_metadata_writes:
  assumes "set_metadata E f ls now target h1 = (r, h2)" and "file_writes E f T h h1" and "target \<in> T"
  shows "file_writes E f T h h2"
proof -
  obtain e1 ha where a: "(if pt_uid now \<noteq> pt_uid target \<or> pt_gid now \<noteq> pt_gid target
      then pv_chown E f (pt_uid target) (pt_gid target) h1 else (None, h1)) = (e1, ha)" by force
  have wa: "file_writes E f T h ha"
    using a assms(2,3) file_writes.Chown [OF assms(2,3)] by (auto split: if_splits)
  obtain e2 hb where b: "(if pt_mode now \<noteq> pt_mode target then pv_chmod E f (pt_mode target) ha else (None, ha)) = (e2, hb)" by force
  have wb: "file_writes E f T h hb"
    using b wa file_writes.Chmod [OF wa assms(3)] by (auto split: if_splits)
  show ?thesis
    using assms(1) wa wb unfolding set_metadata_def a b Let_def prod.case
    by (auto split: option.splits)
qed

lemma mutate_writes:
  assumes "mutate_tuple E f x target h1 = (r, h2)" and "file_writes E f T h h1" and "target \<in> T"
  shows "file_writes E f T h h2"
  using assms set_metadata_writes unfolding mutate_tuple_def
  by (fastforce split: if_splits option.splits)

lemma set_and_verify_writes:
  assumes "set_and_verify E f target h1 = (r, h2)" and "file_writes E f T h h1" and "target \<in> T"
  shows "file_writes E f T h h2"
  using assms set_metadata_writes unfolding set_and_verify_def
  by (fastforce split: if_splits sum.splits)

lemma restore_writes:
  shows "restore_exact E f x target h1 = (r, h2) \<Longrightarrow> file_writes E f T h h1 \<Longrightarrow> target \<in> T \<Longrightarrow> file_writes E f T h h2"
    and "restore_recognized E f x y target h1 = (r, h2) \<Longrightarrow> file_writes E f T h h1 \<Longrightarrow> target \<in> T \<Longrightarrow> file_writes E f T h h2"
  using set_and_verify_writes
  by (fastforce simp: restore_exact_def restore_recognized_def split: if_splits sum.splits option.splits)+

section \<open>Guards\<close>

lemma verify_exact_None [simp]: "verify_exact E f t h = None \<longleftrightarrow> opened_tuple E f (pt_kind t) h = Inr t"
  by (auto simp: verify_exact_def split: sum.split)

lemma set_metadata_ok: "set_metadata E f ls now target h = (None, h') \<Longrightarrow> opened_tuple E f (pt_kind target) h' = Inr target"
  by (auto simp: set_metadata_def Let_def split: prod.splits option.splits)

lemma set_and_verify_ok: "set_and_verify E f t h = (None, h') \<Longrightarrow> opened_tuple E f (pt_kind t) h' = Inr t"
  by (auto simp: set_and_verify_def split: sum.splits if_splits dest: set_metadata_ok)

lemma restore_ok:
  shows "restore_exact E f x t h = (None, h') \<Longrightarrow> opened_tuple E f (pt_kind t) h' = Inr t"
    and "restore_recognized E f x y t h = (None, h') \<Longrightarrow> opened_tuple E f (pt_kind t) h' = Inr t"
  by (auto simp: restore_exact_def restore_recognized_def split: sum.splits option.splits if_splits dest: set_and_verify_ok)

lemma mutate_ok: "mutate_tuple E f x t h = (None, h') \<Longrightarrow> opened_tuple E f (pt_kind t) h' = Inr t"
  by (auto simp: mutate_tuple_def split: if_splits option.splits dest: set_metadata_ok)

lemma verify_path_None:
  "verify_path E root path t h = None \<longleftrightarrow>
     (\<exists>f. open_validated_target E root path h = Inr f \<and> opened_tuple E f (pt_kind t) h = Inr t \<and> same_object t t)"
  by (auto simp: verify_path_def split: sum.split)

lemma generation_kind:
  assumes "file_object_generation E f [] h = Inr g"
  shows "file_object_generation E f (fst g) h = Inr g" and "fst g \<noteq> []"
proof -
  have kinds: "linuxFileHandleFIDKind \<noteq> []" "linuxFileHandleClassicKind \<noteq> []" "linuxFileHandleClassicKind \<noteq> linuxFileHandleFIDKind"
    by (simp_all add: linuxFileHandleFIDKind_def linuxFileHandleClassicKind_def)
  have hg: "handle_generation E f k b h = Inr g \<Longrightarrow> fst g = k" for k b
    by (auto simp: handle_generation_def split: sum.splits if_splits)
  from assms show "file_object_generation E f (fst g) h = Inr g" "fst g \<noteq> []"
    using kinds hg by (fastforce simp: file_object_generation_def split: sum.splits)+
qed

lemma opened_tuple_of:
  assumes "pv_fstat E f h = Inr info" and "file_object_generation E f [] h = Inr g"
    and "\<not> has_special_mode_bits (fi_mode info)" and "is_dir (fi_mode info) \<or> is_regular (fi_mode info)"
  shows "opened_tuple E f (fst g) h = Inr (tuple_of info g)"
  using assms generation_kind [OF assms(2)] by (auto simp: opened_tuple_def)

section \<open>Applying\<close>

text \<open>How an application can end after its target was opened.\<close>

lemma perm_change_cases:
  assumes "perm_change E root path f original target st state h = (r, e, h')"
  shows "h' = h \<and> e \<noteq> None \<and> apr_state r = []
    \<or> (verify_path E root path original h = None \<and> file_writes E f {original, target} h h' \<and>
       (e \<noteq> None \<and> apr_state r = [] \<longrightarrow> opened_tuple E f (pt_kind original) h' = Inr original) \<and>
       (e = None \<longrightarrow> verify_path E root path target h' = None \<and> pv_enc E (st\<lparr>pst_complete := True\<rparr>) = Inr (apr_state r)))
    \<or> (e \<noteq> None \<and> apr_state r = state \<and> file_writes E f {original, target} h h' \<and> verify_path E root path original h = None)"
proof (cases "verify_path E root path original h")
  case (Some m)
  then show ?thesis using assms by (auto simp: perm_change_def no_apply_def)
next
  case ok: None
  obtain m h1 where mu: "mutate_tuple E f original target h = (m, h1)" by force
  have w1: "file_writes E f {original, target} h h1" by (rule mutate_writes [OF mu file_writes.Same]) simp
  show ?thesis
  proof (cases m)
    case (Some me)
    obtain q h2 where q: "restore_recognized E f original target original h1 = (q, h2)" by force
    have "file_writes E f {original, target} h h2" by (rule restore_writes(2) [OF q w1]) simp
    then show ?thesis using assms ok mu Some q restore_ok(2) [of E f original target original h1 h2]
      by (cases q) (auto simp: perm_change_def no_apply_def)
  next
    case None
    define h2 where "h2 = pv_hook E AfterWrite Apply h1"
    have w2: "file_writes E f {original, target} h h2" unfolding h2_def by (rule file_writes.Others [OF w1])
    show ?thesis
    proof (cases "verify_path E root path target h2")
      case (Some ve)
      obtain q h3 where q: "restore_exact E f target original h2 = (q, h3)" by force
      have "file_writes E f {original, target} h h3" by (rule restore_writes(1) [OF q w2]) simp
      then show ?thesis using assms ok mu None Some q restore_ok(1) [of E f target original h2 h3]
        by (cases q) (auto simp: perm_change_def no_apply_def h2_def [symmetric] Let_def)
    next
      case ve: None
      show ?thesis using assms ok mu None ve w2
        by (cases "pv_enc E (st\<lparr>pst_complete := True\<rparr>)") (auto simp: perm_change_def no_apply_def h2_def [symmetric] Let_def)
    qed
  qed
qed

lemma open_target_Inr:
  "open_target E l root path h = Inr (f, info) \<longleftrightarrow> open_validated_target E root path h = Inr f \<and> pv_fstat E f h = Inr info"
  by (auto simp: open_target_def split: sum.split)

lemma perm_apply_cases:
  assumes "perm_apply E rules i h = (r, e, h')"
  obtains "e \<noteq> None" and "apr_state r = []" and "h' = h \<or> h' = pv_hook E BeforeOpen Apply h"
  | path mode rule f info g st state where
    "validate_target E rules (fst (pv_params E (inv_params i))) h = Inr (path, mode, rule)"
    "open_validated_target E (ap_resolved rule) path (pv_hook E BeforeOpen Apply h) = Inr f"
    "opened_tuple E f (fst g) (pv_hook E BeforeOpen Apply h) = Inr (tuple_of info g)"
    "mode \<in> set (modes_for (is_dir (fi_mode info)) rule)"
    "st = perm_state_of path (tuple_of info g) ((tuple_of info g)\<lparr>pt_mode := mode,
       pt_uid := (case pp_uid (fst (pv_params E (inv_params i))) of None \<Rightarrow> fi_uid info | Some u \<Rightarrow> u),
       pt_gid := (case pp_gid (fst (pv_params E (inv_params i))) of None \<Rightarrow> fi_gid info | Some u \<Rightarrow> u)\<rparr>)"
    "pv_enc E st = Inr state"
    "perm_change E (ap_resolved rule) path f (tuple_of info g) ((tuple_of info g)\<lparr>pt_mode := mode,
       pt_uid := (case pp_uid (fst (pv_params E (inv_params i))) of None \<Rightarrow> fi_uid info | Some u \<Rightarrow> u),
       pt_gid := (case pp_gid (fst (pv_params E (inv_params i))) of None \<Rightarrow> fi_gid info | Some u \<Rightarrow> u)\<rparr>)
       st state (pv_hook E BeforeWrite Apply (pv_hook E BeforeOpen Apply h)) = (r, e, h')"
proof -
  define h1 where "h1 = pv_hook E BeforeOpen Apply h"
  define p where "p = fst (pv_params E (inv_params i))"
  show ?thesis
  proof (cases "validate_target E rules p h")
    case (Inl m)
    then show ?thesis using assms that(1) by (auto simp: perm_apply_def p_def [symmetric] no_apply_def Let_def)
  next
    case (Inr x)
    obtain path mode rule where v: "validate_target E rules p h = Inr (path, mode, rule)" using Inr by (cases x) auto
    show ?thesis
    proof (cases "open_target E ''open permission target: '' (ap_resolved rule) path h1")
      case (Inl m)
      then show ?thesis using assms v that(1)
        by (auto simp: perm_apply_def p_def [symmetric] h1_def [symmetric] no_apply_def Let_def)
    next
      case (Inr y)
      obtain f info where o: "open_target E ''open permission target: '' (ap_resolved rule) path h1 = Inr (f, info)"
        using Inr by (cases y) auto
      note o' = o [unfolded open_target_Inr]
      show ?thesis
      proof (cases "has_special_mode_bits (fi_mode info) \<or> \<not> mode_allowed_for_target info mode rule \<or>
          (\<exists>m. file_object_generation E f [] h1 = Inl m)")
        case True
        then show ?thesis using assms v o that(1)
          by (auto simp: perm_apply_def p_def [symmetric] h1_def [symmetric] no_apply_def Let_def split: if_splits)
      next
        case False
        then obtain g where g: "file_object_generation E f [] h1 = Inr g" by (cases "file_object_generation E f [] h1") auto
        have ok: "is_dir (fi_mode info) \<or> is_regular (fi_mode info)" "mode \<in> set (modes_for (is_dir (fi_mode info)) rule)"
          using False by (auto simp: mode_allowed_for_target_def modes_for_def split: if_splits)
        have t: "opened_tuple E f (fst g) h1 = Inr (tuple_of info g)"
          using opened_tuple_of [OF conjunct2 [OF o'] g] False ok(1) by blast
        show ?thesis
        proof (cases "pv_enc E (perm_state_of path (tuple_of info g) ((tuple_of info g)\<lparr>pt_mode := mode,
            pt_uid := (case pp_uid p of None \<Rightarrow> fi_uid info | Some u \<Rightarrow> u),
            pt_gid := (case pp_gid p of None \<Rightarrow> fi_gid info | Some u \<Rightarrow> u)\<rparr>))")
          case (Inl m)
          then show ?thesis using assms v o False g that(1)
            by (auto simp: perm_apply_def p_def [symmetric] h1_def [symmetric] no_apply_def Let_def)
        next
          case (Inr state)
          have "perm_change E (ap_resolved rule) path f (tuple_of info g) ((tuple_of info g)\<lparr>pt_mode := mode,
              pt_uid := (case pp_uid p of None \<Rightarrow> fi_uid info | Some u \<Rightarrow> u),
              pt_gid := (case pp_gid p of None \<Rightarrow> fi_gid info | Some u \<Rightarrow> u)\<rparr>)
              (perm_state_of path (tuple_of info g) ((tuple_of info g)\<lparr>pt_mode := mode,
              pt_uid := (case pp_uid p of None \<Rightarrow> fi_uid info | Some u \<Rightarrow> u),
              pt_gid := (case pp_gid p of None \<Rightarrow> fi_gid info | Some u \<Rightarrow> u)\<rparr>)) state (pv_hook E BeforeWrite Apply h1) = (r, e, h')"
            using assms v o False g Inr by (simp add: perm_apply_def p_def [symmetric] h1_def [symmetric] Let_def)
          then show ?thesis
            using that(2) [OF v [unfolded p_def] conjunct1 [OF o' [unfolded h1_def]] t [unfolded h1_def] ok(2) refl] Inr
            unfolding h1_def p_def by blast
        qed
      qed
    qed
  qed
qed

lemma tuple_of_kind [simp]: "pt_kind (tuple_of info g) = fst g"
  by (simp add: tuple_of_def)

lemma validate_target_sound:
  assumes "validate_target E rules p h = Inr (path, mode, rule)"
  shows "rule \<in> set rules" and "path = ap_resolved rule \<or> ap_descendants rule \<and> path_within (ap_resolved rule) path"
    and "\<not> protected_permission_repair_path path"
    and "id_allowed (pp_uid p) (ap_uids rule)" and "id_allowed (pp_gid p) (ap_gids rule)"
  using assms
  by (auto simp: validate_target_def select_rule_def Let_def split: if_splits sum.splits option.splits dest!: find_SomeD)

text \<open>
  C25: A failure without recovery state changes nothing.  When an application fails and
  returns no state to roll back with, then either nothing was written at all, or the file it
  had opened shows, at the end, exactly the identity, mode and owner that it showed when it
  was opened; whatever other processes did in between.
\<close>

theorem failed_apply_leaves_file:
  assumes "perm_apply E rules i h = (r, Some e, h')" and "apr_state r = []"
    and "\<forall>st b. pv_enc E st = Inr b \<longrightarrow> b \<noteq> []"
  shows "h' \<in> {h, pv_hook E BeforeOpen Apply h, pv_hook E BeforeWrite Apply (pv_hook E BeforeOpen Apply h)} \<or>
    (\<exists>path mode rule f t. validate_target E rules (fst (pv_params E (inv_params i))) h = Inr (path, mode, rule) \<and>
       open_validated_target E (ap_resolved rule) path (pv_hook E BeforeOpen Apply h) = Inr f \<and>
       opened_tuple E f (pt_kind t) (pv_hook E BeforeOpen Apply h) = Inr t \<and> opened_tuple E f (pt_kind t) h' = Inr t)"
  using assms(1)
proof (cases rule: perm_apply_cases)
  case 1
  then show ?thesis by auto
next
  case (2 path mode rule f info g st state)
  have ne: "state \<noteq> []" using assms(3) 2(6) by blast
  from perm_change_cases [OF 2(7)] show ?thesis
  proof (elim disjE conjE)
    assume "h' = pv_hook E BeforeWrite Apply (pv_hook E BeforeOpen Apply h)"
    then show ?thesis by simp
  next
    assume "Some e \<noteq> None \<and> apr_state r = [] \<longrightarrow> opened_tuple E f (pt_kind (tuple_of info g)) h' = Inr (tuple_of info g)"
    then have "opened_tuple E f (pt_kind (tuple_of info g)) h' = Inr (tuple_of info g)" using assms(2) by simp
    then show ?thesis using 2(1,2,3)
      by (intro disjI2 exI [of _ path] exI [of _ mode] exI [of _ rule] exI [of _ f] exI [of _ "tuple_of info g"] conjI) simp_all
  next
    assume "apr_state r = state"
    then show ?thesis using ne assms(2) by simp
  qed
qed

text \<open>
  C24: An application writes only what was approved, only to the file it opened.  Either
  nothing was written, or every write went through the file opened, component by component,
  below the resolved path of an approved rule, with the owner and mode found there or with an
  owner approved by the rule (or left as it was) and a mode that the rule approves for what
  the opened object actually is; on success the path shows exactly that metadata.
\<close>

theorem apply_writes_approved:
  assumes "perm_apply E rules i h = (r, e, h')"
  shows "h' \<in> {h, pv_hook E BeforeOpen Apply h, pv_hook E BeforeWrite Apply (pv_hook E BeforeOpen Apply h)} \<and> e \<noteq> None \<or>
    (\<exists>path mode rule f t t'. rule \<in> set rules \<and> \<not> protected_permission_repair_path path \<and>
       (path = ap_resolved rule \<or> ap_descendants rule \<and> path_within (ap_resolved rule) path) \<and>
       open_validated_target E (ap_resolved rule) path (pv_hook E BeforeOpen Apply h) = Inr f \<and>
       opened_tuple E f (pt_kind t) (pv_hook E BeforeOpen Apply h) = Inr t \<and>
       pt_mode t' = mode \<and> mode \<in> set (modes_for (pt_dir t) rule) \<and>
       (pt_uid t' = pt_uid t \<or> pt_uid t' \<in> set (ap_uids rule)) \<and> (pt_gid t' = pt_gid t \<or> pt_gid t' \<in> set (ap_gids rule)) \<and>
       file_writes E f {t, t'} (pv_hook E BeforeWrite Apply (pv_hook E BeforeOpen Apply h)) h' \<and>
       (e = None \<longrightarrow> verify_path E (ap_resolved rule) path t' h' = None))"
  using assms
proof (cases rule: perm_apply_cases)
  case 1
  then show ?thesis by auto
next
  case (2 path mode rule f info g st state)
  define t' where "t' = (tuple_of info g)\<lparr>pt_mode := mode,
       pt_uid := (case pp_uid (fst (pv_params E (inv_params i))) of None \<Rightarrow> fi_uid info | Some u \<Rightarrow> u),
       pt_gid := (case pp_gid (fst (pv_params E (inv_params i))) of None \<Rightarrow> fi_gid info | Some u \<Rightarrow> u)\<rparr>"
  note v = validate_target_sound [OF 2(1)]
  have ids: "pt_uid t' = pt_uid (tuple_of info g) \<or> pt_uid t' \<in> set (ap_uids rule)"
    "pt_gid t' = pt_gid (tuple_of info g) \<or> pt_gid t' \<in> set (ap_gids rule)" "pt_mode t' = mode"
    using v(4,5) by (auto simp: t'_def tuple_of_def id_allowed_def split: option.splits)
  have m: "mode \<in> set (modes_for (pt_dir (tuple_of info g)) rule)" using 2(4) by (simp add: tuple_of_def)
  have o: "opened_tuple E f (pt_kind (tuple_of info g)) (pv_hook E BeforeOpen Apply h) = Inr (tuple_of info g)"
    using 2(3) by simp
  from perm_change_cases [OF 2(7) [folded t'_def]]
  have "h' = pv_hook E BeforeWrite Apply (pv_hook E BeforeOpen Apply h) \<and> e \<noteq> None \<or>
      file_writes E f {tuple_of info g, t'} (pv_hook E BeforeWrite Apply (pv_hook E BeforeOpen Apply h)) h' \<and>
      (e = None \<longrightarrow> verify_path E (ap_resolved rule) path t' h' = None)" by blast
  then show ?thesis
  proof
    assume w: "file_writes E f {tuple_of info g, t'} (pv_hook E BeforeWrite Apply (pv_hook E BeforeOpen Apply h)) h' \<and>
      (e = None \<longrightarrow> verify_path E (ap_resolved rule) path t' h' = None)"
    show ?thesis
      using v(1-3) 2(2) o ids m w
      by (rule_tac disjI2, intro exI [of _ path] exI [of _ mode] exI [of _ rule] exI [of _ f]
          exI [of _ "tuple_of info g"] exI [of _ t'] conjI) simp_all
  qed auto
qed

section \<open>Rolling back\<close>

lemma perm_undo_cases:
  assumes "perm_undo E root path f guard original h = (res, h')"
  shows "h' = h \<and> (\<exists>e. res = Inl e)
    \<or> (verify_path E root path guard h = None \<and> file_writes E f {guard, original} h h' \<and>
       (\<forall>x. res = Inr x \<longrightarrow> verify_path E root path original h' = None))"
proof (cases "verify_path E root path guard h")
  case (Some m)
  then show ?thesis using assms by (auto simp: perm_undo_def)
next
  case ok: None
  obtain m h1 where mu: "mutate_tuple E f guard original h = (m, h1)" by force
  have w1: "file_writes E f {guard, original} h h1" by (rule mutate_writes [OF mu file_writes.Same]) simp
  show ?thesis
  proof (cases m)
    case (Some me)
    obtain q h2 where q: "restore_recognized E f guard original guard h1 = (q, h2)" by force
    have "file_writes E f {guard, original} h h2" by (rule restore_writes(2) [OF q w1]) simp
    then show ?thesis using assms ok mu Some q by (cases q) (auto simp: perm_undo_def)
  next
    case None
    define h2 where "h2 = pv_hook E AfterWrite Rollback h1"
    have w2: "file_writes E f {guard, original} h h2" unfolding h2_def by (rule file_writes.Others [OF w1])
    obtain q h3 where q: "restore_exact E f original guard h2 = (q, h3)" by force
    have "file_writes E f {guard, original} h h3" by (rule restore_writes(1) [OF q w2]) simp
    then show ?thesis using assms ok mu None q w2
      by (cases "verify_path E root path original h2"; cases q) (auto simp: perm_undo_def h2_def [symmetric] Let_def)
  qed
qed

text \<open>
  A rollback restores only the object that was changed.  Either nothing is written, or
  the request carried a valid state for this very path, the object opened has the device,
  inode and generation of the state, its metadata is the original, the applied or (for an
  incomplete application) a mixture of them, and every write goes through that opened file
  with the metadata found or the recorded original; on success the path shows the original.
\<close>

theorem rollback_same_object:
  assumes "perm_rollback E rules i h = (res, h')"
  shows "h' \<in> {h, pv_hook E BeforeOpen Rollback h, pv_hook E BeforeWrite Rollback (pv_hook E BeforeOpen Rollback h)} \<and> (\<exists>e. res = Inl e) \<or>
    (\<exists>st mode rule f t t'. pv_dec E (inv_state i) = Inr st \<and>
       validate_target E rules (fst (pv_params E (inv_params i))) h = Inr (pst_path st, mode, rule) \<and>
       open_validated_target E (ap_resolved rule) (pst_path st) (pv_hook E BeforeOpen Rollback h) = Inr f \<and>
       state_matches_object st t \<and> rollback_recognized st t \<and>
       t' = t\<lparr>pt_mode := pst_mode st, pt_uid := pst_uid st, pt_gid := pst_gid st\<rparr> \<and> only_perm (pt_mode t') \<and>
       file_writes E f {t, t'} (pv_hook E BeforeWrite Rollback (pv_hook E BeforeOpen Rollback h)) h' \<and>
       (\<forall>x. res = Inr x \<longrightarrow> verify_path E (ap_resolved rule) (pst_path st) t' h' = None))"
proof (cases "pv_dec E (inv_state i)")
  case (Inl m)
  then show ?thesis using assms by (auto simp: perm_rollback_def)
next
  case st: (Inr st)
  define h1 where "h1 = pv_hook E BeforeOpen Rollback h"
  show ?thesis
  proof (cases "\<not> valid_state_identity st \<or> \<not> only_perm (pst_mode st) \<or> pst_uid st < 0 \<or> pst_gid st < 0 \<or>
      (\<exists>m. validate_target E rules (fst (pv_params E (inv_params i))) h = Inl m)")
    case True
    then show ?thesis using assms st by (auto simp: perm_rollback_def split: if_splits)
  next
    case ok: False
    then obtain path mode rule where v: "validate_target E rules (fst (pv_params E (inv_params i))) h = Inr (path, mode, rule)"
      by (cases "validate_target E rules (fst (pv_params E (inv_params i))) h") auto
    show ?thesis
    proof (cases "pst_path st \<noteq> path \<or> (\<exists>m. open_target E [] (ap_resolved rule) path h1 = Inl m)")
      case True
      then show ?thesis using assms st ok v by (auto simp: perm_rollback_def h1_def [symmetric] Let_def split: if_splits)
    next
      case same: False
      then obtain f info where o: "open_target E [] (ap_resolved rule) path h1 = Inr (f, info)"
        by (cases "open_target E [] (ap_resolved rule) path h1") auto
      note o' = o [unfolded open_target_Inr]
      show ?thesis
      proof (cases "file_object_generation E f (pst_kind st) h1")
        case (Inl m)
        then show ?thesis using assms st ok v same o by (auto simp: perm_rollback_def h1_def [symmetric] Let_def)
      next
        case (Inr g)
        define t where "t = tuple_of info g"
        show ?thesis
        proof (cases "\<not> state_matches_object st t \<or> has_special_mode_bits (fi_mode info) \<or> \<not> rollback_recognized st t")
          case True
          then show ?thesis using assms st ok v same o Inr
            by (auto simp: perm_rollback_def h1_def [symmetric] t_def [symmetric] Let_def split: if_splits)
        next
          case False
          define t' where "t' = t\<lparr>pt_mode := pst_mode st, pt_uid := pst_uid st, pt_gid := pst_gid st\<rparr>"
          have "perm_undo E (ap_resolved rule) path f t t' (pv_hook E BeforeWrite Rollback h1) = (res, h')"
            using assms st ok v same o Inr False
            by (simp add: perm_rollback_def h1_def [symmetric] t_def [symmetric] t'_def [symmetric] Let_def)
          from perm_undo_cases [OF this] show ?thesis
          proof
            assume "verify_path E (ap_resolved rule) path t (pv_hook E BeforeWrite Rollback h1) = None \<and>
              file_writes E f {t, t'} (pv_hook E BeforeWrite Rollback h1) h' \<and>
              (\<forall>x. res = Inr x \<longrightarrow> verify_path E (ap_resolved rule) path t' h' = None)"
            then show ?thesis using st v same o' False ok
              by (intro disjI2 exI [of _ st] exI [of _ mode] exI [of _ rule] exI [of _ f] exI [of _ t] exI [of _ t'] conjI)
                (auto simp: t'_def h1_def)
          qed (auto simp: h1_def)
        qed
      qed
    qed
  qed
qed

end
