(* ===== verification/PermissionPaths.thy ===== *)
theory PermissionPaths
  imports FilePermission
begin

text \<open>
  The privilege boundary of permission repairs, read component by component.
\<close>

section \<open>Components of a cleaned absolute path\<close>

definition plain_elem :: "string \<Rightarrow> bool" where
  "plain_elem e \<longleftrightarrow> e \<noteq> [] \<and> e \<noteq> ''.'' \<and> e \<noteq> ''..'' \<and> CHR ''/'' \<notin> set e"

lemma clean_elems_rooted:
  "list_all plain_elem out \<Longrightarrow> list_all (\<lambda>e. CHR ''/'' \<notin> set e) es \<Longrightarrow> list_all plain_elem (clean_elems True out es)"
proof (induction True out es rule: clean_elems.induct)
  case (1 out)
  then show ?case by (simp add: list_all_iff)
next
  case (2 out e es)
  then show ?case by (cases out) (auto simp: plain_elem_def)
qed

lemma split_on_slash: "list_all (\<lambda>e. sep \<notin> set e) (split_on sep s)"
  by (induction s) (auto split: list.split)

lemma split_join_with:
  "es \<noteq> [] \<Longrightarrow> list_all (\<lambda>e. sep \<notin> set e) es \<Longrightarrow> split_on sep (join_with sep es) = es"
proof (induction es)
  case (Cons e es)
  show ?case
  proof (cases es)
    case Nil
    then show ?thesis using Cons.prems by (simp add: join_with_def split_on_none)
  next
    case (Cons x xs)
    have "join_with sep (e # es) = e @ sep # join_with sep es" by (simp add: join_with_def Cons)
    then show ?thesis using Cons Cons.IH Cons.prems by (simp add: split_on_append)
  qed
qed simp

lemma abs_clean:
  assumes "is_abs p"
  shows "path_clean p = CHR ''/'' # join_with (CHR ''/'') (path_elems p)" and "list_all plain_elem (path_elems p)"
proof -
  define es where "es = clean_elems True [] (split_on (CHR ''/'') p)"
  have es: "list_all plain_elem es" unfolding es_def by (rule clean_elems_rooted) (simp_all add: split_on_slash)
  have c: "path_clean p = CHR ''/'' # join_with (CHR ''/'') es" using assms by (simp add: path_clean_def es_def Let_def)
  have "path_elems p = es"
  proof (cases es)
    case Nil
    then show ?thesis by (simp add: path_elems_def c join_with_def)
  next
    case (Cons e es')
    have "split_on (CHR ''/'') (join_with (CHR ''/'') es) = es"
      using es Cons by (intro split_join_with) (auto simp: list_all_iff plain_elem_def)
    then have "path_elems p = filter (\<lambda>e. e \<noteq> []) es" by (simp add: path_elems_def c)
    also have "\<dots> = es" using es by (simp add: list_all_iff plain_elem_def)
    finally show ?thesis .
  qed
  then show "path_clean p = CHR ''/'' # join_with (CHR ''/'') (path_elems p)" "list_all plain_elem (path_elems p)"
    using c es by simp_all
qed

lemma path_clean_eq_iff:
  assumes "is_abs p" and "is_abs q"
  shows "path_clean p = path_clean q \<longleftrightarrow> path_elems p = path_elems q"
proof
  assume "path_clean p = path_clean q"
  then show "path_elems p = path_elems q" by (simp add: path_elems_def)
next
  assume "path_elems p = path_elems q"
  then show "path_clean p = path_clean q" using abs_clean(1) assms by simp
qed

lemma clean_is_abs: "is_abs p \<Longrightarrow> is_abs (path_clean p)"
  by (simp add: abs_clean(1)) (simp add: is_abs_def)

lemma path_elems_clean:
  assumes "is_abs p"
  shows "path_elems (path_clean p) = path_elems p"
proof (cases "path_elems p")
  case Nil
  have "path_clean p = ''/''" using abs_clean(1) [OF assms] Nil by (simp add: join_with_def)
  moreover have "path_elems ''/'' = []" by code_simp
  ultimately show ?thesis using Nil by simp
next
  case (Cons e es)
  let ?es = "path_elems p"
  have pl: "list_all plain_elem ?es" by (rule abs_clean(2) [OF assms])
  have sp: "split_on (CHR ''/'') (path_clean p) = [] # ?es"
    using pl Cons by (simp add: abs_clean(1) [OF assms] split_join_with list_all_iff plain_elem_def)
  have fix_clean: "list_all plain_elem xs \<Longrightarrow> clean_elems True out xs = rev out @ xs" for out xs
    by (induction xs arbitrary: out) (auto simp: plain_elem_def)
  have "clean_elems True [] ([] # ?es) = ?es" using fix_clean [OF pl, of "[]"] by simp
  then have "path_clean (path_clean p) = CHR ''/'' # join_with (CHR ''/'') ?es"
    using clean_is_abs [OF assms] by (simp add: path_clean_def [of "path_clean p"] sp Let_def)
  then have "path_clean (path_clean p) = path_clean p" using abs_clean(1) [OF assms] by simp
  then show ?thesis by (simp add: path_elems_def)
qed

section \<open>Containment\<close>

lemma rel_elems_prefix: "rel_elems bs (bs @ ts) = ts"
  by (induction bs) (cases ts, simp_all)

lemma rel_elems_cases:
  "(\<exists>es. ts = bs @ es \<and> rel_elems bs ts = es) \<or> (\<exists>r. rel_elems bs ts = ''..'' # r)"
proof (induction bs ts rule: rel_elems.induct)
  have "bs = [] \<or> (\<exists>r. map (\<lambda>_. ''..'') bs = ''..'' # r)" for bs :: "string list" by (cases bs) auto
  then show "(\<exists>es. [] = bs @ es \<and> rel_elems bs [] = es) \<or> (\<exists>r. rel_elems bs [] = ''..'' # r)" for bs
    by (auto simp: map_replicate_const)
qed auto

lemma join_text_hd: "r \<noteq> [] \<Longrightarrow> \<exists>s. join_text ''/'' (e # r) = e @ ''/'' @ s"
  by (cases r) auto

text \<open>\<open>path_within\<close> is containment of components: below the root, and not the root itself.\<close>

lemma path_within_iff:
  assumes "is_abs root" and "is_abs t"
  shows "path_within root t \<longleftrightarrow> (\<exists>es. es \<noteq> [] \<and> path_elems t = path_elems root @ es)"
proof
  assume w: "path_within root t"
  from rel_elems_cases [of "path_elems t" "path_elems root"] show "\<exists>es. es \<noteq> [] \<and> path_elems t = path_elems root @ es"
  proof
    assume "\<exists>es. path_elems t = path_elems root @ es \<and> rel_elems (path_elems root) (path_elems t) = es"
    then show ?thesis using w
      by (intro exI [of _ "rel_elems (path_elems root) (path_elems t)"]) (auto simp: path_within_def rel_path_def Let_def)
  next
    assume "\<exists>r. rel_elems (path_elems root) (path_elems t) = ''..'' # r"
    then obtain r where r: "rel_elems (path_elems root) (path_elems t) = ''..'' # r" by blast
    show ?thesis using w join_text_hd [of r "''..''"] r
      by (cases "r = []") (auto simp: path_within_def rel_path_def Let_def has_prefix_iff)
  qed
next
  assume "\<exists>es. es \<noteq> [] \<and> path_elems t = path_elems root @ es"
  then obtain es where es: "es \<noteq> []" "path_elems t = path_elems root @ es" by blast
  then obtain e es' where e: "es = e # es'" by (cases es) auto
  have pe: "plain_elem e" using abs_clean(2) [OF assms(2)] es e by simp
  have rel: "rel_path root t = join_text ''/'' (e # es')" using es e by (simp add: rel_path_def rel_elems_prefix)
  obtain s where s: "rel_path root t = e @ s" and s0: "s = [] \<or> hd s = CHR ''/''"
    using rel join_text_hd [of es' e] by (cases "es' = []") auto
  obtain c cs where ec: "e = c # cs" "c \<noteq> CHR ''/''" using pe by (cases e) (auto simp: plain_elem_def)
  have "e @ s \<noteq> ''.''" and "e @ s \<noteq> ''..''" and "\<not> (\<exists>u. e @ s = ''../'' @ u)"
    using pe s0 ec by (auto simp: plain_elem_def append_eq_Cons_conv)
  moreover have "\<not> is_abs (e @ s)" using ec by (simp add: is_abs_def)
  ultimately show "path_within root t" unfolding path_within_def s by (simp add: has_prefix_iff Let_def)
qed

text \<open>
  C26: The default privilege boundary is the one written down.  A path is accepted exactly if
  it is absolute and its cleaned components are those of the SSH configuration, or start with
  \<open>/etc/witshield\<close>, \<open>/var/lib/witshield\<close> or \<open>/var/lib/witshield-agent\<close> without being the
  helper's token; no dot component, repeated slash or common name prefix leads around it.
\<close>

theorem default_boundary_exact:
  "is_default_permission_repair_path p \<longleftrightarrow>
     is_abs p \<and> path_elems p \<noteq> [''etc'', ''witshield'', ''helper.token''] \<and>
     (path_elems p = [''etc'', ''ssh'', ''sshd_config''] \<or>
      (\<exists>root \<in> {[''etc'', ''witshield''], [''var'', ''lib'', ''witshield''], [''var'', ''lib'', ''witshield-agent'']}.
         \<exists>es. path_elems p = root @ es))"
proof (cases "is_abs p")
  case True
  note ca = clean_is_abs [OF True] and ce = path_elems_clean [OF True]
  have eq: "path_clean p = r \<longleftrightarrow> path_elems p = path_elems r" if "is_abs r" "path_clean r = r" for r
    using path_clean_eq_iff [OF True that(1)] that(2) by simp
  have at: "path_clean p = r \<or> path_within r (path_clean p) \<longleftrightarrow> (\<exists>es. path_elems p = path_elems r @ es)"
    if "is_abs r" "path_clean r = r" for r
    unfolding eq [OF that] path_within_iff [OF that(1) ca] ce by (metis append.right_neutral)
  have c2: "path_clean (path_clean p) = path_clean p"
    using path_clean_eq_iff [OF ca True] ce by simp
  have names: "path_elems ''/etc/witshield/helper.token'' = [''etc'', ''witshield'', ''helper.token'']"
    "path_elems ''/etc/ssh/sshd_config'' = [''etc'', ''ssh'', ''sshd_config'']"
    "path_elems ''/etc/witshield'' = [''etc'', ''witshield'']" "path_elems ''/var/lib/witshield'' = [''var'', ''lib'', ''witshield'']"
    "path_elems ''/var/lib/witshield-agent'' = [''var'', ''lib'', ''witshield-agent'']" by code_simp+
  have clean: "path_clean ''/etc/witshield/helper.token'' = ''/etc/witshield/helper.token''"
    "path_clean ''/etc/ssh/sshd_config'' = ''/etc/ssh/sshd_config''" "path_clean ''/etc/witshield'' = ''/etc/witshield''"
    "path_clean ''/var/lib/witshield'' = ''/var/lib/witshield''" "path_clean ''/var/lib/witshield-agent'' = ''/var/lib/witshield-agent''"
    by code_simp+
  have abs: "is_abs (CHR ''/'' # s)" for s by (simp add: is_abs_def)
  show ?thesis
    using True
    by (simp add: is_default_permission_repair_path_def protected_permission_repair_path_def c2 default_permission_repair_roots_def
        DefaultPermissionRepairTokenPath_def DefaultPermissionRepairSSHPath_def at [OF abs clean(3)] at [OF abs clean(4)]
        at [OF abs clean(5)] eq [OF abs clean(1)] eq [OF abs clean(2)] names)
qed (simp add: is_default_permission_repair_path_def)

end
