(* ===== verification/PermissionDemo.thy ===== *)
theory PermissionDemo
  imports PermissionProps PermissionPaths
begin

text \<open>
  A file system with one file below one approved root, and the permission properties applied
  to it.  The host state is the mode of the file; whether a mode can be changed is a parameter.
\<close>

definition demo_perm_lib :: lib where
  "demo_perm_lib = \<lparr>json_ok = (\<lambda>_. True), json_canonical = Some, sha256 = (\<lambda>b. b),
     hmac_sha256 = (\<lambda>k m. k @ m), enc_sealed = (\<lambda>_. []), dec_sealed = (\<lambda>_. None), enc_receipt = (\<lambda>_. [])\<rparr>"

definition demo_info :: "file_mode \<Rightarrow> file_info" where
  "demo_info m = \<lparr>fi_mode = m, fi_size = 0, fi_uid = 1, fi_gid = 1, fi_dev = 8, fi_ino = 9\<rparr>"

definition demo_perm_tuple :: "file_mode \<Rightarrow> perm_tuple" where
  "demo_perm_tuple m = tuple_of (demo_info m) (linuxFileHandleFIDKind,
     hex_encode (linuxFileHandleFIDKind @ [CHR 0x00] @ itoa 1 @ [CHR 0x00] @ nat_digits 1 @ [CHR 0x00] @ ''h''))"

definition demo_perm_state :: perm_state where
  "demo_perm_state = (perm_state_of ''/w/x'' (demo_perm_tuple 0x1A4) (demo_perm_tuple 0x180))\<lparr>pst_complete := True\<rparr>"

definition demo_perm_env :: "bool \<Rightarrow> (unit, file_mode) perm_env" where
  "demo_perm_env ok = \<lparr>pv_lib = demo_perm_lib,
     pv_params = (\<lambda>_. (\<lparr>pp_path = ''/w/x'', pp_mode = ''0600'', pp_uid = None, pp_gid = None\<rparr>, None)),
     pv_enc = (\<lambda>_. Inr ''s''), pv_dec = (\<lambda>_. Inr demo_perm_state),
     pv_lstat = (\<lambda>_ h. Inr (demo_info h)), pv_stat = (\<lambda>_ h. Inr (demo_info h)), pv_resolve = (\<lambda>p _. Inr p),
     pv_openat = (\<lambda>_ _ _ _. Inr ()), pv_fstat = (\<lambda>_ h. Inr (demo_info h)), pv_handle = (\<lambda>_ _ _. Inr (1, ''h'')),
     pv_chown = (\<lambda>_ _ _ h. (None, h)), pv_chmod = (\<lambda>_ m h. if ok then (None, m) else (Some ''read-only'', h)),
     pv_hook = (\<lambda>_ _ h. h)\<rparr>"

definition demo_rules :: "approved_path list" where
  "demo_rules = [\<lparr>ap_path = ''/w'', ap_descendants = True, ap_file_modes = [0x180], ap_dir_modes = [], ap_uids = [], ap_gids = [],
     ap_resolved = ''/w''\<rparr>]"

definition demo_perm_invocation :: invocation where
  "demo_perm_invocation = \<lparr>inv_action_id = ''a'', inv_actor = [], inv_params = [], inv_state = ''s''\<rparr>"

abbreviation (input) demo_rule :: approved_path where
  "demo_rule \<equiv> \<lparr>ap_path = ''/w'', ap_descendants = True, ap_file_modes = [0x180], ap_dir_modes = [], ap_uids = [], ap_gids = [],
     ap_resolved = ''/w''\<rparr>"

lemma demo_paths:
  "path_clean ''/w/x'' = ''/w/x''" "rel_path ''/w'' ''/w/x'' = ''x''" "path_within ''/w'' ''/w/x''" "is_abs ''/w/x''"
  "split_on (CHR ''/'') ''x'' = [''x'']" "\<not> is_abs ''x''" "\<not> has_prefix ''x'' ''../''"
  by code_simp+

lemma demo_modes:
  assumes "m = 0x1A4 \<or> m = 0x180"
  shows "is_regular m" "\<not> is_dir m" "\<not> has_special_mode_bits m" "\<not> is_symlink m" "mode_perm m = m"
proof -
  have "only_perm m" using assms by (auto simp: only_perm_def perm_bits_def)
  then show "is_regular m" "\<not> is_dir m" "\<not> has_special_mode_bits m" "\<not> is_symlink m" "mode_perm m = m"
    using only_perm_plain only_perm_iff by auto
qed

lemma demo_parse_mode: "parse_mode ''0600'' = Inr 0x180"
proof -
  have "has_prefix ''0600'' ''0o'' = False" "list_all is_octal ''0600''" "octal_value ''0600'' = 384" by code_simp+
  then show ?thesis by (simp add: parse_mode_def)
qed

lemma demo_perm_validate:
  assumes "m = 0x1A4 \<or> m = 0x180"
  shows "validate_target (demo_perm_env ok) demo_rules (fst (pv_params (demo_perm_env ok) x)) m = Inr (''/w/x'', 0x180, demo_rule)"
proof -
  have "\<not> protected_permission_repair_path ''/w/x''"
    by (simp add: protected_permission_repair_path_def demo_paths DefaultPermissionRepairTokenPath_def)
  then show ?thesis
    using demo_modes [OF assms]
    by (simp add: validate_target_def demo_perm_env_def demo_paths demo_info_def demo_rules_def select_rule_def demo_parse_mode
        modes_for_def id_allowed_def)
qed

lemma demo_perm_open:
  assumes "m = 0x1A4 \<or> m = 0x180"
  shows "open_validated_target (demo_perm_env ok) ''/w'' ''/w/x'' m = Inr ()"
    and "pv_fstat (demo_perm_env ok) () m = Inr (demo_info m)"
    and "k = [] \<or> k = linuxFileHandleFIDKind \<Longrightarrow> file_object_generation (demo_perm_env ok) () k m =
      Inr (pt_kind (demo_perm_tuple m), pt_generation (demo_perm_tuple m))"
    and "opened_tuple (demo_perm_env ok) () linuxFileHandleFIDKind m = Inr (demo_perm_tuple m)"
proof -
  show o: "open_validated_target (demo_perm_env ok) ''/w'' ''/w/x'' m = Inr ()"
    using demo_modes [OF assms]
    by (simp add: open_validated_target_def open_beneath_def demo_paths demo_perm_env_def demo_info_def)
  show f: "pv_fstat (demo_perm_env ok) () m = Inr (demo_info m)" by (simp add: demo_perm_env_def)
  show g: "file_object_generation (demo_perm_env ok) () k m = Inr (pt_kind (demo_perm_tuple m), pt_generation (demo_perm_tuple m))"
    if "k = [] \<or> k = linuxFileHandleFIDKind" for k
    using that
    by (auto simp: file_object_generation_def handle_generation_def demo_perm_env_def demo_perm_lib_def demo_perm_tuple_def
        tuple_of_def linuxFileHandleFIDKind_def)
  show "opened_tuple (demo_perm_env ok) () linuxFileHandleFIDKind m = Inr (demo_perm_tuple m)"
    using demo_modes [OF assms] g
    by (simp add: opened_tuple_def f demo_info_def demo_perm_tuple_def tuple_of_def)
qed

lemma demo_same: "same_object (demo_perm_tuple m) (demo_perm_tuple n)" if "m = 0x1A4 \<or> m = 0x180" "n = 0x1A4 \<or> n = 0x180"
  using demo_modes(2) [OF that(1)] demo_modes(2) [OF that(2)]
  by (simp add: same_object_def demo_perm_tuple_def tuple_of_def linuxFileHandleFIDKind_def demo_info_def hex_encode_def)

lemma demo_kind [simp]: "pt_kind (demo_perm_tuple m) = linuxFileHandleFIDKind" "pt_uid (demo_perm_tuple m) = 1" "pt_gid (demo_perm_tuple m) = 1"
  by (simp_all add: demo_perm_tuple_def tuple_of_def demo_info_def)

lemma demo_tuple_mode: "m = 0x1A4 \<or> m = 0x180 \<Longrightarrow> pt_mode (demo_perm_tuple m) = m"
  "n = 0x1A4 \<or> n = 0x180 \<Longrightarrow> m = 0x1A4 \<or> m = 0x180 \<Longrightarrow>
     (demo_perm_tuple m)\<lparr>pt_mode := n, pt_uid := 1, pt_gid := 1\<rparr> = demo_perm_tuple n"
  using demo_modes(2,5) by (simp_all add: demo_perm_tuple_def tuple_of_def demo_info_def)

lemma demo_verify_path: "m = 0x1A4 \<or> m = 0x180 \<Longrightarrow> verify_path (demo_perm_env ok) ''/w'' ''/w/x'' (demo_perm_tuple m) m = None"
  using demo_perm_open demo_same by (simp add: verify_path_def)

lemma demo_verify_exact: "m = 0x1A4 \<or> m = 0x180 \<Longrightarrow> verify_exact (demo_perm_env ok) () (demo_perm_tuple m) m = None"
  using demo_perm_open by simp

lemma demo_mutate:
  assumes "m = 0x1A4 \<and> n = 0x180 \<or> m = 0x180 \<and> n = 0x1A4"
  shows "mutate_tuple (demo_perm_env True) () (demo_perm_tuple m) (demo_perm_tuple n) m = (None, n)"
    and "\<exists>e. mutate_tuple (demo_perm_env False) () (demo_perm_tuple m) (demo_perm_tuple n) m = (Some e, m)"
proof -
  have mn: "m = 0x1A4 \<or> m = 0x180" "n = 0x1A4 \<or> n = 0x180" "m \<noteq> n" using assms by auto
  note facts = demo_same [OF mn(1,2)] demo_verify_exact [OF mn(1)] demo_verify_exact [OF mn(2)]
    demo_tuple_mode(1) [OF mn(1)] demo_tuple_mode(1) [OF mn(2)]
  have c: "pv_chmod (demo_perm_env b) () x h = (if b then (None, x) else (Some ''read-only'', h))" for b x h
    by (simp add: demo_perm_env_def)
  show "mutate_tuple (demo_perm_env True) () (demo_perm_tuple m) (demo_perm_tuple n) m = (None, n)"
    using facts mn(3) by (simp add: mutate_tuple_def set_metadata_def c del: verify_exact_None)
  show "\<exists>e. mutate_tuple (demo_perm_env False) () (demo_perm_tuple m) (demo_perm_tuple n) m = (Some e, m)"
    using facts mn(3) by (simp add: mutate_tuple_def set_metadata_def c del: verify_exact_None)
qed

lemma demo_restore:
  "restore_recognized (demo_perm_env ok) () (demo_perm_tuple 0x1A4) t (demo_perm_tuple 0x1A4) 0x1A4 = (None, 0x1A4)"
  using demo_perm_open(4) [of "0x1A4" ok] demo_same [of "0x1A4" "0x1A4"]
  by (simp add: restore_recognized_def set_and_verify_def set_metadata_def)

lemma demo_apply_change:
  "perm_apply (demo_perm_env ok) demo_rules demo_perm_invocation 0x1A4 =
     perm_change (demo_perm_env ok) ''/w'' ''/w/x'' () (demo_perm_tuple 0x1A4) (demo_perm_tuple 0x180)
       (perm_state_of ''/w/x'' (demo_perm_tuple 0x1A4) (demo_perm_tuple 0x180)) ''s'' 0x1A4"
proof -
  have g: "tuple_of (demo_info m) (pt_kind (demo_perm_tuple m), pt_generation (demo_perm_tuple m)) = demo_perm_tuple m" for m
    by (simp add: demo_perm_tuple_def tuple_of_def)
  have h: "pv_hook (demo_perm_env ok) k op m = m" "pv_enc (demo_perm_env ok) st = Inr ''s''"
    "pp_uid (fst (pv_params (demo_perm_env ok) x)) = None" "pp_gid (fst (pv_params (demo_perm_env ok) x)) = None" for k op m st x
    by (simp_all add: demo_perm_env_def)
  have allowed: "mode_allowed_for_target (demo_info 0x1A4) 0x180 demo_rule" "\<not> has_special_mode_bits (fi_mode (demo_info 0x1A4))"
    "fi_uid (demo_info m) = 1" "fi_gid (demo_info m) = 1" for m
    using demo_modes [of "0x1A4"] by (simp_all add: mode_allowed_for_target_def demo_info_def)
  show ?thesis
    using demo_tuple_mode(2) [of "0x180" "0x1A4"]
    by (simp add: perm_apply_def demo_perm_validate open_target_def demo_perm_open(1-3) h allowed g [simplified] Let_def)
qed

lemma demo_perm_failed:
  "\<exists>r e. perm_apply (demo_perm_env False) demo_rules demo_perm_invocation 0x1A4 = (r, Some e, 0x1A4) \<and> apr_state r = []"
  using demo_mutate(2) [of "0x1A4" "0x180"] demo_verify_path [of "0x1A4" False] demo_restore [of False "demo_perm_tuple 0x180"]
  by (auto simp: demo_apply_change perm_change_def no_apply_def)

lemma demo_perm_applied:
  "\<exists>r. perm_apply (demo_perm_env True) demo_rules demo_perm_invocation 0x1A4 = (r, None, 0x180)"
proof -
  have h: "pv_hook (demo_perm_env ok) k op m = m" "pv_enc (demo_perm_env ok) st = Inr ''s''" for ok k op m st
    by (simp_all add: demo_perm_env_def)
  show ?thesis
    using demo_mutate(1) [of "0x1A4" "0x180"] demo_verify_path [of "0x1A4" True] demo_verify_path [of "0x180" True]
    by (simp add: demo_apply_change perm_change_def h)
qed

text \<open>Witnesses.\<close>

theorem failed_apply_leaves_file_witness:
  "\<exists>r e. perm_apply (demo_perm_env False) demo_rules demo_perm_invocation 0x1A4 = (r, Some e, 0x1A4) \<and>
     ((0x1A4 :: file_mode) = 0x1A4 \<or> (\<exists>t. opened_tuple (demo_perm_env False) () (pt_kind t) 0x1A4 = Inr t))"
proof -
  obtain r e where a: "perm_apply (demo_perm_env False) demo_rules demo_perm_invocation 0x1A4 = (r, Some e, 0x1A4)"
    and st: "apr_state r = []" using demo_perm_failed by blast
  have enc: "\<forall>st b. pv_enc (demo_perm_env False) st = Inr b \<longrightarrow> b \<noteq> []" by (auto simp: demo_perm_env_def)
  from failed_apply_leaves_file [OF a st enc] a show ?thesis by blast
qed

theorem apply_writes_approved_witness:
  "\<exists>t t'. file_writes (demo_perm_env True) () {t, t'} 0x1A4 0x180 \<and> pt_mode t' = 0x180"
proof -
  obtain r where a: "perm_apply (demo_perm_env True) demo_rules demo_perm_invocation 0x1A4 = (r, None, 0x180)"
    using demo_perm_applied by blast
  have h: "pv_hook (demo_perm_env ok) k op m = m" for ok k op m by (simp add: demo_perm_env_def)
  have modes: "set (modes_for d rule) \<subseteq> {0x180}" if "rule \<in> set demo_rules" for d rule
    using that by (auto simp: demo_rules_def modes_for_def)
  from apply_writes_approved [OF a] modes show ?thesis unfolding h by fastforce
qed

lemma demo_perm_rolled_back:
  "\<exists>x. perm_rollback (demo_perm_env True) demo_rules demo_perm_invocation 0x180 = (Inr x, 0x1A4)"
proof -
  have h: "pv_hook (demo_perm_env ok) k op m = m" "pv_dec (demo_perm_env ok) b = Inr demo_perm_state" for ok k op m b
    by (simp_all add: demo_perm_env_def)
  have g: "tuple_of (demo_info m) (pt_kind (demo_perm_tuple m), pt_generation (demo_perm_tuple m)) = demo_perm_tuple m" for m
    by (simp add: demo_perm_tuple_def tuple_of_def)
  have st: "valid_state_identity demo_perm_state" "only_perm (pst_mode demo_perm_state)" "pst_uid demo_perm_state = 1"
    "pst_gid demo_perm_state = 1" "pst_path demo_perm_state = ''/w/x''" "pst_kind demo_perm_state = linuxFileHandleFIDKind"
    "pst_mode demo_perm_state = 0x1A4"
    using demo_tuple_mode(1) [of "0x1A4"]
    by (simp_all add: demo_perm_state_def perm_state_of_def valid_state_identity_def only_perm_def perm_bits_def)
      (simp_all add: demo_perm_tuple_def tuple_of_def hex_encode_def linuxFileHandleFIDKind_def itoa_def nat_digits.simps)
  have ident: "pt_device (demo_perm_tuple m) = 8" "pt_inode (demo_perm_tuple m) = 9"
    "pt_generation (demo_perm_tuple m) = pt_generation (demo_perm_tuple n)" "pt_generation (demo_perm_tuple m) \<noteq> []" for m n
    by (simp_all add: demo_perm_tuple_def tuple_of_def demo_info_def hex_encode_def linuxFileHandleFIDKind_def)
  have "state_matches_object demo_perm_state (demo_perm_tuple 0x180)"
    using st(1) ident by (simp add: state_matches_object_def) (simp add: demo_perm_state_def perm_state_of_def ident)
  moreover have "rollback_recognized demo_perm_state (demo_perm_tuple 0x180)"
    by (simp add: rollback_recognized_def demo_perm_state_def perm_state_of_def)
  moreover have "\<not> has_special_mode_bits (fi_mode (demo_info 0x180))" using demo_modes [of "0x180"] by (simp add: demo_info_def)
  moreover have "\<exists>x. perm_undo (demo_perm_env True) ''/w'' ''/w/x'' () (demo_perm_tuple 0x180) (demo_perm_tuple 0x1A4) 0x180 = (Inr x, 0x1A4)"
    using demo_mutate(1) [of "0x180" "0x1A4"] demo_verify_path [of "0x1A4" True] demo_verify_path [of "0x180" True]
    by (simp add: perm_undo_def h)
  ultimately show ?thesis
    using st demo_tuple_mode(2) [of "0x1A4" "0x180"]
    by (simp add: perm_rollback_def h demo_perm_validate open_target_def demo_perm_open(1-3) g [simplified] Let_def)
qed

theorem rollback_same_object_witness:
  "\<exists>t. state_matches_object demo_perm_state t \<and> rollback_recognized demo_perm_state t \<and>
     file_writes (demo_perm_env True) () {t, t\<lparr>pt_mode := 0x1A4, pt_uid := 1, pt_gid := 1\<rparr>} 0x180 0x1A4"
proof -
  obtain x where a: "perm_rollback (demo_perm_env True) demo_rules demo_perm_invocation 0x180 = (Inr x, 0x1A4)"
    using demo_perm_rolled_back by blast
  have h: "pv_hook (demo_perm_env ok) k op m = m" "pv_dec (demo_perm_env ok) b = Inr demo_perm_state" for ok k op m b
    by (simp_all add: demo_perm_env_def)
  have st: "pst_uid demo_perm_state = 1" "pst_gid demo_perm_state = 1" "pst_mode demo_perm_state = 0x1A4"
    using demo_tuple_mode(1) [of "0x1A4"] by (simp_all add: demo_perm_state_def perm_state_of_def)
  from rollback_same_object [OF a] show ?thesis unfolding h using st by fastforce
qed

end
