(* ===== verification/AuthStore.thy ===== *)
theory AuthStore
  imports Scheduler
begin

text \<open>
  Administrators, sessions, enrollment and devices (\<open>internal/store/auth_devices.go\<close>): the
  tables of the identities, the one-time enrollment challenges, the replay cache of agent
  requests and the revocation of a device.  Fresh identifiers (\<open>ids.New\<close>) are arguments;
  times are stored exactly, so they always parse.
\<close>

section \<open>The tables\<close>

record admin_row =
  ad_id :: string
  ad_username :: string
  ad_hash :: string
  ad_created :: instant
  ad_updated :: instant

record session_row =
  se_id :: string
  se_hash :: string
  se_admin :: string
  se_expires :: instant
  se_created :: instant

record token_row =
  tk_id :: string
  tk_name :: string
  tk_hash :: string
  tk_hint :: string
  tk_max :: int
  tk_uses :: int
  tk_expires :: "instant option"
  tk_revoked :: "instant option"
  tk_created :: instant

record agent_row =
  ag_id :: string
  ag_device :: string
  ag_hash :: string
  ag_created :: instant
  ag_revoked :: "instant option"

record nonce_row =
  no_device :: string
  no_nonce :: string
  no_expires :: instant
  no_created :: instant

record identity_row =
  ie_key :: string
  ie_device :: string
  ie_token :: string
  ie_credential :: string
  ie_created :: instant
  ie_updated :: instant

record challenge_row =
  ch_id :: string
  ch_token :: string
  ch_key :: string
  ch_hash :: string
  ch_expires :: instant
  ch_used :: "instant option"
  ch_created :: instant

record auth_db =
  db_fleet :: fleet
  db_admins :: "admin_row list"
  db_sessions :: "session_row list"
  db_tokens :: "token_row list"
  db_agents :: "agent_row list"
  db_nonces :: "nonce_row list"
  db_identities :: "identity_row list"
  db_challenges :: "challenge_row list"

abbreviation db_devices :: "auth_db \<Rightarrow> device_row list" where
  "db_devices s \<equiv> st_devices (fl_store (db_fleet s))"

definition set_devices :: "device_row list \<Rightarrow> auth_db \<Rightarrow> auth_db" where
  "set_devices t s = s\<lparr>db_fleet := db_fleet s\<lparr>fl_store := fl_store (db_fleet s)\<lparr>st_devices := t\<rparr>\<rparr>\<rparr>"

definition set_store :: "store \<Rightarrow> auth_db \<Rightarrow> auth_db" where
  "set_store t s = s\<lparr>db_fleet := db_fleet s\<lparr>fl_store := t\<rparr>\<rparr>"

text \<open>Equality under \<open>COLLATE NOCASE\<close>.\<close>

definition nocase_eq :: "string \<Rightarrow> string \<Rightarrow> bool" where
  "nocase_eq a b \<longleftrightarrow> map ascii_lower a = map ascii_lower b"

section \<open>Administrators and sessions\<close>

definition admin_count :: "auth_db \<Rightarrow> nat" where
  "admin_count s = length (db_admins s)"

definition device_count :: "auth_db \<Rightarrow> nat" where
  "device_count s = length (db_devices s)"

definition create_admin :: "string \<Rightarrow> string \<Rightarrow> string \<Rightarrow> instant \<Rightarrow> auth_db \<Rightarrow> store_error + auth_db" where
  "create_admin fresh username hash now s =
     (if db_admins s \<noteq> [] then Inl ErrConflict
      else Inr (s\<lparr>db_admins := [\<lparr>ad_id = fresh, ad_username = username, ad_hash = hash, ad_created = now, ad_updated = now\<rparr>]\<rparr>))"

definition admin_credentials :: "string \<Rightarrow> auth_db \<Rightarrow> store_error + admin_row" where
  "admin_credentials username s =
     (case find (\<lambda>a. nocase_eq (ad_username a) username) (db_admins s) of
        None \<Rightarrow> Inl ErrNotFound
      | Some a \<Rightarrow> Inr a)"

definition create_session :: "string \<Rightarrow> string \<Rightarrow> string \<Rightarrow> instant \<Rightarrow> instant \<Rightarrow> auth_db \<Rightarrow> store_error + auth_db" where
  "create_session fresh admin hash expires now s =
     (if fresh \<in> se_id ` set (db_sessions s) \<or> hash \<in> se_hash ` set (db_sessions s) \<or> admin \<notin> ad_id ` set (db_admins s)
      then Inl ErrConflict
      else Inr (s\<lparr>db_sessions := db_sessions s @ [\<lparr>se_id = fresh, se_hash = hash, se_admin = admin, se_expires = expires, se_created = now\<rparr>]\<rparr>))"

definition admin_by_session :: "string \<Rightarrow> instant \<Rightarrow> auth_db \<Rightarrow> store_error + admin_row" where
  "admin_by_session hash now s =
     (case find (\<lambda>x. se_hash x = hash \<and> se_expires x > now) (db_sessions s) of
        None \<Rightarrow> Inl ErrUnauthorized
      | Some x \<Rightarrow>
         (case find (\<lambda>a. ad_id a = se_admin x) (db_admins s) of
            None \<Rightarrow> Inl ErrUnauthorized
          | Some a \<Rightarrow> Inr a))"

definition delete_session :: "string \<Rightarrow> auth_db \<Rightarrow> auth_db" where
  "delete_session hash s = s\<lparr>db_sessions := del_where (\<lambda>x. se_hash x = hash) (db_sessions s)\<rparr>"

definition delete_expired_sessions :: "instant \<Rightarrow> auth_db \<Rightarrow> auth_db" where
  "delete_expired_sessions now s = s\<lparr>db_sessions := del_where (\<lambda>x. se_expires x \<le> now) (db_sessions s)\<rparr>"

section \<open>Enrollment tokens\<close>

definition create_enrollment_token :: "token_row \<Rightarrow> auth_db \<Rightarrow> store_error + auth_db" where
  "create_enrollment_token x s =
     (if tk_id x \<in> tk_id ` set (db_tokens s) \<or> tk_hash x \<in> tk_hash ` set (db_tokens s) \<or> tk_max x \<le> 0 \<or> tk_uses x < 0
      then Inl ErrConflict
      else Inr (s\<lparr>db_tokens := db_tokens s @ [x\<lparr>tk_revoked := None\<rparr>]\<rparr>))"

definition list_enrollment_tokens :: "auth_db \<Rightarrow> token_row list" where
  "list_enrollment_tokens s = descending tk_created (db_tokens s)"

definition revoke_enrollment_token :: "string \<Rightarrow> instant \<Rightarrow> auth_db \<Rightarrow> store_error + auth_db" where
  "revoke_enrollment_token tid now s =
     (let p = (\<lambda>x. tk_id x = tid \<and> tk_revoked x = None)
      in if cnt_where p (db_tokens s) = 0 then Inl ErrNotFound
         else Inr (s\<lparr>db_tokens := upd_where p (\<lambda>x. x\<lparr>tk_revoked := Some now\<rparr>) (db_tokens s)\<rparr>))"

definition token_by_hash :: "string \<Rightarrow> auth_db \<Rightarrow> token_row option" where
  "token_by_hash h s = find (\<lambda>x. tk_hash x = h) (db_tokens s)"

text \<open>The use count and the expiry of a token, checked before it enrolls a device.\<close>

definition token_usable :: "token_row \<Rightarrow> instant \<Rightarrow> store_error + unit" where
  "token_usable x now =
     (if tk_uses x \<ge> tk_max x then Inl ErrTokenExhausted
      else case tk_expires x of
             None \<Rightarrow> Inr ()
           | Some t \<Rightarrow> if now < t then Inr () else Inl ErrTokenExpired)"

section \<open>Enrollment challenges\<close>

record challenge_input =
  ci_id :: string
  ci_enrollment :: string
  ci_key :: string
  ci_hash :: string
  ci_expires :: instant
  ci_now :: instant

definition challenge_stale :: "instant \<Rightarrow> challenge_row \<Rightarrow> bool" where
  "challenge_stale now c \<longleftrightarrow> ch_expires c \<le> now \<or> (case ch_used c of None \<Rightarrow> False | Some u \<Rightarrow> u < now - hour)"

definition outstanding :: "instant \<Rightarrow> challenge_row \<Rightarrow> bool" where
  "outstanding now c \<longleftrightarrow> ch_used c = None \<and> ch_expires c > now"

definition challenge_authorized :: "challenge_input \<Rightarrow> token_row \<Rightarrow> auth_db \<Rightarrow> store_error + unit" where
  "challenge_authorized i x s =
     (if tk_revoked x \<noteq> None then Inl ErrUnauthorized
      else case find (\<lambda>e. ie_key e = ci_key i) (db_identities s) of
             Some e \<Rightarrow> if ie_token e \<noteq> tk_id x then Inl ErrUnauthorized else Inr ()
           | None \<Rightarrow> token_usable x (ci_now i))"

definition challenge_room :: "challenge_input \<Rightarrow> token_row \<Rightarrow> challenge_row list \<Rightarrow> bool" where
  "challenge_room i x t \<longleftrightarrow>
     cnt_where (\<lambda>c. ch_token c = tk_id x \<and> ch_key c = ci_key i \<and> outstanding (ci_now i) c) t < 16 \<and>
     cnt_where (\<lambda>c. ch_token c = tk_id x \<and> outstanding (ci_now i) c) t < 64 \<and>
     cnt_where (outstanding (ci_now i)) t < 4096"

definition challenge_of :: "challenge_input \<Rightarrow> token_row \<Rightarrow> challenge_row" where
  "challenge_of i x = \<lparr>ch_id = ci_id i, ch_token = tk_id x, ch_key = ci_key i, ch_hash = ci_hash i, ch_expires = ci_expires i,
     ch_used = None, ch_created = ci_now i\<rparr>"

definition create_enrollment_challenge :: "challenge_input \<Rightarrow> auth_db \<Rightarrow> store_error + auth_db" where
  "create_enrollment_challenge i s =
     (case token_by_hash (ci_enrollment i) s of
        None \<Rightarrow> Inl ErrUnauthorized
      | Some x \<Rightarrow>
         (case challenge_authorized i x s of
            Inl e \<Rightarrow> Inl e
          | Inr _ \<Rightarrow>
             if \<not> ci_expires i > ci_now i \<or> ci_expires i - ci_now i > 10 * minute
             then Inl (ErrOther ''enrollment challenge expiry is invalid'')
             else (let t = del_where (challenge_stale (ci_now i)) (db_challenges s)
                   in if \<not> challenge_room i x t then Inl ErrConflict
                      else if ci_id i \<in> ch_id ` set t then Inl ErrConflict
                      else Inr (s\<lparr>db_challenges := t @ [challenge_of i x]\<rparr>))))"

section \<open>Enrollment\<close>

record enroll_input =
  ei_name :: string
  ei_hostname :: string
  ei_os :: string
  ei_arch :: string
  ei_version :: string
  ei_key :: string
  ei_interval :: duration
  ei_observer :: bool

text \<open>The identifiers a new device consumes.\<close>

record fresh_ids =
  fi_device :: string
  fi_agent :: string
  fi_schedule :: string

definition default_scan_interval :: duration where
  "default_scan_interval = 24 * hour"

definition scan_interval :: "enroll_input \<Rightarrow> duration" where
  "scan_interval d = (if ei_interval d = 0 then default_scan_interval else ei_interval d)"

definition interval_ok :: "duration \<Rightarrow> bool" where
  "interval_ok i \<longleftrightarrow> \<not> (i < 15 * minute \<or> i > 365 * 24 * hour)"

definition interval_message :: string where
  "interval_message = ''initial scan interval must be between 15 minutes and 365 days''"

text \<open>The rows of a new device; \<open>dup\<close> is the error a violated constraint is reported as.\<close>

definition enrolled_device :: "fresh_ids \<Rightarrow> enroll_input \<Rightarrow> instant \<Rightarrow> device_row" where
  "enrolled_device f d now = \<lparr>dv_id = fi_device f, dv_name = ei_name d, dv_hostname = ei_hostname d, dv_os = ei_os d,
     dv_arch = ei_arch d, dv_version = ei_version d, dv_observer = ei_observer d, dv_identity = ei_key d,
     dv_status = DeviceOnline, dv_last_seen = Some now, dv_enrolled = now, dv_created = now, dv_updated = now\<rparr>"

definition insert_device :: "store_error \<Rightarrow> device_row \<Rightarrow> auth_db \<Rightarrow> store_error + auth_db" where
  "insert_device dup d s =
     (if dv_id d \<in> dv_id ` set (db_devices s) then Inl dup else Inr (set_devices (db_devices s @ [d]) s))"

definition insert_agent_token :: "store_error \<Rightarrow> agent_row \<Rightarrow> auth_db \<Rightarrow> store_error + auth_db" where
  "insert_agent_token dup a s =
     (if ag_id a \<in> ag_id ` set (db_agents s) \<or> ag_hash a \<in> ag_hash ` set (db_agents s) \<or> ag_device a \<notin> dv_id ` set (db_devices s)
      then Inl dup else Inr (s\<lparr>db_agents := db_agents s @ [a]\<rparr>))"

definition first_schedule :: "fresh_ids \<Rightarrow> duration \<Rightarrow> instant \<Rightarrow> schedule_row" where
  "first_schedule f i now = \<lparr>sc_id = fi_schedule f, sc_device = fi_device f, sc_kind = ''scan'', sc_interval = i div second,
     sc_enabled = True, sc_next = now + i, sc_last = None, sc_created = now, sc_updated = now\<rparr>"

definition insert_schedule :: "schedule_row \<Rightarrow> auth_db \<Rightarrow> store_error + auth_db" where
  "insert_schedule x s =
     (if sc_id x \<in> sc_id ` set (fl_schedules (db_fleet s)) \<or> sc_device x \<notin> dv_id ` set (db_devices s) \<or> \<not> schedule_check x
      then Inl ErrConstraint
      else Inr (s\<lparr>db_fleet := db_fleet s\<lparr>fl_schedules := fl_schedules (db_fleet s) @ [x]\<rparr>\<rparr>))"

definition insert_identity :: "identity_row \<Rightarrow> auth_db \<Rightarrow> store_error + auth_db" where
  "insert_identity e s =
     (if ie_key e \<in> ie_key ` set (db_identities s) \<or> ie_device e \<in> ie_device ` set (db_identities s) \<or>
         ie_device e \<notin> dv_id ` set (db_devices s) \<or> ie_token e \<notin> tk_id ` set (db_tokens s)
      then Inl ErrConflict else Inr (s\<lparr>db_identities := db_identities s @ [e]\<rparr>))"

definition use_token :: "string \<Rightarrow> int \<Rightarrow> auth_db \<Rightarrow> store_error + auth_db" where
  "use_token tid uses s =
     (let p = (\<lambda>x. tk_id x = tid \<and> tk_uses x = uses)
      in if cnt_where p (db_tokens s) \<noteq> 1 then Inl ErrConflict
         else Inr (s\<lparr>db_tokens := upd_where p (\<lambda>x. x\<lparr>tk_uses := tk_uses x + 1\<rparr>) (db_tokens s)\<rparr>))"

definition insert_new_device :: "store_error \<Rightarrow> fresh_ids \<Rightarrow> enroll_input \<Rightarrow> string \<Rightarrow> instant \<Rightarrow> auth_db \<Rightarrow> store_error + auth_db" where
  "insert_new_device dup f d hash now s =
     bindE (insert_device dup (enrolled_device f d now) s) (\<lambda>s1.
     bindE (insert_agent_token dup \<lparr>ag_id = fi_agent f, ag_device = fi_device f, ag_hash = hash, ag_created = now, ag_revoked = None\<rparr> s1)
       (insert_schedule (first_schedule f (scan_interval d) now)))"

text \<open>\<open>EnrollDevice\<close>: constraint errors are not mapped here.\<close>

definition enroll_device :: "fresh_ids \<Rightarrow> string \<Rightarrow> string \<Rightarrow> enroll_input \<Rightarrow> instant \<Rightarrow> auth_db \<Rightarrow> store_error + device_row \<times> auth_db" where
  "enroll_device f enrollment hash d now s =
     (if \<not> interval_ok (scan_interval d) then Inl (ErrOther interval_message)
      else case token_by_hash enrollment s of
             None \<Rightarrow> Inl ErrUnauthorized
           | Some x \<Rightarrow>
              if tk_revoked x \<noteq> None then Inl ErrUnauthorized
              else bindE (token_usable x now) (\<lambda>_.
                   bindE (insert_new_device ErrConstraint f d hash now s) (\<lambda>s1.
                   bindE (use_token (tk_id x) (tk_uses x) s1) (\<lambda>s2. Inr (enrolled_device f d now, s2)))))"

section \<open>Finishing an enrollment\<close>

record finalize_input =
  fz_challenge :: string
  fz_hash :: string
  fz_enrollment :: string
  fz_agent_hash :: string
  fz_credential :: string
  fz_device :: enroll_input
  fz_now :: instant

record finalize_result =
  fo_device :: device_row
  fo_credential :: string
  fo_created :: bool

definition consume_challenge :: "string \<Rightarrow> instant \<Rightarrow> auth_db \<Rightarrow> auth_db" where
  "consume_challenge cid now s =
     s\<lparr>db_challenges := upd_where (\<lambda>c. ch_id c = cid \<and> ch_used c = None) (\<lambda>c. c\<lparr>ch_used := Some now\<rparr>) (db_challenges s)\<rparr>"

definition drop_challenge :: "string \<Rightarrow> auth_db \<Rightarrow> auth_db" where
  "drop_challenge cid s = s\<lparr>db_challenges := del_where (\<lambda>c. ch_id c = cid) (db_challenges s)\<rparr>"

definition unfinished_actions :: "string \<Rightarrow> auth_db \<Rightarrow> nat" where
  "unfinished_actions dev s =
     cnt_where (\<lambda>c. cm_device c = dev \<and> cm_completed c = None \<and> action_command (cm_type c)) (st_commands (fl_store (db_fleet s)))"

definition renewed :: "enroll_input \<Rightarrow> instant \<Rightarrow> device_row \<Rightarrow> device_row" where
  "renewed d now v = v\<lparr>dv_name := ei_name d, dv_hostname := ei_hostname d, dv_os := ei_os d, dv_arch := ei_arch d,
     dv_version := ei_version d, dv_observer := ei_observer d, dv_status := DeviceOnline, dv_last_seen := Some now, dv_updated := now\<rparr>"

definition disable_auto_ban :: "string \<Rightarrow> instant \<Rightarrow> auth_db \<Rightarrow> auth_db" where
  "disable_auto_ban dev now s =
     set_store (fl_store (db_fleet s)\<lparr>st_policies := upd_where (\<lambda>p. po_device p = dev)
       (\<lambda>p. p\<lparr>po_auto_ban := False, po_updated := now\<rparr>) (st_policies (fl_store (db_fleet s)))\<rparr>) s"

definition linked_identity :: "string \<Rightarrow> auth_db \<Rightarrow> (identity_row \<times> device_row) option" where
  "linked_identity key s =
     (case find (\<lambda>e. ie_key e = key) (db_identities s) of
        None \<Rightarrow> None
      | Some e \<Rightarrow> map_option (Pair e) (find (\<lambda>v. dv_id v = ie_device e) (db_devices s)))"

text \<open>An identity that is already enrolled gets its device and credential back.\<close>

definition renew_enrollment :: "finalize_input \<Rightarrow> string \<Rightarrow> identity_row \<Rightarrow> device_row \<Rightarrow> auth_db \<Rightarrow> store_error + finalize_result \<times> auth_db" where
  "renew_enrollment i tid e v s =
     (let d = fz_device i; now = fz_now i in
      if dv_status v = DeviceRevoked \<or> ie_token e \<noteq> tid then Inl ErrUnauthorized
      else if dv_observer v \<noteq> ei_observer d \<and> unfinished_actions (dv_id v) s > 0 then Inl ErrConflict
      else (let s1 = (if dv_observer v \<noteq> ei_observer d \<and> ei_observer d then disable_auto_ban (dv_id v) now s else s);
                s2 = set_devices (upd_where (\<lambda>x. dv_id x = dv_id v) (renewed d now) (db_devices s1)) s1
            in Inr (\<lparr>fo_device = renewed d now v, fo_credential = ie_credential e, fo_created = False\<rparr>,
                    drop_challenge (fz_challenge i) s2)))"

definition first_enrollment :: "finalize_input \<Rightarrow> fresh_ids \<Rightarrow> token_row \<Rightarrow> auth_db \<Rightarrow> store_error + finalize_result \<times> auth_db" where
  "first_enrollment i f x s =
     (let d = fz_device i; now = fz_now i in
      bindE (token_usable x now) (\<lambda>_.
      if fz_credential i = [] \<or> fz_agent_hash i = [] then Inl (ErrOther ''new enrollment credential is missing'')
      else bindE (insert_new_device ErrConflict f d (fz_agent_hash i) now s) (\<lambda>s1.
           bindE (insert_identity \<lparr>ie_key = ei_key d, ie_device = fi_device f, ie_token = tk_id x, ie_credential = fz_credential i,
                    ie_created = now, ie_updated = now\<rparr> s1) (\<lambda>s2.
           bindE (use_token (tk_id x) (tk_uses x) s2) (\<lambda>s3.
           Inr (\<lparr>fo_device = enrolled_device f d now, fo_credential = fz_credential i, fo_created = True\<rparr>,
                drop_challenge (fz_challenge i) s3))))))"

definition challenge_accepted :: "finalize_input \<Rightarrow> challenge_row \<Rightarrow> bool" where
  "challenge_accepted i c \<longleftrightarrow> ch_used c = None \<and> fz_now i < ch_expires c \<and> ch_key c = ei_key (fz_device i) \<and> ch_hash c = fz_hash i"

definition finalize_enrollment :: "finalize_input \<Rightarrow> fresh_ids \<Rightarrow> auth_db \<Rightarrow> store_error + finalize_result \<times> auth_db" where
  "finalize_enrollment i f s =
     (if \<not> interval_ok (scan_interval (fz_device i)) then Inl (ErrOther interval_message)
      else case find (\<lambda>c. ch_id c = fz_challenge i) (db_challenges s) of
             None \<Rightarrow> Inl ErrUnauthorized
           | Some c \<Rightarrow>
              if \<not> challenge_accepted i c then Inl ErrUnauthorized
              else case token_by_hash (fz_enrollment i) s of
                     None \<Rightarrow> Inl ErrUnauthorized
                   | Some x \<Rightarrow>
                      if tk_revoked x \<noteq> None \<or> tk_id x \<noteq> ch_token c then Inl ErrUnauthorized
                      else (let s1 = consume_challenge (fz_challenge i) (fz_now i) s
                            in case linked_identity (ei_key (fz_device i)) s1 of
                                 Some (e, v) \<Rightarrow> renew_enrollment i (ch_token c) e v s1
                               | None \<Rightarrow> first_enrollment i f x s1))"

section \<open>Devices\<close>

definition device :: "string \<Rightarrow> auth_db \<Rightarrow> store_error + device_row" where
  "device did s = (case find (\<lambda>v. dv_id v = did) (db_devices s) of None \<Rightarrow> Inl ErrNotFound | Some v \<Rightarrow> Inr v)"

definition require_device :: "string \<Rightarrow> auth_db \<Rightarrow> store_error + unit" where
  "require_device did s = (case device did s of Inl e \<Rightarrow> Inl e | Inr _ \<Rightarrow> Inr ())"

definition agent_device :: "string \<Rightarrow> auth_db \<Rightarrow> store_error + device_row" where
  "agent_device hash s =
     (case find (\<lambda>a. ag_hash a = hash \<and> ag_revoked a = None) (db_agents s) of
        None \<Rightarrow> Inl ErrNotFound
      | Some a \<Rightarrow>
         (case find (\<lambda>v. dv_id v = ag_device a \<and> dv_status v \<noteq> DeviceRevoked) (db_devices s) of
            None \<Rightarrow> Inl ErrNotFound
          | Some v \<Rightarrow> Inr v))"

definition consume_nonce :: "string \<Rightarrow> string \<Rightarrow> instant \<Rightarrow> instant \<Rightarrow> auth_db \<Rightarrow> store_error + auth_db" where
  "consume_nonce dev nonce expires now s =
     (if dev = [] \<or> nonce = [] \<or> \<not> expires > now \<or> expires - now > 10 * minute
      then Inl (ErrOther ''agent request nonce is invalid'')
      else (let t = del_where (\<lambda>n. no_expires n \<le> now) (db_nonces s)
            in if cnt_where (\<lambda>n. no_device n = dev \<and> no_expires n > now) t \<ge> 1500 then Inl ErrConflict
               else if cnt_where (\<lambda>n. no_expires n > now) t \<ge> 100000 then Inl ErrConflict
               else if (dev, nonce) \<in> (\<lambda>n. (no_device n, no_nonce n)) ` set t \<or> dev \<notin> dv_id ` set (db_devices s) then Inl ErrConflict
               else Inr (s\<lparr>db_nonces := t @ [\<lparr>no_device = dev, no_nonce = nonce, no_expires = expires, no_created = now\<rparr>]\<rparr>)))"

definition count_nonces :: "auth_db \<Rightarrow> nat" where
  "count_nonces s = length (db_nonces s)"

record beat =
  be_name :: string
  be_hostname :: string
  be_os :: string
  be_arch :: string
  be_version :: string

definition heartbeat :: "string \<Rightarrow> beat \<Rightarrow> instant \<Rightarrow> auth_db \<Rightarrow> store_error + auth_db" where
  "heartbeat did b now s =
     (let p = (\<lambda>v. dv_id v = did \<and> dv_status v \<noteq> DeviceRevoked)
      in if cnt_where p (db_devices s) = 0 then Inl ErrNotFound
         else Inr (set_devices (upd_where p (\<lambda>v. v\<lparr>dv_name := (if be_name b = [] then dv_name v else be_name b),
                dv_hostname := be_hostname b, dv_os := be_os b, dv_arch := be_arch b, dv_version := be_version b,
                dv_status := DeviceOnline, dv_last_seen := Some now, dv_updated := now\<rparr>) (db_devices s)) s))"

definition mark_offline :: "instant \<Rightarrow> auth_db \<Rightarrow> auth_db" where
  "mark_offline before s =
     set_devices (upd_where (\<lambda>v. dv_status v = DeviceOnline \<and> (case dv_last_seen v of None \<Rightarrow> False | Some t \<Rightarrow> t < before))
       (\<lambda>v. v\<lparr>dv_status := DeviceOffline\<rparr>) (db_devices s)) s"

definition list_devices :: "instant \<Rightarrow> auth_db \<Rightarrow> device_row list \<times> auth_db" where
  "list_devices before s = (let s1 = mark_offline before s in (descending dv_created (db_devices s1), s1))"

text \<open>The part of \<open>Maintain\<close> (\<open>internal/store/maintenance.go\<close>) that concerns these tables.\<close>

definition prune_auth :: "instant \<Rightarrow> auth_db \<Rightarrow> auth_db" where
  "prune_auth now s =
     s\<lparr>db_challenges := del_where (challenge_stale now) (db_challenges s),
       db_sessions := del_where (\<lambda>x. se_expires x \<le> now) (db_sessions s),
       db_nonces := del_where (\<lambda>n. no_expires n \<le> now) (db_nonces s)\<rparr>"

section \<open>Revocation\<close>

definition revoked_message :: string where
  "revoked_message = ''device was revoked before command completion''"

definition cancelled_result :: bytes where
  "cancelled_result = ''{'' @ quote ''ok'' @ '':false,'' @ quote ''cancelled'' @ '':true}''"

definition revocation_statuses :: "bool \<Rightarrow> action_status set" where
  "revocation_statuses started =
     (if started then {Executing, RollingBack, Confirming}
      else {Approved, Executing, RollingBack, Confirming, AwaitingConfirmation})"

definition revoked_bans :: "bool \<Rightarrow> string \<Rightarrow> store \<Rightarrow> store" where
  "revoked_bans started aid s =
     (if started
      then update_bans (\<lambda>b. bn_action b = aid \<and> bn_status b \<in> {''pending'', ''active'', ''indeterminate''}) (\<lambda>b. b\<lparr>bn_status := ''indeterminate''\<rparr>) s
      else update_bans (\<lambda>b. bn_action b = aid \<and> bn_status b = ''pending'') (\<lambda>b. b\<lparr>bn_status := ''cancelled''\<rparr>) s)"

definition revoked_details :: "store_lib \<Rightarrow> string \<Rightarrow> bool \<Rightarrow> bytes" where
  "revoked_details J cid started = jx_map J [(''commandId'', DStr cid), (''manualVerificationRequired'', DBool started)]"

definition stop_action :: "store_lib \<Rightarrow> string \<Rightarrow> instant \<Rightarrow> cmd_row \<Rightarrow> string \<Rightarrow> string \<Rightarrow> store \<Rightarrow> store_error + store" where
  "stop_action J dev now c message aid s =
     (let started = (cm_started c \<noteq> None);
          p = (\<lambda>a. ac_id a = aid \<and> ac_device a = dev \<and> ac_status a \<in> revocation_statuses started);
          s1 = update_actions p (\<lambda>a. a\<lparr>ac_status := (if started then Indeterminate else Cancelled), ac_completed := Some now,
                 ac_error := message, ac_updated := now\<rparr>) s
      in if affected p s \<noteq> 1 then Inr s1
         else insert_audit (audit_entry aid ''controller''
                (if started then ''device_revoked_during_execution'' else ''device_revoked_before_execution'')
                (revoked_details J (cm_id c) started) now) (revoked_bans started aid s1))"

definition revoke_one :: "store_lib \<Rightarrow> string \<Rightarrow> instant \<Rightarrow> cmd_row \<Rightarrow> store \<Rightarrow> store_error + store" where
  "revoke_one J dev now c s =
     (let lost = (action_command (cm_type c) \<and> cm_started c \<noteq> None);
          message = (if lost then execution_indeterminate_message else revoked_message);
          s1 = close_command (cm_id c) (if lost then indeterminate_result else cancelled_result) message now s
      in if \<not> action_command (cm_type c) then Inr s1
         else case jx_action_id J (cm_payload c) of
                None \<Rightarrow> Inr s1
              | Some aid \<Rightarrow> if aid = [] then Inr s1 else stop_action J dev now c message aid s1)"

fun revoke_each :: "store_lib \<Rightarrow> string \<Rightarrow> instant \<Rightarrow> cmd_row list \<Rightarrow> store \<Rightarrow> store_error + store" where
  "revoke_each J dev now [] s = Inr s"
| "revoke_each J dev now (c # cs) s = bindE (revoke_one J dev now c s) (revoke_each J dev now cs)"

definition revoke_device :: "store_lib \<Rightarrow> string \<Rightarrow> instant \<Rightarrow> auth_db \<Rightarrow> store_error + auth_db" where
  "revoke_device J did now s =
     (let p = (\<lambda>v. dv_id v = did \<and> dv_status v \<noteq> DeviceRevoked)
      in if cnt_where p (db_devices s) = 0 then Inl ErrNotFound
         else (let s1 = set_devices (upd_where p (\<lambda>v. v\<lparr>dv_status := DeviceRevoked, dv_updated := now\<rparr>) (db_devices s)) s;
                   s2 = s1\<lparr>db_agents := upd_where (\<lambda>a. ag_device a = did \<and> ag_revoked a = None)
                          (\<lambda>a. a\<lparr>ag_revoked := Some now\<rparr>) (db_agents s1)\<rparr>;
                   pending = filter (\<lambda>c. cm_device c = did \<and> cm_completed c = None) (st_commands (fl_store (db_fleet s2)))
               in bindE (revoke_each J did now pending (fl_store (db_fleet s2))) (\<lambda>t. Inr (set_store t s2))))"

section \<open>Column lists\<close>

fun split_comma :: "string \<Rightarrow> string \<Rightarrow> string list" where
  "split_comma acc [] = [rev acc]"
| "split_comma acc (c # cs) = (if c = CHR '','' then rev acc # split_comma [] cs else split_comma (c # acc) cs)"

fun join_rest :: "string list \<Rightarrow> string" where
  "join_rest [] = []"
| "join_rest (x # xs) = '','' @ x @ join_rest xs"

definition join_comma :: "string list \<Rightarrow> string" where
  "join_comma v = (case v of [] \<Rightarrow> [] | x # xs \<Rightarrow> x @ join_rest xs)"

definition replace_columns :: "string \<Rightarrow> string \<Rightarrow> string" where
  "replace_columns columns prefix = join_comma (map (\<lambda>p. prefix @ p) (split_comma [] columns))"

end
