(* ===== verification/AuthInv.thy ===== *)
theory AuthInv
  imports AuthStore
begin

text \<open>
  The operations of \<open>AuthStore\<close> as the steps of one machine, and the schema of its tables
  (keys, references, checks, quotas) as the invariant of that machine.
\<close>

section \<open>Keys and references\<close>

definition keyed :: "('r \<Rightarrow> 'k) \<Rightarrow> 'r list \<Rightarrow> bool" where
  "keyed k t \<longleftrightarrow> distinct (map k t)"

definition refers :: "('r \<Rightarrow> 'k) \<Rightarrow> 'r list \<Rightarrow> ('q \<Rightarrow> 'k) \<Rightarrow> 'q list \<Rightarrow> bool" where
  "refers k t j u \<longleftrightarrow> k ` set t \<subseteq> j ` set u"

definition each :: "('r \<Rightarrow> bool) \<Rightarrow> 'r list \<Rightarrow> bool" where
  "each p t \<longleftrightarrow> (\<forall>r \<in> set t. p r)"

named_theorems schema \<open>how the schema predicates pass through the table operations\<close>

lemma keyed_snoc [schema]: "keyed k (t @ [r]) \<longleftrightarrow> keyed k t \<and> k r \<notin> k ` set t"
  by (auto simp: keyed_def)

lemma keyed_single [schema]: "keyed k [] \<and> keyed k [r]"
  by (simp add: keyed_def)

lemma keyed_del [schema]: "keyed k t \<Longrightarrow> keyed k (del_where p t)"
  by (simp add: keyed_def distinct_del_where)

lemma keyed_upd [schema]: "(\<And>r. k (f r) = k r) \<Longrightarrow> keyed k (upd_where p f t) = keyed k t"
  by (simp add: keyed_def map_upd_where_key)

lemma key_image_upd [schema]: "(\<And>r. k (f r) = k r) \<Longrightarrow> k ` set (upd_where p f t) = k ` set t"
  by (metis image_set map_upd_where_key)

lemma refers_snoc [schema]: "refers k (t @ [r]) j u \<longleftrightarrow> refers k t j u \<and> k r \<in> j ` set u"
  by (auto simp: refers_def)

lemma refers_Nil [schema]: "refers k [] j u"
  by (simp add: refers_def)

lemma refers_empty [schema]: "refers k t j [] \<longleftrightarrow> t = []"
  by (simp add: refers_def)

lemma refers_del [schema]: "refers k t j u \<Longrightarrow> refers k (del_where p t) j u"
  by (auto simp: refers_def set_del_where)

lemma refers_upd [schema]: "(\<And>r. k (f r) = k r) \<Longrightarrow> refers k (upd_where p f t) j u = refers k t j u"
  by (simp add: refers_def key_image_upd)

lemma refers_target_upd [schema]: "(\<And>r. j (f r) = j r) \<Longrightarrow> refers k t j (upd_where p f u) = refers k t j u"
  by (simp add: refers_def key_image_upd)

lemma refers_target_snoc [schema]: "refers k t j u \<Longrightarrow> refers k t j (u @ [r])"
  by (auto simp: refers_def)

lemma each_snoc [schema]: "each p (t @ [r]) \<longleftrightarrow> each p t \<and> p r"
  by (auto simp: each_def)

lemma each_Nil [schema]: "each p []"
  by (simp add: each_def)

lemma each_del [schema]: "each p t \<Longrightarrow> each p (del_where q t)"
  by (simp add: each_def set_del_where)

lemma each_upd [schema]: "(\<And>r. p r \<Longrightarrow> p (f r)) \<Longrightarrow> each p t \<Longrightarrow> each p (upd_where q f t)"
  by (auto simp: each_def set_upd_where)

lemma keyed_find:
  assumes "keyed k t" and "r \<in> set t"
  shows "find (\<lambda>x. k x = k r) t = Some r"
  using assms(1) unfolding keyed_def by (rule find_unique) (use assms(2) in simp_all)

section \<open>The schema\<close>

definition nonce_key :: "nonce_row \<Rightarrow> string \<times> string" where
  "nonce_key n = (no_device n, no_nonce n)"

definition token_check :: "token_row \<Rightarrow> bool" where
  "token_check x \<longleftrightarrow> 0 < tk_max x \<and> 0 \<le> tk_uses x \<and> tk_uses x \<le> tk_max x"

abbreviation db_schedules :: "auth_db \<Rightarrow> schedule_row list" where
  "db_schedules s \<equiv> fl_schedules (db_fleet s)"

definition auth_keys :: "auth_db \<Rightarrow> bool" where
  "auth_keys s \<longleftrightarrow> keyed dv_id (db_devices s) \<and> keyed tk_id (db_tokens s) \<and> keyed tk_hash (db_tokens s) \<and>
     keyed ag_id (db_agents s) \<and> keyed ag_hash (db_agents s) \<and> keyed ie_key (db_identities s) \<and>
     keyed ie_device (db_identities s) \<and> keyed ch_id (db_challenges s) \<and> keyed nonce_key (db_nonces s) \<and>
     keyed se_id (db_sessions s) \<and> keyed se_hash (db_sessions s) \<and> keyed sc_id (db_schedules s) \<and> length (db_admins s) \<le> 1"

definition auth_refs :: "auth_db \<Rightarrow> bool" where
  "auth_refs s \<longleftrightarrow> refers ag_device (db_agents s) dv_id (db_devices s) \<and> refers no_device (db_nonces s) dv_id (db_devices s) \<and>
     refers ie_device (db_identities s) dv_id (db_devices s) \<and> refers ie_token (db_identities s) tk_id (db_tokens s) \<and>
     refers ch_token (db_challenges s) tk_id (db_tokens s) \<and> refers se_admin (db_sessions s) ad_id (db_admins s) \<and>
     refers sc_device (db_schedules s) dv_id (db_devices s)"

definition auth_checks :: "auth_db \<Rightarrow> bool" where
  "auth_checks s \<longleftrightarrow> each token_check (db_tokens s) \<and> each schedule_check (db_schedules s)"

definition auth_typed :: "auth_db \<Rightarrow> bool" where
  "auth_typed s \<longleftrightarrow> auth_keys s \<and> auth_refs s \<and> auth_checks s"

lemmas auth_typed_defs = auth_typed_def auth_keys_def auth_refs_def auth_checks_def

text \<open>Every identity has used its token once.\<close>

definition linked_count :: "string \<Rightarrow> identity_row list \<Rightarrow> int" where
  "linked_count tid t = int (cnt_where (\<lambda>e. ie_token e = tid) t)"

definition quota_kept :: "auth_db \<Rightarrow> bool" where
  "quota_kept s \<longleftrightarrow> (\<forall>x \<in> set (db_tokens s). linked_count (tk_id x) (db_identities s) \<le> tk_uses x)"

text \<open>A revoked device has no valid credential.\<close>

definition revoked_silent :: "auth_db \<Rightarrow> bool" where
  "revoked_silent s \<longleftrightarrow> (\<forall>a \<in> set (db_agents s). \<forall>v \<in> set (db_devices s).
     ag_device a = dv_id v \<longrightarrow> dv_status v = DeviceRevoked \<longrightarrow> ag_revoked a \<noteq> None)"

text \<open>The replay cache and the challenges stay within their limits.\<close>

definition caches_bounded :: "auth_db \<Rightarrow> bool" where
  "caches_bounded s \<longleftrightarrow> length (db_nonces s) \<le> 100000 \<and> (\<forall>d. cnt_where (\<lambda>n. no_device n = d) (db_nonces s) \<le> 1500) \<and>
     each (\<lambda>c. ch_used c = None) (db_challenges s) \<and> length (db_challenges s) \<le> 4096 \<and>
     (\<forall>t. cnt_where (\<lambda>c. ch_token c = t) (db_challenges s) \<le> 64) \<and>
     (\<forall>t k. cnt_where (\<lambda>c. ch_token c = t \<and> ch_key c = k) (db_challenges s) \<le> 16)"

section \<open>Steps\<close>

text \<open>A step at time \<open>t\<close>; \<open>other\<close> stands for every operation on the remaining tables of the database.\<close>

inductive auth_step :: "store_lib \<Rightarrow> instant \<Rightarrow> auth_db \<Rightarrow> auth_db \<Rightarrow> bool" for J where
  st_admin: "create_admin f u h t s = Inr s' \<Longrightarrow> auth_step J t s s'"
| st_session: "create_session f a h e t s = Inr s' \<Longrightarrow> auth_step J t s s'"
| st_logout: "auth_step J t s (delete_session h s)"
| st_expire: "auth_step J t s (delete_expired_sessions t s)"
| st_token: "create_enrollment_token x s = Inr s' \<Longrightarrow> tk_uses x = 0 \<Longrightarrow> auth_step J t s s'"
| st_revoke_token: "revoke_enrollment_token i t s = Inr s' \<Longrightarrow> auth_step J t s s'"
| st_challenge: "create_enrollment_challenge c s = Inr s' \<Longrightarrow> ci_now c = t \<Longrightarrow> auth_step J t s s'"
| st_finalize: "finalize_enrollment z f s = Inr (r, s') \<Longrightarrow> fz_now z = t \<Longrightarrow> auth_step J t s s'"
| st_enroll: "enroll_device f e h d t s = Inr (v, s') \<Longrightarrow> auth_step J t s s'"
| st_nonce: "consume_nonce d n e t s = Inr s' \<Longrightarrow> auth_step J t s s'"
| st_heartbeat: "heartbeat d b t s = Inr s' \<Longrightarrow> auth_step J t s s'"
| st_list: "auth_step J t s (snd (list_devices before s))"
| st_revoke: "revoke_device J d t s = Inr s' \<Longrightarrow> auth_step J t s s'"
| st_prune: "auth_step J t s (prune_auth t s)"
| st_schedule: "create_schedule x every f (db_fleet s) = Inr F \<Longrightarrow> auth_step J t s (s\<lparr>db_fleet := F\<rparr>)"
| st_mark: "mark_schedule_run i e t n (db_fleet s) = Inr F \<Longrightarrow> auth_step J t s (s\<lparr>db_fleet := F\<rparr>)"
| st_update: "update_schedule i every b n t (db_fleet s) = Inr F \<Longrightarrow> auth_step J t s (s\<lparr>db_fleet := F\<rparr>)"
| st_delete: "delete_schedule i (db_fleet s) = Inr F \<Longrightarrow> auth_step J t s (s\<lparr>db_fleet := F\<rparr>)"
| st_other: "st_devices S = db_devices s \<Longrightarrow> auth_step J t s (set_store S s)"

definition auth_empty :: "auth_db \<Rightarrow> bool" where
  "auth_empty s \<longleftrightarrow> db_devices s = [] \<and> db_schedules s = [] \<and> db_admins s = [] \<and> db_sessions s = [] \<and> db_tokens s = [] \<and>
     db_agents s = [] \<and> db_nonces s = [] \<and> db_identities s = [] \<and> db_challenges s = []"

definition any_step :: "store_lib \<Rightarrow> auth_db \<Rightarrow> auth_db \<Rightarrow> bool" where
  "any_step J s s' \<longleftrightarrow> (\<exists>t. auth_step J t s s')"


section \<open>What the operations do\<close>

lemma set_devices_sel [simp]:
  "db_devices (set_devices t s) = t" "db_schedules (set_devices t s) = db_schedules s" "db_admins (set_devices t s) = db_admins s"
  "db_sessions (set_devices t s) = db_sessions s" "db_tokens (set_devices t s) = db_tokens s" "db_agents (set_devices t s) = db_agents s"
  "db_nonces (set_devices t s) = db_nonces s" "db_identities (set_devices t s) = db_identities s"
  "db_challenges (set_devices t s) = db_challenges s"
  by (simp_all add: set_devices_def)

lemma set_store_sel [simp]:
  "db_devices (set_store S s) = st_devices S" "db_schedules (set_store S s) = db_schedules s" "db_admins (set_store S s) = db_admins s"
  "db_sessions (set_store S s) = db_sessions s" "db_tokens (set_store S s) = db_tokens s" "db_agents (set_store S s) = db_agents s"
  "db_nonces (set_store S s) = db_nonces s" "db_identities (set_store S s) = db_identities s"
  "db_challenges (set_store S s) = db_challenges s"
  by (simp_all add: set_store_def)

lemma stop_action_devices: "stop_action J dev now c m aid s = Inr s' \<Longrightarrow> st_devices s' = st_devices s"
  by (auto simp: stop_action_def Let_def insert_audit_def revoked_bans_def update_actions_def update_bans_def split: if_splits)

lemma revoke_one_devices: "revoke_one J dev now c s = Inr s' \<Longrightarrow> st_devices s' = st_devices s"
  by (auto simp: revoke_one_def Let_def close_command_def update_commands_def dest!: stop_action_devices split: if_splits option.splits)

lemma revoke_each_devices: "revoke_each J dev now cs s = Inr s' \<Longrightarrow> st_devices s' = st_devices s"
  by (induction cs arbitrary: s) (auto simp: bindE_Inr_iff dest: revoke_one_devices)

text \<open>A new device adds one row to each of three tables and leaves the others alone.\<close>

definition adds_device :: "fresh_ids \<Rightarrow> enroll_input \<Rightarrow> string \<Rightarrow> instant \<Rightarrow> auth_db \<Rightarrow> auth_db \<Rightarrow> bool" where
  "adds_device f d hash now s s' \<longleftrightarrow>
     fi_device f \<notin> dv_id ` set (db_devices s) \<and> fi_agent f \<notin> ag_id ` set (db_agents s) \<and> hash \<notin> ag_hash ` set (db_agents s) \<and>
     fi_schedule f \<notin> sc_id ` set (db_schedules s) \<and> schedule_check (first_schedule f (scan_interval d) now) \<and>
     db_devices s' = db_devices s @ [enrolled_device f d now] \<and>
     db_agents s' = db_agents s @ [\<lparr>ag_id = fi_agent f, ag_device = fi_device f, ag_hash = hash, ag_created = now, ag_revoked = None\<rparr>] \<and>
     db_schedules s' = db_schedules s @ [first_schedule f (scan_interval d) now] \<and>
     db_admins s' = db_admins s \<and> db_sessions s' = db_sessions s \<and> db_tokens s' = db_tokens s \<and>
     db_nonces s' = db_nonces s \<and> db_identities s' = db_identities s \<and> db_challenges s' = db_challenges s"

lemma insert_new_device_adds: "insert_new_device dup f d hash now s = Inr s' \<Longrightarrow> adds_device f d hash now s s'"
  by (auto simp: insert_new_device_def insert_device_def insert_agent_token_def insert_schedule_def bindE_Inr_iff adds_device_def
      enrolled_device_def first_schedule_def split: if_splits)

lemma use_token_tokens:
  "use_token tid n s = Inr s' \<Longrightarrow>
     s' = s\<lparr>db_tokens := upd_where (\<lambda>x. tk_id x = tid \<and> tk_uses x = n) (\<lambda>x. x\<lparr>tk_uses := tk_uses x + 1\<rparr>) (db_tokens s)\<rparr>"
  by (simp add: use_token_def Let_def split: if_splits)

lemma token_usable_room: "token_usable x now = Inr u \<Longrightarrow> tk_uses x < tk_max x"
  by (simp add: token_usable_def split: if_splits)

definition used_token :: "token_row \<Rightarrow> token_row list \<Rightarrow> token_row list" where
  "used_token x t = upd_where (\<lambda>y. tk_id y = tk_id x \<and> tk_uses y = tk_uses x) (\<lambda>y. y\<lparr>tk_uses := tk_uses y + 1\<rparr>) t"

lemma enroll_device_effect:
  assumes "enroll_device f e hash d now s = Inr (v, s')"
  obtains x s1 where "x \<in> set (db_tokens s)" and "tk_uses x < tk_max x" and "adds_device f d hash now s s1"
    and "s' = s1\<lparr>db_tokens := used_token x (db_tokens s)\<rparr>"
proof -
  from assms obtain x u s1 where x: "token_by_hash e s = Some x" "token_usable x now = Inr u"
    and s1: "insert_new_device ErrConstraint f d hash now s = Inr s1" and s2: "use_token (tk_id x) (tk_uses x) s1 = Inr s'"
    by (auto simp: enroll_device_def bindE_Inr_iff split: if_splits option.splits)
  note a = insert_new_device_adds [OF s1]
  show thesis
    using x(1) token_usable_room [OF x(2)] a use_token_tokens [OF s2]
    by (intro that [of x s1]) (auto simp: token_by_hash_def used_token_def adds_device_def dest: find_SomeD)
qed

lemma consume_challenge_sel [simp]:
  "db_devices (consume_challenge c t s) = db_devices s" "db_schedules (consume_challenge c t s) = db_schedules s"
  "db_admins (consume_challenge c t s) = db_admins s" "db_sessions (consume_challenge c t s) = db_sessions s"
  "db_tokens (consume_challenge c t s) = db_tokens s" "db_agents (consume_challenge c t s) = db_agents s"
  "db_nonces (consume_challenge c t s) = db_nonces s" "db_identities (consume_challenge c t s) = db_identities s"
  by (simp_all add: consume_challenge_def)

lemma drop_challenge_sel [simp]:
  "db_devices (drop_challenge c s) = db_devices s" "db_schedules (drop_challenge c s) = db_schedules s"
  "db_admins (drop_challenge c s) = db_admins s" "db_sessions (drop_challenge c s) = db_sessions s"
  "db_tokens (drop_challenge c s) = db_tokens s" "db_agents (drop_challenge c s) = db_agents s"
  "db_nonces (drop_challenge c s) = db_nonces s" "db_identities (drop_challenge c s) = db_identities s"
  by (simp_all add: drop_challenge_def)

lemma drop_consumed: "del_where (\<lambda>c. ch_id c = i) (upd_where (\<lambda>c. ch_id c = i \<and> q c) (\<lambda>c. c\<lparr>ch_used := u\<rparr>) t) = del_where (\<lambda>c. ch_id c = i) t"
  by (induction t) (auto simp: del_where_def table_simps)

text \<open>The two ways an enrollment is finished.\<close>

lemma first_enrollment_effect:
  assumes "first_enrollment i f x s = Inr (r, s')"
  obtains s1 where "adds_device f (fz_device i) (fz_agent_hash i) (fz_now i) s s1" and "tk_uses x < tk_max x"
    and "ei_key (fz_device i) \<notin> ie_key ` set (db_identities s)" and "fi_device f \<notin> ie_device ` set (db_identities s)"
    and "tk_id x \<in> tk_id ` set (db_tokens s)"
    and "s' = drop_challenge (fz_challenge i) (s1\<lparr>db_tokens := used_token x (db_tokens s), db_identities := db_identities s @
           [\<lparr>ie_key = ei_key (fz_device i), ie_device = fi_device f, ie_token = tk_id x, ie_credential = fz_credential i,
             ie_created = fz_now i, ie_updated = fz_now i\<rparr>]\<rparr>)"
    and "r = \<lparr>fo_device = enrolled_device f (fz_device i) (fz_now i), fo_credential = fz_credential i, fo_created = True\<rparr>"
proof -
  let ?e = "\<lparr>ie_key = ei_key (fz_device i), ie_device = fi_device f, ie_token = tk_id x, ie_credential = fz_credential i,
             ie_created = fz_now i, ie_updated = fz_now i\<rparr>"
  from assms obtain u s1 s2 s3 where x: "token_usable x (fz_now i) = Inr u"
    and s1: "insert_new_device ErrConflict f (fz_device i) (fz_agent_hash i) (fz_now i) s = Inr s1"
    and s2: "insert_identity ?e s1 = Inr s2" and s3: "use_token (tk_id x) (tk_uses x) s2 = Inr s3"
    and out: "s' = drop_challenge (fz_challenge i) s3"
      "r = \<lparr>fo_device = enrolled_device f (fz_device i) (fz_now i), fo_credential = fz_credential i, fo_created = True\<rparr>"
    by (auto simp: first_enrollment_def Let_def bindE_Inr_iff split: if_splits)
  note a = insert_new_device_adds [OF s1]
  from s2 have i: "s2 = s1\<lparr>db_identities := db_identities s1 @ [?e]\<rparr>" "ei_key (fz_device i) \<notin> ie_key ` set (db_identities s1)"
    "fi_device f \<notin> ie_device ` set (db_identities s1)" "tk_id x \<in> tk_id ` set (db_tokens s1)"
    by (auto simp: insert_identity_def split: if_splits)
  have "s3 = s1\<lparr>db_tokens := used_token x (db_tokens s), db_identities := db_identities s @ [?e]\<rparr>"
    using use_token_tokens [OF s3] i(1) a by (simp add: used_token_def adds_device_def)
  with a i token_usable_room [OF x] out show thesis
    by (intro that [of s1]) (auto simp: adds_device_def)
qed

definition renews_device :: "finalize_input \<Rightarrow> identity_row \<Rightarrow> device_row \<Rightarrow> auth_db \<Rightarrow> auth_db \<Rightarrow> bool" where
  "renews_device i e v s s' \<longleftrightarrow>
     e \<in> set (db_identities s) \<and> ie_key e = ei_key (fz_device i) \<and> v \<in> set (db_devices s) \<and> dv_id v = ie_device e \<and>
     dv_status v \<noteq> DeviceRevoked \<and>
     db_devices s' = upd_where (\<lambda>x. dv_id x = dv_id v) (renewed (fz_device i) (fz_now i)) (db_devices s) \<and>
     db_challenges s' = del_where (\<lambda>c. ch_id c = fz_challenge i) (db_challenges s) \<and>
     db_schedules s' = db_schedules s \<and> db_admins s' = db_admins s \<and> db_sessions s' = db_sessions s \<and>
     db_tokens s' = db_tokens s \<and> db_agents s' = db_agents s \<and> db_nonces s' = db_nonces s \<and> db_identities s' = db_identities s"

lemma disable_auto_ban_sel [simp]:
  "db_devices (disable_auto_ban d t s) = db_devices s" "db_schedules (disable_auto_ban d t s) = db_schedules s"
  "db_admins (disable_auto_ban d t s) = db_admins s" "db_sessions (disable_auto_ban d t s) = db_sessions s"
  "db_tokens (disable_auto_ban d t s) = db_tokens s" "db_agents (disable_auto_ban d t s) = db_agents s"
  "db_nonces (disable_auto_ban d t s) = db_nonces s" "db_identities (disable_auto_ban d t s) = db_identities s"
  "db_challenges (disable_auto_ban d t s) = db_challenges s"
  by (simp_all add: disable_auto_ban_def)

lemma linked_identity_mem:
  "linked_identity k s = Some (e, v) \<Longrightarrow>
     e \<in> set (db_identities s) \<and> ie_key e = k \<and> v \<in> set (db_devices s) \<and> dv_id v = ie_device e"
  by (auto simp: linked_identity_def split: option.splits dest!: find_SomeD)

lemma consume_drop_challenges:
  "db_challenges (drop_challenge i (consume_challenge i t s)) = del_where (\<lambda>c. ch_id c = i) (db_challenges s)"
  by (simp add: drop_challenge_def consume_challenge_def drop_consumed)

lemma renew_enrollment_effect:
  assumes "renew_enrollment i tid e v (consume_challenge (fz_challenge i) t s) = Inr (r, s')"
    and "linked_identity (ei_key (fz_device i)) (consume_challenge (fz_challenge i) t s) = Some (e, v)"
  shows "renews_device i e v s s' \<and> ie_token e = tid \<and>
     r = \<lparr>fo_device = renewed (fz_device i) (fz_now i) v, fo_credential = ie_credential e, fo_created = False\<rparr>"
  using assms(1) linked_identity_mem [OF assms(2)]
  by (auto simp: renew_enrollment_def Let_def renews_device_def drop_challenge_def consume_challenge_def drop_consumed
      set_devices_def disable_auto_ban_def set_store_def split: if_splits)

lemma finalize_cases:
  assumes "finalize_enrollment i f s = Inr (r, s')"
  obtains (renew) c x e v where "c \<in> set (db_challenges s)" and "ch_id c = fz_challenge i" and "challenge_accepted i c"
      and "x \<in> set (db_tokens s)" and "tk_hash x = fz_enrollment i" and "tk_revoked x = None" and "tk_id x = ch_token c"
      and "renews_device i e v s s'" and "ie_token e = tk_id x"
      and "r = \<lparr>fo_device = renewed (fz_device i) (fz_now i) v, fo_credential = ie_credential e, fo_created = False\<rparr>"
  | (first) c x s0 s1 where "c \<in> set (db_challenges s)" and "ch_id c = fz_challenge i" and "challenge_accepted i c"
      and "x \<in> set (db_tokens s)" and "tk_hash x = fz_enrollment i" and "tk_revoked x = None" and "tk_id x = ch_token c"
      and "s0 = consume_challenge (fz_challenge i) (fz_now i) s"
      and "adds_device f (fz_device i) (fz_agent_hash i) (fz_now i) s0 s1" and "tk_uses x < tk_max x"
      and "ei_key (fz_device i) \<notin> ie_key ` set (db_identities s)" and "fi_device f \<notin> ie_device ` set (db_identities s)"
      and "s' = drop_challenge (fz_challenge i) (s1\<lparr>db_tokens := used_token x (db_tokens s), db_identities := db_identities s @
           [\<lparr>ie_key = ei_key (fz_device i), ie_device = fi_device f, ie_token = tk_id x, ie_credential = fz_credential i,
             ie_created = fz_now i, ie_updated = fz_now i\<rparr>]\<rparr>)"
      and "r = \<lparr>fo_device = enrolled_device f (fz_device i) (fz_now i), fo_credential = fz_credential i, fo_created = True\<rparr>"
proof -
  let ?s0 = "consume_challenge (fz_challenge i) (fz_now i) s"
  from assms obtain c x where c: "find (\<lambda>c. ch_id c = fz_challenge i) (db_challenges s) = Some c" "challenge_accepted i c"
    and x: "token_by_hash (fz_enrollment i) s = Some x" "tk_revoked x = None" "tk_id x = ch_token c"
    and go: "(case linked_identity (ei_key (fz_device i)) ?s0 of Some (e, v) \<Rightarrow> renew_enrollment i (ch_token c) e v ?s0
              | None \<Rightarrow> first_enrollment i f x ?s0) = Inr (r, s')"
    by (auto simp: finalize_enrollment_def Let_def split: if_splits option.splits)
  have mem: "c \<in> set (db_challenges s)" "ch_id c = fz_challenge i" "x \<in> set (db_tokens s)" "tk_hash x = fz_enrollment i"
    using c(1) x(1) by (auto simp: token_by_hash_def dest: find_SomeD)
  show thesis
  proof (cases "linked_identity (ei_key (fz_device i)) ?s0")
    case None
    with go have "first_enrollment i f x ?s0 = Inr (r, s')" by simp
    then show thesis
      by (rule first_enrollment_effect) (use mem c(2) x first in auto)
  next
    case (Some ev)
    obtain e v where ev: "ev = (e, v)" by (cases ev)
    with Some go have "renew_enrollment i (ch_token c) e v ?s0 = Inr (r, s')" by simp
    from renew_enrollment_effect [OF this Some [unfolded ev]] show thesis
      by (intro renew [OF mem(1,2) c(2) mem(3,4) x(2,3)]) (use x(3) in auto)
  qed
qed

end
