(* ===== verification/AuthProps.thy ===== *)
theory AuthProps
  imports AuthInv
begin

text \<open>
  The schema of the identity tables is an invariant of every sequence of operations, and
  what follows from it: quotas, one-time challenges and nonces, silence of revoked devices.
\<close>

section \<open>The schema is kept\<close>

lemma keyed_inj: "keyed k t \<Longrightarrow> a \<in> set t \<Longrightarrow> b \<in> set t \<Longrightarrow> k a = k b \<Longrightarrow> a = b"
  by (auto simp: keyed_def distinct_map inj_on_def)

lemma used_token_keys [schema]:
  "keyed tk_id (used_token x t) = keyed tk_id t" "keyed tk_hash (used_token x t) = keyed tk_hash t"
  "refers k u tk_id (used_token x t) = refers k u tk_id t" "tk_id ` set (used_token x t) = tk_id ` set t"
  by (simp_all add: used_token_def schema)

lemma used_token_check:
  assumes "each token_check t" and "keyed tk_id t" and x: "x \<in> set t" "tk_uses x < tk_max x"
  shows "each token_check (used_token x t)"
proof -
  have "token_check (if tk_id y = tk_id x \<and> tk_uses y = tk_uses x then y\<lparr>tk_uses := tk_uses y + 1\<rparr> else y)" if y: "y \<in> set t" for y
    using assms(1) y keyed_inj [OF assms(2) y x(1)] x(2) by (auto simp: each_def token_check_def)
  then show ?thesis unfolding each_def used_token_def set_upd_where by blast
qed

lemma adds_device_typed:
  assumes "auth_typed s" and "adds_device f d h t s s'"
  shows "auth_typed s'"
  using assms by (simp add: auth_typed_defs adds_device_def schema enrolled_device_def first_schedule_def)

lemma consume_challenge_typed: "auth_typed (consume_challenge c t s) = auth_typed s"
  by (simp add: auth_typed_defs consume_challenge_def schema)

lemma drop_challenge_typed: "auth_typed s \<Longrightarrow> auth_typed (drop_challenge c s)"
  by (simp add: auth_typed_defs drop_challenge_def schema)

lemma finalize_typed:
  assumes "auth_typed s" and "finalize_enrollment i f s = Inr (r, s')"
  shows "auth_typed s'"
  using assms(2)
proof (cases rule: finalize_cases)
  case (renew c x e v)
  with assms(1) show ?thesis by (simp add: auth_typed_defs renews_device_def schema renewed_def)
next
  case (first c x s0 s1)
  have s1: "auth_typed s1"
    using adds_device_typed [OF _ first(9)] assms(1) first(8) by (simp add: consume_challenge_typed)
  have "db_tokens s1 = db_tokens s" "db_identities s1 = db_identities s" "db_devices s1 = db_devices s @ [enrolled_device f (fz_device i) (fz_now i)]"
    using first(8,9) by (simp_all add: adds_device_def)
  moreover have "tk_id x \<in> tk_id ` set (db_tokens s)" using first(4) by simp
  ultimately show ?thesis
    unfolding first(13) using s1 first(4,10-12)
    by (intro drop_challenge_typed) (auto simp: auth_typed_defs schema used_token_check enrolled_device_def)
qed

lemma enroll_typed:
  assumes "auth_typed s" and "enroll_device f e h d t s = Inr (v, s')"
  shows "auth_typed s'"
proof -
  from assms(2) obtain x s1 where x: "x \<in> set (db_tokens s)" "tk_uses x < tk_max x"
    and a: "adds_device f d h t s s1" and s': "s' = s1\<lparr>db_tokens := used_token x (db_tokens s)\<rparr>"
    by (rule enroll_device_effect)
  have "db_tokens s1 = db_tokens s" using a by (simp add: adds_device_def)
  with adds_device_typed [OF assms(1) a] x show ?thesis
    unfolding s' by (simp add: auth_typed_defs schema used_token_check)
qed

lemma challenge_effect:
  assumes "create_enrollment_challenge i s = Inr s'"
  obtains x where "x \<in> set (db_tokens s)" and "tk_revoked x = None"
    and "ci_id i \<notin> ch_id ` set (del_where (challenge_stale (ci_now i)) (db_challenges s))"
    and "challenge_room i x (del_where (challenge_stale (ci_now i)) (db_challenges s))"
    and "s' = s\<lparr>db_challenges := del_where (challenge_stale (ci_now i)) (db_challenges s) @ [challenge_of i x]\<rparr>"
  using assms by (auto simp: create_enrollment_challenge_def challenge_authorized_def Let_def token_by_hash_def
      split: if_splits option.splits sum.splits dest!: find_SomeD)

lemma challenge_typed:
  assumes "auth_typed s" and "create_enrollment_challenge i s = Inr s'"
  shows "auth_typed s'"
proof -
  from assms(2) obtain x where "x \<in> set (db_tokens s)"
    "ci_id i \<notin> ch_id ` set (del_where (challenge_stale (ci_now i)) (db_challenges s))"
    "s' = s\<lparr>db_challenges := del_where (challenge_stale (ci_now i)) (db_challenges s) @ [challenge_of i x]\<rparr>"
    by (rule challenge_effect)
  with assms(1) show ?thesis by (simp add: auth_typed_defs schema challenge_of_def)
qed

lemma nonce_effect:
  assumes "consume_nonce d n e t s = Inr s'"
  shows "d \<in> dv_id ` set (db_devices s) \<and> t < e \<and>
    (d, n) \<notin> nonce_key ` set (del_where (\<lambda>n. no_expires n \<le> t) (db_nonces s)) \<and>
    cnt_where (\<lambda>n. no_device n = d \<and> no_expires n > t) (del_where (\<lambda>n. no_expires n \<le> t) (db_nonces s)) < 1500 \<and>
    cnt_where (\<lambda>n. no_expires n > t) (del_where (\<lambda>n. no_expires n \<le> t) (db_nonces s)) < 100000 \<and>
    s' = s\<lparr>db_nonces := del_where (\<lambda>n. no_expires n \<le> t) (db_nonces s) @
           [\<lparr>no_device = d, no_nonce = n, no_expires = e, no_created = t\<rparr>]\<rparr>"
  using assms by (auto simp: consume_nonce_def Let_def nonce_key_def split: if_splits)

lemma nonce_typed:
  assumes "auth_typed s" and "consume_nonce d n e t s = Inr s'"
  shows "auth_typed s'"
proof -
  have "nonce_key \<lparr>no_device = d, no_nonce = n, no_expires = e, no_created = t\<rparr> = (d, n)" by (simp add: nonce_key_def)
  with nonce_effect [OF assms(2)] assms(1) show ?thesis by (simp add: auth_typed_defs schema)
qed

lemma revoke_device_effect:
  assumes "revoke_device J d t s = Inr s'"
  shows "db_devices s' = upd_where (\<lambda>v. dv_id v = d \<and> dv_status v \<noteq> DeviceRevoked) (\<lambda>v. v\<lparr>dv_status := DeviceRevoked, dv_updated := t\<rparr>) (db_devices s) \<and>
     db_agents s' = upd_where (\<lambda>a. ag_device a = d \<and> ag_revoked a = None) (\<lambda>a. a\<lparr>ag_revoked := Some t\<rparr>) (db_agents s) \<and>
     db_schedules s' = db_schedules s \<and> db_admins s' = db_admins s \<and> db_sessions s' = db_sessions s \<and> db_tokens s' = db_tokens s \<and>
     db_nonces s' = db_nonces s \<and> db_identities s' = db_identities s \<and> db_challenges s' = db_challenges s"
  using assms
  by (auto simp: revoke_device_def Let_def bindE_Inr_iff set_devices_def dest!: revoke_each_devices split: if_splits)

lemma fleet_typed:
  assumes "auth_typed s" and "st_devices (fl_store F) = db_devices s" and "keyed sc_id (fl_schedules F)"
    and "each schedule_check (fl_schedules F)" and "refers sc_device (fl_schedules F) dv_id (db_devices s)"
  shows "auth_typed (s\<lparr>db_fleet := F\<rparr>)"
  using assms by (simp add: auth_typed_defs)

lemma marked_schedules: "each schedule_check t \<Longrightarrow>
    each schedule_check (upd_where p (\<lambda>x. x\<lparr>sc_last := a, sc_next := b, sc_updated := c\<rparr>) t)"
  by (rule each_upd) (simp_all add: schedule_check_def)

lemma schedule_steps_typed:
  assumes "auth_typed s"
  shows "create_schedule x every f (db_fleet s) = Inr F \<Longrightarrow> auth_typed (s\<lparr>db_fleet := F\<rparr>)"
    and "mark_schedule_run i e t n (db_fleet s) = Inr F \<Longrightarrow> auth_typed (s\<lparr>db_fleet := F\<rparr>)"
    and "update_schedule i every b n t (db_fleet s) = Inr F \<Longrightarrow> auth_typed (s\<lparr>db_fleet := F\<rparr>)"
    and "delete_schedule i (db_fleet s) = Inr F \<Longrightarrow> auth_typed (s\<lparr>db_fleet := F\<rparr>)"
  using assms
  by (auto intro!: fleet_typed [OF assms]
      simp: create_schedule_def mark_schedule_run_def update_schedule_def delete_schedule_def Let_def auth_typed_defs schema
        marked_schedules schedule_check_def split: if_splits)

lemma revoked_tokens: "each token_check t \<Longrightarrow> each token_check (upd_where p (\<lambda>x. x\<lparr>tk_revoked := r\<rparr>) t)"
  by (rule each_upd) (simp_all add: token_check_def)

lemma typed_step:
  assumes "auth_typed s" and "auth_step J t s s'"
  shows "auth_typed s'"
  using assms(2)
proof cases
  case st_admin
  then show ?thesis using assms(1)
    by (auto simp: create_admin_def auth_typed_defs schema split: if_splits)
next
  case st_session
  then show ?thesis using assms(1)
    by (auto simp: create_session_def auth_typed_defs schema split: if_splits)
next
  case st_token
  then show ?thesis using assms(1)
    by (auto simp: create_enrollment_token_def auth_typed_defs schema token_check_def split: if_splits)
next
  case st_revoke_token
  then show ?thesis using assms(1)
    by (auto simp: revoke_enrollment_token_def Let_def auth_typed_defs schema revoked_tokens split: if_splits)
next
  case st_heartbeat
  then show ?thesis using assms(1)
    by (auto simp: heartbeat_def Let_def auth_typed_defs schema split: if_splits)
next
  case st_revoke
  from revoke_device_effect [OF this] assms(1) show ?thesis by (simp add: auth_typed_defs schema)
next
  case st_logout
  then show ?thesis using assms(1) by (simp add: delete_session_def auth_typed_defs schema)
next
  case st_expire
  then show ?thesis using assms(1) by (simp add: delete_expired_sessions_def auth_typed_defs schema)
next
  case st_list
  then show ?thesis using assms(1) by (simp add: list_devices_def mark_offline_def Let_def auth_typed_defs schema)
next
  case st_prune
  then show ?thesis using assms(1) by (simp add: prune_auth_def auth_typed_defs schema)
next
  case st_other
  then show ?thesis using assms(1) by (simp add: auth_typed_defs)
qed (use assms(1) in \<open>auto intro: schedule_steps_typed challenge_typed nonce_typed enroll_typed finalize_typed\<close>)


section \<open>Quotas\<close>

lemma quota_same: "quota_kept s \<Longrightarrow> db_tokens s' = db_tokens s \<Longrightarrow> db_identities s' = db_identities s \<Longrightarrow> quota_kept s'"
  by (simp add: quota_kept_def)

lemma linked_count_snoc: "linked_count i (t @ [e]) = linked_count i t + (if ie_token e = i then 1 else 0)"
  by (simp add: linked_count_def table_simps)

lemma quota_used:
  assumes "quota_kept s" and "keyed tk_id (db_tokens s)" and x: "x \<in> set (db_tokens s)"
    and s': "db_tokens s' = used_token x (db_tokens s)"
    and ids: "db_identities s' = db_identities s \<or> (\<exists>e. db_identities s' = db_identities s @ [e] \<and> ie_token e = tk_id x)"
  shows "quota_kept s'"
  unfolding quota_kept_def
proof
  fix y assume "y \<in> set (db_tokens s')"
  then obtain z where z: "z \<in> set (db_tokens s)"
    and y: "y = (if tk_id z = tk_id x \<and> tk_uses z = tk_uses x then z\<lparr>tk_uses := tk_uses z + 1\<rparr> else z)"
    unfolding s' used_token_def set_upd_where by blast
  have q: "linked_count (tk_id z) (db_identities s) \<le> tk_uses z" using assms(1) z by (simp add: quota_kept_def)
  show "linked_count (tk_id y) (db_identities s') \<le> tk_uses y"
  proof (cases "tk_id z = tk_id x")
    case True
    then have "z = x" using keyed_inj [OF assms(2) z x] by simp
    with q y ids show ?thesis by (auto simp: linked_count_snoc)
  next
    case False
    with q y ids show ?thesis by (auto simp: linked_count_snoc)
  qed
qed

lemma quota_revoked: "quota_kept s \<Longrightarrow> quota_kept (s\<lparr>db_tokens := upd_where p (\<lambda>x. x\<lparr>tk_revoked := r\<rparr>) (db_tokens s)\<rparr>)"
  by (auto simp: quota_kept_def set_upd_where)

lemma quota_new_token:
  assumes "quota_kept s" and "auth_typed s" and "tk_id x \<notin> tk_id ` set (db_tokens s)" and "0 \<le> tk_uses x"
  shows "quota_kept (s\<lparr>db_tokens := db_tokens s @ [x]\<rparr>)"
proof -
  have "ie_token ` set (db_identities s) \<subseteq> tk_id ` set (db_tokens s)"
    using assms(2) by (simp add: auth_typed_defs refers_def)
  with assms(3) have "ie_token e \<noteq> tk_id x" if "e \<in> set (db_identities s)" for e
    using that by (metis image_eqI subsetD)
  then have "linked_count (tk_id x) (db_identities s) = 0"
    by (simp add: linked_count_def cnt_where_0_iff)
  with assms(1,4) show ?thesis by (auto simp: quota_kept_def)
qed

lemma quota_step:
  assumes "quota_kept s" and "auth_typed s" and "auth_step J t s s'"
  shows "quota_kept s'"
  using assms(3)
proof cases
  case st_token
  then show ?thesis using quota_new_token [OF assms(1,2)]
    by (auto simp: create_enrollment_token_def split: if_splits)
next
  case st_revoke_token
  then show ?thesis using assms(1) by (auto simp: revoke_enrollment_token_def Let_def quota_revoked split: if_splits)
next
  case (st_finalize z f r)
  from st_finalize(1) show ?thesis
  proof (cases rule: finalize_cases)
    case (renew c x e v)
    then show ?thesis using assms(1) by (auto simp: renews_device_def intro: quota_same)
  next
    case (first c x s0 s1)
    have "db_tokens s' = used_token x (db_tokens s)" by (simp add: first(13))
    note used = quota_used [OF assms(1) _ first(4) this]
    show ?thesis
      by (rule used) (use assms(2) first(13) in \<open>auto simp: auth_typed_defs\<close>)
  qed
next
  case (st_enroll f e h d v)
  from st_enroll obtain x s1 where x: "x \<in> set (db_tokens s)" and a: "adds_device f d h t s s1"
    and s': "s' = s1\<lparr>db_tokens := used_token x (db_tokens s)\<rparr>"
    by (rule enroll_device_effect)
  show ?thesis
    by (rule quota_used [OF assms(1) _ x]) (use assms(2) a s' in \<open>auto simp: auth_typed_defs adds_device_def\<close>)
qed (use assms(1) in \<open>auto intro: quota_same simp: create_admin_def create_session_def delete_session_def delete_expired_sessions_def
    consume_nonce_def heartbeat_def list_devices_def mark_offline_def prune_auth_def Let_def split: if_splits
    dest!: revoke_device_effect elim!: challenge_effect\<close>)

section \<open>Revoked devices\<close>

lemma silent_mono:
  assumes "revoked_silent s" and "db_agents s' = db_agents s"
    and "\<And>v. v \<in> set (db_devices s') \<Longrightarrow> dv_status v = DeviceRevoked \<Longrightarrow>
           \<exists>u \<in> set (db_devices s). dv_id u = dv_id v \<and> dv_status u = DeviceRevoked"
  shows "revoked_silent s'"
  unfolding revoked_silent_def
proof (intro ballI impI)
  fix a v assume a: "a \<in> set (db_agents s')" and v: "v \<in> set (db_devices s')" "ag_device a = dv_id v" "dv_status v = DeviceRevoked"
  from assms(3) [OF v(1,3)] obtain u where "u \<in> set (db_devices s)" "dv_id u = dv_id v" "dv_status u = DeviceRevoked" by blast
  then show "ag_revoked a \<noteq> None" using assms(1) a v(2) unfolding assms(2) revoked_silent_def by metis
qed

lemma silent_adds:
  assumes "revoked_silent s" and "auth_typed s" and "adds_device f d h t s s'"
  shows "revoked_silent s'"
proof -
  have refs: "ag_device ` set (db_agents s) \<subseteq> dv_id ` set (db_devices s)"
    using assms(2) by (simp add: auth_typed_defs refers_def)
  show ?thesis
    using assms(1,3) refs unfolding revoked_silent_def adds_device_def
    by (fastforce simp: enrolled_device_def)
qed

lemma silent_revoke:
  assumes "revoked_silent s" and "revoke_device J d t s = Inr s'"
  shows "revoked_silent s'"
  using assms(1) revoke_device_effect [OF assms(2)] unfolding revoked_silent_def
  by (fastforce simp: set_upd_where split: if_splits)

lemma silent_step:
  assumes "revoked_silent s" and "auth_typed s" and "auth_step J t s s'"
  shows "revoked_silent s'"
  using assms(3)
proof cases
  case (st_finalize z f r)
  from st_finalize(1) show ?thesis
  proof (cases rule: finalize_cases)
    case (renew c x e v)
    then show ?thesis
      by (intro silent_mono [OF assms(1)]) (auto simp: renews_device_def set_upd_where renewed_def split: if_splits)
  next
    case (first c x s0 s1)
    have "revoked_silent s1"
      using silent_adds [OF _ _ first(9)] assms(1,2) first(8) by (simp add: consume_challenge_typed revoked_silent_def)
    then show ?thesis by (simp add: first(13) revoked_silent_def)
  qed
next
  case (st_enroll f e h d v)
  from st_enroll obtain x s1 where a: "adds_device f d h t s s1" and s': "s' = s1\<lparr>db_tokens := used_token x (db_tokens s)\<rparr>"
    by (rule enroll_device_effect)
  show ?thesis using silent_adds [OF assms(1,2) a] by (simp add: s' revoked_silent_def)
next
  case st_revoke
  from silent_revoke [OF assms(1) this] show ?thesis .
qed (use assms(1) in \<open>auto intro!: silent_mono [OF assms(1)] simp: create_admin_def create_session_def delete_session_def delete_expired_sessions_def
    create_enrollment_token_def revoke_enrollment_token_def consume_nonce_def heartbeat_def list_devices_def mark_offline_def prune_auth_def
    create_schedule_def mark_schedule_run_def update_schedule_def delete_schedule_def set_upd_where Let_def split: if_splits elim!: challenge_effect\<close>)


section \<open>Bounded caches\<close>

lemma del_where_le [schema]: "length t \<le> n \<Longrightarrow> length (del_where p t) \<le> n"
  by (simp add: del_where_def le_trans [OF length_filter_le])

lemma cnt_del_where_bound [schema]: "cnt_where q t \<le> n \<Longrightarrow> cnt_where q (del_where p t) \<le> n"
  by (rule le_trans [OF cnt_del_where_le])

lemma cnt_where_cong: "(\<And>r. r \<in> set t \<Longrightarrow> p r = q r) \<Longrightarrow> cnt_where p t = cnt_where q t"
  by (induction t) (auto simp: table_simps)

lemma cnt_where_all: "(\<And>r. r \<in> set t \<Longrightarrow> p r) \<Longrightarrow> cnt_where p t = length t"
  by (induction t) (auto simp: table_simps)

lemma bounded_same:
  "caches_bounded s \<Longrightarrow> db_nonces s' = db_nonces s \<Longrightarrow> db_challenges s' = db_challenges s \<Longrightarrow> caches_bounded s'"
  by (simp add: caches_bounded_def)

lemma bounded_del:
  "caches_bounded s \<Longrightarrow> db_nonces s' = db_nonces s \<Longrightarrow> db_challenges s' = del_where p (db_challenges s) \<Longrightarrow> caches_bounded s'"
  by (simp add: caches_bounded_def schema)

lemma bounded_nonce:
  assumes "caches_bounded s" and "consume_nonce d n e t s = Inr s'"
  shows "caches_bounded s'"
proof -
  let ?t = "del_where (\<lambda>n. no_expires n \<le> t) (db_nonces s)"
  have live: "no_expires r > t" if "r \<in> set ?t" for r using that by (simp add: set_del_where)
  have "cnt_where (\<lambda>n. no_expires n > t) ?t = length ?t"
    and "cnt_where (\<lambda>n. no_device n = d \<and> no_expires n > t) ?t = cnt_where (\<lambda>n. no_device n = d) ?t"
    by (auto intro!: cnt_where_all cnt_where_cong dest: live)
  with nonce_effect [OF assms(2)] assms(1) show ?thesis
    by (auto simp: caches_bounded_def table_simps schema)
qed

lemma bounded_challenge:
  assumes "caches_bounded s" and "create_enrollment_challenge i s = Inr s'"
  shows "caches_bounded s'"
proof -
  let ?t = "del_where (challenge_stale (ci_now i)) (db_challenges s)"
  from assms(2) obtain x where room: "challenge_room i x ?t" and s': "s' = s\<lparr>db_challenges := ?t @ [challenge_of i x]\<rparr>"
    by (rule challenge_effect)
  have live: "outstanding (ci_now i) r" if "r \<in> set ?t" for r
    using that assms(1) by (auto simp: set_del_where challenge_stale_def outstanding_def caches_bounded_def each_def)
  have "cnt_where (outstanding (ci_now i)) ?t = length ?t"
    and "cnt_where (\<lambda>c. ch_token c = tk_id x \<and> outstanding (ci_now i) c) ?t = cnt_where (\<lambda>c. ch_token c = tk_id x) ?t"
    and "cnt_where (\<lambda>c. ch_token c = tk_id x \<and> ch_key c = ci_key i \<and> outstanding (ci_now i) c) ?t =
      cnt_where (\<lambda>c. ch_token c = tk_id x \<and> ch_key c = ci_key i) ?t"
    by (auto intro!: cnt_where_all cnt_where_cong dest: live)
  with room assms(1) show ?thesis
    unfolding s' by (auto simp: caches_bounded_def table_simps schema challenge_room_def challenge_of_def)
qed

lemma bounded_step:
  assumes "caches_bounded s" and "auth_step J t s s'"
  shows "caches_bounded s'"
  using assms(2)
proof cases
  case (st_finalize z f r)
  from st_finalize(1) show ?thesis
  proof (cases rule: finalize_cases)
    case (renew c x e v)
    then show ?thesis by (auto simp: renews_device_def intro: bounded_del [OF assms(1)])
  next
    case (first c x s0 s1)
    have "db_challenges s' = del_where (\<lambda>c. ch_id c = fz_challenge z) (db_challenges s)" "db_nonces s' = db_nonces s"
      using first(8,9) by (simp_all add: first(13) adds_device_def drop_challenge_def consume_challenge_def drop_consumed)
    then show ?thesis by (intro bounded_del [OF assms(1)])
  qed
next
  case (st_enroll f e h d v)
  from st_enroll obtain x s1 where "adds_device f d h t s s1" "s' = s1\<lparr>db_tokens := used_token x (db_tokens s)\<rparr>"
    by (rule enroll_device_effect)
  then show ?thesis by (intro bounded_same [OF assms(1)]) (simp_all add: adds_device_def)
next
  case st_prune
  then show ?thesis using assms(1) by (simp add: prune_auth_def caches_bounded_def schema)
next
  case (st_challenge c)
  then show ?thesis using bounded_challenge [OF assms(1)] by blast
next
  case (st_nonce d n e)
  then show ?thesis using bounded_nonce [OF assms(1)] by blast
next
  case (st_revoke d)
  from revoke_device_effect [OF this] show ?thesis by (intro bounded_same [OF assms(1)]) simp_all
qed (use assms(1) in \<open>auto intro!: bounded_same [OF assms(1)] simp: create_admin_def create_session_def delete_session_def
    delete_expired_sessions_def create_enrollment_token_def revoke_enrollment_token_def heartbeat_def list_devices_def mark_offline_def
    Let_def split: if_splits\<close>)

section \<open>The machine\<close>

definition auth_inv :: "auth_db \<Rightarrow> bool" where
  "auth_inv s \<longleftrightarrow> auth_typed s \<and> quota_kept s \<and> revoked_silent s \<and> caches_bounded s"

lemma auth_empty_inv: "auth_empty s \<Longrightarrow> auth_inv s"
  by (simp add: auth_empty_def auth_inv_def auth_typed_defs quota_kept_def revoked_silent_def caches_bounded_def keyed_def
      schema table_simps)

interpretation authdb: machine auth_empty "any_step J" auth_inv for J
  by unfold_locales (erule auth_empty_inv, auto simp: any_step_def auth_inv_def intro: typed_step quota_step silent_step bounded_step)

end
