(* ===== verification/EnrollmentProps.thy ===== *)
theory EnrollmentProps
  imports AuthProps StoreDemo
begin

text \<open>
  The claims about enrollment, request nonces and revocation, and a small database on which
  they are applied.
\<close>

section \<open>What no step undoes\<close>

lemma identities_kept:
  assumes "auth_step J t s s'"
  shows "set (db_identities s) \<subseteq> set (db_identities s')"
  using assms
proof cases
  case (st_finalize z f r)
  from st_finalize(1) show ?thesis
    by (cases rule: finalize_cases) (auto simp: renews_device_def)
next
  case (st_enroll f e h d v)
  from st_enroll obtain x s1 where "adds_device f d h t s s1" "s' = s1\<lparr>db_tokens := used_token x (db_tokens s)\<rparr>"
    by (rule enroll_device_effect)
  then show ?thesis by (simp add: adds_device_def)
next
  case st_revoke
  from revoke_device_effect [OF this] show ?thesis by simp
qed (auto simp: create_admin_def create_session_def delete_session_def delete_expired_sessions_def create_enrollment_token_def
    revoke_enrollment_token_def consume_nonce_def heartbeat_def list_devices_def mark_offline_def prune_auth_def Let_def
    split: if_splits elim!: challenge_effect)

lemma identities_kept_star: "(any_step J)\<^sup>*\<^sup>* s s' \<Longrightarrow> set (db_identities s) \<subseteq> set (db_identities s')"
  by (induction rule: rtranclp_induct) (auto simp: any_step_def dest!: identities_kept)

definition gone :: "string \<Rightarrow> auth_db \<Rightarrow> bool" where
  "gone d s \<longleftrightarrow> (\<exists>v \<in> set (db_devices s). dv_id v = d \<and> dv_status v = DeviceRevoked)"

lemma gone_upd:
  assumes "gone d s" and "db_devices s' = upd_where p f (db_devices s)" and "\<And>v. dv_id (f v) = dv_id v"
    and "\<And>v. v \<in> set (db_devices s) \<Longrightarrow> dv_id v = d \<Longrightarrow> p v \<Longrightarrow> dv_status v = DeviceRevoked \<Longrightarrow> dv_status (f v) = DeviceRevoked"
  shows "gone d s'"
proof -
  from assms(1) obtain v where v: "v \<in> set (db_devices s)" "dv_id v = d" "dv_status v = DeviceRevoked" by (auto simp: gone_def)
  show ?thesis
    unfolding gone_def assms(2) set_upd_where
    by (rule bexI [OF _ imageI [OF v(1)]]) (use v assms(3,4) in auto)
qed

lemma gone_same: "gone d s \<Longrightarrow> set (db_devices s) \<subseteq> set (db_devices s') \<Longrightarrow> gone d s'"
  by (auto simp: gone_def)

lemma gone_kept:
  assumes "gone d s" and "auth_typed s" and "auth_step J t s s'"
  shows "gone d s'"
  using assms(3)
proof cases
  case (st_finalize z f r)
  from st_finalize(1) show ?thesis
  proof (cases rule: finalize_cases)
    case (renew c x e v)
    have "dv_status w \<noteq> DeviceRevoked" if "w \<in> set (db_devices s)" "dv_id w = dv_id v" for w
      using keyed_inj [of dv_id "db_devices s" w v] that renew(8) assms(2) by (auto simp: renews_device_def auth_typed_defs)
    moreover have devs: "db_devices s' = upd_where (\<lambda>x. dv_id x = dv_id v) (renewed (fz_device z) (fz_now z)) (db_devices s)"
      using renew(8) by (simp add: renews_device_def)
    ultimately show ?thesis by (intro gone_upd [OF assms(1) devs]) (auto simp: renewed_def)
  next
    case (first c x s0 s1)
    then show ?thesis by (intro gone_same [OF assms(1)]) (auto simp: adds_device_def)
  qed
next
  case (st_enroll f e h a v)
  from st_enroll obtain x s1 where "adds_device f a h t s s1" "s' = s1\<lparr>db_tokens := used_token x (db_tokens s)\<rparr>"
    by (rule enroll_device_effect)
  then show ?thesis by (intro gone_same [OF assms(1)]) (auto simp: adds_device_def)
next
  case st_revoke
  then show ?thesis by (intro gone_upd [OF assms(1) conjunct1 [OF revoke_device_effect [OF st_revoke]]]) auto
next
  case st_heartbeat
  then show ?thesis by (auto simp: heartbeat_def Let_def split: if_splits intro!: gone_upd [OF assms(1)])
next
  case st_list
  then show ?thesis by (auto simp: list_devices_def mark_offline_def Let_def intro!: gone_upd [OF assms(1)])
qed (auto intro!: gone_same [OF assms(1)] simp: create_admin_def create_session_def delete_session_def delete_expired_sessions_def
    create_enrollment_token_def revoke_enrollment_token_def consume_nonce_def prune_auth_def create_schedule_def mark_schedule_run_def
    update_schedule_def delete_schedule_def Let_def split: if_splits elim!: challenge_effect)

lemma gone_kept_star:
  assumes "(any_step J)\<^sup>*\<^sup>* s s'" and "gone d s" and "auth_inv s"
  shows "gone d s' \<and> auth_inv s'"
  using assms
proof (induction rule: rtranclp_induct)
  case (step u w)
  then show ?case using authdb.step_inv [of u J w] gone_kept by (auto simp: any_step_def auth_inv_def)
qed simp

section \<open>The schema\<close>

text \<open>C27: whatever sequence of operations ran on a new database, its tables satisfy the schema: every key is
  unique, every reference points to a row, every check holds, and there is at most one administrator.\<close>

theorem auth_tables_typed:
  assumes "reach auth_empty (any_step J) s"
  shows "auth_typed s"
  using authdb.reach_inv [OF assms] by (simp add: auth_inv_def)

text \<open>C30: an enrollment token never enrolls more identities than it allows, and the replay cache and the
  open challenges stay within their limits.\<close>

theorem enrollment_bounded:
  assumes "reach auth_empty (any_step J) s"
  shows "(\<forall>x \<in> set (db_tokens s). int (cnt_where (\<lambda>e. ie_token e = tk_id x) (db_identities s)) \<le> tk_uses x \<and> tk_uses x \<le> tk_max x) \<and>
     count_nonces s \<le> 100000 \<and> (\<forall>d. cnt_where (\<lambda>n. no_device n = d) (db_nonces s) \<le> 1500) \<and>
     length (db_challenges s) \<le> 4096 \<and> (\<forall>t. cnt_where (\<lambda>c. ch_token c = t) (db_challenges s) \<le> 64) \<and>
     (\<forall>t k. cnt_where (\<lambda>c. ch_token c = t \<and> ch_key c = k) (db_challenges s) \<le> 16)"
  using authdb.reach_inv [OF assms]
  by (simp add: auth_inv_def quota_kept_def linked_count_def caches_bounded_def count_nonces_def auth_typed_defs each_def token_check_def)

section \<open>Nonces\<close>

lemma nonce_kept:
  assumes "n \<in> set (db_nonces s)" and "auth_step J t s s'" and "t < no_expires n"
  shows "n \<in> set (db_nonces s')"
  using assms(2)
proof cases
  case (st_finalize z f r)
  from st_finalize(1) show ?thesis
    by (cases rule: finalize_cases) (use assms(1) in \<open>auto simp: renews_device_def adds_device_def\<close>)
next
  case (st_enroll f e h a v)
  from st_enroll obtain x s1 where "adds_device f a h t s s1" "s' = s1\<lparr>db_tokens := used_token x (db_tokens s)\<rparr>"
    by (rule enroll_device_effect)
  then show ?thesis using assms(1) by (simp add: adds_device_def)
next
  case st_revoke
  from revoke_device_effect [OF this] show ?thesis using assms(1) by simp
next
  case st_nonce
  from nonce_effect [OF this] assms(1,3) show ?thesis by (simp add: set_del_where)
next
  case (st_challenge c)
  from st_challenge(1) obtain x where "s' = s\<lparr>db_challenges := del_where (challenge_stale (ci_now c)) (db_challenges s) @ [challenge_of c x]\<rparr>"
    by (rule challenge_effect)
  then show ?thesis using assms(1) by simp
next
  case st_prune
  then show ?thesis using assms(1,3) by (simp add: prune_auth_def set_del_where)
qed (use assms(1) in \<open>auto simp: create_admin_def create_session_def delete_session_def delete_expired_sessions_def
    create_enrollment_token_def revoke_enrollment_token_def heartbeat_def list_devices_def mark_offline_def Let_def split: if_splits\<close>)

definition steps_before :: "store_lib \<Rightarrow> instant \<Rightarrow> auth_db \<Rightarrow> auth_db \<Rightarrow> bool" where
  "steps_before J e = (\<lambda>a b. \<exists>t < e. auth_step J t a b)\<^sup>*\<^sup>*"

lemma nonce_kept_star:
  assumes "steps_before J (no_expires n) s s'" and "n \<in> set (db_nonces s)"
  shows "n \<in> set (db_nonces s')"
  using assms unfolding steps_before_def
  by (induction rule: rtranclp_induct) (auto intro: nonce_kept)

text \<open>C29: a request nonce is accepted once: until it expires, and whatever happens in between, the same nonce of
  the same device is refused.\<close>

theorem nonce_single_use:
  assumes "consume_nonce d n e now s = Inr s1" and "steps_before J e s1 s2" and "later < e"
  shows "consume_nonce d n e' later s2 \<noteq> Inr s3"
proof
  assume again: "consume_nonce d n e' later s2 = Inr s3"
  let ?n = "\<lparr>no_device = d, no_nonce = n, no_expires = e, no_created = now\<rparr>"
  have "?n \<in> set (db_nonces s1)" using nonce_effect [OF assms(1)] by simp
  from nonce_kept_star [OF _ this] have "?n \<in> set (db_nonces s2)" using assms(2) by simp
  then have "?n \<in> set (del_where (\<lambda>n. no_expires n \<le> later) (db_nonces s2))" using assms(3) by (simp add: set_del_where)
  moreover have "nonce_key ?n = (d, n)" by (simp add: nonce_key_def)
  ultimately show False using nonce_effect [OF again] by (metis image_eqI)
qed


section \<open>Revocation\<close>

lemma gone_all:
  assumes "gone d s" and "auth_typed s" and "w \<in> set (db_devices s)" and "dv_id w = d"
  shows "dv_status w = DeviceRevoked"
  using assms keyed_inj [of dv_id "db_devices s"] by (auto simp: gone_def auth_typed_defs)

lemma revoked_gone:
  assumes "revoke_device J d t s = Inr s'"
  shows "gone d s'"
proof -
  from assms have "cnt_where (\<lambda>v. dv_id v = d \<and> dv_status v \<noteq> DeviceRevoked) (db_devices s) \<noteq> 0"
    by (auto simp: revoke_device_def Let_def split: if_splits)
  then obtain v where "v \<in> set (db_devices s)" "dv_id v = d" "dv_status v \<noteq> DeviceRevoked"
    unfolding cnt_where_0_iff by blast
  then have "v\<lparr>dv_status := DeviceRevoked, dv_updated := t\<rparr> \<in> set (db_devices s')"
    using revoke_device_effect [OF assms] by (auto simp: set_upd_where)
  with \<open>dv_id v = d\<close> show ?thesis by (auto simp: gone_def intro: bexI [of _ "v\<lparr>dv_status := DeviceRevoked, dv_updated := t\<rparr>"])
qed

lemma gone_refused:
  assumes "gone d s" and "auth_inv s"
  shows "agent_device h s = Inr v \<Longrightarrow> dv_id v \<noteq> d"
    and "heartbeat d b now s = Inl ErrNotFound"
    and "finalize_enrollment z f s = Inr (r, s') \<Longrightarrow> dv_id (fo_device r) \<noteq> d"
proof -
  have typed: "auth_typed s" using assms(2) by (simp add: auth_inv_def)
  note dead = gone_all [OF assms(1) typed]
  show "agent_device h s = Inr v \<Longrightarrow> dv_id v \<noteq> d"
    by (auto simp: agent_device_def split: option.splits dest!: find_SomeD dest: dead)
  have "cnt_where (\<lambda>v. dv_id v = d \<and> dv_status v \<noteq> DeviceRevoked) (db_devices s) = 0"
    by (auto simp: cnt_where_0_iff dest: dead)
  then show "heartbeat d b now s = Inl ErrNotFound" by (simp add: heartbeat_def)
  show "finalize_enrollment z f s = Inr (r, s') \<Longrightarrow> dv_id (fo_device r) \<noteq> d"
    by (erule finalize_cases)
      (use assms(1) in \<open>auto simp: renews_device_def renewed_def adds_device_def enrolled_device_def gone_def dest: dead\<close>)
qed

text \<open>C28: a revoked device is locked out for good: no credential authenticates it, no heartbeat revives it and no
  enrollment returns it, whatever happens afterwards.\<close>

theorem revoked_device_locked_out:
  assumes "reach auth_empty (any_step J) s" and "revoke_device J d t s = Inr s1" and "(any_step J)\<^sup>*\<^sup>* s1 s2"
  shows "(\<forall>h v. agent_device h s2 = Inr v \<longrightarrow> dv_id v \<noteq> d) \<and> (\<forall>b now. heartbeat d b now s2 = Inl ErrNotFound) \<and>
     (\<forall>z f r s3. finalize_enrollment z f s2 = Inr (r, s3) \<longrightarrow> dv_id (fo_device r) \<noteq> d)"
proof -
  have "auth_inv s1"
    using authdb.reach_inv [OF assms(1)] authdb.step_inv [of s J s1] assms(2) by (auto simp: any_step_def intro: st_revoke)
  with gone_kept_star [OF assms(3) revoked_gone [OF assms(2)]] have "gone d s2" "auth_inv s2" by simp_all
  from gone_refused [OF this] show ?thesis by blast
qed

section \<open>Enrolling again\<close>

lemma finalized_identity:
  assumes "finalize_enrollment z f s = Inr (r, s')" and "auth_typed s"
  shows "\<exists>e \<in> set (db_identities s'). ie_key e = ei_key (fz_device z) \<and> ie_device e = dv_id (fo_device r) \<and> ie_credential e = fo_credential r"
  using assms(1)
proof (cases rule: finalize_cases)
  case (renew c x e v)
  then show ?thesis by (intro bexI [of _ e]) (simp_all add: renews_device_def renewed_def)
next
  case (first c x s0 s1)
  then show ?thesis by (simp add: enrolled_device_def)
qed

text \<open>an installer that lost the answer and enrolls the same identity again gets the device and the credential
  of its first enrollment; no second device is created, and a challenge serves once.\<close>

theorem enrollment_idempotent:
  assumes "reach auth_empty (any_step J) s" and "finalize_enrollment z f s = Inr (r, s1)" and "(any_step J)\<^sup>*\<^sup>* s1 s2"
    and "finalize_enrollment z' f' s2 = Inr (r', s3)" and "ei_key (fz_device z') = ei_key (fz_device z)"
  shows "dv_id (fo_device r') = dv_id (fo_device r) \<and> fo_credential r' = fo_credential r \<and> \<not> fo_created r' \<and>
     dv_id ` set (db_devices s3) = dv_id ` set (db_devices s2) \<and> fz_challenge z \<notin> ch_id ` set (db_challenges s1)"
proof -
  have inv: "auth_inv s" by (rule authdb.reach_inv [OF assms(1)])
  have "any_step J s s1" using assms(2) by (auto simp: any_step_def intro: st_finalize)
  with inv have inv1: "auth_inv s1" by (rule authdb.step_inv)
  with assms(3) have inv2: "auth_typed s2" using authdb.steps_inv [of J s1 s2] by (simp add: auth_inv_def)
  from finalized_identity [OF assms(2)] inv obtain e where e: "e \<in> set (db_identities s1)" "ie_key e = ei_key (fz_device z)"
    "ie_device e = dv_id (fo_device r)" "ie_credential e = fo_credential r"
    by (auto simp: auth_inv_def)
  with identities_kept_star [OF assms(3)] have e2: "e \<in> set (db_identities s2)" by blast
  have "fz_challenge z \<notin> ch_id ` set (db_challenges s1)"
    using assms(2) by (cases rule: finalize_cases) (auto simp: renews_device_def drop_challenge_def set_del_where)
  moreover from assms(4) have "dv_id (fo_device r') = dv_id (fo_device r) \<and> fo_credential r' = fo_credential r \<and> \<not> fo_created r' \<and>
     dv_id ` set (db_devices s3) = dv_id ` set (db_devices s2)"
  proof (cases rule: finalize_cases)
    case (renew c x g v)
    then have "g = e" using keyed_inj [of ie_key "db_identities s2" g e] e2 e(2) assms(5) inv2
      by (auto simp: renews_device_def auth_typed_defs)
    with renew e show ?thesis by (auto simp: renews_device_def renewed_def schema)
  next
    case (first c x s0 s4)
    from first(11) e2 e(2) assms(5) have False by (metis image_eqI)
    then show ?thesis ..
  qed
  ultimately show ?thesis by blast
qed

section \<open>What a revocation leaves behind\<close>

definition closed :: "string \<Rightarrow> store \<Rightarrow> bool" where
  "closed i s \<longleftrightarrow> (\<forall>c \<in> set (st_commands s). cm_id c = i \<longrightarrow> cm_completed c \<noteq> None)"

definition halted :: "string \<Rightarrow> string \<Rightarrow> bool \<Rightarrow> store \<Rightarrow> bool" where
  "halted d aid started s \<longleftrightarrow>
     (\<forall>a \<in> set (st_actions s). ac_id a = aid \<longrightarrow> ac_device a = d \<longrightarrow> ac_status a \<notin> revocation_statuses started)"

text \<open>Revoking only closes commands and only ends actions.\<close>

definition only_ends :: "store \<Rightarrow> store \<Rightarrow> bool" where
  "only_ends s s' \<longleftrightarrow>
     (\<exists>p f. st_commands s' = upd_where p f (st_commands s) \<and> (\<forall>c. cm_id (f c) = cm_id c \<and> cm_device (f c) = cm_device c \<and> cm_completed (f c) \<noteq> None)) \<and>
     (\<exists>q g. st_actions s' = upd_where q g (st_actions s) \<and>
        (\<forall>a. ac_id (g a) = ac_id a \<and> ac_device (g a) = ac_device a \<and> ac_status (g a) \<in> {Cancelled, Indeterminate}))"

lemma ends_closed: "only_ends s s' \<Longrightarrow> closed i s \<Longrightarrow> closed i s'"
  by (auto simp: only_ends_def closed_def set_upd_where split: if_splits)

lemma ends_halted: "only_ends s s' \<Longrightarrow> halted d aid b s \<Longrightarrow> halted d aid b s'"
  by (fastforce simp: only_ends_def halted_def set_upd_where revocation_statuses_def split: if_splits)

lemma only_ends_trans:
  assumes "only_ends s t" and "only_ends t u"
  shows "only_ends s u"
proof -
  have comp: "upd_where p2 f2 (upd_where p1 f1 l) = upd_where (\<lambda>x. p1 x \<or> p2 x) (\<lambda>x. if p1 x then if p2 (f1 x) then f2 (f1 x) else f1 x else f2 x) l"
    for p1 p2 f1 f2 and l :: "'a list"
    by (induction l) (auto simp: table_simps)
  from assms show ?thesis
    unfolding only_ends_def by (elim conjE exE) (simp only: comp, intro conjI exI, rule refl, force, rule refl, force)
qed


lemma ball_upd_where: "(\<forall>r \<in> set (upd_where p f t). q r) \<longleftrightarrow> (\<forall>r \<in> set t. if p r then q (f r) else q r)"
  by (induction t) (auto simp: table_simps)

lemma only_ends_refl: "only_ends s s"
proof -
  have "l = upd_where (\<lambda>_. False) f l" for f and l :: "'a list" by (simp add: upd_where_none)
  moreover have "\<exists>f :: cmd_row \<Rightarrow> cmd_row. \<forall>c. cm_id (f c) = cm_id c \<and> cm_device (f c) = cm_device c \<and> cm_completed (f c) \<noteq> None"
    by (rule exI [of _ "\<lambda>c. c\<lparr>cm_completed := Some 0\<rparr>"]) simp
  moreover have "\<exists>g :: action_row \<Rightarrow> action_row. \<forall>a. ac_id (g a) = ac_id a \<and> ac_device (g a) = ac_device a \<and> ac_status (g a) \<in> {Cancelled, Indeterminate}"
    by (rule exI [of _ "\<lambda>a. a\<lparr>ac_status := Cancelled\<rparr>"]) simp
  ultimately show ?thesis unfolding only_ends_def by metis
qed

lemma only_ends_commands:
  assumes "\<And>c. cm_id (f c) = cm_id c \<and> cm_device (f c) = cm_device c \<and> cm_completed (f c) \<noteq> None"
  shows "only_ends s (update_commands p f s)"
  using assms only_ends_refl [of s] unfolding only_ends_def update_commands_def by auto

lemma only_ends_actions:
  assumes "\<And>a. ac_id (g a) = ac_id a \<and> ac_device (g a) = ac_device a \<and> ac_status (g a) \<in> {Cancelled, Indeterminate}"
  shows "only_ends s (update_actions q g s)"
  using assms only_ends_refl [of s] unfolding only_ends_def update_actions_def by auto

lemma ends_same: "st_commands t = st_commands s' \<Longrightarrow> st_actions t = st_actions s' \<Longrightarrow> only_ends s s' \<Longrightarrow> only_ends s t"
  by (simp add: only_ends_def)

lemma revoked_bans_same: "st_commands (revoked_bans b aid s) = st_commands s" "st_actions (revoked_bans b aid s) = st_actions s"
  by (simp_all add: revoked_bans_def update_bans_def)

lemma stop_action_total:
  "\<exists>s'. stop_action J d now c m aid s = Inr s' \<and> only_ends s s' \<and> halted d aid (cm_started c \<noteq> None) s'"
proof -
  define b where "b = (cm_started c \<noteq> None)"
  define p where "p = (\<lambda>a :: action_row. ac_id a = aid \<and> ac_device a = d \<and> ac_status a \<in> revocation_statuses b)"
  define s1 where "s1 = update_actions p (\<lambda>a. a\<lparr>ac_status := (if b then Indeterminate else Cancelled), ac_completed := Some now,
    ac_error := m, ac_updated := now\<rparr>) s"
  have eq: "stop_action J d now c m aid s =
      (if affected p s \<noteq> 1 then Inr s1
       else insert_audit (audit_entry aid ''controller''
          (if b then ''device_revoked_during_execution'' else ''device_revoked_before_execution'')
          (revoked_details J (cm_id c) b) now) (revoked_bans b aid s1))"
    unfolding stop_action_def Let_def s1_def p_def b_def ..
  have ends: "only_ends s s1" unfolding s1_def by (rule only_ends_actions) simp
  have halt: "halted d aid b s1"
    by (simp add: halted_def s1_def p_def update_actions_def ball_upd_where revocation_statuses_def)
  have "\<exists>s'. stop_action J d now c m aid s = Inr s' \<and> st_commands s' = st_commands s1 \<and> st_actions s' = st_actions s1"
  proof (cases "affected p s = 1")
    case True
    then have "cnt_where p (st_actions s) \<noteq> 0" by (simp add: affected_def)
    then obtain a where "a \<in> set (st_actions s)" "ac_id a = aid" unfolding cnt_where_0_iff p_def by blast
    then have "aid \<in> ac_id ` set (st_actions s1)"
      by (auto simp: s1_def update_actions_def key_image_upd)
    with True show ?thesis by (simp add: eq insert_audit_def audit_entry_def revoked_bans_same)
  qed (simp add: eq)
  then show ?thesis using ends halt unfolding b_def halted_def by (metis ends_same)
qed

lemma close_command_ends: "only_ends s (close_command i r m now s) \<and> closed i (close_command i r m now s)"
proof
  show "only_ends s (close_command i r m now s)" unfolding close_command_def by (rule only_ends_commands) simp
  show "closed i (close_command i r m now s)" by (simp add: close_command_def closed_def update_commands_def ball_upd_where)
qed

definition settled :: "store_lib \<Rightarrow> string \<Rightarrow> cmd_row \<Rightarrow> store \<Rightarrow> bool" where
  "settled J d c s \<longleftrightarrow> closed (cm_id c) s \<and>
     (action_command (cm_type c) \<longrightarrow> (\<forall>aid. jx_action_id J (cm_payload c) = Some aid \<longrightarrow> aid \<noteq> [] \<longrightarrow> halted d aid (cm_started c \<noteq> None) s))"

lemma ends_settled: "only_ends s s' \<Longrightarrow> settled J d c s \<Longrightarrow> settled J d c s'"
  by (auto simp: settled_def intro: ends_closed ends_halted)

lemma revoke_one_total: "\<exists>s'. revoke_one J d now c s = Inr s' \<and> only_ends s s' \<and> settled J d c s'"
proof -
  define lost where "lost = (action_command (cm_type c) \<and> cm_started c \<noteq> None)"
  define m where "m = (if lost then execution_indeterminate_message else revoked_message)"
  define s1 where "s1 = close_command (cm_id c) (if lost then indeterminate_result else cancelled_result) m now s"
  have s1: "only_ends s s1" "closed (cm_id c) s1" unfolding s1_def using close_command_ends by blast+
  have eq: "revoke_one J d now c s =
     (if \<not> action_command (cm_type c) then Inr s1
      else case jx_action_id J (cm_payload c) of
             None \<Rightarrow> Inr s1
           | Some aid \<Rightarrow> if aid = [] then Inr s1 else stop_action J d now c m aid s1)"
    unfolding revoke_one_def Let_def s1_def m_def lost_def ..
  show ?thesis
  proof (cases "\<exists>aid. action_command (cm_type c) \<and> jx_action_id J (cm_payload c) = Some aid \<and> aid \<noteq> []")
    case True
    then obtain aid where aid: "action_command (cm_type c)" "jx_action_id J (cm_payload c) = Some aid" "aid \<noteq> []" by blast
    from stop_action_total obtain s' where s': "stop_action J d now c m aid s1 = Inr s'" "only_ends s1 s'"
      "halted d aid (cm_started c \<noteq> None) s'" by blast
    with aid s1 show ?thesis by (auto simp: eq settled_def intro: only_ends_trans ends_closed)
  next
    case False
    with s1 show ?thesis by (auto simp: eq settled_def split: option.split)
  qed
qed

lemma revoke_each_total: "\<exists>s'. revoke_each J d now cs s = Inr s' \<and> only_ends s s' \<and> (\<forall>c \<in> set cs. settled J d c s')"
proof (induction cs arbitrary: s)
  case (Cons c cs)
  from revoke_one_total obtain s1 where s1: "revoke_one J d now c s = Inr s1" "only_ends s s1" "settled J d c s1" by blast
  from Cons.IH obtain s' where s': "revoke_each J d now cs s1 = Inr s'" "only_ends s1 s'" "\<forall>c \<in> set cs. settled J d c s'" by blast
  with s1 show ?case by (auto intro: only_ends_trans ends_settled)
qed (simp add: only_ends_refl)

text \<open>revoking a device that is not yet revoked succeeds; afterwards none of its commands is open, and no action
  of one of them can still run: an unstarted one is cancelled, a started one is no longer executing.\<close>

theorem revocation_complete:
  assumes "v \<in> set (db_devices s)" and "dv_id v = d" and "dv_status v \<noteq> DeviceRevoked"
  shows "\<exists>s'. revoke_device J d t s = Inr s' \<and>
     (\<forall>c \<in> set (st_commands (fl_store (db_fleet s'))). cm_device c = d \<longrightarrow> cm_completed c \<noteq> None) \<and>
     (\<forall>c \<in> set (st_commands (fl_store (db_fleet s))). \<forall>aid. cm_device c = d \<and> cm_completed c = None \<and> action_command (cm_type c) \<and>
        jx_action_id J (cm_payload c) = Some aid \<and> aid \<noteq> [] \<longrightarrow>
        (\<forall>a \<in> set (st_actions (fl_store (db_fleet s'))). ac_id a = aid \<longrightarrow> ac_device a = d \<longrightarrow>
           ac_status a \<notin> revocation_statuses (cm_started c \<noteq> None)))"
proof -
  let ?S = "fl_store (db_fleet s)"
  let ?T = "?S\<lparr>st_devices := upd_where (\<lambda>v. dv_id v = d \<and> dv_status v \<noteq> DeviceRevoked)
                 (\<lambda>v. v\<lparr>dv_status := DeviceRevoked, dv_updated := t\<rparr>) (st_devices ?S)\<rparr>"
  let ?cs = "filter (\<lambda>c. cm_device c = d \<and> cm_completed c = None) (st_commands ?S)"
  from revoke_each_total obtain S' where S': "revoke_each J d t ?cs ?T = Inr S'" "only_ends ?T S'" "\<forall>c \<in> set ?cs. settled J d c S'"
    by blast
  have "cnt_where (\<lambda>v. dv_id v = d \<and> dv_status v \<noteq> DeviceRevoked) (db_devices s) \<noteq> 0"
    unfolding cnt_where_0_iff using assms by blast
  then obtain s' where s': "revoke_device J d t s = Inr s'" "fl_store (db_fleet s') = S'"
    using S'(1) by (simp add: revoke_device_def Let_def set_devices_def set_store_def)
  have finished: "cm_completed c \<noteq> None" if c: "c \<in> set (st_commands S')" "cm_device c = d" for c
  proof -
    from S'(2) c obtain c0 where c0: "c0 \<in> set (st_commands ?S)" "cm_id c0 = cm_id c" "cm_device c0 = d"
      "c = c0 \<or> cm_completed c \<noteq> None"
      by (auto simp: only_ends_def set_upd_where split: if_splits)
    show ?thesis
    proof (cases "cm_completed c0 = None")
      case True
      with c0(1,3) S'(3) have "closed (cm_id c0) S'" by (simp add: settled_def)
      with c(1) c0(2) show ?thesis by (simp add: closed_def)
    qed (use c0 in auto)
  qed
  moreover have "halted d aid (cm_started c \<noteq> None) S'"
    if "c \<in> set (st_commands ?S)" "cm_device c = d" "cm_completed c = None" "action_command (cm_type c)"
      "jx_action_id J (cm_payload c) = Some aid" "aid \<noteq> []" for c aid
    using S'(3) that by (simp add: settled_def)
  ultimately show ?thesis using s' unfolding halted_def by blast
qed

section \<open>Column lists\<close>

lemma split_comma_nonempty: "split_comma acc s \<noteq> []"
  by (induction acc s rule: split_comma.induct) simp_all

lemma join_split_comma: "join_comma (split_comma acc s) = rev acc @ s"
proof (induction acc s rule: split_comma.induct)
  case (2 acc c cs)
  then show ?case
    using split_comma_nonempty [of "[]" cs] by (auto simp: join_comma_def split: list.splits)
qed (simp add: join_comma_def)

end
