(* ===== verification/EnrollmentDemo.thy ===== *)
theory EnrollmentDemo
  imports EnrollmentProps
begin

text \<open>
  A new database on which one installer enrolls, enrolls again, makes a request and is
  revoked: the claims of \<open>EnrollmentProps\<close> applied to it.
\<close>

definition demo_a0 :: auth_db where
  "demo_a0 = \<lparr>db_fleet = \<lparr>fl_store = demo_store\<lparr>st_devices := []\<rparr>, fl_schedules = []\<rparr>, db_admins = [], db_sessions = [],
     db_tokens = [], db_agents = [], db_nonces = [], db_identities = [], db_challenges = []\<rparr>"

definition demo_token :: token_row where
  "demo_token = \<lparr>tk_id = ''t'', tk_name = ''n'', tk_hash = ''h'', tk_hint = ''x'', tk_max = 1, tk_uses = 0, tk_expires = Some 1000,
     tk_revoked = None, tk_created = 0\<rparr>"

definition demo_a1 :: auth_db where
  "demo_a1 = demo_a0\<lparr>db_tokens := [demo_token]\<rparr>"

definition demo_ci :: challenge_input where
  "demo_ci = \<lparr>ci_id = ''c1'', ci_enrollment = ''h'', ci_key = ''k'', ci_hash = ''p'', ci_expires = 100, ci_now = 1\<rparr>"

definition demo_a2 :: auth_db where
  "demo_a2 = demo_a1\<lparr>db_challenges := [challenge_of demo_ci demo_token]\<rparr>"

definition demo_ei :: enroll_input where
  "demo_ei = \<lparr>ei_name = ''web'', ei_hostname = ''web1'', ei_os = ''linux'', ei_arch = ''amd64'', ei_version = ''1'', ei_key = ''k'',
     ei_interval = 0, ei_observer = False\<rparr>"

definition demo_fz :: finalize_input where
  "demo_fz = \<lparr>fz_challenge = ''c1'', fz_hash = ''p'', fz_enrollment = ''h'', fz_agent_hash = ''a'', fz_credential = ''e'',
     fz_device = demo_ei, fz_now = 2\<rparr>"

definition demo_fi :: fresh_ids where
  "demo_fi = \<lparr>fi_device = ''dev1'', fi_agent = ''agt1'', fi_schedule = ''sch1''\<rparr>"

definition demo_a3 :: auth_db where
  "demo_a3 = demo_a0\<lparr>db_tokens := [demo_token\<lparr>tk_uses := 1\<rparr>],
     db_fleet := \<lparr>fl_store = demo_store\<lparr>st_devices := [enrolled_device demo_fi demo_ei 2]\<rparr>,
       fl_schedules = [first_schedule demo_fi (24 * hour) 2]\<rparr>,
     db_agents := [\<lparr>ag_id = ''agt1'', ag_device = ''dev1'', ag_hash = ''a'', ag_created = 2, ag_revoked = None\<rparr>],
     db_identities := [\<lparr>ie_key = ''k'', ie_device = ''dev1'', ie_token = ''t'', ie_credential = ''e'', ie_created = 2, ie_updated = 2\<rparr>]\<rparr>"

definition demo_r3 :: finalize_result where
  "demo_r3 = \<lparr>fo_device = enrolled_device demo_fi demo_ei 2, fo_credential = ''e'', fo_created = True\<rparr>"

lemmas demo_auth_defs = demo_a0_def demo_a1_def demo_a2_def demo_a3_def demo_token_def demo_ci_def demo_ei_def demo_fz_def demo_fi_def
  demo_r3_def demo_store_def

lemma demo_step1: "create_enrollment_token demo_token demo_a0 = Inr demo_a1"
  by (simp add: create_enrollment_token_def demo_auth_defs)

lemma demo_step2: "create_enrollment_challenge demo_ci demo_a1 = Inr demo_a2"
  by (simp add: create_enrollment_challenge_def token_by_hash_def challenge_authorized_def token_usable_def challenge_room_def
      del_where_def table_simps demo_auth_defs Let_def)

lemma demo_step3: "finalize_enrollment demo_fz demo_fi demo_a2 = Inr (demo_r3, demo_a3)"
  by (simp add: finalize_enrollment_def scan_interval_def default_scan_interval_def interval_ok_def challenge_of_def challenge_accepted_def
      token_by_hash_def consume_challenge_def linked_identity_def first_enrollment_def token_usable_def insert_new_device_def
      insert_device_def insert_agent_token_def insert_schedule_def schedule_check_def first_schedule_def enrolled_device_def set_devices_def
      insert_identity_def use_token_def drop_challenge_def del_where_def table_simps demo_auth_defs Let_def)

lemma demo_reach: "reach auth_empty (any_step demo_jx) demo_a2" "any_step demo_jx demo_a2 demo_a3"
proof -
  have "reach auth_empty (any_step demo_jx) demo_a0"
    by (rule reach_init) (simp add: auth_empty_def demo_auth_defs)
  moreover have "any_step demo_jx demo_a0 demo_a1"
    unfolding any_step_def using st_token [OF demo_step1, of demo_jx 0] by (auto simp: demo_token_def)
  moreover have "any_step demo_jx demo_a1 demo_a2"
    unfolding any_step_def using st_challenge [OF demo_step2 refl] by blast
  ultimately show "reach auth_empty (any_step demo_jx) demo_a2" by (blast intro: reach_step)
  show "any_step demo_jx demo_a2 demo_a3"
    unfolding any_step_def using st_finalize [OF demo_step3 refl] by blast
qed

lemma demo_reach3: "reach auth_empty (any_step demo_jx) demo_a3"
  by (rule reach_step [OF demo_reach])

text \<open>The second enrollment of the same identity.\<close>

definition demo_a4 :: auth_db where
  "demo_a4 = demo_a3\<lparr>db_challenges := [(challenge_of demo_ci demo_token)\<lparr>ch_id := ''c2''\<rparr>]\<rparr>"

definition demo_a5 :: auth_db where
  "demo_a5 = set_devices [renewed demo_ei 2 (enrolled_device demo_fi demo_ei 2)] demo_a3"

lemma demo_step4: "create_enrollment_challenge (demo_ci\<lparr>ci_id := ''c2''\<rparr>) demo_a3 = Inr demo_a4"
  by (simp add: create_enrollment_challenge_def token_by_hash_def challenge_authorized_def challenge_room_def challenge_of_def
      del_where_def table_simps demo_a4_def demo_auth_defs Let_def)

lemma demo_step5: "finalize_enrollment (demo_fz\<lparr>fz_challenge := ''c2''\<rparr>) demo_fi demo_a4 =
    Inr (\<lparr>fo_device = renewed demo_ei 2 (enrolled_device demo_fi demo_ei 2), fo_credential = ''e'', fo_created = False\<rparr>, demo_a5)"
  by (simp add: finalize_enrollment_def scan_interval_def default_scan_interval_def interval_ok_def challenge_of_def challenge_accepted_def
      token_by_hash_def consume_challenge_def linked_identity_def renew_enrollment_def enrolled_device_def set_devices_def
      drop_challenge_def del_where_def table_simps demo_a4_def demo_a5_def demo_auth_defs Let_def)

lemma demo_again: "(any_step demo_jx)\<^sup>*\<^sup>* demo_a3 demo_a4"
proof -
  have "any_step demo_jx demo_a3 demo_a4"
    unfolding any_step_def using st_challenge [OF demo_step4 refl] by blast
  then show ?thesis by (rule r_into_rtranclp)
qed

section \<open>The claims applied\<close>

theorem auth_tables_typed_witness: "auth_typed demo_a3"
  by (rule auth_tables_typed [OF demo_reach3])

theorem enrollment_bounded_witness:
  "(\<forall>d. cnt_where (\<lambda>n. no_device n = d) (db_nonces demo_a3) \<le> 1500) \<and> length (db_challenges demo_a3) \<le> 4096"
  using enrollment_bounded [OF demo_reach3] by blast

theorem enrollment_idempotent_witness: "fo_credential demo_r3 = ''e''"
  using enrollment_idempotent [OF demo_reach(1) demo_step3 demo_again demo_step5] by (simp add: demo_fz_def)

definition demo_a6 :: auth_db where
  "demo_a6 = demo_a3\<lparr>db_nonces := [\<lparr>no_device = ''dev1'', no_nonce = ''n'', no_expires = 50, no_created = 10\<rparr>]\<rparr>"

theorem nonce_single_use_witness: "consume_nonce ''dev1'' ''n'' 60 20 demo_a6 \<noteq> Inr demo_a6"
proof -
  have n: "consume_nonce ''dev1'' ''n'' 50 10 demo_a3 = Inr demo_a6"
    by (simp add: consume_nonce_def del_where_def table_simps demo_a6_def demo_a3_def demo_a0_def enrolled_device_def demo_fi_def Let_def)
  have "steps_before demo_jx 50 demo_a6 demo_a6" by (simp add: steps_before_def)
  from nonce_single_use [OF n this] show ?thesis by simp
qed

lemma demo_revocable:
  "\<exists>v. v \<in> set (db_devices demo_a3) \<and> dv_id v = ''dev1'' \<and> dv_status v \<noteq> DeviceRevoked"
  by (simp add: demo_a3_def enrolled_device_def demo_fi_def)

theorem revocation_complete_witness: "\<exists>s'. revoke_device demo_jx ''dev1'' 9 demo_a3 = Inr s'"
proof -
  obtain v where "v \<in> set (db_devices demo_a3)" "dv_id v = ''dev1''" "dv_status v \<noteq> DeviceRevoked" using demo_revocable by blast
  from revocation_complete [OF this, of demo_jx 9] show ?thesis by blast
qed

definition demo_a7 :: auth_db where
  "demo_a7 = set_devices [(enrolled_device demo_fi demo_ei 2)\<lparr>dv_status := DeviceRevoked, dv_updated := 9\<rparr>]
     (demo_a3\<lparr>db_agents := [\<lparr>ag_id = ''agt1'', ag_device = ''dev1'', ag_hash = ''a'', ag_created = 2, ag_revoked = Some 9\<rparr>]\<rparr>)"

theorem revoked_device_locked_out_witness: "\<forall>b now. heartbeat ''dev1'' b now demo_a7 = Inl ErrNotFound"
proof -
  have r: "revoke_device demo_jx ''dev1'' 9 demo_a3 = Inr demo_a7"
    by (simp add: revoke_device_def set_devices_def set_store_def table_simps demo_a7_def demo_a3_def demo_a0_def enrolled_device_def
        demo_fi_def demo_store_def Let_def)
  from revoked_device_locked_out [OF demo_reach3 r rtranclp.rtrancl_refl] show ?thesis by blast
qed

end
