(* ===== verification/Retention.thy ===== *)
theory Retention
  imports Prelude
begin

text \<open>
  Bounded tables: deleting the rows that \<open>SELECT ... ORDER BY k DESC, rowid DESC LIMIT -1
  OFFSET n\<close> lists, where rows are told apart by their place in the table.
\<close>

definition trim_table :: "nat \<Rightarrow> ('r \<Rightarrow> bool) \<Rightarrow> ('r \<Rightarrow> 'k::linorder) \<Rightarrow> 'r list \<Rightarrow> 'r list" where
  "trim_table n p k t =
     (let rows = zip [0..<length t] t;
          old = map fst (beyond n (\<lambda>x. k (snd x)) (filter (\<lambda>x. p (snd x)) rows))
      in map snd (filter (\<lambda>x. fst x \<notin> set old) rows))"

lemma set_trim_subset: "set (trim_table n p k t) \<subseteq> set t"
  by (auto simp: trim_table_def Let_def in_set_zip)

lemma length_beyond: "length (beyond n k t) = length t - n"
  by (simp add: beyond_def descending_def)

lemma beyond_members: "x \<in> set (beyond n k (filter p t)) \<Longrightarrow> x \<in> set t \<and> p x"
  using set_beyond_subset [of n k "filter p t"] by auto

lemma distinct_beyond: "distinct t \<Longrightarrow> distinct (beyond n k t)"
  by (simp add: beyond_def descending_def)

lemma beyond_few: "length t \<le> n \<Longrightarrow> beyond n k t = []"
  by (simp add: beyond_def descending_def)

lemma cnt_where_map: "cnt_where q (map f t) = cnt_where (\<lambda>x. q (f x)) t"
  by (simp add: cnt_where_def filter_map comp_def)

lemma filter_filter_count: "cnt_where q (filter p t) = cnt_where (\<lambda>x. p x \<and> q x) t"
  by (simp add: cnt_where_def conj_commute)

lemma filter_zip: "length u = length t \<Longrightarrow> map snd (filter (\<lambda>x. q (snd x)) (zip u t)) = filter q t"
proof (induction t arbitrary: u)
  case (Cons a t)
  then obtain b v where "u = b # v" "length v = length t" by (cases u) auto
  with Cons.IH [of v] show ?case by simp
qed simp

lemma cnt_zip: "length u = length t \<Longrightarrow> cnt_where (\<lambda>x. q (snd x)) (zip u t) = cnt_where q t"
  using arg_cong [OF filter_zip, of u t length q] by (simp add: cnt_where_def)

text \<open>Rows the query does not select are kept.\<close>

lemma trim_other:
  assumes "\<And>r. q r \<Longrightarrow> \<not> p r"
  shows "filter q (trim_table n p k t) = filter q t"
proof -
  let ?rows = "zip [0..<length t] t"
  let ?old = "map fst (beyond n (\<lambda>x. k (snd x)) (filter (\<lambda>x. p (snd x)) ?rows))"
  have keep: "fst x \<notin> set ?old" if x: "x \<in> set ?rows" "q (snd x)" for x
  proof
    assume "fst x \<in> set ?old"
    then obtain y where y: "y \<in> set ?rows" "p (snd y)" "fst y = fst x" by (auto dest: beyond_members)
    from x(1) y(1,3) have "y = x" by (auto simp: in_set_zip intro: prod_eqI)
    with x(2) y(2) assms show False by blast
  qed
  have "filter q (trim_table n p k t) = map snd (filter (\<lambda>x. q (snd x)) (filter (\<lambda>x. fst x \<notin> set ?old) ?rows))"
    by (simp add: trim_table_def Let_def filter_map comp_def)
  also have "filter (\<lambda>x. q (snd x)) (filter (\<lambda>x. fst x \<notin> set ?old) ?rows) = filter (\<lambda>x. q (snd x)) ?rows"
    unfolding filter_filter
  proof (rule filter_cong [OF refl])
    fix x assume "x \<in> set ?rows"
    then show "(fst x \<notin> set ?old \<and> q (snd x)) = q (snd x)" using keep by blast
  qed
  also have "map snd (filter (\<lambda>x. q (snd x)) ?rows) = filter q t" by (simp add: filter_zip)
  finally show ?thesis .
qed

lemma cnt_trim_other: "(\<And>r. q r \<Longrightarrow> \<not> p r) \<Longrightarrow> cnt_where q (trim_table n p k t) = cnt_where q t"
  by (simp add: cnt_where_def trim_other)

text \<open>At most \<open>n\<close> of the selected rows are left, and all of them where there are no more.\<close>

lemma trim_few: "cnt_where p t \<le> n \<Longrightarrow> trim_table n p k t = t"
proof -
  assume "cnt_where p t \<le> n"
  then have "length (filter (\<lambda>x. p (snd x)) (zip [0..<length t] t)) \<le> n"
    using cnt_zip [of "[0..<length t]" t p] by (simp add: cnt_where_def)
  then show ?thesis by (simp add: trim_table_def Let_def beyond_few)
qed

lemma cnt_trim: "cnt_where p (trim_table n p k t) = min n (cnt_where p t)"
proof -
  let ?rows = "zip [0..<length t] t"
  let ?sel = "filter (\<lambda>x. p (snd x)) ?rows"
  let ?old = "map fst (beyond n (\<lambda>x. k (snd x)) ?sel)"
  have dist: "distinct (map fst ?rows)" by simp
  have rows: "distinct ?rows" by (simp add: distinct_zipI1)
  have inj: "inj_on fst (set ?rows)" using dist unfolding distinct_map by blast
  have old: "set ?old \<subseteq> fst ` set ?sel" by (auto dest: beyond_members)
  have "card (set ?old) = length ?old"
  proof (rule distinct_card)
    have "inj_on fst (set (beyond n (\<lambda>x. k (snd x)) ?sel))"
      by (rule inj_on_subset [OF inj]) (auto dest: beyond_members)
    then show "distinct ?old" using rows by (simp add: distinct_map distinct_beyond)
  qed
  also have "\<dots> = length ?sel - n" by (simp add: length_beyond)
  finally have card_old: "card (set ?old) = length ?sel - n" .
  have "distinct ?sel" using rows by simp
  then have "card (set ?sel) = length ?sel" by (rule distinct_card)
  moreover have "card (fst ` set ?sel) = card (set ?sel)"
    by (rule card_image) (rule inj_on_subset [OF inj], auto)
  ultimately have sel_card: "card (fst ` set ?sel) = length ?sel" by simp
  have left: "cnt_where p (trim_table n p k t) = length (filter (\<lambda>x. fst x \<notin> set ?old) ?sel)"
    by (simp add: trim_table_def Let_def cnt_where_def filter_map comp_def conj_commute)
  have "length (filter (\<lambda>x. fst x \<notin> set ?old) ?sel) = card (fst ` {x \<in> set ?sel. fst x \<notin> set ?old})"
  proof (subst card_image)
    show "inj_on fst {x \<in> set ?sel. fst x \<notin> set ?old}" by (rule inj_on_subset [OF inj]) auto
    have "distinct (filter (\<lambda>x. fst x \<notin> set ?old) ?sel)" using rows by simp
    from distinct_card [OF this]
    show "length (filter (\<lambda>x. fst x \<notin> set ?old) ?sel) = card {x \<in> set ?sel. fst x \<notin> set ?old}"
      unfolding set_filter [of "\<lambda>x. fst x \<notin> set ?old"] by (rule sym)
  qed
  also have "fst ` {x \<in> set ?sel. fst x \<notin> set ?old} = fst ` set ?sel - set ?old" by blast
  also have "card \<dots> = length ?sel - (length ?sel - n)"
    using card_Diff_subset [OF _ old] card_old sel_card by simp
  finally show ?thesis
    using left cnt_zip [of "[0..<length t]" t p] by (simp add: cnt_where_def min_def)
qed

lemma trim_table_le: "cnt_where p (trim_table n p k t) \<le> n"
  by (simp add: cnt_trim)

lemma trim_empty [simp]: "trim_table n p k [] = []"
  by (simp add: trim_table_def)


text \<open>A row older than all others the query selects is the first to go.\<close>

lemma sort_key_least_first:
  assumes "\<And>x. x \<in> set t \<Longrightarrow> k a < k x"
  shows "sort_key k (t @ [a]) = a # sort_key k t"
  using assms
proof (induction t)
  case (Cons x t)
  then have "sort_key k (t @ [a]) = a # sort_key k t" "\<not> k x \<le> k a" by (simp_all add: not_le)
  then show ?case by simp
qed simp

lemma last_in_drop: "n < length xs \<Longrightarrow> last xs \<in> set (drop n xs)"
  by (metis drop_eq_Nil last_drop last_in_set not_le)

lemma trim_drops_oldest:
  assumes r: "p r" and old: "\<And>x. x \<in> set u \<Longrightarrow> p x \<Longrightarrow> k r < k x" and many: "n \<le> cnt_where p u"
  shows "set (trim_table n p k (u @ [r])) \<subseteq> set u"
proof -
  let ?u = "zip [0..<length u] u"
  let ?sel = "filter (\<lambda>x. p (snd x)) ?u"
  have rows: "zip [0..<length (u @ [r])] (u @ [r]) = ?u @ [(length u, r)]" by simp
  have "sort_key (\<lambda>x. k (snd x)) (?sel @ [(length u, r)]) = (length u, r) # sort_key (\<lambda>x. k (snd x)) ?sel"
  proof (rule sort_key_least_first)
    fix x assume x: "x \<in> set ?sel"
    then have "(fst x, snd x) \<in> set ?u" by simp
    from set_zip_rightD [OF this] x have "snd x \<in> set u \<and> p (snd x)" by simp
    then show "k (snd (length u, r)) < k (snd x)" using old by simp
  qed
  then have desc: "descending (\<lambda>x. k (snd x)) (?sel @ [(length u, r)]) = rev (sort_key (\<lambda>x. k (snd x)) ?sel) @ [(length u, r)]"
    by (simp add: descending_def)
  have "n \<le> length ?sel" using many cnt_zip [of "[0..<length u]" u p] by (simp add: cnt_where_def)
  then have "(length u, r) \<in> set (beyond n (\<lambda>x. k (snd x)) (?sel @ [(length u, r)]))"
    using last_in_drop [of n "rev (sort_key (\<lambda>x. k (snd x)) ?sel) @ [(length u, r)]"] by (simp add: beyond_def desc)
  then have gone: "length u \<in> fst ` set (beyond n (\<lambda>x. k (snd x)) (filter (\<lambda>x. p (snd x)) (?u @ [(length u, r)])))"
    using r by (auto intro: image_eqI [of _ fst "(length u, r)"])
  show ?thesis
    unfolding trim_table_def Let_def rows using gone by (auto dest: set_zip_rightD)
qed

text \<open>
  Tables bounded by the bytes of their rows: deleting the rows a window query
  \<open>sum(size) OVER (ORDER BY k DESC, rowid DESC)\<close> puts beyond the budget.
\<close>

text \<open>The rows of an ordered list whose running total exceeds the budget.\<close>

fun over_budget :: "nat \<Rightarrow> ('r \<Rightarrow> nat) \<Rightarrow> nat \<Rightarrow> 'r list \<Rightarrow> 'r list" where
  "over_budget limit sz acc [] = []"
| "over_budget limit sz acc (x # xs) =
     (if acc + sz x > limit then x # over_budget limit sz (acc + sz x) xs else over_budget limit sz (acc + sz x) xs)"

definition budget_table :: "nat \<Rightarrow> ('r \<Rightarrow> nat) \<Rightarrow> ('r \<Rightarrow> bool) \<Rightarrow> ('r \<Rightarrow> 'k::linorder) \<Rightarrow> 'r list \<Rightarrow> 'r list" where
  "budget_table limit sz p k t =
     (let rows = zip [0..<length t] t;
          old = map fst (over_budget limit (\<lambda>x. sz (snd x)) 0 (descending (\<lambda>x. k (snd x)) (filter (\<lambda>x. p (snd x)) rows)))
      in map snd (filter (\<lambda>x. fst x \<notin> set old) rows))"

lemma over_budget_subset: "set (over_budget limit sz acc xs) \<subseteq> set xs"
  by (induction xs arbitrary: acc) auto

lemma over_budget_all: "limit < acc \<Longrightarrow> over_budget limit sz acc xs = xs"
  by (induction xs arbitrary: acc) auto

lemma kept_in_budget:
  assumes "distinct xs" and "acc \<le> limit"
  shows "acc + sum_list (map sz (filter (\<lambda>x. x \<notin> set (over_budget limit sz acc xs)) xs)) \<le> limit"
  using assms
proof (induction xs arbitrary: acc)
  case (Cons x xs)
  show ?case
  proof (cases "acc + sz x > limit")
    case True
    then have none: "over_budget limit sz acc (x # xs) = x # xs" by (simp add: over_budget_all)
    show ?thesis unfolding none using Cons.prems(2) by simp
  next
    case False
    have "x \<notin> set (over_budget limit sz (acc + sz x) xs)"
      using Cons.prems(1) over_budget_subset [of limit sz "acc + sz x" xs] by auto
    moreover have "acc + sz x + sum_list (map sz (filter (\<lambda>y. y \<notin> set (over_budget limit sz (acc + sz x) xs)) xs)) \<le> limit"
      using Cons.IH [of "acc + sz x"] Cons.prems(1) False by simp
    ultimately show ?thesis using False by simp
  qed
qed simp

lemma set_budget_subset: "set (budget_table limit sz p k t) \<subseteq> set t"
  by (auto simp: budget_table_def Let_def in_set_zip)

lemma sublist_filter_le: "cnt_where q (map snd (filter f (zip u t))) \<le> cnt_where q t"
proof (induction t arbitrary: u)
  case (Cons a t)
  show ?case
  proof (cases u)
    case (Cons b v)
    with Cons.IH [of v] show ?thesis by (auto simp: table_simps)
  qed (simp add: table_simps)
qed (simp add: table_simps)

lemma cnt_budget_le: "cnt_where q (budget_table limit sz p k t) \<le> cnt_where q t"
  by (simp add: budget_table_def Let_def sublist_filter_le)

lemma sum_perm: "distinct xs \<Longrightarrow> distinct ys \<Longrightarrow> set xs = set ys \<Longrightarrow> sum_list (map f xs) = sum_list (map f ys)" for f :: "'a \<Rightarrow> nat"
  by (simp add: sum_list_distinct_conv_sum_set)

text \<open>The selected rows that are left fit into the budget.\<close>

lemma budget_table_fits: "sum_list (map sz (filter p (budget_table limit sz p k t))) \<le> limit"
proof -
  let ?rows = "zip [0..<length t] t"
  let ?sel = "filter (\<lambda>x. p (snd x)) ?rows"
  let ?desc = "descending (\<lambda>x. k (snd x)) ?sel"
  let ?over = "over_budget limit (\<lambda>x. sz (snd x)) 0 ?desc"
  have rows: "distinct ?rows" by (simp add: distinct_zipI1)
  then have dist: "distinct ?desc" by (simp add: descending_def)
  have same: "fst x \<in> fst ` set ?over \<longleftrightarrow> x \<in> set ?over" if x: "x \<in> set ?rows" for x
  proof
    assume "fst x \<in> fst ` set ?over"
    then obtain y where y: "y \<in> set ?over" "fst y = fst x" by auto
    then have "y \<in> set ?rows" using over_budget_subset [of limit "\<lambda>x. sz (snd x)" 0 ?desc] by (auto simp: descending_def)
    with x y(2) have "y = x" by (auto simp: in_set_zip intro: prod_eqI)
    with y(1) show "x \<in> set ?over" by simp
  qed simp
  have "map sz (filter p (budget_table limit sz p k t)) =
      map (\<lambda>x. sz (snd x)) (filter (\<lambda>x. p (snd x)) (filter (\<lambda>x. fst x \<notin> fst ` set ?over) ?rows))"
    by (simp add: budget_table_def Let_def filter_map comp_def)
  also have "filter (\<lambda>x. p (snd x)) (filter (\<lambda>x. fst x \<notin> fst ` set ?over) ?rows) = filter (\<lambda>x. x \<notin> set ?over) ?sel"
    unfolding filter_filter by (rule filter_cong [OF refl]) (use same in blast)
  also have "sum_list (map (\<lambda>x. sz (snd x)) (filter (\<lambda>x. x \<notin> set ?over) ?sel)) =
      sum_list (map (\<lambda>x. sz (snd x)) (filter (\<lambda>x. x \<notin> set ?over) ?desc))"
    by (rule sum_perm) (use rows dist in \<open>simp_all add: descending_def\<close>)
  also have "\<dots> \<le> limit"
    using kept_in_budget [OF dist, of 0 limit "\<lambda>x. sz (snd x)"] by simp
  finally show ?thesis .
qed

text \<open>Rows the query does not select are kept.\<close>

lemma budget_other:
  assumes "\<And>r. q r \<Longrightarrow> \<not> p r"
  shows "filter q (budget_table limit sz p k t) = filter q t"
proof -
  let ?rows = "zip [0..<length t] t"
  let ?over = "over_budget limit (\<lambda>x. sz (snd x)) 0 (descending (\<lambda>x. k (snd x)) (filter (\<lambda>x. p (snd x)) ?rows))"
  have keep: "fst x \<notin> fst ` set ?over" if x: "x \<in> set ?rows" "q (snd x)" for x
  proof
    assume "fst x \<in> fst ` set ?over"
    then obtain y where y: "y \<in> set ?over" "fst y = fst x" by auto
    then have "y \<in> set ?rows \<and> p (snd y)"
      using over_budget_subset [of limit "\<lambda>x. sz (snd x)" 0 "descending (\<lambda>x. k (snd x)) (filter (\<lambda>x. p (snd x)) ?rows)"]
      by (auto simp: descending_def)
    moreover from this x(1) y(2) have "y = x" by (auto simp: in_set_zip intro: prod_eqI)
    ultimately show False using x(2) assms by blast
  qed
  have "filter q (budget_table limit sz p k t) =
      map snd (filter (\<lambda>x. q (snd x)) (filter (\<lambda>x. fst x \<notin> fst ` set ?over) ?rows))"
    by (simp add: budget_table_def Let_def filter_map comp_def)
  also have "filter (\<lambda>x. q (snd x)) (filter (\<lambda>x. fst x \<notin> fst ` set ?over) ?rows) = filter (\<lambda>x. q (snd x)) ?rows"
    unfolding filter_filter by (rule filter_cong [OF refl]) (use keep in blast)
  also have "map snd \<dots> = filter q t" by (simp add: filter_zip)
  finally show ?thesis .
qed

end
