(* ===== verification/Incidents.thy ===== *)
theory Incidents
  imports ResponsePlans Retention
begin

text \<open>
  Signals, incidents and investigations (\<open>internal/store/security_engineer.go\<close>): how a security
  event is classified, how a signal joins or opens an incident under the limits of a device,
  the life of an investigation, and the capability grants.  The display texts (titles,
  summaries) are left out; columns that hold encoded lists are kept decoded.
\<close>

section \<open>Rows\<close>

record signal_row =
  sg_id :: string
  sg_device :: string
  sg_type :: string
  sg_category :: string
  sg_severity :: severity
  sg_trust :: string
  sg_subject :: string
  sg_source :: string
  sg_ref :: string
  sg_payload :: bytes
  sg_at :: instant
  sg_ingested :: instant

record evidence_row =
  ed_incident :: string
  ed_device :: string
  ed_signal :: string
  ed_created :: instant

record tool_call =
  tc_tool :: string
  tc_args :: bytes
  tc_summary :: string
  tc_started :: instant
  tc_ended :: instant

datatype investigation_status = InvestigationQueued | InvestigationRunning | InvestigationCompleted | InvestigationFailed

record investigation_row =
  iv_id :: string
  iv_incident :: string
  iv_status :: investigation_status
  iv_trigger :: string
  iv_hypothesis :: string
  iv_observations :: "string list"
  iv_uncertainties :: "string list"
  iv_next_checks :: "string list"
  iv_conclusion :: string
  iv_confidence :: int
  iv_model :: string
  iv_tools :: "tool_call list"
  iv_error :: string
  iv_started :: "instant option"
  iv_completed :: "instant option"
  iv_created :: instant
  iv_updated :: instant

record case_db =
  cd_store :: store
  cd_signals :: "signal_row list"
  cd_evidence :: "evidence_row list"
  cd_investigations :: "investigation_row list"

definition maxSignalsPerDevice :: nat where "maxSignalsPerDevice = 10000"
definition maxIncidentsPerDevice :: nat where "maxIncidentsPerDevice = 2000"
definition maxActiveIncidentsPerDevice :: nat where "maxActiveIncidentsPerDevice = 1000"
definition maxTimelineEventsPerIncident :: nat where "maxTimelineEventsPerIncident = 2000"

section \<open>Security events as signals\<close>

record security_event =
  sv_id :: string
  sv_device :: string
  sv_type :: string
  sv_source :: string
  sv_at :: instant
  sv_payload :: bytes

record event_meta =
  em_path :: string
  em_address :: string
  em_port :: int
  em_executable :: string
  em_name :: string

definition capacity_degraded :: string where
  "capacity_degraded = ''defense_correlation_capacity_degraded''"

text \<open>The classes of the known event types: category, severity, trust.\<close>

definition event_classes :: "(string \<times> string \<times> severity \<times> string) list" where
  "event_classes =
    [(''ssh_auth_failure'', ''identity_access'', SeverityMedium, ''verified''),
     (''ssh_auth_success'', ''identity_access'', SeverityInfo, ''verified''),
     (''ssh_auth_failure_untrusted'', ''identity_access'', SeverityLow, ''unverified''),
     (''ssh_auth_log_line_oversized_untrusted'', ''sensor_health'', SeverityLow, ''unverified''),
     (capacity_degraded, ''sensor_health'', SeverityHigh, ''verified''),
     (''identity_state_changed'', ''identity_persistence'', SeverityHigh, ''verified''),
     (''access_trust_changed'', ''identity_persistence'', SeverityHigh, ''verified''),
     (''file_integrity_changed'', ''file_integrity'', SeverityHigh, ''verified''),
     (''schedule_definition_changed'', ''persistence'', SeverityHigh, ''verified''),
     (''service_definition_changed'', ''workload_runtime'', SeverityMedium, ''verified''),
     (''startup_definition_changed'', ''persistence'', SeverityHigh, ''verified''),
     (''library_injection_changed'', ''persistence'', SeverityCritical, ''verified''),
     (''kernel_policy_changed'', ''system_hardening'', SeverityHigh, ''verified''),
     (''network_listener_opened'', ''network'', SeverityMedium, ''verified''),
     (''network_listener_closed'', ''network'', SeverityInfo, ''verified''),
     (''network_sensor_capacity_degraded'', ''sensor_health'', SeverityHigh, ''verified''),
     (''network_sensor_capacity_restored'', ''sensor_health'', SeverityInfo, ''verified''),
     (''suspicious_privileged_process_started'', ''workload_runtime'', SeverityCritical, ''verified''),
     (''deleted_executable_process_running'', ''workload_runtime'', SeverityMedium, ''verified''),
     (''process_sensor_capacity_degraded'', ''sensor_health'', SeverityHigh, ''verified''),
     (''process_sensor_capacity_restored'', ''sensor_health'', SeverityInfo, ''verified''),
     (''container_configuration_changed'', ''container_runtime'', SeverityMedium, ''verified''),
     (''runtime_reverse_shell_detected'', ''workload_runtime'', SeverityCritical, ''verified''),
     (''runtime_cryptominer_detected'', ''workload_runtime'', SeverityCritical, ''verified''),
     (''runtime_persistence_detected'', ''persistence'', SeverityHigh, ''verified''),
     (''container_privilege_escalation'', ''container_runtime'', SeverityCritical, ''verified''),
     (''runtime_sensitive_file_change'', ''file_integrity'', SeverityHigh, ''verified''),
     (''runtime_security_alert'', ''workload_runtime'', SeverityMedium, ''verified''),
     (''ssh_authorized_keys_changed'', ''identity_persistence'', SeverityHigh, ''verified''),
     (''sensor_health_degraded'', ''sensor_health'', SeverityHigh, ''verified''),
     (''sensor_health_restored'', ''sensor_health'', SeverityInfo, ''verified'')]"

definition event_class :: "string \<Rightarrow> string \<times> severity \<times> string" where
  "event_class t =
     (case map_of event_classes t of
        Some c \<Rightarrow> c
      | None \<Rightarrow>
         (if contains t ''container'' then (''container_runtime'', SeverityLow, ''verified'')
          else if contains t ''process'' \<or> contains t ''service'' then (''workload_runtime'', SeverityLow, ''verified'')
          else if contains t ''file'' then (''file_integrity'', SeverityLow, ''verified'')
          else if contains t ''network'' then (''network'', SeverityLow, ''verified'')
          else (''system'', SeverityLow, ''verified'')))"

text \<open>The first of the candidates that is not empty.\<close>

fun first_nonempty :: "string list \<Rightarrow> string" where
  "first_nonempty [] = []"
| "first_nonempty (x # xs) = (if x = [] then first_nonempty xs else x)"

definition event_subject :: "(bytes \<Rightarrow> event_meta) \<Rightarrow> security_event \<Rightarrow> string" where
  "event_subject meta e =
     (let m = meta (sv_payload e)
      in first_nonempty
           [trim_space (sv_source e), trim_space (em_path m),
            if em_port m > 0 then trim_space (em_address m) @ '':'' @ itoa (em_port m) else [],
            trim_space (em_executable m), trim_space (em_name m), sv_type e])"

text \<open>\<open>meta\<close> is what \<open>json.Unmarshal\<close> leaves in the metadata fields, errors ignored.\<close>

definition signal_from_event :: "(bytes \<Rightarrow> event_meta) \<Rightarrow> instant \<Rightarrow> security_event \<Rightarrow> signal_row \<times> string" where
  "signal_from_event meta now e =
     (let (category, severity, trust) = event_class (sv_type e);
          subject = event_subject meta e;
          correlation_type = (if sv_type e = ''ssh_auth_success'' then ''ssh_auth_failure'' else sv_type e)
      in (\<lparr>sg_id = ''event:'' @ sv_id e, sg_device = sv_device e, sg_type = sv_type e, sg_category = category,
           sg_severity = severity, sg_trust = trust, sg_subject = subject, sg_source = ''runtime_sensor'',
           sg_ref = sv_id e, sg_payload = sv_payload e, sg_at = sv_at e, sg_ingested = now\<rparr>,
          ''event:'' @ correlation_type @ '':'' @ subject))"

fun severity_rank :: "severity \<Rightarrow> nat" where
  "severity_rank SeverityCritical = 5"
| "severity_rank SeverityHigh = 4"
| "severity_rank SeverityMedium = 3"
| "severity_rank SeverityLow = 2"
| "severity_rank SeverityInfo = 1"

section \<open>Signals and incidents\<close>

definition signal_key :: "signal_row \<Rightarrow> string \<times> string" where
  "signal_key g = (sg_device g, sg_id g)"

definition evidence_key :: "evidence_row \<Rightarrow> string \<times> string" where
  "evidence_key e = (ed_device e, ed_signal e)"

definition signal_valid :: "signal_row \<Rightarrow> string \<Rightarrow> bool" where
  "signal_valid g key \<longleftrightarrow> \<not> (sg_id g = [] \<or> sg_device g = [] \<or> key = [] \<or> length (sg_id g) > 512 \<or> length key > 1024 \<or>
     length (sg_payload g) > 64 * 1024)"

text \<open>The rows of the retained signals; the evidence of a deleted signal goes with it.\<close>

definition trim_signals :: "string \<Rightarrow> case_db \<Rightarrow> case_db" where
  "trim_signals dev s =
     (let t = trim_table maxSignalsPerDevice (\<lambda>g. sg_device g = dev) sg_at (cd_signals s)
      in s\<lparr>cd_signals := t, cd_evidence := del_where (\<lambda>e. evidence_key e \<notin> signal_key ` set t) (cd_evidence s)\<rparr>)"

definition insert_signal :: "signal_row \<Rightarrow> case_db \<Rightarrow> store_error + case_db" where
  "insert_signal g s =
     (if sg_device g \<notin> dv_id ` set (st_devices (cd_store s)) then Inl ErrConstraint
      else Inr (trim_signals (sg_device g) (s\<lparr>cd_signals := cd_signals s @ [g]\<rparr>)))"

definition active_incident :: "string \<Rightarrow> string \<Rightarrow> store \<Rightarrow> incident_row option" where
  "active_incident dev key s = find (\<lambda>i. in_device i = dev \<and> in_key i = key \<and> incident_active i) (st_incidents s)"

definition active_count :: "string \<Rightarrow> store \<Rightarrow> nat" where
  "active_count dev s = cnt_where (\<lambda>i. in_device i = dev \<and> incident_active i) (st_incidents s)"

definition insert_incident :: "incident_row \<Rightarrow> store \<Rightarrow> store_error + store" where
  "insert_incident i s =
     (let t = st_incidents s @ [i]
      in if in_id i \<in> in_id ` set (st_incidents s) \<or> \<not> correlation_unique t then Inl ErrConstraint
         else Inr (s\<lparr>st_incidents := t\<rparr>))"

definition capacity_key :: string where
  "capacity_key = ''system:active_incident_capacity''"

definition opened_incident :: "string \<Rightarrow> signal_row \<Rightarrow> string \<Rightarrow> incident_row" where
  "opened_incident fresh g key =
     \<lparr>in_id = fresh, in_device = sg_device g, in_key = key,
      in_category = (if key = capacity_key then ''sensor_health'' else sg_category g),
      in_severity = (if key = capacity_key then SeverityHigh else sg_severity g), in_status = IncidentOpen, in_count = 1,
      in_first = sg_at g, in_last = sg_at g, in_investigated = None, in_created = sg_ingested g, in_updated = sg_ingested g\<rparr>"

definition open_incident :: "string \<Rightarrow> signal_row \<Rightarrow> string \<Rightarrow> store \<Rightarrow> store_error + store" where
  "open_incident fresh g key s =
     bindE (insert_incident (opened_incident fresh g key) s)
       (insert_timeline \<lparr>tl_incident = fresh, tl_actor = sg_source g, tl_type = ''incident_opened'', tl_details = empty_json,
          tl_at = sg_ingested g\<rparr>)"

definition touch :: "signal_row \<Rightarrow> incident_row \<Rightarrow> incident_row" where
  "touch g i = i\<lparr>in_status := (if in_status i = IncidentMonitoring then IncidentOpen else in_status i),
     in_severity := (if severity_rank (in_severity i) < severity_rank (sg_severity g) then sg_severity g else in_severity i),
     in_count := in_count i + 1, in_last := (if in_last i < sg_at g then sg_at g else in_last i), in_updated := sg_ingested g\<rparr>"

definition touch_incident :: "string \<Rightarrow> signal_row \<Rightarrow> store \<Rightarrow> store" where
  "touch_incident iid g s = s\<lparr>st_incidents := upd_where (\<lambda>i. in_id i = iid) (touch g) (st_incidents s)\<rparr>"

text \<open>The incident a signal joins, opened where none is active; over the limit of a device one incident stands for all.\<close>

definition choose_incident :: "string \<Rightarrow> signal_row \<Rightarrow> string \<Rightarrow> store \<Rightarrow> store_error + (string \<times> bool) \<times> store" where
  "choose_incident fresh g key s =
     (case active_incident (sg_device g) key s of
        Some i \<Rightarrow> Inr ((in_id i, False), touch_incident (in_id i) g s)
      | None \<Rightarrow>
         (let full = (active_count (sg_device g) s \<ge> maxActiveIncidentsPerDevice);
              key' = (if full then capacity_key else key)
          in case (if full then active_incident (sg_device g) key' s else None) of
               Some i \<Rightarrow> Inr ((in_id i, False), touch_incident (in_id i) g s)
             | None \<Rightarrow> bindE (open_incident fresh g key' s) (\<lambda>s1. Inr ((fresh, True), s1))))"

definition link_signal :: "string \<Rightarrow> signal_row \<Rightarrow> case_db \<Rightarrow> store_error + case_db" where
  "link_signal iid g s =
     (if (iid, signal_key g) \<in> (\<lambda>e. (ed_incident e, evidence_key e)) ` set (cd_evidence s) then Inr s
      else if signal_key g \<notin> signal_key ` set (cd_signals s) \<or> iid \<notin> in_id ` set (st_incidents (cd_store s)) then Inl ErrConstraint
      else Inr (s\<lparr>cd_evidence := cd_evidence s @ [\<lparr>ed_incident = iid, ed_device = sg_device g, ed_signal = sg_id g,
             ed_created = sg_ingested g\<rparr>]\<rparr>))"

definition note_signal :: "store_lib \<Rightarrow> string \<Rightarrow> bool \<Rightarrow> signal_row \<Rightarrow> store \<Rightarrow> store_error + store" where
  "note_signal J iid created g s =
     (if created then Inr s
      else insert_timeline \<lparr>tl_incident = iid, tl_actor = sg_source g, tl_type = ''signal_added'',
        tl_details = jx_map J [(''signalType'', DStr (sg_type g)), (''signalId'', DStr (sg_id g))], tl_at = sg_ingested g\<rparr> s)"

definition trim_timeline :: "string \<Rightarrow> store \<Rightarrow> store" where
  "trim_timeline iid s =
     s\<lparr>st_timeline := trim_table maxTimelineEventsPerIncident (\<lambda>r. tl_incident r = iid) tl_at (st_timeline s)\<rparr>"

definition incident_closed :: "incident_row \<Rightarrow> bool" where
  "incident_closed i \<longleftrightarrow> in_status i = IncidentResolved \<or> in_status i = IncidentDismissed"

text \<open>Deleting incidents deletes, by the foreign keys, all that belongs to them.\<close>

definition cascade :: "case_db \<Rightarrow> case_db" where
  "cascade s =
     (let st = cd_store s;
          live = in_id ` set (st_incidents st);
          plans = filter (\<lambda>p. pl_incident p \<in> live) (st_plans st)
      in s\<lparr>cd_store := st\<lparr>st_timeline := filter (\<lambda>r. tl_incident r \<in> live) (st_timeline st), st_plans := plans,
             st_links := filter (\<lambda>x. lk_plan x \<in> pl_id ` set plans) (st_links st)\<rparr>,
           cd_evidence := filter (\<lambda>e. ed_incident e \<in> live) (cd_evidence s),
           cd_investigations := filter (\<lambda>v. iv_incident v \<in> live) (cd_investigations s)\<rparr>)"

definition trim_closed :: "string \<Rightarrow> case_db \<Rightarrow> case_db" where
  "trim_closed dev s =
     (let st = cd_store s
      in cascade (s\<lparr>cd_store := st\<lparr>st_incidents :=
           trim_table maxIncidentsPerDevice (\<lambda>i. in_device i = dev \<and> incident_closed i) in_updated (st_incidents st)\<rparr>\<rparr>))"

definition find_incident :: "string \<Rightarrow> store \<Rightarrow> store_error + incident_row" where
  "find_incident iid s = (case find (\<lambda>i. in_id i = iid) (st_incidents s) of None \<Rightarrow> Inl ErrNotFound | Some i \<Rightarrow> Inr i)"

text \<open>\<open>upsertSignalIncidentTx\<close>; a signal already recorded changes nothing and gives no incident.\<close>

definition upsert_signal :: "store_lib \<Rightarrow> string \<Rightarrow> signal_row \<Rightarrow> string \<Rightarrow> case_db \<Rightarrow>
    store_error + (incident_row option \<times> bool) \<times> case_db" where
  "upsert_signal J fresh g0 key s =
     (if \<not> signal_valid g0 key then Inl (ErrOther ''signal identity, correlation key, or payload is invalid'')
      else (let g = g0\<lparr>sg_payload := nonempty_json (sg_payload g0)\<rparr>
            in if signal_key g \<in> signal_key ` set (cd_signals s) then Inr ((None, False), s)
               else bindE (insert_signal g s) (\<lambda>s1.
                    bindE (choose_incident fresh g key (cd_store s1)) (\<lambda>((iid, created), st).
                    bindE (link_signal iid g (s1\<lparr>cd_store := st\<rparr>)) (\<lambda>s2.
                    bindE (note_signal J iid created g (cd_store s2)) (\<lambda>st2.
                    let s3 = trim_closed (sg_device g) (s2\<lparr>cd_store := trim_timeline iid st2\<rparr>)
                    in bindE (find_incident iid (cd_store s3)) (\<lambda>i. Inr ((Some i, created), s3))))))))"

section \<open>Reading\<close>

definition severity_order :: "severity \<Rightarrow> nat" where
  "severity_order v = 5 - severity_rank v"

definition list_incidents :: "string \<Rightarrow> incident_status list \<Rightarrow> int \<Rightarrow> store \<Rightarrow> store_error + incident_row list" where
  "list_incidents dev statuses limit s =
     (if length statuses > 7 then Inl (ErrOther ''too many incident status filters'')
      else Inr (take (list_limit 200 100 limit)
        (sort_key (\<lambda>i. (severity_order (in_severity i), - in_last i))
          (filter (\<lambda>i. (dev = [] \<or> in_device i = dev) \<and> (statuses = [] \<or> in_status i \<in> set statuses)) (st_incidents s)))))"

definition list_incident_signals :: "string \<Rightarrow> int \<Rightarrow> case_db \<Rightarrow> signal_row list" where
  "list_incident_signals iid limit s =
     take (list_limit 500 100 limit) (sort_key (\<lambda>g. - sg_at g)
       (concat (map (\<lambda>e. filter (\<lambda>g. signal_key g = evidence_key e) (cd_signals s))
         (filter (\<lambda>e. ed_incident e = iid) (cd_evidence s)))))"

definition list_timeline :: "string \<Rightarrow> int \<Rightarrow> store \<Rightarrow> timeline_row list" where
  "list_timeline iid limit s =
     take (list_limit 500 200 limit) (sort_key tl_at (filter (\<lambda>r. tl_incident r = iid) (st_timeline s)))"

section \<open>Investigations\<close>

definition update_incidents :: "(incident_row \<Rightarrow> bool) \<Rightarrow> (incident_row \<Rightarrow> incident_row) \<Rightarrow> store \<Rightarrow> store_error + store" where
  "update_incidents p f s =
     (let t = upd_where p f (st_incidents s)
      in if correlation_unique t then Inr (s\<lparr>st_incidents := t\<rparr>) else Inl ErrConstraint)"

definition running_investigation :: "string \<Rightarrow> string \<Rightarrow> string \<Rightarrow> string \<Rightarrow> instant \<Rightarrow> investigation_row" where
  "running_investigation fresh iid trigger model now =
     \<lparr>iv_id = fresh, iv_incident = iid, iv_status = InvestigationRunning, iv_trigger = trigger, iv_hypothesis = [],
      iv_observations = [], iv_uncertainties = [], iv_next_checks = [], iv_conclusion = [], iv_confidence = 0, iv_model = model,
      iv_tools = [], iv_error = [], iv_started = Some now, iv_completed = None, iv_created = now, iv_updated = now\<rparr>"

definition insert_investigation :: "investigation_row \<Rightarrow> case_db \<Rightarrow> store_error + case_db" where
  "insert_investigation v s =
     (if iv_id v \<in> iv_id ` set (cd_investigations s) \<or> iv_incident v \<notin> in_id ` set (st_incidents (cd_store s)) then Inl ErrConstraint
      else Inr (s\<lparr>cd_investigations := cd_investigations s @ [v]\<rparr>))"

definition log_case :: "string \<Rightarrow> string \<Rightarrow> string \<Rightarrow> bytes \<Rightarrow> instant \<Rightarrow> case_db \<Rightarrow> store_error + case_db" where
  "log_case iid actor event details now s =
     bindE (insert_timeline \<lparr>tl_incident = iid, tl_actor = actor, tl_type = event, tl_details = details, tl_at = now\<rparr> (cd_store s))
       (\<lambda>st. Inr (s\<lparr>cd_store := st\<rparr>))"

definition create_investigation :: "string \<Rightarrow> string \<Rightarrow> string \<Rightarrow> string \<Rightarrow> instant \<Rightarrow> case_db \<Rightarrow> store_error + case_db" where
  "create_investigation fresh iid trigger model now s =
     (let p = (\<lambda>i. in_id i = iid \<and> (in_status i = IncidentOpen \<or> in_status i = IncidentMonitoring))
      in bindE (update_incidents p (\<lambda>i. i\<lparr>in_status := IncidentInvestigating, in_investigated := Some now, in_updated := now\<rparr>) (cd_store s))
           (\<lambda>st. if cnt_where p (st_incidents (cd_store s)) \<noteq> 1 then Inl ErrConflict
                 else bindE (insert_investigation (running_investigation fresh iid trigger model now) (s\<lparr>cd_store := st\<rparr>))
                        (log_case iid ''ai:investigator'' ''investigation_started'' empty_json now)))"

definition bounded_strings :: "string list \<Rightarrow> bool" where
  "bounded_strings xs \<longleftrightarrow> list_all (\<lambda>x. \<not> (trim_space x = [] \<or> length x > 1000)) xs"

definition completed_valid :: "investigation_row \<Rightarrow> bool" where
  "completed_valid v \<longleftrightarrow> \<not> (iv_status v \<noteq> InvestigationCompleted \<or> iv_confidence v < 0 \<or> iv_confidence v > 100 \<or>
     length (iv_tools v) > 32 \<or> length (iv_observations v) > 12 \<or> length (iv_uncertainties v) > 12 \<or> length (iv_next_checks v) > 12)"

definition finish_investigation :: "investigation_row \<Rightarrow> instant \<Rightarrow> investigation_row \<Rightarrow> investigation_row" where
  "finish_investigation v now x = x\<lparr>iv_status := iv_status v, iv_hypothesis := iv_hypothesis v, iv_observations := iv_observations v,
     iv_uncertainties := iv_uncertainties v, iv_next_checks := iv_next_checks v, iv_conclusion := iv_conclusion v,
     iv_confidence := iv_confidence v, iv_tools := iv_tools v, iv_error := [], iv_completed := Some now, iv_updated := now\<rparr>"

definition is_running :: "investigation_row \<Rightarrow> investigation_row \<Rightarrow> bool" where
  "is_running v x \<longleftrightarrow> iv_id x = iv_id v \<and> iv_incident x = iv_incident v \<and> iv_status x = InvestigationRunning"

definition insert_plan :: "plan_row \<Rightarrow> store \<Rightarrow> store_error + store" where
  "insert_plan p s =
     (if pl_id p \<in> pl_id ` set (st_plans s) \<or> pl_incident p \<notin> in_id ` set (st_incidents s) then Inl ErrConstraint
      else Inr (s\<lparr>st_plans := st_plans s @ [p]\<rparr>))"

text \<open>A proposed plan and its steps; \<open>tools\<close> is \<open>json.Marshal\<close> on the tool calls.\<close>

definition complete_investigation :: "store_lib \<Rightarrow> (tool_call list \<Rightarrow> bytes option) \<Rightarrow> string \<Rightarrow> investigation_row \<Rightarrow>
    (plan_row \<times> response_step list) option \<Rightarrow> instant \<Rightarrow> case_db \<Rightarrow> store_error + case_db" where
  "complete_investigation J tools fresh v plan now s =
     (if \<not> completed_valid v then Inl (ErrOther ''completed investigation is invalid'')
      else if (case tools (iv_tools v) of None \<Rightarrow> True | Some b \<Rightarrow> length b > 256 * 1024)
      then Inl (ErrOther ''investigation tool record is invalid'')
      else if \<not> bounded_strings (iv_observations v) then Inl (ErrOther ''investigation observations are invalid'')
      else if \<not> bounded_strings (iv_uncertainties v) then Inl (ErrOther ''investigation uncertainties are invalid'')
      else if \<not> bounded_strings (iv_next_checks v) then Inl (ErrOther ''investigation next checks are invalid'')
      else if cnt_where (is_running v) (cd_investigations s) \<noteq> 1 then Inl ErrConflict
      else (let s1 = s\<lparr>cd_investigations := upd_where (is_running v) (finish_investigation v now) (cd_investigations s)\<rparr>;
                planned = (case plan of None \<Rightarrow> False | Some (p, steps) \<Rightarrow> steps \<noteq> [])
            in bindE (case plan of
                 None \<Rightarrow> Inr (cd_store s1)
               | Some (p, steps) \<Rightarrow>
                  if steps = [] then Inr (cd_store s1)
                  else case jx_enc_steps J steps of
                         None \<Rightarrow> Inl (ErrOther ''response plan is invalid'')
                       | Some b \<Rightarrow>
                          if length b > 256 * 1024 then Inl (ErrOther ''response plan is invalid'')
                          else insert_plan (p\<lparr>pl_id := (if pl_id p = [] then fresh else pl_id p), pl_incident := iv_incident v,
                                 pl_investigation := iv_id v, pl_status := PlanProposed, pl_steps := b, pl_created := now, pl_updated := now\<rparr>)
                                 (cd_store s1)) (\<lambda>st.
               bindE (update_incidents (\<lambda>i. in_id i = iv_incident v)
                   (\<lambda>i. i\<lparr>in_status := (if planned then IncidentAwaitingApproval else IncidentMonitoring), in_investigated := Some now,
                          in_updated := now\<rparr>) st) (\<lambda>st2.
               log_case (iv_incident v) ''ai:investigator'' ''investigation_completed''
                 (jx_map J [(''confidence'', DInt (iv_confidence v)), (''responsePlanCreated'', DBool planned)]) now
                 (s1\<lparr>cd_store := st2\<rparr>)))))"

definition reopen :: "string \<Rightarrow> instant \<Rightarrow> store \<Rightarrow> store_error + store" where
  "reopen iid now = update_incidents (\<lambda>i. in_id i = iid \<and> in_status i = IncidentInvestigating)
     (\<lambda>i. i\<lparr>in_status := IncidentOpen, in_updated := now\<rparr>)"

definition failed_investigation :: "string \<Rightarrow> instant \<Rightarrow> investigation_row \<Rightarrow> investigation_row" where
  "failed_investigation failure now x = x\<lparr>iv_status := InvestigationFailed, iv_error := failure, iv_completed := Some now, iv_updated := now\<rparr>"

definition fail_investigation :: "investigation_row \<Rightarrow> string \<Rightarrow> instant \<Rightarrow> case_db \<Rightarrow> store_error + case_db" where
  "fail_investigation v failure now s =
     (if cnt_where (is_running v) (cd_investigations s) \<noteq> 1 then Inl ErrConflict
      else bindE (reopen (iv_incident v) now (cd_store s)) (\<lambda>st.
           log_case (iv_incident v) ''ai:investigator'' ''investigation_failed'' empty_json now
             (s\<lparr>cd_store := st, cd_investigations := upd_where (is_running v) (failed_investigation failure now) (cd_investigations s)\<rparr>)))"

definition lease_message :: string where
  "lease_message = ''Controller restarted or the investigation lease expired''"

definition recover_one :: "instant \<Rightarrow> investigation_row \<Rightarrow> case_db \<Rightarrow> store_error + case_db" where
  "recover_one now v s =
     (let p = (\<lambda>x. iv_id x = iv_id v \<and> iv_status x = InvestigationRunning)
      in if cnt_where p (cd_investigations s) \<noteq> 1 then Inr s
         else bindE (reopen (iv_incident v) now (cd_store s)) (\<lambda>st.
              log_case (iv_incident v) ''controller'' ''investigation_recovered'' empty_json now
                (s\<lparr>cd_store := st, cd_investigations := upd_where p (failed_investigation lease_message now) (cd_investigations s)\<rparr>)))"

fun recover_each :: "instant \<Rightarrow> investigation_row list \<Rightarrow> case_db \<Rightarrow> store_error + case_db" where
  "recover_each now [] s = Inr s"
| "recover_each now (v # vs) s = bindE (recover_one now v s) (recover_each now vs)"

definition stale_investigations :: "instant \<Rightarrow> case_db \<Rightarrow> investigation_row list" where
  "stale_investigations cutoff s =
     take 100 (sort_key iv_updated (filter (\<lambda>v. iv_status v = InvestigationRunning \<and> iv_updated v \<le> cutoff) (cd_investigations s)))"

definition recover_stale :: "instant \<Rightarrow> instant \<Rightarrow> case_db \<Rightarrow> store_error + nat \<times> case_db" where
  "recover_stale cutoff now s =
     bindE (recover_each now (stale_investigations cutoff s) s) (\<lambda>s'. Inr (length (stale_investigations cutoff s), s'))"

definition list_investigations :: "string \<Rightarrow> int \<Rightarrow> case_db \<Rightarrow> investigation_row list" where
  "list_investigations iid limit s =
     take (list_limit 100 20 limit) (descending iv_created (filter (\<lambda>v. iv_incident v = iid) (cd_investigations s)))"

definition decode_steps :: "store_lib \<Rightarrow> plan_row \<Rightarrow> store_error + plan_row \<times> response_step list" where
  "decode_steps J p = (case jx_steps J (pl_steps p) of None \<Rightarrow> Inl (ErrOther ''invalid response steps'') | Some x \<Rightarrow> Inr (p, x))"

fun all_right :: "('e + 'a) list \<Rightarrow> 'e + 'a list" where
  "all_right [] = Inr []"
| "all_right (Inl e # xs) = Inl e"
| "all_right (Inr x # xs) = bindE (all_right xs) (\<lambda>ys. Inr (x # ys))"

definition list_response_plans :: "store_lib \<Rightarrow> string \<Rightarrow> int \<Rightarrow> store \<Rightarrow> store_error + (plan_row \<times> response_step list) list" where
  "list_response_plans J iid limit s =
     all_right (map (decode_steps J)
       (take (list_limit 100 20 limit) (descending pl_created (filter (\<lambda>p. pl_incident p = iid) (st_plans s)))))"

definition response_plan :: "store_lib \<Rightarrow> string \<Rightarrow> store \<Rightarrow> store_error + plan_row \<times> response_step list" where
  "response_plan J pid s = (case find (\<lambda>p. pl_id p = pid) (st_plans s) of None \<Rightarrow> Inl ErrNotFound | Some p \<Rightarrow> decode_steps J p)"

end
