(* ===== verification/SecurityEvents.thy ===== *)
theory SecurityEvents
  imports Incidents Correlator ActionResults Outbox
begin

text \<open>
  Intake of security events and automatic defense (\<open>internal/store/security_events.go\<close>): the
  bounded event log of a device, the sliding failure windows per source, and the transaction
  that records an event together with the policy-authorized action it leads to.
\<close>

section \<open>Tables and limits\<close>

record window_row =
  wn_device :: string
  wn_type :: string
  wn_source :: string
  wn_seconds :: int
  wn_started :: instant
  wn_seen :: instant
  wn_count :: nat
  wn_times :: "int list"           \<comment> \<open>milliseconds\<close>
  wn_ends :: "instant option"      \<comment> \<open>\<open>None\<close> is the empty text of an old row\<close>

record retention_row =
  rt_device :: string
  rt_since :: int
  rt_windows :: int

record guard_db =
  gd_cases :: case_db
  gd_events :: "security_event list"
  gd_windows :: "window_row list"
  gd_retention :: "retention_row list"

abbreviation gd_store :: "guard_db \<Rightarrow> store" where
  "gd_store s \<equiv> cd_store (gd_cases s)"

definition put_store :: "store \<Rightarrow> guard_db \<Rightarrow> guard_db" where
  "put_store st s = s\<lparr>gd_cases := gd_cases s\<lparr>cd_store := st\<rparr>\<rparr>"

definition maxSecurityEventsPerDevice :: nat where "maxSecurityEventsPerDevice = 2000"
definition securityEventRetentionBatch :: nat where "securityEventRetentionBatch = 128"
definition maxActiveSimulationsPerDevice :: nat where "maxActiveSimulationsPerDevice = 1000"
definition maxSecurityEventWindowsPerDevice :: nat where "maxSecurityEventWindowsPerDevice = 2000"
definition maxDefenseSimulationsPerHour :: nat where "maxDefenseSimulationsPerHour = 100"

text \<open>Library functions the intake relies on, and the identifiers it draws.\<close>

record evidence =
  pe_eligible :: bool
  pe_trust :: string
  pe_pid :: int
  pe_uid :: int
  pe_start :: int
  pe_executable :: string

record event_lib =
  el_jx :: store_lib
  el_net :: net_lib
  el_ban :: ban_codec
  el_meta :: "bytes \<Rightarrow> event_meta"
  el_evidence :: "bytes \<Rightarrow> evidence option"
  el_extend :: "bytes \<Rightarrow> (string \<times> detail) list \<Rightarrow> bytes"
  el_ban_params :: "string \<Rightarrow> int \<Rightarrow> string \<Rightarrow> string \<Rightarrow> bytes"
  el_suspend_params :: "int \<Rightarrow> int \<Rightarrow> string \<Rightarrow> int \<Rightarrow> string \<Rightarrow> bytes"
  el_payload :: "string \<Rightarrow> action_type \<Rightarrow> bytes \<Rightarrow> bytes"
  el_addr_text :: "addr \<Rightarrow> string"

record event_ids =
  xi_incident :: string
  xi_evidence :: string
  xi_ban :: string
  xi_action :: string
  xi_command :: string
  xi_notice :: "string \<times> string"

section \<open>The audit view\<close>

definition event_key :: "security_event \<Rightarrow> instant \<times> string \<times> string" where
  "event_key e = (sv_at e, sv_device e, sv_id e)"

definition event_matches :: "string \<Rightarrow> string \<Rightarrow> security_event \<Rightarrow> bool" where
  "event_matches dev typ e \<longleftrightarrow> (dev = [] \<or> sv_device e = dev) \<and> (typ = [] \<or> sv_type e = typ)"

definition before_cursor :: "(instant \<times> string \<times> string) option \<Rightarrow> security_event \<Rightarrow> bool" where
  "before_cursor cur e =
     (case cur of
        None \<Rightarrow> True
      | Some (at, dev, eid) \<Rightarrow> sv_at e < at \<or> (sv_at e = at \<and> sv_device e < dev) \<or> (sv_at e = at \<and> sv_device e = dev \<and> sv_id e < eid))"

definition list_security_events :: "string \<Rightarrow> string \<Rightarrow> (instant \<times> string \<times> string) option \<Rightarrow> int \<Rightarrow> guard_db \<Rightarrow>
    security_event list \<times> (instant \<times> string \<times> string) option" where
  "list_security_events dev typ cur limit s =
     (let n = list_limit 100 50 limit;
          items = take (n + 1) (rev (sort_key event_key (filter (\<lambda>e. event_matches dev typ e \<and> before_cursor cur e) (gd_events s))))
      in if length items > n then (take n items, Some (event_key (last (take n items)))) else (items, None))"

section \<open>Retention\<close>

definition retention_of :: "string \<Rightarrow> guard_db \<Rightarrow> retention_row option" where
  "retention_of dev s = find (\<lambda>r. rt_device r = dev) (gd_retention s)"

definition update_retention :: "(retention_row \<Rightarrow> bool) \<Rightarrow> (retention_row \<Rightarrow> retention_row) \<Rightarrow> guard_db \<Rightarrow> guard_db" where
  "update_retention p f s = s\<lparr>gd_retention := upd_where p f (gd_retention s)\<rparr>"

definition count_event :: "string \<Rightarrow> guard_db \<Rightarrow> int \<times> guard_db" where
  "count_event dev s =
     (case retention_of dev s of
        None \<Rightarrow> (1, s\<lparr>gd_retention := gd_retention s @ [\<lparr>rt_device = dev, rt_since = 1, rt_windows = - 1\<rparr>]\<rparr>)
      | Some r \<Rightarrow> (rt_since r + 1, update_retention (\<lambda>r. rt_device r = dev) (\<lambda>r. r\<lparr>rt_since := rt_since r + 1\<rparr>) s))"

definition reset_since :: "string \<Rightarrow> guard_db \<Rightarrow> guard_db" where
  "reset_since dev = update_retention (\<lambda>r. rt_device r = dev) (\<lambda>r. r\<lparr>rt_since := 0\<rparr>)"

definition prune_events :: "string \<Rightarrow> guard_db \<Rightarrow> guard_db" where
  "prune_events dev s =
     (let (since, s1) = count_event dev s
      in if since < int securityEventRetentionBatch then s1
         else reset_since dev (s1\<lparr>gd_events := trim_table (maxSecurityEventsPerDevice - securityEventRetentionBatch)
                (\<lambda>e. sv_device e = dev) sv_at (gd_events s1)\<rparr>))"

definition correlation_event_id :: string where
  "correlation_event_id = ''evt_defense_correlation_capacity''"

definition degraded_payload :: "store_lib \<Rightarrow> int \<Rightarrow> bytes" where
  "degraded_payload J observed = jx_map J [(''status'', DStr ''degraded''), (''severity'', DStr ''critical''),
     (''automaticActionEligible'', DBool False), (''capacity'', DInt (int maxSecurityEventWindowsPerDevice)),
     (''observedWindows'', DInt observed), (''reason'', DStr ''SSH source-correlation capacity was reached; lower-priority historical source windows may be evicted while the currently observed source remains protected'')]"

text \<open>\<open>INSERT ... ON CONFLICT(device_id,id) DO UPDATE\<close>.\<close>

definition put_event :: "security_event \<Rightarrow> security_event list \<Rightarrow> security_event list" where
  "put_event e t =
     (if (sv_device e, sv_id e) \<in> (\<lambda>x. (sv_device x, sv_id x)) ` set t
      then upd_where (\<lambda>x. sv_device x = sv_device e \<and> sv_id x = sv_id e) (\<lambda>_. e) t else t @ [e])"

definition record_degraded :: "store_lib \<Rightarrow> string \<Rightarrow> int \<Rightarrow> instant \<Rightarrow> guard_db \<Rightarrow> guard_db" where
  "record_degraded J dev observed now s =
     (let e = \<lparr>sv_id = correlation_event_id, sv_device = dev, sv_type = capacity_degraded, sv_source = [], sv_at = now,
            sv_payload = degraded_payload J observed\<rparr>
      in reset_since dev (s\<lparr>gd_events := trim_table (maxSecurityEventsPerDevice - 1)
           (\<lambda>e. sv_device e = dev \<and> sv_id e \<noteq> correlation_event_id) sv_at (put_event e (gd_events s))\<rparr>))"

section \<open>Sliding windows\<close>

definition unix_milli :: "instant \<Rightarrow> int" where
  "unix_milli t = t div 1000000"

text \<open>The recorded failures of a source: those still inside the window, and the new one; at most the newest hundred.\<close>

definition window_times :: "int list \<Rightarrow> instant \<Rightarrow> instant \<Rightarrow> duration \<Rightarrow> int list" where
  "window_times samples at now window =
     (let kept = sort (filter (\<lambda>x. x \<ge> unix_milli (now - window)) samples @ [unix_milli at])
      in if int (length kept) > MaxFailureThreshold then drop (length kept - nat MaxFailureThreshold) kept else kept)"

definition same_window :: "string \<Rightarrow> string \<Rightarrow> string \<Rightarrow> window_row \<Rightarrow> bool" where
  "same_window dev typ source w \<longleftrightarrow> wn_device w = dev \<and> wn_type w = typ \<and> wn_source w = source"

definition window_expired :: "string \<Rightarrow> instant \<Rightarrow> window_row \<Rightarrow> bool" where
  "window_expired dev now w \<longleftrightarrow> wn_device w = dev \<and> (case wn_ends w of None \<Rightarrow> False | Some t \<Rightarrow> t \<le> now)"

definition expire_windows :: "string \<Rightarrow> instant \<Rightarrow> guard_db \<Rightarrow> guard_db" where
  "expire_windows dev now s =
     (let n = cnt_where (window_expired dev now) (gd_windows s);
          s1 = s\<lparr>gd_windows := del_where (window_expired dev now) (gd_windows s)\<rparr>
      in if n > 0 then update_retention (\<lambda>r. rt_device r = dev \<and> rt_windows r \<ge> 0) (\<lambda>r. r\<lparr>rt_windows := max 0 (rt_windows r - int n)\<rparr>) s1
         else s1)"

definition put_window :: "window_row \<Rightarrow> window_row list \<Rightarrow> window_row list" where
  "put_window w t =
     (if list_ex (same_window (wn_device w) (wn_type w) (wn_source w)) t
      then upd_where (same_window (wn_device w) (wn_type w) (wn_source w)) (\<lambda>_. w) t else t @ [w])"

text \<open>The number of windows of a device, counted once and maintained from then on.\<close>

definition window_count :: "string \<Rightarrow> bool \<Rightarrow> guard_db \<Rightarrow> store_error + int \<times> guard_db" where
  "window_count dev new s =
     (case retention_of dev s of
        None \<Rightarrow> Inl (ErrOther ''sql: no rows in result set'')
      | Some r \<Rightarrow>
         (let n = (if rt_windows r < 0 then int (cnt_where (\<lambda>w. wn_device w = dev) (gd_windows s))
                   else if new then rt_windows r + 1 else rt_windows r)
          in Inr (n, update_retention (\<lambda>r. rt_device r = dev) (\<lambda>r. r\<lparr>rt_windows := n\<rparr>) s)))"

definition evict_windows :: "string \<Rightarrow> string \<Rightarrow> string \<Rightarrow> guard_db \<Rightarrow> guard_db" where
  "evict_windows dev typ source s =
     (let t = trim_table (maxSecurityEventWindowsPerDevice - 1) (\<lambda>w. wn_device w = dev \<and> \<not> (wn_type w = typ \<and> wn_source w = source))
                (\<lambda>w. (wn_count w, wn_seen w)) (gd_windows s);
          pruned = int (length (gd_windows s)) - int (length t)
      in update_retention (\<lambda>r. rt_device r = dev) (\<lambda>r. r\<lparr>rt_windows := max 0 (rt_windows r - pruned)\<rparr>) (s\<lparr>gd_windows := t\<rparr>))"

definition window_of :: "string \<Rightarrow> string \<Rightarrow> string \<Rightarrow> int \<Rightarrow> int list \<Rightarrow> instant \<Rightarrow> duration \<Rightarrow> window_row" where
  "window_of dev typ source secs kept now window = \<lparr>wn_device = dev, wn_type = typ, wn_source = source, wn_seconds = secs,
     wn_started = hd kept * 1000000, wn_seen = now, wn_count = length kept, wn_times = kept,
     wn_ends = Some (last kept * 1000000 + window)\<rparr>"

definition increment_window :: "store_lib \<Rightarrow> string \<Rightarrow> string \<Rightarrow> string \<Rightarrow> duration \<Rightarrow> instant \<Rightarrow> instant \<Rightarrow> guard_db \<Rightarrow>
    store_error + int \<times> guard_db" where
  "increment_window J dev typ source window at now s =
     (let secs = tdiv window second;
          s1 = expire_windows dev now s;
          old = find (same_window dev typ source) (gd_windows s1);
          samples = (case old of Some w \<Rightarrow> if wn_seconds w = secs then wn_times w else [] | None \<Rightarrow> []);
          kept = window_times samples at now window
      in if dev \<notin> dv_id ` set (st_devices (gd_store s)) then Inl ErrConstraint
         else (let s2 = s1\<lparr>gd_windows := put_window (window_of dev typ source secs kept now window) (gd_windows s1)\<rparr>
               in bindE (window_count dev (old = None) s2) (\<lambda>(n, s3).
                  let s4 = (if n \<ge> int maxSecurityEventWindowsPerDevice then record_degraded J dev n now s3 else s3);
                      s5 = (if n > int maxSecurityEventWindowsPerDevice then evict_windows dev typ source s4 else s4)
                  in Inr (int (length kept), s5))))"

section \<open>Outcomes\<close>

record event_outcome =
  xo_inserted :: bool
  xo_recorded :: bool
  xo_decision :: evaluation
  xo_action :: string
  xo_command :: string
  xo_ban :: string
  xo_notice :: "notification_event option"
  xo_queued :: nat

definition no_outcome :: event_outcome where
  "no_outcome = \<lparr>xo_inserted = False, xo_recorded = False, xo_decision = no_evaluation [], xo_action = [], xo_command = [],
     xo_ban = [], xo_notice = None, xo_queued = 0\<rparr>"

definition policy_of_row :: "store_lib \<Rightarrow> policy_row \<Rightarrow> policy_config option" where
  "policy_of_row J p = map_option (\<lambda>allow. \<lparr>dp_enabled = po_enabled p, dp_auto_ban = po_auto_ban p, dp_stop = po_stop p,
     dp_threshold = po_threshold p, dp_window = seconds (po_window p), dp_ban = seconds (po_ban_duration p),
     dp_max_bans = po_max_bans p, dp_allowlist = allow\<rparr>) (jx_allowed J (po_allowlist p))"

definition default_policy_config :: policy_config where
  "default_policy_config = DefaultPolicy\<lparr>dp_allowlist := []\<rparr>"

definition policy_tx :: "store_lib \<Rightarrow> string \<Rightarrow> store \<Rightarrow> store_error + policy_config" where
  "policy_tx J dev s =
     (case find_policy dev s of
        None \<Rightarrow> Inr default_policy_config
      | Some p \<Rightarrow> (case policy_of_row J p of None \<Rightarrow> Inl (ErrOther ''invalid allowlist'') | Some c \<Rightarrow> Inr c))"

text \<open>The administrator address a ban is checked against: the first usable entry of the allowlist.\<close>

fun policy_admin_ip :: "event_lib \<Rightarrow> string list \<Rightarrow> string" where
  "policy_admin_ip E [] = ''127.0.0.1''"
| "policy_admin_ip E (x # xs) =
     (case nl_ip (el_net E) x of
        Some a \<Rightarrow>
          (if \<not> is_loopback a \<and> \<not> is_unspecified a then el_addr_text E a
           else case Option.bind (nl_cidr (el_net E) x) prefix_address of
                  Some b \<Rightarrow> if \<not> is_loopback b \<and> \<not> is_unspecified b then el_addr_text E b else policy_admin_ip E xs
                | None \<Rightarrow> policy_admin_ip E xs)
      | None \<Rightarrow>
          (case Option.bind (nl_cidr (el_net E) x) prefix_address of
             Some b \<Rightarrow> if \<not> is_loopback b \<and> \<not> is_unspecified b then el_addr_text E b else policy_admin_ip E xs
           | None \<Rightarrow> policy_admin_ip E xs))"

text \<open>The source as an address without a zone, and its canonical text.\<close>

definition source_address :: "event_lib \<Rightarrow> security_event \<Rightarrow> addr option" where
  "source_address E e =
     (case bk_parse (el_ban E) (trim_space (sv_source e)) of
        None \<Rightarrow> None
      | Some a \<Rightarrow> if zone a = [] then Some a else None)"

definition canonical_event :: "event_lib \<Rightarrow> security_event \<Rightarrow> security_event" where
  "canonical_event E e0 =
     (let e = e0\<lparr>sv_payload := nonempty_json (sv_payload e0)\<rparr>
      in case source_address E e of None \<Rightarrow> e | Some a \<Rightarrow> e\<lparr>sv_source := bk_text (el_ban E) (unmap a)\<rparr>)"

section \<open>Promoting signals\<close>

definition upsert_in :: "event_lib \<Rightarrow> string \<Rightarrow> signal_row \<Rightarrow> string \<Rightarrow> guard_db \<Rightarrow> store_error + guard_db" where
  "upsert_in E fresh g key s =
     bindE (upsert_signal (el_jx E) fresh g key (gd_cases s)) (\<lambda>(_, c). Inr (s\<lparr>gd_cases := c\<rparr>))"

definition latest_success :: "string \<Rightarrow> string \<Rightarrow> instant \<Rightarrow> guard_db \<Rightarrow> security_event option" where
  "latest_success dev source since s =
     (case rev (sort_key (\<lambda>e. (sv_at e, sv_id e))
        (filter (\<lambda>e. sv_device e = dev \<and> sv_type e = ''ssh_auth_success'' \<and> sv_source e = source \<and> sv_at e \<ge> since) (gd_events s))) of
        [] \<Rightarrow> None | e # _ \<Rightarrow> Some e)"

definition attach_recent_success :: "event_lib \<Rightarrow> string \<Rightarrow> string \<Rightarrow> string \<Rightarrow> string \<Rightarrow> instant \<Rightarrow> instant \<Rightarrow> guard_db \<Rightarrow>
    store_error + guard_db" where
  "attach_recent_success E fresh dev source key since now s =
     (case latest_success dev source since s of
        None \<Rightarrow> Inr s
      | Some e \<Rightarrow> upsert_in E fresh (fst (signal_from_event (el_meta E) now e)) key s)"

section \<open>Queueing the answer\<close>

definition defense_notice :: "string \<Rightarrow> string \<Rightarrow> string \<Rightarrow> string \<Rightarrow> string \<Rightarrow> instant \<Rightarrow> notification_event" where
  "defense_notice ref severity dev title message now = \<lparr>ne_id = ''defense:'' @ ref, ne_type = ''defense_event'', ne_severity = severity,
     ne_device = dev, ne_title = title, ne_message = message, ne_at = now, ne_data = []\<rparr>"

definition announce :: "event_lib \<Rightarrow> event_ids \<Rightarrow> notification_event \<Rightarrow> instant \<Rightarrow> event_outcome \<Rightarrow> guard_db \<Rightarrow>
    store_error + event_outcome \<times> guard_db" where
  "announce E I n now out s =
     bindE (enqueue_notification (el_jx E) (xi_notice I) n now (gd_store s)) (\<lambda>(k, st).
       Inr (out\<lparr>xo_queued := k, xo_notice := Some n\<rparr>, put_store st s))"

definition ssh_notice :: "string \<Rightarrow> security_event \<Rightarrow> string \<Rightarrow> instant \<Rightarrow> notification_event" where
  "ssh_notice ban e reason now = defense_notice ban ''high'' (sv_device e) ''SSH brute-force policy matched''
     (''Source '' @ sv_source e @ '' matched the SSH defense policy. '' @ reason) now"

definition policy_action :: "string \<Rightarrow> string \<Rightarrow> action_type \<Rightarrow> bytes \<Rightarrow> bytes \<Rightarrow> string \<Rightarrow> instant \<Rightarrow> action_row" where
  "policy_action aid dev typ params preview actor now =
     \<lparr>ac_id = aid, ac_device = dev, ac_finding = [], ac_type = typ, ac_params = params, ac_preview = preview, ac_status = Approved,
      ac_nonce = [], ac_approved_by = actor, ac_approved_at = Some now, ac_executed = None, ac_completed = None, ac_rollback = None,
      ac_confirm_by = None, ac_error = [], ac_created = now, ac_updated = now\<rparr>"

definition policy_command :: "event_lib \<Rightarrow> event_ids \<Rightarrow> string \<Rightarrow> action_type \<Rightarrow> bytes \<Rightarrow> instant \<Rightarrow> new_cmd" where
  "policy_command E I dev typ params now = \<lparr>nc_id = xi_command I, nc_device = dev, nc_type = CommandExecuteAction,
     nc_payload = el_payload E (xi_action I) typ params, nc_created = now\<rparr>"

definition utf8 :: "nat list \<Rightarrow> string" where
  "utf8 bs = map char_of bs"

definition suspend_title :: string where
  "suspend_title = utf8
    [229, 183, 178, 232, 167, 166, 229, 143, 145, 232, 191, 155, 231, 168, 139, 233, 154, 148, 231, 166, 187]"

definition suspend_message :: string where
  "suspend_message = utf8
    [229, 143, 145, 231, 142, 176, 231, 178, 190, 231, 161, 174, 229, 140, 185, 233, 133, 141, 231, 154, 132, 233, 171,
     152, 233, 163, 142, 233, 153, 169, 231, 137, 185, 230, 157, 131, 232, 191, 155, 231, 168, 139, 239, 188, 140, 229,
     183, 178, 230, 140, 137, 233, 162, 132, 230, 142, 136, 230, 157, 131, 230, 154, 130, 229, 129, 156, 32, 49, 50, 48,
     32, 231, 167, 146, 229, 185, 182, 228, 191, 157, 231, 149, 153, 232, 135, 170, 229, 138, 168, 230, 129, 162, 229,
     164, 141, 227, 128, 130]"

definition suspend_summary :: string where
  "suspend_summary = utf8
    [233, 162, 132, 230, 142, 136, 230, 157, 131, 231, 173, 150, 231, 149, 165, 229, 176, 134, 228, 184, 180, 230, 151,
     182, 230, 154, 130, 229, 129, 156, 228, 184, 128, 228, 184, 170, 231, 178, 190, 231, 161, 174, 229, 140, 185, 233,
     133, 141, 231, 154, 132, 233, 171, 152, 233, 163, 142, 233, 153, 169, 232, 191, 155, 231, 168, 139]"

definition transient_path :: "string \<Rightarrow> bool" where
  "transient_path p \<longleftrightarrow> p \<noteq> [] \<and> path_clean p = p \<and> trim_suffix p '' (deleted)'' = p \<and>
     (has_prefix p ''/tmp/'' \<or> has_prefix p ''/var/tmp/'' \<or> has_prefix p ''/dev/shm/'')"

definition evidence_actionable :: "evidence \<Rightarrow> bool" where
  "evidence_actionable v \<longleftrightarrow> \<not> (\<not> pe_eligible v \<or> pe_trust v \<noteq> ''verified'' \<or> pe_pid v < 2 \<or> pe_uid v \<noteq> 0 \<or> pe_start v = 0) \<and>
     transient_path (trim_space (pe_executable v))"

definition runtime_actor :: string where "runtime_actor = ''policy:workload.runtime''"

definition recent_suspensions :: "string \<Rightarrow> instant \<Rightarrow> store \<Rightarrow> nat" where
  "recent_suspensions dev since s =
     cnt_where (\<lambda>a. ac_device a = dev \<and> ac_approved_by a = runtime_actor \<and> ac_created a \<ge> since) (st_actions s)"

definition find_grant :: "string \<Rightarrow> string \<Rightarrow> store \<Rightarrow> grant_row option" where
  "find_grant dev cap s = find (\<lambda>g. pg_device g = dev \<and> pg_capability g = cap) (st_grants s)"

definition grant_live :: "grant_row option \<Rightarrow> bool" where
  "grant_live g = (case g of None \<Rightarrow> False | Some g \<Rightarrow> pg_enabled g \<and> \<not> pg_stop g \<and> pg_mode g = AutonomyEnhanced)"

definition queue_containment :: "event_lib \<Rightarrow> event_ids \<Rightarrow> security_event \<Rightarrow> event_outcome \<Rightarrow> instant \<Rightarrow> guard_db \<Rightarrow>
    store_error + event_outcome \<times> guard_db" where
  "queue_containment E I e out now s =
     (case el_evidence E (sv_payload e) of
        None \<Rightarrow> Inr (out, s)
      | Some v \<Rightarrow>
         (if \<not> evidence_actionable v then Inr (out, s)
          else let g = find_grant (sv_device e) ''workload.runtime'' (gd_store s) in
          if \<not> grant_live g then Inr (out, s)
          else case jx_allowed (el_jx E) (pg_allowed (the g)) of
                 None \<Rightarrow> Inl (ErrOther ''runtime policy action list is invalid'')
               | Some allowed \<Rightarrow>
                  (if TypeTemporaryProcessSuspend \<notin> set allowed \<or> pg_max (the g) < 1 then Inr (out, s)
                   else if int (recent_suspensions (sv_device e) (now - hour) (gd_store s)) \<ge> pg_max (the g) then Inr (out, s)
                   else (let exe = trim_space (pe_executable v);
                             params = el_suspend_params E (pe_pid v) (pe_start v) exe 120
                               ''verified privileged executable started from a transient writable path'';
                             preview = jx_map (el_jx E) [(''summary'', DStr suspend_summary), (''pid'', DInt (pe_pid v)),
                               (''executable'', DStr exe), (''ttlSeconds'', DInt 120), (''automaticResume'', DBool True)]
                         in bindE (insert_policy_action
                                (policy_action (xi_action I) (sv_device e) TypeTemporaryProcessSuspend params preview runtime_actor now)
                                (policy_command E I (sv_device e) TypeTemporaryProcessSuspend params now) runtime_actor (gd_store s)) (\<lambda>st.
                            announce E I (defense_notice (xi_action I) ''critical'' (sv_device e) suspend_title suspend_message now) now
                              (out\<lparr>xo_recorded := True, xo_action := xi_action I, xo_command := xi_command I,
                                xo_decision := (no_evaluation ''verified transient privileged process matched the pre-authorized runtime policy'')
                                  \<lparr>ev_matched := True\<rparr>\<rparr>) (put_store st s))))))"

section \<open>Automatic bans\<close>

text \<open>A protected target, or a device in observer mode, turns the ban into a simulation.\<close>

definition simulate_because :: "string \<Rightarrow> evaluation \<Rightarrow> evaluation" where
  "simulate_because why d = d\<lparr>ev_ban := False, ev_simulated := True, ev_reason := ev_reason d @ why\<rparr>"

definition adjust_decision :: "event_lib \<Rightarrow> bool \<Rightarrow> string \<Rightarrow> evaluation \<Rightarrow> evaluation" where
  "adjust_decision E observer source d0 =
     (let d1 = (if (case validate_ban_target (el_ban E) source of Inl _ \<Rightarrow> True | Inr _ \<Rightarrow> False) \<and> ev_ban d0
                then simulate_because ''; target is protected from automatic firewall changes'' d0 else d0)
      in if observer \<and> ev_ban d1 then simulate_because ''; observer-only device recorded a simulation'' d1 else d1)"

definition live_simulation :: "string \<Rightarrow> instant \<Rightarrow> ban_row \<Rightarrow> bool" where
  "live_simulation dev now b \<longleftrightarrow> bn_device b = dev \<and> bn_simulated b \<and> bn_status b = ''simulated'' \<and> bn_expires b > now"

definition event_ban :: "event_ids \<Rightarrow> security_event \<Rightarrow> evaluation \<Rightarrow> instant \<Rightarrow> ban_row" where
  "event_ban I e d now = \<lparr>bn_id = xi_ban I, bn_device = sv_device e, bn_action = [], bn_source = sv_source e, bn_reason = ev_reason d,
     bn_expires = (case ev_expires d of None \<Rightarrow> 0 | Some t \<Rightarrow> t), bn_created = now, bn_simulated = ev_simulated d, bn_status = ''simulated''\<rparr>"

definition decide :: "evaluation \<Rightarrow> event_outcome \<Rightarrow> event_outcome" where
  "decide d out = out\<lparr>xo_decision := d\<rparr>"

definition withhold :: "string \<Rightarrow> evaluation \<Rightarrow> evaluation" where
  "withhold why d = d\<lparr>ev_reason := ev_reason d @ why, ev_expires := None\<rparr>"

definition record_simulation :: "event_lib \<Rightarrow> event_ids \<Rightarrow> security_event \<Rightarrow> evaluation \<Rightarrow> event_outcome \<Rightarrow> instant \<Rightarrow> guard_db \<Rightarrow>
    store_error + event_outcome \<times> guard_db" where
  "record_simulation E I e d out now s =
     (let bans = st_bans (gd_store s); dev = sv_device e in
      if cnt_where (\<lambda>b. live_simulation dev now b \<and> bn_source b = sv_source e) bans > 0 then Inr (decide d out, s)
      else if cnt_where (\<lambda>b. bn_device b = dev \<and> bn_simulated b \<and> bn_created b \<ge> now - hour) bans \<ge> maxDefenseSimulationsPerHour
      then Inr (decide (withhold ''; simulation audit rate limit reached'' d) out, s)
      else if cnt_where (live_simulation dev now) bans \<ge> maxActiveSimulationsPerDevice
      then Inr (decide (withhold ''; simulation retention limit reached'' d) out, s)
      else bindE (insert_ban (event_ban I e d now) (gd_store s)) (\<lambda>st.
           announce E I (ssh_notice (xi_ban I) e (ev_reason d) now) now
             ((decide d out)\<lparr>xo_recorded := True, xo_ban := xi_ban I\<rparr>) (put_store st s)))"

definition cooldown_of :: "policy_config \<Rightarrow> duration" where
  "cooldown_of p = (if dp_window p > 5 * minute then 5 * minute else dp_window p)"

definition in_cooldown :: "security_event \<Rightarrow> policy_config \<Rightarrow> instant \<Rightarrow> store \<Rightarrow> bool" where
  "in_cooldown e p now s \<longleftrightarrow>
     cnt_where (\<lambda>b. ban_recent (sv_device e) (now - cooldown_of p) b \<and> bn_source b = sv_source e) (st_bans s) > 0"

definition cooled :: "evaluation \<Rightarrow> evaluation" where
  "cooled d = d\<lparr>ev_ban := False, ev_expires := None, ev_reason := ''source is in automatic-action retry cooldown''\<rparr>"

definition bruteforce_actor :: string where "bruteforce_actor = ''policy:ssh_bruteforce''"

definition queue_ban :: "event_lib \<Rightarrow> event_ids \<Rightarrow> security_event \<Rightarrow> policy_config \<Rightarrow> int \<Rightarrow> evaluation \<Rightarrow> event_outcome \<Rightarrow> instant \<Rightarrow>
    guard_db \<Rightarrow> store_error + event_outcome \<times> guard_db" where
  "queue_ban E I e p failures d out now s =
     (if in_cooldown e p now (gd_store s) then Inr (decide (cooled d) out, s)
      else (let ttl = tdiv (dp_ban p) second;
                params = el_ban_params E (sv_source e) ttl (policy_admin_ip E (dp_allowlist p)) ''WitShield SSH brute-force policy'';
                preview = jx_map (el_jx E) [(''summary'', DStr ''SSH brute-force policy authorized a temporary IP ban''),
                  (''sourceIp'', DStr (sv_source e)), (''ttlSeconds'', DInt ttl), (''triggerCount'', DInt failures)]
            in bindE (insert_policy_ban
                   (policy_action (xi_action I) (sv_device e) TypeTemporaryIPBan params preview bruteforce_actor now)
                   (policy_command E I (sv_device e) TypeTemporaryIPBan params now) (event_ban I e d now) bruteforce_actor (gd_store s)) (\<lambda>st.
               announce E I (ssh_notice (xi_ban I) e (ev_reason d) now) now
                 ((decide d out)\<lparr>xo_recorded := True, xo_action := xi_action I, xo_command := xi_command I, xo_ban := xi_ban I\<rparr>)
                 (put_store st s))))"

section \<open>Taking in an event\<close>

definition count_failure :: "event_lib \<Rightarrow> security_event \<Rightarrow> policy_config \<Rightarrow> instant \<Rightarrow> guard_db \<Rightarrow> store_error + int \<times> guard_db" where
  "count_failure E e p now s =
     (if sv_at e < now - dp_window p then Inr (0, s)
      else increment_window (el_jx E) (sv_device e) (sv_type e) (sv_source e) (dp_window p) (sv_at e) now s)"

definition judge_failure :: "event_lib \<Rightarrow> security_event \<Rightarrow> policy_config \<Rightarrow> int \<Rightarrow> instant \<Rightarrow> store \<Rightarrow> evaluation" where
  "judge_failure E e p failures now s =
     evaluate (el_net E) p (sv_source e) failures (int (count_recent_bans (sv_device e) (now - hour) s))
       (cnt_where (ban_live (sv_device e) (sv_source e) now) (st_bans s) > 0) now"

definition promote_failure :: "event_lib \<Rightarrow> event_ids \<Rightarrow> security_event \<Rightarrow> policy_config \<Rightarrow> int \<Rightarrow> instant \<Rightarrow> guard_db \<Rightarrow> store_error + guard_db" where
  "promote_failure E I e p failures now s =
     (let (g, key) = signal_from_event (el_meta E) now e;
          g' = g\<lparr>sg_payload := el_extend E (sg_payload g) [(''failureCount'', DInt failures),
                 (''windowSeconds'', DInt (tdiv (dp_window p) second)), (''sourceIP'', DStr (sv_source e))]\<rparr>
      in bindE (upsert_in E (xi_incident I) g' key s)
           (attach_recent_success E (xi_evidence I) (sv_device e) (sv_source e) key (now - dp_window p) now))"

definition process_failure :: "event_lib \<Rightarrow> event_ids \<Rightarrow> security_event \<Rightarrow> bool \<Rightarrow> event_outcome \<Rightarrow> instant \<Rightarrow> guard_db \<Rightarrow>
    store_error + event_outcome \<times> guard_db" where
  "process_failure E I e observer out now s =
     bindE (policy_tx (el_jx E) (sv_device e) (gd_store s)) (\<lambda>p.
     bindE (count_failure E e p now s) (\<lambda>(failures, s1).
       let d0 = judge_failure E e p failures now (gd_store s1)
       in if \<not> ev_matched d0 \<or> ev_expires d0 = None then Inr (decide d0 out, s1)
          else bindE (promote_failure E I e p failures now s1) (\<lambda>s2.
               let d = adjust_decision E observer (sv_source e) d0
               in if ev_simulated d then record_simulation E I e d out now s2
                  else if \<not> ev_ban d then Inr (decide d out, s2)
                  else queue_ban E I e p failures d out now s2)))"

definition process_success :: "event_lib \<Rightarrow> event_ids \<Rightarrow> security_event \<Rightarrow> bool \<Rightarrow> event_outcome \<Rightarrow> instant \<Rightarrow> guard_db \<Rightarrow>
    store_error + event_outcome \<times> guard_db" where
  "process_success E I e addressed out now s =
     (let (g, key) = signal_from_event (el_meta E) now e
      in if addressed \<and>
            cnt_where (\<lambda>i. in_device i = sv_device e \<and> in_key i = key \<and> incident_active i) (st_incidents (gd_store s)) > 0
         then bindE (upsert_in E (xi_incident I) g key s) (\<lambda>s1. Inr (out, s1))
         else Inr (out, s))"

definition process_other :: "event_lib \<Rightarrow> event_ids \<Rightarrow> security_event \<Rightarrow> bool \<Rightarrow> event_outcome \<Rightarrow> instant \<Rightarrow> guard_db \<Rightarrow>
    store_error + event_outcome \<times> guard_db" where
  "process_other E I e observer out now s =
     (let (g, key) = signal_from_event (el_meta E) now e
      in bindE (upsert_in E (xi_incident I) g key s) (\<lambda>s1.
         if sv_type e = ''suspicious_privileged_process_started'' \<and> \<not> observer then queue_containment E I e out now s1
         else Inr (out, s1)))"

text \<open>\<open>ProcessSecurityEvent\<close>: one transaction; an event already stored is only acknowledged.\<close>

definition process_event :: "event_lib \<Rightarrow> event_ids \<Rightarrow> security_event \<Rightarrow> bool \<Rightarrow> instant \<Rightarrow> guard_db \<Rightarrow>
    store_error + event_outcome \<times> guard_db" where
  "process_event E I e0 observer now s =
     (let e = canonical_event E e0
      in if (sv_device e, sv_id e) \<in> (\<lambda>x. (sv_device x, sv_id x)) ` set (gd_events s) then Inr (no_outcome, s)
         else if sv_device e \<notin> dv_id ` set (st_devices (gd_store s)) then Inl ErrConstraint
         else (let out = no_outcome\<lparr>xo_inserted := True\<rparr>;
                   s1 = prune_events (sv_device e) (s\<lparr>gd_events := gd_events s @ [e]\<rparr>)
               in if sv_type e = ''ssh_auth_success'' then process_success E I e (source_address E e0 \<noteq> None) out now s1
                  else if sv_type e \<noteq> ''ssh_auth_failure'' \<or> source_address E e0 = None then process_other E I e observer out now s1
                  else process_failure E I e observer out now s1))"

text \<open>
  Capability grants (\<open>internal/store/security_engineer.go\<close>): which deterministic actions the
  Controller may authorize for a device without an administrator, and the answer they allow.
\<close>

section \<open>Capabilities\<close>

text \<open>A grant as the API hands it in; its mode is still a text.\<close>

record policy_grant =
  gr_device :: string
  gr_capability :: string
  gr_enabled :: bool
  gr_mode :: string
  gr_allowed :: "string list"
  gr_max :: int
  gr_stop :: bool
  gr_updated :: instant

definition allowedPolicyActions :: "(string \<times> string list) list" where
  "allowedPolicyActions =
    [(''network.auth_bruteforce'', [''temporary_ip_ban'']),
     (''identity.persistence'', [''ssh_password_hardening'']),
     (''workload.runtime'', [''temporary_process_suspend'']),
     (''file.integrity'', [''file_permission_repair'']),
     (''vulnerability.remediation'', [''package_security_upgrade''])]"

definition supportedPolicyCapabilities :: "string list" where
  "supportedPolicyCapabilities = [''network.auth_bruteforce'', ''identity.persistence'', ''workload.runtime'', ''file.integrity'',
     ''vulnerability.remediation'']"

definition autonomy_modes :: "(string \<times> autonomy_mode) list" where
  "autonomy_modes = [(''observe'', AutonomyObserve), (''assist'', AutonomyAssist), (''auto_low_risk'', AutonomyAutoLowRisk),
     (''enhanced'', AutonomyEnhanced)]"

fun mode_text :: "autonomy_mode \<Rightarrow> string" where
  "mode_text AutonomyObserve = ''observe''"
| "mode_text AutonomyAssist = ''assist''"
| "mode_text AutonomyAutoLowRisk = ''auto_low_risk''"
| "mode_text AutonomyEnhanced = ''enhanced''"

text \<open>The loop over the action types, with the set of those seen so far.\<close>

fun check_types :: "string list \<Rightarrow> string list \<Rightarrow> string list \<Rightarrow> string option" where
  "check_types allowed seen [] = None"
| "check_types allowed seen (t # ts) =
     (if t \<notin> set allowed then Some ''unsupported action type for policy capability''
      else if t \<in> set seen then Some ''duplicate action type in policy capability''
      else check_types allowed (t # seen) ts)"

definition grant_error :: "policy_grant \<Rightarrow> string option" where
  "grant_error g =
     (if gr_device g = [] \<or> gr_capability g = [] \<or> length (gr_capability g) > 128 \<or> gr_max g < 1 \<or> gr_max g > 1000
      then Some ''policy grant is invalid''
      else if gr_capability g \<notin> set supportedPolicyCapabilities then Some ''unsupported policy capability''
      else if map_of autonomy_modes (gr_mode g) = None then Some ''unsupported autonomy mode''
      else if length (gr_allowed g) > 32 then Some ''too many allowed action types''
      else check_types (case map_of allowedPolicyActions (gr_capability g) of None \<Rightarrow> [] | Some ts \<Rightarrow> ts) [] (gr_allowed g))"

section \<open>Storing and listing\<close>

definition is_grant_of :: "string \<Rightarrow> string \<Rightarrow> grant_row \<Rightarrow> bool" where
  "is_grant_of dev cap r \<longleftrightarrow> pg_device r = dev \<and> pg_capability r = cap"

text \<open>\<open>enc\<close> is \<open>json.Marshal\<close> on the list of action types.\<close>

definition grant_row_of :: "(string list \<Rightarrow> bytes) \<Rightarrow> policy_grant \<Rightarrow> grant_row" where
  "grant_row_of enc g = \<lparr>pg_device = gr_device g, pg_capability = gr_capability g, pg_enabled = gr_enabled g,
     pg_mode = (case map_of autonomy_modes (gr_mode g) of None \<Rightarrow> AutonomyObserve | Some m \<Rightarrow> m), pg_allowed = enc (gr_allowed g),
     pg_max = gr_max g, pg_stop = gr_stop g, pg_updated = gr_updated g\<rparr>"

definition put_policy_grant :: "(string list \<Rightarrow> bytes) \<Rightarrow> policy_grant \<Rightarrow> store \<Rightarrow> store_error + store" where
  "put_policy_grant enc g s =
     (case grant_error g of
        Some e \<Rightarrow> Inl (ErrOther e)
      | None \<Rightarrow>
         (if gr_device g \<notin> dv_id ` set (st_devices s) then Inl ErrConstraint
          else let r = grant_row_of enc g; p = is_grant_of (gr_device g) (gr_capability g)
               in Inr (s\<lparr>st_grants := (if list_ex p (st_grants s) then upd_where p (\<lambda>_. r) (st_grants s) else st_grants s @ [r])\<rparr>)))"

definition grant_of_row :: "store_lib \<Rightarrow> grant_row \<Rightarrow> store_error + policy_grant" where
  "grant_of_row J r =
     (case jx_allowed J (pg_allowed r) of
        None \<Rightarrow> Inl (ErrOther ''invalid allowed action types'')
      | Some ts \<Rightarrow> Inr \<lparr>gr_device = pg_device r, gr_capability = pg_capability r, gr_enabled = pg_enabled r,
          gr_mode = mode_text (pg_mode r), gr_allowed = ts, gr_max = pg_max r, gr_stop = pg_stop r, gr_updated = pg_updated r\<rparr>)"

definition default_grant :: "string \<Rightarrow> instant \<Rightarrow> string \<times> string \<times> int \<Rightarrow> policy_grant" where
  "default_grant dev now x = \<lparr>gr_device = dev, gr_capability = fst x, gr_enabled = False, gr_mode = ''observe'',
     gr_allowed = [fst (snd x)], gr_max = snd (snd x), gr_stop = False, gr_updated = now\<rparr>"

definition defaultPolicyGrants :: "string \<Rightarrow> instant \<Rightarrow> policy_grant list" where
  "defaultPolicyGrants dev now = map (default_grant dev now)
     [(''network.auth_bruteforce'', ''temporary_ip_ban'', 10), (''identity.persistence'', ''ssh_password_hardening'', 5),
      (''workload.runtime'', ''temporary_process_suspend'', 5), (''file.integrity'', ''file_permission_repair'', 5),
      (''vulnerability.remediation'', ''package_security_upgrade'', 2)]"

text \<open>The map by capability: a later row of the query overwrites an earlier one.\<close>

definition by_capability :: "policy_grant list \<Rightarrow> string \<Rightarrow> policy_grant option" where
  "by_capability gs cap = find (\<lambda>g. gr_capability g = cap) (rev gs)"

definition list_policy_grants :: "store_lib \<Rightarrow> string \<Rightarrow> instant \<Rightarrow> store \<Rightarrow> store_error + policy_grant list" where
  "list_policy_grants J dev now s =
     bindE (all_right (map (grant_of_row J) (filter (\<lambda>r. pg_device r = dev) (st_grants s)))) (\<lambda>gs.
       Inr (map (\<lambda>d. case by_capability gs (gr_capability d) of None \<Rightarrow> d | Some g \<Rightarrow> g) (defaultPolicyGrants dev now)))"

end
