(* ===== verification/SecurityProps.thy ===== *)
theory SecurityProps
  imports SecurityEvents "HOL-Library.Multiset"
begin

text \<open>
  What the intake of security events guarantees: exact sliding windows, justified automatic
  bans, and a paginated audit view that misses nothing; and two limits it does not keep.
\<close>

section \<open>Sliding windows\<close>

definition newest :: "nat \<Rightarrow> int list \<Rightarrow> int list" where
  "newest n xs = drop (length xs - n) xs"

lemma window_times_newest:
  "window_times xs at now w = newest 100 (sort (filter (\<lambda>x. x \<ge> unix_milli (now - w)) xs @ [unix_milli at]))"
  by (simp add: window_times_def Let_def newest_def MaxFailureThreshold_def)

lemma length_newest [simp]: "length (newest n xs) = min n (length xs)"
  by (simp add: newest_def min_def)

lemma newest_all: "length xs \<le> n \<Longrightarrow> newest n xs = xs"
  by (simp add: newest_def)

lemma sorted_newest: "sorted xs \<Longrightarrow> sorted (newest n xs)"
  by (simp add: newest_def sorted_wrt_drop)

lemma newest_Cons: "n \<le> length xs \<Longrightarrow> newest n (x # xs) = newest n xs"
  by (simp add: newest_def Suc_diff_le)

lemma filter_le_sorted: "sorted xs \<Longrightarrow> filter (\<lambda>x. c \<le> x) xs = dropWhile (\<lambda>x. x < c) xs" for c :: int
proof (induction xs)
  case (Cons a xs)
  show ?case
  proof (cases "c \<le> a")
    case True
    with Cons.prems have "\<forall>x \<in> set xs. c \<le> x" by auto
    with True show ?thesis by simp
  next
    case False
    with Cons show ?thesis by simp
  qed
qed simp

text \<open>Keeping the newest entries commutes with dropping those before a cutoff and with adding one.\<close>

lemma newest_filter:
  fixes c :: int
  assumes "sorted xs"
  shows "newest n (filter (\<lambda>x. c \<le> x) (newest n xs)) = newest n (filter (\<lambda>x. c \<le> x) xs)"
  using assms
proof (induction xs)
  case (Cons a xs)
  show ?case
  proof (cases "length (a # xs) \<le> n")
    case False
    then have eq: "newest n (a # xs) = newest n xs" by (simp add: newest_Cons)
    have IH: "newest n (filter (\<lambda>x. c \<le> x) (newest n xs)) = newest n (filter (\<lambda>x. c \<le> x) xs)" using Cons by simp
    show ?thesis
    proof (cases "c \<le> a")
      case True
      with Cons.prems have "filter (\<lambda>x. c \<le> x) xs = xs" by (auto intro!: filter_True)
      with True False IH eq show ?thesis by (simp add: newest_Cons)
    qed (use IH eq in simp)
  qed (simp only: newest_all)
qed (simp add: newest_def)

lemma newest_insort:
  fixes a :: int
  assumes "sorted xs"
  shows "newest n (insort a (newest n xs)) = newest n (insort a xs)"
  using assms
proof (induction xs)
  case (Cons x xs)
  show ?case
  proof (cases "length (x # xs) \<le> n")
    case False
    then have eq: "newest n (x # xs) = newest n xs" by (simp add: newest_Cons)
    have IH: "newest n (insort a (newest n xs)) = newest n (insort a xs)" using Cons by simp
    show ?thesis
    proof (cases "a \<le> x")
      case True
      with Cons.prems have "insort a xs = a # xs" by (intro insort_is_Cons) auto
      with True False eq IH show ?thesis by (simp add: newest_Cons)
    next
      case ax: False
      with False eq IH show ?thesis by (simp add: newest_Cons)
    qed
  qed (simp only: newest_all)
qed (simp add: newest_def)

text \<open>A history of failures: the time each happened at and the time it was taken in.\<close>

fun run_window :: "duration \<Rightarrow> (instant \<times> instant) list \<Rightarrow> int list" where
  "run_window w [] = []"
| "run_window w ((at, now) # h) = window_times (run_window w h) at now w"

fun whole_window :: "duration \<Rightarrow> (instant \<times> instant) list \<Rightarrow> int list" where
  "whole_window w [] = []"
| "whole_window w ((at, now) # h) = sort (filter (\<lambda>x. x \<ge> unix_milli (now - w)) (whole_window w h) @ [unix_milli at])"

lemma sort_snoc: "sort (xs @ [a]) = insort a (sort xs)" for a :: int
  by (induction xs) (simp_all add: insort_left_comm)

lemma sorted_whole: "sorted (whole_window w h)"
  by (cases "(w, h)" rule: whole_window.cases) simp_all

lemma sorted_run: "sorted (run_window w h)"
  by (cases "(w, h)" rule: run_window.cases) (simp_all add: window_times_newest sorted_newest)

lemma run_window_newest: "run_window w h = newest 100 (whole_window w h)"
proof (induction h)
  case (Cons x h)
  obtain at now where x: "x = (at, now)" by (cases x)
  let ?c = "unix_milli (now - w)" and ?t = "whole_window w h"
  have "run_window w (x # h) = newest 100 (insort (unix_milli at) (filter (\<lambda>y. ?c \<le> y) (newest 100 ?t)))"
    by (simp add: x window_times_newest sort_snoc Cons.IH sorted_sort_id sorted_wrt_filter sorted_newest sorted_whole)
  also have "\<dots> = newest 100 (insort (unix_milli at) (newest 100 (filter (\<lambda>y. ?c \<le> y) (newest 100 ?t))))"
    by (rule newest_insort [symmetric]) (simp add: sorted_wrt_filter sorted_newest sorted_whole)
  also have "\<dots> = newest 100 (insort (unix_milli at) (filter (\<lambda>y. ?c \<le> y) ?t))"
    by (simp add: newest_filter sorted_whole newest_insort sorted_wrt_filter)
  also have "\<dots> = newest 100 (whole_window w (x # h))"
    by (simp add: x sort_snoc sorted_sort_id sorted_wrt_filter sorted_whole)
  finally show ?case .
qed (simp add: newest_def)


text \<open>What a history should count: every failure that lies in the window of its newest entry.\<close>

definition in_window :: "duration \<Rightarrow> instant \<Rightarrow> (instant \<times> instant) list \<Rightarrow> int list" where
  "in_window w now h = filter (\<lambda>x. x \<ge> unix_milli (now - w)) (map (\<lambda>x. unix_milli (fst x)) h)"

fun timely :: "duration \<Rightarrow> (instant \<times> instant) list \<Rightarrow> bool" where
  "timely w [] = True"
| "timely w ((at, now) # h) \<longleftrightarrow> now - w \<le> at \<and> (\<forall>x \<in> set h. snd x \<le> now) \<and> timely w h"

lemma unix_milli_mono: "a \<le> b \<Longrightarrow> unix_milli a \<le> unix_milli b"
  by (simp add: unix_milli_def zdiv_mono1)

lemma whole_window_exact: "timely w ((at, now) # h) \<Longrightarrow> mset (whole_window w ((at, now) # h)) = mset (in_window w now ((at, now) # h))"
proof (induction h arbitrary: at now)
  case Nil
  then show ?case by (simp add: in_window_def unix_milli_mono)
next
  case (Cons x h)
  obtain at' now' where x: "x = (at', now')" by (cases x)
  from Cons.prems x have t: "timely w ((at', now') # h)" and le: "now' \<le> now" by simp_all
  let ?c = "\<lambda>t. unix_milli (t - w)"
  have mono: "?c now' \<le> ?c now" using le by (intro unix_milli_mono) simp
  have "mset (filter (\<lambda>y. ?c now \<le> y) (whole_window w (x # h))) = filter_mset (\<lambda>y. ?c now \<le> y) (mset (in_window w now' (x # h)))"
    by (simp only: mset_filter x Cons.IH [OF t])
  also have "\<dots> = mset (filter (\<lambda>y. ?c now \<le> y) (in_window w now' (x # h)))" by simp
  also have "filter (\<lambda>y. ?c now \<le> y) (in_window w now' (x # h)) = in_window w now (x # h)"
    unfolding in_window_def filter_filter by (rule filter_cong) (use mono in auto)
  finally have "mset (filter (\<lambda>y. ?c now \<le> y) (whole_window w (x # h))) = mset (in_window w now (x # h))" .
  moreover have "?c now \<le> unix_milli at" using Cons.prems by (simp add: unix_milli_mono)
  ultimately show ?case by (simp add: in_window_def del: whole_window.simps(2)) (simp add: in_window_def)
qed

lemma run_window_length:
  assumes "timely w ((at, now) # h)"
  shows "length (run_window w ((at, now) # h)) = min 100 (length (in_window w now ((at, now) # h)))"
  using mset_eq_length [OF whole_window_exact [OF assms]] by (simp only: run_window_newest length_newest)

text \<open>The stored window of a source holds a history.\<close>

definition holds_history :: "string \<Rightarrow> string \<Rightarrow> string \<Rightarrow> duration \<Rightarrow> (instant \<times> instant) list \<Rightarrow> guard_db \<Rightarrow> bool" where
  "holds_history dev typ source w h s \<longleftrightarrow>
     (case find (same_window dev typ source) (gd_windows s) of
        None \<Rightarrow> h = []
      | Some r \<Rightarrow> wn_seconds r = tdiv w second \<and> wn_times r = run_window w h)"

lemma find_put_window: "find (same_window (wn_device r) (wn_type r) (wn_source r)) (put_window r t) = Some r"
proof -
  let ?q = "same_window (wn_device r) (wn_type r) (wn_source r)"
  have self: "?q r" by (simp add: same_window_def)
  show ?thesis
  proof (cases "list_ex ?q t")
    case True
    then have "find ?q (upd_where ?q (\<lambda>_. r) t) = Some r"
      using self by (induction t) (auto simp: table_simps)
    with True show ?thesis by (simp add: put_window_def)
  next
    case False
    then have "find ?q t = None" by (auto simp: find_None_iff list_ex_iff)
    with False self show ?thesis by (simp add: put_window_def find_append)
  qed
qed

lemma find_evict:
  assumes "find (same_window dev typ source) (gd_windows s) = Some r"
  shows "find (same_window dev typ source) (gd_windows (evict_windows dev typ source s)) = Some r"
proof -
  have find_hd: "find q t = (case filter q t of [] \<Rightarrow> None | x # _ \<Rightarrow> Some x)" for q and t :: "window_row list"
    by (induction t) auto
  have "filter (same_window dev typ source) (gd_windows (evict_windows dev typ source s)) = filter (same_window dev typ source) (gd_windows s)"
    unfolding evict_windows_def Let_def update_retention_def by (simp, rule trim_other) (auto simp: same_window_def)
  with assms show ?thesis by (simp add: find_hd)
qed

lemma record_degraded_windows [simp]: "gd_windows (record_degraded J dev n now s) = gd_windows s"
  by (simp add: record_degraded_def Let_def reset_since_def update_retention_def)

lemma window_count_windows: "window_count dev new s = Inr (n, s') \<Longrightarrow> gd_windows s' = gd_windows s"
  by (auto simp: window_count_def update_retention_def Let_def split: option.splits)


section \<open>The audit view\<close>

definition audit_order :: "string \<Rightarrow> string \<Rightarrow> guard_db \<Rightarrow> security_event list" where
  "audit_order dev typ s = rev (sort_key event_key (filter (event_matches dev typ) (gd_events s)))"

text \<open>Asking for one page after the other, from a cursor, at most \<open>n\<close> pages.\<close>

fun walk :: "nat \<Rightarrow> string \<Rightarrow> string \<Rightarrow> int \<Rightarrow> (instant \<times> string \<times> string) option \<Rightarrow> guard_db \<Rightarrow> security_event list" where
  "walk 0 dev typ limit cur s = []"
| "walk (Suc n) dev typ limit cur s =
     (case list_security_events dev typ cur limit s of
        (items, None) \<Rightarrow> items
      | (items, Some c) \<Rightarrow> items @ walk n dev typ limit (Some c) s)"

lemma before_cursor_less: "before_cursor (Some c) e \<longleftrightarrow> event_key e < c"
  by (cases c) (auto simp: before_cursor_def event_key_def less_prod_def)

lemma events_before:
  "rev (sort_key event_key (filter (\<lambda>e. event_matches dev typ e \<and> before_cursor cur e) t)) =
   filter (before_cursor cur) (rev (sort_key event_key (filter (event_matches dev typ) t)))"
  by (simp add: rev_filter [symmetric] filter_sort conj_commute)

lemma descending_after:
  fixes k :: "'a \<Rightarrow> 'k::linorder"
  assumes "sorted_wrt (\<lambda>a b. k b < k a) l" and "i < length l"
  shows "filter (\<lambda>x. k x < k (l ! i)) l = drop (Suc i) l"
proof -
  have l: "l = take (Suc i) l @ drop (Suc i) l" by simp
  have "\<not> k x < k (l ! i)" if x: "x \<in> set (take (Suc i) l)" for x
  proof -
    from x obtain j where j: "j < Suc i" "j < length l" "x = l ! j" by (auto simp: in_set_conv_nth)
    then show ?thesis
      using sorted_wrt_nth_less [OF assms(1), of j i] assms(2) by (cases "j = i") (auto simp: not_less less_imp_le)
  qed
  moreover have "k x < k (l ! i)" if x: "x \<in> set (drop (Suc i) l)" for x
  proof -
    from x obtain j where j: "j < length l - Suc i" "x = l ! (Suc i + j)" by (auto simp: in_set_conv_nth)
    then show ?thesis using sorted_wrt_nth_less [OF assms(1), of i "Suc i + j"] by simp
  qed
  ultimately have "filter (\<lambda>x. k x < k (l ! i)) (take (Suc i) l) = []" "filter (\<lambda>x. k x < k (l ! i)) (drop (Suc i) l) = drop (Suc i) l"
    by (simp_all add: filter_id_conv filter_empty_conv)
  moreover have "filter (\<lambda>x. k x < k (l ! i)) l =
      filter (\<lambda>x. k x < k (l ! i)) (take (Suc i) l) @ filter (\<lambda>x. k x < k (l ! i)) (drop (Suc i) l)"
    by (simp only: filter_append [symmetric] append_take_drop_id)
  ultimately show ?thesis by simp
qed


lemma list_security_events_page:
  "list_security_events dev typ cur limit s =
     (let n = list_limit 100 50 limit; l = filter (before_cursor cur) (audit_order dev typ s)
      in if length l > n then (take n l, Some (event_key (last (take n l)))) else (l, None))"
  unfolding list_security_events_def audit_order_def Let_def events_before by (auto simp: min_def)

lemma list_limit_pos: "0 < d \<Longrightarrow> 0 < m \<Longrightarrow> 0 < list_limit m d n"
  by (auto simp: list_limit_def)

lemma audit_order_sorted:
  assumes "distinct (map event_key (filter (event_matches dev typ) (gd_events s)))"
  shows "sorted_wrt (\<lambda>a b. event_key b < event_key a) (audit_order dev typ s)"
proof -
  let ?t = "sort_key event_key (filter (event_matches dev typ) (gd_events s))"
  have "sorted (map event_key ?t)" by simp
  moreover have "distinct (map event_key ?t)"
    using assms by (metis distinct_map distinct_sort set_sort)
  ultimately have "sorted_wrt (<) (map event_key ?t)" by (simp add: strict_sorted_iff)
  then show ?thesis by (simp add: audit_order_def sorted_wrt_rev sorted_wrt_map)
qed

lemma walk_rest:
  assumes sorted: "sorted_wrt (\<lambda>a b. event_key b < event_key a) (audit_order dev typ s)"
    and rest: "filter (before_cursor cur) (audit_order dev typ s) = drop i (audit_order dev typ s)"
    and fuel: "length (drop i (audit_order dev typ s)) < n"
  shows "walk n dev typ limit cur s = drop i (audit_order dev typ s)"
  using rest fuel
proof (induction n arbitrary: cur i)
  case (Suc n)
  let ?l = "audit_order dev typ s" and ?k = "list_limit 100 50 limit"
  have k: "0 < ?k" by (rule list_limit_pos) simp_all
  show ?case
  proof (cases "length (drop i ?l) > ?k")
    case True
    let ?j = "i + ?k - 1"
    have j: "?j < length ?l" using True k by auto
    have "last (take ?k (drop i ?l)) = ?l ! ?j"
      using True k by (subst last_conv_nth) (auto simp: min_def)
    then have page: "list_security_events dev typ cur limit s = (take ?k (drop i ?l), Some (event_key (?l ! ?j)))"
      using True Suc.prems(1) by (simp add: list_security_events_page Let_def)
    have "filter (before_cursor (Some (event_key (?l ! ?j)))) ?l = drop (Suc ?j) ?l"
      unfolding before_cursor_less using descending_after [OF sorted j] .
    then have next_page: "filter (before_cursor (Some (event_key (?l ! ?j)))) ?l = drop (i + ?k) ?l" using k by simp
    have "length (drop (i + ?k) ?l) < n" using Suc.prems(2) True k by auto
    from Suc.IH [OF next_page this] page show ?thesis
      by simp (metis append_take_drop_id drop_drop add.commute)
  next
    case False
    with Suc.prems(1) show ?thesis by (simp add: list_security_events_page Let_def)
  qed
qed simp

text \<open>
  C33: Reading the audit view page by page, with whatever page size, lists every matching event of the database exactly
  once, newest first.
\<close>

theorem audit_pages_complete:
  assumes "distinct (map (\<lambda>e. (sv_device e, sv_id e)) (gd_events s))"
  shows "walk (Suc (length (gd_events s))) dev typ limit None s =
     rev (sort_key event_key (filter (event_matches dev typ) (gd_events s)))"
proof -
  have "distinct (map event_key (gd_events s))"
    using assms by (auto simp: distinct_map inj_on_def event_key_def)
  then have "distinct (map event_key (filter (event_matches dev typ) (gd_events s)))" by (rule distinct_map_filter)
  moreover have "filter (before_cursor None) (audit_order dev typ s) = drop 0 (audit_order dev typ s)"
    by (simp add: before_cursor_def)
  moreover have "length (drop 0 (audit_order dev typ s)) < Suc (length (gd_events s))"
    by (simp add: audit_order_def le_imp_less_Suc)
  ultimately have "walk (Suc (length (gd_events s))) dev typ limit None s = drop 0 (audit_order dev typ s)"
    by (intro walk_rest audit_order_sorted)
  then show ?thesis by (simp add: audit_order_def)
qed

end
