(* ===== verification/DefenseProps.thy ===== *)
theory DefenseProps
  imports SecurityProps StoreDemo
begin

text \<open>
  Automatic answers to security events, the incidents signals form, and the places where the
  bounded tables do not hold what their limits promise.
\<close>

section \<open>Automatic bans\<close>

lemma announce_effect:
  assumes "announce E I n now out s = Inr (out', s')"
  shows "xo_command out' = xo_command out \<and> xo_action out' = xo_action out \<and> xo_ban out' = xo_ban out \<and>
    st_bans (gd_store s') = st_bans (gd_store s) \<and> st_actions (gd_store s') = st_actions (gd_store s) \<and>
    st_commands (gd_store s') = st_commands (gd_store s)"
  using assms by (auto simp: announce_def put_store_def enqueue_notification_def bindE_Inr_iff Let_def split: if_splits option.splits prod.splits)

lemma adjusted_ban:
  assumes "ev_ban (adjust_decision E observer source d)"
  shows "ev_ban d \<and> \<not> observer \<and> (\<exists>a. validate_ban_target (el_ban E) source = Inr a) \<and> adjust_decision E observer source d = d"
  using assms by (auto simp: adjust_decision_def simulate_because_def Let_def split: if_splits sum.splits)

lemma record_simulation_silent:
  "record_simulation E I e d out now s = Inr (out', s') \<Longrightarrow> xo_command out = [] \<Longrightarrow> xo_command out' = []"
  by (auto simp: record_simulation_def decide_def Let_def bindE_Inr_iff split: if_splits dest!: announce_effect)

text \<open>What a queued ban leaves in the database.\<close>

definition ban_queued :: "event_lib \<Rightarrow> event_ids \<Rightarrow> security_event \<Rightarrow> policy_config \<Rightarrow> instant \<Rightarrow> store \<Rightarrow> bool" where
  "ban_queued E I e p now s \<longleftrightarrow>
     (\<exists>b \<in> set (st_bans s). bn_id b = xi_ban I \<and> bn_device b = sv_device e \<and> bn_source b = sv_source e \<and> bn_action b = xi_action I \<and>
        \<not> bn_simulated b \<and> bn_status b = ''pending'' \<and> bn_expires b = now + dp_ban p) \<and>
     (\<exists>a \<in> set (st_actions s). ac_id a = xi_action I \<and> ac_device a = sv_device e \<and> ac_type a = TypeTemporaryIPBan \<and>
        ac_status a = Approved \<and> ac_approved_by a = bruteforce_actor) \<and>
     (\<exists>c \<in> set (st_commands s). cm_id c = xi_command I \<and> cm_device c = sv_device e \<and> cm_type c = CommandExecuteAction)"

lemma insert_policy_ban_effect:
  assumes "insert_policy_ban x c b actor s = Inr s'"
  shows "b\<lparr>bn_action := ac_id x, bn_simulated := False, bn_status := ''pending''\<rparr> \<in> set (st_bans s') \<and>
    (\<exists>a \<in> set (st_actions s'). ac_id a = ac_id x \<and> ac_device a = ac_device x \<and> ac_type a = ac_type x \<and> ac_status a = Approved \<and>
       ac_approved_by a = actor) \<and>
    (\<exists>k \<in> set (st_commands s'). cm_id k = nc_id c \<and> cm_device k = nc_device c \<and> cm_type k = nc_type c)"
  using assms
  by (auto simp: insert_policy_ban_def insert_policy_action_def insert_ban_def insert_action_def insert_audit_def enqueue_row_def
      insert_command_def new_command_def bindE_Inr_iff Let_def split: if_splits)

lemma queue_ban_effect:
  assumes "queue_ban E I e p failures d out now s = Inr (out', s')" and "ev_expires d = Some (now + dp_ban p)"
    and "xo_command out = []" and "xo_command out' \<noteq> []"
  shows "ban_queued E I e p now (gd_store s') \<and> \<not> in_cooldown e p now (gd_store s) \<and> xo_command out' = xi_command I"
proof (cases "in_cooldown e p now (gd_store s)")
  case True
  with assms show ?thesis by (auto simp: queue_ban_def decide_def)
next
  case False
  define params where "params = el_ban_params E (sv_source e) (tdiv (dp_ban p) second) (policy_admin_ip E (dp_allowlist p))
    ''WitShield SSH brute-force policy''"
  from assms(1) False obtain x st o1 where st: "insert_policy_ban x (policy_command E I (sv_device e) TypeTemporaryIPBan params now)
        (event_ban I e d now) bruteforce_actor (gd_store s) = Inr st"
      "ac_id x = xi_action I" "ac_device x = sv_device e" "ac_type x = TypeTemporaryIPBan"
    and out: "announce E I (ssh_notice (xi_ban I) e (ev_reason d) now) now o1 (put_store st s) = Inr (out', s')"
      "xo_command o1 = xi_command I"
    by (auto simp: queue_ban_def Let_def bindE_Inr_iff params_def policy_action_def)
  have rows: "st_bans (gd_store s') = st_bans st" "st_actions (gd_store s') = st_actions st" "st_commands (gd_store s') = st_commands st"
    and cmd: "xo_command out' = xi_command I"
    using announce_effect [OF out(1)] out(2) by (simp_all add: put_store_def)
  let ?b = "(event_ban I e d now)\<lparr>bn_action := ac_id x, bn_simulated := False, bn_status := ''pending''\<rparr>"
  note ins = insert_policy_ban_effect [OF st(1)]
  have "?b \<in> set (st_bans st)" using ins by blast
  moreover have "bn_id ?b = xi_ban I" "bn_device ?b = sv_device e" "bn_source ?b = sv_source e" "bn_action ?b = xi_action I"
    "\<not> bn_simulated ?b" "bn_status ?b = ''pending''" "bn_expires ?b = now + dp_ban p"
    using assms(2) st(2) by (simp_all add: event_ban_def)
  moreover have "nc_id (policy_command E I (sv_device e) TypeTemporaryIPBan params now) = xi_command I"
    "nc_device (policy_command E I (sv_device e) TypeTemporaryIPBan params now) = sv_device e"
    "nc_type (policy_command E I (sv_device e) TypeTemporaryIPBan params now) = CommandExecuteAction"
    by (simp_all add: policy_command_def)
  ultimately have "ban_queued E I e p now (gd_store s')"
    using ins unfolding ban_queued_def rows st(2-4) by metis
  with False cmd show ?thesis by simp
qed

lemma judged_ban:
  assumes "ev_ban (evaluate N p source failures recent already now)"
  shows "\<exists>a. nl_ip N (trim_space source) = Some a \<and> \<not> allowlisted N a (dp_allowlist p) \<and> dp_enabled p \<and> \<not> dp_stop p \<and>
    dp_threshold p \<le> failures \<and> \<not> already \<and> recent < dp_max_bans p \<and> dp_auto_ban p \<and>
    ev_expires (evaluate N p source failures recent already now) = Some (now + dp_ban p)"
  using assms by (auto simp: evaluate_def no_evaluation_def split: option.splits if_splits)

lemma process_failure_ban:
  assumes "process_failure E I e observer out now s = Inr (out', s')" and "xo_command out = []" and "xo_command out' \<noteq> []"
  shows "\<exists>p failures s1 a b. policy_tx (el_jx E) (sv_device e) (gd_store s) = Inr p \<and> count_failure E e p now s = Inr (failures, s1) \<and>
    dp_enabled p \<and> \<not> dp_stop p \<and> dp_auto_ban p \<and> dp_threshold p \<le> failures \<and> \<not> observer \<and>
    validate_ban_target (el_ban E) (sv_source e) = Inr a \<and>
    nl_ip (el_net E) (trim_space (sv_source e)) = Some b \<and> \<not> allowlisted (el_net E) b (dp_allowlist p) \<and>
    int (count_recent_bans (sv_device e) (now - hour) (gd_store s1)) < dp_max_bans p \<and>
    cnt_where (ban_live (sv_device e) (sv_source e) now) (st_bans (gd_store s1)) = 0 \<and>
    ban_queued E I e p now (gd_store s')"
proof -
  from assms(1) obtain p failures s1 where p: "policy_tx (el_jx E) (sv_device e) (gd_store s) = Inr p"
    and f: "count_failure E e p now s = Inr (failures, s1)"
    and rest: "(let d0 = judge_failure E e p failures now (gd_store s1)
       in if \<not> ev_matched d0 \<or> ev_expires d0 = None then Inr (decide d0 out, s1)
          else bindE (promote_failure E I e p failures now s1) (\<lambda>s2.
               let d = adjust_decision E observer (sv_source e) d0
               in if ev_simulated d then record_simulation E I e d out now s2
                  else if \<not> ev_ban d then Inr (decide d out, s2)
                  else queue_ban E I e p failures d out now s2)) = Inr (out', s')"
    unfolding process_failure_def by (auto simp: bindE_Inr_iff)
  define d0 where "d0 = judge_failure E e p failures now (gd_store s1)"
  define d where "d = adjust_decision E observer (sv_source e) d0"
  have quiet: "xo_command (decide x out) = []" for x using assms(2) by (simp add: decide_def)
  from rest assms(3) obtain s2 where s2: "queue_ban E I e p failures d out now s2 = Inr (out', s')" and ban: "ev_ban d"
    using quiet record_simulation_silent [OF _ assms(2)]
    unfolding Let_def d0_def [symmetric] d_def [symmetric] by (auto simp: bindE_Inr_iff split: if_splits)
  note adj = adjusted_ban [OF ban [unfolded d_def]]
  with judged_ban [of "el_net E" p "sv_source e" failures] obtain b where
    b: "nl_ip (el_net E) (trim_space (sv_source e)) = Some b" "\<not> allowlisted (el_net E) b (dp_allowlist p)"
      "dp_enabled p" "\<not> dp_stop p" "dp_threshold p \<le> failures" "dp_auto_ban p" "ev_expires d = Some (now + dp_ban p)"
      "int (count_recent_bans (sv_device e) (now - hour) (gd_store s1)) < dp_max_bans p"
      "\<not> cnt_where (ban_live (sv_device e) (sv_source e) now) (st_bans (gd_store s1)) > 0"
    unfolding d_def d0_def judge_failure_def by metis
  from queue_ban_effect [OF s2 b(7) assms(2,3)] have "ban_queued E I e p now (gd_store s')" by blast
  with p f b adj show ?thesis by blast
qed

text \<open>
  C31: A failed login leads to a firewall command only where the device's policy is on, not stopped and set to act, the
  source is a public address outside the allowlist, its failures inside the window reach the threshold, the device acts
  at all, no ban is live and the hourly limit is not reached; and then the ban, its approved action and its command
  stand in the database together.
\<close>

theorem automatic_ban_justified:
  assumes "process_event E I e0 observer now s = Inr (out, s')" and "xo_command out \<noteq> []" and "sv_type e0 = ''ssh_auth_failure''"
    and "source_address E e0 \<noteq> None" and "e = canonical_event E e0"
    and "s1 = prune_events (sv_device e) (s\<lparr>gd_events := gd_events s @ [e]\<rparr>)"
  shows "\<exists>p failures s2 a b. policy_tx (el_jx E) (sv_device e) (gd_store s) = Inr p \<and> count_failure E e p now s1 = Inr (failures, s2) \<and>
    dp_enabled p \<and> \<not> dp_stop p \<and> dp_auto_ban p \<and> dp_threshold p \<le> failures \<and> \<not> observer \<and>
    validate_ban_target (el_ban E) (sv_source e) = Inr a \<and>
    nl_ip (el_net E) (trim_space (sv_source e)) = Some b \<and> \<not> allowlisted (el_net E) b (dp_allowlist p) \<and>
    int (count_recent_bans (sv_device e) (now - hour) (gd_store s2)) < dp_max_bans p \<and>
    cnt_where (ban_live (sv_device e) (sv_source e) now) (st_bans (gd_store s2)) = 0 \<and>
    ban_queued E I e p now (gd_store s')"
proof -
  have kind: "sv_type e = ''ssh_auth_failure''"
    using assms(3,5) by (auto simp: canonical_event_def Let_def split: option.splits)
  have same: "gd_store s1 = gd_store s"
    by (simp add: assms(6) prune_events_def count_event_def update_retention_def reset_since_def Let_def split: option.split)
  have "process_failure E I e observer (no_outcome\<lparr>xo_inserted := True\<rparr>) now s1 = Inr (out, s')"
    using assms(1,2,4) kind unfolding process_event_def Let_def assms(5,6) [symmetric]
    by (auto simp: no_outcome_def split: if_splits)
  from process_failure_ban [OF this _ assms(2)] show ?thesis by (simp add: no_outcome_def same)
qed

end
