(* ===== verification/SecurityDemo.thy ===== *)
theory SecurityDemo
  imports DefenseProps BanTargetProps
begin

text \<open>
  A concrete device under attack: the closed instances of the properties of the event intake.
\<close>

section \<open>A device with two recorded failures\<close>

definition demo_events :: event_lib where
  "demo_events = \<lparr>el_jx = demo_jx\<lparr>jx_allowed := (\<lambda>_. Some [''9.9.9.9''])\<rparr>, el_net = demo_net, el_ban = demo_ban_codec,
     el_meta = (\<lambda>_. \<lparr>em_path = [], em_address = [], em_port = 0, em_executable = [], em_name = []\<rparr>), el_evidence = (\<lambda>_. None),
     el_extend = (\<lambda>p _. p), el_ban_params = (\<lambda>_ _ _ _. ''{}''), el_suspend_params = (\<lambda>_ _ _ _ _. ''{}''),
     el_payload = (\<lambda>a _ _. a), el_addr_text = (\<lambda>_. ''9.9.9.9'')\<rparr>"

definition demo_ids :: event_ids where
  "demo_ids = \<lparr>xi_incident = ''inc1'', xi_evidence = ''inc2'', xi_ban = ''ban1'', xi_action = ''act1'', xi_command = ''cmd1'',
     xi_notice = (''n1'', ''n2'')\<rparr>"

definition demo_now :: instant where
  "demo_now = 1000 * second"

definition demo_failure :: security_event where
  "demo_failure = \<lparr>sv_id = ''e3'', sv_device = ''dev1'', sv_type = ''ssh_auth_failure'', sv_source = ''8.8.8.8'', sv_at = demo_now,
     sv_payload = ''{}''\<rparr>"

definition demo_window :: window_row where
  "demo_window = \<lparr>wn_device = ''dev1'', wn_type = ''ssh_auth_failure'', wn_source = ''8.8.8.8'', wn_seconds = 300,
     wn_started = 990 * second, wn_seen = 995 * second, wn_count = 2, wn_times = [990000, 995000], wn_ends = Some (1295 * second)\<rparr>"

definition demo_guard :: guard_db where
  "demo_guard = \<lparr>gd_cases = \<lparr>cd_store = demo_store\<lparr>st_policies := [StoreDemo.demo_policy\<lparr>po_threshold := 3\<rparr>]\<rparr>, cd_signals = [],
       cd_evidence = [], cd_investigations = []\<rparr>,
     gd_events = [], gd_windows = [demo_window], gd_retention = [\<lparr>rt_device = ''dev1'', rt_since = 0, rt_windows = 1\<rparr>]\<rparr>"



lemmas demo_guard_defs = demo_guard_def demo_window_def demo_failure_def demo_now_def demo_ids_def demo_events_def

definition demo_config :: policy_config where
  "demo_config = \<lparr>dp_enabled = True, dp_auto_ban = True, dp_stop = False, dp_threshold = 3, dp_window = 300 * second,
     dp_ban = 900 * second, dp_max_bans = 10, dp_allowlist = [''9.9.9.9'']\<rparr>"

lemma demo_tx: "policy_tx (el_jx demo_events) ''dev1'' (gd_store demo_guard) = Inr demo_config"
  by (simp add: policy_tx_def find_policy_def policy_of_row_def demo_guard_defs demo_config_def demo_store_defs seconds_def wrap64_def)

lemma demo_tdiv: "tdiv (300 * second) second = 300" "tdiv (900 * second) second = 900"
  by (simp_all add: tdiv_def)

definition demo_window3 :: window_row where
  "demo_window3 = window_of ''dev1'' ''ssh_auth_failure'' ''8.8.8.8'' 300 [990000, 995000, 1000000] demo_now (300 * second)"

lemma demo_times: "window_times [990000, 995000] demo_now demo_now (300 * second) = [990000, 995000, 1000000]"
  by (simp add: window_times_def demo_now_def unix_milli_def MaxFailureThreshold_def)

lemma demo_count:
  "increment_window J ''dev1'' ''ssh_auth_failure'' ''8.8.8.8'' (300 * second) demo_now demo_now
     (demo_guard\<lparr>gd_events := es, gd_retention := [\<lparr>rt_device = ''dev1'', rt_since = k, rt_windows = 1\<rparr>]\<rparr>) =
   Inr (3, demo_guard\<lparr>gd_events := es, gd_windows := [demo_window3], gd_retention := [\<lparr>rt_device = ''dev1'', rt_since = k, rt_windows = 1\<rparr>]\<rparr>)"
proof -
  have live: "\<not> window_expired ''dev1'' demo_now demo_window"
    by (simp add: window_expired_def demo_window_def demo_now_def)
  have same: "same_window ''dev1'' ''ssh_auth_failure'' ''8.8.8.8'' demo_window" by (simp add: same_window_def demo_window_def)
  have w3: "wn_device demo_window3 = ''dev1''" "wn_type demo_window3 = ''ssh_auth_failure''" "wn_source demo_window3 = ''8.8.8.8''"
    by (simp_all add: demo_window3_def window_of_def)
  let ?s = "demo_guard\<lparr>gd_events := es, gd_retention := [\<lparr>rt_device = ''dev1'', rt_since = k, rt_windows = 1\<rparr>]\<rparr>"
  have win: "gd_windows demo_guard = [demo_window]" by (simp add: demo_guard_def)
  have e: "expire_windows ''dev1'' demo_now ?s = ?s"
    using live by (simp add: expire_windows_def cnt_where_def del_where_def win Let_def)
  have d: "''dev1'' \<in> dv_id ` set (st_devices (gd_store demo_guard))" by (simp add: demo_guard_def demo_store_defs)
  have p: "put_window demo_window3 [demo_window] = [demo_window3]"
    using same by (simp add: put_window_def w3 upd_where_def)
  have s: "wn_seconds demo_window = 300" "wn_times demo_window = [990000, 995000]" by (simp_all add: demo_window_def)
  show ?thesis
    unfolding increment_window_def e Let_def
    by (simp add: win same s demo_times [simplified] demo_tdiv [simplified] d p [unfolded demo_window3_def, simplified] demo_window3_def window_count_def retention_of_def
        maxSecurityEventWindowsPerDevice_def update_retention_def upd_where_def)
qed

lemma demo_judged:
  "judge_failure demo_events demo_failure demo_config 3 demo_now (gd_store demo_guard) =
   \<lparr>ev_matched = True, ev_ban = True, ev_simulated = False, ev_reason = ''SSH authentication failure threshold reached'',
     ev_expires = Some (1900 * second)\<rparr>"
proof -
  have "trim_space ''8.8.8.8'' = ''8.8.8.8''" by code_simp
  then show ?thesis
    by (simp add: judge_failure_def evaluate_def allowlisted_def demo_guard_defs demo_config_def demo_net_def count_recent_bans_def
        cnt_where_def demo_store_defs)
qed

lemma demo_promoted:
  "\<exists>s'. promote_failure demo_events demo_ids demo_failure demo_config 3 demo_now (demo_guard\<lparr>gd_events := [demo_failure], gd_windows := w, gd_retention := r\<rparr>) = Inr s' \<and>
     st_bans (gd_store s') = [] \<and> st_actions (gd_store s') = [] \<and> st_commands (gd_store s') = [] \<and>
     st_devices (gd_store s') = [demo_device] \<and> st_outbox (gd_store s') = [] \<and> st_settings (gd_store s') = st_settings demo_store"
proof -
  have "trim_space ''8.8.8.8'' = ''8.8.8.8''" by code_simp
  then show ?thesis
  by (simp add: promote_failure_def signal_from_event_def event_class_def event_classes_def event_subject_def Let_def upsert_in_def
      upsert_signal_def signal_valid_def insert_signal_def trim_signals_def choose_incident_def active_incident_def
      active_count_def maxActiveIncidentsPerDevice_def capacity_key_def open_incident_def insert_incident_def opened_incident_def
      insert_timeline_def link_signal_def note_signal_def trim_timeline_def trim_closed_def cascade_def find_incident_def
      maxSignalsPerDevice_def maxTimelineEventsPerIncident_def maxIncidentsPerDevice_def trim_few cnt_where_def signal_key_def evidence_key_def
      correlation_unique_def incident_active_def del_where_def table_simps attach_recent_success_def latest_success_def
      demo_guard_defs demo_store_defs demo_config_def nonempty_json_def)
qed

definition demo_verdict :: evaluation where
  "demo_verdict = \<lparr>ev_matched = True, ev_ban = True, ev_simulated = False, ev_reason = ''SSH authentication failure threshold reached'',
     ev_expires = Some (1900 * second)\<rparr>"

lemma demo_announced:
  assumes "st_outbox (gd_store s) = []" and "st_settings (gd_store s) = st_settings demo_store"
  shows "\<exists>k s'. announce demo_events demo_ids (ssh_notice ''ban1'' e r now) now out s = Inr (out\<lparr>xo_queued := k, xo_notice := Some (ssh_notice ''ban1'' e r now)\<rparr>, s')"
proof -
  have "trim_space ''defense:ban1'' = ''defense:ban1''" by code_simp
  with assms show ?thesis
    by (auto simp: announce_def enqueue_notification_def ssh_notice_def defense_notice_def demo_events_def demo_jx_def demo_store_def
        Let_def case_prod_beta)
qed

lemma demo_inserted:
  assumes "st_bans s = []" and "st_actions s = []" and "st_commands s = []"
    and "st_devices s = [demo_device]" and "st_outbox s = []" and "st_settings s = st_settings demo_store"
  shows "\<exists>st. insert_policy_ban (policy_action ''act1'' ''dev1'' TypeTemporaryIPBan params preview bruteforce_actor demo_now)
       (policy_command demo_events demo_ids ''dev1'' TypeTemporaryIPBan params demo_now)
       (event_ban demo_ids demo_failure demo_verdict demo_now) bruteforce_actor s = Inr st \<and>
     st_outbox st = [] \<and> st_settings st = st_settings demo_store"
  using assms by (simp add: insert_policy_ban_def insert_policy_action_def expire_drafts_def ensure_capacity_def insert_action_def
      insert_audit_def audit_entry_def enqueue_row_def insert_command_def insert_ban_def policy_action_def policy_command_def event_ban_def
      demo_guard_defs demo_device_def new_command_def upd_where_def update_actions_def cnt_where_def Let_def guardE_def)

lemma demo_banned:
  assumes "st_bans (gd_store s) = []" and "st_actions (gd_store s) = []" and "st_commands (gd_store s) = []"
    and "st_devices (gd_store s) = [demo_device]" and "st_outbox (gd_store s) = []" and "st_settings (gd_store s) = st_settings demo_store"
  shows "\<exists>out' s'. queue_ban demo_events demo_ids demo_failure demo_config 3 demo_verdict out demo_now s = Inr (out', s') \<and> xo_command out' = ''cmd1''"
proof -
  have cool: "\<not> in_cooldown demo_failure demo_config demo_now (gd_store s)"
    by (simp add: in_cooldown_def assms(1) cnt_where_def)
  have ids: "xi_ban demo_ids = ''ban1''" "xi_action demo_ids = ''act1''" "xi_command demo_ids = ''cmd1''" "sv_device demo_failure = ''dev1''"
    by (simp_all add: demo_ids_def demo_failure_def)
  define params where "params = el_ban_params demo_events (sv_source demo_failure) (tdiv (dp_ban demo_config) second)
    (policy_admin_ip demo_events (dp_allowlist demo_config)) ''WitShield SSH brute-force policy''"
  define preview where "preview = jx_map (el_jx demo_events) [(''summary'', DStr ''SSH brute-force policy authorized a temporary IP ban''),
    (''sourceIp'', DStr (sv_source demo_failure)), (''ttlSeconds'', DInt (tdiv (dp_ban demo_config) second)), (''triggerCount'', DInt 3)]"
  from demo_inserted [OF assms, of params preview] obtain st where st: "insert_policy_ban
       (policy_action ''act1'' ''dev1'' TypeTemporaryIPBan params preview bruteforce_actor demo_now)
       (policy_command demo_events demo_ids ''dev1'' TypeTemporaryIPBan params demo_now)
       (event_ban demo_ids demo_failure demo_verdict demo_now) bruteforce_actor (gd_store s) = Inr st"
     "st_outbox (gd_store (put_store st s)) = []" "st_settings (gd_store (put_store st s)) = st_settings demo_store"
    by (auto simp: put_store_def)
  show ?thesis
    using cool st(1) demo_announced [OF st(2,3), of demo_failure "ev_reason demo_verdict" demo_now
        "(decide demo_verdict out)\<lparr>xo_recorded := True, xo_action := ''act1'', xo_command := ''cmd1'', xo_ban := ''ban1''\<rparr>"]
    unfolding queue_ban_def Let_def ids params_def [symmetric] preview_def [symmetric] by auto
qed

lemma demo_canonical: "canonical_event demo_events demo_failure = demo_failure" "source_address demo_events demo_failure \<noteq> None"
proof -
  have "trim_space ''8.8.8.8'' = ''8.8.8.8''" by code_simp
  then show "canonical_event demo_events demo_failure = demo_failure" "source_address demo_events demo_failure \<noteq> None"
    by (simp_all add: canonical_event_def source_address_def demo_guard_defs demo_ban_codec_def nonempty_json_def)
qed

lemma demo_adjusted: "adjust_decision demo_events False ''8.8.8.8'' demo_verdict = demo_verdict"
proof -
  have "validate_ban_target demo_ban_codec ''8.8.8.8'' = Inr (V4 0x08080808)" by (rule demo_public_target)
  then show ?thesis by (simp add: adjust_decision_def demo_verdict_def demo_events_def)
qed

lemma demo_processed:
  "\<exists>out' s'. process_event demo_events demo_ids demo_failure False demo_now demo_guard = Inr (out', s') \<and> xo_command out' = ''cmd1''"
proof -
  define s1 where "s1 = demo_guard\<lparr>gd_events := [demo_failure], gd_retention := [\<lparr>rt_device = ''dev1'', rt_since = 1, rt_windows = 1\<rparr>]\<rparr>"
  define s2 where "s2 = demo_guard\<lparr>gd_events := [demo_failure], gd_windows := [demo_window3], gd_retention := [\<lparr>rt_device = ''dev1'', rt_since = 1, rt_windows = 1\<rparr>]\<rparr>"
  have e: "sv_device demo_failure = ''dev1''" "sv_type demo_failure = ''ssh_auth_failure''" "sv_source demo_failure = ''8.8.8.8''"
    "sv_at demo_failure = demo_now" by (simp_all add: demo_failure_def)
  have p: "dp_window demo_config = 300 * second" by (simp add: demo_config_def)
  have pr: "prune_events ''dev1'' (demo_guard\<lparr>gd_events := gd_events demo_guard @ [demo_failure]\<rparr>) = s1"
    by (simp add: prune_events_def count_event_def retention_of_def update_retention_def securityEventRetentionBatch_def upd_where_def
        demo_guard_def s1_def)
  have gs: "gd_store s1 = gd_store demo_guard" "gd_store s2 = gd_store demo_guard" by (simp_all add: s1_def s2_def)
  have c: "count_failure demo_events demo_failure demo_config demo_now s1 = Inr (3, s2)"
    using demo_count [where J = "el_jx demo_events" and es = "[demo_failure]" and k = 1] by (simp add: count_failure_def e p s1_def s2_def)
  obtain s3 where s3: "promote_failure demo_events demo_ids demo_failure demo_config 3 demo_now s2 = Inr s3"
     "st_bans (gd_store s3) = []" "st_actions (gd_store s3) = []" "st_commands (gd_store s3) = []"
     "st_devices (gd_store s3) = [demo_device]" "st_outbox (gd_store s3) = []" "st_settings (gd_store s3) = st_settings demo_store"
    using demo_promoted [where w = "[demo_window3]" and r = "[\<lparr>rt_device = ''dev1'', rt_since = 1, rt_windows = 1\<rparr>]"] by (auto simp: s2_def s1_def)
  have v: "judge_failure demo_events demo_failure demo_config 3 demo_now (gd_store demo_guard) = demo_verdict"
    using demo_judged by (simp only: demo_verdict_def)
  have vs: "ev_matched demo_verdict" "ev_expires demo_verdict \<noteq> None" "\<not> ev_simulated demo_verdict" "ev_ban demo_verdict"
    by (simp_all add: demo_verdict_def)
  have "process_failure demo_events demo_ids demo_failure False (no_outcome\<lparr>xo_inserted := True\<rparr>) demo_now s1 =
      queue_ban demo_events demo_ids demo_failure demo_config 3 demo_verdict (no_outcome\<lparr>xo_inserted := True\<rparr>) demo_now s3"
    unfolding process_failure_def Let_def gs e demo_tx
    by (simp only: bindE.simps prod.case c gs v vs s3(1) demo_adjusted simp_thms if_True if_False)
  moreover have "process_event demo_events demo_ids demo_failure False demo_now demo_guard =
      process_failure demo_events demo_ids demo_failure False (no_outcome\<lparr>xo_inserted := True\<rparr>) demo_now s1"
    unfolding process_event_def Let_def demo_canonical(1) e pr
    using demo_canonical(2) by (simp add: demo_guard_def demo_store_def demo_device_def del: not_None_eq)
  ultimately show ?thesis using demo_banned [OF s3(2-7)] by simp
qed

theorem automatic_ban_justified_witness:
  "\<exists>out s'. process_event demo_events demo_ids demo_failure False demo_now demo_guard = Inr (out, s') \<and> xo_command out = ''cmd1'' \<and>
     ban_queued demo_events demo_ids demo_failure demo_config demo_now (gd_store s')"
proof -
  obtain out s' where r: "process_event demo_events demo_ids demo_failure False demo_now demo_guard = Inr (out, s')" "xo_command out = ''cmd1''"
    using demo_processed by blast
  have d: "sv_device demo_failure = ''dev1''" "sv_type demo_failure = ''ssh_auth_failure''" by (simp_all add: demo_failure_def)
  from automatic_ban_justified [OF r(1) _ d(2) demo_canonical(2) refl refl] r(2)
  obtain p where "policy_tx (el_jx demo_events) ''dev1'' (gd_store demo_guard) = Inr p"
    "ban_queued demo_events demo_ids demo_failure p demo_now (gd_store s')"
    unfolding demo_canonical(1) d by auto
  with r show ?thesis using demo_tx by auto
qed

section \<open>Its window and its audit view\<close>


theorem audit_pages_complete_witness:
  "walk 3 [] [] 1 None (demo_guard\<lparr>gd_events := [demo_failure\<lparr>sv_id := ''e1'', sv_at := 7\<rparr>, demo_failure]\<rparr>) =
     [demo_failure, demo_failure\<lparr>sv_id := ''e1'', sv_at := 7\<rparr>]"
proof -
  let ?s = "demo_guard\<lparr>gd_events := [demo_failure\<lparr>sv_id := ''e1'', sv_at := 7\<rparr>, demo_failure]\<rparr>"
  have "distinct (map (\<lambda>e. (sv_device e, sv_id e)) (gd_events ?s))" by (simp add: demo_failure_def)
  from audit_pages_complete [OF this, of "[]" "[]" 1] show ?thesis
    by (simp add: numeral_3_eq_3 event_matches_def event_key_def demo_failure_def demo_now_def)
qed

end
