(* ===== verification/Reports.thy ===== *)
theory Reports
  imports SecurityEvents Retention
begin

text \<open>
  Scan reports and the current risk of a device (\<open>internal/store/reports_commands.go\<close>): a report
  is an immutable snapshot, the current findings are a projection of the newest report that keeps
  what an incomplete scan could not check; both are bounded.
\<close>

section \<open>Rows\<close>

type_synonym finding_status = string

abbreviation (input) FindingOpen :: finding_status where "FindingOpen \<equiv> ''open''"
abbreviation (input) FindingResolved :: finding_status where "FindingResolved \<equiv> ''resolved''"

record finding_row =
  fd_id :: string
  fd_report :: string
  fd_device :: string
  fd_print :: string             \<comment> \<open>fingerprint\<close>
  fd_category :: string
  fd_severity :: severity
  fd_title :: string
  fd_description :: string
  fd_evidence :: string
  fd_remedy :: string
  fd_status :: finding_status
  fd_first :: instant
  fd_last :: instant

record current_row = finding_row +
  fd_updated :: instant

record report =
  rp_id :: string
  rp_device :: string
  rp_started :: instant
  rp_completed :: instant
  rp_score :: int
  rp_summary :: bytes
  rp_findings :: "finding_row list"

record report_row =
  rr_id :: string
  rr_device :: string
  rr_started :: instant
  rr_completed :: instant
  rr_score :: int
  rr_summary :: bytes
  rr_digest :: string
  rr_created :: instant

record state_row =
  ps_device :: string
  ps_report :: string
  ps_completed :: instant
  ps_updated :: instant

record report_db =
  rd_cases :: case_db
  rd_reports :: "report_row list"
  rd_findings :: "finding_row list"
  rd_current :: "current_row list"
  rd_state :: "state_row list"

text \<open>
  \<open>rl_json\<close> is \<open>json.Marshal\<close> of a report, \<open>rl_checks\<close> the \<open>checkErrors\<close> a summary decodes to.
\<close>

record report_lib =
  rl_jx :: store_lib
  rl_json :: "report \<Rightarrow> bytes option"
  rl_checks :: "bytes \<Rightarrow> string list option"

text \<open>The identifiers a transaction draws: per finding its own and that of a new incident.\<close>

record report_ids =
  ri_report :: string
  ri_finding :: "nat \<Rightarrow> string"
  ri_incident :: "nat \<Rightarrow> string"
  ri_capacity :: string
  ri_notice :: "string \<times> string"

definition maxReportsPerDevice :: nat where "maxReportsPerDevice = 100"
definition maxReportBytesPerDevice :: nat where "maxReportBytesPerDevice = 20971520"
definition maxCurrentFindingsPerDevice :: nat where "maxCurrentFindingsPerDevice = 2000"
definition maxResolvedCurrentFindingsPerDevice :: nat where "maxResolvedCurrentFindingsPerDevice = 500"
definition maxCurrentFindingBytesPerDevice :: nat where "maxCurrentFindingBytesPerDevice = 8388608"

definition capacity_print :: string where
  "capacity_print = ''witshield:current-findings-capacity''"

text \<open>The zero \<open>time.Time\<close>: the first of January of the year one.\<close>

definition zero_time :: instant where "zero_time = - 62135596800 * second"

section \<open>Which categories a scan could not check\<close>

definition findingCategoriesByCheck :: "(string \<times> string list) list" where
  "findingCategoriesByCheck =
    [(''ssh_configuration'', [''ssh'']), (''privileged_accounts'', [''identity'']), (''shadow_permissions'', [''permissions'']),
     (''listening_ports'', [''network'']), (''firewall'', [''network'']), (''security_updates'', [''updates'']),
     (''docker_socket'', [''containers''])]"

fun failed_categories :: "string list \<Rightarrow> string list option" where
  "failed_categories [] = Some []"
| "failed_categories (e # es) =
     (case cut (CHR '':'') e of
        None \<Rightarrow> None
      | Some (name, _) \<Rightarrow>
         (case map_of findingCategoriesByCheck (trim_space name) of
            None \<Rightarrow> None
          | Some cs \<Rightarrow> map_option ((@) cs) (failed_categories es)))"

text \<open>The unavailable categories, or that all findings must be preserved.\<close>

definition unavailable_categories :: "report_lib \<Rightarrow> bytes \<Rightarrow> string list \<times> bool" where
  "unavailable_categories L summary =
     (if summary = [] then ([], False)
      else case rl_checks L summary of
             None \<Rightarrow> ([], True)
           | Some es \<Rightarrow> (case failed_categories es of None \<Rightarrow> ([], True) | Some cs \<Rightarrow> (sort (remdups cs), False)))"

section \<open>Legacy rows\<close>

definition raw_url_digit :: "char \<Rightarrow> bool" where
  "raw_url_digit c \<longleftrightarrow> (CHR ''A'' \<le> c \<and> c \<le> CHR ''Z'') \<or> (CHR ''a'' \<le> c \<and> c \<le> CHR ''z'') \<or> (CHR ''0'' \<le> c \<and> c \<le> CHR ''9'') \<or>
     c = CHR ''-'' \<or> c = CHR ''_''"

text \<open>\<open>base64.RawURLEncoding\<close> decodes the text to sixteen bytes; line ends are skipped.\<close>

definition generated_finding_id :: "string \<Rightarrow> bool" where
  "generated_finding_id v \<longleftrightarrow> has_prefix v ''fnd_'' \<and>
     (let cs = filter (\<lambda>c. c \<noteq> CHR 0x0D \<and> c \<noteq> CHR 0x0A) (drop 4 v)
      in list_all raw_url_digit cs \<and> length cs mod 4 \<noteq> 1 \<and> length cs * 6 div 8 = 16)"

definition legacy_finding_matches :: "report \<Rightarrow> finding_row \<Rightarrow> finding_row \<Rightarrow> bool" where
  "legacy_finding_matches r f row \<longleftrightarrow>
     fd_first f = zero_time \<and> fd_last f = zero_time \<and>
     (if fd_id f = [] then generated_finding_id (fd_id row) else fd_id f = fd_id row) \<and>
     (fd_report f = [] \<or> fd_report f = rp_id r) \<and> fd_device f = rp_device r \<and> fd_report row = rp_id r \<and> fd_device row = rp_device r \<and>
     fd_print f = fd_print row \<and> fd_category f = fd_category row \<and> fd_severity f = fd_severity row \<and> fd_title f = fd_title row \<and>
     fd_description f = fd_description row \<and> fd_evidence f = fd_evidence row \<and> fd_remedy f = fd_remedy row \<and> fd_status f = fd_status row"

definition legacy_report_matches :: "report \<Rightarrow> report_db \<Rightarrow> bool" where
  "legacy_report_matches r s =
     (case find (\<lambda>x. rr_id x = rp_id r) (rd_reports s) of
        None \<Rightarrow> False
      | Some x \<Rightarrow>
         rr_device x = rp_device r \<and> rr_started x = rp_started r \<and> rr_completed x = rp_completed r \<and> rr_score x = rp_score r \<and>
         rr_summary x = rp_summary r \<and>
         list_all2 (legacy_finding_matches r) (rp_findings r) (filter (\<lambda>f. fd_report f = rp_id r) (rd_findings s)))"

section \<open>The findings of a report\<close>

definition signal_from_finding :: "store_lib \<Rightarrow> report \<Rightarrow> finding_row \<Rightarrow> instant \<Rightarrow> signal_row \<times> string" where
  "signal_from_finding J r f now =
     (\<lparr>sg_id = ''finding:'' @ rp_id r @ '':'' @ fd_print f, sg_device = rp_device r, sg_type = ''scanner_finding'',
       sg_category = fd_category f, sg_severity = fd_severity f, sg_trust = ''verified'', sg_subject = fd_print f,
       sg_source = ''deterministic_scanner'', sg_ref = fd_id f,
       sg_payload = jx_map J [(''findingId'', DStr (fd_id f)), (''reportId'', DStr (rp_id r)), (''fingerprint'', DStr (fd_print f)),
         (''description'', DStr (fd_description f)), (''evidence'', DStr (fd_evidence f)), (''remediation'', DStr (fd_remedy f))],
       sg_at = rp_completed r, sg_ingested = now\<rparr>, ''finding:'' @ fd_print f)"

definition same_finding :: "string \<Rightarrow> string \<Rightarrow> 'a finding_row_scheme \<Rightarrow> bool" where
  "same_finding dev print f \<longleftrightarrow> fd_device f = dev \<and> fd_print f = print"

definition first_seen :: "bool \<Rightarrow> report \<Rightarrow> string \<Rightarrow> report_db \<Rightarrow> instant" where
  "first_seen advances r print s =
     (case (if advances then find (same_finding (rp_device r) print) (rd_current s) else None) of
        Some c \<Rightarrow> fd_first c
      | None \<Rightarrow>
         (case descending fd_last (filter (\<lambda>f. same_finding (rp_device r) print f \<and> fd_last f \<le> rp_completed r) (rd_findings s)) of
            [] \<Rightarrow> rp_completed r
          | f # _ \<Rightarrow> fd_first f))"

text \<open>\<open>INSERT ... ON CONFLICT(device_id,fingerprint) DO UPDATE\<close>; the identifier is unique, too.\<close>

definition put_current :: "(current_row \<Rightarrow> current_row \<Rightarrow> current_row) \<Rightarrow> current_row \<Rightarrow> current_row list \<Rightarrow>
    store_error + current_row list" where
  "put_current merge c t =
     (if list_ex (\<lambda>x. fd_id x = fd_id c \<and> \<not> same_finding (fd_device c) (fd_print c) x) t then Inl ErrConstraint
      else Inr (if list_ex (same_finding (fd_device c) (fd_print c)) t
                then upd_where (same_finding (fd_device c) (fd_print c)) (\<lambda>x. merge x c) t else t @ [c]))"

definition earliest_first :: "current_row \<Rightarrow> current_row \<Rightarrow> current_row" where
  "earliest_first old new = new\<lparr>fd_first := (if fd_first old < fd_first new then fd_first old else fd_first new)\<rparr>"

definition keep_first :: "current_row \<Rightarrow> current_row \<Rightarrow> current_row" where
  "keep_first old new = new\<lparr>fd_first := fd_first old\<rparr>"

definition current_of :: "finding_row \<Rightarrow> instant \<Rightarrow> current_row" where
  "current_of f now = finding_row.extend f \<lparr>fd_updated = now\<rparr>"

definition insert_finding :: "finding_row \<Rightarrow> finding_row list \<Rightarrow> store_error + finding_row list" where
  "insert_finding f t = (if fd_id f \<in> fd_id ` set t then Inl ErrConstraint else Inr (t @ [f]))"

definition stored_finding :: "report_ids \<Rightarrow> bool \<Rightarrow> report \<Rightarrow> nat \<Rightarrow> finding_row \<Rightarrow> report_db \<Rightarrow> finding_row" where
  "stored_finding I advances r n f s = f\<lparr>fd_id := (if fd_id f = [] then ri_finding I n else fd_id f), fd_report := rp_id r,
     fd_device := rp_device r, fd_status := (if fd_status f = [] then FindingOpen else fd_status f),
     fd_first := first_seen advances r (fd_print f) s, fd_last := rp_completed r\<rparr>"

definition save_finding :: "report_lib \<Rightarrow> report_ids \<Rightarrow> bool \<Rightarrow> report \<Rightarrow> instant \<Rightarrow> nat \<Rightarrow> finding_row \<Rightarrow> report_db \<Rightarrow>
    store_error + report_db" where
  "save_finding L I advances r now n f0 s =
     (let f = stored_finding I advances r n f0 s
      in bindE (insert_finding f (rd_findings s)) (\<lambda>fs.
         bindE (if advances then put_current earliest_first (current_of f now) (rd_current s) else Inr (rd_current s)) (\<lambda>cs.
         let (g, key) = signal_from_finding (rl_jx L) r f now
         in bindE (upsert_signal (rl_jx L) (ri_incident I n) g key (rd_cases s)) (\<lambda>(_, k).
            Inr (s\<lparr>rd_findings := fs, rd_current := cs, rd_cases := k\<rparr>)))))"

fun save_findings :: "report_lib \<Rightarrow> report_ids \<Rightarrow> bool \<Rightarrow> report \<Rightarrow> instant \<Rightarrow> nat \<Rightarrow> finding_row list \<Rightarrow> report_db \<Rightarrow>
    store_error + report_db" where
  "save_findings L I advances r now n [] s = Inr s"
| "save_findings L I advances r now n (f # fs) s =
     bindE (save_finding L I advances r now n f s) (save_findings L I advances r now (n + 1) fs)"

section \<open>The projection of the current risk\<close>

definition resolvable :: "string \<Rightarrow> string list \<Rightarrow> string list \<Rightarrow> current_row \<Rightarrow> bool" where
  "resolvable dev seen unavailable c \<longleftrightarrow> fd_device c = dev \<and> fd_status c = FindingOpen \<and> fd_print c \<noteq> capacity_print \<and>
     fd_print c \<notin> set seen \<and> fd_category c \<notin> set unavailable"

definition resolve_missing :: "string \<Rightarrow> string list \<Rightarrow> string list \<Rightarrow> instant \<Rightarrow> report_db \<Rightarrow> report_db" where
  "resolve_missing dev seen unavailable now s =
     s\<lparr>rd_current := upd_where (resolvable dev seen unavailable) (\<lambda>c. c\<lparr>fd_status := FindingResolved, fd_updated := now\<rparr>) (rd_current s)\<rparr>"

definition finding_bytes :: "'a finding_row_scheme \<Rightarrow> nat" where
  "finding_bytes f = length (fd_print f) + length (fd_category f) + length (fd_title f) + length (fd_description f) +
     length (fd_evidence f) + length (fd_remedy f) + 256"

definition of_device :: "string \<Rightarrow> current_row \<Rightarrow> bool" where
  "of_device dev c \<longleftrightarrow> fd_device c = dev \<and> fd_print c \<noteq> capacity_print"

definition unresolved :: "string \<Rightarrow> current_row \<Rightarrow> bool" where
  "unresolved dev c \<longleftrightarrow> of_device dev c \<and> fd_status c \<noteq> FindingResolved"

definition trim_resolved :: "string \<Rightarrow> current_row list \<Rightarrow> current_row list" where
  "trim_resolved dev = trim_table maxResolvedCurrentFindingsPerDevice (\<lambda>c. fd_device c = dev \<and> fd_status c = FindingResolved) fd_last"

definition trim_unresolved :: "string \<Rightarrow> current_row list \<Rightarrow> current_row list" where
  "trim_unresolved dev = trim_table (maxCurrentFindingsPerDevice - 1) (unresolved dev) (\<lambda>c. (severity_rank (fd_severity c), fd_last c))"

definition trim_bytes :: "string \<Rightarrow> current_row list \<Rightarrow> current_row list" where
  "trim_bytes dev = budget_table maxCurrentFindingBytesPerDevice finding_bytes (of_device dev)
     (\<lambda>c. (if fd_status c = FindingResolved then 0 else 1 :: nat, severity_rank (fd_severity c), fd_last c))"

definition capacity_description :: "nat \<Rightarrow> string" where
  "capacity_description trimmed = ''The current-risk projection reached its safety capacity ('' @ itoa (int maxCurrentFindingsPerDevice) @
     '' records / '' @ itoa (int maxCurrentFindingBytesPerDevice div 1048576) @ '' MiB); '' @ itoa (int trimmed) @
     '' lower-priority finding records were omitted. Recent retained reports remain available for detailed review.''"

definition capacity_row :: "string \<Rightarrow> report \<Rightarrow> nat \<Rightarrow> instant \<Rightarrow> current_row" where
  "capacity_row cid r trimmed now = \<lparr>fd_id = cid, fd_report = rp_id r, fd_device = rp_device r, fd_print = capacity_print,
     fd_category = ''system'', fd_severity = SeverityCritical, fd_title = ''Current finding capacity reached'',
     fd_description = capacity_description trimmed, fd_evidence = [],
     fd_remedy = ''Review recent reports and remove duplicated or unbounded custom findings.'', fd_status = FindingOpen,
     fd_first = rp_completed r, fd_last = rp_completed r, fd_updated = now\<rparr>"

definition enforce_capacity :: "string \<Rightarrow> report \<Rightarrow> bool \<Rightarrow> instant \<Rightarrow> current_row list \<Rightarrow> store_error + current_row list" where
  "enforce_capacity cid r incomplete now t0 =
     (let dev = rp_device r;
          t1 = trim_resolved dev t0;
          active = cnt_where (unresolved dev) t1;
          over = active - (maxCurrentFindingsPerDevice - 1);
          t2 = (if active > maxCurrentFindingsPerDevice - 1 then trim_unresolved dev t1 else t1);
          t3 = trim_bytes dev t2;
          trimmed = over + (cnt_where (of_device dev) t2 - cnt_where (of_device dev) t3)
      in if trimmed > 0 then put_current keep_first (capacity_row cid r trimmed now) t3
         else Inr (if incomplete then t3 else del_where (\<lambda>c. fd_device c = dev \<and> fd_print c = capacity_print) t3))"

section \<open>Saving\<close>

definition report_bytes :: "finding_row list \<Rightarrow> report_row \<Rightarrow> nat" where
  "report_bytes fs x = length (rr_summary x) + 128 + sum_list (map finding_bytes (filter (\<lambda>f. fd_report f = rr_id x) fs))"

text \<open>A deleted report takes its findings with it.\<close>

definition drop_orphans :: "report_db \<Rightarrow> report_db" where
  "drop_orphans s = s\<lparr>rd_findings := filter (\<lambda>f. fd_report f \<in> rr_id ` set (rd_reports s)) (rd_findings s)\<rparr>"

definition retain_reports :: "string \<Rightarrow> report_db \<Rightarrow> report_db" where
  "retain_reports dev s =
     (let s1 = drop_orphans (s\<lparr>rd_reports := trim_table maxReportsPerDevice (\<lambda>x. rr_device x = dev) rr_completed (rd_reports s)\<rparr>)
      in drop_orphans (s1\<lparr>rd_reports := budget_table maxReportBytesPerDevice (report_bytes (rd_findings s1)) (\<lambda>x. rr_device x = dev)
           rr_completed (rd_reports s1)\<rparr>))"

definition ingest_digest :: "report_lib \<Rightarrow> report \<Rightarrow> string option" where
  "ingest_digest L r = map_option (\<lambda>b. hex_encode (sha256 (jx_lib (rl_jx L)) b)) (rl_json L r)"

definition advances_state :: "report \<Rightarrow> report_db \<Rightarrow> bool" where
  "advances_state r s =
     (case find (\<lambda>x. ps_device x = rp_device r) (rd_state s) of None \<Rightarrow> True | Some x \<Rightarrow> ps_completed x < rp_completed r)"

definition put_state :: "report \<Rightarrow> instant \<Rightarrow> state_row list \<Rightarrow> state_row list" where
  "put_state r now t =
     (let x = \<lparr>ps_device = rp_device r, ps_report = rp_id r, ps_completed = rp_completed r, ps_updated = now\<rparr>;
          p = (\<lambda>y. ps_device y = rp_device r)
      in if list_ex p t then upd_where p (\<lambda>_. x) t else t @ [x])"

definition row_of_report :: "report \<Rightarrow> string \<Rightarrow> instant \<Rightarrow> report_row" where
  "row_of_report r digest now = \<lparr>rr_id = rp_id r, rr_device = rp_device r, rr_started = rp_started r, rr_completed = rp_completed r,
     rr_score = rp_score r, rr_summary = rp_summary r, rr_digest = digest, rr_created = now\<rparr>"

text \<open>A report that is already there: acknowledged, upgraded, or refused.\<close>

definition replay_report :: "report \<Rightarrow> string \<Rightarrow> report_db \<Rightarrow> store_error + (bool \<times> nat) \<times> report_db" where
  "replay_report r digest s =
     (case find (\<lambda>x. rr_id x = rp_id r) (rd_reports s) of
        None \<Rightarrow> Inl ErrConflict
      | Some x \<Rightarrow>
         (if rr_device x = rp_device r \<and> rr_digest x = digest then Inr ((False, 0), s)
          else if rr_device x = rp_device r \<and> rr_digest x = [] \<and> legacy_report_matches r s
          then Inr ((False, 0), s\<lparr>rd_reports := upd_where (\<lambda>y. rr_id y = rp_id r \<and> rr_device y = rp_device r \<and> rr_digest y = [])
                 (\<lambda>y. y\<lparr>rr_digest := digest\<rparr>) (rd_reports s)\<rparr>)
          else Inl ErrConflict))"

definition project_report :: "report_lib \<Rightarrow> report_ids \<Rightarrow> report \<Rightarrow> instant \<Rightarrow> report_db \<Rightarrow> store_error + report_db" where
  "project_report L I r now s =
     (let (unavailable, preserve) = unavailable_categories L (rp_summary r);
          s1 = (if preserve then s else resolve_missing (rp_device r) (map fd_print (rp_findings r)) unavailable now s)
      in bindE (enforce_capacity (ri_capacity I) r (preserve \<or> unavailable \<noteq> []) now (rd_current s1)) (\<lambda>cs.
         Inr (s1\<lparr>rd_current := cs, rd_state := put_state r now (rd_state s1)\<rparr>)))"

definition notify_report :: "report_lib \<Rightarrow> report_ids \<Rightarrow> notification_event option \<Rightarrow> instant \<Rightarrow> report_db \<Rightarrow>
    store_error + nat \<times> report_db" where
  "notify_report L I event now s =
     (case event of
        None \<Rightarrow> Inr (0, s)
      | Some e \<Rightarrow> bindE (enqueue_notification (rl_jx L) (ri_notice I) e now (cd_store (rd_cases s))) (\<lambda>(k, st).
          Inr (k, s\<lparr>rd_cases := rd_cases s\<lparr>cd_store := st\<rparr>\<rparr>)))"

definition new_report :: "report_lib \<Rightarrow> report_ids \<Rightarrow> report \<Rightarrow> string \<Rightarrow> notification_event option \<Rightarrow> instant \<Rightarrow> report_db \<Rightarrow>
    store_error + (bool \<times> nat) \<times> report_db" where
  "new_report L I r digest event now s =
     (let advances = advances_state r s
      in bindE (save_findings L I advances r now 0 (rp_findings r) (s\<lparr>rd_reports := rd_reports s @ [row_of_report r digest now]\<rparr>)) (\<lambda>s1.
         bindE (if advances then project_report L I r now s1 else Inr s1) (\<lambda>s2.
         bindE (notify_report L I event now (retain_reports (rp_device r) s2)) (\<lambda>(k, s3). Inr ((True, k), s3)))))"

text \<open>\<open>saveReport\<close>: whether the report was new, and how many notifications were queued.\<close>

definition save_report :: "report_lib \<Rightarrow> report_ids \<Rightarrow> report \<Rightarrow> notification_event option \<Rightarrow> instant \<Rightarrow> report_db \<Rightarrow>
    store_error + (bool \<times> nat) \<times> report_db" where
  "save_report L I r0 event now s =
     (let r = r0\<lparr>rp_id := (if rp_id r0 = [] then ri_report I else rp_id r0), rp_summary := nonempty_json (rp_summary r0)\<rparr>
      in if rp_score r < 0 \<or> rp_score r > 100 then Inl (ErrOther ''score must be between 0 and 100'')
         else case ingest_digest L r of
                None \<Rightarrow> Inl (ErrOther ''encode report receipt'')
              | Some digest \<Rightarrow>
                 (if rp_id r \<in> rr_id ` set (rd_reports s) \<or> rp_device r \<notin> dv_id ` set (st_devices (cd_store (rd_cases s)))
                  then replay_report r digest s else new_report L I r digest event now s))"

section \<open>Reading\<close>

definition find_report :: "string \<Rightarrow> report_db \<Rightarrow> store_error + report_row \<times> finding_row list" where
  "find_report rid s =
     (case find (\<lambda>x. rr_id x = rid) (rd_reports s) of
        None \<Rightarrow> Inl ErrNotFound
      | Some x \<Rightarrow> Inr (x, sort_key (\<lambda>f. (severity_order (fd_severity f), fd_title f)) (filter (\<lambda>f. fd_report f = rid) (rd_findings s))))"

definition list_reports :: "string \<Rightarrow> int \<Rightarrow> report_db \<Rightarrow> report_row list" where
  "list_reports dev limit s =
     take (list_limit 200 50 limit) (sort_key (\<lambda>x. - rr_completed x) (filter (\<lambda>x. dev = [] \<or> rr_device x = dev) (rd_reports s)))"

definition latest_report :: "string \<Rightarrow> report_db \<Rightarrow> store_error + report_row" where
  "latest_report dev s =
     (case sort_key (\<lambda>x. - rr_completed x) (filter (\<lambda>x. rr_device x = dev) (rd_reports s)) of
        [] \<Rightarrow> Inl ErrNotFound | x # _ \<Rightarrow> Inr x)"

record finding_filter =
  ff_device :: string
  ff_status :: finding_status
  ff_severity :: "severity option"
  ff_limit :: int

definition list_findings :: "finding_filter \<Rightarrow> report_db \<Rightarrow> current_row list" where
  "list_findings q s =
     take (list_limit (int maxCurrentFindingsPerDevice) 100 (ff_limit q))
       (descending (\<lambda>c. (if fd_print c = capacity_print then 1 else 0 :: nat, severity_rank (fd_severity c), fd_last c))
         (filter (\<lambda>c. (ff_device q = [] \<or> fd_device c = ff_device q) \<and> (ff_status q = [] \<or> fd_status c = ff_status q) \<and>
            (case ff_severity q of None \<Rightarrow> True | Some v \<Rightarrow> fd_severity c = v)) (rd_current s)))"

definition find_finding :: "string \<Rightarrow> report_db \<Rightarrow> store_error + finding_row" where
  "find_finding fid s =
     (case find (\<lambda>c. fd_id c = fid) (rd_current s) of
        Some c \<Rightarrow> Inr (finding_row.truncate c)
      | None \<Rightarrow> (case find (\<lambda>f. fd_id f = fid) (rd_findings s) of Some f \<Rightarrow> Inr f | None \<Rightarrow> Inl ErrNotFound))"

end
