(* ===== verification/ReportProps.thy ===== *)
theory ReportProps
  imports Reports
begin

text \<open>
  What saving a report guarantees: a report may be sent again, every table stays within its
  bounds whatever arrives, a risk disappears only when it was checked, and none silently.
\<close>

section \<open>What each part of a save touches\<close>

lemma put_current_cases:
  assumes "put_current merge c t = Inr u"
  shows "u = (if list_ex (same_finding (fd_device c) (fd_print c)) t
      then upd_where (same_finding (fd_device c) (fd_print c)) (\<lambda>x. merge x c) t else t @ [c])"
  using assms by (auto simp: put_current_def split: if_splits)

lemma put_current_filter:
  assumes "put_current merge c t = Inr u" and "\<And>x. same_finding (fd_device c) (fd_print c) x \<Longrightarrow> \<not> q x"
    and "\<And>x. \<not> q (merge x c)" and "\<not> q c"
  shows "filter q u = filter q t"
  unfolding put_current_cases [OF assms(1)] using assms(2-4) by (auto intro: filter_upd_other)

lemma merge_fields [simp]:
  "fd_device (earliest_first x c) = fd_device c" "fd_print (earliest_first x c) = fd_print c"
  "fd_status (earliest_first x c) = fd_status c" "fd_device (keep_first x c) = fd_device c"
  "fd_print (keep_first x c) = fd_print c" "fd_status (keep_first x c) = fd_status c"
  by (simp_all add: earliest_first_def keep_first_def)

lemma current_of_fields [simp]:
  "fd_id (current_of f n) = fd_id f" "fd_device (current_of f n) = fd_device f" "fd_print (current_of f n) = fd_print f"
  "fd_status (current_of f n) = fd_status f" "fd_category (current_of f n) = fd_category f"
  by (simp_all add: current_of_def finding_row.defs)

lemma stored_fields [simp]:
  "fd_device (stored_finding I adv r n f s) = rp_device r" "fd_print (stored_finding I adv r n f s) = fd_print f"
  "fd_report (stored_finding I adv r n f s) = rp_id r"
  "fd_status (stored_finding I adv r n f s) = (if fd_status f = [] then FindingOpen else fd_status f)"
  by (simp_all add: stored_finding_def)

lemma save_finding_Inr:
  assumes "save_finding L I adv r now n f s = Inr s'"
  obtains cs where "(if adv then put_current earliest_first (current_of (stored_finding I adv r n f s) now) (rd_current s) else Inr (rd_current s)) = Inr cs"
    and "rd_current s' = cs" and "rd_reports s' = rd_reports s" and "rd_state s' = rd_state s"
    and "rd_findings s' = rd_findings s @ [stored_finding I adv r n f s]"
proof -
  obtain g key where g: "signal_from_finding (rl_jx L) r (stored_finding I adv r n f s) now = (g, key)"
    by (cases "signal_from_finding (rl_jx L) r (stored_finding I adv r n f s) now")
  show ?thesis
    by (rule that) (use assms in \<open>auto simp: save_finding_def Let_def bindE_Inr_iff insert_finding_def g split: prod.splits if_splits\<close>)
qed

lemma save_findings_frame:
  assumes "save_findings L I adv r now n fs s = Inr s'"
  shows "rd_reports s' = rd_reports s \<and> rd_state s' = rd_state s \<and> (\<not> adv \<longrightarrow> rd_current s' = rd_current s) \<and>
    (\<forall>d. d \<noteq> rp_device r \<longrightarrow> filter (\<lambda>c. fd_device c = d) (rd_current s') = filter (\<lambda>c. fd_device c = d) (rd_current s)) \<and>
    (\<exists>new. rd_findings s' = rd_findings s @ new \<and> (\<forall>f \<in> set new. fd_report f = rp_id r))"
  using assms
proof (induction fs arbitrary: n s)
  case (Cons f fs)
  from Cons.prems obtain s1 where s1: "save_finding L I adv r now n f s = Inr s1" "save_findings L I adv r now (n + 1) fs s1 = Inr s'"
    by (auto simp: bindE_Inr_iff)
  from s1(1) obtain cs where cs:
      "(if adv then put_current earliest_first (current_of (stored_finding I adv r n f s) now) (rd_current s) else Inr (rd_current s)) = Inr cs"
    and eqs: "rd_current s1 = cs" "rd_reports s1 = rd_reports s" "rd_state s1 = rd_state s"
      "rd_findings s1 = rd_findings s @ [stored_finding I adv r n f s]"
    by (rule save_finding_Inr)
  have "filter (\<lambda>c. fd_device c = d) cs = filter (\<lambda>c. fd_device c = d) (rd_current s)" if "d \<noteq> rp_device r" for d
    using cs that by (auto simp: same_finding_def split: if_splits intro: put_current_filter)
  moreover have "\<not> adv \<longrightarrow> cs = rd_current s" using cs by auto
  ultimately show ?case using Cons.IH [OF s1(2)] eqs by auto
qed auto

text \<open>After the findings of an advancing report are stored, each of them has its row.\<close>

definition shown :: "string \<Rightarrow> string \<Rightarrow> current_row list \<Rightarrow> bool" where
  "shown dev print t \<longleftrightarrow> (\<exists>c \<in> set t. same_finding dev print c \<and> fd_status c \<noteq> FindingResolved)"

text \<open>No row that is resolved came into being by storing findings that are not.\<close>

lemma save_findings_rows:
  assumes "save_findings L I True r now n fs s = Inr s'" and "\<forall>f \<in> set fs. fd_status f \<noteq> FindingResolved"
  shows "(\<forall>c \<in> set (rd_current s'). c \<in> set (rd_current s) \<or> (fd_device c = rp_device r \<and> fd_status c \<noteq> FindingResolved)) \<and>
    (\<forall>print. print \<in> fd_print ` set fs \<or> shown (rp_device r) print (rd_current s) \<longrightarrow> shown (rp_device r) print (rd_current s'))"
  using assms
proof (induction fs arbitrary: n s)
  case (Cons f fs)
  from Cons.prems obtain s1 where s1: "save_finding L I True r now n f s = Inr s1" "save_findings L I True r now (n + 1) fs s1 = Inr s'"
    by (auto simp: bindE_Inr_iff)
  let ?c = "current_of (stored_finding I True r n f s) now"
  from s1(1) have put: "put_current earliest_first ?c (rd_current s) = Inr (rd_current s1)"
    by (auto elim!: save_finding_Inr)
  have st: "fd_status ?c \<noteq> FindingResolved" using Cons.prems(2) by simp
  note u = put_current_cases [OF put]
  have rows: "\<forall>c \<in> set (rd_current s1). c \<in> set (rd_current s) \<or> (fd_device c = rp_device r \<and> fd_status c \<noteq> FindingResolved)"
    unfolding u using st by (auto simp: set_upd_where)
  have here: "shown (rp_device r) (fd_print f) (rd_current s1)"
  proof (cases "list_ex (same_finding (fd_device ?c) (fd_print ?c)) (rd_current s)")
    case True
    then obtain x where x: "x \<in> set (rd_current s)" "same_finding (fd_device ?c) (fd_print ?c) x" by (auto simp: list_ex_iff)
    then have "earliest_first x ?c \<in> set (rd_current s1)"
      unfolding u using True in_upd_where [of x _ _ "\<lambda>x. earliest_first x ?c"] by simp
    then show ?thesis using st unfolding shown_def by (intro bexI [of _ "earliest_first x ?c"]) (simp_all add: same_finding_def)
  next
    case False
    then show ?thesis unfolding u shown_def using st by (auto simp: same_finding_def)
  qed
  have keep: "shown (rp_device r) p (rd_current s) \<Longrightarrow> shown (rp_device r) p (rd_current s1)" for p
  proof (cases "p = fd_print f")
    case False
    assume "shown (rp_device r) p (rd_current s)"
    then obtain c where c: "c \<in> set (rd_current s)" "same_finding (rp_device r) p c" "fd_status c \<noteq> FindingResolved" by (auto simp: shown_def)
    have "filter (same_finding (rp_device r) p) (rd_current s1) = filter (same_finding (rp_device r) p) (rd_current s)"
      by (rule put_current_filter [OF put]) (use False in \<open>auto simp: same_finding_def\<close>)
    from arg_cong [OF this, of set] c(1,2) have "c \<in> set (rd_current s1)" by auto
    with c show ?thesis unfolding shown_def by blast
  qed (use here in simp)
  from Cons.IH [OF s1(2)] Cons.prems(2) rows here keep show ?case by auto
qed auto

section \<open>The bounded projection\<close>

definition resolved_row :: "string \<Rightarrow> current_row \<Rightarrow> bool" where
  "resolved_row dev c \<longleftrightarrow> fd_device c = dev \<and> fd_status c = FindingResolved"

text \<open>At most 1999 detailed open risks, 500 resolved ones, and eight megabytes of text.\<close>

definition projection_fits :: "string \<Rightarrow> current_row list \<Rightarrow> bool" where
  "projection_fits dev t \<longleftrightarrow> cnt_where (unresolved dev) t \<le> maxCurrentFindingsPerDevice - 1 \<and>
     cnt_where (resolved_row dev) t \<le> maxResolvedCurrentFindingsPerDevice \<and>
     sum_list (map finding_bytes (filter (of_device dev) t)) \<le> maxCurrentFindingBytesPerDevice"

lemma trim_sublist_le: "cnt_where q (trim_table n p k t) \<le> cnt_where q t"
  by (simp add: trim_table_def Let_def sublist_filter_le)

lemma projection_fits_same_device:
  assumes "filter (\<lambda>c. fd_device c = dev) u = filter (\<lambda>c. fd_device c = dev) t"
  shows "projection_fits dev u = projection_fits dev t"
proof -
  have part: "filter q x = filter q (filter (\<lambda>c. fd_device c = dev) x)" if "\<And>c. q c \<Longrightarrow> fd_device c = dev" for q and x :: "current_row list"
    using that by (auto intro: filter_cong)
  have same: "filter q u = filter q t" if "\<And>c. q c \<Longrightarrow> fd_device c = dev" for q
    using part [of q u] part [of q t] that assms by simp
  have "filter (unresolved dev) u = filter (unresolved dev) t" "filter (resolved_row dev) u = filter (resolved_row dev) t"
    "filter (of_device dev) u = filter (of_device dev) t"
    by (rule same, simp add: unresolved_def of_device_def resolved_row_def)+
  then show ?thesis by (simp add: projection_fits_def cnt_where_def)
qed

lemma enforce_capacity_fits:
  assumes "enforce_capacity cid r incomplete now t = Inr u"
  shows "projection_fits (rp_device r) u"
proof -
  define dev where "dev = rp_device r"
  define t1 where "t1 = trim_resolved dev t"
  define t2 where "t2 = (if cnt_where (unresolved dev) t1 > maxCurrentFindingsPerDevice - 1 then trim_unresolved dev t1 else t1)"
  define t3 where "t3 = trim_bytes dev t2"
  have r1: "cnt_where (resolved_row dev) t1 \<le> maxResolvedCurrentFindingsPerDevice"
    unfolding t1_def trim_resolved_def resolved_row_def by (rule trim_table_le)
  have r2: "cnt_where (resolved_row dev) t2 \<le> cnt_where (resolved_row dev) t1"
    by (simp add: t2_def trim_unresolved_def trim_sublist_le)
  have u2: "cnt_where (unresolved dev) t2 \<le> maxCurrentFindingsPerDevice - 1"
    by (simp add: t2_def trim_unresolved_def trim_table_le)
  have fits: "projection_fits dev t3"
    using r1 r2 u2 cnt_budget_le [of "resolved_row dev"] cnt_budget_le [of "unresolved dev"]
    unfolding projection_fits_def t3_def trim_bytes_def by (meson budget_table_fits order_trans)
  show ?thesis
  proof (cases "\<exists>k. put_current keep_first (capacity_row cid r k now) t3 = Inr u")
    case True
    then obtain k where put: "put_current keep_first (capacity_row cid r k now) t3 = Inr u" by blast
    have none: "\<not> of_device dev x" if "same_finding (fd_device (capacity_row cid r k now)) (fd_print (capacity_row cid r k now)) x" for x
      using that by (auto simp: of_device_def same_finding_def capacity_row_def)
    have new: "\<not> of_device dev (capacity_row cid r k now)" "\<not> of_device dev (keep_first x (capacity_row cid r k now))"
      "\<not> resolved_row dev (capacity_row cid r k now)" "\<not> resolved_row dev (keep_first x (capacity_row cid r k now))" for x
      by (simp_all add: of_device_def resolved_row_def) (simp_all add: capacity_row_def)
    have o: "filter (of_device dev) u = filter (of_device dev) t3"
      by (rule put_current_filter [OF put]) (use none new in blast)+
    have "filter (unresolved dev) u = filter (unresolved dev) t3"
      by (rule put_current_filter [OF put]) (use none new in \<open>auto simp: unresolved_def\<close>)
    moreover have "cnt_where (resolved_row dev) u \<le> cnt_where (resolved_row dev) t3"
      unfolding put_current_cases [OF put] using new by (auto simp: table_simps intro: cnt_upd_where_le)
    ultimately show ?thesis
      using fits o unfolding projection_fits_def dev_def [symmetric] by (simp add: cnt_where_def)
  next
    case False
    then have "u = t3 \<or> u = del_where (\<lambda>c. fd_device c = dev \<and> fd_print c = capacity_print) t3"
      using assms unfolding enforce_capacity_def Let_def dev_def [symmetric] t1_def [symmetric] t2_def [symmetric] t3_def [symmetric]
      by (auto split: if_splits)
    moreover have "filter (of_device dev) (del_where (\<lambda>c. fd_device c = dev \<and> fd_print c = capacity_print) t3) = filter (of_device dev) t3"
      unfolding del_where_def filter_filter by (rule filter_cong) (auto simp: of_device_def)
    ultimately show ?thesis
      using fits unfolding projection_fits_def dev_def [symmetric] by (auto intro: le_trans [OF cnt_del_where_le])
  qed
qed


lemma enforce_capacity_other:
  assumes "enforce_capacity cid r incomplete now t = Inr u" and "d \<noteq> rp_device r"
  shows "filter (\<lambda>c. fd_device c = d) u = filter (\<lambda>c. fd_device c = d) t"
proof -
  let ?q = "\<lambda>c :: current_row. fd_device c = d"
  have a: "filter ?q (trim_resolved (rp_device r) x) = filter ?q x" "filter ?q (trim_unresolved (rp_device r) x) = filter ?q x"
    "filter ?q (trim_bytes (rp_device r) x) = filter ?q x" for x
    unfolding trim_resolved_def trim_unresolved_def trim_bytes_def
    using assms(2) by (auto intro!: trim_other budget_other simp: unresolved_def of_device_def)
  have b: "filter ?q v = filter ?q x" if "put_current keep_first (capacity_row cid r k now) x = Inr v" for k v x
    by (rule put_current_filter [OF that]) (use assms(2) in \<open>auto simp: same_finding_def capacity_row_def keep_first_def\<close>)
  have c: "filter ?q (del_where (\<lambda>c. fd_device c = rp_device r \<and> fd_print c = capacity_print) x) = filter ?q x" for x
    unfolding del_where_def filter_filter by (rule filter_cong) (use assms(2) in auto)
  show ?thesis
    using assms(1) unfolding enforce_capacity_def Let_def by (auto split: if_splits dest!: b simp: a c)
qed

lemma project_report_frame:
  assumes "project_report L I r now s = Inr s'"
  shows "rd_reports s' = rd_reports s \<and> rd_findings s' = rd_findings s \<and> projection_fits (rp_device r) (rd_current s') \<and>
    (\<forall>d. d \<noteq> rp_device r \<longrightarrow> filter (\<lambda>c. fd_device c = d) (rd_current s') = filter (\<lambda>c. fd_device c = d) (rd_current s))"
proof -
  obtain un pre where un: "unavailable_categories L (rp_summary r) = (un, pre)"
    by (cases "unavailable_categories L (rp_summary r)")
  define s1 where "s1 = (if pre then s else resolve_missing (rp_device r) (map fd_print (rp_findings r)) un now s)"
  have s1: "rd_reports s1 = rd_reports s" "rd_findings s1 = rd_findings s" by (simp_all add: s1_def resolve_missing_def)
  have o: "filter (\<lambda>c. fd_device c = d) (rd_current s1) = filter (\<lambda>c. fd_device c = d) (rd_current s)" if "d \<noteq> rp_device r" for d
    using that by (auto simp: s1_def resolve_missing_def resolvable_def intro: filter_upd_other)
  from assms obtain cs where cs: "enforce_capacity (ri_capacity I) r (pre \<or> un \<noteq> []) now (rd_current s1) = Inr cs"
    and s': "s' = s1\<lparr>rd_current := cs, rd_state := put_state r now (rd_state s1)\<rparr>"
    unfolding project_report_def un prod.case Let_def s1_def [symmetric] by (auto simp: bindE_Inr_iff)
  show ?thesis
    using s1 o enforce_capacity_fits [OF cs] enforce_capacity_other [OF cs] by (simp add: s')
qed

section \<open>Bounded reports\<close>

definition device_bytes :: "string \<Rightarrow> report_db \<Rightarrow> nat" where
  "device_bytes dev s = sum_list (map (report_bytes (rd_findings s)) (filter (\<lambda>x. rr_device x = dev) (rd_reports s)))"

definition reports_fit :: "string \<Rightarrow> report_db \<Rightarrow> bool" where
  "reports_fit dev s \<longleftrightarrow> cnt_where (\<lambda>x. rr_device x = dev) (rd_reports s) \<le> maxReportsPerDevice \<and> device_bytes dev s \<le> maxReportBytesPerDevice"

lemma drop_orphans_reports [simp]: "rd_reports (drop_orphans s) = rd_reports s" "rd_current (drop_orphans s) = rd_current s"
  "rd_state (drop_orphans s) = rd_state s" "rd_cases (drop_orphans s) = rd_cases s"
  by (simp_all add: drop_orphans_def)

text \<open>Findings of reports that are not there count for nothing.\<close>

lemma report_bytes_kept:
  assumes "x \<in> set (rd_reports s)"
  shows "report_bytes (rd_findings (drop_orphans s)) x = report_bytes (rd_findings s) x"
proof -
  have "filter (\<lambda>f. fd_report f = rr_id x) (filter (\<lambda>f. fd_report f \<in> rr_id ` set (rd_reports s)) (rd_findings s)) =
      filter (\<lambda>f. fd_report f = rr_id x) (rd_findings s)"
    unfolding filter_filter by (rule filter_cong [OF refl]) (use assms in auto)
  then show ?thesis by (simp add: report_bytes_def drop_orphans_def)
qed

lemma device_bytes_drop: "device_bytes dev (drop_orphans s) = device_bytes dev s"
proof -
  have "map (report_bytes (rd_findings (drop_orphans s))) (filter (\<lambda>x. rr_device x = dev) (rd_reports s)) =
      map (report_bytes (rd_findings s)) (filter (\<lambda>x. rr_device x = dev) (rd_reports s))"
    by (rule map_cong [OF refl]) (simp add: report_bytes_kept)
  from arg_cong [OF this, of sum_list] show ?thesis by (simp only: device_bytes_def drop_orphans_reports)
qed

lemma retain_reports_fit: "reports_fit dev (retain_reports dev s)"
proof -
  define s1 where "s1 = drop_orphans (s\<lparr>rd_reports := trim_table maxReportsPerDevice (\<lambda>x. rr_device x = dev) rr_completed (rd_reports s)\<rparr>)"
  define t where "t = budget_table maxReportBytesPerDevice (report_bytes (rd_findings s1)) (\<lambda>x. rr_device x = dev) rr_completed (rd_reports s1)"
  have few: "cnt_where (\<lambda>x. rr_device x = dev) (rd_reports s1) \<le> maxReportsPerDevice"
    by (simp add: s1_def trim_table_le)
  have "cnt_where (\<lambda>x. rr_device x = dev) t \<le> maxReportsPerDevice"
    using few cnt_budget_le unfolding t_def by (rule order_trans [rotated])
  moreover have "device_bytes dev (s1\<lparr>rd_reports := t\<rparr>) \<le> maxReportBytesPerDevice"
    using budget_table_fits by (simp add: device_bytes_def t_def)
  ultimately show ?thesis
    by (simp add: retain_reports_def Let_def reports_fit_def s1_def [symmetric] t_def [symmetric] device_bytes_drop)
qed

lemma filter_budget_keeps:
  assumes "d \<noteq> dev"
  shows "filter (\<lambda>x. rr_device x = d) (rd_reports (retain_reports dev s)) = filter (\<lambda>x. rr_device x = d) (rd_reports s)"
  using assms by (simp add: retain_reports_def Let_def trim_other budget_other)


section \<open>A whole save\<close>

definition canonical_report :: "report_ids \<Rightarrow> report \<Rightarrow> report" where
  "canonical_report I r = r\<lparr>rp_id := (if rp_id r = [] then ri_report I else rp_id r), rp_summary := nonempty_json (rp_summary r)\<rparr>"

lemma canonical_fields [simp]:
  "rp_device (canonical_report I r) = rp_device r" "rp_findings (canonical_report I r) = rp_findings r"
  "rp_completed (canonical_report I r) = rp_completed r" "rp_summary (canonical_report I r) = nonempty_json (rp_summary r)"
  by (simp_all add: canonical_report_def)

lemma save_report_cases:
  assumes "save_report L I r0 event now s = Inr (x, s')"
  obtains (Replayed) digest where "ingest_digest L (canonical_report I r0) = Some digest"
      "replay_report (canonical_report I r0) digest s = Inr (x, s')"
  | (New) digest where "ingest_digest L (canonical_report I r0) = Some digest"
      "rp_id (canonical_report I r0) \<notin> rr_id ` set (rd_reports s)" "new_report L I (canonical_report I r0) digest event now s = Inr (x, s')"
  using assms unfolding save_report_def Let_def canonical_report_def [symmetric] by (auto split: if_splits option.splits)

lemma replay_report_Inr:
  assumes "replay_report r digest s = Inr (x, s')"
  shows "x = (False, 0) \<and> rd_current s' = rd_current s \<and> rd_findings s' = rd_findings s \<and> rd_state s' = rd_state s \<and> rd_cases s' = rd_cases s \<and>
    (rd_reports s' = rd_reports s \<or> (\<exists>p. rd_reports s' = upd_where p (\<lambda>y. y\<lparr>rr_digest := digest\<rparr>) (rd_reports s))) \<and>
    (\<exists>y. find (\<lambda>y. rr_id y = rp_id r) (rd_reports s') = Some y \<and> rr_device y = rp_device r \<and> rr_digest y = digest)"
proof -
  from assms obtain y where y: "find (\<lambda>y. rr_id y = rp_id r) (rd_reports s) = Some y" "rr_device y = rp_device r"
    by (auto simp: replay_report_def split: option.splits if_splits)
  show ?thesis
  proof (cases "rr_digest y = digest")
    case True
    with assms y show ?thesis by (auto simp: replay_report_def)
  next
    case False
    let ?p = "\<lambda>y. rr_id y = rp_id r \<and> rr_device y = rp_device r \<and> rr_digest y = []"
    from False assms y have s': "x = (False, 0)" "s' = s\<lparr>rd_reports := upd_where ?p (\<lambda>y. y\<lparr>rr_digest := digest\<rparr>) (rd_reports s)\<rparr>"
      and e: "rr_digest y = []" by (auto simp: replay_report_def split: if_splits)
    have "find (\<lambda>y. rr_id y = rp_id r) (rd_reports s') = Some (y\<lparr>rr_digest := digest\<rparr>)"
      using y e find_SomeD [OF y(1)] by (simp add: s'(2) find_upd_where)
    with s' y(2) show ?thesis by auto
  qed
qed

lemma new_report_Inr:
  assumes "new_report L I r digest event now s = Inr (x, s')"
  obtains s1 s2 where "save_findings L I (advances_state r s) r now 0 (rp_findings r) (s\<lparr>rd_reports := rd_reports s @ [row_of_report r digest now]\<rparr>) = Inr s1"
    and "(if advances_state r s then project_report L I r now s1 else Inr s1) = Inr s2"
    and "rd_reports s' = rd_reports (retain_reports (rp_device r) s2)" and "rd_findings s' = rd_findings (retain_reports (rp_device r) s2)"
    and "rd_current s' = rd_current s2" and "rd_state s' = rd_state s2" and "fst x"
proof -
  from assms obtain s1 s2 k where a: "save_findings L I (advances_state r s) r now 0 (rp_findings r) (s\<lparr>rd_reports := rd_reports s @ [row_of_report r digest now]\<rparr>) = Inr s1"
    "(if advances_state r s then project_report L I r now s1 else Inr s1) = Inr s2"
    "notify_report L I event now (retain_reports (rp_device r) s2) = Inr (k, s')" "x = (True, k)"
    unfolding new_report_def Let_def by (auto simp: bindE_Inr_iff)
  from a(3) have "rd_reports s' = rd_reports (retain_reports (rp_device r) s2) \<and> rd_findings s' = rd_findings (retain_reports (rp_device r) s2) \<and>
      rd_current s' = rd_current (retain_reports (rp_device r) s2) \<and> rd_state s' = rd_state (retain_reports (rp_device r) s2)"
    by (auto simp: notify_report_def bindE_Inr_iff split: option.splits)
  moreover have "rd_current (retain_reports (rp_device r) s2) = rd_current s2" "rd_state (retain_reports (rp_device r) s2) = rd_state s2"
    by (simp_all add: retain_reports_def Let_def)
  ultimately show ?thesis using that a by simp
qed

definition reports_inv :: "report_db \<Rightarrow> bool" where
  "reports_inv s \<longleftrightarrow> (\<forall>d. projection_fits d (rd_current s) \<and> reports_fit d s) \<and> distinct (map rr_id (rd_reports s))"

lemma reports_fit_same:
  assumes "filter (\<lambda>x. rr_device x = d) (rd_reports s') = filter (\<lambda>x. rr_device x = d) (rd_reports s)"
    and "\<And>x. x \<in> set (rd_reports s) \<Longrightarrow> rr_device x = d \<Longrightarrow> report_bytes (rd_findings s') x = report_bytes (rd_findings s) x"
  shows "reports_fit d s' = reports_fit d s"
proof -
  have "map (report_bytes (rd_findings s')) (filter (\<lambda>x. rr_device x = d) (rd_reports s)) =
      map (report_bytes (rd_findings s)) (filter (\<lambda>x. rr_device x = d) (rd_reports s))"
    by (rule map_cong [OF refl]) (use assms(2) in auto)
  from arg_cong [OF this, of sum_list] show ?thesis
    by (simp only: reports_fit_def device_bytes_def cnt_where_def assms(1))
qed

lemma replay_inv:
  assumes "replay_report r digest s = Inr (x, s')" and "reports_inv s"
  shows "reports_inv s'"
proof -
  note f = replay_report_Inr [OF assms(1)]
  have "map rr_id (upd_where p (\<lambda>y. y\<lparr>rr_digest := d\<rparr>) t) = map rr_id t" for p d t
    by (rule map_upd_where_key) simp
  then have "map rr_id (rd_reports s') = map rr_id (rd_reports s)" using f by auto
  moreover have "reports_fit d s' = reports_fit d s" for d
  proof (cases "rd_reports s' = rd_reports s")
    case False
    with f obtain p where p: "rd_reports s' = upd_where p (\<lambda>y. y\<lparr>rr_digest := digest\<rparr>) (rd_reports s)" by blast
    have b: "report_bytes t (y\<lparr>rr_digest := digest\<rparr>) = report_bytes t y" for t y by (simp add: report_bytes_def)
    have "map (report_bytes (rd_findings s)) (filter (\<lambda>x. rr_device x = d) (upd_where p (\<lambda>y. y\<lparr>rr_digest := digest\<rparr>) t)) =
        map (report_bytes (rd_findings s)) (filter (\<lambda>x. rr_device x = d) t)" for t
      by (induction t) (simp_all add: table_simps b)
    moreover have "cnt_where (\<lambda>x. rr_device x = d) (rd_reports s') = cnt_where (\<lambda>x. rr_device x = d) (rd_reports s)"
      unfolding p by (rule cnt_upd_where_same) simp
    ultimately show ?thesis using f by (simp add: reports_fit_def device_bytes_def p)
  qed (use f in \<open>simp add: reports_fit_def device_bytes_def\<close>)
  ultimately show ?thesis using assms(2) f by (simp add: reports_inv_def)
qed


lemma distinct_map_filter_zip: "distinct (map k t) \<Longrightarrow> distinct (map k (map snd (filter f (zip u t))))"
proof (induction t arbitrary: u)
  case (Cons a t)
  show ?case
  proof (cases u)
    case (Cons b v)
    have "set (map snd (filter f (zip v t))) \<subseteq> set t" by (auto dest: set_zip_rightD)
    with Cons.IH [of v] Cons.prems Cons show ?thesis by auto
  qed simp
qed simp

lemma retain_distinct:
  assumes "distinct (map rr_id (rd_reports s))"
  shows "distinct (map rr_id (rd_reports (retain_reports dev s)))"
  using assms by (simp only: retain_reports_def Let_def drop_orphans_reports)
    (simp add: trim_table_def budget_table_def Let_def distinct_map_filter_zip [unfolded map_map])

lemma retain_reports_set: "set (rd_reports (retain_reports dev s)) \<subseteq> set (rd_reports s)"
  using set_trim_subset set_budget_subset by (fastforce simp: retain_reports_def Let_def)

lemma retain_bytes:
  assumes "x \<in> set (rd_reports s)" and "rr_device x \<noteq> dev"
  shows "report_bytes (rd_findings (retain_reports dev s)) x = report_bytes (rd_findings s) x"
proof -
  define s1 where "s1 = s\<lparr>rd_reports := trim_table maxReportsPerDevice (\<lambda>x. rr_device x = dev) rr_completed (rd_reports s)\<rparr>"
  define s2 where "s2 = (drop_orphans s1)\<lparr>rd_reports := budget_table maxReportBytesPerDevice (report_bytes (rd_findings (drop_orphans s1)))
    (\<lambda>x. rr_device x = dev) rr_completed (rd_reports (drop_orphans s1))\<rparr>"
  have mem: "x \<in> set t" if "filter (\<lambda>y. rr_device y = rr_device x) t = filter (\<lambda>y. rr_device y = rr_device x) u" "x \<in> set u" for t u
    using arg_cong [OF that(1), of set] that(2) by auto
  have x1: "x \<in> set (rd_reports s1)"
    by (rule mem [OF _ assms(1)]) (use assms(2) in \<open>auto simp: s1_def intro: trim_other\<close>)
  have x2: "x \<in> set (rd_reports s2)"
    by (rule mem [OF _ x1]) (use assms(2) in \<open>auto simp: s2_def intro: budget_other\<close>)
  have "retain_reports dev s = drop_orphans s2" by (simp add: retain_reports_def Let_def s1_def s2_def)
  then have "report_bytes (rd_findings (retain_reports dev s)) x = report_bytes (rd_findings s2) x"
    by (simp add: report_bytes_kept [OF x2])
  also have "\<dots> = report_bytes (rd_findings (drop_orphans s1)) x" by (simp add: s2_def)
  also have "\<dots> = report_bytes (rd_findings s1) x" by (rule report_bytes_kept [OF x1])
  also have "\<dots> = report_bytes (rd_findings s) x" by (simp add: s1_def)
  finally show ?thesis .
qed

lemma new_inv:
  assumes "new_report L I r digest event now s = Inr (x, s')" and "reports_inv s" and fresh_id: "rp_id r \<notin> rr_id ` set (rd_reports s)"
  shows "reports_inv s'"
proof -
  from assms(1) obtain s1 s2 where s1: "save_findings L I (advances_state r s) r now 0 (rp_findings r)
        (s\<lparr>rd_reports := rd_reports s @ [row_of_report r digest now]\<rparr>) = Inr s1"
    and s2: "(if advances_state r s then project_report L I r now s1 else Inr s1) = Inr s2"
    and s': "rd_reports s' = rd_reports (retain_reports (rp_device r) s2)" "rd_findings s' = rd_findings (retain_reports (rp_device r) s2)"
      "rd_current s' = rd_current s2" "rd_state s' = rd_state s2"
    by (rule new_report_Inr)
  note f1 = save_findings_frame [OF s1]
  have f2: "rd_reports s2 = rd_reports s1" "rd_findings s2 = rd_findings s1"
    "\<And>d. d \<noteq> rp_device r \<Longrightarrow> filter (\<lambda>c. fd_device c = d) (rd_current s2) = filter (\<lambda>c. fd_device c = d) (rd_current s1)"
    "advances_state r s \<Longrightarrow> projection_fits (rp_device r) (rd_current s2)" "\<not> advances_state r s \<Longrightarrow> rd_current s2 = rd_current s1"
    using s2 project_report_frame by (auto split: if_splits)
  have reports: "rd_reports s2 = rd_reports s @ [row_of_report r digest now]" using f1 f2 by simp
  have dist: "distinct (map rr_id (rd_reports s'))"
    unfolding s'(1) by (rule retain_distinct) (use assms(2) fresh_id in \<open>simp add: reports reports_inv_def row_of_report_def\<close>)
  have proj: "projection_fits d (rd_current s')" for d
  proof (cases "advances_state r s \<and> d = rp_device r")
    case False
    then have "filter (\<lambda>c. fd_device c = d) (rd_current s') = filter (\<lambda>c. fd_device c = d) (rd_current s)"
      using f1 f2 s'(3) by (cases "d = rp_device r") auto
    from projection_fits_same_device [OF this] assms(2) show ?thesis by (simp add: reports_inv_def)
  qed (use f2 s' in simp)
  have fit: "reports_fit d s'" for d
  proof (cases "d = rp_device r")
    case True
    then show ?thesis using retain_reports_fit [of d s2] s' by (simp add: reports_fit_def device_bytes_def)
  next
    case False
    have "reports_fit d s' = reports_fit d s"
    proof (rule reports_fit_same)
      show "filter (\<lambda>x. rr_device x = d) (rd_reports s') = filter (\<lambda>x. rr_device x = d) (rd_reports s)"
        unfolding s'(1) using False by (subst filter_budget_keeps) (simp_all add: reports row_of_report_def)
      fix x assume x: "x \<in> set (rd_reports s)" "rr_device x = d"
      obtain new where new: "rd_findings s2 = rd_findings s @ new" "\<forall>f \<in> set new. fd_report f = rp_id r"
        using f1 f2 by auto
      have "filter (\<lambda>f. fd_report f = rr_id x) new = []" using new(2) fresh_id x(1) by (auto simp: filter_empty_conv)
      then have "report_bytes (rd_findings s2) x = report_bytes (rd_findings s) x" by (simp add: report_bytes_def new(1))
      moreover have "report_bytes (rd_findings s') x = report_bytes (rd_findings s2) x"
        unfolding s'(2) by (rule retain_bytes) (use x False reports in simp_all)
      ultimately show "report_bytes (rd_findings s') x = report_bytes (rd_findings s) x" by simp
    qed
    with assms(2) show ?thesis by (simp add: reports_inv_def)
  qed
  show ?thesis using dist proj fit by (simp add: reports_inv_def)
qed

section \<open>The machine of the report tables\<close>

text \<open>
  Reports come in, in any order and from any device; between them everything else the Controller does only concerns the
  cases.
\<close>

inductive report_step :: "report_lib \<Rightarrow> report_db \<Rightarrow> report_db \<Rightarrow> bool" for L where
  rs_save: "save_report L I r event now s = Inr (x, s') \<Longrightarrow> report_step L s s'"
| rs_cases: "report_step L s (s\<lparr>rd_cases := k\<rparr>)"

definition no_reports :: "report_db \<Rightarrow> bool" where
  "no_reports s \<longleftrightarrow> rd_reports s = [] \<and> rd_findings s = [] \<and> rd_current s = [] \<and> rd_state s = []"

lemma save_inv: "save_report L I r event now s = Inr (x, s') \<Longrightarrow> reports_inv s \<Longrightarrow> reports_inv s'"
  by (erule save_report_cases) (auto intro: replay_inv new_inv)

interpretation reportdb: machine no_reports "report_step L" reports_inv for L
proof
  fix s assume "no_reports s"
  then show "reports_inv s"
    by (simp add: no_reports_def reports_inv_def projection_fits_def reports_fit_def device_bytes_def table_simps)
next
  fix s t assume "reports_inv s" "report_step L s t"
  from this(2,1) show "reports_inv t"
  proof cases
    case rs_save
    then show ?thesis using save_inv \<open>reports_inv s\<close> by blast
  next
    case (rs_cases k)
    then show ?thesis using \<open>reports_inv s\<close> by (simp add: reports_inv_def reports_fit_def device_bytes_def)
  qed
qed

end
