(* ===== verification/RiskProps.thy ===== *)
theory RiskProps
  imports ReportProps
begin

text \<open>
  The properties of the report tables: bounds over every history, replays, and what the
  projection of the current risk shows after a report.
\<close>

section \<open>Bounds\<close>

text \<open>
  C34: Whatever reports devices sent, in whatever order, a device never has more than 1999 open risks besides the notice
  of the limit, 500 resolved ones, and eight megabytes of their text; nor more than a hundred reports and twenty
  megabytes of their content.
\<close>

theorem risk_projection_bounded:
  assumes "reach no_reports (report_step L) s"
  shows "cnt_where (\<lambda>c. fd_device c = dev \<and> fd_print c \<noteq> capacity_print \<and> fd_status c \<noteq> ''resolved'') (rd_current s) \<le> 1999 \<and>
    cnt_where (\<lambda>c. fd_device c = dev \<and> fd_status c = ''resolved'') (rd_current s) \<le> 500 \<and>
    sum_list (map finding_bytes (filter (\<lambda>c. fd_device c = dev \<and> fd_print c \<noteq> capacity_print) (rd_current s))) \<le> 8388608 \<and>
    cnt_where (\<lambda>x. rr_device x = dev) (rd_reports s) \<le> 100 \<and>
    sum_list (map (report_bytes (rd_findings s)) (filter (\<lambda>x. rr_device x = dev) (rd_reports s))) \<le> 20971520"
proof -
  have u: "unresolved dev = (\<lambda>c. fd_device c = dev \<and> fd_print c \<noteq> capacity_print \<and> fd_status c \<noteq> ''resolved'')"
    "resolved_row dev = (\<lambda>c. fd_device c = dev \<and> fd_status c = ''resolved'')"
    "of_device dev = (\<lambda>c. fd_device c = dev \<and> fd_print c \<noteq> capacity_print)"
    by (auto simp: unresolved_def resolved_row_def of_device_def fun_eq_iff)
  have "projection_fits dev (rd_current s) \<and> reports_fit dev s"
    using reportdb.reach_inv [OF assms] by (simp add: reports_inv_def)
  then show ?thesis
    unfolding projection_fits_def reports_fit_def device_bytes_def u
    by (simp add: maxCurrentFindingsPerDevice_def maxResolvedCurrentFindingsPerDevice_def maxCurrentFindingBytesPerDevice_def
        maxReportsPerDevice_def maxReportBytesPerDevice_def)
qed

section \<open>Replays\<close>

text \<open>
  C35: A report that was accepted and is still kept can be sent again, with other fresh identifiers, at any later time and
  with any notification: it is acknowledged as known, nothing is notified, and no table changes.
\<close>

theorem report_replayed:
  assumes "reach no_reports (report_step L) s" and "save_report L I r event now s = Inr (x, s')"
    and "rp_id r \<noteq> []" and "rp_id r \<in> rr_id ` set (rd_reports s')" and "rp_score r \<ge> 0 \<and> rp_score r \<le> 100"
  shows "save_report L I' r event' now' s' = Inr ((False, 0), s')"
proof -
  have same: "canonical_report I' r = canonical_report I r" and cid: "rp_id (canonical_report I r) = rp_id r"
    using assms(3) by (simp_all add: canonical_report_def)
  from assms(2) obtain digest where d: "ingest_digest L (canonical_report I r) = Some digest"
    "\<exists>y. find (\<lambda>y. rr_id y = rp_id r) (rd_reports s') = Some y \<and> rr_device y = rp_device r \<and> rr_digest y = digest"
  proof (cases rule: save_report_cases)
    case (Replayed digest)
    with replay_report_Inr [OF Replayed(2)] that show ?thesis by (simp add: cid)
  next
    case (New digest)
    let ?r = "canonical_report I r"
    from New(3) obtain s1 s2 where s1: "save_findings L I (advances_state ?r s) ?r now 0 (rp_findings ?r)
          (s\<lparr>rd_reports := rd_reports s @ [row_of_report ?r digest now]\<rparr>) = Inr s1"
      and s2: "(if advances_state ?r s then project_report L I ?r now s1 else Inr s1) = Inr s2"
      and s': "rd_reports s' = rd_reports (retain_reports (rp_device ?r) s2)"
      by (rule new_report_Inr)
    have "rd_reports s2 = rd_reports s @ [row_of_report ?r digest now]"
      using save_findings_frame [OF s1] s2 project_report_frame by (auto split: if_splits)
    then have sub: "set (rd_reports s') \<subseteq> insert (row_of_report ?r digest now) (set (rd_reports s))"
      using retain_reports_set [of "rp_device ?r" s2] s' by auto
    from assms(4) obtain y where y: "find (\<lambda>y. rr_id y = rp_id r) (rd_reports s') = Some y"
      by (cases "find (\<lambda>y. rr_id y = rp_id r) (rd_reports s')") (auto simp: find_None_iff)
    from find_SomeD [OF y] have "y \<in> set (rd_reports s')" "rr_id y = rp_id r" by simp_all
    with sub New(2) have "y = row_of_report ?r digest now" unfolding cid by (metis image_eqI insertE subsetD)
    then show ?thesis using that [OF New(1)] y by (simp add: row_of_report_def)
  qed
  from d(2) obtain y where y: "find (\<lambda>y. rr_id y = rp_id r) (rd_reports s') = Some y" "rr_device y = rp_device r" "rr_digest y = digest"
    by blast
  have "\<not> (rp_score (canonical_report I r) < 0 \<or> 100 < rp_score (canonical_report I r))"
    using assms(5) by (simp add: canonical_report_def)
  then show ?thesis
    unfolding save_report_def Let_def canonical_report_def [of I', symmetric] same
    using y d(1) assms(4) by (simp add: cid replay_report_def)
qed

section \<open>The current risk\<close>

lemma enforce_members:
  assumes "enforce_capacity cid r incomplete now t = Inr u" and "c \<in> set u"
  shows "c \<in> set t \<or> fd_status c \<noteq> FindingResolved"
proof -
  have sub: "set (trim_resolved dev y) \<subseteq> set y" "set (trim_unresolved dev y) \<subseteq> set y" "set (trim_bytes dev y) \<subseteq> set y" for dev y
    by (simp_all add: trim_resolved_def trim_unresolved_def trim_bytes_def set_trim_subset set_budget_subset)
  have put: "x \<in> set v \<or> fd_status x \<noteq> FindingResolved" if "put_current keep_first (capacity_row cid r k now) v = Inr w" "x \<in> set w"
    for k v w x
    using that(2) unfolding put_current_cases [OF that(1)] by (auto simp: set_upd_where capacity_row_def split: if_splits)
  show ?thesis
    using assms unfolding enforce_capacity_def Let_def
    by (auto split: if_splits simp: set_del_where dest!: put dest!: subsetD [OF sub(3)] dest: subsetD [OF sub(1)] subsetD [OF sub(2)])
qed

lemma resolved_only_checked:
  assumes "save_report L I r event now s = Inr (x, s')" and "\<forall>f \<in> set (rp_findings r). fd_status f \<noteq> ''resolved''"
    and "c \<in> set (rd_current s')" and "fd_status c = ''resolved''" and "c \<notin> set (rd_current s)"
  shows "fd_device c = rp_device r \<and> advances_state r s \<and> fd_print c \<notin> fd_print ` set (rp_findings r) \<and>
    (\<exists>cs. unavailable_categories L (nonempty_json (rp_summary r)) = (cs, False) \<and> fd_category c \<notin> set cs)"
  using assms(1)
proof (cases rule: save_report_cases)
  case (Replayed digest)
  with replay_report_Inr [OF Replayed(2)] assms(3,5) show ?thesis by simp
next
  case (New digest)
  let ?r = "canonical_report I r"
  from New(3) obtain s1 s2 where s1: "save_findings L I (advances_state ?r s) ?r now 0 (rp_findings ?r)
        (s\<lparr>rd_reports := rd_reports s @ [row_of_report ?r digest now]\<rparr>) = Inr s1"
    and s2: "(if advances_state ?r s then project_report L I ?r now s1 else Inr s1) = Inr s2" and s': "rd_current s' = rd_current s2"
    by (rule new_report_Inr)
  have adv: "advances_state ?r s = advances_state r s" by (simp add: advances_state_def split: option.split)
  show ?thesis
  proof (cases "advances_state r s")
    case False
    then show ?thesis using save_findings_frame [OF s1] s2 s' assms(3,5) by (simp add: adv)
  next
    case True
    obtain un pre where un: "unavailable_categories L (nonempty_json (rp_summary r)) = (un, pre)"
      by (cases "unavailable_categories L (nonempty_json (rp_summary r))")
    let ?t = "rd_current (resolve_missing (rp_device r) (map fd_print (rp_findings r)) un now s1)"
    from s2 True obtain inc where cap: "enforce_capacity (ri_capacity I) ?r inc now (if pre then rd_current s1 else ?t) = Inr (rd_current s2)"
      using un by (cases pre) (auto simp: adv project_report_def Let_def bindE_Inr_iff)
    have old: "d \<in> set (rd_current s)" if "d \<in> set (rd_current s1)" "fd_status d = FindingResolved" for d
      using save_findings_rows [of L I ?r now 0 "rp_findings r"] s1 True that assms(2) by (fastforce simp: adv)
    have "c \<in> set (if pre then rd_current s1 else ?t)"
      using enforce_members [OF cap, of c] assms(3,4) s' by auto
    with old assms(4,5) have "\<not> pre" "c \<in> set ?t" "c \<notin> set (rd_current s1)" by (auto split: if_splits)
    then obtain d where "d \<in> set (rd_current s1)" "resolvable (rp_device r) (map fd_print (rp_findings r)) un d"
      "c = d\<lparr>fd_status := FindingResolved, fd_updated := now\<rparr>"
      by (auto simp: resolve_missing_def set_upd_where split: if_splits)
    with un True \<open>\<not> pre\<close> show ?thesis by (auto simp: resolvable_def)
  qed
qed

text \<open>
  C36: A current risk becomes resolved only through a newer report of its own device that does not list it and whose scan
  checked its category; a report that is not newer than the last one resolves nothing.
\<close>

theorem risk_resolved_only_when_checked:
  assumes "save_report L I r event now s = Inr (x, s')" and "\<forall>f \<in> set (rp_findings r). fd_status f \<noteq> ''resolved''"
    and "c \<in> set (rd_current s')" and "fd_status c = ''resolved''" and "c \<notin> set (rd_current s)"
  shows "fd_device c = rp_device r \<and> advances_state r s \<and> fd_print c \<notin> fd_print ` set (rp_findings r) \<and>
    (\<exists>cs. unavailable_categories L (nonempty_json (rp_summary r)) = (cs, False) \<and> fd_category c \<notin> set cs)"
  by (rule resolved_only_checked [OF assms])

lemma kept_all:
  assumes "length u = length t" and "cnt_where q (map snd (filter f (zip u t))) = cnt_where q t" and "x \<in> set t" and "q x"
  shows "x \<in> set (map snd (filter f (zip u t)))"
  using assms
proof (induction t arbitrary: u)
  case (Cons a t)
  then obtain b v where u: "u = b # v" "length v = length t" by (cases u) auto
  have le: "cnt_where q (map snd (filter f (zip v t))) \<le> cnt_where q t" by (rule sublist_filter_le)
  show ?case
  proof (cases "f (b, a)")
    case True
    with Cons.prems u have "cnt_where q (map snd (filter f (zip v t))) = cnt_where q t" by (auto simp: table_simps split: if_splits)
    with Cons.IH [OF u(2)] Cons.prems(3,4) True u show ?thesis by auto
  next
    case False
    with Cons.prems(2) u le have "\<not> q a" "cnt_where q (map snd (filter f (zip v t))) = cnt_where q t"
      by (auto simp: table_simps split: if_splits)
    with Cons.IH [OF u(2)] Cons.prems(3,4) False u show ?thesis by auto
  qed
qed simp

lemma budget_all_kept:
  "cnt_where p (budget_table limit sz p k t) = cnt_where p t \<Longrightarrow> x \<in> set t \<Longrightarrow> p x \<Longrightarrow> x \<in> set (budget_table limit sz p k t)"
  unfolding budget_table_def Let_def by (rule kept_all [where q = p]) simp_all

lemma enforce_shows:
  assumes "enforce_capacity cid r incomplete now t = Inr u" and "c \<in> set t" and "unresolved (rp_device r) c"
  shows "c \<in> set u \<or> shown (rp_device r) capacity_print u"
proof -
  define dev where "dev = rp_device r"
  define t1 where "t1 = trim_resolved dev t"
  define t2 where "t2 = (if cnt_where (unresolved dev) t1 > maxCurrentFindingsPerDevice - 1 then trim_unresolved dev t1 else t1)"
  define t3 where "t3 = trim_bytes dev t2"
  define k where "k = cnt_where (unresolved dev) t1 - (maxCurrentFindingsPerDevice - 1) + (cnt_where (of_device dev) t2 - cnt_where (of_device dev) t3)"
  have u: "(if k > 0 then put_current keep_first (capacity_row cid r k now) t3
      else Inr (if incomplete then t3 else del_where (\<lambda>c. fd_device c = dev \<and> fd_print c = capacity_print) t3)) = Inr u"
    using assms(1) unfolding enforce_capacity_def Let_def dev_def [symmetric] t1_def [symmetric] t2_def [symmetric] t3_def [symmetric] k_def [symmetric] .
  show ?thesis
  proof (cases "k > 0")
    case True
    with u have put: "put_current keep_first (capacity_row cid r k now) t3 = Inr u" by simp
    let ?c = "capacity_row cid r k now"
    have "\<exists>y \<in> set u. same_finding dev capacity_print y \<and> fd_status y \<noteq> FindingResolved"
    proof (cases "list_ex (same_finding (fd_device ?c) (fd_print ?c)) t3")
      case True
      then obtain y where y: "y \<in> set t3" "same_finding (fd_device ?c) (fd_print ?c) y" by (auto simp: list_ex_iff)
      then have "keep_first y ?c \<in> set u"
        unfolding put_current_cases [OF put] using True in_upd_where [of y _ _ "\<lambda>y. keep_first y ?c"] by simp
      then show ?thesis by (rule bexI [rotated]) (simp add: same_finding_def, simp add: capacity_row_def dev_def)
    next
      case False
      then show ?thesis unfolding put_current_cases [OF put] by (auto simp: same_finding_def capacity_row_def dev_def)
    qed
    then show ?thesis by (simp add: shown_def dev_def)
  next
    case False
    then have few: "cnt_where (unresolved dev) t1 \<le> maxCurrentFindingsPerDevice - 1" and ge: "cnt_where (of_device dev) t2 \<le> cnt_where (of_device dev) t3"
      by (simp_all add: k_def)
    have t2: "t2 = t1" using few by (simp add: t2_def)
    have "filter (unresolved dev) t1 = filter (unresolved dev) t"
      unfolding t1_def trim_resolved_def by (rule trim_other) (simp add: unresolved_def)
    from arg_cong [OF this, of set] assms(2,3) have c1: "c \<in> set t2" by (auto simp: dev_def t2)
    have "cnt_where (of_device dev) t3 = cnt_where (of_device dev) t2"
      using ge cnt_budget_le unfolding t3_def trim_bytes_def by (rule order_antisym [rotated])
    then have "c \<in> set t3"
      unfolding t3_def trim_bytes_def using c1 assms(3) by (intro budget_all_kept) (simp_all add: unresolved_def dev_def)
    moreover have "fd_print c \<noteq> capacity_print" using assms(3) by (simp add: unresolved_def of_device_def)
    ultimately show ?thesis using u False by (auto simp: set_del_where split: if_splits)
  qed
qed

text \<open>
  C37: Every finding of a report that is newer than the last one is shown as an open risk of its device afterwards, or
  the notice that risks were omitted is: none is dropped silently.
\<close>

theorem reported_risk_shown:
  assumes "save_report L I r event now s = Inr (x, s')" and "fst x" and "advances_state r s"
    and "\<forall>f \<in> set (rp_findings r). fd_status f \<noteq> ''resolved''" and "f \<in> set (rp_findings r)" and "fd_print f \<noteq> capacity_print"
  shows "\<exists>c \<in> set (rd_current s'). fd_device c = rp_device r \<and> fd_status c \<noteq> ''resolved'' \<and>
    (fd_print c = fd_print f \<or> fd_print c = capacity_print)"
  using assms(1)
proof (cases rule: save_report_cases)
  case (Replayed digest)
  with replay_report_Inr [OF Replayed(2)] assms(2) show ?thesis by simp
next
  case (New digest)
  let ?r = "canonical_report I r"
  from New(3) obtain s1 s2 where s1: "save_findings L I (advances_state ?r s) ?r now 0 (rp_findings ?r)
        (s\<lparr>rd_reports := rd_reports s @ [row_of_report ?r digest now]\<rparr>) = Inr s1"
    and s2: "(if advances_state ?r s then project_report L I ?r now s1 else Inr s1) = Inr s2" and s': "rd_current s' = rd_current s2"
    by (rule new_report_Inr)
  have adv: "advances_state ?r s" using assms(3) by (simp add: advances_state_def split: option.splits)
  obtain un pre where un: "unavailable_categories L (nonempty_json (rp_summary r)) = (un, pre)"
    by (cases "unavailable_categories L (nonempty_json (rp_summary r))")
  let ?t = "rd_current (resolve_missing (rp_device r) (map fd_print (rp_findings r)) un now s1)"
  from s2 adv obtain inc where cap: "enforce_capacity (ri_capacity I) ?r inc now (if pre then rd_current s1 else ?t) = Inr (rd_current s2)"
    using un by (cases pre) (auto simp: project_report_def Let_def bindE_Inr_iff)
  have "shown (rp_device r) (fd_print f) (rd_current s1)"
    using save_findings_rows [of L I ?r now 0 "rp_findings r"] s1 adv assms(4,5) by auto
  then obtain c where c: "c \<in> set (rd_current s1)" "same_finding (rp_device r) (fd_print f) c" "fd_status c \<noteq> FindingResolved"
    by (auto simp: shown_def)
  have "\<not> resolvable (rp_device r) (map fd_print (rp_findings r)) un c"
    using c(2) assms(5) by (auto simp: resolvable_def same_finding_def)
  with c(1) have "c \<in> set (if pre then rd_current s1 else ?t)" by (auto simp: resolve_missing_def upd_where_def intro: rev_image_eqI)
  moreover have "unresolved (rp_device ?r) c" using c assms(6) by (simp add: unresolved_def of_device_def same_finding_def)
  ultimately have "c \<in> set (rd_current s2) \<or> shown (rp_device r) capacity_print (rd_current s2)" using enforce_shows [OF cap] by simp
  with c s' show ?thesis by (auto simp: shown_def same_finding_def)
qed

end
