(* ===== verification/RiskDemo.thy ===== *)
theory RiskDemo
  imports RiskProps StoreDemo
begin

text \<open>Closed instances of the properties of the report tables.\<close>

definition demo_rl :: report_lib where
  "demo_rl = \<lparr>rl_jx = demo_jx, rl_json = (\<lambda>r. Some (rp_id r)), rl_checks = (\<lambda>_. Some [])\<rparr>"

definition demo_ri :: report_ids where
  "demo_ri = \<lparr>ri_report = ''r9'', ri_finding = (\<lambda>_. ''f9''), ri_incident = (\<lambda>_. ''inc1''), ri_capacity = ''f8'', ri_notice = (''n1'', ''n2'')\<rparr>"

definition demo_risk :: finding_row where
  "demo_risk = \<lparr>fd_id = ''f1'', fd_report = [], fd_device = ''dev1'', fd_print = ''p1'', fd_category = ''ssh'', fd_severity = SeverityHigh,
     fd_title = ''t'', fd_description = ''d'', fd_evidence = [], fd_remedy = [], fd_status = ''open'', fd_first = 0, fd_last = 0\<rparr>"

definition demo_report :: report where
  "demo_report = \<lparr>rp_id = ''r1'', rp_device = ''dev1'', rp_started = 1, rp_completed = 2, rp_score = 90, rp_summary = ''{}'', rp_findings = [demo_risk]\<rparr>"

definition demo_clean :: report where
  "demo_clean = \<lparr>rp_id = ''r2'', rp_device = ''dev1'', rp_started = 1, rp_completed = 9, rp_score = 100, rp_summary = ''{}'', rp_findings = []\<rparr>"

definition demo_rd0 :: report_db where
  "demo_rd0 = \<lparr>rd_cases = \<lparr>cd_store = demo_store, cd_signals = [], cd_evidence = [], cd_investigations = []\<rparr>,
     rd_reports = [], rd_findings = [], rd_current = [], rd_state = []\<rparr>"

definition demo_open :: current_row where
  "demo_open = current_of demo_risk 5"

lemmas limits = maxReportsPerDevice_def maxReportBytesPerDevice_def maxCurrentFindingsPerDevice_def maxResolvedCurrentFindingsPerDevice_def
  maxCurrentFindingBytesPerDevice_def

lemma budget_small: "sum_list (map sz t) \<le> limit \<Longrightarrow> budget_table limit sz p k t = t"
proof -
  assume fits: "sum_list (map sz t) \<le> limit"
  have none: "acc + sum_list (map f xs) \<le> limit \<Longrightarrow> over_budget limit f acc xs = []" for f :: "nat \<times> 'a \<Rightarrow> nat" and acc xs
    by (induction xs arbitrary: acc) (auto simp: not_less)
  let ?sel = "filter (\<lambda>x. p (snd x)) (zip [0..<length t] t)"
  have "sum_list (map (\<lambda>x. sz (snd x)) (descending (\<lambda>x. k (snd x)) ?sel)) = sum_list (map (\<lambda>x. sz (snd x)) ?sel)"
    by (rule sum_perm) (simp_all add: descending_def distinct_zipI1)
  also have "\<dots> = sum_list (map sz (filter p t))"
    by (simp flip: filter_zip [of "[0..<length t]" t p] add: comp_def)
  also have "\<dots> \<le> sum_list (map sz t)" by (induction t) auto
  finally have "over_budget limit (\<lambda>x. sz (snd x)) 0 (descending (\<lambda>x. k (snd x)) ?sel) = []"
    using none [of 0] fits by simp
  then show ?thesis by (simp add: budget_table_def Let_def)
qed

lemma trim_small_table: "length t \<le> n \<Longrightarrow> trim_table n p k t = t"
  by (rule trim_few) (simp add: cnt_where_def le_trans [OF length_filter_le])

lemma retain_small:
  assumes "length (rd_reports s) \<le> 100" and "sum_list (map (report_bytes (rd_findings s)) (rd_reports s)) \<le> 20971520"
    and "drop_orphans s = s"
  shows "retain_reports dev s = s"
proof -
  have "trim_table 100 (\<lambda>x. rr_device x = dev) rr_completed (rd_reports s) = rd_reports s"
    by (rule trim_small_table [OF assms(1)])
  moreover have "budget_table 20971520 (report_bytes (rd_findings s)) (\<lambda>x. rr_device x = dev) rr_completed (rd_reports s) = rd_reports s"
    by (rule budget_small [OF assms(2)])
  moreover have "s\<lparr>rd_reports := rd_reports s\<rparr> = s" by simp
  ultimately show ?thesis using assms(3) by (simp only: retain_reports_def limits Let_def)
qed

lemma capacity_small:
  assumes "length t \<le> 500" and "sum_list (map finding_bytes t) \<le> 8388608" and "\<forall>c \<in> set t. fd_print c \<noteq> capacity_print"
  shows "enforce_capacity cid r incomplete now t = Inr t"
proof -
  have a: "trim_resolved dev t = t" "trim_bytes dev t = t" for dev
    using assms by (simp_all add: trim_resolved_def trim_bytes_def trim_small_table budget_small limits)
  have b: "cnt_where (unresolved (rp_device r)) t \<le> 500"
    using assms(1) length_filter_le [of "unresolved (rp_device r)" t] unfolding cnt_where_def by linarith
  then have few: "\<not> 1999 < cnt_where (unresolved (rp_device r)) t" "cnt_where (unresolved (rp_device r)) t - 1999 = 0" by simp_all
  have "del_where (\<lambda>c. fd_device c = rp_device r \<and> fd_print c = capacity_print) t = t"
    using assms(3) by (simp add: del_where_def)
  then show ?thesis
    unfolding enforce_capacity_def Let_def a maxCurrentFindingsPerDevice_def by (simp add: few a del: One_nat_def)
qed

lemma demo_lib_defs: "rl_jx demo_rl = demo_jx" "rl_checks demo_rl b = Some []" "rl_json demo_rl r = Some (rp_id r)"
  by (simp_all add: demo_rl_def)

lemma demo_available: "unavailable_categories demo_rl b = ([], False)"
  by (simp add: unavailable_categories_def demo_lib_defs)

text \<open>A report without findings, on the empty database but for some current rows.\<close>

definition saved_empty :: "report_lib \<Rightarrow> report \<Rightarrow> string \<Rightarrow> current_row list \<Rightarrow> report_db" where
  "saved_empty L r b cs = demo_rd0\<lparr>rd_reports := [row_of_report r (hex_encode (sha256 (jx_lib (rl_jx L)) b)) 10],
     rd_state := [\<lparr>ps_device = ''dev1'', ps_report = rp_id r, ps_completed = rp_completed r, ps_updated = 10\<rparr>], rd_current := cs\<rparr>"

definition resolved_now :: "string list \<Rightarrow> current_row list \<Rightarrow> current_row list" where
  "resolved_now un = upd_where (resolvable ''dev1'' [] un) (\<lambda>c. c\<lparr>fd_status := FindingResolved, fd_updated := 10\<rparr>)"

lemma empty_report_saved:
  assumes r: "rp_findings r = []" "rp_device r = ''dev1''" "rp_id r \<noteq> []" "rp_summary r \<noteq> []" "0 \<le> rp_score r" "rp_score r \<le> 100"
    "length (rp_summary r) \<le> 1000"
    and L: "unavailable_categories L (rp_summary r) = (un, False)" "rl_json L r = Some b"
    and t: "length t \<le> 500" "sum_list (map finding_bytes (resolved_now un t)) \<le> 8388608" "\<forall>c \<in> set t. fd_print c \<noteq> capacity_print"
  shows "save_report L demo_ri r None 10 (demo_rd0\<lparr>rd_current := t\<rparr>) = Inr ((True, 0), saved_empty L r b (resolved_now un t))"
proof -
  let ?u = "resolved_now un t"
  let ?digest = "hex_encode (sha256 (jx_lib (rl_jx L)) b)"
  have e: "enforce_capacity cid r incomplete now ?u = Inr ?u" for cid r incomplete now
    by (rule capacity_small) (use t in \<open>auto simp: resolved_now_def length_upd_where set_upd_where\<close>)
  have dig: "ingest_digest L r = Some ?digest" by (simp add: ingest_digest_def L)
  have can: "r\<lparr>rp_id := (if rp_id r = [] then ri_report demo_ri else rp_id r), rp_summary := nonempty_json (rp_summary r)\<rparr> = r"
    using r by (simp add: nonempty_json_def)
  have ret: "retain_reports ''dev1'' (saved_empty L r b ?u) = saved_empty L r b ?u"
  proof -
    have d: "drop_orphans (saved_empty L r b ?u) = saved_empty L r b ?u" by (simp add: drop_orphans_def saved_empty_def demo_rd0_def)
    show ?thesis
      by (rule retain_small) (use r(7) in \<open>simp_all only: d, simp_all add: saved_empty_def demo_rd0_def report_bytes_def row_of_report_def\<close>)
  qed
  have dev: "''dev1'' \<in> dv_id ` set (st_devices demo_store)" by (simp add: demo_store_def demo_device_def)
  have "new_report L demo_ri r ?digest None 10 (demo_rd0\<lparr>rd_current := t\<rparr>) = Inr ((True, 0), saved_empty L r b ?u)"
    using ret r L e unfolding resolved_now_def
    by (simp add: new_report_def advances_state_def project_report_def resolve_missing_def put_state_def notify_report_def
        demo_rd0_def saved_empty_def)
  then show ?thesis
    unfolding save_report_def Let_def can dig using dev r by (simp add: demo_rd0_def)
qed

definition demo_rd2 :: "current_row list \<Rightarrow> report_db" where
  "demo_rd2 = saved_empty demo_rl demo_clean ''r2''"

lemma demo_clean_saved:
  assumes "length t \<le> 500" and "sum_list (map finding_bytes (resolved_now [] t)) \<le> 8388608" and "\<forall>c \<in> set t. fd_print c \<noteq> capacity_print"
  shows "save_report demo_rl demo_ri demo_clean None 10 (demo_rd0\<lparr>rd_current := t\<rparr>) = Inr ((True, 0), demo_rd2 (resolved_now [] t))"
  unfolding demo_rd2_def
  by (rule empty_report_saved) (simp_all add: demo_available demo_lib_defs assms, simp_all add: demo_clean_def)

lemma demo_first: "save_report demo_rl demo_ri demo_clean None 10 demo_rd0 = Inr ((True, 0), demo_rd2 [])"
proof -
  have "demo_rd0\<lparr>rd_current := []\<rparr> = demo_rd0" by (simp add: demo_rd0_def)
  then show ?thesis using demo_clean_saved [of "[]"] by (simp add: resolved_now_def upd_where_def)
qed

lemma demo_resolved:
  "save_report demo_rl demo_ri demo_clean None 10 (demo_rd0\<lparr>rd_current := [demo_open]\<rparr>) =
     Inr ((True, 0), demo_rd2 [demo_open\<lparr>fd_status := ''resolved'', fd_updated := 10\<rparr>])"
proof -
  have f: "fd_device demo_open = ''dev1''" "fd_status demo_open = ''open''" "fd_print demo_open = ''p1''" "fd_category demo_open = ''ssh''"
    "fd_title demo_open = ''t''" "fd_description demo_open = ''d''" "fd_evidence demo_open = []" "fd_remedy demo_open = []"
    by (simp_all add: demo_open_def current_of_def demo_risk_def finding_row.defs)
  show ?thesis
    using demo_clean_saved [of "[demo_open]"] by (simp add: resolved_now_def upd_where_def resolvable_def f capacity_print_def finding_bytes_def)
qed

lemma risk_demo_reach: "reach no_reports (report_step demo_rl) (demo_rd2 [])"
proof (rule reach_step)
  show "reach no_reports (report_step demo_rl) demo_rd0" by (rule reach_init) (simp add: no_reports_def demo_rd0_def)
  show "report_step demo_rl demo_rd0 (demo_rd2 [])" by (rule rs_save [OF demo_first])
qed

theorem risk_projection_bounded_witness:
  "cnt_where (\<lambda>x. rr_device x = ''dev1'') (rd_reports (demo_rd2 [])) = 1 \<and>
   sum_list (map (report_bytes (rd_findings (demo_rd2 []))) (filter (\<lambda>x. rr_device x = ''dev1'') (rd_reports (demo_rd2 [])))) \<le> 20971520"
proof -
  have "cnt_where (\<lambda>x. rr_device x = ''dev1'') (rd_reports (demo_rd2 [])) = 1"
    by (simp add: demo_rd2_def saved_empty_def cnt_where_def row_of_report_def demo_clean_def)
  with risk_projection_bounded [OF risk_demo_reach, of "''dev1''"] show ?thesis by blast
qed

text \<open>The same report again, after a restart that draws other identifiers.\<close>

theorem report_replayed_witness:
  "save_report demo_rl (demo_ri\<lparr>ri_report := ''r77''\<rparr>) demo_clean None 99 (demo_rd2 []) = Inr ((False, 0), demo_rd2 [])"
proof (rule report_replayed [OF _ demo_first])
  show "reach no_reports (report_step demo_rl) demo_rd0" by (rule reach_init) (simp add: no_reports_def demo_rd0_def)
qed (simp_all add: demo_clean_def demo_rd2_def saved_empty_def row_of_report_def)

theorem risk_resolved_only_when_checked_witness:
  "advances_state demo_clean (demo_rd0\<lparr>rd_current := [demo_open]\<rparr>) \<and>
   unavailable_categories demo_rl (nonempty_json (rp_summary demo_clean)) = ([], False)"
proof -
  let ?c = "demo_open\<lparr>fd_status := ''resolved'', fd_updated := 10\<rparr>"
  have new: "?c \<notin> set (rd_current (demo_rd0\<lparr>rd_current := [demo_open]\<rparr>))"
    by (simp add: demo_open_def current_of_def demo_risk_def finding_row.defs)
  show ?thesis
    using risk_resolved_only_when_checked [OF demo_resolved _ _ _ new] by (simp add: demo_available demo_clean_def demo_rd2_def saved_empty_def)
qed

section \<open>A report with a finding\<close>

definition demo_stored :: finding_row where
  "demo_stored = demo_risk\<lparr>fd_report := ''r1'', fd_first := 2, fd_last := 2\<rparr>"

lemma demo_signal:
  "\<exists>x. upsert_signal demo_jx ''inc1'' (fst (signal_from_finding demo_jx demo_report demo_stored 10)) (snd (signal_from_finding demo_jx demo_report demo_stored 10))
     (rd_cases demo_rd0) = Inr x"
proof -
  have "trim_space ''p1'' = ''p1''" by code_simp
  moreover have "\<exists>x. x" by blast
  ultimately show ?thesis
  by (simp add: signal_from_finding_def demo_report_def demo_stored_def demo_risk_def demo_rd0_def Let_def
      upsert_signal_def signal_valid_def insert_signal_def trim_signals_def choose_incident_def active_incident_def
      active_count_def maxActiveIncidentsPerDevice_def capacity_key_def open_incident_def insert_incident_def opened_incident_def
      insert_timeline_def link_signal_def note_signal_def trim_timeline_def trim_closed_def cascade_def find_incident_def
      maxSignalsPerDevice_def maxTimelineEventsPerIncident_def maxIncidentsPerDevice_def trim_few cnt_where_def signal_key_def evidence_key_def
      correlation_unique_def incident_active_def del_where_def table_simps demo_store_defs nonempty_json_def demo_jx_def)
qed

lemma demo_shown: "\<exists>s'. save_report demo_rl demo_ri demo_report None 10 demo_rd0 = Inr ((True, 0), s')"
proof -
  let ?d = "hex_encode (sha256 (jx_lib demo_jx) ''r1'')"
  let ?row = "row_of_report demo_report ?d 10"
  obtain i k where sig: "upsert_signal demo_jx ''inc1'' (fst (signal_from_finding demo_jx demo_report demo_stored 10))
      (snd (signal_from_finding demo_jx demo_report demo_stored 10)) (rd_cases demo_rd0) = Inr (i, k)"
    using demo_signal by (metis surj_pair)
  let ?s1 = "demo_rd0\<lparr>rd_reports := [?row], rd_findings := [demo_stored], rd_current := [current_of demo_stored 10], rd_cases := k\<rparr>"
  have r: "rp_findings demo_report = [demo_risk]" "rp_device demo_report = ''dev1''" "rp_id demo_report = ''r1''" "rp_completed demo_report = 2"
    "rp_summary demo_report = ''{}''"
    by (simp_all add: demo_report_def)
  have z: "rd_reports demo_rd0 = []" "rd_findings demo_rd0 = []" "rd_current demo_rd0 = []" "rd_state demo_rd0 = []"
    by (simp_all add: demo_rd0_def)
  have st: "stored_finding demo_ri True demo_report 0 demo_risk (demo_rd0\<lparr>rd_reports := [?row]\<rparr>) = demo_stored"
    by (simp add: stored_finding_def first_seen_def z r demo_risk_def demo_stored_def descending_def)
  have "save_finding demo_rl demo_ri True demo_report 10 0 demo_risk (demo_rd0\<lparr>rd_reports := [?row]\<rparr>) = Inr ?s1"
    using sig unfolding save_finding_def st Let_def
    by (simp add: insert_finding_def put_current_def z case_prod_beta demo_lib_defs demo_ri_def)
  then have s1: "save_findings demo_rl demo_ri True demo_report 10 0 [demo_risk] (demo_rd0\<lparr>rd_reports := [?row]\<rparr>) = Inr ?s1" by simp
  let ?t = "upd_where (resolvable ''dev1'' [''p1''] []) (\<lambda>c. c\<lparr>fd_status := FindingResolved, fd_updated := 10\<rparr>) [current_of demo_stored 10]"
  have sp: "fd_print demo_stored = ''p1''" by (simp add: demo_stored_def demo_risk_def)
  have t: "?t = [current_of demo_stored 10]" by (simp add: upd_where_def resolvable_def sp)
  have e: "enforce_capacity cid r incomplete now [current_of demo_stored 10] = Inr [current_of demo_stored 10]" for cid r incomplete now
    by (rule capacity_small) (simp_all add: sp capacity_print_def, simp add: finding_bytes_def current_of_def demo_stored_def demo_risk_def finding_row.defs)
  have fp: "fd_print demo_risk = ''p1''" by (simp add: demo_risk_def)
  have "\<exists>s2. project_report demo_rl demo_ri demo_report 10 ?s1 = Inr s2"
    by (simp add: project_report_def demo_available resolve_missing_def r fp t e)
  then obtain s2 where s2: "project_report demo_rl demo_ri demo_report 10 ?s1 = Inr s2" by blast
  have adv: "advances_state demo_report demo_rd0" by (simp add: advances_state_def z)
  have "new_report demo_rl demo_ri demo_report ?d None 10 demo_rd0 = Inr ((True, 0), retain_reports ''dev1'' s2)"
    using s1 s2 by (simp add: new_report_def adv notify_report_def r z)
  moreover have "ingest_digest demo_rl demo_report = Some ?d" by (simp add: ingest_digest_def demo_lib_defs r)
  moreover have "demo_report\<lparr>rp_id := (if rp_id demo_report = [] then ri_report demo_ri else rp_id demo_report), rp_summary := nonempty_json (rp_summary demo_report)\<rparr> = demo_report"
    by (simp add: demo_report_def nonempty_json_def)
  moreover have "''dev1'' \<in> dv_id ` set (st_devices demo_store)" by (simp add: demo_store_def demo_device_def)
  moreover have "rp_score demo_report = 90" "cd_store (rd_cases demo_rd0) = demo_store" by (simp_all add: demo_report_def demo_rd0_def)
  ultimately show ?thesis by (simp add: save_report_def Let_def r z)
qed

theorem reported_risk_shown_witness:
  "\<exists>s'. save_report demo_rl demo_ri demo_report None 10 demo_rd0 = Inr ((True, 0), s') \<and>
     list_ex (\<lambda>c. fd_device c = ''dev1'' \<and> fd_status c \<noteq> ''resolved'' \<and> (fd_print c = ''p1'' \<or> fd_print c = capacity_print)) (rd_current s')"
proof -
  from demo_shown obtain s' where r: "save_report demo_rl demo_ri demo_report None 10 demo_rd0 = Inr ((True, 0), s')" by blast
  have adv: "advances_state demo_report demo_rd0" by (simp add: advances_state_def demo_rd0_def)
  have f: "rp_findings demo_report = [demo_risk]" "fd_print demo_risk = ''p1''" "fd_status demo_risk = ''open''" "rp_device demo_report = ''dev1''"
    by (simp_all add: demo_report_def demo_risk_def)
  show ?thesis
    using r reported_risk_shown [OF r _ adv, of demo_risk] by (auto simp: f list_ex_iff capacity_print_def)
qed

end
