(* ===== verification/Scanner.thy ===== *)
theory Scanner
  imports Reports FilePermission
begin

text \<open>
  The scanner (\<open>internal/scanner/scanner.go\<close>): the builtin checks over a host, the host behind a
  configured root, and the report of a scan.
\<close>

section \<open>The host\<close>

datatype probe = ProbeFirewall | ProbeUpdates | ProbeSSHEffective

text \<open>The error of a file operation: \<open>ErrNotExist\<close>, \<open>ErrPermission\<close>, or another one, with its text.\<close>

datatype file_error = NotExist string | NotPermitted string | FileFailed string

fun file_error_text :: "file_error \<Rightarrow> string" where
  "file_error_text (NotExist e) = e"
| "file_error_text (NotPermitted e) = e"
| "file_error_text (FileFailed e) = e"

record host =
  ho_read :: "string \<Rightarrow> file_error + bytes"
  ho_stat :: "string \<Rightarrow> file_error + file_mode"
  ho_probe :: "probe \<Rightarrow> string + bytes"
  ho_observer :: bool                 \<comment> \<open>\<open>isObserverRoot\<close>\<close>

section \<open>Text\<close>

text \<open>
  \<open>strings.ToLower\<close> as far as a comparison with ASCII text can tell: besides the ASCII letters only
  U+0130 and the Kelvin sign have an ASCII lower case.
\<close>

function to_lower :: "string \<Rightarrow> string" where
  "to_lower s =
     (if s = [] then []
      else if has_prefix s [CHR 0xC4, CHR 0xB0] then CHR ''i'' # to_lower (drop 2 s)
      else if has_prefix s [CHR 0xE2, CHR 0x84, CHR 0xAA] then CHR ''k'' # to_lower (drop 3 s)
      else ascii_lower (hd s) # to_lower (tl s))"
  by pat_completeness auto
termination by (relation "measure length") (auto simp: neq_Nil_conv)

declare to_lower.simps [simp del]

text \<open>
  The lines of a \<open>bufio.Scanner\<close> with its default buffer: it stops at a line that does not fit
  into 65536 bytes.
\<close>

definition max_token :: nat where "max_token = 65536"

definition drop_cr :: "string \<Rightarrow> string" where
  "drop_cr l = trim_suffix l [CHR 0x0D]"

fun fitting_lines :: "string list \<Rightarrow> string list" where
  "fitting_lines [] = []"
| "fitting_lines (l # ls) = (if length l < max_token then drop_cr l # fitting_lines ls else [])"

definition scan_lines :: "string \<Rightarrow> string list" where
  "scan_lines s = (let ls = split_on (CHR 0x0A) s in fitting_lines (if last ls = [] then butlast ls else ls))"

text \<open>\<open>strconv.ParseInt(s, 16, 32)\<close> where it succeeds.\<close>

definition hex_value :: "char \<Rightarrow> int option" where
  "hex_value c =
     (if is_digit c then Some (of_char c - 48)
      else if byte_in 97 102 c then Some (of_char c - 87)
      else if byte_in 65 70 c then Some (of_char c - 55) else None)"

fun hex_number :: "int \<Rightarrow> string \<Rightarrow> int option" where
  "hex_number n [] = Some n"
| "hex_number n (c # cs) = (case hex_value c of None \<Rightarrow> None | Some d \<Rightarrow> hex_number (16 * n + d) cs)"

definition parse_hex32 :: "string \<Rightarrow> int option" where
  "parse_hex32 s =
     (let neg = (s \<noteq> [] \<and> hd s = CHR ''-''); body = (if s \<noteq> [] \<and> hd s \<in> {CHR ''-'', CHR ''+''} then tl s else s)
      in if body = [] then None
         else case hex_number 0 body of
                None \<Rightarrow> None
              | Some n \<Rightarrow> if neg then (if n > 2147483648 then None else Some (- n)) else if n \<ge> 2147483648 then None else Some n)"

definition first_line :: "string \<Rightarrow> string" where
  "first_line s = (case cut (CHR 0x0A) s of None \<Rightarrow> trim_space s | Some (a, _) \<Rightarrow> trim_space a)"

section \<open>The checks\<close>

text \<open>A check returns findings and, perhaps at the same time, an error.\<close>

type_synonym check = "host \<Rightarrow> finding_row list \<times> string option"

definition finding :: "severity \<Rightarrow> string \<Rightarrow> string \<Rightarrow> string \<Rightarrow> string \<Rightarrow> string \<Rightarrow> finding_row" where
  "finding sev cat title desc evidence remedy = \<lparr>fd_id = [], fd_report = [], fd_device = [], fd_print = [], fd_category = cat,
     fd_severity = sev, fd_title = title, fd_description = desc, fd_evidence = evidence, fd_remedy = remedy, fd_status = [],
     fd_first = zero_time, fd_last = zero_time\<rparr>"

definition sshd_line :: "string \<Rightarrow> (string \<times> string) option" where
  "sshd_line raw =
     (let line = trim_space raw
      in if line = [] \<or> has_prefix line ''#'' \<or> has_prefix (to_lower line) ''match '' then None
         else case go_fields line of
                key # val # _ \<Rightarrow> Some (to_lower key, val)
              | _ \<Rightarrow> None)"

fun sshd_lines :: "string list \<Rightarrow> (string \<Rightarrow> string option) \<Rightarrow> (string \<Rightarrow> string option)" where
  "sshd_lines [] out = out"
| "sshd_lines (l # ls) out =
     (case sshd_line l of
        None \<Rightarrow> sshd_lines ls out
      | Some (k, v) \<Rightarrow> sshd_lines ls (if out k = None then out(k \<mapsto> v) else out))"

definition parse_sshd :: "string \<Rightarrow> string \<Rightarrow> string option" where
  "parse_sshd s = sshd_lines (scan_lines s) (\<lambda>_. None)"

text \<open>Reading a missing key of a map of texts gives the empty text.\<close>

definition setting :: "(string \<Rightarrow> string option) \<Rightarrow> string \<Rightarrow> string" where
  "setting m k = (case m k of None \<Rightarrow> [] | Some v \<Rightarrow> v)"

definition password_finding :: finding_row where
  "password_finding = finding SeverityHigh ''ssh'' ''SSH password authentication is enabled''
     ''Password authentication increases exposure to credential stuffing and brute-force attacks.'' ''PasswordAuthentication yes''
     ''Verify key-based access from a second session, then disable password authentication.''"

definition ssh_findings :: "(string \<Rightarrow> string option) \<Rightarrow> finding_row list" where
  "ssh_findings m =
     (if equal_fold (setting m ''passwordauthentication'') ''yes'' then [password_finding] else []) @
     (let root = to_lower (setting m ''permitrootlogin'')
      in if root = ''yes''
         then [finding SeverityHigh ''ssh'' ''Direct root SSH login is enabled'' ''Direct root login increases the impact of a compromised credential.''
           ''PermitRootLogin yes'' ''Use a named sudo account and set PermitRootLogin to prohibit-password or no.'']
         else if root = ''without-password'' \<or> root = ''prohibit-password''
         then [finding SeverityLow ''ssh'' ''Root SSH login is allowed with keys'' ''Root can still be accessed directly using a trusted key.''
           (''PermitRootLogin '' @ setting m ''permitrootlogin'') ''Prefer a named sudo account and set PermitRootLogin no.'']
         else [])"

definition check_ssh :: check where
  "check_ssh h =
     (case ho_probe h ProbeSSHEffective of
        Inr b \<Rightarrow> (ssh_findings (parse_sshd b), None)
      | Inl _ \<Rightarrow>
         (case ho_read h ''/etc/ssh/sshd_config'' of
            Inl (NotExist e) \<Rightarrow> ([], if ho_observer h then Some ''SSH configuration is not mounted in observer mode'' else None)
          | Inl e \<Rightarrow> ([], Some (file_error_text e))
          | Inr b \<Rightarrow>
             if contains (to_lower b) ''include ''
             then ([], Some ''effective SSH configuration unavailable and sshd_config contains Include directives'')
             else (ssh_findings (parse_sshd b), None)))"

definition privileged_account :: "string \<Rightarrow> string option" where
  "privileged_account line =
     (let f = split_on (CHR '':'') line
      in if length f < 7 then None
         else let (uid, ok) = atoi (f ! 2) in if ok \<and> uid = 0 \<and> f ! 0 \<noteq> ''root'' then Some (f ! 0) else None)"

definition check_passwd :: check where
  "check_passwd h =
     (case ho_read h ''/etc/passwd'' of
        Inl e \<Rightarrow> ([], Some (file_error_text e))
      | Inr b \<Rightarrow>
         (let privileged = sort (List.map_filter privileged_account (split_on (CHR 0x0A) b))
          in (if privileged = [] then []
              else [finding SeverityCritical ''identity'' ''Additional UID 0 accounts found''
                ''Accounts other than root have unrestricted system privileges.'' (join_text '', '' privileged)
                ''Confirm the accounts are expected, then assign non-zero UIDs or remove them.''], None)))"

definition other_access :: "file_mode \<Rightarrow> bool" where
  "other_access m \<longleftrightarrow> and (mode_perm m) 7 \<noteq> 0"

definition check_shadow :: check where
  "check_shadow h =
     (case ho_stat h ''/etc/shadow'' of
        Inl (NotExist e) \<Rightarrow> ([], if ho_observer h then Some ''shadow permission metadata is not mounted in observer mode'' else None)
      | Inl e \<Rightarrow> ([], Some (file_error_text e))
      | Inr m \<Rightarrow>
         (if other_access m
          then [finding SeverityHigh ''permissions'' ''/etc/shadow is accessible to other users''
            ''Password hash metadata must not be world-accessible.'' (''mode '' @ octal4 m)
            ''Restore distribution defaults, commonly root:shadow 0640 or root:root 0600.'']
          else [], None))"

definition ascii_upper :: "char \<Rightarrow> char" where
  "ascii_upper c = (if is_lower c then char_of (of_char c - 32 :: nat) else c)"

definition proc_loopback :: "string \<Rightarrow> bool" where
  "proc_loopback a \<longleftrightarrow> map ascii_upper a = ''0100007F'' \<or> map ascii_upper a = ''00000000000000000000000001000000''"

definition listening_port :: "string \<Rightarrow> int option" where
  "listening_port line =
     (let f = go_fields line
      in if length f < 4 \<or> f ! 3 \<noteq> ''0A'' then None
         else case split_on (CHR '':'') (f ! 1) of
                [address, port] \<Rightarrow> if proc_loopback address then None else parse_hex32 port
              | _ \<Rightarrow> None)"

text \<open>The ports of the tables, how many tables there were, and which were unavailable; or an error.\<close>

fun read_tables :: "host \<Rightarrow> string list \<Rightarrow> string + int list \<times> nat \<times> string list" where
  "read_tables h [] = Inr ([], 0, [])"
| "read_tables h (p # ps) =
     (case ho_read h p of
        Inr b \<Rightarrow> bindE (read_tables h ps) (\<lambda>(ports, n, un).
           Inr (List.map_filter listening_port (tl (split_on (CHR 0x0A) b)) @ ports, n + 1, un))
      | Inl (NotExist _) \<Rightarrow> bindE (read_tables h ps) (\<lambda>(ports, n, un). Inr (ports, n, if ho_observer h then p # un else un))
      | Inl e \<Rightarrow>
         (if ho_observer h then bindE (read_tables h ps) (\<lambda>(ports, n, un). Inr (ports, n, p # un))
          else Inl (file_error_text e)))"

definition check_ports :: check where
  "check_ports h =
     (case read_tables h (if ho_observer h then [''/proc/1/net/tcp'', ''/proc/1/net/tcp6''] else [''/proc/net/tcp'', ''/proc/net/tcp6'']) of
        Inl e \<Rightarrow> ([], Some e)
      | Inr (found, available, unavailable) \<Rightarrow>
         (let ports = sort (remdups (filter (\<lambda>p. p \<noteq> 22) found))
          in (if ports = [] then []
              else [finding SeverityInfo ''network'' ''Services listen on non-loopback interfaces''
                ''Review listening services and confirm each port is intentionally reachable beyond localhost.''
                (''Non-loopback TCP ports: '' @ join_text '', '' (map itoa ports))
                ''Restrict unnecessary listeners and firewall access to trusted networks.''],
              if ho_observer h \<and> (available = 0 \<or> unavailable \<noteq> [])
              then Some (''host TCP socket coverage is incomplete; unavailable: '' @ join_text '', '' unavailable) else None)))"

definition check_firewall :: check where
  "check_firewall h =
     (case ho_probe h ProbeFirewall of
        Inl e \<Rightarrow> ([], Some (''firewall status is unavailable: '' @ e))
      | Inr b \<Rightarrow>
         (if contains (to_lower b) ''status: inactive'' \<or> trim_space (to_lower b) = []
          then [finding SeverityHigh ''network'' ''Host firewall is inactive'' ''The server is relying only on external network controls.''
            (first_line b) ''Enable a deny-by-default host firewall after preserving management access.'']
          else [], None))"

definition check_updates :: check where
  "check_updates h =
     (case ho_probe h ProbeUpdates of
        Inl e \<Rightarrow> ([], Some (''package update status is unavailable: '' @ e))
      | Inr b \<Rightarrow>
         (let inst = filter (\<lambda>l. has_prefix l ''Inst '') (split_on (CHR 0x0A) b);
              packages = take 10 (List.map_filter (\<lambda>l. case go_fields l of _ # p # _ \<Rightarrow> Some p | _ \<Rightarrow> None) inst)
          in (if inst = [] then []
              else [finding (if length inst \<ge> 20 then SeverityHigh else SeverityMedium) ''updates'' ''System packages have pending updates''
                (itoa (int (length inst)) @ '' packages can be upgraded; not every pending update is necessarily security-related.'')
                (join_text '', '' packages)
                ''Review the package changes, create a backup or snapshot, then install distribution updates.''], None)))"

definition check_docker :: check where
  "check_docker h =
     (case ho_stat h ''/var/run/docker.sock'' of
        Inl (NotExist e) \<Rightarrow> ([], if ho_observer h then Some ''docker socket metadata is intentionally unavailable in observer mode'' else None)
      | Inl e \<Rightarrow> ([], Some (file_error_text e))
      | Inr m \<Rightarrow>
         (if other_access m
          then [finding SeverityCritical ''containers'' ''Docker socket is accessible to all users''
            ''Docker API access is effectively root-equivalent on the host.'' (''mode '' @ octal4 m)
            ''Remove world permissions and restrict Docker group membership.'']
          else [], None))"

section \<open>Kernel hardening\<close>

record kernel_control =
  kc_path :: string
  kc_minimum :: int
  kc_severity :: severity
  kc_title :: string
  kc_description :: string
  kc_remediation :: string

definition kernelControls :: "kernel_control list" where
  "kernelControls =
    [\<lparr>kc_path = ''/proc/sys/kernel/randomize_va_space'', kc_minimum = 2, kc_severity = SeverityMedium,
       kc_title = ''Full address-space randomization is disabled'',
       kc_description = ''Reduced ASLR makes memory-corruption exploitation more predictable.'',
       kc_remediation = ''Set kernel.randomize_va_space=2 through a managed sysctl configuration after compatibility testing.''\<rparr>,
     \<lparr>kc_path = ''/proc/sys/fs/protected_hardlinks'', kc_minimum = 1, kc_severity = SeverityMedium,
       kc_title = ''Protected hard links are disabled'',
       kc_description = ''Unprivileged users can create hard links in cases that weaken file ownership boundaries.'',
       kc_remediation = ''Set fs.protected_hardlinks=1 through a managed sysctl configuration.''\<rparr>,
     \<lparr>kc_path = ''/proc/sys/fs/protected_symlinks'', kc_minimum = 1, kc_severity = SeverityMedium,
       kc_title = ''Protected symbolic links are disabled'',
       kc_description = ''World-writable directories have weaker protection against symlink-following attacks.'',
       kc_remediation = ''Set fs.protected_symlinks=1 through a managed sysctl configuration.''\<rparr>,
     \<lparr>kc_path = ''/proc/sys/net/ipv4/tcp_syncookies'', kc_minimum = 1, kc_severity = SeverityLow,
       kc_title = ''TCP SYN cookies are disabled'',
       kc_description = ''The kernel cannot use SYN cookies as a fallback during a SYN backlog attack.'',
       kc_remediation = ''Set net.ipv4.tcp_syncookies=1 unless a documented network requirement prevents it.''\<rparr>,
     \<lparr>kc_path = ''/proc/sys/kernel/dmesg_restrict'', kc_minimum = 1, kc_severity = SeverityLow,
       kc_title = ''Kernel logs are readable by unprivileged users'',
       kc_description = ''Kernel diagnostics can expose addresses and system details useful to a local attacker.'',
       kc_remediation = ''Set kernel.dmesg_restrict=1 after confirming operational tooling does not depend on unrestricted dmesg access.''\<rparr>,
     \<lparr>kc_path = ''/proc/sys/kernel/kptr_restrict'', kc_minimum = 1, kc_severity = SeverityLow,
       kc_title = ''Kernel pointer exposure is not restricted'',
       kc_description = ''Kernel pointer disclosure can make local exploitation more reliable.'',
       kc_remediation = ''Set kernel.kptr_restrict=1 or 2 according to the host'' @ [CHR 0x27] @ ''s debugging requirements.''\<rparr>]"

definition trim_prefix :: "string \<Rightarrow> string \<Rightarrow> string" where
  "trim_prefix s p = (if has_prefix s p then drop (length p) s else s)"

definition kernel_finding :: "kernel_control \<Rightarrow> int \<Rightarrow> finding_row" where
  "kernel_finding c v = finding (kc_severity c) ''kernel'' (kc_title c) (kc_description c)
     (trim_prefix (kc_path c) ''/proc/sys/'' @ ''='' @ itoa v) (kc_remediation c)"

text \<open>Findings and unavailable controls; an unexpected error ends the check with what was found before.\<close>

fun check_controls :: "host \<Rightarrow> kernel_control list \<Rightarrow> finding_row list \<times> string list \<times> string option" where
  "check_controls h [] = ([], [], None)"
| "check_controls h (c # cs) =
     (case ho_read h (kc_path c) of
        Inl (FileFailed e) \<Rightarrow> ([], [], Some e)
      | Inl _ \<Rightarrow> (let (fs, un, e) = check_controls h cs in (fs, kc_path c # un, e))
      | Inr b \<Rightarrow>
         (let (fs, un, e) = check_controls h cs; (v, ok) = atoi (trim_space b)
          in if \<not> ok then (fs, (kc_path c @ '' (invalid value)'') # un, e)
             else if v < kc_minimum c then (kernel_finding c v # fs, un, e) else (fs, un, e)))"

definition check_kernel :: check where
  "check_kernel h =
     (let (fs, un, e) = check_controls h kernelControls
      in (fs, case e of
                Some t \<Rightarrow> Some t
              | None \<Rightarrow> if un \<noteq> [] then Some (''kernel hardening coverage is incomplete; unavailable: '' @ join_text '', '' un) else None))"

definition Builtins :: "(string \<times> check) list" where
  "Builtins = [(''ssh_configuration'', check_ssh), (''privileged_accounts'', check_passwd), (''shadow_permissions'', check_shadow),
     (''listening_ports'', check_ports), (''firewall'', check_firewall), (''kernel_hardening'', check_kernel),
     (''security_updates'', check_updates), (''docker_socket'', check_docker)]"

section \<open>The host behind a root\<close>

text \<open>\<open>filepath.Join\<close> of two elements.\<close>

definition path_join :: "string \<Rightarrow> string \<Rightarrow> string" where
  "path_join a b = (if a = [] then (if b = [] then [] else path_clean b) else path_clean (a @ ''/'' @ b))"

definition leaves_root :: "string \<Rightarrow> bool" where
  "leaves_root rel \<longleftrightarrow> rel = ''..'' \<or> has_prefix rel ''../''"

text \<open>\<open>SystemHost.resolve\<close>; \<open>eval\<close> is \<open>filepath.EvalSymlinks\<close>.\<close>

definition host_resolve :: "(string \<Rightarrow> file_error + string) \<Rightarrow> string \<Rightarrow> string \<Rightarrow> file_error + string" where
  "host_resolve eval root path =
     (if \<not> is_abs path then Inl (FileFailed ''host path must be absolute'')
      else let clean = path_clean (if root = [] then ''/'' else root);
               resolved = path_join clean (trim_prefix (path_clean path) ''/'')
           in if leaves_root (rel_path clean resolved) then Inl (FileFailed ''host path escapes configured root'')
              else bindE (eval resolved) (\<lambda>evaluated.
                if leaves_root (rel_path clean evaluated) then Inl (FileFailed ''host path escapes configured root through a symlink'')
                else Inr evaluated))"

text \<open>
  The system calls of \<open>SystemHost\<close>: resolving links, reading and inspecting a path, looking a program
  up, and running it with arguments.
\<close>

record sys_calls =
  sc_eval :: "string \<Rightarrow> file_error + string"
  sc_read :: "string \<Rightarrow> file_error + bytes"
  sc_stat :: "string \<Rightarrow> file_error + file_mode"
  sc_look :: "string \<Rightarrow> string + string"
  sc_run :: "string \<Rightarrow> string list \<Rightarrow> string + bytes"

fun probe_candidates :: "probe \<Rightarrow> string list list" where
  "probe_candidates ProbeFirewall = [[''ufw'', ''status''], [''nft'', ''list'', ''ruleset'']]"
| "probe_candidates ProbeUpdates = [[''apt-get'', ''-s'', ''-o'', ''Debug::NoLocking=1'', ''upgrade'']]"
| "probe_candidates ProbeSSHEffective = [[''sshd'', ''-T'']]"

text \<open>The first candidate that runs; otherwise the errors, joined by line ends.\<close>

fun try_probes :: "sys_calls \<Rightarrow> string list \<Rightarrow> string list list \<Rightarrow> string + bytes" where
  "try_probes S errs [] = Inl (join_text [CHR 0x0A] errs)"
| "try_probes S errs (argv # rest) =
     (case sc_look S (hd argv) of
        Inl e \<Rightarrow> try_probes S (errs @ [e]) rest
      | Inr program \<Rightarrow>
         (case sc_run S program (tl argv) of
            Inr out \<Rightarrow> Inr out
          | Inl e \<Rightarrow> try_probes S (errs @ [hd argv @ '': '' @ e]) rest))"

definition observer_root :: "string \<Rightarrow> bool" where
  "observer_root root \<longleftrightarrow> root \<noteq> [] \<and> path_clean root \<noteq> ''/''"

definition system_host :: "sys_calls \<Rightarrow> string \<Rightarrow> host" where
  "system_host S root =
     \<lparr>ho_read = (\<lambda>p. bindE (host_resolve (sc_eval S) root p) (sc_read S)),
      ho_stat = (\<lambda>p. bindE (host_resolve (sc_eval S) root p) (sc_stat S)),
      ho_probe = (\<lambda>p. if observer_root root then Inl ''command probes are unavailable in observer host-root mode''
                      else try_probes S [] (probe_candidates p)),
      ho_observer = observer_root root\<rparr>"

text \<open>\<open>NewSystemHost\<close>; \<open>lstat\<close> is the mode of the path itself.\<close>

definition new_system_host :: "sys_calls \<Rightarrow> (string \<Rightarrow> file_error + file_mode) \<Rightarrow> string \<Rightarrow> file_error + host" where
  "new_system_host S lstat root0 =
     (let root = (if root0 = [] then ''/'' else root0)
      in if \<not> is_abs root then Inl (FileFailed ''host root must be absolute'')
         else bindE (sc_eval S (path_clean root)) (\<lambda>canonical.
              bindE (lstat canonical) (\<lambda>m.
                if \<not> is_dir m \<or> is_symlink m then Inl (FileFailed ''host root must be a non-symlink directory'')
                else Inr (system_host S canonical))))"

section \<open>Quoting\<close>

text \<open>
  \<open>strconv.Quote\<close>; \<open>pr\<close> tells whether the rune of a UTF-8 sequence beyond ASCII is printable.
\<close>

definition rune_value :: "string \<Rightarrow> nat" where
  "rune_value s =
     (let c = of_char (s ! 0) :: nat
      in if length s = 1 then c
         else if length s = 2 then (c - 0xC0) * 64 + (of_char (s ! 1) - 0x80)
         else if length s = 3 then ((c - 0xE0) * 64 + (of_char (s ! 1) - 0x80)) * 64 + (of_char (s ! 2) - 0x80)
         else (((c - 0xF0) * 64 + (of_char (s ! 1) - 0x80)) * 64 + (of_char (s ! 2) - 0x80)) * 64 + (of_char (s ! 3) - 0x80))"

fun hex_text :: "nat \<Rightarrow> nat \<Rightarrow> string" where
  "hex_text 0 n = []"
| "hex_text (Suc k) n = hex_text k (n div 16) @ [hex_digit (n mod 16)]"

definition quote_ascii :: "char \<Rightarrow> string" where
  "quote_ascii c =
     (if c = CHR 0x22 \<or> c = CHR 0x5C then [CHR 0x5C, c]
      else if byte_in 0x20 0x7E c then [c]
      else if c = CHR 0x07 then [CHR 0x5C, CHR ''a''] else if c = CHR 0x08 then [CHR 0x5C, CHR ''b'']
      else if c = CHR 0x0C then [CHR 0x5C, CHR ''f''] else if c = CHR 0x0A then [CHR 0x5C, CHR ''n'']
      else if c = CHR 0x0D then [CHR 0x5C, CHR ''r''] else if c = CHR 0x09 then [CHR 0x5C, CHR ''t'']
      else if c = CHR 0x0B then [CHR 0x5C, CHR ''v'']
      else [CHR 0x5C, CHR ''x''] @ hex_text 2 (of_char c))"

function quote_body :: "(string \<Rightarrow> bool) \<Rightarrow> string \<Rightarrow> string" where
  "quote_body pr s =
     (if s = [] then []
      else let n = rune_len s; r = take n s
           in if n = 0 then [CHR 0x5C, CHR ''x''] @ hex_text 2 (of_char (hd s)) @ quote_body pr (tl s)
              else if n = 1 then quote_ascii (hd s) @ quote_body pr (tl s)
              else if pr r then r @ quote_body pr (drop n s)
              else if rune_value r < 0x10000 then [CHR 0x5C, CHR ''u''] @ hex_text 4 (rune_value r) @ quote_body pr (drop n s)
              else [CHR 0x5C, CHR ''U''] @ hex_text 8 (rune_value r) @ quote_body pr (drop n s))"
  by pat_completeness auto
termination by (relation "measure (\<lambda>(pr, s). length s)") (auto simp: neq_Nil_conv)

declare quote_body.simps [simp del]

definition go_quote :: "(string \<Rightarrow> bool) \<Rightarrow> string \<Rightarrow> string" where
  "go_quote pr s = [CHR 0x22] @ quote_body pr s @ [CHR 0x22]"

definition json_string_slice :: "(string \<Rightarrow> bool) \<Rightarrow> string list \<Rightarrow> string" where
  "json_string_slice pr v = (if v = [] then ''[]'' else ''['' @ join_text '','' (map (go_quote pr) v) @ '']'')"

section \<open>A scan\<close>

text \<open>
  \<open>si_sha256\<close> and \<open>si_print\<close> are the hash and the table of printable runes, \<open>si_cancel\<close> the error of the
  context before each check, \<open>si_mode\<close> the mode, and then the identifier and the two readings of the clock.
\<close>

record scan_input =
  si_sha256 :: "bytes \<Rightarrow> bytes"
  si_print :: "string \<Rightarrow> bool"
  si_cancel :: "nat \<Rightarrow> string option"
  si_mode :: string
  si_id :: string
  si_started :: instant
  si_completed :: instant

definition fingerprint :: "(bytes \<Rightarrow> bytes) \<Rightarrow> string list \<Rightarrow> string" where
  "fingerprint sha parts = hex_encode (sha (join_text [CHR 0x00] parts))"

definition label_finding :: "scan_input \<Rightarrow> string \<Rightarrow> string \<Rightarrow> finding_row \<Rightarrow> finding_row" where
  "label_finding I dev name f = f\<lparr>fd_device := dev, fd_status := FindingOpen,
     fd_print := fingerprint (si_sha256 I) [name, fd_title f, fd_evidence f]\<rparr>"

text \<open>The findings and the check errors of the checks from the \<open>n\<close>th on.\<close>

fun run_checks :: "scan_input \<Rightarrow> string \<Rightarrow> host \<Rightarrow> nat \<Rightarrow> (string \<times> check) list \<Rightarrow> string + finding_row list \<times> string list" where
  "run_checks I dev h n [] = Inr ([], [])"
| "run_checks I dev h n ((name, chk) # cs) =
     (case si_cancel I n of
        Some e \<Rightarrow> Inl e
      | None \<Rightarrow>
         (let (items, e) = chk h
          in bindE (run_checks I dev h (n + 1) cs) (\<lambda>(fs, es).
               Inr (map (label_finding I dev name) items @ fs, (case e of None \<Rightarrow> es | Some t \<Rightarrow> (name @ '': '' @ t) # es)))))"

fun penalty :: "severity \<Rightarrow> int" where
  "penalty SeverityCritical = 30"
| "penalty SeverityHigh = 18"
| "penalty SeverityMedium = 8"
| "penalty SeverityLow = 3"
| "penalty SeverityInfo = 0"

definition coverage :: "nat \<Rightarrow> nat \<Rightarrow> int" where
  "coverage checks errs = (if checks > 0 then tdiv ((int checks - int errs) * 100) (int checks) else 100)"

definition scan_score :: "finding_row list \<Rightarrow> int \<Rightarrow> int" where
  "scan_score fs cov =
     (let score = 100 - sum_list (map (\<lambda>f. penalty (fd_severity f)) fs); score' = (if score < 0 then 0 else score)
      in if score' > cov then cov else score')"

definition scan_summary :: "scan_input \<Rightarrow> nat \<Rightarrow> string list \<Rightarrow> nat \<Rightarrow> string" where
  "scan_summary I checks errs found =
     ''{\"checks\":'' @ itoa (int checks) @ '',\"completedChecks\":'' @ itoa (int checks - int (length errs)) @
     '',\"coveragePercent\":'' @ itoa (coverage checks (length errs)) @ '',\"findingCount\":'' @ itoa (int found) @
     '',\"checkErrors\":'' @ json_string_slice (si_print I) errs @ '',\"mode\":'' @ go_quote (si_print I) (si_mode I) @ ''}''"

definition scan :: "scan_input \<Rightarrow> (string \<times> check) list \<Rightarrow> string \<Rightarrow> host \<Rightarrow> string + report" where
  "scan I checks dev h =
     bindE (run_checks I dev h 0 checks) (\<lambda>(fs, es).
       Inr \<lparr>rp_id = si_id I, rp_device = dev, rp_started = si_started I, rp_completed = si_completed I,
         rp_score = scan_score fs (coverage (length checks) (length es)),
         rp_summary = scan_summary I (length checks) es (length fs), rp_findings = fs\<rparr>)"

end
