(* ===== verification/ScanProps.thy ===== *)
theory ScanProps
  imports Scanner RiskProps PermissionPaths
begin

text \<open>
  The scanner: its score, its fingerprints, the containment of its host in a root, the reading of
  the SSH configuration; and, together with the report tables, what a check that failed keeps.
\<close>

section \<open>Scores\<close>

lemma run_checks_errors: "run_checks I dev h n cs = Inr (fs, es) \<Longrightarrow> length es \<le> length cs"
  by (induction cs arbitrary: n fs es)
    (auto simp: bindE_Inr_iff split: option.splits prod.splits, (force simp: le_Suc_eq)+)

lemma run_checks_labels:
  "run_checks I dev h n cs = Inr (fs, es) \<Longrightarrow> f \<in> set fs \<Longrightarrow>
   fd_device f = dev \<and> fd_status f = FindingOpen \<and> (\<exists>p. fd_print f = hex_encode p)"
proof (induction cs arbitrary: n fs es)
  case (Cons x cs)
  obtain name c where x: "x = (name, c)" by (cases x)
  obtain items e where c: "c h = (items, e)" by (cases "c h")
  from Cons.prems(1) x c obtain fs' es' where r: "run_checks I dev h (n + 1) cs = Inr (fs', es')"
    and fs: "fs = map (label_finding I dev name) items @ fs'"
    by (auto simp: bindE_Inr_iff split: option.splits)
  from Cons.prems(2) fs Cons.IH [OF r] show ?case by (auto simp: label_finding_def fingerprint_def)
qed simp

lemma penalty_nonneg: "penalty v \<ge> 0" and penalty_0_iff: "penalty v = 0 \<longleftrightarrow> v = SeverityInfo"
  by (cases v; simp)+

lemma penalties_nonneg: "sum_list (map (\<lambda>f. penalty (fd_severity f)) fs) \<ge> 0"
  by (induction fs) (simp_all add: penalty_nonneg)

lemma penalties_0: "sum_list (map (\<lambda>f. penalty (fd_severity f)) fs) \<le> 0 \<Longrightarrow> f \<in> set fs \<Longrightarrow> fd_severity f = SeverityInfo"
proof (induction fs)
  case (Cons g fs)
  have "penalty (fd_severity g) \<ge> 0" "sum_list (map (\<lambda>f. penalty (fd_severity f)) fs) \<ge> 0"
    by (rule penalty_nonneg, rule penalties_nonneg)
  with Cons.prems(1) have "penalty (fd_severity g) = 0" "sum_list (map (\<lambda>f. penalty (fd_severity f)) fs) \<le> 0" by simp_all
  with Cons show ?case by (auto simp: penalty_0_iff)
qed simp

lemma coverage_range:
  assumes "k \<le> n"
  shows "0 \<le> coverage n k" and "coverage n k \<le> 100" and "coverage n k = 100 \<Longrightarrow> k = 0"
proof -
  have nn: "\<not> (int n - int k) * 100 < 0" using assms by simp
  have c: "n > 0 \<Longrightarrow> coverage n k = (int n - int k) * 100 div int n"
    using nn by (simp add: coverage_def tdiv_def)
  show "0 \<le> coverage n k"
    using c assms by (cases "n = 0") (auto simp: coverage_def pos_imp_zdiv_nonneg_iff)
  have le: "(int n - int k) * 100 \<le> 100 * int n" by simp
  show "coverage n k \<le> 100"
  proof (cases "n = 0")
    case False
    have "(int n - int k) * 100 div int n \<le> 100 * int n div int n" by (rule zdiv_mono1 [OF le]) (use False in simp)
    with c False show ?thesis by simp
  qed (simp add: coverage_def)
  show "k = 0" if "coverage n k = 100"
  proof (cases "n = 0")
    case False
    with c that have "(int n - int k) * 100 div int n = 100" by simp
    then have "100 * int n \<le> (int n - int k) * 100"
      using div_mult_mod_eq [of "(int n - int k) * 100" "int n"] False pos_mod_sign [of "int n" "(int n - int k) * 100"] by simp
    then show ?thesis by simp
  qed (use assms in simp)
qed

lemma hex_digits: "c \<in> set (hex_encode p) \<Longrightarrow> c \<noteq> CHR '':''"
proof -
  assume "c \<in> set (hex_encode p)"
  then obtain d :: char where "c = hex_digit (of_char d div 16) \<or> c = hex_digit (of_char d mod 16)"
    by (auto simp: hex_encode_def)
  moreover have "of_char d div 16 < (16 :: nat)" "of_char d mod 16 < (16 :: nat)"
    using nat_of_char_less_256 [of d] by (simp_all add: less_mult_imp_div_less)
  ultimately obtain n where n: "n < 16" "c = hex_digit n" by blast
  then have "n \<in> set [0..<16]" by simp
  moreover have "list_all (\<lambda>n. hex_digit n \<noteq> CHR '':'') [0..<16]" by code_simp
  ultimately show ?thesis using n by (auto simp: list_all_iff)
qed

lemma hex_not_capacity: "hex_encode p \<noteq> capacity_print"
proof
  assume "hex_encode p = capacity_print"
  moreover have "CHR '':'' \<in> set capacity_print" by (simp add: capacity_print_def)
  ultimately show False using hex_digits [of "CHR '':''" p] by simp
qed

text \<open>
  C39: Whatever the host is and whatever checks run, the score of a scan is one a report may have; it is a hundred only
  if every check completed and nothing but information was found; and the findings are open, of the device, and
  can not be taken for the notice of the limit.
\<close>

theorem scan_score_sound:
  assumes "scan I checks dev h = Inr r"
  shows "0 \<le> rp_score r \<and> rp_score r \<le> 100 \<and>
    (rp_score r = 100 \<longrightarrow> (\<forall>f \<in> set (rp_findings r). fd_severity f = SeverityInfo) \<and>
       (\<exists>fs. run_checks I dev h 0 checks = Inr (fs, []))) \<and>
    (\<forall>f \<in> set (rp_findings r). fd_device f = dev \<and> fd_status f = ''open'' \<and> fd_print f \<noteq> capacity_print)"
proof -
  from assms obtain fs es where r: "run_checks I dev h 0 checks = Inr (fs, es)"
    and score: "rp_score r = scan_score fs (coverage (length checks) (length es))" and fs: "rp_findings r = fs"
    by (auto simp: scan_def bindE_Inr_iff)
  note cov = coverage_range [OF run_checks_errors [OF r]]
  have labels: "fd_device f = dev \<and> fd_status f = ''open'' \<and> fd_print f \<noteq> capacity_print" if "f \<in> set fs" for f
    using run_checks_labels [OF r that] hex_not_capacity by metis
  have pen: "sum_list (map (\<lambda>f. penalty (fd_severity f)) fs) \<ge> 0" by (rule penalties_nonneg)
  have best: "(\<forall>f \<in> set fs. fd_severity f = SeverityInfo) \<and> es = []" if "rp_score r = 100"
  proof -
    have "sum_list (map (\<lambda>f. penalty (fd_severity f)) fs) \<le> 0" "coverage (length checks) (length es) = 100"
      using that cov(1,2) by (auto simp: score scan_score_def Let_def split: if_splits)
    then show ?thesis using penalties_0 cov(3) by auto
  qed
  have "0 \<le> rp_score r" "rp_score r \<le> 100"
    using cov(1,2) pen by (auto simp: score scan_score_def Let_def)
  with best labels r show ?thesis unfolding fs by blast
qed

section \<open>The host behind a root\<close>

text \<open>
  A file the scanner opens lies at or below the configured root, component by component, whatever links the path
  led through.
\<close>

theorem host_file_contained:
  assumes "host_resolve eval root p = Inr q" and "is_abs root" and "\<forall>x y. eval x = Inr y \<longrightarrow> is_abs y"
  shows "is_abs q \<and> (\<exists>es. path_elems q = path_elems (path_clean root) @ es)"
proof -
  let ?c = "path_clean root"
  have ne: "root \<noteq> []" using assms(2) by (auto simp: is_abs_def)
  from assms(1) ne obtain x where x: "eval x = Inr q" and l: "\<not> leaves_root (rel_path ?c q)"
    by (auto simp: host_resolve_def Let_def bindE_Inr_iff split: if_splits)
  from rel_elems_cases [of "path_elems q" "path_elems ?c"]
  have "\<exists>es. path_elems q = path_elems ?c @ es"
  proof
    assume "\<exists>r. rel_elems (path_elems ?c) (path_elems q) = ''..'' # r"
    then obtain r where r: "rel_elems (path_elems ?c) (path_elems q) = ''..'' # r" by blast
    have "leaves_root (rel_path ?c q)"
      using join_text_hd [of r "''..''"] r by (cases "r = []") (auto simp: leaves_root_def rel_path_def Let_def has_prefix_iff)
    with l show ?thesis by simp
  qed blast
  with x assms(3) show ?thesis by blast
qed

section \<open>Reading the SSH configuration\<close>

lemma sshd_lines_map: "sshd_lines ls out k = (case out k of Some v \<Rightarrow> Some v | None \<Rightarrow> map_of (List.map_filter sshd_line ls) k)"
  by (induction ls arbitrary: out) (auto simp: map_filter_def split: option.split)

text \<open>The first value of a directive counts.\<close>

lemma parse_sshd_first: "parse_sshd s k = map_of (List.map_filter sshd_line (scan_lines s)) k"
  by (simp add: parse_sshd_def sshd_lines_map)

section \<open>Checks and the categories of the report tables\<close>

text \<open>
  The contract between the scanner and \<open>findingCategoriesByCheck\<close>: every builtin check but one is listed
  there, under a name without a colon, with the categories of everything it can find.
\<close>

lemma control_categories: "f \<in> set (fst (check_controls h cs)) \<Longrightarrow> fd_category f = ''kernel''"
  by (induction cs) (auto simp: kernel_finding_def finding_def split: sum.splits file_error.splits prod.splits if_splits)

lemma check_categories:
  "f \<in> set (fst (check_ssh h)) \<Longrightarrow> fd_category f = ''ssh''"
  "f \<in> set (fst (check_passwd h)) \<Longrightarrow> fd_category f = ''identity''"
  "f \<in> set (fst (check_shadow h)) \<Longrightarrow> fd_category f = ''permissions''"
  "f \<in> set (fst (check_ports h)) \<Longrightarrow> fd_category f = ''network''"
  "f \<in> set (fst (check_firewall h)) \<Longrightarrow> fd_category f = ''network''"
  "f \<in> set (fst (check_updates h)) \<Longrightarrow> fd_category f = ''updates''"
  "f \<in> set (fst (check_docker h)) \<Longrightarrow> fd_category f = ''containers''"
  "f \<in> set (fst (check_kernel h)) \<Longrightarrow> fd_category f = ''kernel''"
proof -
  have ssh: "f \<in> set (ssh_findings m) \<Longrightarrow> fd_category f = ''ssh''" for m
    by (auto simp: ssh_findings_def password_finding_def finding_def Let_def split: if_splits)
  show "f \<in> set (fst (check_ssh h)) \<Longrightarrow> fd_category f = ''ssh''"
    by (auto simp: check_ssh_def dest!: ssh split: sum.splits file_error.splits if_splits)
qed (auto simp: check_passwd_def check_shadow_def check_ports_def check_firewall_def check_updates_def check_docker_def check_kernel_def
    finding_def Let_def dest!: control_categories split: sum.splits file_error.splits prod.splits if_splits,
    metis control_categories fst_conv)

lemma builtin_name:
  assumes "(name, c) \<in> set Builtins"
  shows "CHR '':'' \<notin> set name" and "trim_space name = name"
proof -
  from assms have n: "name \<in> set (map fst Builtins)" by (metis fst_conv image_eqI set_map)
  have names: "map fst Builtins = [''ssh_configuration'', ''privileged_accounts'', ''shadow_permissions'', ''listening_ports'', ''firewall'',
      ''kernel_hardening'', ''security_updates'', ''docker_socket'']"
    by (simp add: Builtins_def)
  have "list_all (\<lambda>n. CHR '':'' \<notin> set n \<and> trim_space n = n) [''ssh_configuration'', ''privileged_accounts'', ''shadow_permissions'',
      ''listening_ports'', ''firewall'', ''kernel_hardening'', ''security_updates'', ''docker_socket'']"
    by code_simp
  with n show "CHR '':'' \<notin> set name" "trim_space name = name" unfolding names by (auto simp: list_all_iff)
qed

lemma builtin_listed:
  assumes "(name, c) \<in> set Builtins" and "f \<in> set (fst (c h))" and "map_of findingCategoriesByCheck name = Some cs"
  shows "fd_category f \<in> set cs"
  using assms by (auto simp: Builtins_def findingCategoriesByCheck_def dest!: check_categories)

lemma failed_categories_mem:
  "failed_categories es = Some cs \<Longrightarrow> (name @ '': '' @ t) \<in> set es \<Longrightarrow> CHR '':'' \<notin> set name \<Longrightarrow> trim_space name = name \<Longrightarrow>
   \<exists>ds. map_of findingCategoriesByCheck name = Some ds \<and> set ds \<subseteq> set cs"
proof (induction es arbitrary: cs)
  case (Cons e es)
  have c: "cut (CHR '':'') (name @ '': '' @ t) = Some (name, '' '' @ t)" if "CHR '':'' \<notin> set name"
    using cut_append [OF that, of "'' '' @ t"] by simp
  from Cons.prems(1) obtain a b ds ds' where e: "cut (CHR '':'') e = Some (a, b)" "map_of findingCategoriesByCheck (trim_space a) = Some ds"
    "failed_categories es = Some ds'" "cs = ds @ ds'"
    by (auto split: option.splits)
  show ?case
  proof (cases "e = name @ '': '' @ t")
    case True
    with c [OF Cons.prems(3)] e Cons.prems(4) show ?thesis by auto
  next
    case False
    with Cons.prems(2) have "name @ '': '' @ t \<in> set es" by simp
    from Cons.IH [OF e(3) this Cons.prems(3,4)] e(4) show ?thesis by auto
  qed
qed simp

lemma failed_check_recorded:
  "run_checks I dev h n cs = Inr (fs, es) \<Longrightarrow> (name, c) \<in> set cs \<Longrightarrow> snd (c h) = Some t \<Longrightarrow> (name @ '': '' @ t) \<in> set es"
proof (induction cs arbitrary: n fs es)
  case (Cons x cs)
  obtain m d where x: "x = (m, d)" by (cases x)
  from Cons.prems(1) x obtain fs' es' where r: "run_checks I dev h (n + 1) cs = Inr (fs', es')"
    and es: "es = (case snd (d h) of None \<Rightarrow> es' | Some t \<Rightarrow> (m @ '': '' @ t) # es')"
    by (auto simp: bindE_Inr_iff split: option.splits prod.splits)
  show ?case
  proof (cases "(name, c) = x")
    case True
    with Cons.prems(3) x es show ?thesis by simp
  next
    case False
    with Cons.prems(2) have "(name, c) \<in> set cs" by auto
    from Cons.IH [OF r this Cons.prems(3)] es show ?thesis by (auto split: option.split)
  qed
qed simp

section \<open>A scan and the current risk\<close>

text \<open>
  C38: When a builtin check could not complete, storing the report of the scan resolves no risk of a category that check
  reports on; so a risk disappears from the administrator's view only because it was looked for.  (The decoder of the
  summary reads back the check errors that were written into it.)
\<close>

theorem failed_check_keeps_risk:
  assumes "scan I Builtins dev h = Inr r" and "run_checks I dev h 0 Builtins = Inr (fs, es)" and "rl_checks L (rp_summary r) = Some es"
    and "(name, c) \<in> set Builtins" and "snd (c h) = Some t" and "f \<in> set (fst (c h'))"
    and "save_report L J r event now s = Inr (x, s')"
    and "d \<in> set (rd_current s')" and "fd_category d = fd_category f" and "fd_status d = ''resolved''"
  shows "d \<in> set (rd_current s)"
proof (rule ccontr)
  assume new: "d \<notin> set (rd_current s)"
  have fs: "rp_findings r = fs" and sum: "rp_summary r \<noteq> []"
    using assms(1,2) by (auto simp: scan_def scan_summary_def)
  have open_all: "\<forall>f \<in> set (rp_findings r). fd_status f \<noteq> ''resolved''"
    using run_checks_labels [OF assms(2)] fs by auto
  from resolved_only_checked [OF assms(7) open_all assms(8,10) new]
  obtain cs where un: "unavailable_categories L (nonempty_json (rp_summary r)) = (cs, False)" and cat: "fd_category d \<notin> set cs" by blast
  from un sum obtain ds where ds: "failed_categories es = Some ds" "cs = sort (remdups ds)"
    by (auto simp: unavailable_categories_def nonempty_json_def assms(3) split: option.splits if_splits)
  from failed_categories_mem [OF ds(1) failed_check_recorded [OF assms(2,4,5)] builtin_name [OF assms(4)]]
  obtain ks where "map_of findingCategoriesByCheck name = Some ks" "set ks \<subseteq> set ds" by blast
  with builtin_listed [OF assms(4,6)] have "fd_category f \<in> set ds" by blast
  with cat ds(2) assms(9) show False by simp
qed

text \<open>
  The check of the kernel controls is missing in the table.  While one of its controls can not be read, as on a kernel
  that does not have it, no risk of any category is resolved.
\<close>

lemma kernel_gap_freezes_risk:
  assumes "scan I Builtins dev h = Inr r" and "run_checks I dev h 0 Builtins = Inr (fs, es)" and "rl_checks L (rp_summary r) = Some es"
    and "snd (check_kernel h) = Some t" and "save_report L J r event now s = Inr (x, s')"
    and "d \<in> set (rd_current s')" and "fd_status d = ''resolved''"
  shows "d \<in> set (rd_current s)"
proof (rule ccontr)
  assume new: "d \<notin> set (rd_current s)"
  have k: "(''kernel_hardening'', check_kernel) \<in> set Builtins" by (simp add: Builtins_def)
  have fs: "rp_findings r = fs" and sum: "rp_summary r \<noteq> []"
    using assms(1,2) by (auto simp: scan_def scan_summary_def)
  have open_all: "\<forall>f \<in> set (rp_findings r). fd_status f \<noteq> ''resolved''"
    using run_checks_labels [OF assms(2)] fs by auto
  from resolved_only_checked [OF assms(5) open_all assms(6,7) new] sum obtain ds where "failed_categories es = Some ds"
    by (auto simp: unavailable_categories_def nonempty_json_def assms(3) split: option.splits if_splits)
  from failed_categories_mem [OF this failed_check_recorded [OF assms(2) k assms(4)] builtin_name [OF k]]
  show False by (auto simp: findingCategoriesByCheck_def)
qed

end
