(* ===== verification/ScanDemo.thy ===== *)
theory ScanDemo
  imports ScanProps RiskDemo
begin

text \<open>Closed instances of the properties of the scanner.\<close>

definition demo_input :: scan_input where
  "demo_input = \<lparr>si_sha256 = (\<lambda>b. b), si_print = (\<lambda>_. True), si_cancel = (\<lambda>_. None), si_mode = ''native'', si_id = ''r5'', si_started = 1, si_completed = 9\<rparr>"

text \<open>A host without risks whose package tool does not run.\<close>

definition demo_host :: host where
  "demo_host =
     \<lparr>ho_read = (\<lambda>p. if p = ''/etc/passwd'' then Inr ''root:x:0:0::/root:/bin/sh'' else if has_prefix p ''/proc/sys/'' then Inr ''2'' else Inl (NotExist ''none'')),
      ho_stat = (\<lambda>p. if p = ''/etc/shadow'' then Inr 0x180 else Inl (NotExist ''none'')),
      ho_probe = (\<lambda>p. case p of ProbeUpdates \<Rightarrow> Inl ''none'' | ProbeFirewall \<Rightarrow> Inr ''Status: active'' | ProbeSSHEffective \<Rightarrow> Inr ''passwordauthentication no''),
      ho_observer = False\<rparr>"

definition demo_errors :: "string list" where
  "demo_errors = [''security_updates: package update status is unavailable: none'']"

lemma demo_ssh: "check_ssh demo_host = ([], None)"
proof -
  have l: "scan_lines ''passwordauthentication no'' = [''passwordauthentication no'']"
    by (simp add: scan_lines_def Let_def max_token_def drop_cr_def trim_suffix_def has_suffix_def)
  have "List.map_filter sshd_line [''passwordauthentication no''] = [(''passwordauthentication'', ''no'')]" by code_simp
  then have v: "parse_sshd ''passwordauthentication no'' = (\<lambda>k. map_of [(''passwordauthentication'', ''no'')] k)"
    by (intro ext) (simp only: parse_sshd_first l)
  have "to_lower [] = []" "\<not> equal_fold ''no'' ''yes''" by code_simp+
  then have "ssh_findings (parse_sshd ''passwordauthentication no'') = []" by (simp add: ssh_findings_def v setting_def)
  then show ?thesis by (simp add: check_ssh_def demo_host_def)
qed

lemma demo_passwd: "check_passwd demo_host = ([], None)"
proof -
  have "List.map_filter privileged_account (split_on (CHR 0x0A) ''root:x:0:0::/root:/bin/sh'') = []" by code_simp
  then show ?thesis by (simp add: check_passwd_def demo_host_def)
qed

lemma demo_shadow: "check_shadow demo_host = ([], None)"
  by (simp add: check_shadow_def demo_host_def other_access_def mode_perm_def perm_bits_def)

lemma demo_ports: "check_ports demo_host = ([], None)"
  by (simp add: check_ports_def demo_host_def)

lemma demo_firewall: "check_firewall demo_host = ([], None)"
proof -
  have "\<not> contains (to_lower ''Status: active'') ''status: inactive''" "trim_space (to_lower ''Status: active'') \<noteq> []" by code_simp+
  then show ?thesis by (simp add: check_firewall_def demo_host_def)
qed

lemma demo_kernel: "check_kernel demo_host = ([], None)"
proof -
  have "atoi (trim_space ''2'') = (2, True)" by code_simp
  then show ?thesis by (simp add: check_kernel_def demo_host_def kernelControls_def)
qed

lemma demo_docker: "check_docker demo_host = ([], None)"
  by (simp add: check_docker_def demo_host_def)

lemma demo_updates: "check_updates demo_host = ([], Some ''package update status is unavailable: none'')"
  by (simp add: check_updates_def demo_host_def)

lemmas demo_checks = demo_ssh demo_passwd demo_shadow demo_ports demo_firewall demo_kernel demo_docker demo_updates

definition demo_scan :: report where
  "demo_scan = \<lparr>rp_id = ''r5'', rp_device = ''dev1'', rp_started = 1, rp_completed = 9, rp_score = 87,
     rp_summary = scan_summary demo_input 8 demo_errors 0, rp_findings = []\<rparr>"

lemma demo_scan_run: "run_checks demo_input ''dev1'' demo_host 0 Builtins = Inr ([], demo_errors)"
  by (simp add: Builtins_def demo_checks demo_input_def demo_errors_def)

lemma demo_scanned: "scan demo_input Builtins ''dev1'' demo_host = Inr demo_scan"
proof -
  have l: "length Builtins = 8" "length demo_errors = 1" by (simp_all add: Builtins_def demo_errors_def)
  have "si_id demo_input = ''r5''" "si_started demo_input = 1" "si_completed demo_input = 9" by (simp_all add: demo_input_def)
  then show ?thesis
    unfolding scan_def demo_scan_run by (simp add: l demo_scan_def, simp add: scan_score_def coverage_def tdiv_def)
qed

theorem scan_score_sound_witness: "rp_score demo_scan = 87 \<and> 0 \<le> rp_score demo_scan \<and> rp_score demo_scan \<le> 100"
  using scan_score_sound [OF demo_scanned] by (simp add: demo_scan_def)

definition demo_links :: "string \<Rightarrow> file_error + string" where
  "demo_links p = (if is_abs p then Inr p else Inl (FileFailed ''relative''))"

theorem host_file_contained_witness:
  "host_resolve demo_links ''/host'' ''/etc/../../shadow'' = Inr ''/host/shadow'' \<and>
   (\<exists>es. path_elems ''/host/shadow'' = path_elems (path_clean ''/host'') @ es)"
proof -
  have r: "host_resolve demo_links ''/host'' ''/etc/../../shadow'' = Inr ''/host/shadow''" by code_simp
  have "\<forall>x y. demo_links x = Inr y \<longrightarrow> is_abs y" by (simp add: demo_links_def)
  with r host_file_contained [OF r _] show ?thesis by (simp add: is_abs_def)
qed

section \<open>A check that failed\<close>

definition demo_decoder :: report_lib where
  "demo_decoder = \<lparr>rl_jx = demo_jx, rl_json = (\<lambda>r. Some (rp_id r)), rl_checks = (\<lambda>_. Some demo_errors)\<rparr>"

definition demo_update_risk :: current_row where
  "demo_update_risk = current_of (demo_risk\<lparr>fd_category := ''updates'', fd_status := ''resolved''\<rparr>) 5"

definition outdated_host :: host where
  "outdated_host = demo_host\<lparr>ho_probe := (\<lambda>_. Inr ''Inst bash'')\<rparr>"

lemma demo_summary: "rp_summary demo_scan \<noteq> []" "length (rp_summary demo_scan) \<le> 1000"
proof -
  have q: "go_quote (\<lambda>_. True) ''security_updates: package update status is unavailable: none'' =
      [CHR 0x22] @ ''security_updates: package update status is unavailable: none'' @ [CHR 0x22]"
    "go_quote (\<lambda>_. True) ''native'' = [CHR 0x22] @ ''native'' @ [CHR 0x22]"
    by code_simp+
  have i: "itoa 8 = ''8''" "itoa 7 = ''7''" "itoa 0 = ''0''" "itoa 87 = ''87''" by code_simp+
  have c: "coverage 8 (Suc 0) = 87" by (simp add: coverage_def tdiv_def)
  show "rp_summary demo_scan \<noteq> []" by (simp add: demo_scan_def scan_summary_def)
  show "length (rp_summary demo_scan) \<le> 1000"
    by (simp add: demo_scan_def scan_summary_def demo_errors_def demo_input_def json_string_slice_def q i c)
qed

lemma demo_unavailable: "unavailable_categories demo_decoder (rp_summary demo_scan) = ([''updates''], False)"
proof -
  have "failed_categories demo_errors = Some [''updates'']" by code_simp
  then show ?thesis using demo_summary by (simp add: unavailable_categories_def demo_decoder_def)
qed

theorem failed_check_keeps_risk_witness:
  "\<exists>s'. save_report demo_decoder demo_ri demo_scan None 10 (demo_rd0\<lparr>rd_current := [demo_update_risk]\<rparr>) = Inr ((True, 0), s') \<and>
     demo_update_risk \<in> set (rd_current s') \<and> demo_update_risk \<in> set (rd_current (demo_rd0\<lparr>rd_current := [demo_update_risk]\<rparr>))"
proof -
  have f: "fd_device demo_update_risk = ''dev1''" "fd_status demo_update_risk = ''resolved''" "fd_print demo_update_risk = ''p1''"
    "fd_category demo_update_risk = ''updates''" "finding_bytes demo_update_risk = 267"
    by (simp_all add: demo_update_risk_def current_of_def demo_risk_def finding_row.defs finding_bytes_def)
  have t: "resolved_now [''updates''] [demo_update_risk] = [demo_update_risk]"
    by (simp add: resolved_now_def upd_where_def resolvable_def f)
  have saved: "save_report demo_decoder demo_ri demo_scan None 10 (demo_rd0\<lparr>rd_current := [demo_update_risk]\<rparr>) =
      Inr ((True, 0), saved_empty demo_decoder demo_scan ''r5'' [demo_update_risk])"
    using empty_report_saved [of demo_scan demo_decoder "[''updates'']" "''r5''" "[demo_update_risk]"] demo_summary demo_unavailable
    by (simp add: t f capacity_print_def, simp add: demo_scan_def demo_decoder_def)
  have cur: "rd_current (saved_empty demo_decoder demo_scan ''r5'' [demo_update_risk]) = [demo_update_risk]"
    by (simp add: saved_empty_def)
  have found: "finding SeverityMedium ''updates'' ''System packages have pending updates''
      (itoa 1 @ '' packages can be upgraded; not every pending update is necessarily security-related.'') ''bash''
      ''Review the package changes, create a backup or snapshot, then install distribution updates.'' \<in> set (fst (check_updates outdated_host))"
  proof -
    have "go_fields ''Inst bash'' = [''Inst'', ''bash'']" by code_simp
    then show ?thesis by (simp add: check_updates_def outdated_host_def map_filter_def)
  qed
  have b: "(''security_updates'', check_updates) \<in> set Builtins" by (simp add: Builtins_def)
  have "demo_update_risk \<in> set (rd_current (demo_rd0\<lparr>rd_current := [demo_update_risk]\<rparr>))"
    by (rule failed_check_keeps_risk [OF demo_scanned demo_scan_run _ b _ found saved])
      (simp_all add: demo_updates cur f, simp_all add: demo_decoder_def finding_def)
  with saved cur show ?thesis by auto
qed

section \<open>Two configurations the check misreads\<close>

text \<open>An include directive that is followed by a tabulator is not seen, and the check reports success.\<close>

definition tab_host :: host where
  "tab_host = demo_host\<lparr>ho_probe := (\<lambda>_. Inl ''none''), ho_read := (\<lambda>_. Inr (''Include'' @ [CHR 0x09] @ ''/etc/ssh/sshd_config.d/*.conf''))\<rparr>"

lemma tab_include_unseen: "check_ssh tab_host = ([], None)"
proof -
  let ?c = "''Include'' @ [CHR 0x09] @ ''/etc/ssh/sshd_config.d/*.conf''"
  have l: "scan_lines ?c = [?c]"
    by (simp add: scan_lines_def Let_def max_token_def drop_cr_def trim_suffix_def has_suffix_def)
  have "List.map_filter sshd_line [?c] = [(''include'', ''/etc/ssh/sshd_config.d/*.conf'')]" by code_simp
  then have v: "parse_sshd ?c = (\<lambda>k. map_of [(''include'', ''/etc/ssh/sshd_config.d/*.conf'')] k)"
    by (intro ext) (simp only: parse_sshd_first l)
  have "to_lower [] = []" "\<not> equal_fold [] ''yes''" "\<not> contains (to_lower ?c) ''include ''" by code_simp+
  then show ?thesis by (simp add: check_ssh_def tab_host_def ssh_findings_def v [simplified] setting_def)
qed

text \<open>A directive inside a \<open>Match\<close> block hides the global one of a later \<open>Match all\<close>.\<close>

definition match_config :: string where
  "match_config = ''Match User backup'' @ [CHR 0x0A] @ ''PasswordAuthentication no'' @ [CHR 0x0A] @ ''Match all'' @ [CHR 0x0A] @
     ''PasswordAuthentication yes''"

lemma match_block_taken_global: "parse_sshd match_config ''passwordauthentication'' = Some ''no''"
proof -
  have l: "scan_lines match_config = [''Match User backup'', ''PasswordAuthentication no'', ''Match all'', ''PasswordAuthentication yes'']"
    by (simp add: match_config_def scan_lines_def Let_def max_token_def drop_cr_def trim_suffix_def has_suffix_def)
  have "List.map_filter sshd_line [''Match User backup'', ''PasswordAuthentication no'', ''Match all'', ''PasswordAuthentication yes''] =
      [(''passwordauthentication'', ''no''), (''passwordauthentication'', ''yes'')]"
    by code_simp
  then show ?thesis by (simp only: parse_sshd_first l) simp
qed

end
