(* ===== verification/AuthLog.thy ===== *)
theory AuthLog
  imports Scanner
begin

text \<open>
  The agent's reader of the flat authentication log (\<open>internal/agent/sshwatch.go\<close>): bounded polls over
  a growing, rotating file, the pattern of a failed login, and the checkpoint that is stored once
  the events of a poll are queued.
\<close>

section \<open>The pattern of a failed login\<close>

text \<open>
  \<open>failedSSH\<close>: the leftmost match, \<open>.*\<close> as long as possible.  The pattern ignores the case of letters;
  as in \<open>EqualFold\<close> the long s and the Kelvin sign count as letters.
\<close>

fun strip_fold :: "string \<Rightarrow> string \<Rightarrow> string option" where
  "strip_fold [] s = Some s"
| "strip_fold (d # ds) s =
     (case s of
        [] \<Rightarrow> None
      | c # cs \<Rightarrow>
         if ascii_lower c = ascii_lower d then strip_fold ds cs
         else if ascii_lower d = CHR ''s'' \<and> has_prefix s [CHR 0xC5, CHR 0xBF] then strip_fold ds (drop 2 s)
         else if ascii_lower d = CHR ''k'' \<and> has_prefix s [CHR 0xE2, CHR 0x84, CHR 0xAA] then strip_fold ds (drop 3 s)
         else None)"

definition address_char :: "char \<Rightarrow> bool" where
  "address_char c \<longleftrightarrow> is_digit c \<or> byte_in 97 102 (ascii_lower c) \<or> c = CHR '':'' \<or> c = CHR ''.''"

definition address_run :: "string \<Rightarrow> string option" where
  "address_run s = (let a = takeWhile address_char s in if a = [] then None else Some a)"

text \<open>The address after the last occurrence of a text that is followed by one; \<open>.\<close> matches no line end.\<close>

fun last_address :: "string \<Rightarrow> string \<Rightarrow> string option" where
  "last_address p [] = None"
| "last_address p (c # cs) =
     (case (if c = CHR 0x0A then None else last_address p cs) of
        Some a \<Rightarrow> Some a
      | None \<Rightarrow> (case strip_fold p (c # cs) of None \<Rightarrow> None | Some rest \<Rightarrow> address_run rest))"

definition failed_here :: "string \<Rightarrow> string option" where
  "failed_here s =
     (case strip_fold ''failed '' s of
        Some r \<Rightarrow>
          (case strip_fold ''password'' r of
             Some t \<Rightarrow> last_address '' from '' t
           | None \<Rightarrow> (case strip_fold ''publickey'' r of Some t \<Rightarrow> last_address '' from '' t | None \<Rightarrow> None))
      | None \<Rightarrow> (case strip_fold ''authentication failure;'' s of Some t \<Rightarrow> last_address ''rhost='' t | None \<Rightarrow> None))"

fun failed_ssh :: "string \<Rightarrow> string option" where
  "failed_ssh [] = None"
| "failed_ssh (c # cs) = (case failed_here (c # cs) of Some a \<Rightarrow> Some a | None \<Rightarrow> failed_ssh cs)"

section \<open>Checkpoints\<close>

definition maxAuthLogRead :: nat where "maxAuthLogRead = 4194304"
definition maxAuthLine :: nat where "maxAuthLine = 262144"
definition maxAuthEvents :: nat where "maxAuthEvents = 500"
definition checkpointV1 :: int where "checkpointV1 = 1"
definition max_generation :: nat where "max_generation = 18446744073709551615"

record checkpoint =
  ck_version :: int
  ck_device :: nat
  ck_inode :: nat
  ck_generation :: nat
  ck_offset :: nat
  ck_discard :: bool

definition no_checkpoint :: checkpoint where
  "no_checkpoint = \<lparr>ck_version = 0, ck_device = 0, ck_inode = 0, ck_generation = 0, ck_offset = 0, ck_discard = False\<rparr>"

definition checkpoint_valid :: "checkpoint \<Rightarrow> bool" where
  "checkpoint_valid c \<longleftrightarrow> ck_version c = checkpointV1 \<and> ck_generation c > 0"

text \<open>
  \<open>loadCheckpoint\<close>: no state, the decimal offset of the first version, or the checkpoint a strict JSON
  decoder reads; \<open>file\<close> is the state file, \<open>None\<close> where there is none.
\<close>

datatype saved = NoState | Legacy nat | Saved checkpoint

definition parse_int_text :: "string \<Rightarrow> int option" where
  "parse_int_text s = (let (v, ok) = atoi s in if ok then Some v else None)"

definition load_checkpoint :: "(string \<Rightarrow> checkpoint option) \<Rightarrow> string + string option \<Rightarrow> string + saved" where
  "load_checkpoint dec file =
     bindE file (\<lambda>b.
       case b of
         None \<Rightarrow> Inr NoState
       | Some b \<Rightarrow>
          (if b = [] \<or> length b > 4096 then Inl ''invalid saved authentication log checkpoint''
           else case parse_int_text (trim_space b) of
                  Some n \<Rightarrow> if n < 0 then Inl ''invalid saved authentication log offset'' else Inr (Legacy (nat n))
                | None \<Rightarrow>
                   (case dec (trim_space b) of
                      None \<Rightarrow> Inl ''invalid saved authentication log checkpoint''
                    | Some c \<Rightarrow> if checkpoint_valid c then Inr (Saved c) else Inl ''invalid saved authentication log checkpoint'')))"

section \<open>Events\<close>

datatype auth_event = LoginFailure nat string string | OversizedLine nat   \<comment> \<open>offset, line, source\<close>

definition event_identity :: "string \<Rightarrow> checkpoint \<Rightarrow> nat \<Rightarrow> string \<Rightarrow> string" where
  "event_identity path c off kind =
     join_text [CHR 0x00] [path, nat_digits (ck_device c), nat_digits (ck_inode c), nat_digits (ck_generation c), nat_digits off, kind]"

definition event_id :: "(bytes \<Rightarrow> bytes) \<Rightarrow> string \<Rightarrow> string" where
  "event_id sha s = ''evt_'' @ hex_encode (take 12 (sha s))"

definition oversizedAuthLogEventType :: string where
  "oversizedAuthLogEventType = ''ssh_auth_log_line_oversized_untrusted''"

text \<open>The security event that is sent; it is never eligible for an automatic action.\<close>

fun auth_security_event :: "(bytes \<Rightarrow> bytes) \<Rightarrow> string \<Rightarrow> checkpoint \<Rightarrow> instant \<Rightarrow> auth_event \<Rightarrow> security_event" where
  "auth_security_event sha path c now (LoginFailure off line source) =
     \<lparr>sv_id = event_id sha (event_identity path c off ''failure'' @ [CHR 0x00] @ line), sv_device = [],
      sv_type = ''ssh_auth_failure_untrusted'', sv_source = trim_space source, sv_at = now,
      sv_payload = ''{\"source\":\"auth.log\",\"trust\":\"unverified\",\"automaticActionEligible\":false}''\<rparr>"
| "auth_security_event sha path c now (OversizedLine off) =
     \<lparr>sv_id = event_id sha (event_identity path c off ''oversized-line''), sv_device = [], sv_type = oversizedAuthLogEventType,
      sv_source = [], sv_at = now,
      sv_payload = ''{\"source\":\"auth.log\",\"trust\":\"unverified\",\"automaticActionEligible\":false,\"reason\":\"line exceeded 256 KiB and was discarded\"}''\<rparr>"

section \<open>Reading\<close>

text \<open>\<open>ReadSlice\<close> with a buffer of 64 KiB: up to a line end, a full buffer, or the rest.\<close>

definition read_buffer :: nat where "read_buffer = 65536"

definition line_end :: "string \<Rightarrow> nat option" where
  "line_end s = (let n = length (takeWhile (\<lambda>c. c \<noteq> CHR 0x0A) s) in if n < length s then Some (n + 1) else None)"

definition next_fragment :: "string \<Rightarrow> nat" where
  "next_fragment s = (case line_end s of None \<Rightarrow> min read_buffer (length s) | Some n \<Rightarrow> min read_buffer n)"

definition line_events :: "nat \<Rightarrow> string \<Rightarrow> auth_event list" where
  "line_events off line =
     (let text = trim_suffix (trim_suffix line [CHR 0x0A]) [CHR 0x0D]
      in case failed_ssh text of None \<Rightarrow> [] | Some source \<Rightarrow> [LoginFailure off text source])"

record scan_state =
  as_line :: string
  as_start :: nat
  as_offset :: nat
  as_discard :: bool
  as_events :: "auth_event list"

text \<open>One turn of the loop, on a fragment that is not empty.\<close>

definition take_fragment :: "string \<Rightarrow> scan_state \<Rightarrow> scan_state" where
  "take_fragment frag s =
     (let nl = last frag = CHR 0x0A
      in if as_discard s
         then (let off = as_offset s + length frag
               in if nl then s\<lparr>as_offset := off, as_discard := False, as_start := off\<rparr> else s\<lparr>as_offset := off\<rparr>)
         else if length (as_line s) + length frag > maxAuthLine
         then (let off = as_offset s + (length (as_line s) + length frag)
               in s\<lparr>as_events := as_events s @ [OversizedLine (as_start s)], as_offset := off, as_line := [], as_discard := \<not> nl,
                    as_start := (if nl then off else as_start s)\<rparr>)
         else (let line = as_line s @ frag
               in if nl
                  then (let off = as_offset s + length line
                        in s\<lparr>as_events := as_events s @ line_events (as_start s) line, as_offset := off, as_line := [], as_start := off\<rparr>)
                  else s\<lparr>as_line := line\<rparr>))"

text \<open>\<open>fault n\<close> is an error before the \<open>n\<close>th fragment: of the context, or of the file.\<close>

function read_log :: "(nat \<Rightarrow> string option) \<Rightarrow> nat \<Rightarrow> string \<Rightarrow> scan_state \<Rightarrow> string + scan_state" where
  "read_log fault n rest s =
     (case fault n of
        Some e \<Rightarrow> Inl e
      | None \<Rightarrow>
         (if rest = [] then Inr s
          else let k = next_fragment rest; s' = take_fragment (take k rest) s
               in if length (as_events s') \<ge> maxAuthEvents then Inr s' else read_log fault (n + 1) (drop k rest) s'))"
  by pat_completeness auto
termination
proof (relation "measure (\<lambda>(fault, n, rest, s). length rest)")
  show "((fault, n + 1, drop k rest, s'), fault, n, rest, s) \<in> measure (\<lambda>(fault, n, rest, s). length rest)"
    if "fault n = None" "rest \<noteq> []" "k = next_fragment rest" for fault n k s s' and rest :: string
    using that(2) unfolding that(3)
    by (auto simp: next_fragment_def line_end_def read_buffer_def Let_def min_def split: option.split if_splits)
qed simp

declare read_log.simps [simp del]

section \<open>A poll\<close>

text \<open>
  What the poll sees of the file system: the mode of the path, the opened file with its identity and
  content, and whether the path still names that file.
\<close>

record log_file =
  lf_device :: nat
  lf_inode :: nat
  lf_content :: bytes

record log_view =
  lv_path :: string
  lv_lstat :: "file_error + file_mode"
  lv_open :: "string + log_file"
  lv_again :: "string + file_mode \<times> bool"
  lv_fault :: "nat \<Rightarrow> string option"

definition adopt_checkpoint :: "saved \<Rightarrow> log_file \<Rightarrow> string + checkpoint" where
  "adopt_checkpoint st f =
     (case st of
        NoState \<Rightarrow> Inr (no_checkpoint\<lparr>ck_version := checkpointV1, ck_device := lf_device f, ck_inode := lf_inode f, ck_generation := 1,
          ck_offset := length (lf_content f)\<rparr>)
      | Legacy off \<Rightarrow> Inr (no_checkpoint\<lparr>ck_version := checkpointV1, ck_device := lf_device f, ck_inode := lf_inode f, ck_generation := 1,
          ck_offset := (if length (lf_content f) < off then 0 else off)\<rparr>)
      | Saved c \<Rightarrow>
         (if ck_device c \<noteq> lf_device f \<or> ck_inode c \<noteq> lf_inode f
          then (if ck_generation c = max_generation then Inl ''auth log generation exhausted''
                else Inr (c\<lparr>ck_device := lf_device f, ck_inode := lf_inode f, ck_generation := ck_generation c + 1, ck_offset := 0,
                  ck_discard := False\<rparr>))
          else if length (lf_content f) < ck_offset c
          then (if ck_generation c = max_generation then Inl ''auth log generation exhausted''
                else Inr (c\<lparr>ck_generation := ck_generation c + 1, ck_offset := 0, ck_discard := False\<rparr>))
          else Inr c))"

definition read_from :: "(nat \<Rightarrow> string option) \<Rightarrow> checkpoint \<Rightarrow> bytes \<Rightarrow> string + auth_event list \<times> checkpoint" where
  "read_from fault c content =
     bindE (read_log fault 0 (take maxAuthLogRead (drop (ck_offset c) content))
         \<lparr>as_line = [], as_start = ck_offset c, as_offset = ck_offset c, as_discard = ck_discard c, as_events = []\<rparr>) (\<lambda>s.
       Inr (as_events s, c\<lparr>ck_offset := as_offset s, ck_discard := as_discard s\<rparr>))"

definition plain_log :: "file_mode \<Rightarrow> bool" where
  "plain_log m \<longleftrightarrow> is_regular m \<and> \<not> is_symlink m"

definition auth_poll :: "log_view \<Rightarrow> string + saved \<Rightarrow> string + auth_event list \<times> checkpoint" where
  "auth_poll V saved =
     bindE (map_sum (\<lambda>e. ''load auth log checkpoint: '' @ e) id saved) (\<lambda>st.
       case lv_lstat V of
         Inl (FileFailed e) \<Rightarrow> Inl e
       | Inl _ \<Rightarrow> Inr ([], (case st of NoState \<Rightarrow> no_checkpoint | Legacy off \<Rightarrow> no_checkpoint\<lparr>ck_offset := off\<rparr> | Saved c \<Rightarrow> c))
       | Inr m \<Rightarrow>
          (if \<not> plain_log m then Inl ''auth log must be a regular non-symlink file''
           else bindE (lv_open V) (\<lambda>f.
                bindE (lv_again V) (\<lambda>(m2, same).
                  if \<not> plain_log m2 \<or> \<not> same then Inl ''auth log changed while it was being opened''
                  else bindE (adopt_checkpoint st f) (\<lambda>c.
                       if st = NoState then Inr ([], c) else read_from (lv_fault V) c (lf_content f))))))"

text \<open>
  \<open>Commit\<close>: what the state file holds afterwards; \<open>enc\<close> is \<open>json.Marshal\<close> and \<open>install\<close> the error of replacing the
  file by a synced temporary one.
\<close>

definition auth_commit :: "(checkpoint \<Rightarrow> string + string) \<Rightarrow> (bytes \<Rightarrow> string option) \<Rightarrow> checkpoint \<Rightarrow> bytes option \<Rightarrow> string option \<times> bytes option" where
  "auth_commit enc install c file =
     (if \<not> checkpoint_valid c then (Some ''invalid authentication log checkpoint'', file)
      else case enc c of
             Inl e \<Rightarrow> (Some e, file)
           | Inr b \<Rightarrow> (case install (b @ [CHR 0x0A]) of Some e \<Rightarrow> (Some e, file) | None \<Rightarrow> (None, Some (b @ [CHR 0x0A]))))"

end
