(* ===== verification/JournalLog.thy ===== *)
theory JournalLog
  imports AuthLog
begin

text \<open>
  The reader of the journal (\<open>internal/agent/journalwatch.go\<close>) and of the runtime sensor's log
  (\<open>internal/agent/runtimewatch.go\<close>).
\<close>

section \<open>The pattern of an accepted login\<close>

text \<open>What a prefix consumed, and the rest.\<close>

definition capture_fold :: "string \<Rightarrow> string \<Rightarrow> (string \<times> string) option" where
  "capture_fold p s = (case strip_fold p s of None \<Rightarrow> None | Some r \<Rightarrow> Some (take (length s - length r) s, r))"

definition login_method :: "string \<Rightarrow> (string \<times> string) option" where
  "login_method s =
     (case capture_fold ''password'' s of Some x \<Rightarrow> Some x | None \<Rightarrow>
       (case capture_fold ''publickey'' s of Some x \<Rightarrow> Some x | None \<Rightarrow>
         (case capture_fold ''keyboard-interactive'' s of
            Some (a, r) \<Rightarrow> (case capture_fold ''/pam'' r of Some (b, r') \<Rightarrow> Some (a @ b, r') | None \<Rightarrow> Some (a, r))
          | None \<Rightarrow> capture_fold ''hostbased'' s)))"

text \<open>
  The length in bytes of the character of a user name a text starts with, 0 where there is none; ignoring
  case the class also has the long s and the Kelvin sign.
\<close>

definition user_char :: "string \<Rightarrow> nat" where
  "user_char s =
     (case s of
        [] \<Rightarrow> 0
      | c # _ \<Rightarrow>
         if is_alnum c \<or> c \<in> {CHR ''.'', CHR ''_'', CHR ''$'', CHR ''-''} then 1
         else if has_prefix s [CHR 0xC5, CHR 0xBF] then 2
         else if has_prefix s [CHR 0xE2, CHR 0x84, CHR 0xAA] then 3 else 0)"

text \<open>At most \<open>n\<close> such characters.\<close>

fun user_run :: "nat \<Rightarrow> string \<Rightarrow> string \<times> string" where
  "user_run 0 s = ([], s)"
| "user_run (Suc n) s =
     (let k = user_char s in if k = 0 then ([], s) else let (u, r) = user_run n (drop k s) in (take k s @ u, r))"

text \<open>Method, user and address; the name ends at a blank, which it can not contain.\<close>

definition accepted_here :: "string \<Rightarrow> (string \<times> string \<times> string) option" where
  "accepted_here s =
     (case strip_fold ''accepted '' s of
        None \<Rightarrow> None
      | Some r \<Rightarrow>
         (case login_method r of
            None \<Rightarrow> None
          | Some (meth, r1) \<Rightarrow>
             (case strip_fold '' for '' r1 of
                None \<Rightarrow> None
              | Some r2 \<Rightarrow>
                 (let (user, r3) = user_run 64 r2
                  in if user = [] then None
                     else case strip_fold '' from '' r3 of
                            None \<Rightarrow> None
                          | Some r4 \<Rightarrow> (case address_run r4 of None \<Rightarrow> None | Some a \<Rightarrow> Some (meth, user, a))))))"

fun accepted_ssh :: "string \<Rightarrow> (string \<times> string \<times> string) option" where
  "accepted_ssh [] = None"
| "accepted_ssh (c # cs) = (case accepted_here (c # cs) of Some a \<Rightarrow> Some a | None \<Rightarrow> accepted_ssh cs)"

section \<open>The journal\<close>

record journal_record =
  jr_message :: string
  jr_cursor :: string
  jr_time :: string

text \<open>
  \<open>jl_record\<close> decodes a line, \<open>jl_accepted\<close> encodes the payload of a success from its method and user.
\<close>

record journal_lib =
  jl_sha256 :: "bytes \<Rightarrow> bytes"
  jl_record :: "string \<Rightarrow> journal_record option"
  jl_accepted :: "string \<Rightarrow> string \<Rightarrow> bytes"

definition maxJournalOutput :: nat where "maxJournalOutput = 2097152"

definition week :: duration where "week = 7 * 24 * hour"

definition occurred_at :: "string \<Rightarrow> instant \<Rightarrow> instant" where
  "occurred_at text now = (case parse_int_text text of None \<Rightarrow> now | Some us \<Rightarrow> if us > 0 then us * 1000 else now)"

definition live_window :: "instant \<Rightarrow> instant \<Rightarrow> bool" where
  "live_window at now \<longleftrightarrow> \<not> at < now - week \<and> \<not> at > now + 5 * minute"

definition verified_payload :: bytes where
  "verified_payload = ''{\"source\":\"journald\",\"trust\":\"verified\",\"automaticActionEligible\":true}''"

definition journal_event :: "journal_lib \<Rightarrow> instant \<Rightarrow> journal_record \<Rightarrow> security_event option" where
  "journal_event L now r =
     (let at = occurred_at (jr_time r) now;
          event = (\<lambda>typ source payload. \<lparr>sv_id = event_id (jl_sha256 L) (jr_cursor r @ [CHR 0x00] @ typ @ [CHR 0x00] @ jr_message r),
            sv_device = [], sv_type = typ, sv_source = trim_space source, sv_at = at, sv_payload = payload\<rparr>)
      in if jr_cursor r = [] \<or> \<not> live_window at now then None
         else case failed_ssh (jr_message r) of
                Some a \<Rightarrow> Some (event ''ssh_auth_failure'' a verified_payload)
              | None \<Rightarrow>
                 (case accepted_ssh (jr_message r) of
                    Some (meth, user, a) \<Rightarrow> Some (event ''ssh_auth_success'' a (jl_accepted L (to_lower meth) user))
                  | None \<Rightarrow> None))"

text \<open>The lines of the output: the events, and the last cursor.  A line of 256 KiB stops the scanner.\<close>

fun journal_lines :: "journal_lib \<Rightarrow> bool \<Rightarrow> instant \<Rightarrow> string list \<Rightarrow> security_event list \<Rightarrow> string \<Rightarrow> string + security_event list \<times> string" where
  "journal_lines L inc now [] evs cursor = Inr (evs, cursor)"
| "journal_lines L inc now (l # ls) evs cursor =
     (if length l \<ge> maxAuthLine then Inl ''bufio.Scanner: token too long''
      else let line = trim_space (drop_cr l)
           in if has_prefix line ''-- cursor: ''
              then journal_lines L inc now ls evs (trim_space (trim_prefix line ''-- cursor: ''))
              else if line = [] then journal_lines L inc now ls evs cursor
              else case jl_record L line of
                     None \<Rightarrow> Inl ''journalctl returned malformed JSON''
                   | Some r \<Rightarrow>
                      (let cursor' = (if jr_cursor r \<noteq> [] then jr_cursor r else cursor);
                           found = (if inc then (case journal_event L now r of None \<Rightarrow> [] | Some e \<Rightarrow> [e]) else [])
                       in journal_lines L inc now ls (evs @ found) cursor'))"

definition invalid_cursor :: "string \<Rightarrow> bool" where
  "invalid_cursor c \<longleftrightarrow> length c > 4096 \<or> CHR 0x0D \<in> set c \<or> CHR 0x0A \<in> set c \<or> CHR 0x00 \<in> set c"

definition parse_journal :: "journal_lib \<Rightarrow> bytes \<Rightarrow> bool \<Rightarrow> instant \<Rightarrow> string + security_event list \<times> string" where
  "parse_journal L d inc now =
     (if length d > maxJournalOutput then Inl ''journal output exceeds safe limit''
      else let ls = split_on (CHR 0x0A) d
           in bindE (journal_lines L inc now (if last ls = [] then butlast ls else ls) [] []) (\<lambda>(evs, cursor).
                if invalid_cursor cursor then Inl ''journal cursor is invalid'' else Inr (evs, cursor)))"

text \<open>\<open>loadCursor\<close>: no cursor, or the saved one.\<close>

definition load_cursor :: "string + bytes option \<Rightarrow> string + string option" where
  "load_cursor file =
     bindE file (\<lambda>b. case b of
       None \<Rightarrow> Inr None
     | Some b \<Rightarrow> (let c = trim_space b in if c = [] \<or> invalid_cursor c then Inl ''saved journal cursor is invalid'' else Inr (Some c)))"

definition journal_args :: "string option \<Rightarrow> string list" where
  "journal_args cursor =
     [''--no-pager'', ''--quiet'', ''--output=json'', ''--unit=ssh.service'', ''--unit=sshd.service'', ''--show-cursor''] @
     (case cursor of Some c \<Rightarrow> [''--after-cursor='' @ c, ''--lines=500''] | None \<Rightarrow> [''--lines=0''])"

definition journal_poll :: "journal_lib \<Rightarrow> (string list \<Rightarrow> string + bytes) \<Rightarrow> string + bytes option \<Rightarrow> instant \<Rightarrow> string + security_event list \<times> string" where
  "journal_poll L run_ctl file now =
     bindE (load_cursor file) (\<lambda>cursor.
     bindE (run_ctl (journal_args cursor)) (\<lambda>d.
     bindE (parse_journal L d (cursor \<noteq> None) now) (\<lambda>(evs, next).
       if next = [] then Inl ''journalctl did not return a durable cursor'' else Inr (evs, next))))"

definition journal_commit :: "(bytes \<Rightarrow> string option) \<Rightarrow> string \<Rightarrow> bytes option \<Rightarrow> string option \<times> bytes option" where
  "journal_commit install cursor file =
     (if cursor = [] \<or> invalid_cursor cursor then (Some ''journal cursor is invalid'', file)
      else case install cursor of Some e \<Rightarrow> (Some e, file) | None \<Rightarrow> (None, Some cursor))"

text \<open>
  The reader of the runtime sensor's log of JSON lines (\<open>internal/agent/runtimewatch.go\<close>): which rules become
  which events, what of a record is sent, and the bounded poll.
\<close>

section \<open>Records\<close>

datatype falco_value = FString string | FNumber string | FBool bool | FOther

record falco_record =
  fr_time :: "instant option"     \<comment> \<open>\<open>time.Parse\<close> of the time, where it succeeds\<close>
  fr_rule :: string
  fr_priority :: string
  fr_source :: string
  fr_fields :: "(string \<times> falco_value) list"
  fr_tags :: "string list"

datatype payload_value = PText string | PBool bool | PTexts "string list"

text \<open>\<open>rn_record\<close> decodes one line strictly, \<open>rn_payload\<close> encodes an object.\<close>

record runtime_lib =
  rn_sha256 :: "bytes \<Rightarrow> bytes"
  rn_record :: "bytes \<Rightarrow> falco_record option"
  rn_payload :: "(string \<times> payload_value) list \<Rightarrow> bytes"

definition strip_control :: "char \<Rightarrow> bool" where
  "strip_control c \<longleftrightarrow> byte_in 0 31 c \<or> c = CHR 0x7F"

definition truncate_context :: "string \<Rightarrow> nat \<Rightarrow> string" where
  "truncate_context v limit = take limit (drop_runes strip_control (trim_space v))"

definition has_any :: "string list \<Rightarrow> string \<Rightarrow> bool" where
  "has_any ps v \<longleftrightarrow> list_ex (contains v) ps"

definition classify_runtime_rule :: "string \<Rightarrow> string list \<Rightarrow> string" where
  "classify_runtime_rule rule tags =
     (let v = to_lower (rule @ '' '' @ join_text '' '' tags)
      in if contains v ''reverse shell'' then ''runtime_reverse_shell_detected''
         else if has_any [''crypto'', ''miner''] v then ''runtime_cryptominer_detected''
         else if has_any [''privileged container'', ''container escape'', ''namespace'', ''contact k8s api from container''] v
         then ''container_privilege_escalation''
         else if has_any [''persistence'', ''scheduled task'', ''systemd'', ''cron''] v then ''runtime_persistence_detected''
         else if has_any [''sensitive'', ''etc'', ''binary dir''] v then ''runtime_sensitive_file_change''
         else ''runtime_security_alert'')"

definition allowed_runtime_fields :: "string list" where
  "allowed_runtime_fields = [''proc.name'', ''proc.exepath'', ''proc.pid'', ''proc.ppid'', ''user.uid'', ''user.name'', ''container.id'',
     ''container.name'', ''container.image.repository'', ''fd.sip'', ''fd.dip'', ''fd.sport'', ''fd.dport'', ''evt.type'']"

definition runtime_field :: "falco_value \<Rightarrow> payload_value option" where
  "runtime_field v = (case v of FString s \<Rightarrow> Some (PText (truncate_context s 1024)) | FNumber s \<Rightarrow> Some (PText s) | FBool b \<Rightarrow> Some (PBool b) | FOther \<Rightarrow> None)"

definition allow_runtime_fields :: "(string \<times> falco_value) list \<Rightarrow> (string \<times> payload_value) list" where
  "allow_runtime_fields raw =
     List.map_filter (\<lambda>k. case map_of raw k of None \<Rightarrow> None | Some v \<Rightarrow> map_option (Pair k) (runtime_field v)) allowed_runtime_fields"

definition safe_runtime_tags :: "string list \<Rightarrow> string list" where
  "safe_runtime_tags tags = sort (take 16 (filter (\<lambda>t. t \<noteq> []) (map (\<lambda>t. truncate_context t 64) tags)))"

definition runtime_payload :: "bool \<Rightarrow> falco_record \<Rightarrow> (string \<times> payload_value) list" where
  "runtime_payload trusted r = allow_runtime_fields (fr_fields r) @
     [(''source'', PText ''falco''), (''trust'', PText (if trusted then ''verified'' else ''unverified'')), (''automaticActionEligible'', PBool False),
      (''rule'', PText (truncate_context (fr_rule r) 500)), (''priority'', PText (truncate_context (fr_priority r) 32)),
      (''eventSource'', PText (truncate_context (fr_source r) 64)), (''tags'', PTexts (safe_runtime_tags (fr_tags r)))]"

definition runtime_identity :: "string \<Rightarrow> checkpoint \<Rightarrow> nat \<Rightarrow> string" where
  "runtime_identity path c off =
     join_text [CHR 0x00] [path, nat_digits (ck_device c), nat_digits (ck_inode c), nat_digits (ck_generation c), nat_digits off]"

definition parse_runtime_event :: "runtime_lib \<Rightarrow> bytes \<Rightarrow> string \<Rightarrow> checkpoint \<Rightarrow> nat \<Rightarrow> bool \<Rightarrow> instant \<Rightarrow> security_event option" where
  "parse_runtime_event L line path c off trusted now =
     (case rn_record L line of
        None \<Rightarrow> None
      | Some r \<Rightarrow>
         (if trim_space (fr_rule r) = [] \<or> length (fr_rule r) > 500 \<or> length (fr_fields r) > 128 \<or> length (fr_tags r) > 64 then None
          else Some \<lparr>sv_id = event_id (rn_sha256 L) (runtime_identity path c off @ [CHR 0x00] @ line), sv_device = [],
            sv_type = classify_runtime_rule (fr_rule r) (fr_tags r), sv_source = [],
            sv_at = (case fr_time r of None \<Rightarrow> now | Some t \<Rightarrow> if live_window t now then t else now),
            sv_payload = rn_payload L (runtime_payload trusted r)\<rparr>))"

section \<open>Reading\<close>

definition maxRuntimeLogRead :: nat where "maxRuntimeLogRead = 2097152"
definition maxRuntimeLine :: nat where "maxRuntimeLine = 262144"
definition maxRuntimeEvents :: nat where "maxRuntimeEvents = 200"

text \<open>\<open>event line start\<close> is the event of a line, with the checkpoint after it.\<close>

function read_runtime :: "(nat \<Rightarrow> string option) \<Rightarrow> (bytes \<Rightarrow> nat \<Rightarrow> nat \<Rightarrow> security_event option) \<Rightarrow> nat \<Rightarrow> string \<Rightarrow> nat \<Rightarrow> security_event list \<Rightarrow>
    string + security_event list \<times> nat" where
  "read_runtime fault event n rest off evs =
     (if length evs \<ge> maxRuntimeEvents then Inr (evs, off)
      else case fault n of
             Some e \<Rightarrow> Inl e
           | None \<Rightarrow>
              (if rest = [] then Inr (evs, off)
               else let k = (case line_end rest of None \<Rightarrow> length rest | Some k \<Rightarrow> k)
                    in if k > maxRuntimeLine then Inl ''runtime event line exceeds safe limit''
                       else if line_end rest = None then Inr (evs, off)
                       else let line = trim_space (take k rest)
                            in read_runtime fault event (n + 1) (drop k rest) (off + k)
                                 (if line = [] then evs else evs @ (case event line off (off + k) of None \<Rightarrow> [] | Some e \<Rightarrow> [e]))))"
  by pat_completeness auto
termination
proof (relation "measure (\<lambda>(fault, event, n, rest, off, evs). length rest)")
  show "((fault, event, n + 1, drop k rest, off + k, evs'), fault, event, n, rest, off, evs) \<in> measure (\<lambda>(fault, event, n, rest, off, evs). length rest)"
    if "rest \<noteq> []" "k = (case line_end rest of None \<Rightarrow> length rest | Some k \<Rightarrow> k)"
    for fault :: "nat \<Rightarrow> string option" and event :: "bytes \<Rightarrow> nat \<Rightarrow> nat \<Rightarrow> security_event option" and n k off evs evs' and rest :: string
    using that by (auto simp: line_end_def Let_def split: option.splits if_splits)
qed simp

declare read_runtime.simps [simp del]

text \<open>\<open>trustedRootLog\<close>: owned by root and not writable by anybody else.\<close>

definition trusted_root_log :: "int option \<Rightarrow> file_mode \<Rightarrow> bool" where
  "trusted_root_log uid m \<longleftrightarrow> uid = Some 0 \<and> and (mode_perm m) 18 = 0"

text \<open>
  The file as it is opened, with its owner and mode.  A path that does not name the opened file is refused, but its kind
  is not looked at again; an offset of the first version is taken for a checkpoint of another file.
\<close>

record runtime_view =
  rv_path :: string
  rv_lstat :: "string + file_mode"
  rv_open :: "string + log_file"
  rv_owner :: "int option"
  rv_mode :: file_mode
  rv_same :: bool
  rv_fault :: "nat \<Rightarrow> string option"

definition runtime_checkpoint :: "checkpoint \<Rightarrow> log_file \<Rightarrow> string + checkpoint" where
  "runtime_checkpoint c f =
     (if ck_device c \<noteq> lf_device f \<or> ck_inode c \<noteq> lf_inode f
      then (if ck_generation c = max_generation then Inl ''runtime event log generation exhausted''
            else Inr (c\<lparr>ck_device := lf_device f, ck_inode := lf_inode f, ck_generation := ck_generation c + 1, ck_offset := 0\<rparr>))
      else if length (lf_content f) < ck_offset c
      then (if ck_generation c = max_generation then Inl ''runtime event log generation exhausted''
            else Inr (c\<lparr>ck_generation := ck_generation c + 1, ck_offset := 0\<rparr>))
      else Inr c)"

definition runtime_poll :: "runtime_lib \<Rightarrow> runtime_view \<Rightarrow> string + saved \<Rightarrow> instant \<Rightarrow> string + security_event list \<times> checkpoint" where
  "runtime_poll L V saved now =
     bindE saved (\<lambda>st.
     bindE (rv_lstat V) (\<lambda>m.
       if \<not> plain_log m then Inl ''runtime event log must be a regular non-symlink file''
       else bindE (rv_open V) (\<lambda>f.
         if \<not> rv_same V then Inl ''runtime event log changed while opening''
         else case st of
                NoState \<Rightarrow> Inr ([], no_checkpoint\<lparr>ck_version := checkpointV1, ck_device := lf_device f, ck_inode := lf_inode f, ck_generation := 1,
                  ck_offset := length (lf_content f)\<rparr>)
              | _ \<Rightarrow>
                 bindE (runtime_checkpoint (case st of Legacy off \<Rightarrow> no_checkpoint\<lparr>ck_offset := off\<rparr> | Saved c \<Rightarrow> c | NoState \<Rightarrow> no_checkpoint) f) (\<lambda>c.
                 bindE (read_runtime (rv_fault V)
                     (\<lambda>line start stop. parse_runtime_event L line (rv_path V) (c\<lparr>ck_offset := stop\<rparr>) start (trusted_root_log (rv_owner V) (rv_mode V)) now)
                     0 (take maxRuntimeLogRead (drop (ck_offset c) (lf_content f))) (ck_offset c) []) (\<lambda>(evs, off).
                   Inr (evs, c\<lparr>ck_offset := off\<rparr>))))))"

end
