(* ===== verification/AuthLogProps.thy ===== *)
theory AuthLogProps
  imports AuthLog
begin

text \<open>
  The polls of the authentication log against the lines of the file: no line is read twice and none
  is lost, whatever the bounds of a poll, restarts, and the growth of the file.
\<close>

section \<open>Line ends\<close>

lemma line_end_Cons: "line_end (c # d) = (if c = CHR 0x0A then Some 1 else map_option Suc (line_end d))"
  by (simp add: line_end_def Let_def)

lemma line_end_Nil [simp]: "line_end [] = None"
  by (simp add: line_end_def)

lemma line_end_None: "line_end d = None \<longleftrightarrow> CHR 0x0A \<notin> set d"
  by (induction d) (auto simp: line_end_Cons)

lemma line_end_app: "CHR 0x0A \<notin> set a \<Longrightarrow> line_end (a @ d) = map_option ((+) (length a)) (line_end d)"
  by (cases "line_end d"; induction a; auto simp: line_end_Cons)

lemma line_end_at: "CHR 0x0A \<notin> set a \<Longrightarrow> line_end (a @ CHR 0x0A # d) = Some (Suc (length a))"
  by (simp add: line_end_app line_end_Cons)

lemma line_end_Some: "line_end d = Some n \<Longrightarrow> \<exists>a r. d = a @ CHR 0x0A # r \<and> CHR 0x0A \<notin> set a \<and> n = Suc (length a)"
proof (induction d arbitrary: n)
  case (Cons c d)
  show ?case
  proof (cases "c = CHR 0x0A")
    case True
    with Cons.prems show ?thesis by (intro exI [of _ "[]"] exI [of _ d]) (simp add: line_end_Cons)
  next
    case False
    with Cons.prems obtain m where "line_end d = Some m" "n = Suc m" by (auto simp: line_end_Cons)
    from Cons.IH [OF this(1)] this(2) False obtain a r where "d = a @ CHR 0x0A # r" "CHR 0x0A \<notin> set a" "n = Suc (Suc (length a))" by blast
    then show ?thesis using False by (intro exI [of _ "c # a"] exI [of _ r]) simp
  qed
qed simp

lemma fragment_cases:
  assumes "rest \<noteq> []"
  obtains (part) "CHR 0x0A \<notin> set (take (next_fragment rest) rest)" "take (next_fragment rest) rest \<noteq> []"
  | (nl) a where "take (next_fragment rest) rest = a @ [CHR 0x0A]" "CHR 0x0A \<notin> set a"
proof (cases "line_end rest")
  case None
  then have "CHR 0x0A \<notin> set rest" by (simp add: line_end_None)
  then show ?thesis using assms None by (intro part) (auto simp: next_fragment_def read_buffer_def dest: in_set_takeD)
next
  case (Some n)
  from line_end_Some [OF this] obtain a r where r: "rest = a @ CHR 0x0A # r" "CHR 0x0A \<notin> set a" "n = Suc (length a)" by blast
  show ?thesis
  proof (cases "read_buffer < n")
    case True
    then have "take (next_fragment rest) rest = take read_buffer a"
      using Some r by (simp add: next_fragment_def)
    then show ?thesis using r(2,3) True by (intro part) (auto simp: read_buffer_def dest: in_set_takeD)
  next
    case False
    then have "take (next_fragment rest) rest = a @ [CHR 0x0A]"
      using Some r by (simp add: next_fragment_def min_absorb2)
    with r(2) show ?thesis by (rule nl [rotated])
  qed
qed

section \<open>The events of a file\<close>

text \<open>
  The reference: what the lines of the rest of a file amount to, without any bound on a poll.  An
  unfinished line waits, unless it is too long already.
\<close>

function log_events :: "nat \<Rightarrow> bool \<Rightarrow> string \<Rightarrow> auth_event list" where
  "log_events off disc d =
     (case line_end d of
        None \<Rightarrow> if \<not> disc \<and> length d > maxAuthLine then [OversizedLine off] else []
      | Some n \<Rightarrow> (if disc then [] else if n > maxAuthLine then [OversizedLine off] else line_events off (take n d)) @
          log_events (off + n) False (drop n d))"
  by pat_completeness auto
termination
  by (relation "measure (\<lambda>(off, disc, d). length d)") (auto dest: line_end_Some)

declare log_events.simps [simp del]

lemma log_events_line:
  "CHR 0x0A \<notin> set a \<Longrightarrow> log_events off disc (a @ CHR 0x0A # r) =
     (if disc then [] else if Suc (length a) > maxAuthLine then [OversizedLine off] else line_events off (a @ [CHR 0x0A])) @
     log_events (off + Suc (length a)) False r"
  by (subst log_events.simps) (simp add: line_end_at)

lemma log_events_discard: "CHR 0x0A \<notin> set a \<Longrightarrow> log_events off True (a @ r) = log_events (off + length a) True r"
  by (subst (1 2) log_events.simps) (cases "line_end r"; simp add: line_end_app add.assoc)

lemma log_events_oversized:
  "CHR 0x0A \<notin> set a \<Longrightarrow> length a > maxAuthLine \<Longrightarrow>
   log_events off False (a @ r) = OversizedLine off # log_events (off + length a) True r"
  by (subst (1 2) log_events.simps) (cases "line_end r"; simp add: line_end_app add.assoc)

section \<open>The loop\<close>

definition scan_inv :: "scan_state \<Rightarrow> bool" where
  "scan_inv s \<longleftrightarrow> (if as_discard s then as_line s = [] else as_start s = as_offset s) \<and> CHR 0x0A \<notin> set (as_line s) \<and> length (as_line s) \<le> maxAuthLine"

text \<open>The rest of the file after what a state has read.\<close>

definition unread :: "string \<Rightarrow> scan_state \<Rightarrow> string \<Rightarrow> bool" where
  "unread full s rest \<longleftrightarrow> as_offset s \<le> length full \<and> drop (as_offset s) full = as_line s @ rest"

lemma unread_step: "n \<le> length full \<Longrightarrow> drop n full = xs @ rest \<Longrightarrow> n + length xs \<le> length full \<and> drop (n + length xs) full = rest"
  by (metis add.commute append_eq_conv_conj drop_drop le_add1 le_add_diff_inverse length_append length_drop nat_add_left_cancel_le)

definition pending :: "scan_state \<Rightarrow> string \<Rightarrow> auth_event list" where
  "pending s rest = log_events (as_offset s) (as_discard s) (as_line s @ rest)"

lemma take_fragment_law:
  assumes "scan_inv s" and "frag \<noteq> []" and "CHR 0x0A \<notin> set frag \<or> (\<exists>a. frag = a @ [CHR 0x0A] \<and> CHR 0x0A \<notin> set a)"
  shows "scan_inv (take_fragment frag s) \<and> (unread full s (frag @ rest) \<longrightarrow> unread full (take_fragment frag s) rest) \<and>
    as_offset s \<le> as_offset (take_fragment frag s) \<and>
    (\<exists>evs. as_events (take_fragment frag s) = as_events s @ evs \<and> (evs \<noteq> [] \<longrightarrow> as_offset s < as_offset (take_fragment frag s)) \<and> pending s (frag @ rest) = evs @ pending (take_fragment frag s) rest)"
  using assms(3)
proof
  assume no: "CHR 0x0A \<notin> set frag"
  then have l: "last frag \<noteq> CHR 0x0A" using assms(2) last_in_set by metis
  show ?thesis
    using assms(1,2) no l log_events_discard [OF no, of "as_offset s" rest]
      log_events_oversized [of "as_line s @ frag" "as_offset s" rest]
      unread_step [of "as_offset s" full "as_line s @ frag" rest]
    by (auto simp: take_fragment_def scan_inv_def unread_def pending_def Let_def)
next
  assume "\<exists>a. frag = a @ [CHR 0x0A] \<and> CHR 0x0A \<notin> set a"
  then obtain a where a: "frag = a @ [CHR 0x0A]" "CHR 0x0A \<notin> set a" by blast
  show ?thesis
    using assms(1) a log_events_line [of "as_line s @ a" "as_offset s" "as_discard s" rest]
      unread_step [of "as_offset s" full "as_line s @ frag" rest]
    by (auto simp: take_fragment_def scan_inv_def unread_def pending_def Let_def)
qed

lemma read_log_law:
  "read_log fault n w s = Inr s' \<Longrightarrow> scan_inv s \<Longrightarrow>
   \<exists>evs w2. scan_inv s' \<and> (unread full s (w @ b) \<longrightarrow> unread full s' (w2 @ b)) \<and> as_offset s \<le> as_offset s' \<and>
     as_events s' = as_events s @ evs \<and> (evs \<noteq> [] \<longrightarrow> as_offset s < as_offset s') \<and> pending s (w @ b) = evs @ pending s' (w2 @ b) \<and>
     (w2 = [] \<or> maxAuthEvents \<le> length (as_events s'))"
proof (induction fault n w s rule: read_log.induct)
  case (1 fault n w s)
  show ?case
  proof (cases "w = []")
    case True
    with 1(2) have "s' = s" by (simp add: read_log.simps [of fault n "[]" s] split: option.splits)
    with 1(3) True show ?thesis by (intro exI [of _ "[]"]) simp
  next
    case False
    define k where "k = next_fragment w"
    define t where "t = take_fragment (take k w) s"
    have w: "w = take k w @ drop k w" by simp
    have frag: "take k w \<noteq> []" "CHR 0x0A \<notin> set (take k w) \<or> (\<exists>a. take k w = a @ [CHR 0x0A] \<and> CHR 0x0A \<notin> set a)"
      unfolding k_def by (rule fragment_cases [OF False]; simp)+
    have wb: "take k w @ drop k w @ b = w @ b" by (simp flip: append_assoc)
    have law: "scan_inv t \<and> (unread full s (take k w @ drop k w @ b) \<longrightarrow> unread full t (drop k w @ b)) \<and> as_offset s \<le> as_offset t \<and>
        (\<exists>evs. as_events t = as_events s @ evs \<and> (evs \<noteq> [] \<longrightarrow> as_offset s < as_offset t) \<and>
           pending s (take k w @ drop k w @ b) = evs @ pending t (drop k w @ b))"
      unfolding t_def by (rule take_fragment_law [OF 1(3) frag])
    then obtain evs where e: "as_events t = as_events s @ evs" "evs \<noteq> [] \<longrightarrow> as_offset s < as_offset t"
      "pending s (w @ b) = evs @ pending t (drop k w @ b)"
      unfolding wb by blast
    from law have l: "scan_inv t" "unread full s (w @ b) \<longrightarrow> unread full t (drop k w @ b)" "as_offset s \<le> as_offset t"
      unfolding wb by blast+
    have f: "fault n = None" using 1(2) by (simp add: read_log.simps [of fault n w s] split: option.splits)
    show ?thesis
    proof (cases "length (as_events t) \<ge> maxAuthEvents")
      case True
      with 1(2) False f have "s' = t" by (simp add: read_log.simps [of fault n w s] k_def t_def Let_def)
      with l e True show ?thesis by blast
    next
      case more: False
      with 1(2) False f have r: "read_log fault (n + 1) (drop k w) t = Inr s'"
        by (simp add: read_log.simps [of fault n w s] k_def t_def Let_def)
      from 1(1) [OF f False k_def t_def more r l(1)] obtain evs2 w2 where i: "scan_inv s'"
        "unread full t (drop k w @ b) \<longrightarrow> unread full s' (w2 @ b)" "as_offset t \<le> as_offset s'" "as_events s' = as_events t @ evs2"
        "evs2 \<noteq> [] \<longrightarrow> as_offset t < as_offset s'"
        "pending t (drop k w @ b) = evs2 @ pending s' (w2 @ b)" "w2 = [] \<or> maxAuthEvents \<le> length (as_events s')" by blast
      with l e show ?thesis by (intro exI [of _ "evs @ evs2"] exI [of _ w2]) auto
    qed
  qed
qed

section \<open>Polls\<close>

lemma read_from_law:
  assumes "read_from fault c content = Inr (evs, c')" and "ck_offset c \<le> length content"
  shows "log_events (ck_offset c) (ck_discard c) (drop (ck_offset c) (content @ later)) =
      evs @ log_events (ck_offset c') (ck_discard c') (drop (ck_offset c') (content @ later)) \<and>
    ck_offset c \<le> ck_offset c' \<and> ck_offset c' \<le> length content \<and> c' = c\<lparr>ck_offset := ck_offset c', ck_discard := ck_discard c'\<rparr> \<and>
    (ck_offset c' = ck_offset c \<longrightarrow> evs = [] \<and> log_events (ck_offset c) (ck_discard c) (drop (ck_offset c) content) = [])"
proof -
  let ?s = "\<lparr>as_line = [], as_start = ck_offset c, as_offset = ck_offset c, as_discard = ck_discard c, as_events = []\<rparr>"
  define w where "w = take maxAuthLogRead (drop (ck_offset c) content)"
  define b where "b = drop maxAuthLogRead (drop (ck_offset c) content)"
  have wb: "drop (ck_offset c) content = w @ b" unfolding w_def b_def by (rule append_take_drop_id [symmetric])
  from assms(1) obtain s' where r: "read_log fault 0 w ?s = Inr s'" and e: "evs = as_events s'"
    and c': "c' = c\<lparr>ck_offset := as_offset s', ck_discard := as_discard s'\<rparr>"
    by (auto simp: read_from_def bindE_Inr_iff w_def)
  have inv: "scan_inv ?s" by (simp add: scan_inv_def)
  have full: "unread (content @ m) ?s (w @ b @ m)" for m using assms(2) wb by (simp add: unread_def)
  have un: "unread full s' rest \<Longrightarrow> pending s' rest = log_events (as_offset s') (as_discard s') (drop (as_offset s') full)" for full rest
    by (simp add: unread_def pending_def)
  from read_log_law [OF r inv, of "content @ later" "b @ later"] full [of later] obtain w2 where l: "scan_inv s'"
    "unread (content @ later) s' (w2 @ b @ later)" "as_offset ?s \<le> as_offset s'"
    "pending ?s (w @ b @ later) = as_events s' @ pending s' (w2 @ b @ later)" by auto
  from read_log_law [OF r inv, of content b] full [of "[]"] obtain w3 where l3: "unread content s' (w3 @ b)"
    "as_events s' \<noteq> [] \<longrightarrow> as_offset ?s < as_offset s'" "w3 = [] \<or> maxAuthEvents \<le> length (as_events s')"
    "pending ?s (w @ b) = as_events s' @ pending s' (w3 @ b)" by auto
  have ref: "log_events (ck_offset c) (ck_discard c) (drop (ck_offset c) (content @ m)) = pending ?s (w @ b @ m)" for m
    using assms(2) wb by (simp add: pending_def)
  have law: "log_events (ck_offset c) (ck_discard c) (drop (ck_offset c) (content @ later)) =
      evs @ log_events (ck_offset c') (ck_discard c') (drop (ck_offset c') (content @ later))"
    using l(2,4) ref [of later] un [OF l(2)] c' e by simp
  have le: "ck_offset c' \<le> length content" using l3(1) c' by (simp add: unread_def)
  have finished: "evs = [] \<and> log_events (ck_offset c) (ck_discard c) (drop (ck_offset c) content) = []" if "ck_offset c' = ck_offset c"
  proof -
    have same: "as_offset s' = ck_offset c" using that c' by simp
    with l3(2) have no: "as_events s' = []" by simp
    with l3(3) have "w3 = []" by (simp add: maxAuthEvents_def)
    with l3(1) same wb have line: "w @ b = as_line s' @ b" by (simp add: unread_def)
    with l(1) have w: "CHR 0x0A \<notin> set w" "length w \<le> maxAuthLine" by (simp_all add: scan_inv_def)
    then have "b = []" by (auto simp: w_def b_def maxAuthLine_def maxAuthLogRead_def min_def split: if_splits)
    with w wb have "log_events (ck_offset c) (ck_discard c) (drop (ck_offset c) content) = []"
      by (simp add: log_events.simps [of _ _ w] line_end_None [THEN iffD2])
    with no e show ?thesis by simp
  qed
  show ?thesis using law le finished l(3) c' by auto
qed

text \<open>
  A poll after the other: every poll sees a version of the file and stores its checkpoint; a poll that fails stores
  nothing.  The events are those that were stored with a checkpoint.
\<close>

fun follow :: "checkpoint \<Rightarrow> ((nat \<Rightarrow> string option) \<times> bytes) list \<Rightarrow> auth_event list \<times> checkpoint" where
  "follow c [] = ([], c)"
| "follow c ((fault, content) # vs) =
     (case read_from fault c content of
        Inl _ \<Rightarrow> follow c vs
      | Inr (evs, c') \<Rightarrow> (let (es, c'') = follow c' vs in (evs @ es, c'')))"

definition is_prefix :: "string \<Rightarrow> string \<Rightarrow> bool" where
  "is_prefix a b \<longleftrightarrow> take (length a) b = a"

lemma is_prefix_append: "is_prefix a b \<Longrightarrow> \<exists>r. b = a @ r"
  unfolding is_prefix_def by (metis append_take_drop_id)

lemma is_prefix_length: "is_prefix a b \<Longrightarrow> length a \<le> length b"
  by (auto dest: is_prefix_append)

definition grown_to :: "bytes \<Rightarrow> bytes list \<Rightarrow> bool" where
  "grown_to final vs \<longleftrightarrow> sorted_wrt is_prefix (vs @ [final])"

lemma grown_to_Cons: "grown_to final (v # vs) \<longleftrightarrow> (\<forall>u \<in> set vs. is_prefix v u) \<and> is_prefix v final \<and> grown_to final vs"
  by (auto simp: grown_to_def)

lemma follow_law:
  assumes "grown_to final (map snd vs)" and "\<forall>v \<in> set vs. ck_offset c \<le> length (snd v)" and "follow c vs = (es, c')"
  shows "log_events (ck_offset c) (ck_discard c) (drop (ck_offset c) final) =
    es @ log_events (ck_offset c') (ck_discard c') (drop (ck_offset c') final) \<and> ck_offset c \<le> ck_offset c' \<and>
    (ck_offset c \<le> length final \<longrightarrow> ck_offset c' \<le> length final)"
  using assms
proof (induction vs arbitrary: c es)
  case (Cons v vs)
  obtain fault content where v: "v = (fault, content)" by (cases v)
  from Cons.prems(1) v have g: "grown_to final (map snd vs)" "is_prefix content final" "\<forall>u \<in> set vs. is_prefix content (snd u)"
    by (auto simp: grown_to_Cons)
  show ?case
  proof (cases "read_from fault c content")
    case (Inl e)
    with Cons.prems(3) v have "follow c vs = (es, c')" by simp
    from Cons.IH [OF g(1) _ this] Cons.prems(2) show ?thesis by simp
  next
    case (Inr x)
    then obtain evs d where d: "read_from fault c content = Inr (evs, d)" by (cases x) simp
    from g(2) obtain later where later: "final = content @ later" by (auto dest: is_prefix_append)
    have le: "ck_offset c \<le> length content" using Cons.prems(2) v by simp
    note law = read_from_law [OF d le, of later]
    have "\<forall>u \<in> set vs. ck_offset d \<le> length (snd u)" using law g(3) is_prefix_length by fastforce
    from Cons.IH [OF g(1) this] Cons.prems(3) v d law later show ?thesis by (auto split: prod.splits)
  qed
qed simp

text \<open>Faultless polls of one file, as many as it has bytes left and one more, read it to the end.\<close>

lemma follow_drained:
  assumes "ck_offset c \<le> length content" and "length content - ck_offset c < k" and "follow c (replicate k (\<lambda>_. None, content)) = (es, c')"
    and "\<And>d. ck_offset d \<le> length content \<Longrightarrow> \<exists>x. read_from (\<lambda>_. None) d content = Inr x"
  shows "log_events (ck_offset c') (ck_discard c') (drop (ck_offset c') content) = []"
  using assms(1-3)
proof (induction k arbitrary: c es)
  case (Suc k)
  from assms(4) [OF Suc.prems(1)] obtain evs d where d: "read_from (\<lambda>_. None) c content = Inr (evs, d)" by (metis surj_pair)
  note law = read_from_law [OF d Suc.prems(1), of "[]"]
  from Suc.prems(3) d obtain es' where f: "follow d (replicate k (\<lambda>_. None, content)) = (es', c')" by (auto split: prod.splits)
  show ?case
  proof (cases "ck_offset d = ck_offset c")
    case False
    with law Suc.prems(2) have "length content - ck_offset d < k" by linarith
    with Suc.IH [OF _ this f] law show ?thesis by simp
  next
    case True
    with law have "evs = []" "log_events (ck_offset c) (ck_discard c) (drop (ck_offset c) content) = []" by auto
    with law have "log_events (ck_offset d) (ck_discard d) (drop (ck_offset d) content) = []" by simp
    moreover have "grown_to content (map snd (replicate k (\<lambda>_. None :: string option, content)))"
      by (induction k) (auto simp: grown_to_def is_prefix_def sorted_wrt_append)
    ultimately show ?thesis using follow_law [OF _ _ f, of content] law by auto
  qed
qed simp

lemma read_log_total: "\<exists>s'. read_log (\<lambda>_. None) n w s = Inr s'"
proof (induction "\<lambda>_ :: nat. None :: string option" n w s rule: read_log.induct)
  case (1 n w s)
  then show ?case by (simp add: read_log.simps [of "\<lambda>_. None" n w s] Let_def)
qed

lemma read_from_total: "\<exists>x. read_from (\<lambda>_. None) c content = Inr x"
proof -
  obtain s' where "read_log (\<lambda>_. None) 0 (take maxAuthLogRead (drop (ck_offset c) content))
      \<lparr>as_line = [], as_start = ck_offset c, as_offset = ck_offset c, as_discard = ck_discard c, as_events = []\<rparr> = Inr s'"
    using read_log_total by blast
  then show ?thesis by (simp add: read_from_def)
qed

text \<open>
  C40: However the file grows between the polls, whichever polls fail, and however small the bounds of a poll are
  against the file, the events stored with the checkpoints are a beginning of the events of the lines, in order
  and each once; and what is missing is what lies behind the last checkpoint.  Once the file rests, polls that
  succeed deliver all of it.
\<close>

theorem auth_log_exactly_once:
  assumes "grown_to final (map snd vs)" and "\<forall>v \<in> set vs. ck_offset c \<le> length (snd v)" and "ck_offset c \<le> length final"
    and "follow c vs = (es, c')" and "length final < k"
  shows "\<exists>rest c''. follow c' (replicate k (\<lambda>_. None, final)) = (rest, c'') \<and>
    log_events (ck_offset c) (ck_discard c) (drop (ck_offset c) final) = es @ rest \<and>
    log_events (ck_offset c') (ck_discard c') (drop (ck_offset c') final) = rest"
proof -
  obtain rest c'' where f: "follow c' (replicate k (\<lambda>_. None, final)) = (rest, c'')" by (metis surj_pair)
  note first = follow_law [OF assms(1,2,4)]
  have le: "ck_offset c' \<le> length final" using first assms(3) by blast
  have g: "grown_to final (map snd (replicate k (\<lambda>_. None :: string option, final)))"
    by (induction k) (auto simp: grown_to_def is_prefix_def sorted_wrt_append)
  have "log_events (ck_offset c'') (ck_discard c'') (drop (ck_offset c'') final) = []"
    by (rule follow_drained [OF le _ f]) (use assms(5) read_from_total in auto)
  with follow_law [OF g _ f] le first f show ?thesis by simp
qed

end
