(* ===== verification/AuthLogDemo.thy ===== *)
theory AuthLogDemo
  imports JournalLog AuthLogProps
begin

text \<open>Closed instances for the authentication log, and two messages an attacker can shape.\<close>

definition demo_login :: string where
  "demo_login = ''Failed password for root from 1.2.3.4 port 7''"

definition demo_log :: bytes where
  "demo_log = demo_login @ [CHR 0x0A]"

definition demo_start :: checkpoint where
  "demo_start = \<lparr>ck_version = 1, ck_device = 1, ck_inode = 2, ck_generation = 1, ck_offset = 0, ck_discard = False\<rparr>"

lemma demo_failed: "failed_ssh demo_login = Some ''1.2.3.4''"
  by code_simp

lemma demo_log_events: "log_events 0 False demo_log = [LoginFailure 0 demo_login ''1.2.3.4'']"
proof -
  have no: "CHR 0x0A \<notin> set demo_login" by (simp add: demo_login_def)
  have len: "length demo_login = 44" by (simp add: demo_login_def)
  have trim: "trim_suffix (demo_login @ [CHR 0x0A]) [CHR 0x0A] = demo_login" "trim_suffix demo_login [CHR 0x0D] = demo_login"
    by code_simp+
  have "log_events 45 False [] = []" by (simp add: log_events.simps)
  with log_events_line [OF no, of 0 False "[]"] show ?thesis
    by (simp add: demo_log_def len maxAuthLine_def line_events_def trim demo_failed)
qed

text \<open>A first poll fails, the next ones find the failed login.\<close>

theorem auth_log_exactly_once_witness:
  "\<exists>c''. follow demo_start (replicate 46 (\<lambda>_. None, demo_log)) = ([LoginFailure 0 demo_login ''1.2.3.4''], c'')"
proof -
  have len: "length demo_log = 45" by (simp add: demo_log_def demo_login_def)
  have "read_log (\<lambda>_. Some ''gone'') 0 w s = Inl ''gone''" for w s by (simp add: read_log.simps)
  then have f: "follow demo_start [(\<lambda>_. Some ''gone'', [])] = ([], demo_start)" by (simp add: read_from_def)
  have g: "grown_to demo_log (map snd [(\<lambda>_ :: nat. Some ''gone'', [])])" by (simp add: grown_to_def is_prefix_def)
  have o: "ck_offset demo_start = 0" "ck_discard demo_start = False" by (simp_all add: demo_start_def)
  from auth_log_exactly_once [OF g _ _ f, of 46] obtain rest c'' where r: "follow demo_start (replicate 46 (\<lambda>_. None, demo_log)) = (rest, c'')"
    "log_events (ck_offset demo_start) (ck_discard demo_start) (drop (ck_offset demo_start) demo_log) = [] @ rest"
    by (auto simp: o len)
  from r(2) have "rest = [LoginFailure 0 demo_login ''1.2.3.4'']" by (simp add: o demo_log_events)
  with r(1) show ?thesis by simp
qed

section \<open>Names that look like failures\<close>

text \<open>
  The pattern is not anchored: the name of an unknown user, which whoever connects chooses, can contain the second
  alternative; the address it names is reported, not the one the connection came from.
\<close>

lemma injected_address: "failed_ssh ''Invalid user authentication failure; rhost=8.8.8.8 from 203.0.113.9 port 41414'' = Some ''8.8.8.8''"
  by code_simp

text \<open>In the journal the same message becomes a verified failure that may lead to an automatic action.\<close>

definition injected_record :: journal_record where
  "injected_record = \<lparr>jr_message = ''Invalid user authentication failure; rhost=8.8.8.8 from 203.0.113.9 port 41414'', jr_cursor = ''c1'', jr_time = []\<rparr>"

lemma injected_failure_verified:
  "\<exists>e. journal_event L 0 injected_record = Some e \<and> sv_type e = ''ssh_auth_failure'' \<and> sv_source e = ''8.8.8.8'' \<and> sv_payload e = verified_payload"
proof -
  have "trim_space ''8.8.8.8'' = ''8.8.8.8''" "occurred_at [] 0 = 0" by code_simp+
  then show ?thesis using injected_address by (simp add: journal_event_def injected_record_def live_window_def week_def Let_def)
qed

text \<open>And a name can look like a success, too.\<close>

lemma injected_success:
  "failed_ssh ''Invalid user Accepted publickey for root from 8.8.8.8 from 203.0.113.9 port 41414'' = None \<and>
   accepted_ssh ''Invalid user Accepted publickey for root from 8.8.8.8 from 203.0.113.9 port 41414'' = Some (''publickey'', ''root'', ''8.8.8.8'')"
  by code_simp

section \<open>An oversized line\<close>

lemma read_runtime_oversized:
  assumes "rest \<noteq> []" and "(case line_end rest of None \<Rightarrow> length rest | Some k \<Rightarrow> k) > maxRuntimeLine"
  shows "\<exists>e. read_runtime fault event n rest off [] = Inl e"
  using assms by (cases "fault n") (simp_all add: read_runtime.simps [of fault event n rest off "[]"] Let_def maxRuntimeEvents_def)

text \<open>
  A line longer than the limit at the checkpoint fails every later poll of the file, however it grows: the checkpoint
  never passes it.
\<close>

lemma runtime_oversized_stuck:
  assumes "CHR 0x0A \<notin> set (take maxRuntimeLine (drop (ck_offset c) content))" and "length (drop (ck_offset c) content) > maxRuntimeLine"
  shows "\<exists>e. read_runtime fault event 0 (take maxRuntimeLogRead (drop (ck_offset c) (content @ later))) (ck_offset c) [] = Inl e"
proof -
  let ?w = "take maxRuntimeLogRead (drop (ck_offset c) (content @ later))"
  have le: "ck_offset c \<le> length content" using assms(2) by (cases "ck_offset c \<le> length content") auto
  define d where "d = drop (ck_offset c) content"
  have w: "?w = take maxRuntimeLogRead (d @ later)" using le by (simp add: d_def)
  have k: "(case line_end ?w of None \<Rightarrow> length ?w | Some k \<Rightarrow> k) > maxRuntimeLine"
  proof (cases "line_end ?w")
    case None
    then show ?thesis using assms(2) unfolding w d_def [symmetric] by (simp add: maxRuntimeLine_def maxRuntimeLogRead_def)
  next
    case (Some k)
    from line_end_Some [OF this] obtain a r where a: "?w = a @ CHR 0x0A # r" "k = Suc (length a)" by blast
    have "\<not> k \<le> maxRuntimeLine"
    proof
      assume "k \<le> maxRuntimeLine"
      then have "CHR 0x0A \<in> set (take maxRuntimeLine ?w)" using a by (auto simp: take_Cons' split: if_splits)
      moreover have "take maxRuntimeLine ?w = take maxRuntimeLine d"
        unfolding w using assms(2) by (simp add: maxRuntimeLine_def maxRuntimeLogRead_def min_def d_def)
      ultimately show False using assms(1) unfolding d_def by metis
    qed
    with Some show ?thesis by simp
  qed
  then have "?w \<noteq> []" by (cases "?w = []") auto
  from read_runtime_oversized [OF this k] show ?thesis .
qed

end
