(* ===== verification/CaseFindings.thy ===== *)
theory CaseFindings
  imports SecurityProps CompletionProps
begin

text \<open>
  Places where the bounded and unique tables of the cases get in the way: a result that cannot
  be recorded, an event that cannot be taken in, and a log longer than its limit.
\<close>

section \<open>A result that cannot be recorded\<close>

definition demo_step :: response_step where
  "demo_step = \<lparr>rs_id = ''st1'', rs_type = TypeTemporaryIPBan, rs_params = ''{}'', rs_action = ''act1'', rs_rest = []\<rparr>"

definition demo_case_jx :: store_lib where
  "demo_case_jx = demo_jx\<lparr>jx_steps := (\<lambda>_. Some [demo_step])\<rparr>"

definition demo_incident :: incident_row where
  "demo_incident = \<lparr>in_id = ''inc1'', in_device = ''dev1'', in_key = ''k'', in_category = ''network'', in_severity = SeverityHigh,
     in_status = IncidentResponding, in_count = 1, in_first = 100, in_last = 100, in_investigated = None, in_created = 100, in_updated = 100\<rparr>"

definition demo_plan :: plan_row where
  "demo_plan = \<lparr>pl_id = ''p1'', pl_incident = ''inc1'', pl_investigation = [], pl_title = [], pl_rationale = [], pl_risk = [],
     pl_status = PlanExecuting, pl_requires = True, pl_steps = [], pl_created = 100, pl_updated = 100\<rparr>"

text \<open>A device executes the only step of a response plan.\<close>

definition demo_responding :: store where
  "demo_responding = demo_running\<lparr>st_incidents := [demo_incident], st_plans := [demo_plan],
     st_links := [\<lparr>lk_plan = ''p1'', lk_step = ''st1'', lk_action = ''act1''\<rparr>]\<rparr>"

definition demo_signal :: signal_row where
  "demo_signal = \<lparr>sg_id = ''event:e2'', sg_device = ''dev1'', sg_type = ''t'', sg_category = ''network'', sg_severity = SeverityLow,
     sg_trust = ''verified'', sg_subject = ''s'', sg_source = ''runtime_sensor'', sg_ref = ''e2'', sg_payload = [], sg_at = 350, sg_ingested = 350\<rparr>"

definition demo_resolved :: store where
  "demo_resolved = demo_responding\<lparr>st_incidents := [demo_incident\<lparr>in_status := IncidentResolved, in_updated := 340\<rparr>],
     st_timeline := [\<lparr>tl_incident = ''inc1'', tl_actor = ''admin'', tl_type = ''status_changed'',
       tl_details = ''{'' @ quote ''status'' @ '':'' @ quote (incident_status_text IncidentResolved) @ ''}'', tl_at = 340\<rparr>]\<rparr>"

lemma demo_resolve: "set_incident_status ''inc1'' IncidentResolved ''admin'' 340 demo_responding = Inr demo_resolved"
  by (simp add: set_incident_status_def demo_resolved_def demo_responding_def demo_incident_def insert_timeline_def
      correlation_unique_def incident_active_def set_incident_def guardE_def cnt_where_def upd_where_def demo_store_defs Let_def)


definition demo_reopened :: store where
  "demo_reopened = demo_resolved\<lparr>st_incidents := [demo_incident\<lparr>in_status := IncidentResolved, in_updated := 340\<rparr>,
       opened_incident ''inc2'' demo_signal ''k''],
     st_timeline := st_timeline demo_resolved @ [\<lparr>tl_incident = ''inc2'', tl_actor = ''runtime_sensor'', tl_type = ''incident_opened'',
       tl_details = empty_json, tl_at = 350\<rparr>]\<rparr>"

definition demo_cases :: case_db where
  "demo_cases = \<lparr>cd_store = demo_resolved, cd_signals = [], cd_evidence = [], cd_investigations = []\<rparr>"

lemma trim_small: "length t \<le> n \<Longrightarrow> trim_table n p k t = t"
  by (rule trim_few) (simp add: cnt_where_def le_trans [OF length_filter_le])

lemma demo_reopen:
  "\<exists>r s'. upsert_signal demo_case_jx ''inc2'' demo_signal ''k'' demo_cases = Inr (r, s') \<and> cd_store s' = demo_reopened"
  by (simp add: upsert_signal_def signal_valid_def insert_signal_def trim_signals_def choose_incident_def active_incident_def
      active_count_def maxActiveIncidentsPerDevice_def capacity_key_def open_incident_def insert_incident_def opened_incident_def
      insert_timeline_def link_signal_def note_signal_def trim_timeline_def trim_closed_def cascade_def find_incident_def
      maxSignalsPerDevice_def maxTimelineEventsPerIncident_def maxIncidentsPerDevice_def trim_small signal_key_def evidence_key_def
      correlation_unique_def incident_active_def del_where_def table_simps demo_reopened_def demo_cases_def demo_resolved_def
      demo_responding_def demo_incident_def demo_signal_def demo_plan_def demo_store_defs Let_def) (auto simp: image_iff)

lemma demo_case_verdict:
  "judge demo_case_jx (case_of demo_case_jx (demo_command\<lparr>cm_started := Some 300\<rparr>)
     \<lparr>me_action = ''act1'', me_type = TypeTemporaryIPBan, me_params = ''{}''\<rparr> demo_result) demo_result 400 =
   \<lparr>vd_ok = True, vd_indeterminate = False, vd_error = [], vd_rollback = ''[7]'', vd_resume = False, vd_warn = False\<rparr>"
  by (simp add: judge_def objection_def receipt_objection_def confirm_objection_def legacy_resume_def trusted_success_def
      unknown_with_state_def unknown_without_state_def unknown_receipt_def receipt_of_def receipt_matches_def case_of_def
      expected_operation_def valid_successful_steps_def expected_steps_def valid_rollback_state_def action_command_def
      demo_result_def demo_receipt_def demo_case_jx_def demo_jx_def demo_command_def new_command_def ExecutionIndeterminateMessage_def
      action_type_defs demo_lib_def Let_def)

text \<open>Completing the step's command: it succeeds where the incident is active, and where it is resolved and no other one is open.\<close>

lemma demo_settle:
  assumes "find_command ''cmd1'' ''dev1'' s = Some (demo_command\<lparr>cm_started := Some 300\<rparr>)"
    and "settle_command demo_case_jx ([], [], []) (demo_command\<lparr>cm_started := Some 300\<rparr>)
       \<lparr>me_action = ''act1'', me_type = TypeTemporaryIPBan, me_params = ''{}''\<rparr> demo_result
       (the (completion_digest demo_case_jx ''dev1'' ''cmd1'' demo_result)) 400 s = r"
  shows "complete_command_and_action demo_case_jx ([], [], []) ''dev1'' ''cmd1'' demo_result 400 s = r"
proof -
  have su: "demo_result\<lparr>su_result := nonempty_json (su_result demo_result)\<rparr> = demo_result"
    by (simp add: demo_result_def nonempty_json_def)
  obtain d where d: "completion_digest demo_case_jx ''dev1'' ''cmd1'' demo_result = Some d"
    by (simp add: completion_digest_def demo_case_jx_def demo_jx_def demo_result_def)
  show ?thesis
    using assms d by (simp add: complete_command_and_action_def su action_command_def demo_case_jx_def demo_jx_def demo_command_def new_command_def)
qed

lemma demo_blocked:
  "settle_command demo_case_jx ([], [], []) (demo_command\<lparr>cm_started := Some 300\<rparr>)
     \<lparr>me_action = ''act1'', me_type = TypeTemporaryIPBan, me_params = ''{}''\<rparr> demo_result d 400 demo_reopened = Inl ErrConstraint"
  unfolding settle_command_def Let_def demo_case_verdict
  by (simp add: project_def project_execute_def move_action_def action_in_def affected_def cnt_where_def project_bans_def
      follow_up_def sync_plan_def plan_of_action_def step_statuses_def find_action_def next_plan_state_def status_done_def status_failed_def
      set_plan_def set_incident_def correlation_unique_def incident_active_def
      insert_audit_def audit_entry_def record_result_def update_commands_def execute_status_def
      update_actions_def update_bans_def upd_where_def execute_update_def projection_of_def receipt_of_def demo_receipt_def
      action_command_def demo_reopened_def demo_resolved_def demo_responding_def demo_incident_def demo_plan_def demo_step_def
      opened_incident_def capacity_key_def demo_signal_def demo_result_def demo_store_defs demo_case_jx_def demo_jx_def seconds_def wrap64_def Let_def)


lemma demo_find:
  "find_command ''cmd1'' ''dev1'' demo_reopened = Some (demo_command\<lparr>cm_started := Some 300\<rparr>)"
  "find_command ''cmd1'' ''dev1'' demo_responding = Some (demo_command\<lparr>cm_started := Some 300\<rparr>)"
  by (simp_all add: find_command_def demo_reopened_def demo_resolved_def demo_responding_def demo_store_defs)

lemma demo_unblocked:
  "\<exists>r. settle_command demo_case_jx ([], [], []) (demo_command\<lparr>cm_started := Some 300\<rparr>)
     \<lparr>me_action = ''act1'', me_type = TypeTemporaryIPBan, me_params = ''{}''\<rparr> demo_result d 400 demo_responding = Inr r"
  unfolding settle_command_def Let_def demo_case_verdict
  by (simp add: project_def project_execute_def move_action_def action_in_def affected_def cnt_where_def project_bans_def
      follow_up_def sync_plan_def plan_of_action_def step_statuses_def find_action_def next_plan_state_def status_done_def status_failed_def
      set_plan_def set_incident_def correlation_unique_def incident_active_def insert_timeline_def
      insert_audit_def audit_entry_def record_result_def update_commands_def execute_status_def
      update_actions_def update_bans_def upd_where_def execute_update_def projection_of_def receipt_of_def demo_receipt_def
      action_command_def demo_responding_def demo_incident_def demo_plan_def demo_step_def
      demo_result_def demo_store_defs demo_case_jx_def demo_jx_def seconds_def wrap64_def Let_def)

text \<open>
  While a step of a response plan runs, an administrator resolves the incident and a new signal opens a fresh one under
  the same correlation key: the device's result is then refused with a constraint error, at every attempt, although the
  same result is accepted without the resolution.
\<close>

theorem resolved_case_blocks_result:
  "(\<exists>r. complete_command_and_action demo_case_jx ([], [], []) ''dev1'' ''cmd1'' demo_result 400 demo_responding = Inr r) \<and>
   (\<exists>s1 r s2. set_incident_status ''inc1'' IncidentResolved ''admin'' 340 demo_responding = Inr s1 \<and>
     upsert_signal demo_case_jx ''inc2'' demo_signal ''k'' \<lparr>cd_store = s1, cd_signals = [], cd_evidence = [], cd_investigations = []\<rparr> = Inr (r, s2) \<and>
     complete_command_and_action demo_case_jx ([], [], []) ''dev1'' ''cmd1'' demo_result 400 (cd_store s2) = Inl ErrConstraint)"
proof
  obtain r where "settle_command demo_case_jx ([], [], []) (demo_command\<lparr>cm_started := Some 300\<rparr>)
       \<lparr>me_action = ''act1'', me_type = TypeTemporaryIPBan, me_params = ''{}''\<rparr> demo_result
       (the (completion_digest demo_case_jx ''dev1'' ''cmd1'' demo_result)) 400 demo_responding = Inr r"
    using demo_unblocked by blast
  from demo_settle [OF demo_find(2) this]
  show "\<exists>r. complete_command_and_action demo_case_jx ([], [], []) ''dev1'' ''cmd1'' demo_result 400 demo_responding = Inr r" by blast
  obtain r s2 where s2: "upsert_signal demo_case_jx ''inc2'' demo_signal ''k'' demo_cases = Inr (r, s2)" "cd_store s2 = demo_reopened"
    using demo_reopen by blast
  have "complete_command_and_action demo_case_jx ([], [], []) ''dev1'' ''cmd1'' demo_result 400 (cd_store s2) = Inl ErrConstraint"
    unfolding s2(2) by (rule demo_settle [OF demo_find(1) demo_blocked])
  with demo_resolve s2(1) show "\<exists>s1 r s2. set_incident_status ''inc1'' IncidentResolved ''admin'' 340 demo_responding = Inr s1 \<and>
     upsert_signal demo_case_jx ''inc2'' demo_signal ''k'' \<lparr>cd_store = s1, cd_signals = [], cd_evidence = [], cd_investigations = []\<rparr> = Inr (r, s2) \<and>
     complete_command_and_action demo_case_jx ([], [], []) ''dev1'' ''cmd1'' demo_result 400 (cd_store s2) = Inl ErrConstraint"
    unfolding demo_cases_def by blast
qed

section \<open>An event that cannot be taken in\<close>

text \<open>Every piece of evidence points to a recorded signal, as the foreign key demands.\<close>

definition evidence_backed :: "case_db \<Rightarrow> bool" where
  "evidence_backed s \<longleftrightarrow> evidence_key ` set (cd_evidence s) \<subseteq> signal_key ` set (cd_signals s)"

lemma late_signal_refused:
  assumes "evidence_backed s" and "signal_key g \<notin> signal_key ` set (cd_signals s)"
    and newer: "\<forall>x \<in> set (cd_signals s). sg_device x = sg_device g \<longrightarrow> sg_at g < sg_at x"
    and many: "maxSignalsPerDevice \<le> cnt_where (\<lambda>x. sg_device x = sg_device g) (cd_signals s)"
  shows "\<exists>err. upsert_signal J nid g key s = Inl err"
proof (cases "\<exists>err. upsert_signal J nid g key s = Inl err")
  case False
  let ?g = "g\<lparr>sg_payload := nonempty_json (sg_payload g)\<rparr>"
  have key: "signal_key ?g = signal_key g" by (simp add: signal_key_def)
  from False obtain r s' where "upsert_signal J nid g key s = Inr (r, s')" by (metis old.prod.exhaust old.sum.exhaust)
  then obtain s1 iid created st s2 where s1: "insert_signal ?g s = Inr s1"
    and s2: "link_signal iid ?g (s1\<lparr>cd_store := st\<rparr>) = Inr s2"
    using assms(2) key by (auto simp: upsert_signal_def Let_def bindE_Inr_iff split: if_splits)
  have "set (trim_table maxSignalsPerDevice (\<lambda>x. sg_device x = sg_device ?g) sg_at (cd_signals s @ [?g])) \<subseteq> set (cd_signals s)"
    by (rule trim_drops_oldest) (use newer many in simp_all)
  then have sub: "set (cd_signals s1) \<subseteq> set (cd_signals s)"
    using s1 by (auto simp: insert_signal_def trim_signals_def Let_def split: if_splits)
  have "set (cd_evidence s1) \<subseteq> set (cd_evidence s)"
    using s1 by (auto simp: insert_signal_def trim_signals_def Let_def set_del_where split: if_splits)
  then have "signal_key g \<notin> evidence_key ` set (cd_evidence s1)"
    using assms(1,2) by (auto simp: evidence_backed_def)
  moreover have "signal_key g \<notin> signal_key ` set (cd_signals s1)" using sub assms(2) by blast
  ultimately have False using s2 key by (auto simp: link_signal_def split: if_splits)
  then show ?thesis ..
qed

text \<open>
  An event that becomes a signal older than the ten thousand signals its device already has is refused with an error,
  not only left out: the new signal is the first the retention deletes, and its link to the incident fails.
\<close>

theorem late_event_refused:
  assumes "sv_type e = ''file_integrity_changed''" and "(sv_device e, sv_id e) \<notin> (\<lambda>x. (sv_device x, sv_id x)) ` set (gd_events s)"
    and "sv_device e \<in> dv_id ` set (st_devices (gd_store s))" and "evidence_backed (gd_cases s)"
    and "\<forall>x \<in> set (cd_signals (gd_cases s)). sg_device x = sv_device e \<longrightarrow> sv_at e < sg_at x"
    and "maxSignalsPerDevice \<le> cnt_where (\<lambda>x. sg_device x = sv_device e) (cd_signals (gd_cases s))"
    and "(sv_device e, ''event:'' @ sv_id e) \<notin> signal_key ` set (cd_signals (gd_cases s))"
  shows "\<exists>err. process_event E I e observer now s = Inl err"
proof -
  let ?e = "canonical_event E e"
  have c: "sv_type ?e = sv_type e" "sv_device ?e = sv_device e" "sv_id ?e = sv_id e" "sv_at ?e = sv_at e"
    by (simp_all add: canonical_event_def Let_def split: option.split)
  define s1 where "s1 = prune_events (sv_device e) (s\<lparr>gd_events := gd_events s @ [?e]\<rparr>)"
  have same: "gd_cases s1 = gd_cases s"
    by (simp add: s1_def prune_events_def count_event_def update_retention_def reset_since_def Let_def split: option.split)
  obtain g key where g: "signal_from_event (el_meta E) now ?e = (g, key)" by (cases "signal_from_event (el_meta E) now ?e")
  then have gk: "sg_device g = sv_device e" "sg_at g = sv_at e" "signal_key g = (sv_device e, ''event:'' @ sv_id e)"
    by (auto simp: signal_from_event_def signal_key_def Let_def c split: prod.splits)
  have "\<exists>err. upsert_signal (el_jx E) (xi_incident I) g key (gd_cases s1) = Inl err"
    unfolding same by (rule late_signal_refused) (use assms gk in simp_all)
  then have "\<exists>err. process_other E I ?e observer (no_outcome\<lparr>xo_inserted := True\<rparr>) now s1 = Inl err"
    by (auto simp: process_other_def upsert_in_def g)
  then show ?thesis
    using assms(1-3) by (simp add: process_event_def Let_def c s1_def)
qed

section \<open>A log longer than its limit\<close>

definition login :: "string \<Rightarrow> security_event \<Rightarrow> bool" where
  "login dev e \<longleftrightarrow> sv_device e = dev \<and> sv_type e = ''ssh_auth_success''"

text \<open>A login of a device without open cases only goes into the log, and counts towards its next trimming.\<close>

lemma login_logged:
  assumes e: "login dev e" "sv_id e \<notin> sv_id ` set (filter (\<lambda>x. sv_device x = dev) (gd_events s))"
    and dev: "dev \<in> dv_id ` set (st_devices (gd_store s))" and quiet: "\<forall>i \<in> set (st_incidents (gd_store s)). in_device i \<noteq> dev"
    and r: "retention_of dev s = Some r" and few: "rt_since r + 1 < int securityEventRetentionBatch"
  shows "process_event E I e observer now s = Inr (no_outcome\<lparr>xo_inserted := True\<rparr>,
     update_retention (\<lambda>r. rt_device r = dev) (\<lambda>r. r\<lparr>rt_since := rt_since r + 1\<rparr>) (s\<lparr>gd_events := gd_events s @ [canonical_event E e]\<rparr>))"
proof -
  let ?e = "canonical_event E e"
  have c: "sv_device ?e = dev" "sv_id ?e = sv_id e" "sv_type ?e = ''ssh_auth_success''"
    using e(1) by (simp_all add: canonical_event_def login_def Let_def split: option.split)
  have new: "(dev, sv_id e) \<notin> (\<lambda>x. (sv_device x, sv_id x)) ` set (gd_events s)"
    using e(2) by (auto simp: image_iff)
  have "retention_of dev (s\<lparr>gd_events := t\<rparr>) = Some r" for t using r by (simp add: retention_of_def)
  then have p: "prune_events dev (s\<lparr>gd_events := gd_events s @ [?e]\<rparr>) =
      update_retention (\<lambda>r. rt_device r = dev) (\<lambda>r. r\<lparr>rt_since := rt_since r + 1\<rparr>) (s\<lparr>gd_events := gd_events s @ [?e]\<rparr>)"
    using few by (simp add: prune_events_def count_event_def)
  have "cnt_where (\<lambda>i. in_device i = dev \<and> in_key i = k \<and> incident_active i) (st_incidents (gd_store s)) = 0" for k
    using quiet by (auto simp: cnt_where_0_iff)
  then show ?thesis
    using new dev by (simp add: process_event_def Let_def c p process_success_def update_retention_def split: prod.split)
qed

text \<open>Taking in one event after the other.\<close>

fun take_in :: "event_lib \<Rightarrow> event_ids \<Rightarrow> bool \<Rightarrow> instant \<Rightarrow> security_event list \<Rightarrow> guard_db \<Rightarrow> store_error + guard_db" where
  "take_in E I observer now [] s = Inr s"
| "take_in E I observer now (e # es) s = bindE (process_event E I e observer now s) (\<lambda>(_, s'). take_in E I observer now es s')"

lemma logins_logged:
  assumes "\<forall>e \<in> set es. login dev e" and "distinct (map sv_id es)"
    and "sv_id ` set es \<inter> sv_id ` set (filter (\<lambda>x. sv_device x = dev) (gd_events s)) = {}"
    and "dev \<in> dv_id ` set (st_devices (gd_store s))" and "\<forall>i \<in> set (st_incidents (gd_store s)). in_device i \<noteq> dev"
    and "retention_of dev s = Some r" and "rt_since r + int (length es) < int securityEventRetentionBatch"
  shows "\<exists>s'. take_in E I observer now es s = Inr s' \<and>
     cnt_where (\<lambda>e. sv_device e = dev) (gd_events s') = cnt_where (\<lambda>e. sv_device e = dev) (gd_events s) + length es"
  using assms
proof (induction es arbitrary: s r)
  case (Cons e es)
  let ?s = "update_retention (\<lambda>r. rt_device r = dev) (\<lambda>r. r\<lparr>rt_since := rt_since r + 1\<rparr>) (s\<lparr>gd_events := gd_events s @ [canonical_event E e]\<rparr>)"
  have c: "sv_device (canonical_event E e) = dev" "sv_id (canonical_event E e) = sv_id e"
    using Cons.prems(1) by (simp_all add: canonical_event_def login_def Let_def split: option.split)
  have step: "process_event E I e observer now s = Inr (no_outcome\<lparr>xo_inserted := True\<rparr>, ?s)"
    by (rule login_logged) (use Cons.prems in auto)
  have "retention_of dev ?s = Some (r\<lparr>rt_since := rt_since r + 1\<rparr>)"
    using Cons.prems(6) by (simp add: retention_of_def update_retention_def find_upd)
  moreover have "sv_id ` set es \<inter> sv_id ` set (filter (\<lambda>x. sv_device x = dev) (gd_events ?s)) = {}"
    using Cons.prems(2,3) by (auto simp: update_retention_def c)
  ultimately obtain s' where "take_in E I observer now es ?s = Inr s'"
    "cnt_where (\<lambda>e. sv_device e = dev) (gd_events s') = cnt_where (\<lambda>e. sv_device e = dev) (gd_events ?s) + length es"
    using Cons.IH [of ?s "r\<lparr>rt_since := rt_since r + 1\<rparr>"] Cons.prems by (auto simp: update_retention_def)
  moreover have "cnt_where (\<lambda>e. sv_device e = dev) (gd_events ?s) = Suc (cnt_where (\<lambda>e. sv_device e = dev) (gd_events s))"
    by (simp add: update_retention_def table_simps c)
  ultimately show ?case using step by simp
qed simp

lemma apart: "A \<subseteq> insert c B \<Longrightarrow> C \<subseteq> A \<Longrightarrow> D \<inter> B = {} \<Longrightarrow> c \<notin> D \<Longrightarrow> D \<inter> C = {}"
  by blast

text \<open>
  The report of a full correlation table clears the trimming counter although it leaves up to two thousand events: the
  next hundred and twenty-seven logins are stored without trimming, and the log holds more than its limit.
\<close>

theorem degraded_log_overflows:
  assumes "cnt_where (\<lambda>e. sv_device e = dev \<and> sv_id e \<noteq> correlation_event_id) (gd_events s) \<ge> maxSecurityEventsPerDevice - 1"
    and "retention_of dev s = Some r" and "\<forall>e \<in> set es. login dev e" and "distinct (map sv_id es)" and "length es = 127"
    and "sv_id ` set es \<inter> sv_id ` set (gd_events s) = {}" and "correlation_event_id \<notin> sv_id ` set es"
    and "dev \<in> dv_id ` set (st_devices (gd_store s))" and "\<forall>i \<in> set (st_incidents (gd_store s)). in_device i \<noteq> dev"
  shows "\<exists>s'. take_in E I observer now es (record_degraded J dev n at s) = Inr s' \<and>
     maxSecurityEventsPerDevice + 127 \<le> cnt_where (\<lambda>e. sv_device e = dev) (gd_events s')"
proof -
  let ?d = "record_degraded J dev n at s"
  let ?other = "\<lambda>e. sv_device e = dev \<and> sv_id e \<noteq> correlation_event_id" and ?own = "\<lambda>e. sv_device e = dev \<and> sv_id e = correlation_event_id"
  define v where "v = \<lparr>sv_id = correlation_event_id, sv_device = dev, sv_type = capacity_degraded, sv_source = [], sv_at = at,
    sv_payload = degraded_payload J n\<rparr>"
  define t where "t = put_event v (gd_events s)"
  have d: "gd_events ?d = trim_table (maxSecurityEventsPerDevice - 1) ?other sv_at t" "gd_cases ?d = gd_cases s"
    "retention_of dev ?d = Some (r\<lparr>rt_since := 0\<rparr>)"
    using assms(2) by (simp_all add: record_degraded_def Let_def reset_since_def update_retention_def retention_of_def find_upd t_def v_def)
  have vs: "sv_device v = dev" "sv_id v = correlation_event_id" by (simp_all add: v_def)
  have "cnt_where ?other t \<ge> maxSecurityEventsPerDevice - 1"
  proof -
    have "cnt_where ?other (upd_where (\<lambda>x. sv_device x = dev \<and> sv_id x = correlation_event_id) (\<lambda>_. v) u) = cnt_where ?other u" for u
      by (induction u) (auto simp: table_simps vs)
    with assms(1) show ?thesis by (simp add: t_def put_event_def vs table_simps)
  qed
  then have other: "cnt_where ?other (gd_events ?d) = maxSecurityEventsPerDevice - 1" by (simp add: d(1) cnt_trim)
  have "v \<in> set t"
    using in_upd_where [of _ "gd_events s" "\<lambda>x. sv_device x = dev \<and> sv_id x = correlation_event_id" "\<lambda>_. v"]
    by (auto simp: t_def put_event_def vs)
  then have "\<exists>x \<in> set t. ?own x" using vs by blast
  then have "cnt_where ?own t \<noteq> 0" unfolding cnt_where_0_iff by blast
  then have own: "cnt_where ?own (gd_events ?d) \<noteq> 0"
    unfolding d(1) by (subst cnt_trim_other) auto
  have parts: "cnt_where (\<lambda>e. sv_device e = dev) u = cnt_where ?other u + cnt_where ?own u" for u
    by (induction u) (auto simp: table_simps)
  from other own have full: "maxSecurityEventsPerDevice \<le> cnt_where (\<lambda>e. sv_device e = dev) (gd_events ?d)"
    unfolding parts by (simp add: maxSecurityEventsPerDevice_def)
  have "set (gd_events ?d) \<subseteq> set t" unfolding d(1) by (rule set_trim_subset)
  then have known: "sv_id ` set (gd_events ?d) \<subseteq> insert correlation_event_id (sv_id ` set (gd_events s))"
    by (auto simp: t_def put_event_def set_upd_where vs split: if_splits)
  have own_ids: "sv_id ` set (filter (\<lambda>x. sv_device x = dev) (gd_events ?d)) \<subseteq> sv_id ` set (gd_events ?d)" by auto
  have "sv_id ` set es \<inter> sv_id ` set (filter (\<lambda>x. sv_device x = dev) (gd_events ?d)) = {}"
    by (rule apart [OF known own_ids assms(6,7)])
  moreover have "rt_since (r\<lparr>rt_since := 0\<rparr>) + int (length es) < int securityEventRetentionBatch"
    by (simp add: assms(5) securityEventRetentionBatch_def)
  ultimately obtain s' where s': "take_in E I observer now es ?d = Inr s'"
    "cnt_where (\<lambda>e. sv_device e = dev) (gd_events s') = cnt_where (\<lambda>e. sv_device e = dev) (gd_events ?d) + length es"
    using logins_logged [OF assms(3,4) _ _ _ d(3), of E I observer now] assms(8,9) unfolding d(2) by blast
  have "maxSecurityEventsPerDevice + 127 \<le> cnt_where (\<lambda>e. sv_device e = dev) (gd_events s')"
    using full unfolding s'(2) assms(5) by (rule add_right_mono)
  with s'(1) show ?thesis by blast
qed

end
