(* ===== verification/Spec2Isabelle.thy ===== *)
theory Spec2Isabelle
  imports EngineProps PlanGuardProps PackageProps Runner OutboxProps CompletionProps HelperProps IPBanProps Scheduler Correlator AgentQueue ProcessesProps SshDemo PermissionDemo EnrollmentDemo SecurityDemo RiskDemo ScanDemo AuthLogDemo CaseFindings
begin

text \<open>
  Witshield: a Controller that administers devices through signed command results, an
  Agent on each device, and a privileged helper that runs typed remediation actions.
\<close>

end
